(* ===== verification/Prelude.thy ===== *)
theory Prelude
  imports Main "HOL-Library.Word" "HOL-Library.Char_ord" "HOL-Library.List_Lexorder" "HOL-Library.Multiset"
begin

text \<open>
  Shared vocabulary of the development: bytes and Go strings, the fixed-width and variable-width
  integer encodings of \<^verbatim>\<open>encoding/binary\<close>, the standard base64 and hex alphabets, decimal
  rendering, and the generic lemmas on lists, sums and options that the component theories use.
\<close>

named_theorems codec_simps "unfolding rules of the byte-level encoders and decoders"
named_theorems roundtrip "decode-after-encode laws"

type_synonym byte = "8 word"
type_synonym bytes = "byte list"

text \<open>
  A Go \<^verbatim>\<open>string\<close> is an immutable byte sequence.  It is modelled as HOL's \<^typ>\<open>string\<close>, whose
  characters are exactly the 256 byte values; the conversions \<^verbatim>\<open>[]byte(s)\<close> and \<^verbatim>\<open>string(b)\<close>
  are the two inverse maps below.
\<close>

definition byte_of_char :: "char \<Rightarrow> byte" where
  "byte_of_char c = word_of_nat (of_char c)"

definition char_of_byte :: "byte \<Rightarrow> char" where
  "char_of_byte b = char_of (unat b)"

definition to_bytes :: "string \<Rightarrow> bytes" where
  "to_bytes s = map byte_of_char s"

definition to_str :: "bytes \<Rightarrow> string" where
  "to_str b = map char_of_byte b"

lemma unat_byte_lt [simp]: "unat (b :: byte) < 256"
  using unsigned_less [of b] by simp

lemma char_of_byte_of_char [simp]: "char_of_byte (byte_of_char c) = c"
proof -
  have "(of_char c :: nat) < 256" by (rule nat_of_char_less_256)
  then have "unat (word_of_nat (of_char c) :: byte) = of_char c"
    by (simp add: unat_of_nat)
  then show ?thesis by (simp add: char_of_byte_def byte_of_char_def)
qed

lemma byte_of_char_of_byte [simp]: "byte_of_char (char_of_byte b) = b"
proof -
  have "(of_char (char_of (unat b)) :: nat) = unat b mod 256"
    by (simp add: of_char_of)
  then show ?thesis by (simp add: char_of_byte_def byte_of_char_def)
qed

lemma to_str_to_bytes [simp, roundtrip]: "to_str (to_bytes s) = s"
  by (simp add: to_str_def to_bytes_def comp_def)

lemma to_bytes_to_str [simp, roundtrip]: "to_bytes (to_str b) = b"
  by (simp add: to_str_def to_bytes_def comp_def)

lemma length_to_bytes [simp]: "length (to_bytes s) = length s"
  by (simp add: to_bytes_def)

lemma length_to_str [simp]: "length (to_str b) = length b"
  by (simp add: to_str_def)

lemma to_bytes_inject [simp]: "to_bytes s = to_bytes t \<longleftrightarrow> s = t"
  by (metis to_str_to_bytes)

lemma to_str_inject [simp]: "to_str b = to_str c \<longleftrightarrow> b = c"
  by (metis to_bytes_to_str)

lemma to_bytes_Nil_iff [simp]: "to_bytes s = [] \<longleftrightarrow> s = []"
  by (simp add: to_bytes_def)

lemma to_str_Nil_iff [simp]: "to_str b = [] \<longleftrightarrow> b = []"
  by (simp add: to_str_def)

lemma to_bytes_Nil [simp]: "to_bytes [] = []" and to_str_Nil [simp]: "to_str [] = []"
  by (simp_all add: to_bytes_def to_str_def)

lemma to_bytes_append [simp]: "to_bytes (s @ t) = to_bytes s @ to_bytes t"
  by (simp add: to_bytes_def)

lemma in_set_to_str: "c \<in> set (to_str b) \<longleftrightarrow> byte_of_char c \<in> set b"
  by (auto simp: to_str_def image_iff intro: bexI [of _ "byte_of_char c"])

subsection \<open>Big-endian integers (encoding/binary.BigEndian)\<close>

text \<open>
  \<open>be_put n v\<close> is the \<open>n\<close>-byte big-endian rendering of \<open>v\<close> modulo \<open>256 ^ n\<close>;
  \<open>be_get\<close> reads any byte list as a big-endian number.
\<close>

fun be_put :: "nat \<Rightarrow> nat \<Rightarrow> bytes" where
  "be_put 0 v = []"
| "be_put (Suc n) v = be_put n (v div 256) @ [word_of_nat v]"

definition be_get :: "bytes \<Rightarrow> nat" where
  "be_get bs = fold (\<lambda>b acc. acc * 256 + unat b) bs 0"

lemma length_be_put [simp]: "length (be_put n v) = n"
  by (induction n arbitrary: v) auto

lemma be_put_Nil_iff [simp]: "be_put n v = [] \<longleftrightarrow> n = 0"
  by (metis length_0_conv length_be_put)

lemma be_get_Nil [simp]: "be_get [] = 0"
  by (simp add: be_get_def)

lemma be_get_snoc [simp]: "be_get (bs @ [b]) = be_get bs * 256 + unat b"
  by (simp add: be_get_def)

lemma be_get_put: "be_get (be_put n v) = v mod 256 ^ n"
proof (induction n arbitrary: v)
  case 0
  then show ?case by simp
next
  case (Suc n)
  have "be_get (be_put (Suc n) v) = v div 256 mod 256 ^ n * 256 + v mod 256"
    by (simp add: Suc.IH unat_of_nat)
  also have "\<dots> = v mod (256 * 256 ^ n)"
    by (simp add: mod_mult2_eq mult.commute)
  finally show ?case by simp
qed

lemma be_get_lt: "be_get bs < 256 ^ length bs"
proof (induction bs rule: rev_induct)
  case Nil
  then show ?case by simp
next
  case (snoc b bs)
  have "unat b < 256" by simp
  moreover have "be_get bs * 256 + 256 \<le> 256 ^ length bs * 256"
    using snoc.IH by (metis Suc_leI add.commute mult_Suc mult_le_mono1)
  ultimately have "be_get bs * 256 + unat b < 256 ^ length bs * 256" by linarith
  then show ?case by (simp add: mult.commute)
qed

lemma be_put_get: "be_put (length bs) (be_get bs) = bs"
proof (induction bs rule: rev_induct)
  case Nil
  then show ?case by simp
next
  case (snoc b bs)
  have "(be_get bs * 256 + unat b) div 256 = be_get bs" by (simp add: div_add1_eq)
  moreover have "(word_of_nat (be_get bs * 256 + unat b) :: byte) = b"
    by (rule word_unat_eq_iff [THEN iffD2]) (simp only: unat_of_nat, simp)
  ultimately show ?case using snoc.IH by simp
qed

definition putU16 :: "16 word \<Rightarrow> bytes" where "putU16 v = be_put 2 (unat v)"
definition putU32 :: "32 word \<Rightarrow> bytes" where "putU32 v = be_put 4 (unat v)"
definition putU64 :: "64 word \<Rightarrow> bytes" where "putU64 v = be_put 8 (unat v)"
definition beU32 :: "bytes \<Rightarrow> 32 word" where "beU32 b = word_of_nat (be_get b)"
definition beU64 :: "bytes \<Rightarrow> 64 word" where "beU64 b = word_of_nat (be_get b)"


lemma length_putU16 [simp]: "length (putU16 v) = 2" by (simp add: putU16_def)
lemma length_putU32 [simp]: "length (putU32 v) = 4" by (simp add: putU32_def)
lemma length_putU64 [simp]: "length (putU64 v) = 8" by (simp add: putU64_def)

lemma beU32_putU32 [simp, roundtrip]: "beU32 (putU32 v) = v"
proof -
  have "unat v < 256 ^ 4" using unsigned_less [of v] by simp
  then show ?thesis by (simp add: beU32_def putU32_def be_get_put)
qed

lemma beU64_putU64 [simp, roundtrip]: "beU64 (putU64 v) = v"
proof -
  have "unat v < 256 ^ 8" using unsigned_less [of v] by simp
  then show ?thesis by (simp add: beU64_def putU64_def be_get_put)
qed

lemma putU32_beU32: "length b = 4 \<Longrightarrow> putU32 (beU32 b) = b"
  using be_get_lt [of b] be_put_get [of b] by (simp add: beU32_def putU32_def unat_of_nat)

lemma putU64_beU64: "length b = 8 \<Longrightarrow> putU64 (beU64 b) = b"
  using be_get_lt [of b] be_put_get [of b] by (simp add: beU64_def putU64_def unat_of_nat)

lemma putU32_inject [simp]: "putU32 u = putU32 v \<longleftrightarrow> u = v"
  by (metis beU32_putU32)

lemma putU64_inject [simp]: "putU64 u = putU64 v \<longleftrightarrow> u = v"
  by (metis beU64_putU64)

subsection \<open>Lists\<close>

lemma separator_unique:
  "c \<notin> set xs \<Longrightarrow> c \<notin> set ys \<Longrightarrow> xs @ c # as = ys @ c # bs \<longleftrightarrow> xs = ys \<and> as = bs"
  by (induction xs ys rule: list_induct2') auto

end
