(* ===== verification/Encodings.thy ===== *)
theory Encodings
  imports Prelude
begin

text \<open>
  The textual and variable-length encodings of the Go standard library that the program relies on:
  \<^verbatim>\<open>binary.AppendUvarint\<close> / \<^verbatim>\<open>binary.Uvarint\<close>, \<^verbatim>\<open>base64.StdEncoding\<close>, \<^verbatim>\<open>encoding/hex\<close> and the
  decimal rendering of \<^verbatim>\<open>%d\<close>, each with its round trip or its injectivity.
\<close>

subsection \<open>Unsigned varints\<close>

fun put_uvarint :: "nat \<Rightarrow> bytes" where
  "put_uvarint x =
     (if x < 128 then [word_of_nat x]
      else word_of_nat (x mod 128 + 128) # put_uvarint (x div 128))"

declare put_uvarint.simps [simp del]

text \<open>
  \<^verbatim>\<open>binary.Uvarint\<close> returns the value and the number of bytes read; 0 means the buffer was too
  short and a negative count means the value overflows 64 bits.
\<close>

fun uvarint_from :: "bytes \<Rightarrow> nat \<Rightarrow> nat \<Rightarrow> nat \<times> int" where
  "uvarint_from [] i x = (0, 0)"
| "uvarint_from (b # bs) i x =
     (if i = 10 then (0, - (int i + 1))
      else if unat b < 128 then
        (if i = 9 \<and> unat b > 1 then (0, - (int i + 1))
         else (x + unat b * 2 ^ (7 * i), int i + 1))
      else uvarint_from bs (Suc i) (x + (unat b - 128) * 2 ^ (7 * i)))"

definition uvarint :: "bytes \<Rightarrow> nat \<times> int" where
  "uvarint bs = uvarint_from bs 0 0"

lemma put_uvarint_not_Nil [simp]: "put_uvarint x \<noteq> []"
  by (subst put_uvarint.simps) simp

lemma uvarint_shift_bound:
  assumes "0 < x" and "x * 2 ^ (7 * i) < (2::nat) ^ 64"
  shows "i \<le> 9 \<and> (i = 9 \<longrightarrow> x \<le> 1)"
proof -
  have "(2::nat) ^ (7 * i) \<le> x * 2 ^ (7 * i)" using assms(1) by simp
  then have "(2::nat) ^ (7 * i) < 2 ^ 64" using assms(2) by (rule le_less_trans)
  then have i: "7 * i < 64" by (rule power_less_imp_less_exp [rotated]) simp
  have "x \<le> 1" if "i = 9"
  proof -
    have "x * 2 ^ 63 < (2::nat) * 2 ^ 63" using assms(2) that by simp
    then show ?thesis by simp
  qed
  then show ?thesis using i by auto
qed

lemma uvarint_from_put:
  assumes "i = 0 \<or> 0 < x" and "x * 2 ^ (7 * i) < 2 ^ 64"
  shows "uvarint_from (put_uvarint x @ rest) i acc =
           (acc + x * 2 ^ (7 * i), int i + int (length (put_uvarint x)))"
  using assms
proof (induction x arbitrary: i acc rule: put_uvarint.induct)
  case (1 x)
  have bound: "i \<le> 9 \<and> (i = 9 \<longrightarrow> x \<le> 1)"
  proof (cases "i = 0")
    case False
    then show ?thesis using "1.prems" uvarint_shift_bound [of x i] by simp
  qed simp
  show ?case
  proof (cases "x < 128")
    case True
    then show ?thesis using bound by (auto simp: put_uvarint.simps [of x] unat_of_nat)
  next
    case False
    have split: "x = x div 128 * 128 + x mod 128" by simp
    have pw: "(2::nat) ^ (7 * Suc i) = 128 * 2 ^ (7 * i)"
      by (simp add: power_add)
    have lt: "x div 128 * 2 ^ (7 * Suc i) < 2 ^ 64"
    proof -
      have "x div 128 * 2 ^ (7 * Suc i) = (x div 128 * 128) * 2 ^ (7 * i)"
        by (simp only: pw mult.assoc)
      also have "\<dots> \<le> x * 2 ^ (7 * i)" by (rule mult_le_mono1) simp
      finally show ?thesis using "1.prems"(2) by linarith
    qed
    have "0 < x div 128" using False by (simp add: div_greater_zero_iff)
    then have IH: "uvarint_from (put_uvarint (x div 128) @ rest) (Suc i) acc' =
        (acc' + x div 128 * 2 ^ (7 * Suc i), int (Suc i) + int (length (put_uvarint (x div 128))))"
      for acc' using "1.IH" [OF False, of "Suc i"] lt by blast
    have u: "unat (word_of_nat (x mod 128 + 128) :: byte) = x mod 128 + 128"
      by (simp only: unat_of_nat) simp
    have "acc + x mod 128 * 2 ^ (7 * i) + x div 128 * 2 ^ (7 * Suc i) = acc + x * 2 ^ (7 * i)"
    proof -
      have "x * 2 ^ (7 * i) = (x div 128 * 128 + x mod 128) * 2 ^ (7 * i)" using split by simp
      then show ?thesis unfolding pw by (simp only: algebra_simps)
    qed
    then show ?thesis using False bound u
      by (simp add: put_uvarint.simps [of x] IH)
  qed
qed

lemma uvarint_put [roundtrip]:
  "x < 2 ^ 64 \<Longrightarrow> uvarint (put_uvarint x @ rest) = (x, int (length (put_uvarint x)))"
  using uvarint_from_put [of 0 x rest 0] by (simp add: uvarint_def)

subsection \<open>Standard base64\<close>

definition b64_alphabet :: string where
  "b64_alphabet = ''ABCDEFGHIJKLMNOPQRSTUVWXYZabcdefghijklmnopqrstuvwxyz0123456789+/''"

definition b64_char :: "nat \<Rightarrow> char" where
  "b64_char n = b64_alphabet ! n"

text \<open>The decode table, built from the alphabet the way the library builds \<^verbatim>\<open>decodeMap\<close>.\<close>

definition b64_val :: "char \<Rightarrow> nat option" where
  "b64_val c = map_of (zip b64_alphabet [0..<64]) c"

fun b64_encode :: "bytes \<Rightarrow> string" where
  "b64_encode [] = []"
| "b64_encode [a] =
     [b64_char (unat a div 4), b64_char (unat a mod 4 * 16), CHR ''='', CHR ''='']"
| "b64_encode [a, b] =
     [b64_char (unat a div 4), b64_char (unat a mod 4 * 16 + unat b div 16),
      b64_char (unat b mod 16 * 4), CHR ''='']"
| "b64_encode (a # b # c # rest) =
     b64_char (unat a div 4) # b64_char (unat a mod 4 * 16 + unat b div 16) #
     b64_char (unat b mod 16 * 4 + unat c div 64) # b64_char (unat c mod 64) # b64_encode rest"

text \<open>
  The decoder skips CR and LF anywhere, wants whole quanta, allows padding in the last quantum only,
  and (the encoding is not strict) ignores the unused low bits of a padded quantum.
\<close>

fun b64_quanta :: "string \<Rightarrow> bytes option" where
  "b64_quanta [] = Some []"
| "b64_quanta (a # b # c # d # rest) =
     (case (b64_val a, b64_val b) of
        (Some x, Some y) \<Rightarrow>
          (if c = CHR ''='' then
             (if d = CHR ''='' \<and> rest = [] then Some [word_of_nat (x * 4 + y div 16)] else None)
           else case b64_val c of
              None \<Rightarrow> None
            | Some z \<Rightarrow>
                (if d = CHR ''='' then
                   (if rest = [] then
                      Some [word_of_nat (x * 4 + y div 16), word_of_nat (y mod 16 * 16 + z div 4)]
                    else None)
                 else case b64_val d of
                    None \<Rightarrow> None
                  | Some w \<Rightarrow>
                      (case b64_quanta rest of
                         None \<Rightarrow> None
                       | Some bs \<Rightarrow>
                           Some (word_of_nat (x * 4 + y div 16) #
                                 word_of_nat (y mod 16 * 16 + z div 4) #
                                 word_of_nat (z mod 4 * 64 + w) # bs))))
      | _ \<Rightarrow> None)"
| "b64_quanta _ = None"

definition b64_decode :: "string \<Rightarrow> bytes option" where
  "b64_decode s = b64_quanta (filter (\<lambda>c. c \<noteq> CHR 0x0A \<and> c \<noteq> CHR 0x0D) s)"

lemma b64_alphabet_length [simp]: "length b64_alphabet = 64"
  by (simp add: b64_alphabet_def)

lemma b64_alphabet_distinct: "distinct b64_alphabet"
  by (simp add: b64_alphabet_def)

lemma b64_val_char [simp]: "n < 64 \<Longrightarrow> b64_val (b64_char n) = Some n"
proof -
  assume n: "n < 64"
  have "map_of (zip b64_alphabet [0..<64]) (b64_alphabet ! n) = Some ([0..<64] ! n)"
    by (rule map_of_zip_nth) (use n b64_alphabet_distinct in simp_all)
  then show ?thesis using n by (simp add: b64_val_def b64_char_def)
qed

lemma b64_char_plain:
  assumes "n < 64"
  shows "b64_char n \<noteq> CHR ''=''" "b64_char n \<noteq> CHR '':''"
        "b64_char n \<noteq> CHR 0x0A" "b64_char n \<noteq> CHR 0x0D"
proof -
  have "set b64_alphabet \<inter> {CHR ''='', CHR '':'', CHR 0x0A, CHR 0x0D} = {}"
    by (simp add: b64_alphabet_def)
  moreover have "b64_char n \<in> set b64_alphabet"
    using assms by (simp add: b64_char_def)
  ultimately show "b64_char n \<noteq> CHR ''=''" "b64_char n \<noteq> CHR '':''"
        "b64_char n \<noteq> CHR 0x0A" "b64_char n \<noteq> CHR 0x0D"
    by auto
qed

lemma byte_recombine:
  "word_of_nat (unat (a :: byte)) = a" "(word_of_nat (k * 256 + unat a) :: byte) = a"
  by (simp_all add: word_unat_eq_iff unat_of_nat del: of_nat_add of_nat_mult)



lemma b64_bounds [simp]:
  "unat (a :: byte) div 4 < 64" "unat (a :: byte) mod 4 * 16 < 64" "unat (b :: byte) mod 16 * 4 < 64"
  "unat (a :: byte) mod 4 * 16 + unat (b :: byte) div 16 < 64"
  "unat (b :: byte) mod 16 * 4 + unat (c :: byte) div 64 < 64"
proof -
  have "unat a < 256" "unat b < 256" "unat c < 256" by simp_all
  then have "unat a div 4 < 64" "unat b div 16 < 16" "unat c div 64 < 4"
    by (simp_all add: less_mult_imp_div_less)
  moreover have "unat a mod 4 < 4" "unat b mod 16 < 16" by simp_all
  ultimately show "unat a div 4 < 64" "unat a mod 4 * 16 < 64" "unat b mod 16 * 4 < 64"
    "unat a mod 4 * 16 + unat b div 16 < 64" "unat b mod 16 * 4 + unat c div 64 < 64"
    by linarith+
qed

lemma byte_nibble_bounds [simp]: "unat (b :: byte) div 16 < 16" "unat (c :: byte) div 64 < 4"
  using unat_byte_lt [of b] unat_byte_lt [of c] by (simp_all add: less_mult_imp_div_less)

lemma b64_quanta_encode: "b64_quanta (b64_encode bs) = Some bs"
proof (induction bs rule: b64_encode.induct)
  case (2 a)
  show ?case by (simp del: of_nat_add of_nat_mult)
next
  case (3 a b)
  show ?case by (simp add: b64_char_plain del: of_nat_add of_nat_mult)
next
  case (4 a b c rest)
  then show ?case by (simp add: b64_char_plain del: of_nat_add of_nat_mult)
qed simp

lemma b64_encode_plain: "c \<in> set (b64_encode bs) \<Longrightarrow> c \<noteq> CHR 0x0A \<and> c \<noteq> CHR 0x0D \<and> c \<noteq> CHR '':''"
  by (induction bs rule: b64_encode.induct) (auto simp: b64_char_plain)

theorem b64_decode_encode [simp, roundtrip]: "b64_decode (b64_encode bs) = Some bs"
proof -
  have "filter (\<lambda>c. c \<noteq> CHR 0x0A \<and> c \<noteq> CHR 0x0D) (b64_encode bs) = b64_encode bs"
    using b64_encode_plain by (fastforce intro: filter_True)
  then show ?thesis by (simp add: b64_decode_def b64_quanta_encode)
qed

lemma b64_encode_inject [simp]: "b64_encode a = b64_encode b \<longleftrightarrow> a = b"
  by (metis b64_decode_encode option.inject)

subsection \<open>Hexadecimal\<close>

definition hex_digits :: string where
  "hex_digits = ''0123456789abcdef''"

definition hex_char :: "nat \<Rightarrow> char" where
  "hex_char n = hex_digits ! n"

text \<open>Decoding accepts both letter cases.\<close>

definition hex_val :: "char \<Rightarrow> nat option" where
  "hex_val c = map_of (zip ''0123456789abcdefABCDEF'' ([0..<16] @ [10..<16])) c"

definition hex_encode :: "bytes \<Rightarrow> string" where
  "hex_encode bs = concat (map (\<lambda>b. [hex_char (unat b div 16), hex_char (unat b mod 16)]) bs)"

fun hex_decode :: "string \<Rightarrow> bytes option" where
  "hex_decode [] = Some []"
| "hex_decode (a # b # rest) =
     (case (hex_val a, hex_val b) of
        (Some x, Some y) \<Rightarrow> map_option (\<lambda>bs. word_of_nat (x * 16 + y) # bs) (hex_decode rest)
      | _ \<Rightarrow> None)"
| "hex_decode _ = None"

lemma hex_val_char [simp]: "n < 16 \<Longrightarrow> hex_val (hex_char n) = Some n"
proof -
  assume "n < 16"
  moreover have "\<forall>n \<in> set [0..<16]. hex_val (hex_char n) = Some n"
    by (simp add: upt_rec hex_val_def hex_char_def hex_digits_def)
  ultimately show ?thesis by simp
qed

theorem hex_decode_encode [simp, roundtrip]: "hex_decode (hex_encode bs) = Some bs"
proof (induction bs)
  case (Cons b bs)
  have "unat b div 16 < 16" using unat_byte_lt [of b] by (simp add: less_mult_imp_div_less)
  then show ?case using Cons by (simp add: hex_encode_def del: of_nat_add of_nat_mult)
qed (simp add: hex_encode_def)

lemma hex_encode_inject [simp]: "hex_encode a = hex_encode b \<longleftrightarrow> a = b"
  by (metis hex_decode_encode option.inject)

lemma length_hex_encode [simp]: "length (hex_encode bs) = 2 * length bs"
  by (induction bs) (simp_all add: hex_encode_def)

subsection \<open>Decimal rendering of integers\<close>

definition dec_digit :: "nat \<Rightarrow> char" where
  "dec_digit n = char_of (48 + n)"

fun dec_nat :: "nat \<Rightarrow> string" where
  "dec_nat n = (if n < 10 then [dec_digit n] else dec_nat (n div 10) @ [dec_digit (n mod 10)])"

declare dec_nat.simps [simp del]

definition dec_int :: "int \<Rightarrow> string" where
  "dec_int i = (if i < 0 then CHR ''-'' # dec_nat (nat (- i)) else dec_nat (nat i))"

definition dec_read :: "string \<Rightarrow> nat" where
  "dec_read s = fold (\<lambda>c acc. acc * 10 + (of_char c - 48)) s 0"

lemma of_char_dec_digit: "n < 10 \<Longrightarrow> (of_char (dec_digit n) :: nat) = 48 + n"
  by (simp add: dec_digit_def of_char_of)

lemma dec_read_nat: "dec_read (dec_nat n) = n"
proof (induction n rule: dec_nat.induct)
  case (1 n)
  show ?case
  proof (cases "n < 10")
    case True
    then show ?thesis by (simp add: dec_nat.simps [of n] dec_read_def of_char_dec_digit)
  next
    case False
    then have "dec_read (dec_nat n) = dec_read (dec_nat (n div 10)) * 10 + n mod 10"
      by (simp add: dec_nat.simps [of n] dec_read_def of_char_dec_digit)
    then show ?thesis using "1.IH" [OF False] by simp
  qed
qed

lemma dec_nat_inject [simp]: "dec_nat m = dec_nat n \<longleftrightarrow> m = n"
  by (metis dec_read_nat)

lemma dec_nat_chars: "c \<in> set (dec_nat n) \<Longrightarrow> (48::nat) \<le> of_char c \<and> (of_char c :: nat) \<le> 57"
proof (induction n rule: dec_nat.induct)
  case (1 n)
  show ?case
  proof (cases "n < 10")
    case True
    then show ?thesis using "1.prems" by (auto simp: dec_nat.simps [of n] of_char_dec_digit)
  next
    case False
    then have "c \<in> set (dec_nat (n div 10)) \<or> c = dec_digit (n mod 10)"
      using "1.prems" by (auto simp: dec_nat.simps [of n])
    then show ?thesis using "1.IH" [OF False] by (auto simp: of_char_dec_digit)
  qed
qed

lemma dec_nat_not_minus: "CHR ''-'' \<notin> set (dec_nat n)"
  using dec_nat_chars [of "CHR ''-''" n] by auto

lemma dec_nat_not_Nil [simp]: "dec_nat n \<noteq> []"
  by (subst dec_nat.simps) simp

lemma dec_int_inject [simp]: "dec_int i = dec_int j \<longleftrightarrow> i = j"
proof -
  have ne: "CHR ''-'' # dec_nat m \<noteq> dec_nat n" for m n
    using dec_nat_not_minus [of n] by (metis list.set_intros(1))
  show ?thesis
    using ne [of "nat (- i)" "nat j"] ne [of "nat (- j)" "nat i"]
    by (auto simp: dec_int_def split: if_splits)
qed

end
