(* ===== verification/Prims.thy ===== *)
theory Prims
  imports Encodings
begin

text \<open>
  Code the program calls but does not contain: hashes, HKDF, X25519, XChaCha20-Poly1305, the
  signature schemes, Kyber768, base58 and the nanopack serializer.  They are fields of one record
  that every definition using them takes as an argument; what the program relies on is stated as
  named predicates over that record, which the theorems take as hypotheses.
\<close>

text \<open>One nanopack field: its one-byte ID and its data (\<^verbatim>\<open>nanopack.FieldID\<close>).\<close>

type_synonym npfield = "byte \<times> bytes"

record prims =
  p_sha256 :: "bytes \<Rightarrow> bytes"
  p_sha3_256 :: "bytes \<Rightarrow> bytes"
  p_sha3_512 :: "bytes \<Rightarrow> bytes"
  p_hmac :: "bytes \<Rightarrow> bytes \<Rightarrow> bytes"                     \<comment> \<open>HMAC-SHA3-256: key, message\<close>
  p_hkdf :: "bytes \<Rightarrow> bytes \<Rightarrow> bytes \<Rightarrow> nat \<Rightarrow> bytes"     \<comment> \<open>secret, salt, info, bytes read\<close>
  p_hkdf_expand :: "bytes \<Rightarrow> bytes \<Rightarrow> nat \<Rightarrow> bytes"        \<comment> \<open>pseudorandom key, info, bytes read\<close>
  p_x25519 :: "bytes \<Rightarrow> bytes \<Rightarrow> bytes option"            \<comment> \<open>scalar, point\<close>
  p_basemult :: "bytes \<Rightarrow> bytes"
  p_seal :: "bytes \<Rightarrow> bytes \<Rightarrow> bytes \<Rightarrow> bytes \<Rightarrow> bytes"    \<comment> \<open>key, nonce, plaintext, additional data\<close>
  p_open :: "bytes \<Rightarrow> bytes \<Rightarrow> bytes \<Rightarrow> bytes \<Rightarrow> bytes option"
  p_ed_pub :: "bytes \<Rightarrow> bytes"                            \<comment> \<open>public key of a private key\<close>
  p_ed_sign :: "bytes \<Rightarrow> bytes \<Rightarrow> bytes"
  p_ed_verify :: "bytes \<Rightarrow> bytes \<Rightarrow> bytes \<Rightarrow> bool"         \<comment> \<open>public key, message, signature\<close>
  p_dil_keygen :: "bytes \<Rightarrow> bytes \<times> bytes"               \<comment> \<open>coins to (private, public)\<close>
  p_dil_sign :: "bytes \<Rightarrow> bytes \<Rightarrow> bytes option"          \<comment> \<open>None: the private key does not unmarshal\<close>
  p_dil_verify :: "bytes \<Rightarrow> bytes \<Rightarrow> bytes \<Rightarrow> bool option" \<comment> \<open>None: the public key does not unmarshal\<close>
  p_ky_keygen :: "bytes \<Rightarrow> (bytes \<times> bytes) option"       \<comment> \<open>coins to (public, private)\<close>
  p_ky_encaps :: "bytes \<Rightarrow> bytes \<Rightarrow> (bytes \<times> bytes) option" \<comment> \<open>public key, coins to (ciphertext, secret)\<close>
  p_ky_pub_ok :: "bytes \<Rightarrow> bool"                          \<comment> \<open>the public key unmarshals\<close>
  p_ky_priv_ok :: "bytes \<Rightarrow> bool"
  p_ky_decaps :: "bytes \<Rightarrow> bytes \<Rightarrow> bytes option"
  p_b58enc :: "bytes \<Rightarrow> string"
  p_b58dec :: "string \<Rightarrow> bytes option"
  p_np_enc :: "npfield list \<Rightarrow> bytes option"
  p_np_dec :: "bytes \<Rightarrow> npfield list option"

subsection \<open>What the program relies on\<close>

text \<open>Diffie-Hellman: both sides compute the same value (or both fail).\<close>

definition dh_law :: "prims \<Rightarrow> bool" where
  "dh_law P \<longleftrightarrow> (\<forall>a b. p_x25519 P a (p_basemult P b) = p_x25519 P b (p_basemult P a))"

text \<open>HKDF delivers as many bytes as are read, up to its limit of 255 hash lengths.\<close>

definition hkdf_law :: "prims \<Rightarrow> bool" where
  "hkdf_law P \<longleftrightarrow> (\<forall>s salt info n. n \<le> 8160 \<longrightarrow> length (p_hkdf P s salt info n) = n)"

text \<open>AEAD: opening what was sealed under the same key, nonce and additional data gives it back.\<close>

definition aead_law :: "prims \<Rightarrow> bool" where
  "aead_law P \<longleftrightarrow>
     (\<forall>k n pt ad. length k = 32 \<longrightarrow> p_open P k n (p_seal P k n pt ad) ad = Some pt)"

text \<open>
  nanopack: a message of at most 11 fields (the widest schema the program defines) encodes, its
  first byte is the field count, and decoding gives the fields back in order.
\<close>

definition np_law :: "prims \<Rightarrow> bool" where
  "np_law P \<longleftrightarrow>
     (\<forall>fs. length fs \<le> 11 \<longrightarrow>
        (\<exists>b. p_np_enc P fs = Some b \<and> p_np_dec P b = Some fs \<and>
             b \<noteq> [] \<and> hd b = word_of_nat (length fs)))"

definition b58_law :: "prims \<Rightarrow> bool" where
  "b58_law P \<longleftrightarrow> (\<forall>b. p_b58dec P (p_b58enc P b) = Some b)"

text \<open>Signatures verify under the matching public key.\<close>

definition sig_law :: "prims \<Rightarrow> bool" where
  "sig_law P \<longleftrightarrow>
     (\<forall>k m. length (p_ed_pub P k) = 32 \<and> p_ed_verify P (p_ed_pub P k) m (p_ed_sign P k m)) \<and>
     (\<forall>c m. \<exists>s. p_dil_sign P (fst (p_dil_keygen P c)) m = Some s \<and>
                p_dil_verify P (snd (p_dil_keygen P c)) m s = Some True)"

text \<open>Kyber: decapsulation recovers the encapsulated secret; ciphertexts are not empty.\<close>

definition kem_law :: "prims \<Rightarrow> bool" where
  "kem_law P \<longleftrightarrow>
     (\<forall>c pk sk r. p_ky_keygen P c = Some (pk, sk) \<longrightarrow>
        p_ky_pub_ok P pk \<and> p_ky_priv_ok P sk \<and>
        (\<exists>ct ss. p_ky_encaps P pk r = Some (ct, ss) \<and> ct \<noteq> [] \<and> p_ky_decaps P sk ct = Some ss))"

subsection \<open>Records over nanopack\<close>

text \<open>Errors of the serializer: the encoder, the decoder, and \<^verbatim>\<open>ErrShortBody\<close> of the generated code.\<close>

datatype np_error = NpEncode | NpDecode | ErrShortBody

text \<open>A \<^verbatim>\<open>for _, f := range fields\<close> loop whose body may return an error.\<close>

fun fold_fields :: "('f \<Rightarrow> 'a \<Rightarrow> 'e + 'a) \<Rightarrow> 'f list \<Rightarrow> 'a \<Rightarrow> 'e + 'a" where
  "fold_fields step [] m = Inr m"
| "fold_fields step (f # fs) m =
     (case step f m of Inl e \<Rightarrow> Inl e | Inr m' \<Rightarrow> fold_fields step fs m')"

lemma fold_fields_append:
  "fold_fields step (xs @ ys) m =
     (case fold_fields step xs m of Inl e \<Rightarrow> Inl e | Inr m' \<Rightarrow> fold_fields step ys m')"
  by (induction xs arbitrary: m) (auto split: sum.splits)

text \<open>\<^verbatim>\<open>nanopack.MarshalFastID\<close> and \<^verbatim>\<open>nanopack.UnmarshalFastID\<close> over a type's generated methods.\<close>

definition MarshalFastID :: "prims \<Rightarrow> ('a \<Rightarrow> npfield list) \<Rightarrow> 'a \<Rightarrow> np_error + bytes" where
  "MarshalFastID P marshal x = (case p_np_enc P (marshal x) of None \<Rightarrow> Inl NpEncode | Some b \<Rightarrow> Inr b)"

definition UnmarshalFastID ::
  "prims \<Rightarrow> (npfield list \<Rightarrow> np_error + 'a) \<Rightarrow> bytes \<Rightarrow> np_error + 'a" where
  "UnmarshalFastID P unmarshal b =
     (case p_np_dec P b of None \<Rightarrow> Inl NpDecode | Some fs \<Rightarrow> unmarshal fs)"

lemma np_enc_dec:
  assumes "np_law P" and "length fs \<le> 11"
  obtains b where "p_np_enc P fs = Some b" "p_np_dec P b = Some fs" "b \<noteq> []"
    "hd b = word_of_nat (length fs)"
  using assms by (auto simp: np_law_def)

lemma np_dec_enc: "np_law P \<Longrightarrow> length fs \<le> 11 \<Longrightarrow> p_np_enc P fs = Some b \<Longrightarrow> p_np_dec P b = Some fs"
  by (metis np_enc_dec option.inject)

text \<open>
  The contract every nanopack-tagged struct of the program satisfies: unmarshalling the fields that
  marshalling produced restores the value, for the values in \<open>ok\<close>.
\<close>

locale bin_codec =
  fixes marshal :: "'a \<Rightarrow> npfield list"
    and unmarshal :: "npfield list \<Rightarrow> np_error + 'a"
    and ok :: "'a \<Rightarrow> bool"
  assumes unmarshal_marshal: "ok x \<Longrightarrow> unmarshal (marshal x) = Inr x"
    and few_fields: "length (marshal x) \<le> 11"
begin

lemma marshal_inject: "ok x \<Longrightarrow> ok y \<Longrightarrow> marshal x = marshal y \<longleftrightarrow> x = y"
  by (metis unmarshal_marshal sum.inject(2))

lemma fast_roundtrip:
  assumes "np_law P" and "ok x"
  obtains b where "MarshalFastID P marshal x = Inr b" and "UnmarshalFastID P unmarshal b = Inr x"
    and "b \<noteq> []" and "hd b = word_of_nat (length (marshal x))"
proof -
  obtain b where b: "p_np_enc P (marshal x) = Some b" "p_np_dec P b = Some (marshal x)"
    "b \<noteq> []" "hd b = word_of_nat (length (marshal x))"
    by (rule np_enc_dec [OF assms(1) few_fields])
  have "MarshalFastID P marshal x = Inr b" by (simp add: MarshalFastID_def b)
  moreover have "UnmarshalFastID P unmarshal b = Inr x"
    by (simp add: UnmarshalFastID_def b unmarshal_marshal assms(2))
  ultimately show thesis using b(3,4) that by blast
qed

lemma fast_unmarshal:
  "np_law P \<Longrightarrow> ok x \<Longrightarrow> MarshalFastID P marshal x = Inr b \<Longrightarrow> UnmarshalFastID P unmarshal b = Inr x"
  by (metis fast_roundtrip sum.inject(2))

lemma fast_marshal_total: "np_law P \<Longrightarrow> \<exists>b. MarshalFastID P marshal x = Inr b"
  using few_fields [of x] by (auto simp: np_law_def MarshalFastID_def dest!: spec [of _ "marshal x"])

lemma fast_first_byte:
  "np_law P \<Longrightarrow> MarshalFastID P marshal x = Inr b \<Longrightarrow> b \<noteq> [] \<and> hd b = word_of_nat (length (marshal x))"
  using np_enc_dec [OF _ few_fields, of P x] by (auto simp: MarshalFastID_def split: option.splits)

end

end
