(* ===== verification/Texts.thy ===== *)
theory Texts
  imports Encodings
begin

text \<open>
  The string functions of the Go standard library that the program uses: \<^verbatim>\<open>strings.Split\<close> and
  \<^verbatim>\<open>strings.Join\<close> with a one-byte separator, \<^verbatim>\<open>TrimSpace\<close>, ASCII lower case, prefixes, and the
  conversion \<^verbatim>\<open>[]rune(s)\<close>, on byte strings.
\<close>

subsection \<open>Split and join\<close>

fun split_on :: "'a \<Rightarrow> 'a list \<Rightarrow> 'a list list" where
  "split_on c [] = [[]]"
| "split_on c (x # xs) =
     (if x = c then [] # split_on c xs
      else case split_on c xs of [] \<Rightarrow> [[x]] | w # ws \<Rightarrow> (x # w) # ws)"

fun join_with :: "'a \<Rightarrow> 'a list list \<Rightarrow> 'a list" where
  "join_with c [] = []"
| "join_with c [w] = w"
| "join_with c (w # v # ws) = w @ c # join_with c (v # ws)"

lemma split_on_not_Nil [simp]: "split_on c xs \<noteq> []"
  by (cases xs) (auto split: list.splits)

lemma split_on_word: "c \<notin> set w \<Longrightarrow> split_on c w = [w]"
  by (induction w) auto

lemma split_on_Cons_word: "c \<notin> set w \<Longrightarrow> split_on c (w @ c # xs) = w # split_on c xs"
  by (induction w) auto

lemma split_join: "ws \<noteq> [] \<Longrightarrow> \<forall>w\<in>set ws. c \<notin> set w \<Longrightarrow> split_on c (join_with c ws) = ws"
  by (induction c ws rule: join_with.induct) (auto simp: split_on_word split_on_Cons_word)

lemma join_split: "join_with c (split_on c xs) = xs"
proof (induction xs)
  case (Cons x xs)
  obtain w ws where w: "split_on c xs = w # ws" by (cases "split_on c xs") auto
  then show ?case using Cons by (cases ws) auto
qed simp

lemma split_on_words: "w \<in> set (split_on c xs) \<Longrightarrow> c \<notin> set w"
  by (induction xs arbitrary: w) (auto split: if_splits list.splits)

subsection \<open>TrimSpace\<close>

text \<open>
  The UTF-8 encodings of the characters \<^verbatim>\<open>unicode.IsSpace\<close> accepts.  No encoding is a prefix or a suffix
  of another, so trimming characters is trimming these byte sequences.
\<close>

definition space_seqs :: "bytes list" where
  "space_seqs =
     [[0x09], [0x0A], [0x0B], [0x0C], [0x0D], [0x20], [0xC2, 0x85], [0xC2, 0xA0], [0xE1, 0x9A, 0x80],
      [0xE2, 0x80, 0x80], [0xE2, 0x80, 0x81], [0xE2, 0x80, 0x82], [0xE2, 0x80, 0x83], [0xE2, 0x80, 0x84],
      [0xE2, 0x80, 0x85], [0xE2, 0x80, 0x86], [0xE2, 0x80, 0x87], [0xE2, 0x80, 0x88], [0xE2, 0x80, 0x89],
      [0xE2, 0x80, 0x8A], [0xE2, 0x80, 0xA8], [0xE2, 0x80, 0xA9], [0xE2, 0x80, 0xAF], [0xE2, 0x81, 0x9F],
      [0xE3, 0x80, 0x80]]"

definition leading :: "'a list list \<Rightarrow> 'a list \<Rightarrow> 'a list option" where
  "leading seqs b = List.find (\<lambda>s. s \<noteq> [] \<and> take (length s) b = s) seqs"

lemma leading_Some: "leading seqs b = Some s \<Longrightarrow> s \<in> set seqs \<and> s \<noteq> [] \<and> take (length s) b = s"
  by (induction seqs) (auto simp: leading_def split: if_splits)

function trim_left :: "'a list list \<Rightarrow> 'a list \<Rightarrow> 'a list" where
  "trim_left seqs b = (case leading seqs b of None \<Rightarrow> b | Some s \<Rightarrow> trim_left seqs (drop (length s) b))"
  by pat_completeness auto
termination
proof (relation "measure (\<lambda>(seqs, b). length b)", goal_cases)
  case (2 seqs b s)
  then have "s \<noteq> []" "take (length s) b = s" using leading_Some by blast+
  then have "b \<noteq> []" by auto
  then show ?case using \<open>s \<noteq> []\<close> by auto
qed simp

declare trim_left.simps [simp del]

definition trim_space :: "bytes \<Rightarrow> bytes" where
  "trim_space b = rev (trim_left (map rev space_seqs) (rev (trim_left space_seqs b)))"

definition TrimSpace :: "string \<Rightarrow> string" where
  "TrimSpace s = to_str (trim_space (to_bytes s))"

text \<open>Bytes no white space starts or ends with.\<close>

definition plain_byte :: "byte \<Rightarrow> bool" where
  "plain_byte b \<longleftrightarrow> 0x20 < b \<and> b < 0x80"

lemma leading_plain: "b = [] \<or> hd b \<notin> hd ` set seqs \<Longrightarrow> leading seqs b = None"
  by (cases b) (auto simp: leading_def find_None_iff take_Cons' neq_Nil_conv image_iff split: if_splits)

lemma trim_left_plain: "b = [] \<or> hd b \<notin> hd ` set seqs \<Longrightarrow> trim_left seqs b = b"
  by (simp add: trim_left.simps leading_plain)

lemma plain_not_space: "plain_byte b \<Longrightarrow> b \<notin> hd ` set space_seqs"
  "plain_byte b \<Longrightarrow> b \<notin> hd ` set (map rev space_seqs)"
  by (auto simp: plain_byte_def space_seqs_def)

lemma trim_space_plain:
  assumes "b = [] \<or> plain_byte (hd b) \<and> plain_byte (last b)"
  shows "trim_space b = b"
proof -
  have l: "trim_left space_seqs b = b"
    by (rule trim_left_plain) (use assms plain_not_space(1) in blast)
  have "trim_left (map rev space_seqs) (rev b) = rev b"
    by (rule trim_left_plain) (use assms plain_not_space(2) in \<open>auto simp: hd_rev simp del: set_map\<close>)
  then show ?thesis by (simp add: trim_space_def l)
qed

text \<open>An ASCII space before the end is cut off.\<close>

lemma trim_left_space: "s \<in> set seqs \<Longrightarrow> s = [x] \<Longrightarrow> (\<forall>t\<in>set seqs. hd t = x \<longrightarrow> t = s) \<Longrightarrow> trim_left seqs (x # b) = trim_left seqs b"
proof -
  assume a: "s \<in> set seqs" "s = [x]" "\<forall>t\<in>set seqs. hd t = x \<longrightarrow> t = s"
  have "leading seqs (x # b) = Some [x]"
  proof (cases "leading seqs (x # b)")
    case None
    then show ?thesis using a(1,2) by (auto simp: leading_def find_None_iff)
  next
    case (Some t)
    then have "t \<in> set seqs" "hd t = x" using leading_Some [OF Some] by (auto simp: neq_Nil_conv)
    then show ?thesis using Some a by auto
  qed
  then show ?thesis by (subst trim_left.simps) simp
qed

subsection \<open>Lower case and prefixes\<close>

text \<open>\<^verbatim>\<open>strings.ToLower\<close> on ASCII text.\<close>

definition lower_char :: "char \<Rightarrow> char" where
  "lower_char c = (let n = of_char c :: nat in if 65 \<le> n \<and> n \<le> 90 then char_of (n + 32) else c)"

definition ToLower :: "string \<Rightarrow> string" where
  "ToLower s = map lower_char s"

definition HasPrefix :: "string \<Rightarrow> string \<Rightarrow> bool" where
  "HasPrefix s p \<longleftrightarrow> take (length p) s = p"

lemma HasPrefix_append [simp]: "HasPrefix (p @ s) p"
  by (simp add: HasPrefix_def)

lemma HasPrefix_iff: "HasPrefix s p \<longleftrightarrow> (\<exists>t. s = p @ t)"
  by (metis HasPrefix_def append_eq_conv_conj append_take_drop_id)

lemma ToLower_Nil [simp]: "ToLower [] = []"
  by (simp add: ToLower_def)

lemma lower_char_idem [simp]: "lower_char (lower_char c) = lower_char c"
  by (auto simp: lower_char_def Let_def of_char_of)

lemma ToLower_idem [simp]: "ToLower (ToLower s) = ToLower s"
  by (simp add: ToLower_def)

lemma length_ToLower [simp]: "length (ToLower s) = length s"
  by (simp add: ToLower_def)

subsection \<open>Runes\<close>

definition cont :: "nat \<Rightarrow> nat \<Rightarrow> byte \<Rightarrow> bool" where
  "cont lo hi b \<longleftrightarrow> lo \<le> unat b \<and> unat b \<le> hi"

text \<open>The range the second byte of a sequence must be in, by its first byte.\<close>

definition second_range :: "nat \<Rightarrow> nat \<times> nat" where
  "second_range b =
     (if b = 0xE0 then (0xA0, 0xBF) else if b = 0xED then (0x80, 0x9F)
      else if b = 0xF0 then (0x90, 0xBF) else if b = 0xF4 then (0x80, 0x8F) else (0x80, 0xBF))"

text \<open>The number of bytes and the code point of the first rune; an invalid byte gives U+FFFD of width one.\<close>

definition decode_rune :: "bytes \<Rightarrow> nat \<times> nat" where
  "decode_rune b =
     (case b of
        [] \<Rightarrow> (0, 0xFFFD)
      | x # r \<Rightarrow>
          let n = unat x; (lo, hi) = second_range n in
          if n < 0x80 then (1, n)
          else if 0xC2 \<le> n \<and> n \<le> 0xDF then
            (case r of
               y # _ \<Rightarrow> if cont 0x80 0xBF y then (2, (n - 0xC0) * 64 + (unat y - 0x80)) else (1, 0xFFFD)
             | [] \<Rightarrow> (1, 0xFFFD))
          else if 0xE0 \<le> n \<and> n \<le> 0xEF then
            (case r of
               y # z # _ \<Rightarrow>
                 if cont lo hi y \<and> cont 0x80 0xBF z
                 then (3, (n - 0xE0) * 4096 + (unat y - 0x80) * 64 + (unat z - 0x80)) else (1, 0xFFFD)
             | _ \<Rightarrow> (1, 0xFFFD))
          else if 0xF0 \<le> n \<and> n \<le> 0xF4 then
            (case r of
               y # z # w # _ \<Rightarrow>
                 if cont lo hi y \<and> cont 0x80 0xBF z \<and> cont 0x80 0xBF w
                 then (4, (n - 0xF0) * 262144 + (unat y - 0x80) * 4096 + (unat z - 0x80) * 64 + (unat w - 0x80))
                 else (1, 0xFFFD)
             | _ \<Rightarrow> (1, 0xFFFD))
          else (1, 0xFFFD))"

function runes :: "bytes \<Rightarrow> nat list" where
  "runes b = (if b = [] then [] else let (w, r) = decode_rune b in r # runes (drop (max 1 w) b))"
  by pat_completeness auto
termination by (relation "measure length") auto

declare runes.simps [simp del]

lemma runes_ascii: "\<forall>x\<in>set b. x < 0x80 \<Longrightarrow> runes b = map unat b"
proof (induction b)
  case Nil
  then show ?case by (simp add: runes.simps)
next
  case (Cons x b)
  have "unat x < 128" using Cons.prems by (simp add: word_less_nat_alt)
  then have "decode_rune (x # b) = (1, unat x)" by (simp add: decode_rune_def Let_def case_prod_beta)
  then show ?case using Cons by (subst runes.simps) simp
qed

end
