(* ===== verification/Codecs.thy ===== *)
theory Codecs
  imports Texts
begin

text \<open>
  The input and output encodings of the command line (\<^verbatim>\<open>src/internal/codec/input.go\<close>) and the
  pronounceable encoding (\<^verbatim>\<open>src/crypto/encoding_proquint.go\<close>).
\<close>

unbundle bit_operations_syntax

subsection \<open>internal/codec\<close>

datatype codec_error = UnsupportedEncoding string | InvalidBase64 | InvalidHex

definition EncodingRaw :: string where "EncodingRaw = ''raw''"
definition EncodingBase :: string where "EncodingBase = ''b64''"
definition EncodingHex :: string where "EncodingHex = ''hex''"

definition Encoding_Valid :: "string \<Rightarrow> bool" where
  "Encoding_Valid e \<longleftrightarrow> e = EncodingRaw \<or> e = EncodingBase \<or> e = EncodingHex"

definition Codec_Decode :: "string \<Rightarrow> bytes \<Rightarrow> codec_error + bytes" where
  "Codec_Decode enc data =
     (if \<not> Encoding_Valid enc then Inl (UnsupportedEncoding enc)
      else if enc = EncodingRaw then Inr data
      else if enc = EncodingBase then
        (case b64_decode (to_str (trim_space data)) of None \<Rightarrow> Inl InvalidBase64 | Some d \<Rightarrow> Inr d)
      else if enc = EncodingHex then
        (case hex_decode (to_str (trim_space data)) of None \<Rightarrow> Inl InvalidHex | Some d \<Rightarrow> Inr d)
      else Inl (UnsupportedEncoding enc))"

definition Codec_Encode :: "string \<Rightarrow> bytes \<Rightarrow> codec_error + bytes" where
  "Codec_Encode enc data =
     (if \<not> Encoding_Valid enc then Inl (UnsupportedEncoding enc)
      else if enc = EncodingRaw then Inr data
      else if enc = EncodingBase then Inr (to_bytes (b64_encode data))
      else if enc = EncodingHex then Inr (to_bytes (hex_encode data))
      else Inl (UnsupportedEncoding enc))"

definition plain_char :: "char \<Rightarrow> bool" where
  "plain_char c \<longleftrightarrow> plain_byte (byte_of_char c)"

lemma plain_alphabets:
  "\<forall>c\<in>set b64_alphabet. plain_char c" "\<forall>c\<in>set hex_digits. plain_char c" "plain_char CHR ''=''"
  by (simp_all add: b64_alphabet_def hex_digits_def plain_char_def byte_of_char_def plain_byte_def)

lemma plain_digits: "n < 64 \<Longrightarrow> plain_char (b64_char n)" "n < 16 \<Longrightarrow> plain_char (hex_char n)"
proof -
  have "length hex_digits = 16" by (simp add: hex_digits_def)
  then show "n < 64 \<Longrightarrow> plain_char (b64_char n)" "n < 16 \<Longrightarrow> plain_char (hex_char n)"
    using plain_alphabets nth_mem [of n b64_alphabet] nth_mem [of n hex_digits]
    by (auto simp: b64_char_def hex_char_def)
qed

lemma b64_encode_chars: "c \<in> set (b64_encode d) \<Longrightarrow> c \<in> set b64_alphabet \<or> c = CHR ''=''"
proof -
  have "n < 64 \<Longrightarrow> b64_char n \<in> set b64_alphabet" for n
    using nth_mem [of n b64_alphabet] by (simp add: b64_char_def)
  then show "c \<in> set (b64_encode d) \<Longrightarrow> c \<in> set b64_alphabet \<or> c = CHR ''=''"
    by (induction d rule: b64_encode.induct) auto
qed

lemma hex_encode_chars: "c \<in> set (hex_encode d) \<Longrightarrow> c \<in> set hex_digits"
proof -
  have "n < 16 \<Longrightarrow> hex_char n \<in> set hex_digits" for n
    using nth_mem [of n hex_digits] by (simp add: hex_char_def hex_digits_def)
  then show "c \<in> set (hex_encode d) \<Longrightarrow> c \<in> set hex_digits"
    by (induction d) (auto simp: hex_encode_def less_mult_imp_div_less)
qed

lemma b64_encode_plain_chars: "c \<in> set (b64_encode d) \<Longrightarrow> plain_char c"
  by (induction d rule: b64_encode.induct) (auto simp: plain_alphabets(3) intro!: plain_digits)

lemma hex_encode_plain_chars: "c \<in> set (hex_encode d) \<Longrightarrow> plain_char c"
  by (induction d) (auto simp: hex_encode_def less_mult_imp_div_less intro!: plain_digits)

lemma trim_space_plain_chars:
  assumes "\<And>c. c \<in> set s \<Longrightarrow> plain_char c"
  shows "trim_space (to_bytes s) = to_bytes s"
proof (rule trim_space_plain, cases "s = []")
  case False
  have "plain_byte (hd (to_bytes s))" "plain_byte (last (to_bytes s))"
    using assms [of "hd s"] assms [of "last s"] False by (simp_all add: plain_char_def to_bytes_def hd_map last_map)
  then show "to_bytes s = [] \<or> plain_byte (hd (to_bytes s)) \<and> plain_byte (last (to_bytes s))" by blast
qed simp

text \<open>
  Note.  What \<^verbatim>\<open>Encode\<close> produces in any of the three encodings, \<^verbatim>\<open>Decode\<close> turns back into the same
  bytes; every other encoding name is refused by both.
\<close>

theorem codec_roundtrip:
  "(\<exists>e. Codec_Encode enc d = Inr e \<and> Codec_Decode enc e = Inr d) \<or>
   (Codec_Encode enc d = Inl (UnsupportedEncoding enc) \<and> Codec_Decode enc d = Inl (UnsupportedEncoding enc) \<and>
    enc \<notin> {''raw'', ''b64'', ''hex''})"
  using trim_space_plain_chars [of "b64_encode d", OF b64_encode_plain_chars]
    trim_space_plain_chars [of "hex_encode d", OF hex_encode_plain_chars]
  by (auto simp: Codec_Encode_def Codec_Decode_def Encoding_Valid_def EncodingRaw_def EncodingBase_def
      EncodingHex_def)

subsection \<open>Proquints\<close>

datatype proquint_error = InvalidWordLength | InvalidCharacter | IndexPanic

definition consonants :: string where "consonants = ''bdfghjklmnprstvz''"
definition vowels :: string where "vowels = ''aiou''"

definition proquint_word :: "16 word \<Rightarrow> string" where
  "proquint_word val =
     (let c1 = unat (drop_bit 12 val AND 0x0F); v1 = unat (drop_bit 10 val AND 0x03);
          c2 = unat (drop_bit 6 val AND 0x0F); v2 = unat (drop_bit 4 val AND 0x03);
          c3 = unat (val AND 0x0F)
      in [consonants ! c1, vowels ! v1, consonants ! c2, vowels ! v2, consonants ! c3])"

fun proquint_words :: "bytes \<Rightarrow> string list" where
  "proquint_words [] = []"
| "proquint_words [a] = [proquint_word (push_bit 8 (ucast a))]"
| "proquint_words (a # b # rest) =
     proquint_word (push_bit 8 (ucast a) OR ucast b) # proquint_words rest"

definition ToProquint :: "bytes \<Rightarrow> string" where
  "ToProquint data = join_with CHR ''-'' (proquint_words data)"

text \<open>The maps from a rune to its position.\<close>

definition rune_index :: "string \<Rightarrow> nat \<Rightarrow> 16 word option" where
  "rune_index table r = map_of (zip (map of_char table) (map word_of_nat [0..<length table])) r"

definition read_word :: "string \<Rightarrow> proquint_error + bytes" where
  "read_word word =
     (if length word \<noteq> 5 then Inl InvalidWordLength
      else let r = runes (to_bytes word) in
        if length r < 5 then Inl IndexPanic
        else case (rune_index consonants (r ! 0), rune_index vowels (r ! 1), rune_index consonants (r ! 2),
                   rune_index vowels (r ! 3), rune_index consonants (r ! 4)) of
               (Some c1, Some v1, Some c2, Some v2, Some c3) \<Rightarrow>
                 let val = push_bit 12 c1 OR push_bit 10 v1 OR push_bit 6 c2 OR push_bit 4 v2 OR c3
                 in Inr [ucast (drop_bit 8 val), ucast (val AND 0xFF)]
             | _ \<Rightarrow> Inl InvalidCharacter)"

fun read_words :: "string list \<Rightarrow> proquint_error + bytes" where
  "read_words [] = Inr []"
| "read_words (w # ws) =
     (case read_word w of
        Inl e \<Rightarrow> Inl e
      | Inr b \<Rightarrow> (case read_words ws of Inl e \<Rightarrow> Inl e | Inr rest \<Rightarrow> Inr (b @ rest)))"

definition FromProquint :: "string \<Rightarrow> proquint_error + bytes" where
  "FromProquint input = read_words (split_on CHR ''-'' input)"

lemma table_index:
  "n < 16 \<Longrightarrow> rune_index consonants (of_char (consonants ! n)) = Some (word_of_nat n)"
  "n < 4 \<Longrightarrow> rune_index vowels (of_char (vowels ! n)) = Some (word_of_nat n)"
proof -
  have "\<forall>n\<in>set [0..<16]. rune_index consonants (of_char (consonants ! n)) = Some (word_of_nat n)"
    "\<forall>n\<in>set [0..<4]. rune_index vowels (of_char (vowels ! n)) = Some (word_of_nat n)"
    by (simp_all add: upt_rec rune_index_def consonants_def vowels_def)
  then show "n < 16 \<Longrightarrow> rune_index consonants (of_char (consonants ! n)) = Some (word_of_nat n)"
    "n < 4 \<Longrightarrow> rune_index vowels (of_char (vowels ! n)) = Some (word_of_nat n)" by auto
qed

lemma table_chars:
  "n < 16 \<Longrightarrow> (of_char (consonants ! n) :: nat) < 128 \<and> consonants ! n \<noteq> CHR ''-''"
  "n < 4 \<Longrightarrow> (of_char (vowels ! n) :: nat) < 128 \<and> vowels ! n \<noteq> CHR ''-''"
proof -
  have "\<forall>n\<in>set [0..<16]. (of_char (consonants ! n) :: nat) < 128 \<and> consonants ! n \<noteq> CHR ''-''"
    "\<forall>n\<in>set [0..<4]. (of_char (vowels ! n) :: nat) < 128 \<and> vowels ! n \<noteq> CHR ''-''"
    by (simp_all add: upt_rec consonants_def vowels_def)
  then show "n < 16 \<Longrightarrow> (of_char (consonants ! n) :: nat) < 128 \<and> consonants ! n \<noteq> CHR ''-''"
    "n < 4 \<Longrightarrow> (of_char (vowels ! n) :: nat) < 128 \<and> vowels ! n \<noteq> CHR ''-''" by auto
qed

lemma unat_mask_lt:
  "unat ((v :: 16 word) AND 0x0F) < 16" "unat (v AND 0x03) < 4"
proof -
  have "v AND 0x0F = take_bit 4 v" "v AND 0x03 = take_bit 2 v" by (simp_all add: take_bit_eq_mask mask_eq_decr_exp)
  then show "unat (v AND 0x0F) < 16" "unat (v AND 0x03) < 4"
    using take_bit_nat_less_exp [of 4 "unat v"] take_bit_nat_less_exp [of 2 "unat v"]
    by (simp_all add: unsigned_take_bit_eq)
qed

lemma proquint_recombine:
  "push_bit 12 (drop_bit 12 v AND 0x0F) OR push_bit 10 (drop_bit 10 v AND 0x03) OR
   push_bit 6 (drop_bit 6 v AND 0x0F) OR push_bit 4 (drop_bit 4 v AND 0x03) OR (v AND 0x0F) = (v :: 16 word)"
proof (rule bit_word_eqI)
  fix n :: nat
  assume n: "n < LENGTH(16)"
  have m: "(0x0F :: 16 word) = mask 4" "(0x03 :: 16 word) = mask 2" by (simp_all add: mask_eq_decr_exp)
  show "bit (push_bit 12 (drop_bit 12 v AND 0x0F) OR push_bit 10 (drop_bit 10 v AND 0x03) OR
     push_bit 6 (drop_bit 6 v AND 0x0F) OR push_bit 4 (drop_bit 4 v AND 0x03) OR (v AND 0x0F)) n = bit v n"
  proof -
    consider "n < 4" | "4 \<le> n" "n < 6" | "6 \<le> n" "n < 10" | "10 \<le> n" "n < 12" | "12 \<le> n" "n < 16"
      using n by (simp, linarith)
    then show ?thesis unfolding m by cases (auto simp: bit_simps)
  qed
qed

lemma read_proquint_word: "read_word (proquint_word v) = Inr [ucast (drop_bit 8 v), ucast (v AND 0xFF)]"
proof -
  let ?c1 = "drop_bit 12 v AND 0x0F" and ?v1 = "drop_bit 10 v AND 0x03" and ?c2 = "drop_bit 6 v AND 0x0F"
    and ?v2 = "drop_bit 4 v AND 0x03" and ?c3 = "v AND 0x0F"
  let ?w = "[consonants ! unat ?c1, vowels ! unat ?v1, consonants ! unat ?c2, vowels ! unat ?v2, consonants ! unat ?c3]"
  have lt: "unat ?c1 < 16" "unat ?v1 < 4" "unat ?c2 < 16" "unat ?v2 < 4" "unat ?c3 < 16"
    by (rule unat_mask_lt)+
  have w: "proquint_word v = ?w" by (simp only: proquint_word_def Let_def)
  have byte: "unat (byte_of_char c) = of_char c" for c
    using nat_of_char_less_256 [of c] by (simp add: byte_of_char_def unat_of_nat)
  have "\<forall>x\<in>set (to_bytes ?w). x < 0x80"
    using table_chars(1) [OF lt(1)] table_chars(1) [OF lt(3)] table_chars(1) [OF lt(5)]
      table_chars(2) [OF lt(2)] table_chars(2) [OF lt(4)]
    by (simp add: to_bytes_def word_less_nat_alt byte)
  then have r: "runes (to_bytes ?w) = map of_char ?w"
    by (subst runes_ascii) (simp_all add: to_bytes_def byte)
  have ix: "rune_index consonants (of_char (consonants ! unat ?c1)) = Some ?c1"
    "rune_index vowels (of_char (vowels ! unat ?v1)) = Some ?v1"
    "rune_index consonants (of_char (consonants ! unat ?c2)) = Some ?c2"
    "rune_index vowels (of_char (vowels ! unat ?v2)) = Some ?v2"
    "rune_index consonants (of_char (consonants ! unat ?c3)) = Some ?c3"
    using table_index(1) [OF lt(1)] table_index(1) [OF lt(3)] table_index(1) [OF lt(5)]
      table_index(2) [OF lt(2)] table_index(2) [OF lt(4)] by simp_all
  have nths: "map of_char ?w ! 0 = (of_char (consonants ! unat ?c1) :: nat)"
    "map of_char ?w ! 1 = (of_char (vowels ! unat ?v1) :: nat)"
    "map of_char ?w ! 2 = (of_char (consonants ! unat ?c2) :: nat)"
    "map of_char ?w ! 3 = (of_char (vowels ! unat ?v2) :: nat)"
    "map of_char ?w ! 4 = (of_char (consonants ! unat ?c3) :: nat)"
    "length ?w = 5" "\<not> length (map of_char ?w) < 5"
    by simp_all
  show ?thesis unfolding w read_word_def r Let_def nths ix option.case prod.case proquint_recombine by simp
qed

lemma proquint_word_plain: "CHR ''-'' \<notin> set (proquint_word v)"
proof -
  have "consonants ! unat (x AND 0x0F) \<noteq> CHR ''-''" "vowels ! unat (x AND 0x03) \<noteq> CHR ''-''" for x :: "16 word"
    using table_chars unat_mask_lt by blast+
  then show ?thesis by (simp only: proquint_word_def Let_def list.set insert_iff empty_iff) metis
qed

lemma word_of_two_bytes:
  "ucast (drop_bit 8 (push_bit 8 (ucast a) OR ucast b :: 16 word)) = (a :: byte)"
  "ucast ((push_bit 8 (ucast a) OR ucast b :: 16 word) AND 0xFF) = (b :: byte)"
  "ucast (drop_bit 8 (push_bit 8 (ucast a) :: 16 word)) = (a :: byte)"
  "ucast ((push_bit 8 (ucast a) :: 16 word) AND 0xFF) = (0 :: byte)"
proof -
  have m: "(0xFF :: 16 word) = mask 8" by (simp add: mask_eq_decr_exp)
  show "ucast (drop_bit 8 (push_bit 8 (ucast a) OR ucast b :: 16 word)) = (a :: byte)"
    "ucast ((push_bit 8 (ucast a) OR ucast b :: 16 word) AND 0xFF) = (b :: byte)"
    "ucast (drop_bit 8 (push_bit 8 (ucast a) :: 16 word)) = (a :: byte)"
    "ucast ((push_bit 8 (ucast a) :: 16 word) AND 0xFF) = (0 :: byte)"
    unfolding m by (rule bit_word_eqI, auto simp: bit_simps dest: bit_imp_le_length)+
qed

lemma read_proquint_bytes:
  "read_word (proquint_word (push_bit 8 (ucast a) OR ucast b)) = Inr [a, b]"
  "read_word (proquint_word (push_bit 8 (ucast a))) = Inr [a, 0]"
  unfolding read_proquint_word word_of_two_bytes by (rule refl)+

lemma read_proquint_words:
  "read_words (proquint_words d) = Inr (d @ (if even (length d) then [] else [0]))"
  by (induction d rule: proquint_words.induct) (auto simp: read_proquint_bytes)

lemma proquint_words_plain: "w \<in> set (proquint_words d) \<Longrightarrow> CHR ''-'' \<notin> set w"
  by (induction d rule: proquint_words.induct) (auto simp: proquint_word_plain)

lemma proquint_words_Nil: "proquint_words d = [] \<longleftrightarrow> d = []"
  by (cases d rule: proquint_words.cases) auto

text \<open>
  Note.  Decoding a proquint gives back the encoded bytes, with a zero byte appended when their number is
  odd; the encoding of no bytes, the empty string, is refused.
\<close>

theorem proquint_roundtrip:
  "FromProquint (ToProquint d) =
     (if d = [] then Inl InvalidWordLength else Inr (d @ (if even (length d) then [] else [0])))"
proof (cases "d = []")
  case True
  then show ?thesis by (simp add: FromProquint_def ToProquint_def read_word_def)
next
  case False
  then have "split_on CHR ''-'' (ToProquint d) = proquint_words d"
    using proquint_words_plain unfolding ToProquint_def by (intro split_join) (auto simp: proquint_words_Nil)
  then show ?thesis using False read_proquint_words [of d] by (simp add: FromProquint_def)
qed

text \<open>
  Note.  A word of five bytes that contains a two-byte character has fewer than five runes; the
  decoder indexes past them and panics, where every pure ASCII input gives a result or an error.
\<close>

theorem proquint_multibyte_panic:
  "FromProquint (to_str [0x62, 0x61, 0xC3, 0xA9, 0x62]) = Inl IndexPanic \<and>
   (\<forall>s. (\<forall>x\<in>set (to_bytes s). x < 0x80) \<longrightarrow> FromProquint s \<noteq> Inl IndexPanic)"
proof -
  have w: "read_word w \<noteq> Inl IndexPanic" if "\<forall>x\<in>set (to_bytes w). x < 0x80" for w
    using runes_ascii [OF that] by (auto simp: read_word_def Let_def split: option.splits)
  have ws: "read_words ws \<noteq> Inl IndexPanic" if "\<forall>v\<in>set ws. \<forall>x\<in>set (to_bytes v). x < 0x80" for ws
    using that w by (induction ws) (auto split: sum.splits)
  have "\<forall>v\<in>set (split_on CHR ''-'' s). set v \<subseteq> set s" for s
    by (induction s) (auto split: list.splits)
  then have "FromProquint s \<noteq> Inl IndexPanic" if "\<forall>x\<in>set (to_bytes s). x < 0x80" for s
    using that ws [of "split_on CHR ''-'' s"] by (fastforce simp: FromProquint_def to_bytes_def)
  moreover have dash: "CHR ''-'' \<notin> set (to_str [0x62, 0x61, 0xC3, 0xA9, 0x62])"
    by (simp add: in_set_to_str byte_of_char_def)
  moreover have "runes [0x62, 0x61, 0xC3, 0xA9, 0x62] = [0x62, 0x61, 0xE9, 0x62]"
    by (simp add: runes.simps decode_rune_def second_range_def cont_def)
  then have "FromProquint (to_str [0x62, 0x61, 0xC3, 0xA9, 0x62]) = Inl IndexPanic"
    using split_on_word [OF dash] by (simp add: FromProquint_def read_word_def)
  ultimately show ?thesis by blast
qed

theorem proquint_multibyte_panic_witness:
  "FromProquint ''babab'' \<noteq> Inl IndexPanic"
proof -
  have "\<forall>x\<in>set (to_bytes ''babab''). x < 0x80" by (simp add: to_bytes_def byte_of_char_def)
  then show ?thesis using proquint_multibyte_panic by blast
qed

end
