(* ===== verification/Frames.thy ===== *)
theory Frames
  imports Prims Texts Codecs
begin

text \<open>
  Framing of everything that travels between peers: the type byte (\<^verbatim>\<open>src/internal/relay/relay.go\<close>), the
  layer-1 frame and the copy-and-paste container (\<^verbatim>\<open>src/internal/frame/frame.go\<close>), the public key inside
  a peer ID and the signed proof a sender attaches.

  The container is a JSON object; its reader is the argument \<open>J\<close>, its writer is written out (the two
  strings need no escaping).
\<close>

subsection \<open>Types and envelopes\<close>

type_synonym frame_type = byte

definition TypeOffer :: frame_type where "TypeOffer = 1"
definition TypeAnswer :: frame_type where "TypeAnswer = 2"
definition TypeMessage :: frame_type where "TypeMessage = 3"
definition TypeMultiMsg :: frame_type where "TypeMultiMsg = 4"

lemmas type_defs = TypeOffer_def TypeAnswer_def TypeMessage_def TypeMultiMsg_def

definition Names :: "frame_type \<rightharpoonup> string" where
  "Names = [TypeOffer \<mapsto> ''offer'', TypeAnswer \<mapsto> ''answer'', TypeMessage \<mapsto> ''message'', TypeMultiMsg \<mapsto> ''multimsg'']"

definition TypesByName :: "string \<rightharpoonup> frame_type" where
  "TypesByName = [''offer'' \<mapsto> TypeOffer, ''answer'' \<mapsto> TypeAnswer, ''message'' \<mapsto> TypeMessage, ''multimsg'' \<mapsto> TypeMultiMsg]"

definition Type_Valid :: "frame_type \<Rightarrow> bool" where
  "Type_Valid t \<longleftrightarrow> Names t \<noteq> None"

definition WrapEnvelope :: "frame_type \<Rightarrow> bytes \<Rightarrow> bytes" where
  "WrapEnvelope t data = t # data"

datatype frame_error =
    EnvelopeShort nat | FrameShort nat | UnknownType byte | UnregisteredType byte | ContainerJson
  | ContainerData | ContainerEmpty | ContainerDisagrees string byte | ContainerUnknown string
  | NotAFrame | FramePanic

definition UnwrapEnvelope :: "bytes \<Rightarrow> frame_error + frame_type \<times> bytes" where
  "UnwrapEnvelope raw = (case raw of [] \<Rightarrow> Inl (EnvelopeShort 0) | t # data \<Rightarrow> Inr (t, data))"

definition Frame_Unwrap :: "bytes \<Rightarrow> frame_error + frame_type \<times> bytes" where
  "Frame_Unwrap f =
     (if length f < 2 then Inl (FrameShort (length f))
      else let t = f ! 0 in
        if \<not> Type_Valid t then Inl (UnknownType t) else Inr (t, drop 1 f))"

subsection \<open>Containers\<close>

definition container_json :: "string \<Rightarrow> string \<Rightarrow> bytes" where
  "container_json type_name data =
     to_bytes (''{'' @ [CHR 0x22] @ ''Type'' @ [CHR 0x22] @ '':'' @ [CHR 0x22] @ type_name @ [CHR 0x22] @ '','' @
       [CHR 0x22] @ ''Data'' @ [CHR 0x22] @ '':'' @ [CHR 0x22] @ data @ [CHR 0x22] @ ''}'')"

text \<open>\<^verbatim>\<open>json.Unmarshal\<close> into \<^verbatim>\<open>Container\<close> reads back what \<^verbatim>\<open>json.Marshal\<close> wrote.\<close>

definition container_law :: "(bytes \<Rightarrow> (string \<times> string) option) \<Rightarrow> bool" where
  "container_law J \<longleftrightarrow> (\<forall>t d. t \<in> ran Names \<longrightarrow> J (container_json t (b64_encode d)) = Some (t, b64_encode d))"

definition EncodeContainer :: "frame_type \<Rightarrow> bytes \<Rightarrow> frame_error + bytes" where
  "EncodeContainer t payload =
     (case Names t of
        None \<Rightarrow> Inl (UnregisteredType t)
      | Some name \<Rightarrow> Inr (container_json name (b64_encode (WrapEnvelope t payload))))"

definition DecodeContainer ::
  "(bytes \<Rightarrow> (string \<times> string) option) \<Rightarrow> bytes \<Rightarrow> frame_error + frame_type \<times> bytes" where
  "DecodeContainer J raw =
     (let trimmed = trim_space raw in
      if trimmed \<noteq> [] \<and> hd trimmed = 0x7B then
        (case J trimmed of
           None \<Rightarrow> Inl ContainerJson
         | Some (ty, data) \<Rightarrow>
             (case b64_decode data of
                None \<Rightarrow> Inl ContainerData
              | Some [] \<Rightarrow> Inl ContainerEmpty
              | Some (t # payload) \<Rightarrow>
                  if Type_Valid t then
                    (if ty \<noteq> [] \<and> TypesByName (ToLower ty) \<noteq> Some t
                     then Inl (ContainerDisagrees ty t) else Inr (t, payload))
                  else (case TypesByName (ToLower ty) of
                          None \<Rightarrow> Inl (ContainerUnknown ty)
                        | Some lt \<Rightarrow> Inr (lt, t # payload))))
      else (case trimmed of
              [] \<Rightarrow> Inl FramePanic
            | t # payload \<Rightarrow> if Type_Valid t then Inr (t, payload) else Inl NotAFrame))"

lemma Type_Valid_iff: "Type_Valid t \<longleftrightarrow> t \<in> {1, 2, 3, 4}"
  by (simp add: Type_Valid_def Names_def type_defs)

lemma Names_inverse: "Names t = Some n \<Longrightarrow> TypesByName (ToLower n) = Some t \<and> n \<noteq> []"
  by (auto simp: Names_def TypesByName_def type_defs ToLower_def lower_char_def Let_def split: if_splits)

text \<open>
  Note.  Wrapping and unwrapping are inverse: the type byte and the payload come back unchanged, and every
  byte string that unwraps is the wrapping of what it unwraps to.
\<close>

theorem envelope_roundtrip:
  "UnwrapEnvelope (WrapEnvelope t p) = Inr (t, p) \<and>
   Frame_Unwrap (WrapEnvelope t p) =
     (if p = [] then Inl (FrameShort 1) else if t \<in> {1, 2, 3, 4} then Inr (t, p) else Inl (UnknownType t)) \<and>
   (UnwrapEnvelope raw = Inr (t, p)) = (raw = WrapEnvelope t p)"
  by (auto simp: UnwrapEnvelope_def WrapEnvelope_def Frame_Unwrap_def Type_Valid_iff Let_def split: list.splits)

text \<open>
  Note.  The container of a registered type decodes to that type and the bare payload.
\<close>

theorem container_roundtrip:
  assumes "container_law J" "t \<in> {1, 2, 3, 4}"
  shows "\<exists>c. EncodeContainer t p = Inr c \<and> DecodeContainer J c = Inr (t, p)"
proof -
  obtain n where n: "Names t = Some n" using assms(2) Type_Valid_iff by (auto simp: Type_Valid_def)
  let ?c = "container_json n (b64_encode (t # p))"
  have "hd ?c = 0x7B" "last ?c = 0x7D" "?c \<noteq> []"
    by (simp_all add: container_json_def to_bytes_def byte_of_char_def)
  moreover from this have "trim_space ?c = ?c" by (intro trim_space_plain) (simp add: plain_byte_def)
  moreover have "J ?c = Some (n, b64_encode (t # p))"
    using assms(1) n by (auto simp: container_law_def ran_def)
  ultimately have "DecodeContainer J ?c = Inr (t, p)"
    using Names_inverse [OF n] assms(2) by (simp add: DecodeContainer_def Let_def Type_Valid_iff)
  then show ?thesis using n by (simp add: EncodeContainer_def WrapEnvelope_def)
qed

text \<open>A reader for witnesses: it looks the text up among all containers of a type name.\<close>

definition toy_container :: "bytes \<Rightarrow> (string \<times> string) option" where
  "toy_container raw =
     (let s = to_str raw; body = drop 9 s; t = takeWhile (\<lambda>c. c \<noteq> CHR 0x22) body;
          rest = drop 10 (drop (length t) body)
      in Some (t, takeWhile (\<lambda>c. c \<noteq> CHR 0x22) rest))"

lemma toy_container_law: "container_law toy_container"
proof -
  have q: "c \<noteq> CHR 0x22" if "c \<in> set (b64_encode d)" for c d
    using b64_encode_chars [OF that] by (auto simp: b64_alphabet_def)
  have n: "c \<noteq> CHR 0x22" if "t \<in> ran Names" "c \<in> set t" for t c
    using that by (auto simp: Names_def ran_def split: if_splits)
  have "toy_container (container_json t (b64_encode d)) = Some (t, b64_encode d)" if "t \<in> ran Names" for t d
  proof -
    have "takeWhile (\<lambda>c. c \<noteq> CHR 0x22) (t @ CHR 0x22 # xs) = t" for xs
      using n [OF that] by (induction t) auto
    moreover have "takeWhile (\<lambda>c. c \<noteq> CHR 0x22) (b64_encode d @ CHR 0x22 # xs) = b64_encode d" for xs
      using q [of _ d] by (simp add: takeWhile_append2)
    ultimately show ?thesis by (simp add: toy_container_def container_json_def del: drop_drop)
  qed
  then show ?thesis by (simp add: container_law_def)
qed

theorem container_roundtrip_witness:
  "\<exists>c. EncodeContainer 3 [1, 2] = Inr c \<and> DecodeContainer toy_container c = Inr (3, [1, 2])"
  by (rule container_roundtrip [OF toy_container_law]) simp

text \<open>
  Note.  A raw frame is trimmed as text before it is read: white space at the end of the payload is cut off
  although the payload is binary, and an input of white space only makes the reader index an empty
  slice.
\<close>

theorem raw_frame_trimmed:
  assumes "t \<in> {1, 2, 3, 4}" "p = [] \<or> plain_byte (last p)"
  shows "DecodeContainer J (WrapEnvelope t (p @ replicate n 0x20)) = Inr (t, p) \<and>
         DecodeContainer J (replicate n 0x20) = Inl FramePanic"
proof -
  have sp: "trim_left space_seqs (0x20 # b) = trim_left space_seqs b"
    "trim_left (map rev space_seqs) (0x20 # b) = trim_left (map rev space_seqs) b" for b
    by (rule trim_left_space [of "[0x20]"]; simp add: space_seqs_def)+
  have reps: "trim_left space_seqs (replicate n 0x20 @ b) = trim_left space_seqs b"
    "trim_left (map rev space_seqs) (replicate n 0x20 @ b) = trim_left (map rev space_seqs) b" for b
    by (induction n) (simp_all add: sp)
  have nil: "trim_left s [] = []" for s :: "bytes list" by (rule trim_left_plain) simp
  have t: "t \<notin> hd ` set space_seqs" "t \<notin> hd ` set (map rev space_seqs)"
    using assms(1) by (auto simp: space_seqs_def)
  have "trim_left (map rev space_seqs) (rev p @ [t]) = rev p @ [t]"
    by (rule trim_left_plain) (use assms(2) t(2) plain_not_space(2) in \<open>cases p rule: rev_cases; auto simp del: set_map\<close>)
  then have "trim_space (t # p @ replicate n 0x20) = t # p"
    using trim_left_plain [of "t # p @ replicate n 0x20" space_seqs] t(1) reps(2) [of "rev p @ [t]"]
    by (simp add: trim_space_def del: set_map)
  moreover have "trim_space (replicate n 0x20) = []"
    using reps(1) [of "[]"] by (simp add: trim_space_def nil)
  ultimately show ?thesis using assms(1)
    by (auto simp: DecodeContainer_def WrapEnvelope_def Let_def Type_Valid_iff)
qed

theorem raw_frame_trimmed_witness:
  "DecodeContainer toy_container (WrapEnvelope 3 ([0x41] @ replicate 2 0x20)) = Inr (3, [0x41]) \<and>
   DecodeContainer toy_container (replicate 2 0x20) = Inl FramePanic"
  by (rule raw_frame_trimmed) (simp_all add: plain_byte_def)

subsection \<open>Peer IDs and sender proofs\<close>

definition PeerIDByteLen :: nat where "PeerIDByteLen = 64"

datatype relay_error = RelayBase58 | RelayPeerIdLen nat

definition PeerIDToEd25519Pub :: "prims \<Rightarrow> string \<Rightarrow> relay_error + bytes" where
  "PeerIDToEd25519Pub P peerID =
     (case p_b58dec P peerID of
        None \<Rightarrow> Inl RelayBase58
      | Some raw \<Rightarrow> if length raw \<noteq> PeerIDByteLen then Inl (RelayPeerIdLen (length raw)) else Inr (take 32 raw))"

record SenderAuth =
  sa_PubKey :: string
  sa_Timestamp :: string
  sa_Signature :: string

definition send_message :: "string \<Rightarrow> string \<Rightarrow> string \<Rightarrow> string \<Rightarrow> string" where
  "send_message senderHex mailbox timestamp hash =
     ''send:'' @ senderHex @ '':'' @ mailbox @ '':'' @ timestamp @ '':'' @ hash"

definition BuildSenderAuth :: "prims \<Rightarrow> int \<Rightarrow> bytes \<Rightarrow> string \<Rightarrow> bytes \<Rightarrow> SenderAuth" where
  "BuildSenderAuth P nowMillis senderPriv recipientMailboxID payload =
     (let senderHex = hex_encode (p_ed_pub P senderPriv);
          timestamp = dec_int nowMillis;
          signed = send_message senderHex (ToLower recipientMailboxID) timestamp (hex_encode (p_sha256 P payload))
      in \<lparr>sa_PubKey = senderHex, sa_Timestamp = timestamp,
          sa_Signature = hex_encode (p_ed_sign P senderPriv (to_bytes signed))\<rparr>)"

text \<open>
  Note.  The text a sender signs determines the sender's key, the mailbox, the time and the hash of the
  payload: two proofs over the same text are about the same send.
\<close>

theorem sender_auth_binds:
  assumes "CHR '':'' \<notin> set m1" "CHR '':'' \<notin> set m2"
    and "send_message (hex_encode k1) m1 (dec_int t1) (hex_encode h1) =
         send_message (hex_encode k2) m2 (dec_int t2) (hex_encode h2)"
  shows "k1 = k2 \<and> m1 = m2 \<and> t1 = t2 \<and> h1 = h2"
proof -
  have hex: "CHR '':'' \<notin> set (hex_encode k)" for k
    using hex_encode_chars [of "CHR '':''" k] by (auto simp: hex_digits_def)
  have dec: "CHR '':'' \<notin> set (dec_int t)" for t
    using dec_nat_chars by (fastforce simp: dec_int_def split: if_splits)
  show ?thesis using assms hex dec by (simp add: send_message_def separator_unique)
qed

theorem sender_auth_binds_witness:
  "send_message (hex_encode [1]) ''ab'' (dec_int 7) (hex_encode [2]) \<noteq>
   send_message (hex_encode [1]) ''ab'' (dec_int 8) (hex_encode [2])"
  using sender_auth_binds [of "''ab''" "''ab''" "[1]" 7 "[2]" "[1]" 8 "[2]"] by fastforce

end
