(* ===== verification/Ratchet.thy ===== *)
theory Ratchet
  imports Prims
begin

text \<open>
  The session cryptography of \<^verbatim>\<open>src/crypto\<close>: \<^verbatim>\<open>SecureMessage\<close> and its wire form
  (\<^verbatim>\<open>kex_hybrid_nanopack.go\<close>), the state \<^verbatim>\<open>SecurePeer\<close> of one session, the hybrid handshake, and the
  send and receive sides of the double ratchet (\<^verbatim>\<open>kex_hybrid.go\<close>, \<^verbatim>\<open>ratchet.go\<close>, \<^verbatim>\<open>utils.go\<close>).

  Byte slices are byte lists.  A slice whose \<^verbatim>\<open>nil\<close> value the code distinguishes is an option.  A nil
  map reads like an empty one and every write is guarded by a nil check, so both maps of a peer
  are plain maps.  Go's \<^verbatim>\<open>int\<close> counters are integers; what goes on the wire is a 64-bit word.
  Randomness (\<^verbatim>\<open>rand.Reader\<close>) is an explicit argument.
\<close>

subsection \<open>Data\<close>

datatype crypto_error =
    ParseFrame np_error            \<comment> \<open>error parsing message frame\<close>
  | NonceRange "64 word"           \<comment> \<open>nonce out of range\<close>
  | EncodeCanonical                \<comment> \<open>encoding canonical payload\<close>
  | EncodeFrame                    \<comment> \<open>encoding message frame\<close>
  | InvalidTag                     \<comment> \<open>invalid authentication tag\<close>
  | ErrReplay int int              \<comment> \<open>replay attack or message too old (N, expected)\<close>
  | TooManySkipped                 \<comment> \<open>too many skipped messages\<close>
  | AeadKey                        \<comment> \<open>chacha20poly1305.NewX: bad key length\<close>
  | AeadOpen                       \<comment> \<open>ciphertext tampered or invalid AEAD\<close>
  | BadIdentityLen nat             \<comment> \<open>invalid identity public key length\<close>
  | BadEd25519Sig
  | BadDilithiumSig
  | PeerIdMismatch
  | X25519Error

record SecureMessage =
  SenderID :: string
  RatchetKey :: "bytes option"
  Nonce :: "64 word"
  Ciphertext :: bytes
  Tag :: bytes
  RequestKey :: bytes
  AcceptedKey :: bytes

record SecurePeer =
  ExpectedPeerHash :: "bytes option"
  IdentityPrivate :: bytes
  IdentityPublic :: bytes
  PqcSignPrivate :: bytes
  PqcSignPublic :: bytes
  Private :: bytes
  Public :: bytes
  PqcPrivateKey :: bytes
  PqcPublicKey :: bytes
  DhPrivate :: bytes
  DhPublic :: bytes
  RemoteDhPublic :: "bytes option"
  RootKey :: bytes
  SendCk :: bytes
  RecvCk :: bytes
  HmacKey :: bytes
  FileKey :: bytes
  SendNonce :: int
  RecvNonce :: int
  SkippedMessages :: "string \<rightharpoonup> bytes"
  AmInitiator :: bool
  RemotePendingKey :: bytes
  PubPendingKey :: bytes
  PrivPnedingKey :: bytes
  pendingDhRatchet :: bool
  SeenOffers :: "string \<Rightarrow> bool"

text \<open>The bytes of a possibly nil slice.\<close>

definition octets :: "bytes option \<Rightarrow> bytes" where
  "octets x = (case x of None \<Rightarrow> [] | Some b \<Rightarrow> b)"

lemma octets_simps [simp]: "octets None = []" "octets (Some b) = b"
  by (simp_all add: octets_def)

definition lowSecurity :: bool where "lowSecurity = False"
definition maxSkip :: int where "maxSkip = 1000"
definition maxWireNonce :: "64 word" where "maxWireNonce = push_bit 31 1"

subsection \<open>Small helpers\<close>

text \<open>The loop fills the slice from its last byte; \<^verbatim>\<open>n >>= 8\<close> on a signed int is floor division.\<close>

fun IntToBytes :: "int \<Rightarrow> nat \<Rightarrow> bytes" where
  "IntToBytes n 0 = []"
| "IntToBytes n (Suc k) = IntToBytes (n div 256) k @ [word_of_int n]"

definition RatchetStep :: "prims \<Rightarrow> bytes \<Rightarrow> bytes \<times> bytes" where
  "RatchetStep P ck =
     (let material = p_hkdf P ck [] (to_bytes ''ratchet-step'') 64
      in (take 32 material, drop 32 material))"

definition GenerateX25519KeyPair :: "prims \<Rightarrow> bytes \<Rightarrow> bytes \<times> bytes" where
  "GenerateX25519KeyPair P rnd = (rnd, p_basemult P rnd)"

text \<open>\<^verbatim>\<open>dhShared, _ := curve25519.X25519(priv, pub)\<close>: on an error the result is a nil slice.\<close>

definition dh_or_nil :: "prims \<Rightarrow> bytes \<Rightarrow> bytes option \<Rightarrow> bytes" where
  "dh_or_nil P priv pub = octets (p_x25519 P priv (octets pub))"

definition DerivePeerID :: "prims \<Rightarrow> bytes \<Rightarrow> bytes \<Rightarrow> string" where
  "DerivePeerID P identityPublic dilithiumPublic =
     p_b58enc P (identityPublic @ p_sha3_256 P dilithiumPublic)"

definition DilithiumVerify :: "prims \<Rightarrow> bytes \<Rightarrow> bytes \<Rightarrow> bytes \<Rightarrow> bool" where
  "DilithiumVerify P pub message sig =
     (case p_dil_verify P pub message sig of None \<Rightarrow> False | Some ok \<Rightarrow> ok)"

definition buildSignMessage :: "SecurePeer \<Rightarrow> bytes \<Rightarrow> bytes \<Rightarrow> bytes" where
  "buildSignMessage sp offerID recipientID =
     concat [recipientID, Public sp, DhPublic sp, PqcPublicKey sp, PqcSignPublic sp, offerID]"

definition GetSign :: "prims \<Rightarrow> SecurePeer \<Rightarrow> bytes \<Rightarrow> bytes \<Rightarrow> bytes" where
  "GetSign P sp offerID recipientID =
     p_ed_sign P (IdentityPrivate sp) (buildSignMessage sp offerID recipientID)"

text \<open>\<open>None\<close> stands for the panic on a private key that does not unmarshal.\<close>

definition GetDilithiumSign :: "prims \<Rightarrow> SecurePeer \<Rightarrow> bytes \<Rightarrow> bytes \<Rightarrow> bytes option" where
  "GetDilithiumSign P sp offerID recipientID =
     p_dil_sign P (PqcSignPrivate sp) (buildSignMessage sp offerID recipientID)"

definition sortedByHash :: "prims \<Rightarrow> bytes \<Rightarrow> bytes \<Rightarrow> bytes \<times> bytes" where
  "sortedByHash P a b = (if p_sha256 P a < p_sha256 P b then (a, b) else (b, a))"

definition getSkipKeyStr :: "string \<Rightarrow> int \<Rightarrow> string" where
  "getSkipKeyStr dh n = dh @ '':'' @ dec_int n"

definition GetTranscript :: "prims \<Rightarrow> SecurePeer \<Rightarrow> bytes \<Rightarrow> bytes \<Rightarrow> bytes \<Rightarrow> bytes \<Rightarrow> bytes" where
  "GetTranscript P sp peerIdentity peerPublic peerDhPublic peerPqcPublic =
     (let items = [IdentityPublic sp, Public sp, DhPublic sp, PqcPublicKey sp,
                   peerIdentity, peerPublic, peerDhPublic, peerPqcPublic];
          hashedItems = sort (map (p_sha3_256 P) items)
      in p_sha3_512 P (to_bytes ''ML-KEM-ECC-Hybrid-Transcript-v1'' @ concat hashedItems))"

subsection \<open>The hybrid handshake\<close>

definition Handshake ::
  "prims \<Rightarrow> bytes \<Rightarrow> bytes \<Rightarrow> bytes option \<Rightarrow> bytes \<Rightarrow> bytes \<Rightarrow> bytes \<Rightarrow> bytes \<Rightarrow> bytes \<Rightarrow> bytes
   \<Rightarrow> bytes \<Rightarrow> SecurePeer \<Rightarrow> crypto_error option \<times> SecurePeer" where
  "Handshake P peerIdentity peerPublic peerDhPublic peerKyberPublic peerDilithiumPublic
       peerEd25519Sig peerDilithiumSig pqcSharedSecret offerID recipientId sp =
     (if length peerIdentity \<noteq> 32 then (Some (BadIdentityLen (length peerIdentity)), sp)
      else
        let msg = concat [recipientId, peerPublic, octets peerDhPublic, peerKyberPublic,
                          peerDilithiumPublic, offerID];
            expectedID = DerivePeerID P peerIdentity peerDilithiumPublic
        in if \<not> p_ed_verify P peerIdentity msg peerEd25519Sig then (Some BadEd25519Sig, sp)
           else if \<not> DilithiumVerify P peerDilithiumPublic msg peerDilithiumSig
             then (Some BadDilithiumSig, sp)
           else if ExpectedPeerHash sp \<noteq> None \<and> to_bytes expectedID \<noteq> octets (ExpectedPeerHash sp)
             then (Some PeerIdMismatch, sp)
           else case p_x25519 P (Private sp) peerPublic of
             None \<Rightarrow> (Some X25519Error, sp)
           | Some eccShared \<Rightarrow>
             let hybridSharedSecret = eccShared @ pqcSharedSecret;
                 p1 = fst (sortedByHash P peerIdentity (IdentityPublic sp));
                 amInit = (p1 = IdentityPublic sp);
                 transcript = GetTranscript P sp peerIdentity peerPublic (octets peerDhPublic) peerKyberPublic;
                 rootMat = p_hkdf P hybridSharedSecret transcript (to_bytes ''initial-root'') 32;
                 dhShared = dh_or_nil P (DhPrivate sp) peerDhPublic;
                 mat = p_hkdf P dhShared rootMat (to_bytes ''ratchet-root'') 160;
                 c0 = take 32 mat;
                 c1 = take 32 (drop 32 mat)
             in (None, sp\<lparr>AmInitiator := amInit,
                          RemoteDhPublic := peerDhPublic,
                          SendCk := (if amInit then c0 else c1),
                          RecvCk := (if amInit then c1 else c0),
                          RootKey := take 32 (drop 64 mat),
                          HmacKey := take 32 (drop 96 mat),
                          FileKey := take 32 (drop 128 mat),
                          SendNonce := 0,
                          RecvNonce := 0,
                          pendingDhRatchet := (if amInit then pendingDhRatchet sp else True)\<rparr>))"

subsection \<open>Ratchet steps\<close>

function skip_to :: "prims \<Rightarrow> string \<Rightarrow> int \<Rightarrow> SecurePeer \<Rightarrow> SecurePeer" where
  "skip_to P remoteDhStr until sp =
     (if RecvNonce sp < until then
        let (nextCk, mk) = RatchetStep P (RecvCk sp)
        in skip_to P remoteDhStr until
             (sp\<lparr>RecvCk := nextCk,
                 SkippedMessages :=
                   (SkippedMessages sp)(getSkipKeyStr remoteDhStr (RecvNonce sp) \<mapsto> mk),
                 RecvNonce := RecvNonce sp + 1\<rparr>)
      else sp)"
  by pat_completeness auto
termination
  by (relation "measure (\<lambda>(P, s, until, sp). nat (until - RecvNonce sp))") auto

declare skip_to.simps [simp del]

definition SkipMessageKeys :: "prims \<Rightarrow> int \<Rightarrow> SecurePeer \<Rightarrow> crypto_error option \<times> SecurePeer" where
  "SkipMessageKeys P until sp =
     (if RecvNonce sp + maxSkip < until then (Some TooManySkipped, sp)
      else (None, skip_to P (b64_encode (octets (RemoteDhPublic sp))) until sp))"

definition DhRatchet :: "prims \<Rightarrow> bytes option \<Rightarrow> SecurePeer \<Rightarrow> SecurePeer" where
  "DhRatchet P remoteKey sp =
     (let dhShared = dh_or_nil P (DhPrivate sp) remoteKey;
          material = p_hkdf P dhShared (RootKey sp) (to_bytes ''ratchet-root'') 64
      in sp\<lparr>RemoteDhPublic := remoteKey,
            RootKey := take 32 material,
            RecvCk := drop 32 material,
            RecvNonce := 0,
            pendingDhRatchet := True\<rparr>)"

subsection \<open>Wire form\<close>

definition SecureMessage_MarshalBinID :: "SecureMessage \<Rightarrow> npfield list" where
  "SecureMessage_MarshalBinID p =
     [(1, to_bytes (SenderID p)), (2, octets (RatchetKey p)), (3, putU64 (Nonce p)), (4, Ciphertext p)]"

definition empty_SecureMessage :: SecureMessage where
  "empty_SecureMessage =
     \<lparr>SenderID = [], RatchetKey = None, Nonce = 0, Ciphertext = [], Tag = [], RequestKey = [],
      AcceptedKey = []\<rparr>"

definition SecureMessage_field :: "npfield \<Rightarrow> SecureMessage \<Rightarrow> np_error + SecureMessage" where
  "SecureMessage_field f p =
     (let (id, data) = f in
      if id = 1 then Inr (p\<lparr>SenderID := to_str data\<rparr>)
      else if id = 2 then Inr (p\<lparr>RatchetKey := Some data\<rparr>)
      else if id = 3 then
        (if length data \<noteq> 8 then Inl ErrShortBody else Inr (p\<lparr>Nonce := beU64 data\<rparr>))
      else if id = 4 then Inr (p\<lparr>Ciphertext := data\<rparr>)
      else Inr p)"

definition SecureMessage_UnmarshalBinID :: "npfield list \<Rightarrow> np_error + SecureMessage" where
  "SecureMessage_UnmarshalBinID fs = fold_fields SecureMessage_field fs empty_SecureMessage"

definition secureMessageHmacPayload :: "prims \<Rightarrow> SecureMessage \<Rightarrow> np_error + bytes" where
  "secureMessageHmacPayload P msg = MarshalFastID P SecureMessage_MarshalBinID msg"

text \<open>The loop keeps the data of the last field with the tag's ID.\<close>

definition last_field :: "byte \<Rightarrow> npfield list \<Rightarrow> bytes \<Rightarrow> bytes" where
  "last_field i fs d = fold (\<lambda>f acc. if fst f = i then snd f else acc) fs d"

definition parseSecureMessage :: "prims \<Rightarrow> bytes \<Rightarrow> crypto_error + SecureMessage" where
  "parseSecureMessage P payload =
     (case p_np_dec P payload of
        None \<Rightarrow> Inl (ParseFrame NpDecode)
      | Some fs \<Rightarrow>
          (case SecureMessage_UnmarshalBinID fs of
             Inl e \<Rightarrow> Inl (ParseFrame e)
           | Inr msg \<Rightarrow>
               let msg' = msg\<lparr>Tag := last_field 5 fs []\<rparr>
               in if Nonce msg' \<ge> maxWireNonce then Inl (NonceRange (Nonce msg')) else Inr msg'))"

definition SenderIDFromFrame :: "prims \<Rightarrow> bytes \<Rightarrow> crypto_error + string" where
  "SenderIDFromFrame P payload =
     (case parseSecureMessage P payload of Inl e \<Rightarrow> Inl e | Inr msg \<Rightarrow> Inr (SenderID msg))"

subsection \<open>Sending\<close>

text \<open>The DH half of the send ratchet, run when a new remote key has been seen.\<close>

definition send_ratchet :: "prims \<Rightarrow> bytes \<Rightarrow> SecurePeer \<Rightarrow> SecurePeer" where
  "send_ratchet P rnd sp =
     (if pendingDhRatchet sp then
        let (priv, pub) = GenerateX25519KeyPair P rnd;
            dhShared = dh_or_nil P priv (RemoteDhPublic sp);
            material = p_hkdf P dhShared (RootKey sp) (to_bytes ''ratchet-root'') 64
        in sp\<lparr>DhPrivate := priv, DhPublic := pub,
              RootKey := take 32 material, SendCk := drop 32 material,
              SendNonce := 0, pendingDhRatchet := False\<rparr>
      else sp)"

text \<open>The message key of the next message, and the state with the chain advanced.\<close>

definition next_send_key :: "prims \<Rightarrow> bytes \<Rightarrow> SecurePeer \<Rightarrow> bytes \<times> SecurePeer" where
  "next_send_key P rnd sp =
     (if \<not> lowSecurity then
        let sp1 = send_ratchet P rnd sp;
            (nextCk, mk) = RatchetStep P (SendCk sp1)
        in (mk, sp1\<lparr>SendCk := nextCk\<rparr>)
      else (p_hkdf_expand P (SendCk sp) (IntToBytes (SendNonce sp) 8) 32, sp))"

definition Encrypt ::
  "prims \<Rightarrow> bytes \<Rightarrow> string \<Rightarrow> bytes \<Rightarrow> SecurePeer \<Rightarrow> (crypto_error + bytes) \<times> SecurePeer" where
  "Encrypt P rnd senderName plaintext sp =
     (let (mk, sp1) = next_send_key P rnd sp in
      if length mk \<noteq> 32 then (Inl AeadKey, sp1)
      else
        let currentDhPublic = DhPublic sp1;
            nonce = IntToBytes (SendNonce sp1) 24;
            aad = currentDhPublic @ IntToBytes (SendNonce sp1) 8;
            ciphertext = p_seal P mk nonce plaintext aad;
            msg = \<lparr>SenderID = senderName, RatchetKey = Some currentDhPublic,
                   Nonce = word_of_int (SendNonce sp1), Ciphertext = ciphertext, Tag = [],
                   RequestKey = [], AcceptedKey = []\<rparr>
        in case secureMessageHmacPayload P msg of
             Inl e \<Rightarrow> (Inl EncodeCanonical, sp1)
           | Inr canonical \<Rightarrow>
               let tag = p_hmac P (HmacKey sp1) canonical
               in case p_np_enc P (SecureMessage_MarshalBinID msg @ [(5, tag)]) of
                    None \<Rightarrow> (Inl EncodeFrame, sp1)
                  | Some wire \<Rightarrow> (Inr wire, sp1\<lparr>SendNonce := SendNonce sp1 + 1\<rparr>))"

subsection \<open>Receiving\<close>

definition DecryptWithKey :: "prims \<Rightarrow> bytes \<Rightarrow> int \<Rightarrow> bytes \<Rightarrow> bytes \<Rightarrow> crypto_error + bytes" where
  "DecryptWithKey P mk n ciphertext dhPub =
     (if length mk \<noteq> 32 then Inl AeadKey
      else case p_open P mk (IntToBytes n 24) ciphertext (dhPub @ IntToBytes n 8) of
        None \<Rightarrow> Inl AeadOpen
      | Some plaintext \<Rightarrow> Inr plaintext)"

definition VerifyCiphertext :: "prims \<Rightarrow> bytes \<Rightarrow> int \<Rightarrow> bytes \<Rightarrow> bytes \<Rightarrow> bool" where
  "VerifyCiphertext P mk n ciphertext dhPub =
     (if length mk \<noteq> 32 then False
      else p_open P mk (IntToBytes n 24) ciphertext (dhPub @ IntToBytes n 8) \<noteq> None)"

definition open_message ::
  "prims \<Rightarrow> bytes \<Rightarrow> int \<Rightarrow> SecureMessage \<Rightarrow> crypto_error + string \<times> bytes" where
  "open_message P mk nonce msg =
     (case DecryptWithKey P mk nonce (Ciphertext msg) (octets (RatchetKey msg)) of
        Inl e \<Rightarrow> Inl e | Inr plaintext \<Rightarrow> Inr (SenderID msg, plaintext))"

text \<open>The part of \<^verbatim>\<open>Decrypt\<close> after the tag has been verified.\<close>

definition DecryptVerified ::
  "prims \<Rightarrow> SecureMessage \<Rightarrow> SecurePeer \<Rightarrow> (crypto_error + string \<times> bytes) \<times> SecurePeer" where
  "DecryptVerified P msg sp =
     (let nonce = uint (Nonce msg) in
      if lowSecurity then
        (open_message P (p_hkdf_expand P (RecvCk sp) (IntToBytes nonce 8) 32) nonce msg, sp)
      else
        let skipKeyStr = getSkipKeyStr (b64_encode (octets (RatchetKey msg))) nonce
        in case SkippedMessages sp skipKeyStr of
             Some mk \<Rightarrow>
               (open_message P mk nonce msg,
                sp\<lparr>SkippedMessages := (SkippedMessages sp)(skipKeyStr := None)\<rparr>)
           | None \<Rightarrow>
               let sp1 = (if RemoteDhPublic sp = None
                             \<or> octets (RatchetKey msg) \<noteq> octets (RemoteDhPublic sp)
                          then DhRatchet P (RatchetKey msg) sp else sp)
               in if nonce < RecvNonce sp1 then (Inl (ErrReplay nonce (RecvNonce sp1)), sp1)
                  else
                    let sp2 = skip_to P (b64_encode (octets (RemoteDhPublic sp1))) nonce sp1;
                        (nextCk, mk) = RatchetStep P (RecvCk sp2);
                        sp3 = sp2\<lparr>RecvCk := nextCk, RecvNonce := RecvNonce sp2 + 1\<rparr>
                    in (open_message P mk nonce msg, sp3))"

definition Decrypt ::
  "prims \<Rightarrow> bytes \<Rightarrow> SecurePeer \<Rightarrow> (crypto_error + string \<times> bytes) \<times> SecurePeer" where
  "Decrypt P payload sp =
     (case parseSecureMessage P payload of
        Inl e \<Rightarrow> (Inl e, sp)
      | Inr msg \<Rightarrow>
          (case secureMessageHmacPayload P msg of
             Inl e \<Rightarrow> (Inl EncodeCanonical, sp)
           | Inr canonical \<Rightarrow>
               if Tag msg \<noteq> p_hmac P (HmacKey sp) canonical then (Inl InvalidTag, sp)
               else DecryptVerified P msg sp))"


subsection \<open>Basic facts\<close>

lemma lowSecurity_off [simp]: "\<not> lowSecurity"
  by (simp add: lowSecurity_def)

lemma length_IntToBytes [simp]: "length (IntToBytes n k) = k"
  by (induction k arbitrary: n) auto

lemma RatchetStep_lengths:
  assumes "hkdf_law P"
  shows "length (fst (RatchetStep P ck)) = 32" "length (snd (RatchetStep P ck)) = 32"
  using assms by (simp_all add: RatchetStep_def Let_def hkdf_law_def)

lemma unat_maxWireNonce: "unat maxWireNonce = 2 ^ 31"
  by (simp add: maxWireNonce_def push_bit_eq_mult)

lemma wire_nonce:
  assumes "0 \<le> n" "n < 2 ^ 31"
  shows "uint (word_of_int n :: 64 word) = n" "\<not> maxWireNonce \<le> (word_of_int n :: 64 word)"
proof -
  have "n mod 2 ^ 64 = n" using assms by (intro mod_pos_pos_trivial) auto
  then show u: "uint (word_of_int n :: 64 word) = n"
    by (simp add: uint_word_of_int)
  have "uint maxWireNonce = 2 ^ 31" using unat_maxWireNonce by (metis of_nat_numeral of_nat_power uint_nat)
  then show "\<not> maxWireNonce \<le> (word_of_int n :: 64 word)"
    using u assms(2) by (simp only: word_le_def)
qed

interpretation sm: bin_codec SecureMessage_MarshalBinID SecureMessage_UnmarshalBinID
  "\<lambda>m. RatchetKey m \<noteq> None \<and> Tag m = [] \<and> RequestKey m = [] \<and> AcceptedKey m = []"
  by unfold_locales
    (auto simp: SecureMessage_MarshalBinID_def SecureMessage_UnmarshalBinID_def SecureMessage_field_def
      empty_SecureMessage_def intro!: SecureMessage.equality)

text \<open>Skipped-key strings identify the ratchet key and the message number.\<close>

lemma getSkipKeyStr_inject [simp]:
  "getSkipKeyStr (b64_encode a) i = getSkipKeyStr (b64_encode b) j \<longleftrightarrow> a = b \<and> i = j"
proof -
  have "CHR '':'' \<notin> set (b64_encode x)" for x using b64_encode_plain by blast
  then show ?thesis by (simp add: getSkipKeyStr_def separator_unique)
qed

subsection \<open>Symmetric chains\<close>

text \<open>The chain key and the message key at position \<open>n\<close> of the chain that starts at \<open>ck\<close>.\<close>

fun ck_at :: "prims \<Rightarrow> bytes \<Rightarrow> nat \<Rightarrow> bytes" where
  "ck_at P ck 0 = ck"
| "ck_at P ck (Suc n) = fst (RatchetStep P (ck_at P ck n))"

definition mk_at :: "prims \<Rightarrow> bytes \<Rightarrow> nat \<Rightarrow> bytes" where
  "mk_at P ck n = snd (RatchetStep P (ck_at P ck n))"

lemma length_mk_at: "hkdf_law P \<Longrightarrow> length (mk_at P ck n) = 32"
  by (simp add: mk_at_def RatchetStep_lengths)

lemma ck_at_shift: "ck_at P (fst (RatchetStep P ck)) n = ck_at P ck (Suc n)"
  by (induction n) auto

lemma mk_at_shift: "mk_at P (fst (RatchetStep P ck)) n = mk_at P ck (Suc n)"
  by (simp add: mk_at_def ck_at_shift del: ck_at.simps)

lemma ck_at_add: "ck_at P (ck_at P ck m) n = ck_at P ck (m + n)"
  by (induction n) auto

lemma mk_at_add: "mk_at P (ck_at P ck m) n = mk_at P ck (m + n)"
  by (simp add: mk_at_def ck_at_add)

lemma skip_to_done: "until \<le> RecvNonce sp \<Longrightarrow> skip_to P s until sp = sp"
  by (simp add: skip_to.simps)

lemma skip_to_frame:
  "HmacKey (skip_to P s until sp) = HmacKey sp"
  "RemoteDhPublic (skip_to P s until sp) = RemoteDhPublic sp"
  "RootKey (skip_to P s until sp) = RootKey sp"
  "DhPrivate (skip_to P s until sp) = DhPrivate sp"
  "DhPublic (skip_to P s until sp) = DhPublic sp"
  "SendCk (skip_to P s until sp) = SendCk sp"
  "SendNonce (skip_to P s until sp) = SendNonce sp"
  "pendingDhRatchet (skip_to P s until sp) = pendingDhRatchet sp"
  "SeenOffers (skip_to P s until sp) = SeenOffers sp"
  by (induction P s until sp rule: skip_to.induct, subst skip_to.simps, simp add: Let_def case_prod_beta)+

lemma skip_to_RecvNonce: "RecvNonce sp \<le> until \<Longrightarrow> RecvNonce (skip_to P s until sp) = until"
proof (induction P s until sp rule: skip_to.induct)
  case (1 P s until sp)
  then show ?case by (subst skip_to.simps) (auto simp: Let_def case_prod_beta)
qed

lemma skip_to_RecvCk:
  "RecvCk (skip_to P s until sp) = ck_at P (RecvCk sp) (nat (until - RecvNonce sp))"
proof (induction P s until sp rule: skip_to.induct)
  case (1 P s until sp)
  show ?case
  proof (cases "RecvNonce sp < until")
    case True
    then have "nat (until - RecvNonce sp) = Suc (nat (until - (RecvNonce sp + 1)))" by simp
    then show ?thesis using 1 True
      by (subst skip_to.simps) (simp add: Let_def case_prod_beta ck_at_shift del: ck_at.simps)
  qed (simp add: skip_to_done)
qed

lemma skip_to_Skipped:
  "SkippedMessages (skip_to P (b64_encode k) until sp) (getSkipKeyStr (b64_encode k') j) =
     (if k' = k \<and> RecvNonce sp \<le> j \<and> j < until
      then Some (mk_at P (RecvCk sp) (nat (j - RecvNonce sp)))
      else SkippedMessages sp (getSkipKeyStr (b64_encode k') j))"
proof (induction "nat (until - RecvNonce sp)" arbitrary: sp)
  case 0
  then show ?case by (auto simp: skip_to_done)
next
  case (Suc m)
  let ?sp' = "sp\<lparr>RecvCk := fst (RatchetStep P (RecvCk sp)),
       SkippedMessages := (SkippedMessages sp)(getSkipKeyStr (b64_encode k) (RecvNonce sp) \<mapsto>
          snd (RatchetStep P (RecvCk sp))), RecvNonce := RecvNonce sp + 1\<rparr>"
  have lt: "RecvNonce sp < until" using Suc.hyps(2) by linarith
  have m: "m = nat (until - RecvNonce ?sp')" using Suc.hyps(2) by simp
  have unf: "skip_to P (b64_encode k) until sp = skip_to P (b64_encode k) until ?sp'"
    using lt by (subst skip_to.simps) (simp add: Let_def case_prod_beta)
  have shift: "mk_at P (fst (RatchetStep P (RecvCk sp))) (nat (j - (RecvNonce sp + 1))) =
      mk_at P (RecvCk sp) (nat (j - RecvNonce sp))" if "RecvNonce sp < j"
  proof -
    have "nat (j - RecvNonce sp) = Suc (nat (j - (RecvNonce sp + 1)))" using that by simp
    then show ?thesis by (simp add: mk_at_shift)
  qed
  show ?case unfolding unf Suc.hyps(1) [OF m]
    using lt shift by (auto simp: mk_at_def)
qed

subsection \<open>Frames\<close>

text \<open>The message \<open>Encrypt\<close> builds for a plaintext, before its tag is added.\<close>

definition sealed :: "prims \<Rightarrow> string \<Rightarrow> bytes \<Rightarrow> bytes \<Rightarrow> int \<Rightarrow> bytes \<Rightarrow> SecureMessage" where
  "sealed P sender dh mk n pt =
     \<lparr>SenderID = sender, RatchetKey = Some dh, Nonce = word_of_int n,
      Ciphertext = p_seal P mk (IntToBytes n 24) pt (dh @ IntToBytes n 8),
      Tag = [], RequestKey = [], AcceptedKey = []\<rparr>"

text \<open>\<open>w\<close> is the wire frame of that message, tagged under \<open>hk\<close>.\<close>

definition is_frame ::
  "prims \<Rightarrow> bytes \<Rightarrow> string \<Rightarrow> bytes \<Rightarrow> bytes \<Rightarrow> int \<Rightarrow> bytes \<Rightarrow> bytes \<Rightarrow> bool" where
  "is_frame P hk sender dh mk n pt w \<longleftrightarrow>
     (\<exists>canonical. secureMessageHmacPayload P (sealed P sender dh mk n pt) = Inr canonical \<and>
        p_np_enc P (SecureMessage_MarshalBinID (sealed P sender dh mk n pt) @
          [(5, p_hmac P hk canonical)]) = Some w)"

lemma is_frame_exists: "np_law P \<Longrightarrow> \<exists>w. is_frame P hk sender dh mk n pt w"
proof -
  assume np: "np_law P"
  obtain c where "secureMessageHmacPayload P (sealed P sender dh mk n pt) = Inr c"
    using sm.fast_marshal_total [OF np] by (auto simp: secureMessageHmacPayload_def)
  moreover obtain w where "p_np_enc P (SecureMessage_MarshalBinID (sealed P sender dh mk n pt) @
      [(5, p_hmac P hk c)]) = Some w"
    by (rule np_enc_dec [OF np, of "SecureMessage_MarshalBinID (sealed P sender dh mk n pt) @
      [(5, p_hmac P hk c)]"]) (auto simp: SecureMessage_MarshalBinID_def)
  ultimately show ?thesis by (auto simp: is_frame_def)
qed

lemma send_ratchet_id [simp]: "\<not> pendingDhRatchet sp \<Longrightarrow> send_ratchet P rnd sp = sp"
  by (simp add: send_ratchet_def)

lemma send_ratchet_HmacKey [simp]: "HmacKey (send_ratchet P rnd sp) = HmacKey sp"
  by (simp add: send_ratchet_def Let_def case_prod_beta)

text \<open>
  With the laws of HKDF and of the serializer, \<open>Encrypt\<close> always succeeds; it emits the frame of the
  next message of the send chain and advances that chain by one.
\<close>

lemma Encrypt_frame:
  assumes "np_law P" and "hkdf_law P"
  shows "\<exists>w. Encrypt P rnd sender pt sp =
           (Inr w, (send_ratchet P rnd sp)\<lparr>SendCk := ck_at P (SendCk (send_ratchet P rnd sp)) 1,
                      SendNonce := SendNonce (send_ratchet P rnd sp) + 1\<rparr>) \<and>
         is_frame P (HmacKey sp) sender (DhPublic (send_ratchet P rnd sp))
           (mk_at P (SendCk (send_ratchet P rnd sp)) 0) (SendNonce (send_ratchet P rnd sp)) pt w"
proof -
  let ?s = "send_ratchet P rnd sp"
  let ?mk = "mk_at P (SendCk ?s) 0"
  obtain w where w: "is_frame P (HmacKey sp) sender (DhPublic ?s) ?mk (SendNonce ?s) pt w"
    using is_frame_exists [OF assms(1)] by blast
  have "length ?mk = 32" by (rule length_mk_at [OF assms(2)])
  then have "Encrypt P rnd sender pt sp = (Inr w, ?s\<lparr>SendCk := ck_at P (SendCk ?s) 1,
                      SendNonce := SendNonce ?s + 1\<rparr>)"
    using w by (auto simp: Encrypt_def next_send_key_def Let_def case_prod_beta mk_at_def
      is_frame_def sealed_def)
  then show ?thesis using w by blast
qed

lemma last_field_append [simp]:
  "last_field i (fs @ [f]) d = (if fst f = i then snd f else last_field i fs d)"
  by (simp add: last_field_def)

lemma parse_frame:
  assumes "np_law P" and "is_frame P hk sender dh mk n pt w" and "0 \<le> n" "n < 2 ^ 31"
  shows "\<exists>c. secureMessageHmacPayload P (sealed P sender dh mk n pt) = Inr c \<and>
             parseSecureMessage P w = Inr ((sealed P sender dh mk n pt)\<lparr>Tag := p_hmac P hk c\<rparr>)"
proof -
  let ?m = "sealed P sender dh mk n pt"
  obtain c where c: "secureMessageHmacPayload P ?m = Inr c"
    "p_np_enc P (SecureMessage_MarshalBinID ?m @ [(5, p_hmac P hk c)]) = Some w"
    using assms(2) by (auto simp: is_frame_def)
  have dec: "p_np_dec P w = Some (SecureMessage_MarshalBinID ?m @ [(5, p_hmac P hk c)])"
    by (rule np_dec_enc [OF assms(1) _ c(2)]) (simp add: SecureMessage_MarshalBinID_def)
  have "SecureMessage_UnmarshalBinID (SecureMessage_MarshalBinID ?m) = Inr ?m"
    by (rule sm.unmarshal_marshal) (simp add: sealed_def)
  then have un: "SecureMessage_UnmarshalBinID (SecureMessage_MarshalBinID ?m @ [(5, p_hmac P hk c)]) = Inr ?m"
    by (simp add: SecureMessage_UnmarshalBinID_def fold_fields_append SecureMessage_field_def)
  have "\<not> maxWireNonce \<le> Nonce ?m" using wire_nonce(2) [OF assms(3,4)] by (simp add: sealed_def)
  then show ?thesis using c(1) dec un
    by (auto simp: parseSecureMessage_def Let_def)
qed

lemma hmac_payload_Tag: "secureMessageHmacPayload P (m\<lparr>Tag := t\<rparr>) = secureMessageHmacPayload P m"
  by (simp add: secureMessageHmacPayload_def MarshalFastID_def SecureMessage_MarshalBinID_def)

lemma open_message_Tag: "open_message P mk n (m\<lparr>Tag := t\<rparr>) = open_message P mk n m"
  by (simp add: open_message_def split: sum.splits)

lemma DecryptVerified_Tag: "DecryptVerified P (m\<lparr>Tag := t\<rparr>) sp = DecryptVerified P m sp"
  by (simp add: DecryptVerified_def Let_def case_prod_beta open_message_Tag
    cong: if_cong option.case_cong)

text \<open>A frame tagged under the session's HMAC key reaches the ratchet.\<close>

lemma Decrypt_frame:
  assumes "np_law P" and "is_frame P (HmacKey sp) sender dh mk n pt w" and "0 \<le> n" "n < 2 ^ 31"
  shows "Decrypt P w sp = DecryptVerified P (sealed P sender dh mk n pt) sp"
proof -
  obtain c where "secureMessageHmacPayload P (sealed P sender dh mk n pt) = Inr c"
    "parseSecureMessage P w = Inr ((sealed P sender dh mk n pt)\<lparr>Tag := p_hmac P (HmacKey sp) c\<rparr>)"
    using parse_frame [OF assms] by blast
  then show ?thesis by (simp add: Decrypt_def hmac_payload_Tag DecryptVerified_Tag)
qed

lemma open_sealed:
  assumes "aead_law P" and "length mk = 32"
  shows "open_message P mk n (sealed P sender dh mk n pt) = Inr (sender, pt)"
  using assms by (simp add: open_message_def DecryptWithKey_def sealed_def aead_law_def)

end
