(* ===== verification/Engine.thy ===== *)
theory Engine
  imports Ratchet
begin

text \<open>
  The handshake protocol of \<^verbatim>\<open>src/core\<close>: the offer and the answer with their wire forms
  (\<^verbatim>\<open>models.go\<close>), and the three steps of the stateless engine
   (\<^verbatim>\<open>engine.go\<close>).

  The legacy JSON encoding is read by \<^verbatim>\<open>encoding/json\<close>; the two decoders take that reader as the
  argument \<open>J\<close>.  Copying a decoded field into a fresh buffer (\<^verbatim>\<open>cloneAll\<close>) is the identity on
  values.  The randomness of each step is an argument: the coins of the two X25519 key pairs, of the
  Kyber768 key pair, the offer identifier and the coins of the encapsulation.
\<close>

subsection \<open>Offers\<close>

record HandShakeOffer =
  o_SenderId :: string
  o_RecipientId :: bytes
  o_OfferID :: bytes
  o_IdPub :: bytes
  o_Pub :: bytes
  o_DhPub :: "bytes option"
  o_KyberPub :: bytes
  o_DilithiumPub :: bytes
  o_Sign :: bytes
  o_DilithiumSign :: bytes

definition HandShakeOffer_MarshalBinID :: "HandShakeOffer \<Rightarrow> npfield list" where
  "HandShakeOffer_MarshalBinID ho =
     [(1, to_bytes (o_SenderId ho)), (2, o_RecipientId ho), (3, o_OfferID ho), (4, o_IdPub ho),
      (5, o_Pub ho), (6, octets (o_DhPub ho)), (7, o_KyberPub ho), (8, o_DilithiumPub ho), (9,
      o_Sign ho), (10, o_DilithiumSign ho)]"

definition empty_HandShakeOffer :: HandShakeOffer where
  "empty_HandShakeOffer =
     \<lparr>o_SenderId = [], o_RecipientId = [], o_OfferID = [], o_IdPub = [], o_Pub = [],
      o_DhPub = None, o_KyberPub = [], o_DilithiumPub = [], o_Sign = [], o_DilithiumSign =
      []\<rparr>"

definition HandShakeOffer_field :: "npfield \<Rightarrow> HandShakeOffer \<Rightarrow> np_error + HandShakeOffer" where
  "HandShakeOffer_field f ho =
     (let (id, data) = f in
      if id = 1 then Inr (ho\<lparr>o_SenderId := to_str data\<rparr>)
      else if id = 2 then Inr (ho\<lparr>o_RecipientId := data\<rparr>)
      else if id = 3 then Inr (ho\<lparr>o_OfferID := data\<rparr>)
      else if id = 4 then Inr (ho\<lparr>o_IdPub := data\<rparr>)
      else if id = 5 then Inr (ho\<lparr>o_Pub := data\<rparr>)
      else if id = 6 then Inr (ho\<lparr>o_DhPub := Some data\<rparr>)
      else if id = 7 then Inr (ho\<lparr>o_KyberPub := data\<rparr>)
      else if id = 8 then Inr (ho\<lparr>o_DilithiumPub := data\<rparr>)
      else if id = 9 then Inr (ho\<lparr>o_Sign := data\<rparr>)
      else if id = 10 then Inr (ho\<lparr>o_DilithiumSign := data\<rparr>)
      else Inr ho)"

definition HandShakeOffer_UnmarshalBinID :: "npfield list \<Rightarrow> np_error + HandShakeOffer" where
  "HandShakeOffer_UnmarshalBinID fs = fold_fields HandShakeOffer_field fs empty_HandShakeOffer"

subsection \<open>Answers\<close>

record HandShakeAnswer =
  a_SenderId :: string
  a_RecipientId :: bytes
  a_OfferID :: bytes
  a_IdPub :: bytes
  a_Pub :: bytes
  a_DhPub :: "bytes option"
  a_KyberPub :: bytes
  a_KyberCiphertext :: bytes
  a_DilithiumPub :: bytes
  a_Sign :: bytes
  a_DilithiumSign :: bytes

definition HandShakeAnswer_MarshalBinID :: "HandShakeAnswer \<Rightarrow> npfield list" where
  "HandShakeAnswer_MarshalBinID ha =
     [(1, to_bytes (a_SenderId ha)), (2, a_RecipientId ha), (3, a_OfferID ha), (4, a_IdPub ha),
      (5, a_Pub ha), (6, octets (a_DhPub ha)), (7, a_KyberPub ha), (8, a_KyberCiphertext ha),
      (9, a_DilithiumPub ha), (10, a_Sign ha), (11, a_DilithiumSign ha)]"

definition empty_HandShakeAnswer :: HandShakeAnswer where
  "empty_HandShakeAnswer =
     \<lparr>a_SenderId = [], a_RecipientId = [], a_OfferID = [], a_IdPub = [], a_Pub = [],
      a_DhPub = None, a_KyberPub = [], a_KyberCiphertext = [], a_DilithiumPub = [], a_Sign =
      [], a_DilithiumSign = []\<rparr>"

definition HandShakeAnswer_field :: "npfield \<Rightarrow> HandShakeAnswer \<Rightarrow> np_error + HandShakeAnswer" where
  "HandShakeAnswer_field f ha =
     (let (id, data) = f in
      if id = 1 then Inr (ha\<lparr>a_SenderId := to_str data\<rparr>)
      else if id = 2 then Inr (ha\<lparr>a_RecipientId := data\<rparr>)
      else if id = 3 then Inr (ha\<lparr>a_OfferID := data\<rparr>)
      else if id = 4 then Inr (ha\<lparr>a_IdPub := data\<rparr>)
      else if id = 5 then Inr (ha\<lparr>a_Pub := data\<rparr>)
      else if id = 6 then Inr (ha\<lparr>a_DhPub := Some data\<rparr>)
      else if id = 7 then Inr (ha\<lparr>a_KyberPub := data\<rparr>)
      else if id = 8 then Inr (ha\<lparr>a_KyberCiphertext := data\<rparr>)
      else if id = 9 then Inr (ha\<lparr>a_DilithiumPub := data\<rparr>)
      else if id = 10 then Inr (ha\<lparr>a_Sign := data\<rparr>)
      else if id = 11 then Inr (ha\<lparr>a_DilithiumSign := data\<rparr>)
      else Inr ha)"

definition HandShakeAnswer_UnmarshalBinID :: "npfield list \<Rightarrow> np_error + HandShakeAnswer" where
  "HandShakeAnswer_UnmarshalBinID fs = fold_fields HandShakeAnswer_field fs empty_HandShakeAnswer"

interpretation offer: bin_codec HandShakeOffer_MarshalBinID HandShakeOffer_UnmarshalBinID
  "\<lambda>ho. o_DhPub ho \<noteq> None"
  by unfold_locales
    (auto simp: HandShakeOffer_MarshalBinID_def HandShakeOffer_UnmarshalBinID_def HandShakeOffer_field_def
      empty_HandShakeOffer_def intro!: HandShakeOffer.equality)

interpretation answer: bin_codec HandShakeAnswer_MarshalBinID HandShakeAnswer_UnmarshalBinID
  "\<lambda>a. a_DhPub a \<noteq> None"
  by unfold_locales
    (auto simp: HandShakeAnswer_MarshalBinID_def HandShakeAnswer_UnmarshalBinID_def HandShakeAnswer_field_def
      empty_HandShakeAnswer_def intro!: HandShakeAnswer.equality)

subsection \<open>Decoding either encoding\<close>

datatype decode_error = LegacyJson | Nanopack np_error

record legacy_json =
  j_offer :: "bytes \<Rightarrow> HandShakeOffer option"
  j_answer :: "bytes \<Rightarrow> HandShakeAnswer option"

definition decodeOffer :: "prims \<Rightarrow> legacy_json \<Rightarrow> bytes \<Rightarrow> decode_error + HandShakeOffer" where
  "decodeOffer P J b =
     (if b \<noteq> [] \<and> b ! 0 = 0x7B then
        (case j_offer J b of None \<Rightarrow> Inl LegacyJson | Some offer \<Rightarrow> Inr offer)
      else
        (case UnmarshalFastID P HandShakeOffer_UnmarshalBinID b of
           Inl e \<Rightarrow> Inl (Nanopack e) | Inr offer \<Rightarrow> Inr offer))"

definition decodeAnswer :: "prims \<Rightarrow> legacy_json \<Rightarrow> bytes \<Rightarrow> decode_error + HandShakeAnswer" where
  "decodeAnswer P J b =
     (if b \<noteq> [] \<and> b ! 0 = 0x7B then
        (case j_answer J b of None \<Rightarrow> Inl LegacyJson | Some answer \<Rightarrow> Inr answer)
      else
        (case UnmarshalFastID P HandShakeAnswer_UnmarshalBinID b of
           Inl e \<Rightarrow> Inl (Nanopack e) | Inr answer \<Rightarrow> Inr answer))"

definition PeekAnswerSenderID :: "prims \<Rightarrow> legacy_json \<Rightarrow> bytes \<Rightarrow> decode_error + string" where
  "PeekAnswerSenderID P J b =
     (case decodeAnswer P J b of Inl e \<Rightarrow> Inl e | Inr answer \<Rightarrow> Inr (a_SenderId answer))"

subsection \<open>The three steps\<close>

datatype engine_error =
    KyberKeygen
  | InvalidPeerId            \<comment> \<open>invalid peer ID encoding\<close>
  | UnmarshalOffer decode_error
  | UnmarshalAnswer decode_error
  | MissingOfferId
  | NotForThisPeer
  | SpoofedSender            \<comment> \<open>sender ID spoofing detected\<close>
  | OfferReplay string
  | UnmarshalKyberPub
  | KyberEncapsulate
  | HandshakeFailed crypto_error
  | InvalidSenderId          \<comment> \<open>invalid sender id encoding\<close>
  | MissingCiphertext
  | UnmarshalKyberPriv
  | KyberDecapsulate
  | DecodeClientId
  | MarshalFailed np_error
  | SignPanic                \<comment> \<open>\<^verbatim>\<open>GetDilithiumSign\<close> panics on a private key that does not unmarshal\<close>

record keys =
  k_idPriv :: bytes
  k_idPub :: bytes
  k_dilPriv :: bytes
  k_dilPub :: bytes

text \<open>The coins \<^verbatim>\<open>newPeer\<close> draws, in the order it draws them.\<close>

record coins =
  c_x :: bytes
  c_dh :: bytes
  c_kyber :: bytes

definition newPeer :: "prims \<Rightarrow> coins \<Rightarrow> bytes option \<Rightarrow> keys \<Rightarrow> engine_error + SecurePeer" where
  "newPeer P c expectedPeerHash k =
     (let (privX, pubX) = GenerateX25519KeyPair P (c_x c);
          (dhPrivX, dhPubX) = GenerateX25519KeyPair P (c_dh c)
      in case p_ky_keygen P (c_kyber c) of
           None \<Rightarrow> Inl KyberKeygen
         | Some (pqcPub, pqcPriv) \<Rightarrow>
             Inr \<lparr>ExpectedPeerHash = expectedPeerHash,
                  IdentityPrivate = k_idPriv k, IdentityPublic = k_idPub k,
                  PqcSignPrivate = k_dilPriv k, PqcSignPublic = k_dilPub k,
                  Private = privX, Public = pubX,
                  PqcPrivateKey = pqcPriv, PqcPublicKey = pqcPub,
                  DhPrivate = dhPrivX, DhPublic = dhPubX, RemoteDhPublic = None,
                  RootKey = [], SendCk = [], RecvCk = [], HmacKey = [], FileKey = [],
                  SendNonce = 0, RecvNonce = 0, SkippedMessages = Map.empty, AmInitiator = False,
                  RemotePendingKey = [], PubPendingKey = [], PrivPnedingKey = [],
                  pendingDhRatchet = False, SeenOffers = (\<lambda>_. False)\<rparr>)"

definition CreateOffer ::
  "prims \<Rightarrow> coins \<Rightarrow> bytes \<Rightarrow> string \<Rightarrow> keys \<Rightarrow> string \<Rightarrow> engine_error + SecurePeer \<times> bytes" where
  "CreateOffer P c offerId myId k peerId =
     (case newPeer P c None k of
        Inl e \<Rightarrow> Inl e
      | Inr peer \<Rightarrow>
          (case p_b58dec P peerId of
             None \<Rightarrow> Inl InvalidPeerId
           | Some peerIdBytes \<Rightarrow>
               (case GetDilithiumSign P peer offerId peerIdBytes of
                  None \<Rightarrow> Inl SignPanic
                | Some dilSign \<Rightarrow>
                    let offer =
                      \<lparr>o_SenderId = myId, o_RecipientId = peerIdBytes, o_OfferID = offerId,
                       o_IdPub = IdentityPublic peer, o_Pub = Public peer, o_DhPub = Some (DhPublic peer),
                       o_KyberPub = PqcPublicKey peer, o_DilithiumPub = PqcSignPublic peer,
                       o_Sign = GetSign P peer offerId peerIdBytes, o_DilithiumSign = dilSign\<rparr>
                    in case MarshalFastID P HandShakeOffer_MarshalBinID offer of
                         Inl e \<Rightarrow> Inl (MarshalFailed e)
                       | Inr offerWire \<Rightarrow> Inr (peer, offerWire))))"

text \<open>The checks of \<^verbatim>\<open>AcceptOffer\<close> before any key material is generated.\<close>

definition checkOffer ::
  "prims \<Rightarrow> legacy_json \<Rightarrow> string \<Rightarrow> (string \<rightharpoonup> SecurePeer) \<Rightarrow> bytes \<Rightarrow> engine_error + HandShakeOffer" where
  "checkOffer P J myId existingSessions offerBytes =
     (case decodeOffer P J offerBytes of
        Inl e \<Rightarrow> Inl (UnmarshalOffer e)
      | Inr offer \<Rightarrow>
          if o_OfferID offer = [] then Inl MissingOfferId
          else if p_b58enc P (o_RecipientId offer) \<noteq> myId then Inl NotForThisPeer
          else if DerivePeerID P (o_IdPub offer) (o_DilithiumPub offer) \<noteq> o_SenderId offer
            then Inl SpoofedSender
          else case existingSessions (o_SenderId offer) of
                 None \<Rightarrow> Inr offer
               | Some existing \<Rightarrow>
                   if SeenOffers existing (p_b58enc P (o_OfferID offer))
                   then Inl (OfferReplay (o_SenderId offer)) else Inr offer)"

text \<open>The replay history handed on to the new session.\<close>

definition carrySeen :: "(string \<rightharpoonup> SecurePeer) \<Rightarrow> string \<Rightarrow> string \<Rightarrow> string \<Rightarrow> bool" where
  "carrySeen existingSessions senderId offerIDKey =
     (case existingSessions senderId of None \<Rightarrow> (\<lambda>_. False) | Some existing \<Rightarrow> SeenOffers existing)
       (offerIDKey := True)"

definition AcceptOffer ::
  "prims \<Rightarrow> legacy_json \<Rightarrow> coins \<Rightarrow> bytes \<Rightarrow> string \<Rightarrow> keys \<Rightarrow> (string \<rightharpoonup> SecurePeer) \<Rightarrow> bytes
   \<Rightarrow> engine_error + string \<times> SecurePeer \<times> bytes" where
  "AcceptOffer P J c kemCoins myId k existingSessions offerBytes =
     (case checkOffer P J myId existingSessions offerBytes of
        Inl e \<Rightarrow> Inl e
      | Inr offer \<Rightarrow>
     (case newPeer P c None k of
        Inl e \<Rightarrow> Inl e
      | Inr fresh \<Rightarrow>
          let responder = fresh\<lparr>SeenOffers :=
                carrySeen existingSessions (o_SenderId offer) (p_b58enc P (o_OfferID offer))\<rparr>
          in if \<not> p_ky_pub_ok P (o_KyberPub offer) then Inl UnmarshalKyberPub
          else
     (case p_ky_encaps P (o_KyberPub offer) kemCoins of
        None \<Rightarrow> Inl KyberEncapsulate
      | Some (ciphertext, sharedSecret) \<Rightarrow>
          let myIdBytes = octets (p_b58dec P myId)
          in
     (case Handshake P (o_IdPub offer) (o_Pub offer) (o_DhPub offer) (o_KyberPub offer)
             (o_DilithiumPub offer) (o_Sign offer) (o_DilithiumSign offer) sharedSecret
             (o_OfferID offer) myIdBytes responder of
        (Some e, _) \<Rightarrow> Inl (HandshakeFailed e)
      | (None, responderPeer) \<Rightarrow>
     (case p_b58dec P (o_SenderId offer) of
        None \<Rightarrow> Inl InvalidSenderId
      | Some senderIdBytes \<Rightarrow>
     (case GetDilithiumSign P responderPeer (o_OfferID offer) senderIdBytes of
        None \<Rightarrow> Inl SignPanic
      | Some dilSign \<Rightarrow>
          let answer =
            \<lparr>a_SenderId = myId, a_RecipientId = myIdBytes, a_OfferID = o_OfferID offer,
             a_IdPub = IdentityPublic responderPeer, a_Pub = Public responderPeer,
             a_DhPub = Some (DhPublic responderPeer), a_KyberPub = PqcPublicKey responderPeer,
             a_KyberCiphertext = ciphertext, a_DilithiumPub = PqcSignPublic responderPeer,
             a_Sign = GetSign P responderPeer (o_OfferID offer) senderIdBytes, a_DilithiumSign
              = dilSign\<rparr>
          in case MarshalFastID P HandShakeAnswer_MarshalBinID answer of
               Inl e \<Rightarrow> Inl (MarshalFailed e)
             | Inr answerWire \<Rightarrow> Inr (o_SenderId offer, responderPeer, answerWire)))))))"

definition FinishHandshake ::
  "prims \<Rightarrow> legacy_json \<Rightarrow> string \<Rightarrow> SecurePeer \<Rightarrow> bytes \<Rightarrow> (engine_error + string) \<times> SecurePeer" where
  "FinishHandshake P J myId pendingPeer answerBytes =
     (case decodeAnswer P J answerBytes of
        Inl e \<Rightarrow> (Inl (UnmarshalAnswer e), pendingPeer)
      | Inr answer \<Rightarrow>
          if a_KyberCiphertext answer = [] then (Inl MissingCiphertext, pendingPeer)
          else if DerivePeerID P (a_IdPub answer) (a_DilithiumPub answer) \<noteq> a_SenderId answer
            then (Inl SpoofedSender, pendingPeer)
          else if \<not> p_ky_priv_ok P (PqcPrivateKey pendingPeer) then (Inl UnmarshalKyberPriv, pendingPeer)
          else
     (case p_ky_decaps P (PqcPrivateKey pendingPeer) (a_KyberCiphertext answer) of
        None \<Rightarrow> (Inl KyberDecapsulate, pendingPeer)
      | Some sharedSecret \<Rightarrow>
     (case p_b58dec P myId of
        None \<Rightarrow> (Inl DecodeClientId, pendingPeer)
      | Some myIdBytes \<Rightarrow>
     (case Handshake P (a_IdPub answer) (a_Pub answer) (a_DhPub answer) (a_KyberPub answer)
             (a_DilithiumPub answer) (a_Sign answer) (a_DilithiumSign answer) sharedSecret
             (a_OfferID answer) myIdBytes pendingPeer of
        (Some e, peer) \<Rightarrow> (Inl (HandshakeFailed e), peer)
      | (None, peer) \<Rightarrow> (Inr (a_SenderId answer), peer)))))"

end
