(* ===== verification/Toy.thy ===== *)
theory Toy
  imports Prims
begin

text \<open>
  A concrete instance of the primitive record, used by the witnesses only: it shows that the named
  laws can hold together and lets the model run on concrete inputs.  It offers no security.
\<close>

definition toy_pad :: "nat \<Rightarrow> bytes \<Rightarrow> bytes" where
  "toy_pad n b = take n (b @ replicate n 0)"

definition toy_enc1 :: "npfield \<Rightarrow> bytes" where
  "toy_enc1 f = fst f # concat (map (\<lambda>b. [1, b]) (snd f)) @ [0]"

definition toy_np_enc :: "npfield list \<Rightarrow> bytes option" where
  "toy_np_enc fs = Some (word_of_nat (length fs) # concat (map toy_enc1 fs))"

fun toy_data :: "bytes \<Rightarrow> (bytes \<times> bytes) option" where
  "toy_data [] = None"
| "toy_data (t # r) =
     (if t = 0 then Some ([], r)
      else case r of [] \<Rightarrow> None
        | b # r' \<Rightarrow> (case toy_data r' of None \<Rightarrow> None | Some (d, rest) \<Rightarrow> Some (b # d, rest)))"

lemma toy_data_shorter: "toy_data b = Some (d, r) \<Longrightarrow> length r < length b"
  by (induction b arbitrary: d r rule: toy_data.induct)
    (auto split: if_splits list.splits option.splits prod.splits intro: less_SucI)

function toy_fields :: "bytes \<Rightarrow> npfield list option" where
  "toy_fields [] = Some []"
| "toy_fields (i # r) =
     (case toy_data r of None \<Rightarrow> None
      | Some (d, rest) \<Rightarrow> (case toy_fields rest of None \<Rightarrow> None | Some fs \<Rightarrow> Some ((i, d) # fs)))"
  by pat_completeness auto
termination
  by (relation "measure length") (auto dest: toy_data_shorter)

definition toy_np_dec :: "bytes \<Rightarrow> npfield list option" where
  "toy_np_dec b = (case b of [] \<Rightarrow> None | n # r \<Rightarrow> toy_fields r)"

definition toy :: prims where
  "toy =
     \<lparr>p_sha256 = (\<lambda>b. toy_pad 32 b),
      p_sha3_256 = (\<lambda>b. toy_pad 32 b),
      p_sha3_512 = (\<lambda>b. toy_pad 64 b),
      p_hmac = (\<lambda>k m. k @ m),
      p_hkdf = (\<lambda>s salt info n. toy_pad n (concat (replicate n (map (\<lambda>b. b + 1) (s @ salt))))),
      p_hkdf_expand = (\<lambda>k info n. toy_pad n (k @ info)),
      p_x25519 = (\<lambda>a p. Some (map2 (+) a p)),
      p_basemult = (\<lambda>a. a),
      p_seal = (\<lambda>k n pt ad. k @ pt),
      p_open = (\<lambda>k n ct ad. if take 32 ct = k then Some (drop 32 ct) else None),
      p_ed_pub = (\<lambda>k. toy_pad 32 k),
      p_ed_sign = (\<lambda>k m. toy_pad 32 k @ m),
      p_ed_verify = (\<lambda>pk m s. s = pk @ m),
      p_dil_keygen = (\<lambda>c. (c, c)),
      p_dil_sign = (\<lambda>k m. Some (k @ m)),
      p_dil_verify = (\<lambda>pk m s. Some (s = pk @ m)),
      p_ky_keygen = (\<lambda>c. Some (c, c)),
      p_ky_encaps = (\<lambda>pk r. Some (1 # r, r)),
      p_ky_pub_ok = (\<lambda>_. True),
      p_ky_priv_ok = (\<lambda>_. True),
      p_ky_decaps = (\<lambda>sk ct. Some (drop 1 ct)),
      p_b58enc = to_str,
      p_b58dec = (\<lambda>s. Some (to_bytes s)),
      p_np_enc = toy_np_enc,
      p_np_dec = toy_np_dec\<rparr>"

lemma length_toy_pad [simp]: "length (toy_pad n b) = n"
  by (simp add: toy_pad_def)

lemma toy_data_enc: "toy_data (concat (map (\<lambda>b. [1, b]) d) @ 0 # r) = Some (d, r)"
  by (induction d) auto

lemma toy_fields_enc: "toy_fields (concat (map toy_enc1 fs)) = Some fs"
  by (induction fs) (auto simp: toy_enc1_def toy_data_enc split: option.splits)

lemma length_toy_np_enc: "length (the (toy_np_enc fs)) = 1 + sum_list (map (\<lambda>f. 2 + 2 * length (snd f)) fs)"
proof -
  have "length (concat (map (\<lambda>b. [1 :: byte, b]) d)) = 2 * length d" for d by (induction d) auto
  then show ?thesis by (induction fs) (auto simp: toy_np_enc_def toy_enc1_def)
qed

lemma toy_laws:
  "dh_law toy" "hkdf_law toy" "aead_law toy" "np_law toy" "b58_law toy" "sig_law toy" "kem_law toy"
proof -
  have "map2 (+) a b = map2 (+) b (a :: bytes)" for a b
    by (induction a b rule: list_induct2') (auto simp: add.commute)
  then show "dh_law toy" by (simp add: dh_law_def toy_def)
  show "np_law toy"
    by (simp add: np_law_def toy_def toy_np_enc_def toy_np_dec_def toy_fields_enc)
qed (simp_all add: hkdf_law_def aead_law_def b58_law_def sig_law_def kem_law_def toy_def)

end
