(* ===== verification/RatchetChain.thy ===== *)
theory RatchetChain
  imports Ratchet Toy
begin

text \<open>
  One sending chain against one receiver: whatever order the frames of the chain arrive in, each is
  decrypted to its plaintext exactly once, and a second copy is refused as a replay.
\<close>

subsection \<open>Runs of the two operations\<close>

text \<open>A sender encrypting a list of messages, each with the randomness its call may consume.\<close>

fun send_all ::
  "prims \<Rightarrow> string \<Rightarrow> (bytes \<times> bytes) list \<Rightarrow> SecurePeer \<Rightarrow> (crypto_error + bytes) list \<times> SecurePeer" where
  "send_all P name [] sp = ([], sp)"
| "send_all P name ((rnd, pt) # rest) sp =
     (let (r, sp1) = Encrypt P rnd name pt sp; (rs, sp2) = send_all P name rest sp1
      in (r # rs, sp2))"

text \<open>A receiver decrypting a list of frames.\<close>

fun receive_all ::
  "prims \<Rightarrow> bytes list \<Rightarrow> SecurePeer \<Rightarrow> (crypto_error + string \<times> bytes) list \<times> SecurePeer" where
  "receive_all P [] sp = ([], sp)"
| "receive_all P (w # ws) sp =
     (let (r, sp1) = Decrypt P w sp; (rs, sp2) = receive_all P ws sp1 in (r # rs, sp2))"

subsection \<open>The receiver's invariant\<close>

text \<open>
  The receiver follows the chain that starts with key \<open>c\<close> at message number \<open>b\<close> under the ratchet
  key \<open>k\<close>, and has delivered exactly the messages in \<open>D\<close>: its chain key is the one of its
  counter, and the cache holds the key of every message it has passed over but not delivered.
\<close>

definition recv_inv :: "prims \<Rightarrow> bytes \<Rightarrow> bytes \<Rightarrow> int \<Rightarrow> int set \<Rightarrow> SecurePeer \<Rightarrow> bool" where
  "recv_inv P k c b D sp \<longleftrightarrow>
     RemoteDhPublic sp = Some k \<and> b \<le> RecvNonce sp \<and> D \<subseteq> {b..<RecvNonce sp} \<and>
     RecvCk sp = ck_at P c (nat (RecvNonce sp - b)) \<and>
     (\<forall>i\<ge>b. SkippedMessages sp (getSkipKeyStr (b64_encode k) i) =
        (if i < RecvNonce sp \<and> i \<notin> D then Some (mk_at P c (nat (i - b))) else None))"

text \<open>The frame of message \<open>i\<close> of that chain.\<close>

definition chain_frame ::
  "prims \<Rightarrow> bytes \<Rightarrow> string \<Rightarrow> bytes \<Rightarrow> bytes \<Rightarrow> int \<Rightarrow> int \<Rightarrow> bytes \<Rightarrow> bytes \<Rightarrow> bool" where
  "chain_frame P hk name k c b i pt w \<longleftrightarrow> is_frame P hk name k (mk_at P c (nat (i - b))) i pt w"

lemma nat_diff_split: "b \<le> i \<Longrightarrow> i \<le> j \<Longrightarrow> nat (i - b) + nat (j - i) = nat (j - b)" for b i j :: int
  by simp

text \<open>Message \<open>i\<close> was skipped over earlier: its key comes from the cache and is removed.\<close>

lemma verified_cached:
  assumes "aead_law P" "hkdf_law P" and inv: "recv_inv P k c b D sp"
    and i: "b \<le> i" "i < RecvNonce sp" "i \<notin> D" "0 \<le> i" "i < 2 ^ 31"
  shows "\<exists>sp'. DecryptVerified P (sealed P name k (mk_at P c (nat (i - b))) i pt) sp = (Inr (name, pt), sp') \<and>
           recv_inv P k c b (insert i D) sp' \<and> HmacKey sp' = HmacKey sp"
proof -
  let ?m = "sealed P name k (mk_at P c (nat (i - b))) i pt"
  let ?key = "getSkipKeyStr (b64_encode k) i"
  let ?sp' = "sp\<lparr>SkippedMessages := (SkippedMessages sp)(?key := None)\<rparr>"
  have "SkippedMessages sp ?key = Some (mk_at P c (nat (i - b)))"
    using inv i by (simp add: recv_inv_def)
  moreover have "uint (Nonce ?m) = i" "octets (RatchetKey ?m) = k"
    using wire_nonce(1) [OF i(4,5)] by (simp_all add: sealed_def)
  ultimately have "DecryptVerified P ?m sp = (Inr (name, pt), ?sp')"
    by (simp add: DecryptVerified_def open_sealed [OF assms(1) length_mk_at [OF assms(2)]])
  moreover have "recv_inv P k c b (insert i D) ?sp'"
    using inv i by (auto simp: recv_inv_def)
  ultimately show ?thesis by auto
qed

text \<open>Message \<open>i\<close> is at or beyond the counter: the keys in between are cached.\<close>

lemma verified_ahead:
  assumes "aead_law P" "hkdf_law P" and inv: "recv_inv P k c b D sp"
    and i: "RecvNonce sp \<le> i" "0 \<le> i" "i < 2 ^ 31"
  shows "\<exists>sp'. DecryptVerified P (sealed P name k (mk_at P c (nat (i - b))) i pt) sp = (Inr (name, pt), sp') \<and>
           recv_inv P k c b (insert i D) sp' \<and> HmacKey sp' = HmacKey sp"
proof -
  let ?m = "sealed P name k (mk_at P c (nat (i - b))) i pt"
  let ?s = "skip_to P (b64_encode k) i sp"
  let ?sp' = "?s\<lparr>RecvCk := fst (RatchetStep P (RecvCk ?s)), RecvNonce := i + 1\<rparr>"
  have b: "b \<le> RecvNonce sp" and k: "RemoteDhPublic sp = Some k" and D: "D \<subseteq> {b..<RecvNonce sp}"
    and ck: "RecvCk sp = ck_at P c (nat (RecvNonce sp - b))" using inv by (auto simp: recv_inv_def)
  have miss: "SkippedMessages sp (getSkipKeyStr (b64_encode k) i) = None"
    using inv b i(1) by (simp add: recv_inv_def)
  have nonce: "uint (Nonce ?m) = i" "octets (RatchetKey ?m) = k"
    using wire_nonce(1) [OF i(2,3)] by (simp_all add: sealed_def)
  have cks: "RecvCk ?s = ck_at P c (nat (i - b))"
    by (simp add: skip_to_RecvCk ck ck_at_add nat_diff_split [OF b i(1)])
  have "snd (RatchetStep P (RecvCk ?s)) = mk_at P c (nat (i - b))"
    by (simp add: cks mk_at_def)
  then have res: "DecryptVerified P ?m sp = (Inr (name, pt), ?sp')"
    using miss nonce k i(1)
    by (simp add: DecryptVerified_def Let_def case_prod_beta skip_to_RecvNonce
      open_sealed [OF assms(1) length_mk_at [OF assms(2)]])
  have "RecvCk ?sp' = ck_at P c (nat (i + 1 - b))"
  proof -
    have "nat (i + 1 - b) = Suc (nat (i - b))" using b i(1) by simp
    then show ?thesis by (simp add: cks)
  qed
  moreover have "SkippedMessages ?sp' (getSkipKeyStr (b64_encode k) j) =
      (if j < i + 1 \<and> j \<notin> insert i D then Some (mk_at P c (nat (j - b))) else None)" if "b \<le> j" for j
  proof -
    have "mk_at P (RecvCk sp) (nat (j - RecvNonce sp)) = mk_at P c (nat (j - b))" if "RecvNonce sp \<le> j"
      by (simp add: ck mk_at_add nat_diff_split [OF b that])
    moreover have "SkippedMessages sp (getSkipKeyStr (b64_encode k) j) =
        (if j < RecvNonce sp \<and> j \<notin> D then Some (mk_at P c (nat (j - b))) else None)"
      using inv that by (simp add: recv_inv_def)
    ultimately show ?thesis using D i(1) by (auto simp: skip_to_Skipped)
  qed
  moreover have "D \<subseteq> {b..<i + 1}" "b \<le> i" using D b i(1) by auto
  ultimately have "recv_inv P k c b (insert i D) ?sp'"
    using k by (simp add: recv_inv_def skip_to_frame)
  then show ?thesis using res by (auto simp: skip_to_frame)
qed

lemma decrypt_chain_frame:
  assumes laws: "np_law P" "aead_law P" "hkdf_law P" and inv: "recv_inv P k c b D sp"
    and w: "chain_frame P (HmacKey sp) name k c b i pt w"
    and i: "b \<le> i" "i \<notin> D" "0 \<le> i" "i < 2 ^ 31"
  shows "\<exists>sp'. Decrypt P w sp = (Inr (name, pt), sp') \<and> recv_inv P k c b (insert i D) sp' \<and>
           HmacKey sp' = HmacKey sp"
proof -
  have "Decrypt P w sp = DecryptVerified P (sealed P name k (mk_at P c (nat (i - b))) i pt) sp"
    by (rule Decrypt_frame [OF laws(1) _ i(3,4)]) (use w in \<open>simp add: chain_frame_def\<close>)
  then show ?thesis
    using verified_cached [OF laws(2,3) inv i(1) _ i(2,3,4)] verified_ahead [OF laws(2,3) inv _ i(3,4)]
    by (cases "i < RecvNonce sp") auto
qed

lemma decrypt_replayed_frame:
  assumes "np_law P" and inv: "recv_inv P k c b D sp"
    and w: "is_frame P (HmacKey sp) name k mk i pt w"
    and i: "i \<in> D" "0 \<le> i" "i < 2 ^ 31"
  shows "Decrypt P w sp = (Inl (ErrReplay i (RecvNonce sp)), sp)"
proof -
  let ?m = "sealed P name k mk i pt"
  have nonce: "uint (Nonce ?m) = i" "octets (RatchetKey ?m) = k"
    using wire_nonce(1) [OF i(2,3)] by (simp_all add: sealed_def)
  have "b \<le> i" "i < RecvNonce sp" using inv i(1) by (auto simp: recv_inv_def)
  then have "DecryptVerified P ?m sp = (Inl (ErrReplay i (RecvNonce sp)), sp)"
    using inv i(1) nonce by (simp add: DecryptVerified_def recv_inv_def)
  then show ?thesis using Decrypt_frame [OF assms(1) w i(2,3)] by simp
qed

subsection \<open>Sending a chain\<close>

lemma Encrypt_chain:
  assumes "np_law P" "hkdf_law P" and "\<not> pendingDhRatchet sp"
  shows "\<exists>w. Encrypt P rnd name pt sp =
           (Inr w, sp\<lparr>SendCk := ck_at P (SendCk sp) 1, SendNonce := SendNonce sp + 1\<rparr>) \<and>
         is_frame P (HmacKey sp) name (DhPublic sp) (mk_at P (SendCk sp) 0) (SendNonce sp) pt w"
  using Encrypt_frame [OF assms(1,2), of rnd name pt sp] assms(3) by simp

lemma send_all_chain:
  assumes "np_law P" "hkdf_law P"
  shows "\<not> pendingDhRatchet sp \<Longrightarrow>
    \<exists>ws. fst (send_all P name ms sp) = map Inr ws \<and> length ws = length ms \<and>
      (\<forall>j<length ms. chain_frame P (HmacKey sp) name (DhPublic sp) (SendCk sp) (SendNonce sp)
         (SendNonce sp + int j) (snd (ms ! j)) (ws ! j))"
proof (induction ms arbitrary: sp)
  case Nil
  then show ?case by simp
next
  case (Cons m ms)
  obtain rnd pt where m: "m = (rnd, pt)" by (cases m)
  let ?sp1 = "sp\<lparr>SendCk := ck_at P (SendCk sp) 1, SendNonce := SendNonce sp + 1\<rparr>"
  obtain w where w: "Encrypt P rnd name pt sp = (Inr w, ?sp1)"
    "is_frame P (HmacKey sp) name (DhPublic sp) (mk_at P (SendCk sp) 0) (SendNonce sp) pt w"
    using Encrypt_chain [OF assms Cons.prems] by blast
  obtain ws where ws: "fst (send_all P name ms ?sp1) = map Inr ws" "length ws = length ms"
    "\<forall>j<length ms. chain_frame P (HmacKey sp) name (DhPublic sp) (ck_at P (SendCk sp) 1)
       (SendNonce sp + 1) (SendNonce sp + 1 + int j) (snd (ms ! j)) (ws ! j)"
    using Cons.IH [of ?sp1] Cons.prems by auto
  have "chain_frame P (HmacKey sp) name (DhPublic sp) (SendCk sp) (SendNonce sp)
         (SendNonce sp + int j) (snd ((m # ms) ! j)) ((w # ws) ! j)" if "j < length (m # ms)" for j
    using that w(2) ws(3) m
    by (cases j) (auto simp: chain_frame_def mk_at_shift ac_simps nat_add_distrib)
  then show ?case using w(1) ws(1,2) m
    by (intro exI [of _ "w # ws"]) (simp add: case_prod_beta)
qed

lemma receive_all_chain:
  assumes laws: "np_law P" "aead_law P" "hkdf_law P"
    and frames: "\<And>j. j < n \<Longrightarrow> chain_frame P hk name k c b (b + int j) (pt j) (ws ! j)"
    and bound: "0 \<le> b" "b + int n \<le> 2 ^ 31"
  shows "recv_inv P k c b D sp \<Longrightarrow> HmacKey sp = hk \<Longrightarrow> distinct js \<Longrightarrow> set js \<subseteq> {..<n} \<Longrightarrow>
         (\<forall>j\<in>set js. b + int j \<notin> D) \<Longrightarrow>
         fst (receive_all P (map ((!) ws) js) sp) = map (\<lambda>j. Inr (name, pt j)) js \<and>
         recv_inv P k c b (D \<union> (\<lambda>j. b + int j) ` set js) (snd (receive_all P (map ((!) ws) js) sp)) \<and>
         HmacKey (snd (receive_all P (map ((!) ws) js) sp)) = hk"
proof (induction js arbitrary: sp D)
  case Nil
  then show ?case by simp
next
  case (Cons j js)
  have j: "j < n" using Cons.prems by simp
  obtain sp' where sp': "Decrypt P (ws ! j) sp = (Inr (name, pt j), sp')"
    "recv_inv P k c b (insert (b + int j) D) sp'" "HmacKey sp' = HmacKey sp"
    using decrypt_chain_frame [OF laws Cons.prems(1), of name "b + int j" "pt j" "ws ! j"]
      frames [OF j] j bound Cons.prems(2,5) by auto
  have "fst (receive_all P (map ((!) ws) js) sp') = map (\<lambda>j. Inr (name, pt j)) js \<and>
      recv_inv P k c b (insert (b + int j) D \<union> (\<lambda>j. b + int j) ` set js)
        (snd (receive_all P (map ((!) ws) js) sp')) \<and>
      HmacKey (snd (receive_all P (map ((!) ws) js) sp')) = hk"
    by (rule Cons.IH [OF sp'(2)]) (use sp'(3) Cons.prems in auto)
  then show ?case using sp'(1) by (simp add: case_prod_beta)
qed

text \<open>The receiver \<open>B\<close> stands at the start of the chain that \<open>A\<close> sends on next.\<close>

definition in_step :: "SecurePeer \<Rightarrow> SecurePeer \<Rightarrow> bool" where
  "in_step A B \<longleftrightarrow>
     \<not> pendingDhRatchet A \<and> HmacKey A = HmacKey B \<and> RemoteDhPublic B = Some (DhPublic A) \<and>
     RecvCk B = SendCk A \<and> RecvNonce B = SendNonce A \<and> SkippedMessages B = Map.empty \<and> 0 \<le> SendNonce A"

lemma in_step_recv_inv:
  "in_step A B \<Longrightarrow> recv_inv P (DhPublic A) (SendCk A) (SendNonce A) {} B"
  by (simp add: in_step_def recv_inv_def)

lemma chain_run:
  assumes laws: "np_law P" "aead_law P" "hkdf_law P" and "in_step A B"
    and "SendNonce A + int (length ms) \<le> 2 ^ 31" and "distinct js" "set js \<subseteq> {..<length ms}"
  shows "\<exists>ws. fst (send_all P name ms A) = map Inr ws \<and> length ws = length ms \<and>
     (\<forall>j<length ms. chain_frame P (HmacKey A) name (DhPublic A) (SendCk A) (SendNonce A)
         (SendNonce A + int j) (snd (ms ! j)) (ws ! j)) \<and>
     fst (receive_all P (map ((!) ws) js) B) = map (\<lambda>j. Inr (name, snd (ms ! j))) js \<and>
     recv_inv P (DhPublic A) (SendCk A) (SendNonce A) ((\<lambda>j. SendNonce A + int j) ` set js)
       (snd (receive_all P (map ((!) ws) js) B)) \<and>
     HmacKey (snd (receive_all P (map ((!) ws) js) B)) = HmacKey A"
proof -
  have A: "\<not> pendingDhRatchet A" "HmacKey B = HmacKey A" "0 \<le> SendNonce A"
    using assms(4) by (simp_all add: in_step_def)
  obtain ws where ws: "fst (send_all P name ms A) = map Inr ws" "length ws = length ms"
    "\<forall>j<length ms. chain_frame P (HmacKey A) name (DhPublic A) (SendCk A) (SendNonce A)
         (SendNonce A + int j) (snd (ms ! j)) (ws ! j)"
    using send_all_chain [OF laws(1,3) A(1)] by blast
  note run = receive_all_chain [OF laws, of "length ms" "HmacKey A" name "DhPublic A" "SendCk A"
    "SendNonce A" "\<lambda>j. snd (ms ! j)" ws "{}" B js]
  show ?thesis using run ws A in_step_recv_inv [OF assms(4)] assms(5-7)
    by (intro exI [of _ ws]) simp
qed

text \<open>
  C3.  The messages of one sending chain are decrypted to their plaintexts in whatever order the
  frames arrive, including when some never arrive.
\<close>

theorem out_of_order_delivery:
  assumes "np_law P" "aead_law P" "hkdf_law P" and "in_step A B"
    and "SendNonce A + int (length ms) \<le> 2 ^ 31" and "distinct js" "set js \<subseteq> {..<length ms}"
  shows "\<exists>ws. fst (send_all P name ms A) = map Inr ws \<and> length ws = length ms \<and>
     fst (receive_all P (map ((!) ws) js) B) = map (\<lambda>j. Inr (name, snd (ms ! j))) js"
  using chain_run [OF assms, of name] by blast

text \<open>A pair of toy peers for the witnesses.\<close>

definition toy_peer :: SecurePeer where
  "toy_peer = \<lparr>ExpectedPeerHash = None, IdentityPrivate = [], IdentityPublic = [], PqcSignPrivate = [],
     PqcSignPublic = [], Private = [], Public = [], PqcPrivateKey = [], PqcPublicKey = [],
     DhPrivate = replicate 32 7, DhPublic = replicate 32 7, RemoteDhPublic = Some (replicate 32 9),
     RootKey = [3], SendCk = [1], RecvCk = [2], HmacKey = [4], FileKey = [], SendNonce = 0, RecvNonce = 0,
     SkippedMessages = Map.empty, AmInitiator = True, RemotePendingKey = [], PubPendingKey = [],
     PrivPnedingKey = [], pendingDhRatchet = False, SeenOffers = (\<lambda>_. False)\<rparr>"

definition toy_peer' :: SecurePeer where
  "toy_peer' = toy_peer\<lparr>DhPrivate := replicate 32 9, DhPublic := replicate 32 9,
     RemoteDhPublic := Some (replicate 32 7), SendCk := [2], RecvCk := [1], pendingDhRatchet := True\<rparr>"

lemma toy_in_step: "in_step toy_peer toy_peer'"
  by (simp add: in_step_def toy_peer_def toy_peer'_def)

lemma toy_nonce: "SendNonce toy_peer = 0"
  by (simp add: toy_peer_def)

theorem out_of_order_delivery_witness:
  "\<exists>ws. fst (send_all toy ''alice'' [([], [10]), ([], [11]), ([], [12])] toy_peer) = map Inr ws \<and>
     length ws = 3 \<and>
     fst (receive_all toy (map ((!) ws) [2, 0]) toy_peer') = [Inr (''alice'', [12]), Inr (''alice'', [10])]"
proof -
  let ?ms = "[([], [10]), ([], [11]), ([], [12])] :: (bytes \<times> bytes) list"
  obtain ws where "fst (send_all toy ''alice'' ?ms toy_peer) = map Inr ws" "length ws = length ?ms"
    "fst (receive_all toy (map ((!) ws) [2, 0]) toy_peer') = map (\<lambda>j. Inr (''alice'', snd (?ms ! j))) [2, 0]"
    using out_of_order_delivery [OF toy_laws(4,3,2) toy_in_step, of ?ms "[2, 0]" "''alice''"]
    by (auto simp: toy_nonce simp del: send_all.simps receive_all.simps list.map)
  then show ?thesis
    by (intro exI [of _ ws]) (simp del: send_all.simps receive_all.simps)
qed

text \<open>
  C4.  Within one sending chain, that is as long as no DH step intervenes: once a frame of the chain has been
  delivered, every later copy of it is refused as a replay and the session is left exactly as it was, whatever else of the
  chain was delivered in between.
\<close>

theorem replay_rejected:
  assumes "np_law P" "aead_law P" "hkdf_law P" and "in_step A B"
    and "SendNonce A + int (length ms) \<le> 2 ^ 31" and "distinct js" "set js \<subseteq> {..<length ms}"
    and "fst (send_all P name ms A) = map Inr ws" and "j \<in> set js"
    and "B' = snd (receive_all P (map ((!) ws) js) B)"
  shows "Decrypt P (ws ! j) B' = (Inl (ErrReplay (SendNonce A + int j) (RecvNonce B')), B')"
proof -
  have ws: "(\<forall>j<length ms. chain_frame P (HmacKey A) name (DhPublic A) (SendCk A) (SendNonce A)
         (SendNonce A + int j) (snd (ms ! j)) (ws ! j)) \<and>
     recv_inv P (DhPublic A) (SendCk A) (SendNonce A) ((\<lambda>j. SendNonce A + int j) ` set js) B' \<and>
     HmacKey B' = HmacKey A"
  proof -
    have inj: "inj (Inr :: bytes \<Rightarrow> crypto_error + bytes)" by simp
    show ?thesis using chain_run [OF assms(1-7), of name] assms(8,10) inj_map_eq_map [OF inj] by auto
  qed
  have j: "j < length ms" using assms(7,9) by auto
  have fr: "is_frame P (HmacKey B') name (DhPublic A)
      (mk_at P (SendCk A) (nat (SendNonce A + int j - SendNonce A))) (SendNonce A + int j) (snd (ms ! j)) (ws ! j)"
    using ws j by (simp add: chain_frame_def)
  have inv: "recv_inv P (DhPublic A) (SendCk A) (SendNonce A) ((\<lambda>j. SendNonce A + int j) ` set js) B'"
    using ws by simp
  show ?thesis
    by (rule decrypt_replayed_frame [OF assms(1) inv fr]) (use j assms(4,5,9) in \<open>auto simp: in_step_def\<close>)
qed

theorem replay_rejected_witness:
  "\<exists>w B'. fst (send_all toy ''alice'' [([], [10])] toy_peer) = [Inr w] \<and>
     B' = snd (receive_all toy [w] toy_peer') \<and>
     Decrypt toy w B' = (Inl (ErrReplay 0 (RecvNonce B')), B')"
proof -
  obtain w where w: "fst (send_all toy ''alice'' [([], [10])] toy_peer) = [Inr w]"
    using send_all_chain [OF toy_laws(4,2), of toy_peer "''alice''" "[([], [10])]"]
    by (auto simp: toy_peer_def length_Suc_conv)
  then show ?thesis
    using replay_rejected [OF toy_laws(4,3,2) toy_in_step, of "[([], [10])]" "[0]" "''alice''" "[w]" 0
        "snd (receive_all toy [w] toy_peer')"]
    by (simp add: toy_nonce del: send_all.simps receive_all.simps)
qed

subsection \<open>Frames outside the chain\<close>

text \<open>
  Note.  A frame that does not parse, or whose tag is not the HMAC of its canonical payload
  under the session's key, is refused, and the refusal leaves the session untouched.
\<close>

theorem unauthentic_frame_rejected:
  assumes "\<nexists>msg c. parseSecureMessage P w = Inr msg \<and> secureMessageHmacPayload P msg = Inr c \<and>
             Tag msg = p_hmac P (HmacKey sp) c"
  shows "\<exists>e. Decrypt P w sp = (Inl e, sp)"
  using assms by (auto simp: Decrypt_def split: sum.splits)

theorem unauthentic_frame_rejected_witness:
  "\<exists>e. Decrypt toy [] toy_peer = (Inl e, toy_peer)"
  by (rule unauthentic_frame_rejected) (simp add: parseSecureMessage_def toy_def toy_np_dec_def)

text \<open>
  C15.  The receive path caches a key for every message number it passes over without consulting
  \<^verbatim>\<open>maxSkip\<close>: a frame any distance ahead of the counter is accepted, and all the keys in between are kept,
  also where \<^verbatim>\<open>SkipMessageKeys\<close> would have refused the gap.
\<close>

theorem skip_bound_not_enforced:
  assumes "np_law P" "aead_law P" "hkdf_law P" and "in_step A B"
    and "chain_frame P (HmacKey B) name (DhPublic A) (SendCk A) (SendNonce A) i pt w"
    and "SendNonce A + maxSkip < i" "i < 2 ^ 31"
  shows "SkipMessageKeys P i B = (Some TooManySkipped, B) \<and>
    (\<exists>B'. Decrypt P w B = (Inr (name, pt), B') \<and>
       (\<forall>j\<in>{SendNonce A..<i}. SkippedMessages B' (getSkipKeyStr (b64_encode (DhPublic A)) j) \<noteq> None))"
proof -
  have B: "RecvNonce B = SendNonce A" "0 \<le> SendNonce A" "0 < maxSkip"
    using assms(4) by (simp_all add: in_step_def maxSkip_def)
  obtain B' where "Decrypt P w B = (Inr (name, pt), B')"
    "recv_inv P (DhPublic A) (SendCk A) (SendNonce A) {i} B'"
    using decrypt_chain_frame [OF assms(1-3) in_step_recv_inv [OF assms(4)] assms(5)] B assms(6,7) by auto
  then show ?thesis using B(1) assms(6) by (auto simp: SkipMessageKeys_def recv_inv_def)
qed

theorem skip_bound_not_enforced_witness:
  "\<exists>w. SkipMessageKeys toy 5000 toy_peer' = (Some TooManySkipped, toy_peer') \<and>
    (\<exists>B'. Decrypt toy w toy_peer' = (Inr (''alice'', [1]), B') \<and>
       (\<forall>j\<in>{0..<5000}. SkippedMessages B' (getSkipKeyStr (b64_encode (DhPublic toy_peer)) j) \<noteq> None))"
proof -
  obtain w where "chain_frame toy (HmacKey toy_peer') ''alice'' (DhPublic toy_peer) (SendCk toy_peer)
      (SendNonce toy_peer) 5000 [1] w"
    unfolding chain_frame_def using is_frame_exists [OF toy_laws(4)] by blast
  then show ?thesis
    using skip_bound_not_enforced [OF toy_laws(4,3,2) toy_in_step, of "''alice''" 5000 "[1]" w]
    unfolding toy_nonce maxSkip_def by force
qed

text \<open>
  Note.  A tagged frame that carries another ratchet key than the current one moves the session
  to that key before anything of it is decrypted: also when the frame is an old one delivered late or
  twice, and also when its ciphertext then fails to open, the remote key, the root key and the
  receiving chain are replaced.
\<close>

theorem stale_frame_moves_session:
  assumes "np_law P" and "is_frame P (HmacKey sp) name k mk n pt w" and "0 \<le> n" "n < 2 ^ 31"
    and "RemoteDhPublic sp = Some k'" "k' \<noteq> k"
    and "SkippedMessages sp (getSkipKeyStr (b64_encode k) n) = None"
  shows "RemoteDhPublic (snd (Decrypt P w sp)) = Some k \<and>
    RootKey (snd (Decrypt P w sp)) =
      take 32 (p_hkdf P (dh_or_nil P (DhPrivate sp) (Some k)) (RootKey sp) (to_bytes ''ratchet-root'') 64) \<and>
    RecvNonce (snd (Decrypt P w sp)) = n + 1 \<and> pendingDhRatchet (snd (Decrypt P w sp))"
proof -
  let ?m = "sealed P name k mk n pt"
  have m: "uint (Nonce ?m) = n" "RatchetKey ?m = Some k"
    using wire_nonce(1) [OF assms(3,4)] by (simp_all add: sealed_def)
  have r: "RecvNonce (DhRatchet P (Some k) sp) = 0" "RemoteDhPublic (DhRatchet P (Some k) sp) = Some k"
    "pendingDhRatchet (DhRatchet P (Some k) sp)" "RootKey (DhRatchet P (Some k) sp) =
      take 32 (p_hkdf P (dh_or_nil P (DhPrivate sp) (Some k)) (RootKey sp) (to_bytes ''ratchet-root'') 64)"
    by (simp_all add: DhRatchet_def Let_def)
  show ?thesis
    using assms(3,5-7) m r
    by (simp add: Decrypt_frame [OF assms(1-4)] DecryptVerified_def Let_def case_prod_beta skip_to_frame
      skip_to_RecvNonce)
qed

theorem stale_frame_moves_session_witness:
  "\<exists>w. RemoteDhPublic (snd (Decrypt toy w toy_peer)) = Some [5] \<and>
    RootKey (snd (Decrypt toy w toy_peer)) =
      take 32 (p_hkdf toy (dh_or_nil toy (DhPrivate toy_peer) (Some [5])) (RootKey toy_peer) (to_bytes ''ratchet-root'') 64) \<and>
    RecvNonce (snd (Decrypt toy w toy_peer)) = 4 + 1 \<and> pendingDhRatchet (snd (Decrypt toy w toy_peer))"
proof -
  obtain w where "is_frame toy (HmacKey toy_peer) ''bob'' [5] [] 4 [] w"
    using is_frame_exists [OF toy_laws(4)] by blast
  moreover have "RemoteDhPublic toy_peer = Some (replicate 32 9)"
    "SkippedMessages toy_peer (getSkipKeyStr (b64_encode [5]) 4) = None"
    by (simp_all add: toy_peer_def)
  moreover have "(0 :: int) \<le> 4" "(4 :: int) < 2 ^ 31" by simp_all
  moreover have "replicate 32 9 \<noteq> [5 :: byte]"
  proof
    assume "replicate 32 9 = [5 :: byte]"
    then have "length (replicate 32 (9 :: byte)) = 1" by (simp only: list.size)
    then show False by simp
  qed
  ultimately show ?thesis
    using stale_frame_moves_session [OF toy_laws(4), of toy_peer "''bob''" "[5]" "[]" 4 "[]" w "replicate 32 9"]
    by blast
qed

end
