(* ===== verification/Duplex.thy ===== *)
theory Duplex
  imports RatchetChain
begin

text \<open>
  Two peers of one established session, each encrypting and decrypting at its own pace over two
  in-order channels, with the identity file saved and reloaded at any moment.  The invariant follows
  the Diffie-Hellman step: at any time at most one side may take it, or one such step is in flight.
\<close>

subsection \<open>The system\<close>

record duplex =
  pA :: SecurePeer
  pB :: SecurePeer
  toB :: "(bytes \<times> bytes) list"   \<comment> \<open>frames in flight from A to B, each with the plaintext it carries\<close>
  toA :: "(bytes \<times> bytes) list"

text \<open>
  What a save to \<^verbatim>\<open><id>.json\<close> and a load bring back of a session: \<^verbatim>\<open>encoding/json\<close> writes exported
  fields only, so \<^verbatim>\<open>pendingDhRatchet\<close> returns as its zero value.
\<close>

definition reload_peer :: "SecurePeer \<Rightarrow> SecurePeer" where
  "reload_peer sp = sp\<lparr>pendingDhRatchet := False\<rparr>"

inductive duplex_step :: "prims \<Rightarrow> string \<Rightarrow> string \<Rightarrow> duplex \<Rightarrow> duplex \<Rightarrow> bool"
  for P :: prims and na nb :: string where
  send_A: "Encrypt P rnd na pt (pA s) = (Inr w, a') \<Longrightarrow> p_basemult P rnd \<noteq> DhPublic (pA s) \<Longrightarrow>
     SendNonce a' \<le> 2 ^ 31 \<Longrightarrow>
     duplex_step P na nb s (s\<lparr>pA := a', toB := toB s @ [(w, pt)]\<rparr>)"
| send_B: "Encrypt P rnd nb pt (pB s) = (Inr w, b') \<Longrightarrow> p_basemult P rnd \<noteq> DhPublic (pB s) \<Longrightarrow>
     SendNonce b' \<le> 2 ^ 31 \<Longrightarrow>
     duplex_step P na nb s (s\<lparr>pB := b', toA := toA s @ [(w, pt)]\<rparr>)"
| recv_B: "toB s = (w, pt) # rest \<Longrightarrow> Decrypt P w (pB s) = (r, b') \<Longrightarrow>
     duplex_step P na nb s (s\<lparr>pB := b', toB := rest\<rparr>)"
| recv_A: "toA s = (w, pt) # rest \<Longrightarrow> Decrypt P w (pA s) = (r, a') \<Longrightarrow>
     duplex_step P na nb s (s\<lparr>pA := a', toA := rest\<rparr>)"
| reload_A: "duplex_step P na nb s (s\<lparr>pA := reload_peer (pA s)\<rparr>)"
| reload_B: "duplex_step P na nb s (s\<lparr>pB := reload_peer (pB s)\<rparr>)"

inductive duplex_reach :: "prims \<Rightarrow> string \<Rightarrow> string \<Rightarrow> duplex \<Rightarrow> duplex \<Rightarrow> bool"
  for P :: prims and na nb :: string and s0 :: duplex where
  start: "duplex_reach P na nb s0 s0"
| step: "duplex_reach P na nb s0 s \<Longrightarrow> duplex_step P na nb s t \<Longrightarrow> duplex_reach P na nb s0 t"

subsection \<open>The invariant\<close>

text \<open>Consecutive frames of the chain \<open>c\<close>, numbered from \<open>i\<close>.\<close>

definition frames_from ::
  "prims \<Rightarrow> bytes \<Rightarrow> string \<Rightarrow> bytes \<Rightarrow> bytes \<Rightarrow> int \<Rightarrow> (bytes \<times> bytes) list \<Rightarrow> bool" where
  "frames_from P hk name k c i fs \<longleftrightarrow>
     (\<forall>j<length fs. i + int j < 2 ^ 31 \<and>
        is_frame P hk name k (mk_at P c j) (i + int j) (snd (fs ! j)) (fst (fs ! j)))"

text \<open>The receiver is on the sender's current chain and the frames in flight connect the two.\<close>

definition lane :: "prims \<Rightarrow> string \<Rightarrow> SecurePeer \<Rightarrow> SecurePeer \<Rightarrow> (bytes \<times> bytes) list \<Rightarrow> bool" where
  "lane P name X Y fs \<longleftrightarrow>
     RemoteDhPublic Y = Some (DhPublic X) \<and> 0 \<le> RecvNonce Y \<and>
     frames_from P (HmacKey Y) name (DhPublic X) (RecvCk Y) (RecvNonce Y) fs \<and>
     SendCk X = ck_at P (RecvCk Y) (length fs) \<and> SendNonce X = RecvNonce Y + int (length fs)"

text \<open>The sender has taken a Diffie-Hellman step that the receiver has not seen yet.\<close>

definition lane_ahead ::
  "prims \<Rightarrow> string \<Rightarrow> SecurePeer \<Rightarrow> SecurePeer \<Rightarrow> (bytes \<times> bytes) list \<Rightarrow> bool" where
  "lane_ahead P name X Y fs \<longleftrightarrow>
     (\<exists>old new k. fs = old @ new \<and> new \<noteq> [] \<and> RemoteDhPublic Y = Some k \<and> k \<noteq> DhPublic X \<and>
        0 \<le> RecvNonce Y \<and> frames_from P (HmacKey Y) name k (RecvCk Y) (RecvNonce Y) old \<and>
        (let Y1 = DhRatchet P (Some (DhPublic X)) Y in
           RootKey X = RootKey Y1 \<and>
           frames_from P (HmacKey Y) name (DhPublic X) (RecvCk Y1) 0 new \<and>
           SendCk X = ck_at P (RecvCk Y1) (length new)) \<and>
        SendNonce X = int (length new))"

definition paired :: "prims \<Rightarrow> SecurePeer \<Rightarrow> SecurePeer \<Rightarrow> bool" where
  "paired P X Y \<longleftrightarrow>
     HmacKey X = HmacKey Y \<and> DhPublic X = p_basemult P (DhPrivate X) \<and>
     DhPublic Y = p_basemult P (DhPrivate Y) \<and>
     SkippedMessages X = Map.empty \<and> SkippedMessages Y = Map.empty"

definition duplex_inv ::
  "prims \<Rightarrow> string \<Rightarrow> string \<Rightarrow> SecurePeer \<Rightarrow> SecurePeer \<Rightarrow> (bytes \<times> bytes) list \<Rightarrow> (bytes \<times> bytes) list \<Rightarrow> bool" where
  "duplex_inv P nx ny X Y xy yx \<longleftrightarrow> paired P X Y \<and>
     (lane P nx X Y xy \<and> lane P ny Y X yx \<and> RootKey X = RootKey Y \<and>
        \<not> (pendingDhRatchet X \<and> pendingDhRatchet Y)
      \<or> lane_ahead P nx X Y xy \<and> lane P ny Y X yx \<and> \<not> pendingDhRatchet X \<and> \<not> pendingDhRatchet Y
      \<or> lane_ahead P ny Y X yx \<and> lane P nx X Y xy \<and> \<not> pendingDhRatchet X \<and> \<not> pendingDhRatchet Y)"

lemma paired_sym: "paired P X Y \<longleftrightarrow> paired P Y X"
  by (auto simp: paired_def)

lemma duplex_inv_sym: "duplex_inv P nx ny X Y xy yx \<longleftrightarrow> duplex_inv P ny nx Y X yx xy"
  unfolding duplex_inv_def paired_sym [of P X Y] by auto

lemma frames_from_Nil [simp]: "frames_from P hk name k c i []"
  by (simp add: frames_from_def)

lemma frames_from_snoc:
  "frames_from P hk name k c i (fs @ [f]) \<longleftrightarrow>
     frames_from P hk name k c i fs \<and> i + int (length fs) < 2 ^ 31 \<and>
     is_frame P hk name k (mk_at P c (length fs)) (i + int (length fs)) (snd f) (fst f)"
  by (auto simp: frames_from_def nth_append less_Suc_eq)

lemma frames_from_Cons:
  "frames_from P hk name k c i ((w, pt) # fs) \<longleftrightarrow>
     i < 2 ^ 31 \<and> is_frame P hk name k (mk_at P c 0) i pt w \<and>
     frames_from P hk name k (ck_at P c 1) (i + 1) fs"
proof -
  have "frames_from P hk name k c i ((w, pt) # fs) \<longleftrightarrow>
      (\<forall>j<Suc (length fs). i + int j < 2 ^ 31 \<and> is_frame P hk name k (mk_at P c j) (i + int j)
         (snd (((w, pt) # fs) ! j)) (fst (((w, pt) # fs) ! j)))"
    by (simp add: frames_from_def)
  also have "\<dots> \<longleftrightarrow> i < 2 ^ 31 \<and> is_frame P hk name k (mk_at P c 0) i pt w \<and>
      (\<forall>j<length fs. i + 1 + int j < 2 ^ 31 \<and> is_frame P hk name k (mk_at P c (Suc j)) (i + 1 + int j)
         (snd (fs ! j)) (fst (fs ! j)))"
    by (subst All_less_Suc2) (auto simp: ac_simps)
  finally show ?thesis by (simp add: frames_from_def mk_at_shift)
qed

subsection \<open>One delivery\<close>

lemma decrypt_in_order:
  assumes laws: "np_law P" "aead_law P" "hkdf_law P"
    and sp: "SkippedMessages sp = Map.empty" "RemoteDhPublic sp = Some k" "0 \<le> RecvNonce sp"
    and w: "RecvNonce sp < 2 ^ 31" "is_frame P (HmacKey sp) name k (mk_at P (RecvCk sp) 0) (RecvNonce sp) pt w"
  shows "Decrypt P w sp = (Inr (name, pt), sp\<lparr>RecvCk := ck_at P (RecvCk sp) 1, RecvNonce := RecvNonce sp + 1\<rparr>)"
proof -
  let ?m = "sealed P name k (mk_at P (RecvCk sp) 0) (RecvNonce sp) pt"
  have "uint (Nonce ?m) = RecvNonce sp" "octets (RatchetKey ?m) = k"
    using wire_nonce(1) [OF sp(3) w(1)] by (simp_all add: sealed_def)
  moreover have "open_message P (snd (RatchetStep P (RecvCk sp))) (RecvNonce sp) ?m = Inr (name, pt)"
    using open_sealed [OF laws(2) length_mk_at [OF laws(3)], of "RecvCk sp" 0]
    by (simp add: mk_at_def)
  ultimately have "DecryptVerified P ?m sp =
      (Inr (name, pt), sp\<lparr>RecvCk := ck_at P (RecvCk sp) 1, RecvNonce := RecvNonce sp + 1\<rparr>)"
    using sp by (simp add: DecryptVerified_def Let_def case_prod_beta skip_to_done)
  then show ?thesis using Decrypt_frame [OF laws(1) w(2) sp(3) w(1)] by simp
qed

lemma decrypt_new_key:
  assumes laws: "np_law P" "aead_law P" "hkdf_law P"
    and sp: "SkippedMessages sp = Map.empty" "RemoteDhPublic sp = Some k'" "k' \<noteq> k"
    and w: "is_frame P (HmacKey sp) name k (mk_at P (RecvCk (DhRatchet P (Some k) sp)) 0) 0 pt w"
  shows "Decrypt P w sp = (Inr (name, pt), (DhRatchet P (Some k) sp)
           \<lparr>RecvCk := ck_at P (RecvCk (DhRatchet P (Some k) sp)) 1, RecvNonce := 1\<rparr>)"
proof -
  let ?s = "DhRatchet P (Some k) sp"
  let ?m = "sealed P name k (mk_at P (RecvCk ?s) 0) 0 pt"
  have n: "uint (Nonce ?m) = 0" "RatchetKey ?m = Some k"
    using wire_nonce(1) [of 0] by (simp_all add: sealed_def)
  have s: "RecvNonce ?s = 0" "RemoteDhPublic ?s = Some k"
    by (simp_all add: DhRatchet_def Let_def)
  have "open_message P (snd (RatchetStep P (RecvCk ?s))) 0 ?m = Inr (name, pt)"
    using open_sealed [OF laws(2) length_mk_at [OF laws(3)], of "RecvCk ?s" 0]
    by (simp add: mk_at_def)
  then have "DecryptVerified P ?m sp =
      (Inr (name, pt), ?s\<lparr>RecvCk := ck_at P (RecvCk ?s) 1, RecvNonce := 1\<rparr>)"
    using sp n s by (simp add: DecryptVerified_def Let_def case_prod_beta skip_to_done)
  then show ?thesis using Decrypt_frame [OF laws(1) w] by simp
qed


subsection \<open>Preservation\<close>

definition sent :: "prims \<Rightarrow> SecurePeer \<Rightarrow> SecurePeer" where
  "sent P X = X\<lparr>SendCk := ck_at P (SendCk X) 1, SendNonce := SendNonce X + 1\<rparr>"

definition received :: "prims \<Rightarrow> SecurePeer \<Rightarrow> SecurePeer" where
  "received P Y = Y\<lparr>RecvCk := ck_at P (RecvCk Y) 1, RecvNonce := RecvNonce Y + 1\<rparr>"

lemma sent_simps [simp]:
  "SendCk (sent P X) = fst (RatchetStep P (SendCk X))" "SendNonce (sent P X) = SendNonce X + 1"
  "RecvCk (sent P X) = RecvCk X" "RecvNonce (sent P X) = RecvNonce X" "HmacKey (sent P X) = HmacKey X"
  "RootKey (sent P X) = RootKey X" "DhPublic (sent P X) = DhPublic X" "DhPrivate (sent P X) = DhPrivate X"
  "RemoteDhPublic (sent P X) = RemoteDhPublic X" "pendingDhRatchet (sent P X) = pendingDhRatchet X"
  "SkippedMessages (sent P X) = SkippedMessages X"
  by (simp_all add: sent_def)

lemma received_simps [simp]:
  "RecvCk (received P X) = fst (RatchetStep P (RecvCk X))" "RecvNonce (received P X) = RecvNonce X + 1"
  "SendCk (received P X) = SendCk X" "SendNonce (received P X) = SendNonce X"
  "HmacKey (received P X) = HmacKey X" "RootKey (received P X) = RootKey X"
  "DhPublic (received P X) = DhPublic X" "DhPrivate (received P X) = DhPrivate X"
  "RemoteDhPublic (received P X) = RemoteDhPublic X"
  "pendingDhRatchet (received P X) = pendingDhRatchet X"
  "SkippedMessages (received P X) = SkippedMessages X"
  by (simp_all add: received_def)

lemma lane_send:
  assumes "lane P n X Y fs" "SendNonce X < 2 ^ 31"
    and "is_frame P (HmacKey Y) n (DhPublic X) (mk_at P (SendCk X) 0) (SendNonce X) pt w"
  shows "lane P n (sent P X) Y (fs @ [(w, pt)])"
  using assms by (auto simp: lane_def frames_from_snoc mk_at_add)

lemma lane_ahead_send:
  assumes "lane_ahead P n X Y fs" "SendNonce X < 2 ^ 31"
    and "is_frame P (HmacKey Y) n (DhPublic X) (mk_at P (SendCk X) 0) (SendNonce X) pt w"
  shows "lane_ahead P n (sent P X) Y (fs @ [(w, pt)])"
proof -
  obtain old new k where *: "fs = old @ new" "new \<noteq> []" "RemoteDhPublic Y = Some k" "k \<noteq> DhPublic X"
    "0 \<le> RecvNonce Y" "frames_from P (HmacKey Y) n k (RecvCk Y) (RecvNonce Y) old"
    "RootKey X = RootKey (DhRatchet P (Some (DhPublic X)) Y)"
    "frames_from P (HmacKey Y) n (DhPublic X) (RecvCk (DhRatchet P (Some (DhPublic X)) Y)) 0 new"
    "SendCk X = ck_at P (RecvCk (DhRatchet P (Some (DhPublic X)) Y)) (length new)"
    "SendNonce X = int (length new)"
    using assms(1) by (auto simp: lane_ahead_def Let_def)
  have "frames_from P (HmacKey Y) n (DhPublic X) (RecvCk (DhRatchet P (Some (DhPublic X)) Y)) 0
      (new @ [(w, pt)])"
    using *(8,9,10) assms(2,3) by (simp add: frames_from_snoc mk_at_add)
  then show ?thesis using *
    by (simp add: lane_ahead_def Let_def)
      (intro exI [of _ old] exI [of _ "new @ [(w, pt)]"] exI [of _ k], auto)
qed

text \<open>The Diffie-Hellman step of the sender, seen from the receiver.\<close>

lemma lane_ratchet_send:
  assumes "dh_law P" and "paired P X Y" and "lane P n X Y fs" and "RemoteDhPublic X = Some (DhPublic Y)"
    and "RootKey X = RootKey Y" and "pendingDhRatchet X" and "p_basemult P rnd \<noteq> DhPublic X"
    and "is_frame P (HmacKey Y) n (DhPublic (send_ratchet P rnd X))
          (mk_at P (SendCk (send_ratchet P rnd X)) 0) 0 pt w"
  shows "lane_ahead P n (sent P (send_ratchet P rnd X)) Y (fs @ [(w, pt)])"
proof -
  let ?X = "send_ratchet P rnd X"
  let ?Y = "DhRatchet P (Some (p_basemult P rnd)) Y"
  have "dh_or_nil P rnd (RemoteDhPublic X) = dh_or_nil P (DhPrivate Y) (Some (p_basemult P rnd))"
    using assms(1,2,4) by (simp add: dh_or_nil_def dh_law_def paired_def)
  then have X: "DhPublic ?X = p_basemult P rnd" "RootKey ?X = RootKey ?Y" "SendCk ?X = RecvCk ?Y"
      "SendNonce ?X = 0"
    using assms(5,6) by (simp_all add: send_ratchet_def DhRatchet_def GenerateX25519KeyPair_def Let_def)
  have "frames_from P (HmacKey Y) n (p_basemult P rnd) (RecvCk ?Y) 0 [(w, pt)]"
    using assms(8) X by (simp add: frames_from_def)
  moreover have "RemoteDhPublic Y = Some (DhPublic X)" "0 \<le> RecvNonce Y"
    "frames_from P (HmacKey Y) n (DhPublic X) (RecvCk Y) (RecvNonce Y) fs"
    using assms(3) by (simp_all add: lane_def)
  ultimately show ?thesis using X assms(7)
    by (simp add: lane_ahead_def Let_def) (intro exI [of _ fs] exI [of _ "[(w, pt)]"], auto)
qed

lemma lane_other_side:
  "lane P n Y (sent P X) fs = lane P n Y X fs"
  "lane_ahead P n Y (sent P X) fs = lane_ahead P n Y X fs"
  "lane P n (received P Y) X fs = lane P n Y X fs"
  "lane_ahead P n (received P Y) X fs = lane_ahead P n Y X fs"
  by (simp_all add: lane_def lane_ahead_def DhRatchet_def Let_def)

lemma paired_frame:
  "paired P (sent P X) Y = paired P X Y" "paired P X (received P Y) = paired P X Y"
  by (simp_all add: paired_def)

lemma inv_send:
  assumes laws: "np_law P" "hkdf_law P" "dh_law P" and inv: "duplex_inv P nx ny X Y xy yx"
    and enc: "Encrypt P rnd nx pt X = (Inr w, X')" and fresh: "p_basemult P rnd \<noteq> DhPublic X"
    and bound: "SendNonce X' \<le> 2 ^ 31"
  shows "duplex_inv P nx ny X' Y (xy @ [(w, pt)]) yx"
proof -
  let ?X = "send_ratchet P rnd X"
  have hk: "HmacKey X = HmacKey Y" using inv by (simp add: duplex_inv_def paired_def)
  have X': "X' = sent P ?X" and
    fr: "is_frame P (HmacKey Y) nx (DhPublic ?X) (mk_at P (SendCk ?X) 0) (SendNonce ?X) pt w"
    using Encrypt_frame [OF laws(1,2), of rnd nx pt X] enc hk by (auto simp: sent_def)
  have lt: "SendNonce ?X < 2 ^ 31" using bound X' by simp
  show ?thesis
  proof (cases "pendingDhRatchet X")
    case False
    then have sr: "?X = X" by simp
    show ?thesis using inv lane_send [of P nx X Y xy pt w] lane_ahead_send [of P nx X Y xy pt w] fr lt
      unfolding duplex_inv_def X' sr by (auto simp: lane_other_side paired_frame)
  next
    case True
    then have idle: "lane P nx X Y xy" "lane P ny Y X yx" "RootKey X = RootKey Y" "\<not> pendingDhRatchet Y"
      and pr: "paired P X Y"
      using inv by (auto simp: duplex_inv_def)
    have s0: "SendNonce ?X = 0" "\<not> pendingDhRatchet ?X" "DhPublic ?X = p_basemult P (DhPrivate ?X)"
      using True by (simp_all add: send_ratchet_def GenerateX25519KeyPair_def Let_def)
    have keep: "RemoteDhPublic ?X = RemoteDhPublic X" "RecvNonce ?X = RecvNonce X" "RecvCk ?X = RecvCk X"
      "SkippedMessages ?X = SkippedMessages X"
      by (simp_all add: send_ratchet_def Let_def case_prod_beta)
    have "RemoteDhPublic X = Some (DhPublic Y)" using idle(2) by (simp add: lane_def)
    then have "lane_ahead P nx (sent P ?X) Y (xy @ [(w, pt)])"
      using lane_ratchet_send [OF laws(3) pr idle(1) _ idle(3) True fresh] fr s0(1) by simp
    moreover have "lane P ny Y (sent P ?X) yx" using idle(2) keep by (simp add: lane_def)
    moreover have "paired P (sent P ?X) Y" using pr s0 keep by (simp add: paired_def)
    ultimately show ?thesis using idle(4) s0(2) by (simp add: duplex_inv_def X')
  qed
qed

lemma lane_recv:
  assumes laws: "np_law P" "aead_law P" "hkdf_law P" and "SkippedMessages Y = Map.empty"
    and "lane P n X Y ((w, pt) # rest)"
  shows "Decrypt P w Y = (Inr (n, pt), received P Y) \<and> lane P n X (received P Y) rest"
proof -
  have Y: "RemoteDhPublic Y = Some (DhPublic X)" "0 \<le> RecvNonce Y" "RecvNonce Y < 2 ^ 31"
    "is_frame P (HmacKey Y) n (DhPublic X) (mk_at P (RecvCk Y) 0) (RecvNonce Y) pt w"
    "frames_from P (HmacKey Y) n (DhPublic X) (ck_at P (RecvCk Y) 1) (RecvNonce Y + 1) rest"
    using assms(5) by (auto simp: lane_def frames_from_Cons)
  show ?thesis
    using decrypt_in_order [OF laws assms(4) Y(1-4)] Y assms(5) ck_at_shift [of P "RecvCk Y" "length rest"]
    by (simp add: lane_def received_def)
qed

lemma lane_ahead_recv:
  assumes laws: "np_law P" "aead_law P" "hkdf_law P" and "SkippedMessages Y = Map.empty"
    and la: "lane_ahead P n X Y ((w, pt) # rest)"
  shows "Decrypt P w Y = (Inr (n, pt), received P Y) \<and> lane_ahead P n X (received P Y) rest \<or>
         Decrypt P w Y = (Inr (n, pt), received P (DhRatchet P (Some (DhPublic X)) Y)) \<and>
         lane P n X (received P (DhRatchet P (Some (DhPublic X)) Y)) rest \<and>
         RootKey X = RootKey (DhRatchet P (Some (DhPublic X)) Y)"
proof -
  let ?Y = "DhRatchet P (Some (DhPublic X)) Y"
  obtain old new k where *: "(w, pt) # rest = old @ new" "new \<noteq> []" "RemoteDhPublic Y = Some k"
    "k \<noteq> DhPublic X" "0 \<le> RecvNonce Y" "frames_from P (HmacKey Y) n k (RecvCk Y) (RecvNonce Y) old"
    "RootKey X = RootKey ?Y" "frames_from P (HmacKey Y) n (DhPublic X) (RecvCk ?Y) 0 new"
    "SendCk X = ck_at P (RecvCk ?Y) (length new)" "SendNonce X = int (length new)"
    using la by (auto simp: lane_ahead_def Let_def)
  show ?thesis
  proof (cases old)
    case Nil
    then have new: "new = (w, pt) # rest" using *(1) by simp
    then have fr: "is_frame P (HmacKey Y) n (DhPublic X) (mk_at P (RecvCk ?Y) 0) 0 pt w"
      "frames_from P (HmacKey Y) n (DhPublic X) (ck_at P (RecvCk ?Y) 1) 1 rest"
      using *(8) by (simp_all add: frames_from_Cons)
    have Y: "HmacKey ?Y = HmacKey Y" "RemoteDhPublic ?Y = Some (DhPublic X)" "RecvNonce ?Y = 0"
      by (simp_all add: DhRatchet_def Let_def)
    have "Decrypt P w Y = (Inr (n, pt), received P ?Y)"
      using decrypt_new_key [OF laws assms(4) *(3,4) fr(1)] Y(3) by (simp add: received_def)
    moreover have "lane P n X (received P ?Y) rest"
      using fr(2) Y *(9,10) new ck_at_shift [of P "RecvCk ?Y" "length rest"] by (simp add: lane_def)
    ultimately show ?thesis using *(7) by blast
  next
    case (Cons f old')
    then have old: "old = (w, pt) # old'" "rest = old' @ new" using *(1) by auto
    then have fr: "RecvNonce Y < 2 ^ 31"
      "is_frame P (HmacKey Y) n k (mk_at P (RecvCk Y) 0) (RecvNonce Y) pt w"
      "frames_from P (HmacKey Y) n k (ck_at P (RecvCk Y) 1) (RecvNonce Y + 1) old'"
      using *(6) by (auto simp: frames_from_Cons)
    have "Decrypt P w Y = (Inr (n, pt), received P Y)"
      using decrypt_in_order [OF laws assms(4) *(3,5) fr(1,2)] by (simp add: received_def)
    moreover have "lane_ahead P n X (received P Y) rest"
      unfolding lane_ahead_def Let_def
      by (rule exI [of _ old'], rule exI [of _ new], rule exI [of _ k])
        (use * fr(3) old(2) in \<open>simp add: DhRatchet_def Let_def\<close>)
    ultimately show ?thesis by blast
  qed
qed

lemma DhRatchet_send_side:
  "lane P n (received P (DhRatchet P k Y)) X fs = lane P n Y X fs"
  "paired P X (received P (DhRatchet P k Y)) = paired P X Y"
  "pendingDhRatchet (DhRatchet P k Y)" "RootKey (received P (DhRatchet P k Y)) = RootKey (DhRatchet P k Y)"
  by (simp_all add: lane_def paired_def DhRatchet_def Let_def)

lemma inv_recv:
  assumes laws: "np_law P" "aead_law P" "hkdf_law P"
    and inv: "duplex_inv P nx ny X Y ((w, pt) # rest) yx"
  shows "\<exists>Y'. Decrypt P w Y = (Inr (nx, pt), Y') \<and> duplex_inv P nx ny X Y' rest yx"
proof -
  let ?Y = "DhRatchet P (Some (DhPublic X)) Y"
  have pr: "paired P X Y" and sk: "SkippedMessages Y = Map.empty"
    using inv by (auto simp: duplex_inv_def paired_def)
  consider
      (current) "lane P nx X Y ((w, pt) # rest)"
    | (ahead) "lane_ahead P nx X Y ((w, pt) # rest)" "lane P ny Y X yx" "\<not> pendingDhRatchet X"
        "\<not> pendingDhRatchet Y"
    using inv by (auto simp: duplex_inv_def)
  then show ?thesis
  proof cases
    case current
    then have "Decrypt P w Y = (Inr (nx, pt), received P Y)" "lane P nx X (received P Y) rest"
      using lane_recv [OF laws sk] by blast+
    moreover have "lane_ahead P nx X Y ((w, pt) # rest) \<Longrightarrow> False"
      using current by (auto simp: lane_def lane_ahead_def)
    ultimately show ?thesis using inv
      by (auto simp: duplex_inv_def lane_other_side paired_frame)
  next
    case ahead
    from lane_ahead_recv [OF laws sk ahead(1)] show ?thesis
    proof (elim disjE conjE)
      assume "Decrypt P w Y = (Inr (nx, pt), received P Y)" "lane_ahead P nx X (received P Y) rest"
      then show ?thesis using ahead pr by (auto simp: duplex_inv_def lane_other_side paired_frame)
    next
      assume "Decrypt P w Y = (Inr (nx, pt), received P ?Y)" "lane P nx X (received P ?Y) rest"
        "RootKey X = RootKey ?Y"
      then show ?thesis using ahead pr by (auto simp: duplex_inv_def DhRatchet_send_side)
    qed
  qed
qed

lemma reload_simps:
  "lane P n (reload_peer X) Y fs = lane P n X Y fs" "lane P n Y (reload_peer X) fs = lane P n Y X fs"
  "lane_ahead P n (reload_peer X) Y fs = lane_ahead P n X Y fs"
  "lane_ahead P n Y (reload_peer X) fs = lane_ahead P n Y X fs"
  "paired P (reload_peer X) Y = paired P X Y" "RootKey (reload_peer X) = RootKey X"
  "\<not> pendingDhRatchet (reload_peer X)"
  by (simp_all add: reload_peer_def lane_def lane_ahead_def paired_def DhRatchet_def Let_def)

lemma inv_reload: "duplex_inv P nx ny X Y xy yx \<Longrightarrow> duplex_inv P nx ny (reload_peer X) Y xy yx"
  by (auto simp: duplex_inv_def reload_simps)

abbreviation dinv :: "prims \<Rightarrow> string \<Rightarrow> string \<Rightarrow> duplex \<Rightarrow> bool" where
  "dinv P na nb s \<equiv> duplex_inv P na nb (pA s) (pB s) (toB s) (toA s)"

lemma duplex_step_inv:
  assumes "np_law P" "aead_law P" "hkdf_law P" "dh_law P"
  shows "duplex_step P na nb s t \<Longrightarrow> dinv P na nb s \<Longrightarrow> dinv P na nb t"
proof (induction rule: duplex_step.induct)
  case (send_A rnd pt s w a')
  then show ?case using inv_send [OF assms(1,3,4)] by simp
next
  case (send_B rnd pt s w b')
  then show ?case using inv_send [OF assms(1,3,4), of nb na "pB s" "pA s" "toA s" "toB s"]
    by (simp add: duplex_inv_sym [of P na nb])
next
  case (recv_B s w pt rest r b')
  then show ?case using inv_recv [OF assms(1-3), of na nb "pA s" "pB s" w pt rest "toA s"] by auto
next
  case (recv_A s w pt rest r a')
  then show ?case using inv_recv [OF assms(1-3), of nb na "pB s" "pA s" w pt rest "toB s"]
    by (auto simp: duplex_inv_sym [of P na nb])
next
  case (reload_A s)
  then show ?case by (simp add: inv_reload)
next
  case (reload_B s)
  then show ?case using inv_reload [of P nb na "pB s" "pA s" "toA s" "toB s"]
    by (simp add: duplex_inv_sym [of P na nb])
qed

lemma duplex_reach_inv:
  assumes "np_law P" "aead_law P" "hkdf_law P" "dh_law P"
  shows "duplex_reach P na nb s0 s \<Longrightarrow> dinv P na nb s0 \<Longrightarrow> dinv P na nb s"
proof (induction rule: duplex_reach.induct)
  case (step s t)
  then show ?case using duplex_step_inv [OF assms] by blast
qed

subsection \<open>Sessions\<close>

text \<open>Two peers that have just derived the same session, mirrored.\<close>

definition mirrored :: "prims \<Rightarrow> SecurePeer \<Rightarrow> SecurePeer \<Rightarrow> bool" where
  "mirrored P a b \<longleftrightarrow>
     HmacKey a = HmacKey b \<and> RootKey a = RootKey b \<and> SendCk a = RecvCk b \<and> RecvCk a = SendCk b \<and>
     RemoteDhPublic a = Some (DhPublic b) \<and> RemoteDhPublic b = Some (DhPublic a) \<and>
     DhPublic a = p_basemult P (DhPrivate a) \<and> DhPublic b = p_basemult P (DhPrivate b) \<and>
     SendNonce a = 0 \<and> RecvNonce a = 0 \<and> SendNonce b = 0 \<and> RecvNonce b = 0 \<and>
     SkippedMessages a = Map.empty \<and> SkippedMessages b = Map.empty \<and>
     (pendingDhRatchet a \<noteq> pendingDhRatchet b)"

definition fresh_duplex :: "SecurePeer \<Rightarrow> SecurePeer \<Rightarrow> duplex" where
  "fresh_duplex a b = \<lparr>pA = a, pB = b, toB = [], toA = []\<rparr>"

lemma mirrored_inv: "mirrored P a b \<Longrightarrow> dinv P na nb (fresh_duplex a b)"
  by (auto simp: mirrored_def fresh_duplex_def duplex_inv_def paired_def lane_def)

lemma session_head_delivered:
  assumes laws: "np_law P" "aead_law P" "hkdf_law P" "dh_law P" and "mirrored P a b"
    and reach: "duplex_reach P na nb (fresh_duplex a b) s"
  shows "toB s = (w, pt) # rest \<Longrightarrow> fst (Decrypt P w (pB s)) = Inr (na, pt)"
    and "toA s = (w, pt) # rest \<Longrightarrow> fst (Decrypt P w (pA s)) = Inr (nb, pt)"
proof -
  have inv: "dinv P na nb s" by (rule duplex_reach_inv [OF laws reach mirrored_inv [OF assms(5)]])
  show "fst (Decrypt P w (pB s)) = Inr (na, pt)" if "toB s = (w, pt) # rest"
    using inv_recv [OF laws(1-3), of na nb "pA s" "pB s" w pt rest "toA s"] inv that by auto
  show "fst (Decrypt P w (pA s)) = Inr (nb, pt)" if "toA s = (w, pt) # rest"
    using inv_recv [OF laws(1-3), of nb na "pB s" "pA s" w pt rest "toB s"] inv that
    by (auto simp: duplex_inv_sym [of P na nb])
qed

text \<open>
  C2.  Two peers that hold a mirrored session and exchange messages over two in-order channels, in any
  interleaving of sends, receives, Diffie-Hellman steps and save/load cycles: the next frame of each
  channel always decrypts to the plaintext it was made from, under the sender's name.
\<close>

theorem fifo_delivery:
  assumes "np_law P" "aead_law P" "hkdf_law P" "dh_law P" and "mirrored P a b"
    and "duplex_reach P na nb (fresh_duplex a b) s"
  shows "(\<forall>w pt rest. toB s = (w, pt) # rest \<longrightarrow> fst (Decrypt P w (pB s)) = Inr (na, pt)) \<and>
         (\<forall>w pt rest. toA s = (w, pt) # rest \<longrightarrow> fst (Decrypt P w (pA s)) = Inr (nb, pt))"
  using session_head_delivered [OF assms] by blast

lemma toy_mirrored: "mirrored toy toy_peer toy_peer'"
  by (simp add: mirrored_def toy_peer_def toy_peer'_def toy_def)

lemma toy_first_step:
  "\<exists>w a'. duplex_reach toy ''alice'' ''bob'' (fresh_duplex toy_peer toy_peer')
      (fresh_duplex toy_peer toy_peer'\<lparr>pA := a', toB := [(w, [10])]\<rparr>)"
proof -
  obtain w where w: "Encrypt toy [] ''alice'' [10] toy_peer = (Inr w, sent toy toy_peer)"
    using Encrypt_chain [OF toy_laws(4,2), of toy_peer "[]" "''alice''" "[10]"]
    by (auto simp: sent_def toy_peer_def)
  have "duplex_step toy ''alice'' ''bob'' (fresh_duplex toy_peer toy_peer')
      (fresh_duplex toy_peer toy_peer'\<lparr>pA := sent toy toy_peer, toB := toB (fresh_duplex toy_peer toy_peer') @ [(w, [10])]\<rparr>)"
    by (rule send_A [of _ "[]"]) (simp_all add: fresh_duplex_def w, simp_all add: toy_peer_def toy_def)
  then show ?thesis using duplex_reach.start duplex_reach.step by (fastforce simp: fresh_duplex_def)
qed

theorem fifo_delivery_witness:
  "\<exists>s w. duplex_reach toy ''alice'' ''bob'' (fresh_duplex toy_peer toy_peer') s \<and>
     toB s = [(w, [10])] \<and> fst (Decrypt toy w (pB s)) = Inr (''alice'', [10])"
proof -
  obtain w a' where r: "duplex_reach toy ''alice'' ''bob'' (fresh_duplex toy_peer toy_peer')
      (fresh_duplex toy_peer toy_peer'\<lparr>pA := a', toB := [(w, [10])]\<rparr>)"
    using toy_first_step by blast
  show ?thesis using fifo_delivery [OF toy_laws(4,3,2,1) toy_mirrored r] r by fastforce
qed

end
