(* ===== verification/Agreement.thy ===== *)
theory Agreement
  imports Engine Duplex
begin

text \<open>
  The handshake establishes a session: an offer, its acceptance and the completion leave the two
  sides with mirrored keys, and what each side accepted was bound to the identity it names.
\<close>

subsection \<open>Both sides derive the same keys\<close>

lemma sort_mset_cong: "mset xs = mset ys \<Longrightarrow> sort xs = sort ys" for xs ys :: "'a :: linorder list"
  by (rule properties_for_sort) simp_all

lemma GetTranscript_swap:
  "GetTranscript P A (IdentityPublic B) (Public B) (DhPublic B) (PqcPublicKey B) =
   GetTranscript P B (IdentityPublic A) (Public A) (DhPublic A) (PqcPublicKey A)"
proof -
  let ?h = "p_sha3_256 P"
  let ?xs = "\<lambda>A B. map ?h [IdentityPublic A, Public A, DhPublic A, PqcPublicKey A,
                         IdentityPublic B, Public B, DhPublic B, PqcPublicKey B]"
  have "mset (?xs A B) = mset (?xs B A)" by simp
  then have "sort (?xs A B) = sort (?xs B A)"
    by (rule sort_mset_cong)
  then show ?thesis by (simp only: GetTranscript_def Let_def)
qed

text \<open>What a completed handshake leaves in the peer.\<close>

definition session_material :: "prims \<Rightarrow> bytes \<Rightarrow> bytes \<Rightarrow> bytes \<Rightarrow> bytes" where
  "session_material P secret transcript dhShared =
     p_hkdf P dhShared (p_hkdf P secret transcript (to_bytes ''initial-root'') 32) (to_bytes ''ratchet-root'') 160"

definition keyed :: "bool \<Rightarrow> bytes option \<Rightarrow> bytes \<Rightarrow> SecurePeer \<Rightarrow> SecurePeer" where
  "keyed amInit remote mat sp =
     sp\<lparr>AmInitiator := amInit, RemoteDhPublic := remote,
        SendCk := (if amInit then take 32 mat else take 32 (drop 32 mat)),
        RecvCk := (if amInit then take 32 (drop 32 mat) else take 32 mat),
        RootKey := take 32 (drop 64 mat), HmacKey := take 32 (drop 96 mat),
        FileKey := take 32 (drop 128 mat), SendNonce := 0, RecvNonce := 0,
        pendingDhRatchet := (if amInit then pendingDhRatchet sp else True)\<rparr>"

lemma Handshake_result:
  assumes "Handshake P i p d ky dil s1 s2 ss oid r sp = (None, sp')"
  shows "\<exists>ecc. p_x25519 P (Private sp) p = Some ecc \<and>
    sp' = keyed (fst (sortedByHash P i (IdentityPublic sp)) = IdentityPublic sp) d
      (session_material P (ecc @ ss) (GetTranscript P sp i p (octets d) ky) (dh_or_nil P (DhPrivate sp) d)) sp"
  using assms by (auto simp: Handshake_def keyed_def session_material_def Let_def split: if_splits option.splits)

lemma Handshake_checked:
  assumes "Handshake P i p d ky dil s1 s2 ss oid r sp = (None, sp')"
  shows "length i = 32" "p_ed_verify P i (concat [r, p, octets d, ky, dil, oid]) s1"
    "DilithiumVerify P dil (concat [r, p, octets d, ky, dil, oid]) s2"
    "ExpectedPeerHash sp \<noteq> None \<Longrightarrow> to_bytes (DerivePeerID P i dil) = octets (ExpectedPeerHash sp)"
  using assms by (auto simp: Handshake_def Let_def split: if_splits option.splits)

lemma Handshake_failed: "Handshake P i p d ky dil s1 s2 ss oid r sp = (Some e, sp') \<Longrightarrow> sp' = sp"
  by (auto simp: Handshake_def Let_def split: if_splits option.splits)

lemma Handshake_succeeds:
  assumes "length i = 32" "p_ed_verify P i (concat [r, p, octets d, ky, dil, oid]) s1"
    "DilithiumVerify P dil (concat [r, p, octets d, ky, dil, oid]) s2" "ExpectedPeerHash sp = None"
    "p_x25519 P (Private sp) p \<noteq> None"
  shows "\<exists>sp'. Handshake P i p d ky dil s1 s2 ss oid r sp = (None, sp')"
  using assms by (auto simp: Handshake_def Let_def)

lemma keyed_simps [simp]:
  "SeenOffers (keyed a d m sp) = SeenOffers sp" "SkippedMessages (keyed a d m sp) = SkippedMessages sp"
  "DhPublic (keyed a d m sp) = DhPublic sp" "DhPrivate (keyed a d m sp) = DhPrivate sp"
  "AmInitiator (keyed a d m sp) = a" "FileKey (keyed a d m sp) = take 32 (drop 128 m)"
  "IdentityPublic (keyed a d m sp) = IdentityPublic sp" "Public (keyed a d m sp) = Public sp"
  "PqcPublicKey (keyed a d m sp) = PqcPublicKey sp" "PqcSignPublic (keyed a d m sp) = PqcSignPublic sp"
  "IdentityPrivate (keyed a d m sp) = IdentityPrivate sp" "PqcSignPrivate (keyed a d m sp) = PqcSignPrivate sp"
  by (simp_all add: keyed_def)

lemma keyed_mirrored:
  assumes "SkippedMessages A = Map.empty" "SkippedMessages B = Map.empty"
    "\<not> pendingDhRatchet A" "\<not> pendingDhRatchet B"
    "DhPublic A = p_basemult P (DhPrivate A)" "DhPublic B = p_basemult P (DhPrivate B)"
  shows "mirrored P (keyed a (Some (DhPublic B)) m A) (keyed (\<not> a) (Some (DhPublic A)) m B)"
  using assms by (cases a) (simp_all add: mirrored_def keyed_def)

lemma Handshake_mirrored:
  assumes A: "Handshake P (IdentityPublic B) (Public B) (Some (DhPublic B)) (PqcPublicKey B) dB s1 s2 ss o1 r1 A = (None, A')"
    and B: "Handshake P (IdentityPublic A) (Public A) (Some (DhPublic A)) (PqcPublicKey A) dA t1 t2 ss o2 r2 B = (None, B')"
    and ecc: "p_x25519 P (Private A) (Public B) = p_x25519 P (Private B) (Public A)"
    and dh: "dh_law P" "DhPublic A = p_basemult P (DhPrivate A)" "DhPublic B = p_basemult P (DhPrivate B)"
    and ne: "p_sha256 P (IdentityPublic A) \<noteq> p_sha256 P (IdentityPublic B)"
    and fresh: "SkippedMessages A = Map.empty" "SkippedMessages B = Map.empty"
      "\<not> pendingDhRatchet A" "\<not> pendingDhRatchet B"
  shows "mirrored P A' B' \<and> FileKey A' = FileKey B' \<and> AmInitiator A' = (\<not> AmInitiator B')"
proof -
  let ?a = "p_sha256 P (IdentityPublic A)" and ?b = "p_sha256 P (IdentityPublic B)"
  have init: "(fst (sortedByHash P (IdentityPublic B) (IdentityPublic A)) = IdentityPublic A) = (\<not> ?b < ?a)"
    "(fst (sortedByHash P (IdentityPublic A) (IdentityPublic B)) = IdentityPublic B) = (\<not> ?a < ?b)"
    using ne by (auto simp: sortedByHash_def)
  have order: "(\<not> ?a < ?b) = (?b < ?a)" using ne by auto
  have shared: "dh_or_nil P (DhPrivate A) (Some (DhPublic B)) = dh_or_nil P (DhPrivate B) (Some (DhPublic A))"
    using dh by (simp add: dh_or_nil_def dh_law_def)
  obtain e1 e2 where e: "p_x25519 P (Private A) (Public B) = Some e1" "p_x25519 P (Private B) (Public A) = Some e2"
    and A': "A' = keyed (\<not> ?b < ?a) (Some (DhPublic B)) (session_material P (e1 @ ss)
      (GetTranscript P A (IdentityPublic B) (Public B) (DhPublic B) (PqcPublicKey B))
      (dh_or_nil P (DhPrivate A) (Some (DhPublic B)))) A"
    and B': "B' = keyed (?b < ?a) (Some (DhPublic A)) (session_material P (e2 @ ss)
      (GetTranscript P B (IdentityPublic A) (Public A) (DhPublic A) (PqcPublicKey A))
      (dh_or_nil P (DhPrivate B) (Some (DhPublic A)))) B"
    using Handshake_result [OF A] Handshake_result [OF B] unfolding init order octets_simps by blast
  have "e1 = e2" using e ecc by simp
  then obtain m where "A' = keyed (\<not> ?b < ?a) (Some (DhPublic B)) m A"
    "B' = keyed (?b < ?a) (Some (DhPublic A)) m B"
    using A' B' unfolding shared GetTranscript_swap [of P A B] by blast
  then show ?thesis
    using keyed_mirrored [OF fresh dh(2,3), of "\<not> ?b < ?a" m] by simp
qed

subsection \<open>What was sent is what is decoded\<close>

lemma nth0_hd: "b \<noteq> [] \<Longrightarrow> b ! 0 = hd b"
  by (simp add: hd_conv_nth)

lemma decodeOffer_marshal:
  assumes "np_law P" "o_DhPub ho \<noteq> None" "MarshalFastID P HandShakeOffer_MarshalBinID ho = Inr w"
  shows "decodeOffer P J w = Inr ho"
proof -
  have "w \<noteq> []" "w ! 0 = 10"
    using offer.fast_first_byte [OF assms(1,3)] nth0_hd [of w] by (simp_all add: HandShakeOffer_MarshalBinID_def)
  then show ?thesis using offer.fast_unmarshal [OF assms] by (simp add: decodeOffer_def)
qed

lemma decodeAnswer_marshal:
  assumes "np_law P" "a_DhPub ha \<noteq> None" "MarshalFastID P HandShakeAnswer_MarshalBinID ha = Inr w"
  shows "decodeAnswer P J w = Inr ha"
proof -
  have "w \<noteq> []" "w ! 0 = 11"
    using answer.fast_first_byte [OF assms(1,3)] nth0_hd [of w] by (simp_all add: HandShakeAnswer_MarshalBinID_def)
  then show ?thesis using answer.fast_unmarshal [OF assms] by (simp add: decodeAnswer_def)
qed

subsection \<open>The run of the protocol\<close>

text \<open>An identity: its public keys belong to its private ones; its peer ID is derived from them.\<close>

definition identity_ok :: "prims \<Rightarrow> keys \<Rightarrow> bool" where
  "identity_ok P k \<longleftrightarrow> k_idPub k = p_ed_pub P (k_idPriv k) \<and> (\<exists>c. p_dil_keygen P c = (k_dilPriv k, k_dilPub k))"

definition peer_id :: "prims \<Rightarrow> keys \<Rightarrow> string" where
  "peer_id P k = DerivePeerID P (k_idPub k) (k_dilPub k)"

lemma newPeer_facts:
  assumes "newPeer P c None k = Inr sp"
  shows "\<exists>pk sk. p_ky_keygen P (c_kyber c) = Some (pk, sk) \<and> PqcPublicKey sp = pk \<and> PqcPrivateKey sp = sk"
    "IdentityPublic sp = k_idPub k" "IdentityPrivate sp = k_idPriv k" "PqcSignPublic sp = k_dilPub k"
    "PqcSignPrivate sp = k_dilPriv k" "Private sp = c_x c" "Public sp = p_basemult P (c_x c)"
    "DhPrivate sp = c_dh c" "DhPublic sp = p_basemult P (c_dh c)" "ExpectedPeerHash sp = None"
    "SkippedMessages sp = Map.empty" "\<not> pendingDhRatchet sp" "SeenOffers sp = (\<lambda>_. False)" "HmacKey sp = []"
    "RootKey sp = []" "RecvCk sp = []" "RemoteDhPublic sp = None" "RecvNonce sp = 0" "SendNonce sp = 0"
    "SendCk sp = []"
  using assms by (auto simp: newPeer_def GenerateX25519KeyPair_def Let_def split: option.splits)

lemma newPeer_succeeds: "p_ky_keygen P (c_kyber c) \<noteq> None \<Longrightarrow> \<exists>sp. newPeer P c None k = Inr sp"
  by (auto simp: newPeer_def Let_def case_prod_beta)

lemma signatures_verify:
  assumes "sig_law P" "identity_ok P k" "IdentityPrivate sp = k_idPriv k" "PqcSignPrivate sp = k_dilPriv k"
    "PqcSignPublic sp = k_dilPub k"
  shows "p_ed_verify P (k_idPub k)
      (concat [r, Public sp, DhPublic sp, PqcPublicKey sp, k_dilPub k, oid]) (GetSign P sp oid r)"
    "\<exists>s. GetDilithiumSign P sp oid r = Some s \<and> DilithiumVerify P (k_dilPub k)
      (concat [r, Public sp, DhPublic sp, PqcPublicKey sp, k_dilPub k, oid]) s"
    "length (k_idPub k) = 32"
proof -
  obtain c where c: "p_dil_keygen P c = (k_dilPriv k, k_dilPub k)" and i: "k_idPub k = p_ed_pub P (k_idPriv k)"
    using assms(2) by (auto simp: identity_ok_def)
  show "p_ed_verify P (k_idPub k)
      (concat [r, Public sp, DhPublic sp, PqcPublicKey sp, k_dilPub k, oid]) (GetSign P sp oid r)"
    "length (k_idPub k) = 32"
    using assms i by (simp_all add: sig_law_def GetSign_def buildSignMessage_def)
  obtain s where "p_dil_sign P (k_dilPriv k) (buildSignMessage sp oid r) = Some s"
    "p_dil_verify P (k_dilPub k) (buildSignMessage sp oid r) s = Some True"
    using assms(1) c unfolding sig_law_def by (metis fst_conv snd_conv)
  then show "\<exists>s. GetDilithiumSign P sp oid r = Some s \<and> DilithiumVerify P (k_dilPub k)
      (concat [r, Public sp, DhPublic sp, PqcPublicKey sp, k_dilPub k, oid]) s"
    using assms(4,5) by (simp add: GetDilithiumSign_def DilithiumVerify_def buildSignMessage_def)
qed

text \<open>Step 1: the offer exists, decodes to what was signed, and its signatures verify.\<close>

lemma CreateOffer_runs:
  assumes laws: "np_law P" "sig_law P" "b58_law P" and k: "identity_ok P k"
    and new: "newPeer P c None k = Inr sp"
  shows "\<exists>w ho. CreateOffer P c oid myId k (peer_id P k') = Inr (sp, w) \<and> decodeOffer P J w = Inr ho \<and>
     o_SenderId ho = myId \<and> p_b58enc P (o_RecipientId ho) = peer_id P k' \<and> o_OfferID ho = oid \<and>
     o_RecipientId ho = octets (p_b58dec P (peer_id P k')) \<and>
     o_IdPub ho = IdentityPublic sp \<and> o_Pub ho = Public sp \<and> o_DhPub ho = Some (DhPublic sp) \<and>
     o_KyberPub ho = PqcPublicKey sp \<and> o_DilithiumPub ho = PqcSignPublic sp \<and>
     p_ed_verify P (o_IdPub ho) (concat [o_RecipientId ho, Public sp, DhPublic sp, PqcPublicKey sp,
       k_dilPub k, oid]) (o_Sign ho) \<and>
     DilithiumVerify P (k_dilPub k) (concat [o_RecipientId ho, Public sp, DhPublic sp, PqcPublicKey sp,
       k_dilPub k, oid]) (o_DilithiumSign ho) \<and> length (k_idPub k) = 32"
proof -
  note f = newPeer_facts [OF new]
  let ?r = "k_idPub k' @ p_sha3_256 P (k_dilPub k')"
  have r: "p_b58dec P (peer_id P k') = Some ?r" "p_b58enc P ?r = peer_id P k'"
    using laws(3) by (simp_all add: b58_law_def peer_id_def DerivePeerID_def)
  note sig = signatures_verify [OF laws(2) k f(3) f(5) f(4)]
  obtain s where s: "GetDilithiumSign P sp oid ?r = Some s" "DilithiumVerify P (k_dilPub k)
      (concat [?r, Public sp, DhPublic sp, PqcPublicKey sp, k_dilPub k, oid]) s"
    using sig(2) by blast
  let ?ho = "\<lparr>o_SenderId = myId, o_RecipientId = ?r, o_OfferID = oid, o_IdPub = IdentityPublic sp,
     o_Pub = Public sp, o_DhPub = Some (DhPublic sp), o_KyberPub = PqcPublicKey sp,
     o_DilithiumPub = PqcSignPublic sp, o_Sign = GetSign P sp oid ?r, o_DilithiumSign = s\<rparr>"
  obtain w where w: "MarshalFastID P HandShakeOffer_MarshalBinID ?ho = Inr w"
    using offer.fast_marshal_total [OF laws(1)] by blast
  have "CreateOffer P c oid myId k (peer_id P k') = Inr (sp, w)"
    by (simp add: CreateOffer_def new r s(1) w)
  moreover have "decodeOffer P J w = Inr ?ho"
    using decodeOffer_marshal [OF laws(1) _ w] by simp
  ultimately show ?thesis using r s sig(1) [of ?r oid] sig(3) f(2)
    by (intro exI [of _ w] exI [of _ ?ho]) simp
qed

text \<open>Step 2: an offer addressed to this peer, properly signed and not seen before, is accepted.\<close>

lemma AcceptOffer_runs:
  assumes laws: "np_law P" "sig_law P" "b58_law P" and k: "identity_ok P k"
    and new: "newPeer P c None k = Inr sp"
    and dec: "decodeOffer P J w = Inr ho" "o_OfferID ho \<noteq> []" "p_b58enc P (o_RecipientId ho) = peer_id P k"
      "o_RecipientId ho = octets (p_b58dec P (peer_id P k))"
      "DerivePeerID P (o_IdPub ho) (o_DilithiumPub ho) = o_SenderId ho" "length (o_IdPub ho) = 32"
    and unseen: "\<forall>sp0. S (o_SenderId ho) = Some sp0 \<longrightarrow> \<not> SeenOffers sp0 (p_b58enc P (o_OfferID ho))"
    and kem: "p_ky_pub_ok P (o_KyberPub ho)" "p_ky_encaps P (o_KyberPub ho) r = Some (ct, ss)"
    and sig: "p_ed_verify P (o_IdPub ho) m (o_Sign ho)" "DilithiumVerify P (o_DilithiumPub ho) m (o_DilithiumSign ho)"
      "m = concat [o_RecipientId ho, o_Pub ho, octets (o_DhPub ho), o_KyberPub ho, o_DilithiumPub ho, o_OfferID ho]"
    and ecc: "p_x25519 P (c_x c) (o_Pub ho) \<noteq> None"
  shows "\<exists>sp' aw ha. AcceptOffer P J c r (peer_id P k) k S w = Inr (o_SenderId ho, sp', aw) \<and>
     Handshake P (o_IdPub ho) (o_Pub ho) (o_DhPub ho) (o_KyberPub ho) (o_DilithiumPub ho) (o_Sign ho)
       (o_DilithiumSign ho) ss (o_OfferID ho) (o_RecipientId ho)
       (sp\<lparr>SeenOffers := carrySeen S (o_SenderId ho) (p_b58enc P (o_OfferID ho))\<rparr>) = (None, sp') \<and>
     decodeAnswer P J aw = Inr ha \<and> a_SenderId ha = peer_id P k \<and> a_OfferID ha = o_OfferID ho \<and>
     a_KyberCiphertext ha = ct \<and> a_IdPub ha = k_idPub k \<and> a_Pub ha = Public sp \<and>
     a_DhPub ha = Some (DhPublic sp) \<and> a_KyberPub ha = PqcPublicKey sp \<and> a_DilithiumPub ha = k_dilPub k \<and>
     length (k_idPub k) = 32 \<and>
     (\<forall>m'. m' = concat [octets (p_b58dec P (o_SenderId ho)), Public sp, DhPublic sp, PqcPublicKey sp,
        k_dilPub k, o_OfferID ho] \<longrightarrow>
        p_ed_verify P (k_idPub k) m' (a_Sign ha) \<and> DilithiumVerify P (k_dilPub k) m' (a_DilithiumSign ha))"
proof -
  note f = newPeer_facts [OF new]
  let ?sp1 = "sp\<lparr>SeenOffers := carrySeen S (o_SenderId ho) (p_b58enc P (o_OfferID ho))\<rparr>"
  have chk: "checkOffer P J (peer_id P k) S w = Inr ho"
    using dec unseen by (auto simp: checkOffer_def split: option.splits)
  obtain sp' where hs: "Handshake P (o_IdPub ho) (o_Pub ho) (o_DhPub ho) (o_KyberPub ho) (o_DilithiumPub ho)
       (o_Sign ho) (o_DilithiumSign ho) ss (o_OfferID ho) (o_RecipientId ho) ?sp1 = (None, sp')"
    using Handshake_succeeds [OF dec(6), where sp = ?sp1] sig ecc f(6,10) by fastforce
  obtain b mm where sp': "sp' = keyed b (o_DhPub ho) mm ?sp1"
    using Handshake_result [OF hs] by blast
  let ?sid = "o_IdPub ho @ p_sha3_256 P (o_DilithiumPub ho)"
  have sid: "p_b58dec P (o_SenderId ho) = Some ?sid"
    unfolding dec(5) [symmetric] using laws(3) by (simp add: b58_law_def DerivePeerID_def)
  have keep: "IdentityPrivate sp' = k_idPriv k" "PqcSignPrivate sp' = k_dilPriv k" "PqcSignPublic sp' = k_dilPub k"
    "IdentityPublic sp' = k_idPub k" "Public sp' = Public sp" "DhPublic sp' = DhPublic sp"
    "PqcPublicKey sp' = PqcPublicKey sp"
    by (simp_all add: sp' f)
  note sg = signatures_verify [OF laws(2) k keep(1-3)]
  obtain s where s: "GetDilithiumSign P sp' (o_OfferID ho) ?sid = Some s" "DilithiumVerify P (k_dilPub k)
      (concat [?sid, Public sp', DhPublic sp', PqcPublicKey sp', k_dilPub k, o_OfferID ho]) s"
    using sg(2) by blast
  let ?ha = "\<lparr>a_SenderId = peer_id P k, a_RecipientId = o_RecipientId ho, a_OfferID = o_OfferID ho,
     a_IdPub = IdentityPublic sp', a_Pub = Public sp', a_DhPub = Some (DhPublic sp'),
     a_KyberPub = PqcPublicKey sp', a_KyberCiphertext = ct, a_DilithiumPub = PqcSignPublic sp',
     a_Sign = GetSign P sp' (o_OfferID ho) ?sid, a_DilithiumSign = s\<rparr>"
  obtain aw where aw: "MarshalFastID P HandShakeAnswer_MarshalBinID ?ha = Inr aw"
    using answer.fast_marshal_total [OF laws(1)] by blast
  have "AcceptOffer P J c r (peer_id P k) k S w = Inr (o_SenderId ho, sp', aw)"
    using hs aw s(1) kem by (simp add: AcceptOffer_def chk new dec(4) [symmetric] sid)
  moreover have "decodeAnswer P J aw = Inr ?ha"
    using decodeAnswer_marshal [OF laws(1) _ aw] by simp
  ultimately show ?thesis using hs s(2) sg(1) [of ?sid "o_OfferID ho"] sg(3) keep sid
    by (intro exI [of _ sp'] exI [of _ aw] exI [of _ ?ha]) simp
qed

text \<open>Step 3: a properly signed answer completes the pending session.\<close>

lemma FinishHandshake_runs:
  assumes "b58_law P" and dec: "decodeAnswer P J aw = Inr ha" "a_KyberCiphertext ha \<noteq> []"
      "DerivePeerID P (a_IdPub ha) (a_DilithiumPub ha) = a_SenderId ha" "length (a_IdPub ha) = 32"
    and sp: "ExpectedPeerHash sp = None" "p_ky_priv_ok P (PqcPrivateKey sp)"
      "p_ky_decaps P (PqcPrivateKey sp) (a_KyberCiphertext ha) = Some ss"
    and sig: "p_ed_verify P (a_IdPub ha) m (a_Sign ha)" "DilithiumVerify P (a_DilithiumPub ha) m (a_DilithiumSign ha)"
      "m = concat [octets (p_b58dec P (peer_id P k)), a_Pub ha, octets (a_DhPub ha), a_KyberPub ha,
             a_DilithiumPub ha, a_OfferID ha]"
    and ecc: "p_x25519 P (Private sp) (a_Pub ha) \<noteq> None"
  shows "\<exists>sp'. FinishHandshake P J (peer_id P k) sp aw = (Inr (a_SenderId ha), sp') \<and>
    Handshake P (a_IdPub ha) (a_Pub ha) (a_DhPub ha) (a_KyberPub ha) (a_DilithiumPub ha) (a_Sign ha)
      (a_DilithiumSign ha) ss (a_OfferID ha) (octets (p_b58dec P (peer_id P k))) sp = (None, sp')"
proof -
  let ?r = "k_idPub k @ p_sha3_256 P (k_dilPub k)"
  have r: "p_b58dec P (peer_id P k) = Some ?r"
    using assms(1) by (simp add: b58_law_def peer_id_def DerivePeerID_def)
  obtain sp' where hs: "Handshake P (a_IdPub ha) (a_Pub ha) (a_DhPub ha) (a_KyberPub ha) (a_DilithiumPub ha)
      (a_Sign ha) (a_DilithiumSign ha) ss (a_OfferID ha) ?r sp = (None, sp')"
    using Handshake_succeeds [OF dec(4) _ _ sp(1) ecc] sig r by fastforce
  have "FinishHandshake P J (peer_id P k) sp aw = (Inr (a_SenderId ha), sp')"
    using dec sp r hs by (simp add: FinishHandshake_def)
  then show ?thesis using hs r by simp
qed

subsection \<open>Agreement\<close>

text \<open>
  The conditions under which two identities can complete a run: the two Kyber key generations and the
  X25519 exchange succeed, the offer identifier is not empty and not yet known to the responder, and
  the two identity keys have different hashes (so that the roles are told apart).
\<close>

definition can_run ::
  "prims \<Rightarrow> keys \<Rightarrow> coins \<Rightarrow> keys \<Rightarrow> coins \<Rightarrow> bytes \<Rightarrow> (string \<rightharpoonup> SecurePeer) \<Rightarrow> bool" where
  "can_run P ka ca kb cb oid S \<longleftrightarrow>
     identity_ok P ka \<and> identity_ok P kb \<and>
     p_ky_keygen P (c_kyber ca) \<noteq> None \<and> p_ky_keygen P (c_kyber cb) \<noteq> None \<and>
     p_x25519 P (c_x ca) (p_basemult P (c_x cb)) \<noteq> None \<and>
     p_sha256 P (k_idPub ka) \<noteq> p_sha256 P (k_idPub kb) \<and> oid \<noteq> [] \<and>
     (case S (peer_id P ka) of None \<Rightarrow> True | Some sp \<Rightarrow> \<not> SeenOffers sp (p_b58enc P oid))"

lemma kem_run:
  assumes "kem_law P" "\<exists>pk sk. p_ky_keygen P c = Some (pk, sk) \<and> PqcPublicKey sp = pk \<and> PqcPrivateKey sp = sk"
  shows "\<exists>ct ss. p_ky_pub_ok P (PqcPublicKey sp) \<and> p_ky_encaps P (PqcPublicKey sp) r = Some (ct, ss) \<and> ct \<noteq> [] \<and>
     p_ky_priv_ok P (PqcPrivateKey sp) \<and> p_ky_decaps P (PqcPrivateKey sp) ct = Some ss"
  using assms by (auto simp: kem_law_def)

lemma handshake_run:
  assumes laws: "np_law P" "sig_law P" "b58_law P" "kem_law P" "dh_law P"
    and run: "can_run P ka ca kb cb oid S"
  shows "\<exists>pa w pb aw pa'.
     CreateOffer P ca oid (peer_id P ka) ka (peer_id P kb) = Inr (pa, w) \<and>
     AcceptOffer P J cb r (peer_id P kb) kb S w = Inr (peer_id P ka, pb, aw) \<and>
     FinishHandshake P J (peer_id P ka) pa aw = (Inr (peer_id P kb), pa') \<and>
     mirrored P pa' pb \<and> FileKey pa' = FileKey pb \<and> AmInitiator pa' = (\<not> AmInitiator pb)"
proof -
  have id: "identity_ok P ka" "identity_ok P kb" and ne: "p_sha256 P (k_idPub ka) \<noteq> p_sha256 P (k_idPub kb)"
    and oid: "oid \<noteq> []" and ecc: "p_x25519 P (c_x ca) (p_basemult P (c_x cb)) \<noteq> None"
    using run by (auto simp: can_run_def)
  have ecc': "p_x25519 P (c_x cb) (p_basemult P (c_x ca)) = p_x25519 P (c_x ca) (p_basemult P (c_x cb))"
    using laws(5) by (simp add: dh_law_def)
  obtain pa b where new: "newPeer P ca None ka = Inr pa" "newPeer P cb None kb = Inr b"
    using newPeer_succeeds run by (metis can_run_def)
  note fa = newPeer_facts [OF new(1)] and fb = newPeer_facts [OF new(2)]
  obtain w ho where offer: "CreateOffer P ca oid (peer_id P ka) ka (peer_id P kb) = Inr (pa, w)"
      "decodeOffer P J w = Inr ho" "o_SenderId ho = peer_id P ka"
      "p_b58enc P (o_RecipientId ho) = peer_id P kb" "o_OfferID ho = oid"
      "o_RecipientId ho = octets (p_b58dec P (peer_id P kb))"
      "o_IdPub ho = IdentityPublic pa" "o_Pub ho = Public pa" "o_DhPub ho = Some (DhPublic pa)"
      "o_KyberPub ho = PqcPublicKey pa" "o_DilithiumPub ho = PqcSignPublic pa"
    and osig: "p_ed_verify P (o_IdPub ho) (concat [o_RecipientId ho, Public pa, DhPublic pa, PqcPublicKey pa,
       k_dilPub ka, oid]) (o_Sign ho)" "DilithiumVerify P (k_dilPub ka) (concat [o_RecipientId ho, Public pa,
       DhPublic pa, PqcPublicKey pa, k_dilPub ka, oid]) (o_DilithiumSign ho)" "length (k_idPub ka) = 32"
    using CreateOffer_runs [OF laws(1-3) id(1) new(1), of oid "peer_id P ka" kb J] by blast
  obtain ct ss where kem: "p_ky_pub_ok P (o_KyberPub ho)" "p_ky_encaps P (o_KyberPub ho) r = Some (ct, ss)"
      "ct \<noteq> []" "p_ky_priv_ok P (PqcPrivateKey pa)" "p_ky_decaps P (PqcPrivateKey pa) ct = Some ss"
    using kem_run [OF laws(4) fa(1), of r] offer(10) by metis
  obtain pb aw ha where acc: "AcceptOffer P J cb r (peer_id P kb) kb S w = Inr (peer_id P ka, pb, aw)"
      "Handshake P (k_idPub ka) (Public pa) (Some (DhPublic pa)) (PqcPublicKey pa) (k_dilPub ka) (o_Sign ho)
       (o_DilithiumSign ho) ss oid (o_RecipientId ho)
       (b\<lparr>SeenOffers := carrySeen S (peer_id P ka) (p_b58enc P oid)\<rparr>) = (None, pb)"
      "decodeAnswer P J aw = Inr ha" "a_SenderId ha = peer_id P kb" "a_OfferID ha = oid"
      "a_KyberCiphertext ha = ct" "a_IdPub ha = k_idPub kb" "a_Pub ha = Public b"
      "a_DhPub ha = Some (DhPublic b)" "a_KyberPub ha = PqcPublicKey b" "a_DilithiumPub ha = k_dilPub kb"
    and alen: "length (k_idPub kb) = 32"
    and asig: "\<forall>m'. m' = concat [octets (p_b58dec P (peer_id P ka)), Public b, DhPublic b, PqcPublicKey b,
        k_dilPub kb, oid] \<longrightarrow> p_ed_verify P (k_idPub kb) m' (a_Sign ha) \<and>
          DilithiumVerify P (k_dilPub kb) m' (a_DilithiumSign ha)"
    using AcceptOffer_runs [OF laws(1-3) id(2) new(2) offer(2) _ offer(4,6) _ _ _ kem(1,2) _ _ refl, of S]
      offer osig oid run ecc ecc' fa fb
    by (auto simp: can_run_def peer_id_def split: option.splits)
  obtain pa' where fin: "FinishHandshake P J (peer_id P ka) pa aw = (Inr (peer_id P kb), pa')"
      "Handshake P (k_idPub kb) (Public b) (Some (DhPublic b)) (PqcPublicKey b) (k_dilPub kb) (a_Sign ha)
      (a_DilithiumSign ha) ss oid (octets (p_b58dec P (peer_id P ka))) pa = (None, pa')"
    using FinishHandshake_runs [OF laws(3) acc(3) _ _ _ fa(10) kem(4) _ _ _ refl, of ss ka] acc kem asig alen ecc fa fb
    by (auto simp: peer_id_def)
  let ?b = "b\<lparr>SeenOffers := carrySeen S (peer_id P ka) (p_b58enc P oid)\<rparr>"
  have "mirrored P pa' pb \<and> FileKey pa' = FileKey pb \<and> AmInitiator pa' = (\<not> AmInitiator pb)"
    by (rule Handshake_mirrored [where A = pa and B = ?b]) (use fin(2) acc(2) ne laws(5) ecc' fa fb in simp_all)
  then show ?thesis using offer(1) acc(1) fin(1) by blast
qed

text \<open>
  C1.  An offer, its acceptance and the completion of the handshake all succeed between two
  well-formed identities, each side files the session under the other's peer ID, exactly one side is
  the initiator, and the two sessions hold mirrored keys.
\<close>

theorem handshake_agreement:
  assumes "np_law P" "sig_law P" "b58_law P" "kem_law P" "dh_law P" and "can_run P ka ca kb cb oid S"
  shows "\<exists>pa w pb aw pa'.
     CreateOffer P ca oid (peer_id P ka) ka (peer_id P kb) = Inr (pa, w) \<and>
     AcceptOffer P J cb r (peer_id P kb) kb S w = Inr (peer_id P ka, pb, aw) \<and>
     FinishHandshake P J (peer_id P ka) pa aw = (Inr (peer_id P kb), pa') \<and>
     mirrored P pa' pb \<and> FileKey pa' = FileKey pb \<and> AmInitiator pa' = (\<not> AmInitiator pb)"
  by (rule handshake_run [OF assms])

definition toy_json :: legacy_json where
  "toy_json = \<lparr>j_offer = (\<lambda>_. None), j_answer = (\<lambda>_. None)\<rparr>"

definition toy_keys :: "byte \<Rightarrow> keys" where
  "toy_keys b = \<lparr>k_idPriv = [b], k_idPub = toy_pad 32 [b], k_dilPriv = [b, b], k_dilPub = [b, b]\<rparr>"

definition toy_coins :: "byte \<Rightarrow> coins" where
  "toy_coins b = \<lparr>c_x = [b], c_dh = [b, b], c_kyber = [b, b, b]\<rparr>"

lemma toy_can_run: "can_run toy (toy_keys 1) (toy_coins 3) (toy_keys 2) (toy_coins 4) [9] Map.empty"
  by (simp add: can_run_def identity_ok_def toy_keys_def toy_coins_def toy_def toy_pad_def numeral_eq_Suc)

theorem handshake_agreement_witness:
  "\<exists>pa w pb aw pa'.
     CreateOffer toy (toy_coins 3) [9] (peer_id toy (toy_keys 1)) (toy_keys 1) (peer_id toy (toy_keys 2)) = Inr (pa, w) \<and>
     AcceptOffer toy toy_json (toy_coins 4) [8] (peer_id toy (toy_keys 2)) (toy_keys 2) Map.empty w =
       Inr (peer_id toy (toy_keys 1), pb, aw) \<and>
     FinishHandshake toy toy_json (peer_id toy (toy_keys 1)) pa aw = (Inr (peer_id toy (toy_keys 2)), pa') \<and>
     mirrored toy pa' pb \<and> FileKey pa' = FileKey pb \<and> AmInitiator pa' = (\<not> AmInitiator pb)"
  by (rule handshake_agreement [OF toy_laws(4,6,5,7,1) toy_can_run])

subsection \<open>What an accepted offer proves\<close>

lemma checkOffer_Inr:
  assumes "checkOffer P J myId S w = Inr ho"
  shows "decodeOffer P J w = Inr ho" "o_OfferID ho \<noteq> []" "p_b58enc P (o_RecipientId ho) = myId"
    "DerivePeerID P (o_IdPub ho) (o_DilithiumPub ho) = o_SenderId ho"
    "\<And>sp. S (o_SenderId ho) = Some sp \<Longrightarrow> \<not> SeenOffers sp (p_b58enc P (o_OfferID ho))"
  using assms by (auto simp: checkOffer_def split: sum.splits if_splits option.splits)

lemma AcceptOffer_Inr:
  assumes "AcceptOffer P J c r myId k S w = Inr (sid, sp', aw)"
  shows "\<exists>ho sp ct ss. checkOffer P J myId S w = Inr ho \<and> newPeer P c None k = Inr sp \<and> sid = o_SenderId ho \<and>
     p_ky_encaps P (o_KyberPub ho) r = Some (ct, ss) \<and>
     Handshake P (o_IdPub ho) (o_Pub ho) (o_DhPub ho) (o_KyberPub ho) (o_DilithiumPub ho) (o_Sign ho)
       (o_DilithiumSign ho) ss (o_OfferID ho) (octets (p_b58dec P myId))
       (sp\<lparr>SeenOffers := carrySeen S sid (p_b58enc P (o_OfferID ho))\<rparr>) = (None, sp')"
  using assms by (auto simp: AcceptOffer_def Let_def split: sum.splits if_splits option.splits prod.splits)

text \<open>
  C9.  Whenever an offer is accepted, it names this peer as its recipient, the peer ID it is filed
  under is the one derived from the offered identity keys, and both signatures, Ed25519 and Dilithium,
  verify under those keys over everything that enters the key agreement.
\<close>

theorem accepted_offer_authentic:
  assumes "AcceptOffer P J c r myId k S w = Inr (sid, sp', aw)"
  shows "\<exists>ho m. decodeOffer P J w = Inr ho \<and> p_b58enc P (o_RecipientId ho) = myId \<and> sid = o_SenderId ho \<and>
     DerivePeerID P (o_IdPub ho) (o_DilithiumPub ho) = sid \<and> o_OfferID ho \<noteq> [] \<and>
     m = concat [octets (p_b58dec P myId), o_Pub ho, octets (o_DhPub ho), o_KyberPub ho, o_DilithiumPub ho, o_OfferID ho] \<and>
     p_ed_verify P (o_IdPub ho) m (o_Sign ho) \<and> DilithiumVerify P (o_DilithiumPub ho) m (o_DilithiumSign ho)"
proof -
  obtain ho sp ss where ho: "checkOffer P J myId S w = Inr ho" "sid = o_SenderId ho"
    "Handshake P (o_IdPub ho) (o_Pub ho) (o_DhPub ho) (o_KyberPub ho) (o_DilithiumPub ho) (o_Sign ho)
       (o_DilithiumSign ho) ss (o_OfferID ho) (octets (p_b58dec P myId))
       (sp\<lparr>SeenOffers := carrySeen S sid (p_b58enc P (o_OfferID ho))\<rparr>) = (None, sp')"
    using AcceptOffer_Inr [OF assms] by blast
  show ?thesis using checkOffer_Inr(1-4) [OF ho(1)] Handshake_checked(2,3) [OF ho(3)] ho(2) by blast
qed

theorem accepted_offer_authentic_witness:
  "\<exists>w ho m. decodeOffer toy toy_json w = Inr ho \<and> p_b58enc toy (o_RecipientId ho) = peer_id toy (toy_keys 2) \<and>
     peer_id toy (toy_keys 1) = o_SenderId ho \<and>
     DerivePeerID toy (o_IdPub ho) (o_DilithiumPub ho) = peer_id toy (toy_keys 1) \<and> o_OfferID ho \<noteq> [] \<and>
     m = concat [octets (p_b58dec toy (peer_id toy (toy_keys 2))), o_Pub ho, octets (o_DhPub ho), o_KyberPub ho,
       o_DilithiumPub ho, o_OfferID ho] \<and>
     p_ed_verify toy (o_IdPub ho) m (o_Sign ho) \<and> DilithiumVerify toy (o_DilithiumPub ho) m (o_DilithiumSign ho)"
proof -
  obtain w pb aw where "AcceptOffer toy toy_json (toy_coins 4) [8] (peer_id toy (toy_keys 2)) (toy_keys 2) Map.empty w =
       Inr (peer_id toy (toy_keys 1), pb, aw)"
    using handshake_run [OF toy_laws(4,6,5,7,1) toy_can_run] by blast
  from accepted_offer_authentic [OF this] show ?thesis by blast
qed

text \<open>
  C11.  An accepted offer is remembered: presented again while the session it created, or any later
  state of it that kept its history, is on file for that peer, it is refused as a replay.
\<close>

theorem offer_replay_rejected:
  assumes "AcceptOffer P J c r myId k S w = Inr (sid, sp', aw)"
    and "S' sid = Some sp2" and "\<forall>i. SeenOffers sp' i \<longrightarrow> SeenOffers sp2 i"
  shows "AcceptOffer P J c2 r2 myId k2 S' w = Inl (OfferReplay sid)"
proof -
  obtain ho sp ss where ho: "checkOffer P J myId S w = Inr ho" "sid = o_SenderId ho"
    "Handshake P (o_IdPub ho) (o_Pub ho) (o_DhPub ho) (o_KyberPub ho) (o_DilithiumPub ho) (o_Sign ho)
       (o_DilithiumSign ho) ss (o_OfferID ho) (octets (p_b58dec P myId))
       (sp\<lparr>SeenOffers := carrySeen S sid (p_b58enc P (o_OfferID ho))\<rparr>) = (None, sp')"
    using AcceptOffer_Inr [OF assms(1)] by blast
  have "SeenOffers sp' = carrySeen S sid (p_b58enc P (o_OfferID ho))"
    using Handshake_result [OF ho(3)] by auto
  then have "SeenOffers sp2 (p_b58enc P (o_OfferID ho))" using assms(3) by (simp add: carrySeen_def)
  then have "checkOffer P J myId S' w = Inl (OfferReplay sid)"
    using checkOffer_Inr(1-4) [OF ho(1)] assms(2) ho(2) by (simp add: checkOffer_def)
  then show ?thesis by (simp add: AcceptOffer_def)
qed

theorem offer_replay_rejected_witness:
  "\<exists>w sid pb. AcceptOffer toy toy_json (toy_coins 5) [7] (peer_id toy (toy_keys 2)) (toy_keys 2) [sid \<mapsto> pb] w =
     Inl (OfferReplay sid)"
proof -
  obtain w pb aw where "AcceptOffer toy toy_json (toy_coins 4) [8] (peer_id toy (toy_keys 2)) (toy_keys 2) Map.empty w =
       Inr (peer_id toy (toy_keys 1), pb, aw)"
    using handshake_run [OF toy_laws(4,6,5,7,1) toy_can_run] by blast
  from offer_replay_rejected [OF this, of "[peer_id toy (toy_keys 1) \<mapsto> pb]" pb "toy_coins 5" "[7]" "toy_keys 2"]
  show ?thesis by (intro exI) simp
qed

text \<open>
  C10.  Whenever the initiator completes a handshake, the peer ID it files the session under is
  derived from the identity keys in the answer, and both signatures verify under those keys over the
  answer's key material and the initiator's own ID; an answer that fails a check changes nothing.
\<close>

theorem finished_answer_authentic:
  "FinishHandshake P J myId sp aw = (res, sp') \<Longrightarrow>
   (case res of
      Inl e \<Rightarrow> sp' = sp
    | Inr pid \<Rightarrow> \<exists>ha m. decodeAnswer P J aw = Inr ha \<and> pid = a_SenderId ha \<and>
        DerivePeerID P (a_IdPub ha) (a_DilithiumPub ha) = pid \<and>
        m = concat [octets (p_b58dec P myId), a_Pub ha, octets (a_DhPub ha), a_KyberPub ha, a_DilithiumPub ha, a_OfferID ha] \<and>
        p_ed_verify P (a_IdPub ha) m (a_Sign ha) \<and> DilithiumVerify P (a_DilithiumPub ha) m (a_DilithiumSign ha))"
proof -
  assume fin: "FinishHandshake P J myId sp aw = (res, sp')"
  show ?thesis
  proof (cases res)
    case (Inl e)
    then show ?thesis using fin
      by (auto simp: FinishHandshake_def dest: Handshake_failed
        split: sum.splits if_splits option.splits prod.splits)
  next
    case (Inr pid)
    then obtain ha ss where ha: "decodeAnswer P J aw = Inr ha" "pid = a_SenderId ha"
      "DerivePeerID P (a_IdPub ha) (a_DilithiumPub ha) = a_SenderId ha"
      "Handshake P (a_IdPub ha) (a_Pub ha) (a_DhPub ha) (a_KyberPub ha) (a_DilithiumPub ha) (a_Sign ha)
        (a_DilithiumSign ha) ss (a_OfferID ha) (octets (p_b58dec P myId)) sp = (None, sp')"
      using fin by (auto simp: FinishHandshake_def split: sum.splits if_splits option.splits prod.splits)
    then show ?thesis using Inr Handshake_checked(2,3) [OF ha(4)] by auto
  qed
qed

theorem finished_answer_authentic_witness:
  "\<exists>pa aw ha m. decodeAnswer toy toy_json aw = Inr ha \<and> peer_id toy (toy_keys 2) = a_SenderId ha \<and>
     DerivePeerID toy (a_IdPub ha) (a_DilithiumPub ha) = peer_id toy (toy_keys 2) \<and>
     m = concat [octets (p_b58dec toy (peer_id toy (toy_keys 1))), a_Pub ha, octets (a_DhPub ha), a_KyberPub ha,
       a_DilithiumPub ha, a_OfferID ha] \<and>
     p_ed_verify toy (a_IdPub ha) m (a_Sign ha) \<and> DilithiumVerify toy (a_DilithiumPub ha) m (a_DilithiumSign ha) \<and>
     fst (FinishHandshake toy toy_json (peer_id toy (toy_keys 1)) pa aw) = Inr (peer_id toy (toy_keys 2))"
proof -
  obtain pa pa' aw where fin: "FinishHandshake toy toy_json (peer_id toy (toy_keys 1)) pa aw =
      (Inr (peer_id toy (toy_keys 2)), pa')"
    using handshake_run [OF toy_laws(4,6,5,7,1) toy_can_run] by blast
  have "fst (FinishHandshake toy toy_json (peer_id toy (toy_keys 1)) pa aw) = Inr (peer_id toy (toy_keys 2))"
    using fin by simp
  then show ?thesis using finished_answer_authentic [OF fin] unfolding sum.case by blast
qed

end
