(* ===== verification/Clients.thy ===== *)
theory Clients
  imports Agreement "HOL-Library.AList"
begin

text \<open>
  The session manager of \<^verbatim>\<open>src/client/client.go\<close>.  \<^verbatim>\<open>Sessions\<close> maps names to pointers: two names may
  share one session object (the slots \<^verbatim>\<open>pending\<close> and \<^verbatim>\<open>pending_<id>\<close> do), so the model keeps a heap of
  session objects and a table from names to addresses.

  The file \<^verbatim>\<open><id>.json\<close> is modelled by its content: the exported fields, each session by value.  A write
  may succeed, be skipped, or leave an unreadable file; which of the three happens is an argument.
\<close>

subsection \<open>State\<close>

record saved_client =
  sv_Id :: string
  sv_keys :: keys
  sv_Sessions :: "(string \<times> SecurePeer) list"

text \<open>The content of a file: \<open>None\<close> if it does not parse.\<close>

type_synonym disk = "string \<rightharpoonup> saved_client option"

record Client =
  cl_Id :: string
  cl_keys :: keys
  Sessions :: "(string \<times> nat) list"
  cl_ephemeral :: bool
  heap :: "nat \<rightharpoonup> SecurePeer"
  next_addr :: nat
  files :: disk

datatype write_result = Written | NotWritten | Garbled

datatype client_error =
    EngineErr engine_error
  | PeekHeader decode_error
  | NoPending string
  | NoSession string
  | CryptoErr crypto_error
  | LoadRead
  | LoadParse

definition session :: "Client \<Rightarrow> string \<Rightarrow> SecurePeer option" where
  "session c k = (case map_of (Sessions c) k of None \<Rightarrow> None | Some a \<Rightarrow> heap c a)"

subsection \<open>Persistence\<close>

definition marshal_client :: "Client \<Rightarrow> saved_client" where
  "marshal_client c =
     \<lparr>sv_Id = cl_Id c, sv_keys = cl_keys c,
      sv_Sessions = List.map_filter
        (\<lambda>(k, a). case heap c a of None \<Rightarrow> None | Some sp \<Rightarrow> Some (k, reload_peer sp)) (Sessions c)\<rparr>"

definition client_file :: "string \<Rightarrow> string" where
  "client_file cid = cid @ ''.json''"

definition SaveClient :: "write_result \<Rightarrow> Client \<Rightarrow> Client" where
  "SaveClient wr c =
     (if cl_ephemeral c then c
      else case wr of
        NotWritten \<Rightarrow> c
      | Garbled \<Rightarrow> c\<lparr>files := (files c)(client_file (cl_Id c) \<mapsto> None)\<rparr>
      | Written \<Rightarrow> c\<lparr>files := (files c)(client_file (cl_Id c) \<mapsto> Some (marshal_client c))\<rparr>)"

definition LoadClient :: "string \<Rightarrow> disk \<Rightarrow> client_error + Client" where
  "LoadClient cid d =
     (case d (client_file cid) of
        None \<Rightarrow> Inl LoadRead
      | Some None \<Rightarrow> Inl LoadParse
      | Some (Some sv) \<Rightarrow>
          let n = length (sv_Sessions sv)
          in Inr \<lparr>cl_Id = sv_Id sv, cl_keys = sv_keys sv,
                  Sessions = zip (map fst (sv_Sessions sv)) [0..<n], cl_ephemeral = False,
                  heap = map_of (zip [0..<n] (map snd (sv_Sessions sv))), next_addr = n, files = d\<rparr>)"

text \<open>\<^verbatim>\<open>ed25519.GenerateKey\<close> and \<^verbatim>\<open>GenerateDilithiumKeyPair\<close> from the coins they draw.\<close>

definition NewClient :: "prims \<Rightarrow> bytes \<Rightarrow> bytes \<Rightarrow> write_result \<Rightarrow> disk \<Rightarrow> Client" where
  "NewClient P privEd dilCoins wr d =
     (let pubEd = p_ed_pub P privEd;
          (dilPriv, dilPub) = p_dil_keygen P dilCoins
      in SaveClient wr
           \<lparr>cl_Id = DerivePeerID P pubEd dilPub,
            cl_keys = \<lparr>k_idPriv = privEd, k_idPub = pubEd, k_dilPriv = dilPriv, k_dilPub = dilPub\<rparr>,
            Sessions = [], cl_ephemeral = False, heap = Map.empty, next_addr = 0, files = d\<rparr>)"

definition NewClientFromKeys ::
  "string \<Rightarrow> keys \<Rightarrow> (string \<times> nat) list \<Rightarrow> (nat \<rightharpoonup> SecurePeer) \<Rightarrow> nat \<Rightarrow> disk \<Rightarrow> Client" where
  "NewClientFromKeys cid k sessions h n d =
     \<lparr>cl_Id = cid, cl_keys = k, Sessions = sessions, cl_ephemeral = True, heap = h, next_addr = n, files = d\<rparr>"

subsection \<open>Handshake\<close>

definition alloc :: "SecurePeer \<Rightarrow> Client \<Rightarrow> Client" where
  "alloc sp c = c\<lparr>heap := (heap c)(next_addr c \<mapsto> sp), next_addr := next_addr c + 1\<rparr>"

definition bind_name :: "string \<Rightarrow> nat \<Rightarrow> Client \<Rightarrow> Client" where
  "bind_name k a c = c\<lparr>Sessions := AList.update k a (Sessions c)\<rparr>"

definition drop_name :: "string \<Rightarrow> Client \<Rightarrow> Client" where
  "drop_name k c = c\<lparr>Sessions := AList.delete k (Sessions c)\<rparr>"

definition Client_CreateOffer ::
  "prims \<Rightarrow> coins \<Rightarrow> bytes \<Rightarrow> write_result \<Rightarrow> string \<Rightarrow> Client \<Rightarrow> (client_error + bytes) \<times> Client" where
  "Client_CreateOffer P cs offerId wr peerId c =
     (case CreateOffer P cs offerId (cl_Id c) (cl_keys c) peerId of
        Inl e \<Rightarrow> (Inl (EngineErr e), c)
      | Inr (peer, offer) \<Rightarrow>
          let a = next_addr c;
              c1 = alloc peer c;
              c2 = (if peerId \<noteq> [] then bind_name (''pending_'' @ peerId) a c1 else c1);
              c3 = bind_name ''pending'' a c2
          in (Inr offer, SaveClient wr c3))"

definition Client_AcceptOffer ::
  "prims \<Rightarrow> legacy_json \<Rightarrow> coins \<Rightarrow> bytes \<Rightarrow> write_result \<Rightarrow> bytes \<Rightarrow> Client \<Rightarrow> (client_error + bytes) \<times> Client" where
  "Client_AcceptOffer P J cs kemCoins wr offerBytes c =
     (case AcceptOffer P J cs kemCoins (cl_Id c) (cl_keys c) (session c) offerBytes of
        Inl e \<Rightarrow> (Inl (EngineErr e), c)
      | Inr (senderID, peer, answer) \<Rightarrow>
          (Inr answer, SaveClient wr (bind_name senderID (next_addr c) (alloc peer c))))"

definition Client_FinishHandshake ::
  "prims \<Rightarrow> legacy_json \<Rightarrow> write_result \<Rightarrow> bytes \<Rightarrow> Client \<Rightarrow> (client_error + string) \<times> Client" where
  "Client_FinishHandshake P J wr answerBytes c =
     (case PeekAnswerSenderID P J answerBytes of
        Inl e \<Rightarrow> (Inl (PeekHeader e), c)
      | Inr hdr \<Rightarrow>
          (case (case map_of (Sessions c) (''pending_'' @ hdr) of
                   Some a \<Rightarrow> Some a
                 | None \<Rightarrow> map_of (Sessions c) ''pending'') of
             None \<Rightarrow> (Inl (NoPending hdr), c)
           | Some a \<Rightarrow>
               (case heap c a of
                  None \<Rightarrow> (Inl (NoPending hdr), c)
                | Some peer \<Rightarrow>
                    (case FinishHandshake P J (cl_Id c) peer answerBytes of
                       (Inl e, peer') \<Rightarrow> (Inl (EngineErr e), c\<lparr>heap := (heap c)(a \<mapsto> peer')\<rparr>)
                     | (Inr peerID, peer') \<Rightarrow>
                         (Inr peerID,
                          SaveClient wr (bind_name peerID a (drop_name (''pending_'' @ peerID)
                            (drop_name ''pending'' (c\<lparr>heap := (heap c)(a \<mapsto> peer')\<rparr>)))))))))"

subsection \<open>Messages\<close>

definition Client_Encrypt ::
  "prims \<Rightarrow> bytes \<Rightarrow> write_result \<Rightarrow> string \<Rightarrow> bytes \<Rightarrow> Client \<Rightarrow> (client_error + bytes) \<times> Client" where
  "Client_Encrypt P rnd wr peerID message c =
     (case map_of (Sessions c) peerID of
        None \<Rightarrow> (Inl (NoSession peerID), c)
      | Some a \<Rightarrow>
          (case heap c a of
             None \<Rightarrow> (Inl (NoSession peerID), c)
           | Some sp \<Rightarrow>
               (case Encrypt P rnd (cl_Id c) message sp of
                  (Inl e, sp') \<Rightarrow> (Inl (CryptoErr e), c\<lparr>heap := (heap c)(a \<mapsto> sp')\<rparr>)
                | (Inr w, sp') \<Rightarrow> (Inr w, SaveClient wr (c\<lparr>heap := (heap c)(a \<mapsto> sp')\<rparr>)))))"

text \<open>The session a frame is given to: the claimed sender's, or a pending one.\<close>

definition decrypt_slot :: "Client \<Rightarrow> string \<Rightarrow> nat option" where
  "decrypt_slot c claimedSender =
     (case map_of (Sessions c) claimedSender of
        Some a \<Rightarrow> Some a
      | None \<Rightarrow>
          (case map_of (Sessions c) (''pending_'' @ claimedSender) of
             Some a \<Rightarrow> Some a
           | None \<Rightarrow> map_of (Sessions c) ''pending''))"

definition Client_Decrypt ::
  "prims \<Rightarrow> write_result \<Rightarrow> bytes \<Rightarrow> Client \<Rightarrow> (client_error + string \<times> bytes) \<times> Client" where
  "Client_Decrypt P wr payload c =
     (case SenderIDFromFrame P payload of
        Inl e \<Rightarrow> (Inl (CryptoErr e), c)
      | Inr claimedSender \<Rightarrow>
          (case decrypt_slot c claimedSender of
             None \<Rightarrow> (Inl (NoSession claimedSender), c)
           | Some a \<Rightarrow>
               (case heap c a of
                  None \<Rightarrow> (Inl (NoSession claimedSender), c)
                | Some sp \<Rightarrow>
                    (case Decrypt P payload sp of
                       (Inl e, sp') \<Rightarrow> (Inl (CryptoErr e), c\<lparr>heap := (heap c)(a \<mapsto> sp')\<rparr>)
                     | (Inr (senderID, plaintext), sp') \<Rightarrow>
                         (Inr (senderID, plaintext), SaveClient wr (c\<lparr>heap := (heap c)(a \<mapsto> sp')\<rparr>))))))"

subsection \<open>Well-formedness\<close>

text \<open>Names are distinct, every name points to an allocated object, and fresh addresses are unused.\<close>

definition client_wf :: "Client \<Rightarrow> bool" where
  "client_wf c \<longleftrightarrow> distinct (map fst (Sessions c)) \<and>
     (\<forall>k a. map_of (Sessions c) k = Some a \<longrightarrow> heap c a \<noteq> None) \<and> (\<forall>a. heap c a \<noteq> None \<longrightarrow> a < next_addr c)"

lemma SaveClient_simps [simp]:
  "Sessions (SaveClient wr c) = Sessions c" "heap (SaveClient wr c) = heap c"
  "next_addr (SaveClient wr c) = next_addr c" "cl_Id (SaveClient wr c) = cl_Id c"
  "cl_keys (SaveClient wr c) = cl_keys c" "cl_ephemeral (SaveClient wr c) = cl_ephemeral c"
  by (simp_all add: SaveClient_def split: write_result.splits)

lemma session_SaveClient [simp]: "session (SaveClient wr c) k = session c k"
  by (simp add: session_def split: option.splits)

lemma client_wf_SaveClient [simp]: "client_wf (SaveClient wr c) = client_wf c"
  by (simp add: client_wf_def)

lemma client_wf_alloc: "client_wf c \<Longrightarrow> client_wf (alloc sp c)"
  by (auto simp: client_wf_def alloc_def less_Suc_eq)

lemma client_wf_bind: "client_wf c \<Longrightarrow> heap c a \<noteq> None \<Longrightarrow> client_wf (bind_name k a c)"
  by (auto simp: client_wf_def bind_name_def distinct_update update_conv')

lemma client_wf_drop: "client_wf c \<Longrightarrow> client_wf (drop_name k c)"
  by (auto simp: client_wf_def drop_name_def distinct_delete delete_conv' split: if_splits)

lemma client_wf_store: "client_wf c \<Longrightarrow> heap c a \<noteq> None \<Longrightarrow> client_wf (c\<lparr>heap := (heap c)(a \<mapsto> sp)\<rparr>)"
  by (auto simp: client_wf_def)

lemma client_wf_slot: "client_wf c \<Longrightarrow> map_of (Sessions c) k = Some a \<Longrightarrow> heap c a \<noteq> None"
  by (auto simp: client_wf_def)

lemma slot_frame [simp]:
  "heap (alloc sp c) (next_addr c) = Some sp" "heap (bind_name k a c) = heap c" "heap (drop_name k c) = heap c"
  "next_addr (bind_name k a c) = next_addr c" "next_addr (drop_name k c) = next_addr c"
  "map_of (Sessions (bind_name k a c)) = (map_of (Sessions c))(k \<mapsto> a)"
  "map_of (Sessions (drop_name k c)) = (map_of (Sessions c))(k := None)"
  "Sessions (alloc sp c) = Sessions c"
  by (simp_all add: alloc_def bind_name_def drop_name_def update_conv' delete_conv')

lemmas wf_intros = client_wf_alloc client_wf_bind client_wf_drop client_wf_store

lemma CreateOffer_wf: "client_wf c \<Longrightarrow> client_wf (snd (Client_CreateOffer P cs oid wr pid c))"
  by (auto simp: Client_CreateOffer_def Let_def intro!: wf_intros split: sum.splits)

lemma AcceptOffer_wf: "client_wf c \<Longrightarrow> client_wf (snd (Client_AcceptOffer P J cs r wr w c))"
  by (auto simp: Client_AcceptOffer_def intro!: wf_intros split: sum.splits)

lemma FinishHandshake_wf: "client_wf c \<Longrightarrow> client_wf (snd (Client_FinishHandshake P J wr w c))"
  by (auto simp: Client_FinishHandshake_def intro!: wf_intros split: sum.splits option.splits prod.splits)

lemma Encrypt_wf: "client_wf c \<Longrightarrow> client_wf (snd (Client_Encrypt P rnd wr pid m c))"
  by (auto simp: Client_Encrypt_def intro!: wf_intros split: sum.splits option.splits prod.splits)

lemma Decrypt_wf: "client_wf c \<Longrightarrow> client_wf (snd (Client_Decrypt P wr w c))"
  by (auto simp: Client_Decrypt_def intro!: wf_intros split: sum.splits option.splits prod.splits)

subsection \<open>Saving and loading\<close>

lemma load_lookup:
  "(case map_of (zip (map fst ps) [m..<m + length ps]) k of
      None \<Rightarrow> None | Some a \<Rightarrow> map_of (zip [m..<m + length ps] (map snd ps)) a) = map_of ps k"
proof (induction ps arbitrary: m)
  case (Cons p ps)
  obtain k0 v0 where p: "p = (k0, v0)" by (cases p)
  let ?ks = "zip (map fst ps) [Suc m..<Suc m + length ps]"
  have ne: "map_of ?ks k = Some a \<Longrightarrow> a \<noteq> m" for a
    by (auto dest!: map_of_SomeD set_zip_rightD)
  have upt: "[m..<m + length ((k0, v0) # ps)] = m # [Suc m..<Suc m + length ps]"
    by (simp add: upt_conv_Cons del: upt_Suc)
  have IH: "(case map_of ?ks k of None \<Rightarrow> None
      | Some a \<Rightarrow> map_of (zip [Suc m..<Suc m + length ps] (map snd ps)) a) = map_of ps k"
    by (rule Cons.IH)
  have "map_of (zip (map fst (p # ps)) [m..<m + length (p # ps)]) k = (if k = k0 then Some m else map_of ?ks k)"
    unfolding p upt by simp
  moreover have "map_of (zip [m..<m + length (p # ps)] (map snd (p # ps))) a =
      (if a = m then Some v0 else map_of (zip [Suc m..<Suc m + length ps] (map snd ps)) a)" for a
    unfolding p upt by simp
  ultimately show ?case using IH ne unfolding p
    by (cases "map_of ?ks k") (simp_all del: upt_Suc map_of_zip_is_None)
qed simp

lemma heap_load_lt:
  "map_of (zip [0..<n] vs) a \<noteq> None \<Longrightarrow> a < n"
  by (auto dest!: map_of_SomeD set_zip_leftD)

lemma session_LoadClient:
  assumes "d (client_file i) = Some (Some sv)" "LoadClient i d = Inr c"
  shows "session c k = map_of (sv_Sessions sv) k"
  using assms load_lookup [of 0 "sv_Sessions sv" k, unfolded add_0]
  by (auto simp: LoadClient_def session_def Let_def cong: option.case_cong)

lemma map_filter_heap:
  assumes "\<forall>(k, a) \<in> set xs. h a \<noteq> None"
  shows "List.map_filter (\<lambda>(k, a). case h a of None \<Rightarrow> None | Some sp \<Rightarrow> Some (k, f sp)) xs =
         map (\<lambda>(k, a). (k, f (the (h a)))) xs"
  using assms by (induction xs) (auto simp: List.map_filter_def)

lemma marshal_Sessions:
  assumes "client_wf c"
  shows "sv_Sessions (marshal_client c) = map (\<lambda>(k, a). (k, reload_peer (the (heap c a)))) (Sessions c)"
proof -
  have "\<forall>(k, a) \<in> set (Sessions c). heap c a \<noteq> None"
    using assms by (auto simp: client_wf_def dest: map_of_is_SomeI)
  then show ?thesis by (simp add: marshal_client_def map_filter_heap)
qed

lemma marshal_lookup:
  assumes "client_wf c"
  shows "map_of (sv_Sessions (marshal_client c)) k = map_option reload_peer (session c k)"
proof -
  have "map_of (map (\<lambda>(k, a). (k, reload_peer (the (heap c a)))) xs) k =
      (case map_of xs k of None \<Rightarrow> None | Some a \<Rightarrow> Some (reload_peer (the (heap c a))))" for xs
    by (induction xs) auto
  then show ?thesis
    using client_wf_slot [OF assms, of k] by (auto simp: marshal_Sessions [OF assms] session_def split: option.splits)
qed

lemma marshal_names: "client_wf c \<Longrightarrow> map fst (sv_Sessions (marshal_client c)) = map fst (Sessions c)"
  by (simp add: marshal_Sessions comp_def case_prod_beta)

lemma LoadClient_wf:
  assumes "d (client_file i) = Some (Some sv)" "distinct (map fst (sv_Sessions sv))" "LoadClient i d = Inr c"
  shows "client_wf c"
proof -
  let ?n = "length (sv_Sessions sv)"
  have 1: "map_of (zip [0..<?n] (map snd (sv_Sessions sv))) a \<noteq> None"
    if "map_of (zip (map fst (sv_Sessions sv)) [0..<?n]) k = Some a" for k a
  proof -
    have "a < ?n" using that by (auto dest!: map_of_SomeD set_zip_rightD)
    then have "a \<in> set (map fst (zip [0..<?n] (map snd (sv_Sessions sv))))"
      by (subst map_fst_zip) simp_all
    then show ?thesis by (simp add: map_of_eq_None_iff del: map_fst_zip)
  qed
  have 2: "distinct (map fst (zip (map fst (sv_Sessions sv)) [0..<?n]))"
    by (subst map_fst_zip) (simp_all add: assms(2))
  have 3: "c = \<lparr>cl_Id = sv_Id sv, cl_keys = sv_keys sv,
                  Sessions = zip (map fst (sv_Sessions sv)) [0..<?n], cl_ephemeral = False,
                  heap = map_of (zip [0..<?n] (map snd (sv_Sessions sv))), next_addr = ?n, files = d\<rparr>"
    using assms(1,3) by (simp add: LoadClient_def Let_def)
  show ?thesis unfolding client_wf_def 3 Client.select_convs
    using 1 2 heap_load_lt [of ?n "map snd (sv_Sessions sv)"] by blast
qed

lemma save_load:
  assumes "client_wf c" "\<not> cl_ephemeral c"
  shows "\<exists>c'. LoadClient (cl_Id c) (files (SaveClient Written c)) = Inr c' \<and> client_wf c' \<and>
     cl_Id c' = cl_Id c \<and> cl_keys c' = cl_keys c \<and> (\<forall>k. session c' k = map_option reload_peer (session c k))"
proof -
  let ?d = "files (SaveClient Written c)"
  have d: "?d (client_file (cl_Id c)) = Some (Some (marshal_client c))"
    using assms(2) by (simp add: SaveClient_def)
  then obtain c' where c': "LoadClient (cl_Id c) ?d = Inr c'" by (simp add: LoadClient_def Let_def)
  moreover have "cl_Id c' = cl_Id c" "cl_keys c' = cl_keys c"
    using c' d by (auto simp: LoadClient_def Let_def marshal_client_def)
  moreover have "session c' k = map_option reload_peer (session c k)" for k
    using session_LoadClient [OF d c'] marshal_lookup [OF assms(1)] by simp
  moreover have "client_wf c'"
    by (rule LoadClient_wf [OF d _ c']) (use assms(1) in \<open>simp add: marshal_names client_wf_def\<close>)
  ultimately show ?thesis by blast
qed

definition toy_client :: Client where
  "toy_client = \<lparr>cl_Id = ''me'', cl_keys = toy_keys 1, Sessions = [(''bob'', 0), (''pending'', 0)],
     cl_ephemeral = False, heap = [0 \<mapsto> toy_peer'], next_addr = 1, files = Map.empty\<rparr>"

lemma toy_client_wf: "client_wf toy_client"
  by (auto simp: client_wf_def toy_client_def split: if_splits)

text \<open>
  Note.  A client that saves and restarts between receiving and sending never takes its side of the
  Diffie-Hellman ratchet: whatever was pending before the restart, the next message goes out under the
  old ratchet key and leaves the root key as it was.
\<close>

theorem restart_skips_dh_step:
  assumes "client_wf c" "\<not> cl_ephemeral c" "LoadClient (cl_Id c) (files (SaveClient Written c)) = Inr c1"
    and "Client_Encrypt P rnd wr pid m c1 = (Inr w, c2)"
  shows "\<exists>sp1 sp2. session c1 pid = Some sp1 \<and> session c2 pid = Some sp2 \<and>
     DhPublic sp2 = DhPublic sp1 \<and> DhPrivate sp2 = DhPrivate sp1 \<and> RootKey sp2 = RootKey sp1"
proof -
  let ?d = "files (SaveClient Written c)"
  have d: "?d (client_file (cl_Id c)) = Some (Some (marshal_client c))"
    using assms(2) by (simp add: SaveClient_def)
  obtain a sp1 sp2 where a: "map_of (Sessions c1) pid = Some a" "heap c1 a = Some sp1"
    "Encrypt P rnd (cl_Id c1) m sp1 = (Inr w, sp2)" "c2 = SaveClient wr (c1\<lparr>heap := (heap c1)(a \<mapsto> sp2)\<rparr>)"
    using assms(4) by (auto simp: Client_Encrypt_def split: option.splits sum.splits prod.splits)
  have "session c1 pid = Some sp1" "session c2 pid = Some sp2" using a by (simp_all add: session_def)
  moreover have "session c1 pid = map_option reload_peer (session c pid)"
    using session_LoadClient [OF d assms(3)] marshal_lookup [OF assms(1)] by simp
  ultimately have "\<not> pendingDhRatchet sp1" by (auto simp: reload_peer_def)
  then have "DhPublic sp2 = DhPublic sp1 \<and> DhPrivate sp2 = DhPrivate sp1 \<and> RootKey sp2 = RootKey sp1"
    using a(3) by (auto simp: Encrypt_def next_send_key_def Let_def case_prod_beta split: if_splits sum.splits option.splits)
  then show ?thesis using \<open>session c1 pid = Some sp1\<close> \<open>session c2 pid = Some sp2\<close> by blast
qed

theorem restart_skips_dh_step_witness:
  "\<exists>c1 c2 w sp1 sp2. Client_Encrypt toy [5] Written ''bob'' [1] c1 = (Inr w, c2) \<and>
     session c1 ''bob'' = Some sp1 \<and> session c2 ''bob'' = Some sp2 \<and>
     DhPublic sp2 = DhPublic sp1 \<and> DhPrivate sp2 = DhPrivate sp1 \<and> RootKey sp2 = RootKey sp1"
proof -
  have e: "\<not> cl_ephemeral toy_client" by (simp add: toy_client_def)
  have d: "files (SaveClient Written toy_client) (client_file (cl_Id toy_client)) = Some (Some (marshal_client toy_client))"
    using e by (simp add: SaveClient_def)
  then obtain c1 where c1: "LoadClient (cl_Id toy_client) (files (SaveClient Written toy_client)) = Inr c1"
    by (simp add: LoadClient_def Let_def)
  have "session c1 ''bob'' \<noteq> None"
    using session_LoadClient [OF d c1] marshal_lookup [OF toy_client_wf, of "''bob''"]
    by (simp add: toy_client_def session_def)
  then obtain a sp where a: "map_of (Sessions c1) ''bob'' = Some a" "heap c1 a = Some sp"
    by (auto simp: session_def split: option.splits)
  obtain w sp' where "Encrypt toy [5] (cl_Id c1) [1] sp = (Inr w, sp')"
    using Encrypt_frame [OF toy_laws(4,2)] by blast
  then have "\<exists>w c2. Client_Encrypt toy [5] Written ''bob'' [1] c1 = (Inr w, c2)"
    using a by (simp add: Client_Encrypt_def)
  then show ?thesis using restart_skips_dh_step [OF toy_client_wf e c1] by blast
qed

subsection \<open>Runs of a client\<close>

inductive client_step :: "prims \<Rightarrow> legacy_json \<Rightarrow> Client \<Rightarrow> Client \<Rightarrow> bool" for P :: prims and J :: legacy_json where
  create: "client_step P J c (snd (Client_CreateOffer P cs oid wr pid c))"
| accept: "client_step P J c (snd (Client_AcceptOffer P J cs r wr w c))"
| finish: "client_step P J c (snd (Client_FinishHandshake P J wr w c))"
| encrypt: "client_step P J c (snd (Client_Encrypt P rnd wr pid m c))"
| decrypt: "client_step P J c (snd (Client_Decrypt P wr w c))"
| restart: "LoadClient (cl_Id c) (files c) = Inr c' \<Longrightarrow> client_step P J c c'"

text \<open>The file of the client, if it parses, names its identity and has distinct session names.\<close>

definition disk_ok :: "Client \<Rightarrow> bool" where
  "disk_ok c \<longleftrightarrow> (\<forall>sv. files c (client_file (cl_Id c)) = Some (Some sv) \<longrightarrow>
     sv_Id sv = cl_Id c \<and> sv_keys sv = cl_keys c \<and> distinct (map fst (sv_Sessions sv)))"

definition client_inv :: "prims \<Rightarrow> Client \<Rightarrow> bool" where
  "client_inv P c \<longleftrightarrow> client_wf c \<and> disk_ok c \<and> identity_ok P (cl_keys c) \<and> cl_Id c = peer_id P (cl_keys c)"

lemma disk_ok_SaveClient: "client_wf c \<Longrightarrow> disk_ok c \<Longrightarrow> disk_ok (SaveClient wr c)"
  using marshal_names [of c]
  by (auto simp: disk_ok_def SaveClient_def marshal_client_def client_wf_def split: write_result.splits)

lemma same_disk:
  "files c' = files c \<Longrightarrow> cl_Id c' = cl_Id c \<Longrightarrow> cl_keys c' = cl_keys c \<Longrightarrow> disk_ok c' = disk_ok c"
  by (simp add: disk_ok_def)

lemma frame_simps [simp]:
  "files (alloc sp c) = files c" "files (bind_name k a c) = files c" "files (drop_name k c) = files c"
  "cl_Id (alloc sp c) = cl_Id c" "cl_Id (bind_name k a c) = cl_Id c" "cl_Id (drop_name k c) = cl_Id c"
  "cl_keys (alloc sp c) = cl_keys c" "cl_keys (bind_name k a c) = cl_keys c" "cl_keys (drop_name k c) = cl_keys c"
  "disk_ok (alloc sp c) = disk_ok c" "disk_ok (bind_name k a c) = disk_ok c" "disk_ok (drop_name k c) = disk_ok c"
  "disk_ok (c\<lparr>heap := h\<rparr>) = disk_ok c"
  by (simp_all add: alloc_def bind_name_def drop_name_def disk_ok_def)

lemma step_identity:
  assumes "client_step P J c c'" "disk_ok c"
  shows "cl_Id c' = cl_Id c \<and> cl_keys c' = cl_keys c"
  using assms
proof cases
  case (create cs oid wr pid)
  then show ?thesis by (auto simp: Client_CreateOffer_def Let_def split: sum.splits)
next
  case (accept cs r wr w)
  then show ?thesis by (auto simp: Client_AcceptOffer_def split: sum.splits)
next
  case (finish wr w)
  then show ?thesis by (auto simp: Client_FinishHandshake_def split: sum.splits option.splits prod.splits)
next
  case (encrypt rnd wr pid m)
  then show ?thesis by (auto simp: Client_Encrypt_def split: sum.splits option.splits prod.splits)
next
  case (decrypt wr w)
  then show ?thesis by (auto simp: Client_Decrypt_def split: sum.splits option.splits prod.splits)
next
  case restart
  then show ?thesis using assms(2) by (auto simp: LoadClient_def disk_ok_def Let_def split: option.splits)
qed

lemmas save_intros = disk_ok_SaveClient wf_intros

lemma step_wf_disk:
  assumes "client_step P J c c'" "client_wf c" "disk_ok c"
  shows "client_wf c' \<and> disk_ok c'"
  using assms
proof cases
  case (create cs oid wr pid)
  then show ?thesis using CreateOffer_wf assms
    by (auto simp: Client_CreateOffer_def Let_def intro!: save_intros split: sum.splits)
next
  case (accept cs r wr w)
  then show ?thesis using AcceptOffer_wf assms
    by (auto simp: Client_AcceptOffer_def intro!: save_intros split: sum.splits)
next
  case (finish wr w)
  then show ?thesis using FinishHandshake_wf assms
    by (auto simp: Client_FinishHandshake_def intro!: save_intros split: sum.splits option.splits prod.splits)
next
  case (encrypt rnd wr pid m)
  then show ?thesis using Encrypt_wf assms
    by (auto simp: Client_Encrypt_def intro!: save_intros split: sum.splits option.splits prod.splits)
next
  case (decrypt wr w)
  then show ?thesis using Decrypt_wf assms
    by (auto simp: Client_Decrypt_def intro!: save_intros split: sum.splits option.splits prod.splits)
next
  case restart
  then obtain sv where sv: "files c (client_file (cl_Id c)) = Some (Some sv)"
    by (auto simp: LoadClient_def split: option.splits)
  then have "files c' = files c" "cl_Id c' = sv_Id sv" "cl_keys c' = sv_keys sv"
    using restart by (auto simp: LoadClient_def Let_def)
  then show ?thesis using LoadClient_wf [OF sv _ restart] assms(3) sv by (simp add: disk_ok_def)
qed

inductive client_reach :: "prims \<Rightarrow> legacy_json \<Rightarrow> Client \<Rightarrow> Client \<Rightarrow> bool"
  for P :: prims and J :: legacy_json and c0 :: Client where
  start: "client_reach P J c0 c0"
| step: "client_reach P J c0 c \<Longrightarrow> client_step P J c c' \<Longrightarrow> client_reach P J c0 c'"

lemma NewClient_inv: "client_inv P (NewClient P k dc wr Map.empty)"
  by (auto simp: NewClient_def client_inv_def identity_ok_def peer_id_def Let_def case_prod_beta client_wf_def
      intro!: disk_ok_SaveClient exI [of _ dc]) (simp add: disk_ok_def)

text \<open>
  What other theorems assume of a client holds of every client a program can get to: through any sequence of handshake steps,
  messages, failed or partial saves and restarts it keeps its identity, and a readable identity file belongs to it.
\<close>

lemma client_reach_inv:
  assumes "client_reach P J (NewClient P k dc wr Map.empty) c"
  shows "client_inv P c \<and> cl_Id c = cl_Id (NewClient P k dc wr Map.empty)"
  using assms
proof (induction rule: client_reach.induct)
  case start
  then show ?case using NewClient_inv by blast
next
  case (step c c')
  then have inv: "client_wf c" "disk_ok c" by (simp_all add: client_inv_def)
  show ?case using step_identity [OF step.hyps(2) inv(2)] step_wf_disk [OF step.hyps(2) inv] step.IH
    by (metis client_inv_def)
qed

subsection \<open>Handshakes between clients\<close>

lemma pending_names [simp]:
  "''pending_'' @ x \<noteq> ''pending''" "''pending'' \<noteq> ''pending_'' @ x"
  by simp_all

lemma client_handshake_run:
  assumes "np_law P" "sig_law P" "b58_law P" "kem_law P" "dh_law P"
    and "can_run P (cl_keys a) ca (cl_keys b) cb oid (session b)"
    and "client_inv P a" "client_inv P b" "cl_Id b \<noteq> []"
  shows "\<exists>w a1 aw b1 a2 sa sb. Client_CreateOffer P ca oid w1 (cl_Id b) a = (Inr w, a1) \<and>
     Client_AcceptOffer P J cb r w2 w b = (Inr aw, b1) \<and>
     Client_FinishHandshake P J w3 aw a1 = (Inr (cl_Id b), a2) \<and>
     session a2 (cl_Id b) = Some sa \<and> session b1 (cl_Id a) = Some sb \<and> mirrored P sa sb \<and>
     (cl_Id b \<noteq> ''pending'' \<longrightarrow> session a2 ''pending'' = None) \<and> session a2 (''pending_'' @ cl_Id b) = None"
proof -
  have ids: "cl_Id a = peer_id P (cl_keys a)" "cl_Id b = peer_id P (cl_keys b)"
    using assms(7,8) by (simp_all add: client_inv_def)
  obtain pa w pb aw pa' where run: "CreateOffer P ca oid (cl_Id a) (cl_keys a) (cl_Id b) = Inr (pa, w)"
    "AcceptOffer P J cb r (cl_Id b) (cl_keys b) (session b) w = Inr (cl_Id a, pb, aw)"
    "FinishHandshake P J (cl_Id a) pa aw = (Inr (cl_Id b), pa')" "mirrored P pa' pb"
    using handshake_run [OF assms(1-6), of J r] unfolding ids by blast
  have peek: "PeekAnswerSenderID P J aw = Inr (cl_Id b)"
    using run(3) by (auto simp: FinishHandshake_def PeekAnswerSenderID_def
      split: sum.splits if_splits option.splits prod.splits)
  let ?a1 = "SaveClient w1 (bind_name ''pending'' (next_addr a) (bind_name (''pending_'' @ cl_Id b) (next_addr a) (alloc pa a)))"
  let ?b1 = "SaveClient w2 (bind_name (cl_Id a) (next_addr b) (alloc pb b))"
  let ?a2 = "SaveClient w3 (bind_name (cl_Id b) (next_addr a) (drop_name (''pending_'' @ cl_Id b)
      (drop_name ''pending'' (?a1\<lparr>heap := (heap ?a1)(next_addr a \<mapsto> pa')\<rparr>))))"
  have "Client_CreateOffer P ca oid w1 (cl_Id b) a = (Inr w, ?a1)"
    using assms(9) by (simp add: Client_CreateOffer_def run(1) Let_def)
  moreover have "Client_AcceptOffer P J cb r w2 w b = (Inr aw, ?b1)"
    by (simp add: Client_AcceptOffer_def run(2))
  moreover have "Client_FinishHandshake P J w3 aw ?a1 = (Inr (cl_Id b), ?a2)"
    by (simp add: Client_FinishHandshake_def peek run(3))
  moreover have "session ?a2 (cl_Id b) = Some pa'" "session ?b1 (cl_Id a) = Some pb"
    "session ?a2 (''pending_'' @ cl_Id b) = None" "cl_Id b \<noteq> ''pending'' \<Longrightarrow> session ?a2 ''pending'' = None"
    by (simp_all add: session_def)
  ultimately show ?thesis using run(4) by blast
qed

text \<open>
  Note.  Two clients run a handshake through their session tables: afterwards each has the session on file
  under the other's peer ID, with mirrored keys, and the initiator's pending slots are gone.
\<close>

theorem client_handshake:
  assumes "np_law P" "sig_law P" "b58_law P" "kem_law P" "dh_law P"
    and "can_run P (cl_keys a) ca (cl_keys b) cb oid (session b)"
    and "client_inv P a" "client_inv P b" "cl_Id b \<noteq> []"
  shows "\<exists>w a1 aw b1 a2 sa sb. Client_CreateOffer P ca oid w1 (cl_Id b) a = (Inr w, a1) \<and>
     Client_AcceptOffer P J cb r w2 w b = (Inr aw, b1) \<and>
     Client_FinishHandshake P J w3 aw a1 = (Inr (cl_Id b), a2) \<and>
     session a2 (cl_Id b) = Some sa \<and> session b1 (cl_Id a) = Some sb \<and> mirrored P sa sb \<and>
     (cl_Id b \<noteq> ''pending'' \<longrightarrow> session a2 ''pending'' = None) \<and> session a2 (''pending_'' @ cl_Id b) = None"
  by (rule client_handshake_run [OF assms])

text \<open>
  Note.  The history of accepted offers does not survive a handshake this client initiates: the session
  it leaves on file remembers no offer at all, so any offer of that peer, also one accepted earlier,
  passes the replay check again.
\<close>

theorem rekey_forgets_offers:
  assumes "Client_CreateOffer P cs oid w1 pid c = (Inr w, c1)" "pid \<noteq> []"
    and "Client_FinishHandshake P J w2 aw c1 = (Inr pid, c2)"
  shows "\<exists>sp. session c2 pid = Some sp \<and> SeenOffers sp = (\<lambda>_. False)"
proof -
  obtain sp0 where sp0: "CreateOffer P cs oid (cl_Id c) (cl_keys c) pid = Inr (sp0, w)"
    and c1: "c1 = SaveClient w1 (bind_name ''pending'' (next_addr c) (bind_name (''pending_'' @ pid) (next_addr c) (alloc sp0 c)))"
    using assms(1,2) by (auto simp: Client_CreateOffer_def Let_def split: sum.splits)
  have new: "newPeer P cs None (cl_keys c) = Inr sp0"
    using sp0 by (auto simp: CreateOffer_def Let_def split: sum.splits option.splits)
  have hdr: "PeekAnswerSenderID P J aw = Inr pid"
    using assms(3) by (auto simp: Client_FinishHandshake_def FinishHandshake_def PeekAnswerSenderID_def
      split: sum.splits if_splits option.splits prod.splits)
  obtain sp where fin: "FinishHandshake P J (cl_Id c1) sp0 aw = (Inr pid, sp)"
    and c2: "c2 = SaveClient w2 (bind_name pid (next_addr c) (drop_name (''pending_'' @ pid)
      (drop_name ''pending'' (c1\<lparr>heap := (heap c1)(next_addr c \<mapsto> sp)\<rparr>))))"
    using assms(3) c1 by (auto simp: Client_FinishHandshake_def hdr split: sum.splits prod.splits)
  have "SeenOffers sp = SeenOffers sp0"
    using fin by (auto simp: FinishHandshake_def dest: Handshake_result split: sum.splits if_splits option.splits prod.splits)
  then show ?thesis using newPeer_facts(13) [OF new] by (simp add: c2 session_def)
qed

subsection \<open>Pending sessions\<close>

text \<open>
  What an attacker needs to make a frame for a pending session: the Diffie-Hellman key that the offer
  publishes, a key pair of his own, and the empty root and HMAC keys every pending session has.
\<close>

definition forge :: "prims \<Rightarrow> bytes \<Rightarrow> bytes \<Rightarrow> string \<Rightarrow> bytes \<Rightarrow> bytes option" where
  "forge P k offerDhPub name pt =
     (let material = p_hkdf P (octets (p_x25519 P k offerDhPub)) [] (to_bytes ''ratchet-root'') 64;
          msg = sealed P name (p_basemult P k) (snd (RatchetStep P (drop 32 material))) 0 pt
      in case secureMessageHmacPayload P msg of
           Inl e \<Rightarrow> None
         | Inr canonical \<Rightarrow> p_np_enc P (SecureMessage_MarshalBinID msg @ [(5, p_hmac P [] canonical)]))"

lemma forge_frame:
  assumes "forge P k d name pt = Some w"
  shows "is_frame P [] name (p_basemult P k)
    (snd (RatchetStep P (drop 32 (p_hkdf P (octets (p_x25519 P k d)) [] (to_bytes ''ratchet-root'') 64)))) 0 pt w"
  using assms by (auto simp: forge_def is_frame_def Let_def split: sum.splits)

text \<open>A session that has not completed its handshake accepts such a frame.\<close>

lemma fresh_peer_accepts_forgery:
  assumes laws: "np_law P" "aead_law P" "hkdf_law P" "dh_law P"
    and sp: "newPeer P c None ks = Inr sp" and w: "forge P k (DhPublic sp) name pt = Some w"
  shows "fst (Decrypt P w sp) = Inr (name, pt)"
proof -
  note f = newPeer_facts [OF sp]
  let ?k = "p_basemult P k"
  let ?s = "DhRatchet P (Some ?k) sp"
  let ?ck = "drop 32 (p_hkdf P (octets (p_x25519 P k (DhPublic sp))) [] (to_bytes ''ratchet-root'') 64)"
  let ?m = "sealed P name ?k (snd (RatchetStep P ?ck)) 0 pt"
  have fr: "is_frame P (HmacKey sp) name ?k (snd (RatchetStep P ?ck)) 0 pt w"
    using forge_frame [OF w] f(14) by simp
  have ck: "RecvCk ?s = ?ck" "RecvNonce ?s = 0"
    using f(8,9,15) laws(4) by (simp_all add: DhRatchet_def Let_def dh_or_nil_def dh_law_def)
  have m: "uint (Nonce ?m) = 0" "RatchetKey ?m = Some ?k"
    using wire_nonce(1) [of 0] by (simp_all add: sealed_def)
  have "open_message P (snd (RatchetStep P ?ck)) 0 ?m = Inr (name, pt)"
    by (rule open_sealed [OF laws(2)]) (rule RatchetStep_lengths [OF laws(3)])
  then show ?thesis
    using f(11,17) ck m
    by (simp add: Decrypt_frame [OF laws(1) fr] DecryptVerified_def Let_def case_prod_beta skip_to_done)
qed

text \<open>
  C14.  After a client has created an offer, anyone who saw that offer can make the client deliver a
  message of his choice under any sender name it has no session with: the frame is given to the
  pending session, whose keys are all still empty.
\<close>

theorem pending_session_forgery:
  assumes "np_law P" "aead_law P" "hkdf_law P" "dh_law P"
    and "Client_CreateOffer P cs oid w1 pid c = (Inr ow, c1)" "decodeOffer P J ow = Inr ho"
    and "map_of (Sessions c1) name = None" "map_of (Sessions c1) (''pending_'' @ name) = None"
    and "forge P k (octets (o_DhPub ho)) name pt = Some w"
  shows "fst (Client_Decrypt P w2 w c1) = Inr (name, pt)"
proof -
  obtain sp where sp: "CreateOffer P cs oid (cl_Id c) (cl_keys c) pid = Inr (sp, ow)"
    and c1: "map_of (Sessions c1) ''pending'' = Some (next_addr c)" "heap c1 (next_addr c) = Some sp"
    using assms(5) by (auto simp: Client_CreateOffer_def Let_def split: sum.splits)
  have new: "newPeer P cs None (cl_keys c) = Inr sp"
    using sp by (auto simp: CreateOffer_def Let_def split: sum.splits option.splits)
  have "o_DhPub ho = Some (DhPublic sp)"
    using sp assms(6) new by (auto simp: CreateOffer_def Let_def dest!: decodeOffer_marshal [OF assms(1), of _ _ J, rotated]
      split: sum.splits option.splits)
  then have w: "forge P k (DhPublic sp) name pt = Some w" using assms(9) by simp
  have "SenderIDFromFrame P w = Inr name"
    using parse_frame [OF assms(1) forge_frame [OF w]] by (auto simp: SenderIDFromFrame_def sealed_def)
  then show ?thesis
    using fresh_peer_accepts_forgery [OF assms(1-4) new w] c1 assms(7,8)
    by (auto simp: Client_Decrypt_def decrypt_slot_def split: sum.splits prod.splits)
qed

text \<open>
  Note.  The two pending slots name one session object.  When an offer to \<open>pid\<close> is answered by another
  peer \<open>z\<close>, the fallback slot completes that object for \<open>z\<close> and leaves it in \<open>pid\<close>'s pending slot; the
  genuine answer of \<open>pid\<close> then runs on the same object, and from there on the names \<open>z\<close> and \<open>pid\<close>
  share one session: what the client encrypts for \<open>z\<close> is under the keys agreed with \<open>pid\<close>.
\<close>

theorem shared_pending_hijack:
  assumes "Client_CreateOffer P cs oid w1 pid c = (Inr w, c1)" "pid \<noteq> []"
    and "Client_FinishHandshake P J w2 awz c1 = (Inr z, c2)" "z \<noteq> pid" "z \<noteq> ''pending_'' @ pid"
    and "map_of (Sessions c1) (''pending_'' @ z) = None"
    and "Client_FinishHandshake P J w3 awp c2 = (Inr pid, c3)" "z \<noteq> ''pending''"
  shows "\<exists>sp. session c3 pid = Some sp \<and> session c3 z = Some sp \<and>
     (\<forall>rnd w4 m. fst (Client_Encrypt P rnd w4 z m c3) = fst (Client_Encrypt P rnd w4 pid m c3))"
proof -
  have hdr: "PeekAnswerSenderID P J aw = Inr x" if "Client_FinishHandshake P J v aw d = (Inr x, d')" for aw x v d d'
    using that by (auto simp: Client_FinishHandshake_def FinishHandshake_def PeekAnswerSenderID_def
      split: sum.splits if_splits option.splits prod.splits)
  have c1: "map_of (Sessions c1) ''pending'' = Some (next_addr c)"
      "map_of (Sessions c1) (''pending_'' @ pid) = Some (next_addr c)"
    using assms(1,2) by (auto simp: Client_CreateOffer_def Let_def split: sum.splits)
  have c2: "map_of (Sessions c2) z = Some (next_addr c)" "map_of (Sessions c2) (''pending_'' @ pid) = Some (next_addr c)"
    using assms(3-6) hdr [OF assms(3)] c1
    by (auto simp: Client_FinishHandshake_def split: sum.splits option.splits prod.splits)
  have c3: "map_of (Sessions c3) z = Some (next_addr c)" "map_of (Sessions c3) pid = Some (next_addr c)"
      "heap c3 (next_addr c) \<noteq> None"
    using assms(4,5,7,8) hdr [OF assms(7)] c2
    by (auto simp: Client_FinishHandshake_def split: sum.splits option.splits prod.splits)
  then obtain sp where "heap c3 (next_addr c) = Some sp" by blast
  then show ?thesis using c3 by (simp add: session_def Client_Encrypt_def split: sum.splits prod.splits)
qed

subsection \<open>Witnesses\<close>

definition toy_id :: "byte \<Rightarrow> string" where
  "toy_id b = peer_id toy (toy_keys b)"

definition toy_new :: "byte \<Rightarrow> Client" where
  "toy_new b = NewClient toy [b] [b, b] NotWritten Map.empty"

lemma toy_new_simps [simp]:
  "cl_keys (toy_new b) = toy_keys b" "cl_Id (toy_new b) = toy_id b" "session (toy_new b) = Map.empty"
  "Sessions (toy_new b) = []" "next_addr (toy_new b) = 0" "heap (toy_new b) = Map.empty"
  by (simp_all add: toy_new_def NewClient_def toy_keys_def toy_id_def peer_id_def session_def Let_def SaveClient_def
      fun_eq_iff) (simp_all add: toy_def)

lemma toy_new_inv: "client_inv toy (toy_new b)"
  by (simp add: toy_new_def NewClient_inv)

lemma length_toy_id: "length (toy_id b) = 64"
  by (simp add: toy_id_def peer_id_def DerivePeerID_def toy_def toy_keys_def)

lemma toy_id_ne [simp]: "toy_id b \<noteq> []" "toy_id b \<noteq> ''pending''"
  using length_toy_id [of b] by auto

lemma toy_runs:
  assumes "b \<noteq> 1"
  shows "can_run toy (toy_keys 1) (toy_coins 3) (toy_keys b) (toy_coins 4) [9] Map.empty"
  using assms
  by (simp add: can_run_def identity_ok_def toy_keys_def toy_coins_def toy_def toy_pad_def numeral_eq_Suc)

theorem client_handshake_witness:
  "\<exists>w a1 aw b1 a2 sa sb. Client_CreateOffer toy (toy_coins 3) [9] Written (toy_id 2) (toy_new 1) = (Inr w, a1) \<and>
     Client_AcceptOffer toy toy_json (toy_coins 4) [8] Written w (toy_new 2) = (Inr aw, b1) \<and>
     Client_FinishHandshake toy toy_json Written aw a1 = (Inr (toy_id 2), a2) \<and>
     session a2 (toy_id 2) = Some sa \<and> session b1 (toy_id 1) = Some sb \<and> mirrored toy sa sb \<and>
     (toy_id 2 \<noteq> ''pending'' \<longrightarrow> session a2 ''pending'' = None) \<and> session a2 (''pending_'' @ toy_id 2) = None"
  using client_handshake [OF toy_laws(4,6,5,7,1), of "toy_new 1" "toy_coins 3" "toy_new 2" "toy_coins 4" "[9]"
      Written toy_json "[8]" Written Written] toy_runs [of 2] toy_new_inv
  by simp

lemma toy_client_run:
  "\<exists>w a1 aw a2. Client_CreateOffer toy (toy_coins 3) [9] Written (toy_id 2) (toy_new 1) = (Inr w, a1) \<and>
     Client_FinishHandshake toy toy_json Written aw a1 = (Inr (toy_id 2), a2)"
proof -
  have "can_run toy (cl_keys (toy_new 1)) (toy_coins 3) (cl_keys (toy_new 2)) (toy_coins 4) [9] (session (toy_new 2))"
    "cl_Id (toy_new 2) \<noteq> []" using toy_runs [of 2] by simp_all
  from client_handshake_run [OF toy_laws(4,6,5,7,1) this(1) toy_new_inv toy_new_inv this(2),
      of Written toy_json "[8]" Written Written]
  show ?thesis unfolding toy_new_simps by blast
qed

theorem rekey_forgets_offers_witness:
  "\<exists>w a1 aw a2 sp. Client_CreateOffer toy (toy_coins 3) [9] Written (toy_id 2) (toy_new 1) = (Inr w, a1) \<and>
     Client_FinishHandshake toy toy_json Written aw a1 = (Inr (toy_id 2), a2) \<and>
     session a2 (toy_id 2) = Some sp \<and> SeenOffers sp = (\<lambda>_. False)"
proof -
  obtain w a1 aw a2 where r: "Client_CreateOffer toy (toy_coins 3) [9] Written (toy_id 2) (toy_new 1) = (Inr w, a1)"
    "Client_FinishHandshake toy toy_json Written aw a1 = (Inr (toy_id 2), a2)"
    using toy_client_run by blast
  from rekey_forgets_offers [OF r(1) toy_id_ne(1) r(2)] r show ?thesis by blast
qed

lemma forge_total: "np_law P \<Longrightarrow> \<exists>w. forge P k d name pt = Some w"
proof -
  assume np: "np_law P"
  let ?msg = "sealed P name (p_basemult P k) (snd (RatchetStep P (drop 32
    (p_hkdf P (octets (p_x25519 P k d)) [] (to_bytes ''ratchet-root'') 64)))) 0 pt"
  obtain c where c: "secureMessageHmacPayload P ?msg = Inr c"
    using sm.fast_marshal_total [OF np] by (auto simp: secureMessageHmacPayload_def)
  have "length (SecureMessage_MarshalBinID ?msg @ [(5, p_hmac P [] c)]) \<le> 11"
    by (simp add: SecureMessage_MarshalBinID_def)
  then obtain w where "p_np_enc P (SecureMessage_MarshalBinID ?msg @ [(5, p_hmac P [] c)]) = Some w"
    by (rule np_enc_dec [OF np]) blast
  then show ?thesis using c by (simp add: forge_def Let_def)
qed

theorem pending_session_forgery_witness:
  "\<exists>ow c1 w. Client_CreateOffer toy (toy_coins 3) [9] Written (toy_id 2) (toy_new 1) = (Inr ow, c1) \<and>
     fst (Client_Decrypt toy Written w c1) = Inr (''anyone'', [7])"
proof -
  obtain ow c1 where r: "Client_CreateOffer toy (toy_coins 3) [9] Written (toy_id 2) (toy_new 1) = (Inr ow, c1)"
    using toy_client_run by blast
  have "''anyone'' \<noteq> toy_id 2" using length_toy_id [of 2] by (auto dest: arg_cong [where f = length])
  then have "map_of (Sessions c1) ''anyone'' = None" "map_of (Sessions c1) (''pending_'' @ ''anyone'') = None"
    using r by (auto simp: Client_CreateOffer_def Let_def split: sum.splits)
  moreover obtain ho where "decodeOffer toy toy_json ow = Inr ho"
    using r by (auto simp: Client_CreateOffer_def CreateOffer_def Let_def
      dest!: decodeOffer_marshal [OF toy_laws(4), of _ _ toy_json, rotated] split: sum.splits option.splits)
  moreover obtain w where "forge toy [5] (octets (o_DhPub ho)) ''anyone'' [7] = Some w"
    using forge_total [OF toy_laws(4)] by blast
  ultimately show ?thesis
    using pending_session_forgery [OF toy_laws(4,3,2,1) r, of toy_json ho "''anyone''" "[5]" "[7]" w Written] r by blast
qed

text \<open>Completing a handshake does not depend on keys an earlier completion left behind.\<close>

lemma Handshake_keyed:
  "fst (Handshake P i p d ky dil s1 s2 ss oid r (keyed a d0 m sp)) = fst (Handshake P i p d ky dil s1 s2 ss oid r sp)"
  by (simp add: Handshake_def keyed_def Let_def split: option.splits)

lemma FinishHandshake_keyed:
  assumes "FinishHandshake P J myId sp aw = (Inr x, sp')"
  shows "\<exists>sp2. FinishHandshake P J myId (keyed a d0 m sp) aw = (Inr x, sp2)"
proof -
  obtain ha ss r where ha: "decodeAnswer P J aw = Inr ha" "a_KyberCiphertext ha \<noteq> []" "x = a_SenderId ha"
    "DerivePeerID P (a_IdPub ha) (a_DilithiumPub ha) = a_SenderId ha" "p_ky_priv_ok P (PqcPrivateKey sp)"
    "p_ky_decaps P (PqcPrivateKey sp) (a_KyberCiphertext ha) = Some ss" "p_b58dec P myId = Some r"
    "fst (Handshake P (a_IdPub ha) (a_Pub ha) (a_DhPub ha) (a_KyberPub ha) (a_DilithiumPub ha) (a_Sign ha)
      (a_DilithiumSign ha) ss (a_OfferID ha) r sp) = None"
    using assms by (auto simp: FinishHandshake_def split: sum.splits if_splits option.splits prod.splits)
  moreover obtain sp2 where "Handshake P (a_IdPub ha) (a_Pub ha) (a_DhPub ha) (a_KyberPub ha) (a_DilithiumPub ha)
      (a_Sign ha) (a_DilithiumSign ha) ss (a_OfferID ha) r (keyed a d0 m sp) = (None, sp2)"
    using ha(8) by (metis Handshake_keyed prod.collapse)
  moreover have "PqcPrivateKey (keyed a d0 m sp) = PqcPrivateKey sp" by (simp add: keyed_def)
  ultimately show ?thesis by (simp add: FinishHandshake_def)
qed

lemma FinishHandshake_leaves_keyed:
  "FinishHandshake P J myId sp aw = (Inr x, sp') \<Longrightarrow> \<exists>a d0 m. sp' = keyed a d0 m sp"
  by (auto simp: FinishHandshake_def dest!: Handshake_result split: sum.splits if_splits option.splits prod.splits)

lemma toy_answer:
  assumes "b \<noteq> 1" "newPeer toy (toy_coins 3) None (toy_keys 1) = Inr pa"
  shows "\<exists>w aw pa'. CreateOffer toy (toy_coins 3) [9] (toy_id 1) (toy_keys 1) (toy_id b) = Inr (pa, w) \<and>
     FinishHandshake toy toy_json (toy_id 1) pa aw = (Inr (toy_id b), pa')"
proof -
  obtain p w aw pa' where "CreateOffer toy (toy_coins 3) [9] (toy_id 1) (toy_keys 1) (toy_id b) = Inr (p, w)"
    "FinishHandshake toy toy_json (toy_id 1) p aw = (Inr (toy_id b), pa')"
    using handshake_run [OF toy_laws(4,6,5,7,1) toy_runs [OF assms(1)], of toy_json "[8]"] unfolding toy_id_def by blast
  moreover from this(1) assms(2) have "p = pa"
    by (auto simp: CreateOffer_def Let_def split: sum.splits option.splits)
  ultimately show ?thesis by blast
qed

lemma Client_FinishHandshake_at:
  assumes "FinishHandshake P J (cl_Id c) sp aw = (Inr x, sp')" "heap c a = Some sp"
    "(case map_of (Sessions c) (''pending_'' @ x) of Some a \<Rightarrow> Some a | None \<Rightarrow> map_of (Sessions c) ''pending'') = Some a"
  shows "Client_FinishHandshake P J wr aw c = (Inr x, SaveClient wr (bind_name x a (drop_name (''pending_'' @ x)
      (drop_name ''pending'' (c\<lparr>heap := (heap c)(a \<mapsto> sp')\<rparr>)))))"
proof -
  have "PeekAnswerSenderID P J aw = Inr x"
    using assms(1) by (auto simp: FinishHandshake_def PeekAnswerSenderID_def
      split: sum.splits if_splits option.splits prod.splits)
  then show ?thesis using assms by (simp add: Client_FinishHandshake_def)
qed

lemma toy_id_inject: "toy_id b = toy_id c \<Longrightarrow> b = c"
  by (simp add: toy_id_def peer_id_def DerivePeerID_def toy_def toy_keys_def toy_pad_def numeral_eq_Suc)

theorem shared_pending_hijack_witness:
  "\<exists>w c1 awz c2 awp c3 sp. Client_CreateOffer toy (toy_coins 3) [9] Written (toy_id 2) (toy_new 1) = (Inr w, c1) \<and>
     Client_FinishHandshake toy toy_json Written awz c1 = (Inr (toy_id 5), c2) \<and>
     Client_FinishHandshake toy toy_json Written awp c2 = (Inr (toy_id 2), c3) \<and>
     session c3 (toy_id 2) = Some sp \<and> session c3 (toy_id 5) = Some sp"
proof -
  obtain pa where pa: "newPeer toy (toy_coins 3) None (toy_keys 1) = Inr pa"
    using newPeer_succeeds [of toy "toy_coins 3" "toy_keys 1"] by (auto simp: toy_def)
  have ne: "toy_id 5 \<noteq> toy_id 2" "toy_id 2 \<noteq> toy_id 5" "toy_id 5 \<noteq> ''pending_'' @ toy_id 2"
    "toy_id 2 \<noteq> ''pending_'' @ toy_id 2" "toy_id 5 \<noteq> ''pending_'' @ toy_id 5"
    using toy_id_inject [of 5 2] length_toy_id by (auto dest: arg_cong [where f = length])
  obtain w awp pp where p: "CreateOffer toy (toy_coins 3) [9] (toy_id 1) (toy_keys 1) (toy_id 2) = Inr (pa, w)"
    "FinishHandshake toy toy_json (toy_id 1) pa awp = (Inr (toy_id 2), pp)"
    using toy_answer [OF _ pa, of 2] by auto
  obtain awz pz where z: "FinishHandshake toy toy_json (toy_id 1) pa awz = (Inr (toy_id 5), pz)"
    using toy_answer [OF _ pa, of 5] by auto
  obtain c1 where c1: "Client_CreateOffer toy (toy_coins 3) [9] Written (toy_id 2) (toy_new 1) = (Inr w, c1)"
    "Sessions c1 = [(''pending_'' @ toy_id 2, 0), (''pending'', 0)]" "heap c1 0 = Some pa" "cl_Id c1 = toy_id 1"
    using p(1) by (auto simp: Client_CreateOffer_def Let_def) (auto simp: bind_name_def alloc_def)
  obtain c2 where c2: "Client_FinishHandshake toy toy_json Written awz c1 = (Inr (toy_id 5), c2)"
    "map_of (Sessions c2) (''pending_'' @ toy_id 2) = Some 0" "heap c2 0 = Some pz" "cl_Id c2 = toy_id 1"
    using Client_FinishHandshake_at [of toy toy_json c1 pa awz "toy_id 5" pz 0 Written] z c1(2-4) ne by auto
  obtain pp' where "FinishHandshake toy toy_json (toy_id 1) pz awp = (Inr (toy_id 2), pp')"
    using FinishHandshake_leaves_keyed [OF z] FinishHandshake_keyed [OF p(2)] by metis
  then obtain c3 where c3: "Client_FinishHandshake toy toy_json Written awp c2 = (Inr (toy_id 2), c3)"
    using Client_FinishHandshake_at [of toy toy_json c2 pz awp "toy_id 2" pp' 0 Written] c2(2-4) by auto
  have "map_of (Sessions c1) (''pending_'' @ toy_id 5) = None" using c1(2) ne by simp
  from shared_pending_hijack [OF c1(1) toy_id_ne(1) c2(1) ne(1,3) this c3 toy_id_ne(2)] c1(1) c2(1) c3
  show ?thesis by blast
qed

end
