(* ===== verification/SessionDelivery.thy ===== *)
theory SessionDelivery
  imports Clients
begin

text \<open>
  From sessions to clients: a frame that one side makes on a session in step is decrypted by the client of the
  other side.  The layers above (groups, files, the relay loop) use a session only through this.
\<close>

lemma Decrypt_sender:
  assumes "fst (Decrypt P w sp) = Inr (x, pt)"
  shows "SenderIDFromFrame P w = Inr x"
proof -
  have "SenderID msg = x" if "fst (DecryptVerified P msg sp) = Inr (x, pt)" for msg
    using that
    by (auto simp: DecryptVerified_def open_message_def Let_def case_prod_beta split: sum.splits option.splits if_splits)
  then show ?thesis using assms by (auto simp: Decrypt_def SenderIDFromFrame_def split: sum.splits if_splits)
qed

text \<open>A frame made now on a session in step is delivered by the peer's client.\<close>

lemma next_frame_delivered:
  assumes laws: "np_law P" "aead_law P" "hkdf_law P" "dh_law P" and "mirrored P a b"
    and reach: "duplex_reach P na nb (fresh_duplex a b) s" and "toB s = []"
    and fresh: "p_basemult P rnd \<noteq> DhPublic (pA s)" and bound: "SendNonce (pA s) < 2 ^ 31"
    and bob: "map_of (Sessions c) na = Some adr" "heap c adr = Some (pB s)"
  shows "\<exists>w a' c'. Encrypt P rnd na pt (pA s) = (Inr w, a') \<and> Client_Decrypt P wr w c = (Inr (na, pt), c')"
proof -
  obtain w where w: "Encrypt P rnd na pt (pA s) = (Inr w, (send_ratchet P rnd (pA s))
      \<lparr>SendCk := ck_at P (SendCk (send_ratchet P rnd (pA s))) 1, SendNonce := SendNonce (send_ratchet P rnd (pA s)) + 1\<rparr>)"
    (is "_ = (_, ?a)")
    using Encrypt_frame [OF laws(1,3), of rnd na pt "pA s"] by blast
  have "SendNonce (send_ratchet P rnd (pA s)) < 2 ^ 31"
    using bound by (simp add: send_ratchet_def Let_def case_prod_beta)
  then have "duplex_step P na nb s (s\<lparr>pA := ?a, toB := toB s @ [(w, pt)]\<rparr>)"
    by (intro send_A [OF w fresh]) simp
  then have "duplex_reach P na nb (fresh_duplex a b) (s\<lparr>pA := ?a, toB := toB s @ [(w, pt)]\<rparr>)"
    by (rule duplex_reach.step [OF reach])
  then have dec: "fst (Decrypt P w (pB s)) = Inr (na, pt)"
    using session_head_delivered(1) [OF laws assms(5), of na nb _ w pt "[]"] assms(7) by fastforce
  obtain b' where "Decrypt P w (pB s) = (Inr (na, pt), b')" using dec by (metis prod.collapse)
  then have "Client_Decrypt P wr w c = (Inr (na, pt), SaveClient wr (c\<lparr>heap := (heap c)(adr \<mapsto> b')\<rparr>))"
    using Decrypt_sender [OF dec] bob by (simp add: Client_Decrypt_def decrypt_slot_def)
  then show ?thesis using w by blast
qed

text \<open>The same through both clients: \<^verbatim>\<open>Client.Encrypt\<close> on one side, \<^verbatim>\<open>Client.Decrypt\<close> on the other.\<close>

lemma client_frame_delivered:
  assumes laws: "np_law P" "aead_law P" "hkdf_law P" "dh_law P" and "mirrored P a b"
    and "duplex_reach P (cl_Id ca) nb (fresh_duplex a b) s" "toB s = []"
    and "p_basemult P rnd \<noteq> DhPublic (pA s)" "SendNonce (pA s) < 2 ^ 31"
    and alice: "map_of (Sessions ca) peer = Some adr" "heap ca adr = Some (pA s)"
    and bob: "map_of (Sessions cb) (cl_Id ca) = Some adr'" "heap cb adr' = Some (pB s)"
  shows "\<exists>w ca' cb'. Client_Encrypt P rnd wr peer pt ca = (Inr w, ca') \<and>
     Client_Decrypt P wr' w cb = (Inr (cl_Id ca, pt), cb')"
proof -
  obtain w a' c' where "Encrypt P rnd (cl_Id ca) pt (pA s) = (Inr w, a')" "Client_Decrypt P wr' w cb = (Inr (cl_Id ca, pt), c')"
    using next_frame_delivered [OF laws assms(5-9) bob] by blast
  then show ?thesis using alice by (simp add: Client_Encrypt_def)
qed

lemma Encrypt_frame_nonempty:
  assumes "np_law P" "Encrypt P rnd nm pt sp = (Inr w, sp')"
  shows "w \<noteq> []"
proof -
  have few: "length (SecureMessage_MarshalBinID m @ [t]) \<le> 11" for m t by (simp add: SecureMessage_MarshalBinID_def)
  show ?thesis using assms(2) np_enc_dec [OF assms(1) few]
    by (auto simp: Encrypt_def Let_def split: prod.splits if_splits sum.splits option.splits) (metis option.inject)
qed

lemma Encrypt_nonempty:
  assumes "np_law P" "Client_Encrypt P rnd wr peer pt cl = (Inr w, cl')"
  shows "w \<noteq> []"
  using assms(2) by (auto simp: Client_Encrypt_def dest: Encrypt_frame_nonempty [OF assms(1)] split: option.splits prod.splits sum.splits)

subsection \<open>A concrete pair\<close>

text \<open>Two clients that share the session of the toy peers; used by the witnesses.\<close>

definition toy_alice :: Client where
  "toy_alice = NewClientFromKeys ''alice'' (toy_keys 1) [(''bob'', 0)] [0 \<mapsto> toy_peer] 1 Map.empty"

definition toy_bob :: Client where
  "toy_bob = NewClientFromKeys ''bob'' (toy_keys 2) [(''alice'', 0)] [0 \<mapsto> toy_peer'] 1 Map.empty"

lemma toy_pair [simp]:
  "cl_Id toy_alice = ''alice''" "Sessions toy_alice = [(''bob'', 0)]" "heap toy_alice 0 = Some toy_peer"
  "cl_Id toy_bob = ''bob''" "Sessions toy_bob = [(''alice'', 0)]" "heap toy_bob 0 = Some toy_peer'"
  by (simp_all add: toy_alice_def toy_bob_def NewClientFromKeys_def)

lemma toy_duplex:
  "toB (fresh_duplex toy_peer toy_peer') = []" "pA (fresh_duplex toy_peer toy_peer') = toy_peer"
  "pB (fresh_duplex toy_peer toy_peer') = toy_peer'" "SendNonce toy_peer < 2 ^ 31"
  "p_basemult toy [] \<noteq> DhPublic toy_peer" "duplex_reach toy ''alice'' ''bob'' (fresh_duplex toy_peer toy_peer') (fresh_duplex toy_peer toy_peer')"
  by (simp_all add: fresh_duplex_def toy_peer_def toy_def duplex_reach.start)

end
