(* ===== verification/Binstore.thy ===== *)
theory Binstore
  imports Texts
begin

text \<open>
  The record file format of the local stores (\<^verbatim>\<open>src/internal/binstore/binstore.go\<close>): a counted sequence
  of length-prefixed records inside a nanopack packet.

  The packet envelope is a parameter.  Files are a map from paths to contents; how far a save gets is
  an argument.  Sizes are those of a 64-bit platform: \<^verbatim>\<open>int\<close> is 64 bits wide and \<^verbatim>\<open>make\<close> panics above
  \<^verbatim>\<open>2^48\<close> bytes, where a slice header takes 24.
\<close>

type_synonym filesystem = "string \<rightharpoonup> bytes"

record packets =
  k_wrap :: "byte \<Rightarrow> bytes \<Rightarrow> bytes"                          \<comment> \<open>\<^verbatim>\<open>WrapPacket(schema, body, 0)\<close>\<close>
  k_unwrap :: "bytes \<Rightarrow> (byte \<times> byte \<times> bytes) option"         \<comment> \<open>\<^verbatim>\<open>UnwrapPacket\<close>: major, schema, body\<close>
  k_major :: byte                                           \<comment> \<open>\<^verbatim>\<open>ProtocolVersionMajor\<close>\<close>

definition packet_law :: "packets \<Rightarrow> bool" where
  "packet_law K \<longleftrightarrow> (\<forall>s b. k_unwrap K (k_wrap K s b) = Some (k_major K, s, b))"

datatype store_error =
    StoreMissing | StoreUnwrap | StoreVersion byte | StoreSchema byte | BadRecordCount | BadRecordLength
  | TruncatedRecord | StorePanic | StoreWrite | StoreRename

datatype save_io = SaveDone | SaveWriteFails "bytes option" | SaveRenameFails

definition max_alloc :: nat where "max_alloc = 2 ^ 48"
definition slice_header :: nat where "slice_header = 24"

definition put_records :: "bytes list \<Rightarrow> bytes" where
  "put_records records =
     put_uvarint (length records) @ concat (map (\<lambda>r. put_uvarint (length r) @ r) records)"

definition Binstore_Save ::
  "packets \<Rightarrow> save_io \<Rightarrow> string \<Rightarrow> byte \<Rightarrow> bytes list \<Rightarrow> filesystem \<Rightarrow> store_error option \<times> filesystem" where
  "Binstore_Save K io path schemaID records fs =
     (let frame = k_wrap K schemaID (put_records records);
          tmp = path @ ''.tmp''
      in case io of
           SaveWriteFails None \<Rightarrow> (Some StoreWrite, fs)
         | SaveWriteFails (Some part) \<Rightarrow> (Some StoreWrite, fs(tmp \<mapsto> part))
         | SaveRenameFails \<Rightarrow> (Some StoreRename, fs(tmp := None))
         | SaveDone \<Rightarrow> (None, fs(tmp := None, path \<mapsto> frame)))"

text \<open>One round of the loop: the record at \<open>pos\<close> and the position after it, in 64-bit arithmetic.\<close>

definition read_record :: "bytes \<Rightarrow> nat \<Rightarrow> store_error + bytes \<times> nat" where
  "read_record body pos =
     (let (ln, n) = uvarint (drop pos body) in
      if n \<le> 0 then Inl BadRecordLength
      else
        let pos' = pos + nat n;
            stop = sint (word_of_int (int pos' + sint (word_of_nat ln :: 64 word)) :: 64 word)
        in if stop > int (length body) then Inl TruncatedRecord
           else if ln > max_alloc then Inl StorePanic
           else Inr (take ln (drop pos' body), pos' + ln))"

fun read_records :: "nat \<Rightarrow> bytes \<Rightarrow> nat \<Rightarrow> store_error + bytes list" where
  "read_records 0 body pos = Inr []"
| "read_records (Suc k) body pos =
     (case read_record body pos of
        Inl e \<Rightarrow> Inl e
      | Inr (rec, pos') \<Rightarrow>
          (case read_records k body pos' of Inl e \<Rightarrow> Inl e | Inr out \<Rightarrow> Inr (rec # out)))"

definition read_body :: "bytes \<Rightarrow> store_error + bytes list" where
  "read_body body =
     (let (count, n) = uvarint body in
      if n \<le> 0 then Inl BadRecordCount
      else if count * slice_header > max_alloc then Inl StorePanic
      else read_records count body (nat n))"

definition Binstore_Load ::
  "packets \<Rightarrow> string \<Rightarrow> byte \<Rightarrow> filesystem \<Rightarrow> store_error + bytes list" where
  "Binstore_Load K path schemaID fs =
     (case fs path of
        None \<Rightarrow> Inl StoreMissing
      | Some frame \<Rightarrow>
          (case k_unwrap K frame of
             None \<Rightarrow> Inl StoreUnwrap
           | Some (major, gotSchema, body) \<Rightarrow>
               if major \<noteq> k_major K then Inl (StoreVersion major)
               else if gotSchema \<noteq> schemaID then Inl (StoreSchema gotSchema)
               else read_body body))"

definition Binstore_Exists :: "string \<Rightarrow> filesystem \<Rightarrow> bool" where
  "Binstore_Exists path fs \<longleftrightarrow> fs path \<noteq> None"

subsection \<open>Round trip\<close>

text \<open>Sizes for which no limit of the platform is reached.\<close>

definition storable :: "bytes list \<Rightarrow> bool" where
  "storable records \<longleftrightarrow> length records * slice_header \<le> max_alloc \<and> length (put_records records) < 2 ^ 48"

lemma length_put_uvarint: "x < 128 ^ k \<Longrightarrow> 0 < k \<Longrightarrow> length (put_uvarint x) \<le> k"
proof (induction x arbitrary: k rule: put_uvarint.induct)
  case (1 x)
  show ?case
  proof (cases "x < 128")
    case True
    then show ?thesis using 1 by (subst put_uvarint.simps) simp
  next
    case False
    then have "k \<noteq> 1" using "1.prems" by auto
    then have k: "0 < k - 1" "k = Suc (k - 1)" using "1.prems" by auto
    have "x div 128 < 128 ^ (k - 1)" using "1.prems"(1) k(2) by (metis less_mult_imp_div_less mult.commute power_Suc)
    then have "length (put_uvarint (x div 128)) \<le> k - 1" using "1.IH" False k(1) by blast
    then show ?thesis using False k by (subst put_uvarint.simps) simp
  qed
qed

lemma sint64: "sint (w :: 64 word) = (uint w + 2 ^ 63) mod 2 ^ 64 - 2 ^ 63"
  by (simp add: sint_uint signed_take_bit_eq_take_bit_shift take_bit_eq_mod)

lemma sint_small: "0 \<le> i \<Longrightarrow> i < 2 ^ 63 \<Longrightarrow> sint (word_of_int i :: 64 word) = i"
  by (simp add: sint64 uint_word_of_int)

lemma sint_high:
  assumes "2 ^ 63 \<le> i" "i < 2 ^ 64"
  shows "sint (word_of_int i :: 64 word) = i - 2 ^ 64"
proof -
  have "(i + 2 ^ 63) mod 2 ^ 64 = (i + 2 ^ 63 - 2 ^ 64) mod (2 ^ 64 :: int)"
    by (metis minus_mod_self2)
  also have "\<dots> = i + 2 ^ 63 - 2 ^ 64" using assms by (intro mod_pos_pos_trivial) simp_all
  finally show ?thesis using assms by (simp add: sint64 uint_word_of_int)
qed

lemma read_record_put:
  assumes "length body < 2 ^ 48" "drop pos body = put_uvarint (length r) @ r @ rest"
  shows "read_record body pos = Inr (r, pos + length (put_uvarint (length r)) + length r)"
proof -
  let ?u = "length (put_uvarint (length r))"
  have len: "length body - pos = ?u + length r + length rest"
    using arg_cong [OF assms(2), of length] by simp
  have pos: "pos < length body" using len by (cases "put_uvarint (length r)") auto
  have ln: "length r < 2 ^ 48" "length r \<le> max_alloc" using len assms(1) by (simp_all add: max_alloc_def)
  have uv: "uvarint (drop pos body) = (length r, int ?u)"
    unfolding assms(2) by (rule uvarint_put) (use ln(1) in simp)
  have "sint (word_of_nat (length r) :: 64 word) = int (length r)"
    using sint_small [of "int (length r)"] ln(1) by simp
  moreover have "sint (word_of_int (int (pos + ?u) + int (length r)) :: 64 word) = int (pos + ?u) + int (length r)"
    by (rule sint_small) (use len pos assms(1) in simp_all)
  moreover have "drop (pos + ?u) body = r @ rest"
    using assms(2) by (metis (no_types) append_eq_conv_conj drop_drop add.commute)
  ultimately show ?thesis using uv len pos ln(2)
    by (cases "?u = 0") (simp_all add: read_record_def Let_def)
qed

lemma read_records_put:
  assumes "length body < 2 ^ 48"
  shows "drop pos body = concat (map (\<lambda>r. put_uvarint (length r) @ r) records) \<Longrightarrow>
         read_records (length records) body pos = Inr records"
proof (induction records arbitrary: pos)
  case Nil
  then show ?case by simp
next
  case (Cons r records)
  let ?rest = "concat (map (\<lambda>r. put_uvarint (length r) @ r) records)"
  let ?p = "pos + length (put_uvarint (length r)) + length r"
  have d: "drop pos body = put_uvarint (length r) @ r @ ?rest" using Cons.prems by simp
  have "drop ?p body = drop (length (put_uvarint (length r)) + length r) (drop pos body)"
    by (simp add: add.commute add.left_commute)
  also have "\<dots> = ?rest" unfolding d by simp
  finally have "read_records (length records) body ?p = Inr records" by (rule Cons.IH)
  then show ?case by (simp add: read_record_put [OF assms d])
qed

lemma read_body_put:
  assumes "storable records"
  shows "read_body (put_records records) = Inr records"
proof -
  have len: "length (put_records records) < 2 ^ 48" and cnt: "length records * slice_header \<le> max_alloc"
    using assms by (simp_all add: storable_def)
  have "length records < 2 ^ 64" using cnt by (simp add: slice_header_def max_alloc_def)
  then have "uvarint (put_records records) = (length records, int (length (put_uvarint (length records))))"
    unfolding put_records_def by (rule uvarint_put)
  moreover have "read_records (length records) (put_records records) (length (put_uvarint (length records))) = Inr records"
    by (rule read_records_put [OF len]) (simp add: put_records_def)
  ultimately show ?thesis using cnt
    by (simp add: read_body_def)
qed

text \<open>
  Note.  A store file loads to exactly the records that were saved, and a save that fails leaves the
  previous content of the file in place.
\<close>

theorem binstore_roundtrip:
  assumes "packet_law K" "storable records" "Binstore_Save K io path schema records fs = (res, fs')"
  shows "(if res = None then Binstore_Load K path schema fs' = Inr records
          else fs' path = fs path)"
  using assms read_body_put [OF assms(2)]
  by (auto simp: Binstore_Save_def Binstore_Load_def packet_law_def Let_def split: save_io.splits option.splits)

definition toy_packets :: packets where
  "toy_packets =
     \<lparr>k_wrap = (\<lambda>s b. 1 # s # b),
      k_unwrap = (\<lambda>f. case f of m # s # b \<Rightarrow> Some (m, s, b) | _ \<Rightarrow> None), k_major = 1\<rparr>"

lemma toy_packet_law: "packet_law toy_packets"
  by (simp add: packet_law_def toy_packets_def)

theorem binstore_roundtrip_witness:
  "\<exists>fs'. Binstore_Save toy_packets SaveDone ''c.bin'' 7 [[1, 2], []] Map.empty = (None, fs') \<and>
     Binstore_Load toy_packets ''c.bin'' 7 fs' = Inr [[1, 2], []]"
proof -
  have "storable [[1, 2], []]"
    by (simp add: storable_def slice_header_def max_alloc_def put_records_def put_uvarint.simps)
  moreover obtain fs' where "Binstore_Save toy_packets SaveDone ''c.bin'' 7 [[1, 2], []] Map.empty = (None, fs')"
    by (simp add: Binstore_Save_def Let_def)
  ultimately show ?thesis using binstore_roundtrip [OF toy_packet_law] by fastforce
qed

text \<open>
  Note.  A well-formed packet whose record claims a length of \<^verbatim>\<open>2^63\<close> or more passes the truncation
  check, because the length turns negative as a signed integer, and the allocation then panics.
\<close>

theorem binstore_length_panic:
  assumes "packet_law K" "2 ^ 63 \<le> ln" "ln < 2 ^ 64"
    and "fs path = Some (k_wrap K schema (put_uvarint 1 @ put_uvarint ln))"
  shows "Binstore_Load K path schema fs = Inl StorePanic"
proof -
  let ?b = "put_uvarint 1 @ put_uvarint ln"
  have one: "put_uvarint 1 = [1]" "put_uvarint (Suc 0) = [1]" by (simp_all add: put_uvarint.simps)
  have uv: "uvarint ?b = (1, 1)" using uvarint_put [of 1 "put_uvarint ln"] one by simp
  have uv2: "uvarint (drop 1 ?b) = (ln, int (length (put_uvarint ln)))"
    using uvarint_put [of ln "[]"] assms(3) one by simp
  define u where "u = length (put_uvarint ln)"
  have u: "0 < u" "u \<le> 10"
    using length_put_uvarint [of ln 10] assms(3) by (simp_all add: u_def)
  have high: "sint (word_of_nat ln :: 64 word) = int ln - 2 ^ 64"
    using sint_high [of "int ln"] assms(2,3) by simp
  have len: "length ?b = 1 + u" by (simp add: one u_def)
  have stop: "sint (word_of_int (int (1 + u) + (int ln - 2 ^ 64)) :: 64 word) \<le> int (length ?b)"
  proof (cases "int (1 + u) + int ln < 2 ^ 64")
    case True
    have eq: "word_of_int (int (1 + u) + (int ln - 2 ^ 64)) = (word_of_int (int (1 + u) + int ln) :: 64 word)"
      by (simp add: word_of_int_eq_iff take_bit_eq_mod)
    have "sint (word_of_int (int (1 + u) + int ln) :: 64 word) = int (1 + u) + int ln - 2 ^ 64"
      by (rule sint_high) (use assms(2) True in simp_all)
    then show ?thesis unfolding eq len using assms(3) by simp
  next
    case False
    then show ?thesis unfolding len using assms(3) u by (subst sint_small) simp_all
  qed
  have "read_record ?b 1 = Inl StorePanic"
    using uv2 u stop assms(2) unfolding read_record_def u_def [symmetric] by (simp add: high max_alloc_def Let_def)
  then have "read_body ?b = Inl StorePanic"
    using uv by (simp add: read_body_def slice_header_def max_alloc_def)
  then show ?thesis using assms(1,4) by (simp add: Binstore_Load_def packet_law_def)
qed

theorem binstore_length_panic_witness:
  "Binstore_Load toy_packets ''c.bin'' 7 [''c.bin'' \<mapsto> k_wrap toy_packets 7 (put_uvarint 1 @ put_uvarint (2 ^ 63))] =
     Inl StorePanic"
  by (rule binstore_length_panic [OF toy_packet_law, of "2 ^ 63"]) simp_all

end
