(* ===== verification/RecordFiles.thy ===== *)
theory RecordFiles
  imports Prims Binstore "HOL-Library.AList"
begin

text \<open>
  Files of nanopack records, as the contacts book, the mailbox and the group stores write them: the
  records of a list of values, and the values of a list of records, where a record that does not
  decode is skipped.
\<close>

fun encode_all :: "prims \<Rightarrow> ('a \<Rightarrow> npfield list) \<Rightarrow> 'a list \<Rightarrow> np_error + bytes list" where
  "encode_all P marshal [] = Inr []"
| "encode_all P marshal (x # xs) =
     (case MarshalFastID P marshal x of
        Inl e \<Rightarrow> Inl e
      | Inr b \<Rightarrow> (case encode_all P marshal xs of Inl e \<Rightarrow> Inl e | Inr bs \<Rightarrow> Inr (b # bs)))"

definition decode_all :: "prims \<Rightarrow> (npfield list \<Rightarrow> np_error + 'a) \<Rightarrow> bytes list \<Rightarrow> 'a list" where
  "decode_all P unmarshal records =
     List.map_filter
       (\<lambda>b. case UnmarshalFastID P unmarshal b of Inl e \<Rightarrow> None | Inr x \<Rightarrow> Some x) records"

context bin_codec
begin

lemma encode_all_total: "np_law P \<Longrightarrow> \<exists>bs. encode_all P marshal xs = Inr bs"
proof (induction xs)
  case (Cons x xs)
  then show ?case using fast_marshal_total [of P x] by fastforce
qed simp

lemma decode_encode_all:
  "np_law P \<Longrightarrow> \<forall>x\<in>set xs. ok x \<Longrightarrow> encode_all P marshal xs = Inr bs \<Longrightarrow> decode_all P unmarshal bs = xs"
proof (induction xs arbitrary: bs)
  case Nil
  then show ?case by (simp add: decode_all_def List.map_filter_def)
next
  case (Cons x xs)
  obtain b bs' where b: "MarshalFastID P marshal x = Inr b" "encode_all P marshal xs = Inr bs'" "bs = b # bs'"
    using Cons.prems(3) by (auto split: sum.splits)
  moreover have "UnmarshalFastID P unmarshal b = Inr x"
    using fast_unmarshal [OF Cons.prems(1) _ b(1)] Cons.prems(2) by simp
  ultimately show ?case using Cons by (simp add: decode_all_def List.map_filter_def)
qed

end

text \<open>Tables with distinct keys, kept as association lists because the code iterates over them.\<close>

definition table_ok :: "('k \<times> 'v) list \<Rightarrow> bool" where
  "table_ok m \<longleftrightarrow> distinct (map fst m)"

lemma table_ok_Nil [simp]: "table_ok []"
  by (simp add: table_ok_def)

lemma table_ok_single [simp]: "table_ok [p]"
  by (simp add: table_ok_def)

lemma table_ok_update [simp]: "table_ok m \<Longrightarrow> table_ok (AList.update k v m)"
  by (simp add: table_ok_def distinct_update)

lemma table_ok_delete [simp]: "table_ok m \<Longrightarrow> table_ok (AList.delete k m)"
  by (simp add: table_ok_def distinct_delete)

lemma map_of_update_table [simp]: "map_of (AList.update k v m) = (map_of m)(k \<mapsto> v)"
  by (rule update_conv')

lemma map_of_delete_table [simp]: "map_of (AList.delete k m) = (map_of m)(k := None)"
  by (rule delete_conv')

lemma table_in_iff: "table_ok m \<Longrightarrow> (k, v) \<in> set m \<longleftrightarrow> map_of m k = Some v"
  by (simp add: table_ok_def)

text \<open>Inserting the values of a file one by one into a table, each under a key of its own.\<close>

lemma fold_insert_lookup:
  assumes "\<And>x t k. look (ins x t) k = (if k = key x then Some x else look t k)"
  shows "distinct (map key xs) \<Longrightarrow>
     look (fold ins xs t) k = (case map_of (map (\<lambda>x. (key x, x)) xs) k of None \<Rightarrow> look t k | Some x \<Rightarrow> Some x)"
proof (induction xs arbitrary: t)
  case (Cons x xs)
  have "map_of (map (\<lambda>x. (key x, x)) xs) (key x) = None"
    using Cons.prems by (auto simp: map_of_eq_None_iff)
  then show ?case using Cons by (auto simp: assms split: option.splits)
qed simp

lemmas fold_update_table =
  fold_insert_lookup [of map_of "\<lambda>c s. AList.update (f c) c s" f for f, simplified]

lemma Binstore_Save_done:
  "Binstore_Save K SaveDone path schema recs fs = (None, fs(path @ ''.tmp'' := None, path \<mapsto> k_wrap K schema (put_records recs)))"
  by (simp add: Binstore_Save_def Let_def)

lemma Binstore_Load_saved:
  "packet_law K \<Longrightarrow> storable recs \<Longrightarrow> fs path = Some (k_wrap K schema (put_records recs)) \<Longrightarrow>
   Binstore_Load K path schema fs = Inr recs"
  by (simp add: Binstore_Load_def packet_law_def read_body_put)

end
