(* ===== verification/MultiTypes.thy ===== *)
theory MultiTypes
  imports Frames Toy RecordFiles
begin

text \<open>
  Group messages, part one (\<^verbatim>\<open>src/internal/multimsg/types.go\<close>): contexts and their signatures, delivery and
  message records with their nanopack form, local policies, and the bookkeeping of a fan-out.

  A 64-bit integer is a word; a \<^verbatim>\<open>[]byte\<close> whose being nil the code inspects is an option.  Whether
  nanopack hands out nil for a field without data is the argument \<open>nd\<close> of the decoders that look.
\<close>

subsection \<open>Recipient policies\<close>

type_synonym RecipientPolicy = int

definition PolicyEnabled :: RecipientPolicy where "PolicyEnabled = 0"
definition PolicyMuted :: RecipientPolicy where "PolicyMuted = 1"
definition PolicyBlocked :: RecipientPolicy where "PolicyBlocked = 2"
definition PolicyExcluded :: RecipientPolicy where "PolicyExcluded = 3"

definition RecipientPolicy_String :: "RecipientPolicy \<Rightarrow> string" where
  "RecipientPolicy_String p =
     (if p = PolicyEnabled then ''enabled'' else if p = PolicyMuted then ''muted''
      else if p = PolicyBlocked then ''blocked'' else if p = PolicyExcluded then ''excluded'' else ''unknown'')"

record LocalRecipientPolicy =
  lp_ContextID :: string
  lp_Recipient :: string
  lp_Policy :: RecipientPolicy
  lp_UpdatedAt :: "64 word"

subsection \<open>Contexts\<close>

definition MessageContextSchemaID :: byte where "MessageContextSchemaID = 10"
definition MessageDeliverySchemaID :: byte where "MessageDeliverySchemaID = 11"
definition PolicySchemaID :: byte where "PolicySchemaID = 44"

record MessageContext =
  mc_ContextID :: string
  mc_DisplayName :: string
  mc_MetadataVersion :: "64 word"
  mc_CreatorID :: string
  mc_Signature :: bytes

definition MessageContext_MarshalBinID :: "MessageContext \<Rightarrow> npfield list" where
  "MessageContext_MarshalBinID c =
     [(1, to_bytes (mc_ContextID c)), (2, to_bytes (mc_DisplayName c)), (3, putU64 (mc_MetadataVersion c)),
      (4, to_bytes (mc_CreatorID c)), (5, mc_Signature c)]"

definition MessageContext_field :: "npfield \<Rightarrow> MessageContext \<Rightarrow> np_error + MessageContext" where
  "MessageContext_field f c =
     (let (id, data) = f in
      if id = 1 then Inr (c\<lparr>mc_ContextID := to_str data\<rparr>)
      else if id = 2 then Inr (c\<lparr>mc_DisplayName := to_str data\<rparr>)
      else if id = 3 then Inr (if length data = 8 then c\<lparr>mc_MetadataVersion := beU64 data\<rparr> else c)
      else if id = 4 then Inr (c\<lparr>mc_CreatorID := to_str data\<rparr>)
      else if id = 5 then Inr (c\<lparr>mc_Signature := data\<rparr>)
      else Inr c)"

definition MessageContext_zero :: MessageContext where
  "MessageContext_zero =
     \<lparr>mc_ContextID = [], mc_DisplayName = [], mc_MetadataVersion = 0, mc_CreatorID = [], mc_Signature = []\<rparr>"

definition MessageContext_UnmarshalBinID :: "npfield list \<Rightarrow> np_error + MessageContext" where
  "MessageContext_UnmarshalBinID fs = fold_fields MessageContext_field fs MessageContext_zero"

interpretation mctx: bin_codec MessageContext_MarshalBinID MessageContext_UnmarshalBinID "\<lambda>_. True"
  by unfold_locales
    (auto simp: MessageContext_MarshalBinID_def MessageContext_UnmarshalBinID_def MessageContext_field_def
      MessageContext_zero_def intro!: MessageContext.equality)

datatype context_error =
    NilContext | SignatureLength | CreatorUnresolved relay_error | ContextMarshal np_error | SignatureFailed
  | VerifyPanic

definition signContextPayload :: "prims \<Rightarrow> MessageContext \<Rightarrow> np_error + bytes" where
  "signContextPayload P c = MarshalFastID P MessageContext_MarshalBinID (c\<lparr>mc_Signature := []\<rparr>)"

definition SignContext :: "prims \<Rightarrow> bytes \<Rightarrow> MessageContext \<Rightarrow> context_error + MessageContext" where
  "SignContext P creatorPriv c =
     (case signContextPayload P c of
        Inl e \<Rightarrow> Inl (ContextMarshal e)
      | Inr payload \<Rightarrow> Inr (c\<lparr>mc_Signature := p_ed_sign P creatorPriv payload\<rparr>))"

definition VerifyContext :: "prims \<Rightarrow> bytes \<Rightarrow> MessageContext \<Rightarrow> context_error option" where
  "VerifyContext P creatorPub c =
     (if length (mc_Signature c) \<noteq> 64 then Some SignatureLength
      else case signContextPayload P c of
        Inl e \<Rightarrow> Some (ContextMarshal e)
      | Inr payload \<Rightarrow>
          if length creatorPub \<noteq> 32 then Some VerifyPanic
          else if p_ed_verify P creatorPub payload (mc_Signature c) then None else Some SignatureFailed)"

text \<open>\<^verbatim>\<open>VerifyContextSignature\<close> of \<^verbatim>\<open>wire.go\<close>; the argument is a pointer that may be nil.\<close>

definition VerifyContextSignature :: "prims \<Rightarrow> MessageContext option \<Rightarrow> context_error option" where
  "VerifyContextSignature P ctx =
     (case ctx of
        None \<Rightarrow> Some NilContext
      | Some c \<Rightarrow>
          if length (mc_Signature c) \<noteq> 64 then Some SignatureLength
          else case PeerIDToEd25519Pub P (mc_CreatorID c) of
            Inl e \<Rightarrow> Some (CreatorUnresolved e)
          | Inr pub \<Rightarrow>
              (case signContextPayload P c of
                 Inl e \<Rightarrow> Some (ContextMarshal e)
               | Inr payload \<Rightarrow> if p_ed_verify P pub payload (mc_Signature c) then None else Some SignatureFailed))"

text \<open>The three identifier generators, from the 16 random bytes they draw.\<close>

definition GenerateContextID :: "bytes \<Rightarrow> string" where "GenerateContextID b = hex_encode b"
definition GenerateMessageID :: "bytes \<Rightarrow> string" where "GenerateMessageID b = hex_encode b"
definition GenerateDeliveryID :: "bytes \<Rightarrow> string" where "GenerateDeliveryID b = hex_encode b"

subsection \<open>Deliveries and messages\<close>

record MessageDelivery =
  md_DeliveryID :: string
  md_MessageID :: string
  md_Recipient :: string
  md_ChannelID :: string
  md_Ciphertext :: "bytes option"
  md_ContextID :: string
  md_Timestamp :: "64 word"

definition slice_bytes :: "bytes option \<Rightarrow> bytes" where
  "slice_bytes s = (case s of None \<Rightarrow> [] | Some b \<Rightarrow> b)"

definition field_slice :: "bool \<Rightarrow> bytes \<Rightarrow> bytes option" where
  "field_slice nd data = (if nd \<and> data = [] then None else Some data)"

definition MessageDelivery_MarshalBinID :: "MessageDelivery \<Rightarrow> npfield list" where
  "MessageDelivery_MarshalBinID d =
     [(1, to_bytes (md_DeliveryID d)), (2, to_bytes (md_MessageID d)), (3, to_bytes (md_Recipient d)),
      (4, to_bytes (md_ChannelID d)), (5, slice_bytes (md_Ciphertext d)), (6, to_bytes (md_ContextID d)),
      (7, putU64 (md_Timestamp d))]"

definition MessageDelivery_field :: "bool \<Rightarrow> npfield \<Rightarrow> MessageDelivery \<Rightarrow> np_error + MessageDelivery" where
  "MessageDelivery_field nd f d =
     (let (id, data) = f in
      if id = 1 then Inr (d\<lparr>md_DeliveryID := to_str data\<rparr>)
      else if id = 2 then Inr (d\<lparr>md_MessageID := to_str data\<rparr>)
      else if id = 3 then Inr (d\<lparr>md_Recipient := to_str data\<rparr>)
      else if id = 4 then Inr (d\<lparr>md_ChannelID := to_str data\<rparr>)
      else if id = 5 then Inr (d\<lparr>md_Ciphertext := field_slice nd data\<rparr>)
      else if id = 6 then Inr (d\<lparr>md_ContextID := to_str data\<rparr>)
      else if id = 7 then Inr (if length data = 8 then d\<lparr>md_Timestamp := beU64 data\<rparr> else d)
      else Inr d)"

definition MessageDelivery_UnmarshalBinID :: "bool \<Rightarrow> npfield list \<Rightarrow> np_error + MessageDelivery" where
  "MessageDelivery_UnmarshalBinID nd fs =
     fold_fields (MessageDelivery_field nd) fs
       \<lparr>md_DeliveryID = [], md_MessageID = [], md_Recipient = [], md_ChannelID = [], md_Ciphertext = None,
        md_ContextID = [], md_Timestamp = 0\<rparr>"

text \<open>A delivery that carries a ciphertext survives the round trip, whatever \<open>nd\<close> is.\<close>

definition has_ciphertext :: "MessageDelivery \<Rightarrow> bool" where
  "has_ciphertext d \<longleftrightarrow> slice_bytes (md_Ciphertext d) \<noteq> []"

interpretation mdel: bin_codec MessageDelivery_MarshalBinID "MessageDelivery_UnmarshalBinID nd" has_ciphertext for nd
  by unfold_locales
    (auto simp: MessageDelivery_MarshalBinID_def MessageDelivery_UnmarshalBinID_def MessageDelivery_field_def
      slice_bytes_def field_slice_def has_ciphertext_def intro!: MessageDelivery.equality split: option.splits)

record MultiMessage =
  mm_MessageID :: string
  mm_Sender :: string
  mm_Context :: "MessageContext option"
  mm_Deliveries :: "MessageDelivery list"
  mm_Timestamp :: "64 word"

definition MultiMessage_MarshalBinID :: "prims \<Rightarrow> MultiMessage \<Rightarrow> np_error + npfield list" where
  "MultiMessage_MarshalBinID P m =
     (let before = [(1, to_bytes (mm_MessageID m)), (2, to_bytes (mm_Sender m))];
          after = [(5, putU64 (mm_Timestamp m))]
      in case mm_Context m of
           None \<Rightarrow> Inr (before @ after)
         | Some c \<Rightarrow>
             (case MarshalFastID P MessageContext_MarshalBinID c of
                Inl e \<Rightarrow> Inl e
              | Inr ctxBytes \<Rightarrow> Inr (before @ [(3, ctxBytes)] @ after)))"

definition MultiMessage_field :: "prims \<Rightarrow> bool \<Rightarrow> npfield \<Rightarrow> MultiMessage \<Rightarrow> np_error + MultiMessage" where
  "MultiMessage_field P nd f m =
     (let (id, data) = f in
      if id = 1 then Inr (m\<lparr>mm_MessageID := to_str data\<rparr>)
      else if id = 2 then Inr (m\<lparr>mm_Sender := to_str data\<rparr>)
      else if id = 3 then
        (if field_slice nd data = None then Inr m
         else case UnmarshalFastID P MessageContext_UnmarshalBinID data of
                Inl e \<Rightarrow> Inr m
              | Inr c \<Rightarrow> Inr (m\<lparr>mm_Context := Some c\<rparr>))
      else if id = 5 then Inr (if length data = 8 then m\<lparr>mm_Timestamp := beU64 data\<rparr> else m)
      else Inr m)"

definition MultiMessage_UnmarshalBinID :: "prims \<Rightarrow> bool \<Rightarrow> npfield list \<Rightarrow> np_error + MultiMessage" where
  "MultiMessage_UnmarshalBinID P nd fs =
     fold_fields (MultiMessage_field P nd) fs
       \<lparr>mm_MessageID = [], mm_Sender = [], mm_Context = None, mm_Deliveries = [], mm_Timestamp = 0\<rparr>"

text \<open>The wire form of a logical message keeps everything but its deliveries.\<close>

lemma MultiMessage_keeps:
  assumes "np_law P"
  shows "\<exists>fs. MultiMessage_MarshalBinID P m = Inr fs \<and>
     MultiMessage_UnmarshalBinID P nd fs = Inr (m\<lparr>mm_Deliveries := []\<rparr>)"
proof (cases "mm_Context m")
  case None
  then show ?thesis
    by (simp add: MultiMessage_MarshalBinID_def MultiMessage_UnmarshalBinID_def MultiMessage_field_def
        MultiMessage.equality)
next
  case (Some c)
  obtain b where b: "MarshalFastID P MessageContext_MarshalBinID c = Inr b"
    "UnmarshalFastID P MessageContext_UnmarshalBinID b = Inr c" "b \<noteq> []"
    by (rule mctx.fast_roundtrip [OF assms, of c]) simp
  show ?thesis
    by (simp add: Some b MultiMessage_MarshalBinID_def MultiMessage_UnmarshalBinID_def MultiMessage_field_def
        field_slice_def MultiMessage.equality)
qed

subsection \<open>Outcome of a fan-out\<close>

datatype DeliveryStatus = DeliverySent | DeliveryPending | DeliveryFailed

fun DeliveryStatus_String :: "DeliveryStatus \<Rightarrow> string" where
  "DeliveryStatus_String DeliverySent = ''sent''"
| "DeliveryStatus_String DeliveryPending = ''pending''"
| "DeliveryStatus_String DeliveryFailed = ''failed''"

record 'e DeliveryResult =
  dr_DeliveryID :: string
  dr_Recipient :: string
  dr_Status :: DeliveryStatus
  dr_Error :: "'e option"
  dr_Ciphertext :: "bytes option"

record 'e FanoutResult =
  fr_MessageID :: string
  fr_Sender :: string
  fr_Context :: MessageContext
  fr_Deliveries :: "'e DeliveryResult list"
  fr_Timestamp :: "64 word"

definition count_status :: "DeliveryStatus \<Rightarrow> 'e FanoutResult \<Rightarrow> nat" where
  "count_status st r = length (filter (\<lambda>d. dr_Status d = st) (fr_Deliveries r))"

definition SuccessCount :: "'e FanoutResult \<Rightarrow> nat" where "SuccessCount r = count_status DeliverySent r"
definition FailedCount :: "'e FanoutResult \<Rightarrow> nat" where "FailedCount r = count_status DeliveryFailed r"
definition PendingCount :: "'e FanoutResult \<Rightarrow> nat" where "PendingCount r = count_status DeliveryPending r"

definition AllSent :: "'e FanoutResult \<Rightarrow> bool" where
  "AllSent r \<longleftrightarrow> FailedCount r = 0 \<and> PendingCount r = 0"

lemma counts_cover: "SuccessCount r + FailedCount r + PendingCount r = length (fr_Deliveries r)"
proof -
  have "length (filter (\<lambda>d. dr_Status d = DeliverySent) ds) + length (filter (\<lambda>d. dr_Status d = DeliveryFailed) ds) +
      length (filter (\<lambda>d. dr_Status d = DeliveryPending) ds) = length ds" for ds :: "'a DeliveryResult list"
  proof (induction ds)
    case (Cons d ds)
    then show ?case by (cases "dr_Status d") simp_all
  qed simp
  then show ?thesis by (simp add: SuccessCount_def FailedCount_def PendingCount_def count_status_def)
qed

lemma AllSent_iff: "AllSent r \<longleftrightarrow> SuccessCount r = length (fr_Deliveries r)"
  using counts_cover [of r] by (auto simp: AllSent_def)

record FanoutConfig =
  SkipOffline :: bool
  MaxRetries :: int
  RequireAcknowledgement :: bool

definition DefaultFanoutConfig :: FanoutConfig where
  "DefaultFanoutConfig = \<lparr>SkipOffline = False, MaxRetries = 3, RequireAcknowledgement = False\<rparr>"

end
