(* ===== verification/MultiStores.thy ===== *)
theory MultiStores
  imports MultiTypes RecordFiles
begin

text \<open>
  Group messages, part three (\<^verbatim>\<open>src/internal/multimsg/store.go\<close>): the in-memory and the file-backed stores
  behind the interfaces \<^verbatim>\<open>ContextStore\<close> and \<^verbatim>\<open>DeliveryStore\<close> of \<^verbatim>\<open>types.go\<close>.

  An interface value is a record of its operations.  A Go map is an association list, whose order is the order
  in which the map is iterated.  A store that writes to disk keeps its view of the file system; what becomes of
  the writes of one operation is an argument, which the in-memory stores ignore.  Stores hold values here: the
  pointers that the in-memory stores keep of their arguments are not modelled as shared.
\<close>

subsection \<open>Interfaces\<close>

datatype multi_error =
    ErrContextNotFound | ErrPolicyNotFound | ErrDeliveryNotFound | ErrDeliveryPending | ErrDuplicateDelivery
  | StaleContext "64 word" "64 word" | DuplicateDeliveryID string
  | StoreFailed store_error | RecordFailed np_error | StoreUnreadable store_error

type_synonym two_writes = "save_io \<times> save_io"

record 'c ContextStore =
  cs_SaveContext :: "two_writes \<Rightarrow> MessageContext \<Rightarrow> 'c \<Rightarrow> multi_error option \<times> 'c"
  cs_LoadContext :: "string \<Rightarrow> 'c \<Rightarrow> multi_error + MessageContext"
  cs_ListContexts :: "'c \<Rightarrow> MessageContext list"
  cs_DeleteContext :: "two_writes \<Rightarrow> string \<Rightarrow> 'c \<Rightarrow> multi_error option \<times> 'c"
  cs_SavePolicy :: "two_writes \<Rightarrow> LocalRecipientPolicy \<Rightarrow> 'c \<Rightarrow> multi_error option \<times> 'c"
  cs_LoadPolicy :: "string \<Rightarrow> string \<Rightarrow> 'c \<Rightarrow> multi_error + LocalRecipientPolicy"
  cs_ListPolicies :: "string \<Rightarrow> 'c \<Rightarrow> LocalRecipientPolicy list"
  cs_DeletePolicy :: "two_writes \<Rightarrow> string \<Rightarrow> string \<Rightarrow> 'c \<Rightarrow> multi_error option \<times> 'c"

record 'd DeliveryStore =
  ds_SaveDelivery :: "save_io \<Rightarrow> MessageDelivery \<Rightarrow> 'd \<Rightarrow> multi_error option \<times> 'd"
  ds_LoadDelivery :: "string \<Rightarrow> 'd \<Rightarrow> multi_error + MessageDelivery"
  ds_ListDeliveriesByMessage :: "string \<Rightarrow> 'd \<Rightarrow> MessageDelivery list"
  ds_ListDeliveriesByRecipient :: "string \<Rightarrow> 'd \<Rightarrow> MessageDelivery list"
  ds_ListUndeliveredDeliveries :: "'d \<Rightarrow> MessageDelivery list"
  ds_MarkDelivered :: "save_io \<Rightarrow> string \<Rightarrow> 'd \<Rightarrow> multi_error option \<times> 'd"

subsection \<open>Tables shared by both context stores\<close>

type_synonym policy_table = "(string \<times> (string \<times> LocalRecipientPolicy) list) list"

record MemoryContextStore =
  contexts :: "(string \<times> MessageContext) list"
  policies :: policy_table

definition NewMemoryContextStore :: MemoryContextStore where
  "NewMemoryContextStore = \<lparr>contexts = [], policies = []\<rparr>"

definition policy_of :: "policy_table \<Rightarrow> string \<times> string \<Rightarrow> LocalRecipientPolicy option" where
  "policy_of t k = (case map_of t (fst k) of None \<Rightarrow> None | Some m \<Rightarrow> map_of m (snd k))"

definition insertPolicyLocked :: "LocalRecipientPolicy \<Rightarrow> policy_table \<Rightarrow> policy_table" where
  "insertPolicyLocked p t =
     AList.update (lp_ContextID p)
       (AList.update (lp_Recipient p) p (case map_of t (lp_ContextID p) of None \<Rightarrow> [] | Some m \<Rightarrow> m)) t"

definition delete_policy :: "string \<Rightarrow> string \<Rightarrow> policy_table \<Rightarrow> policy_table" where
  "delete_policy contextID recipient t =
     (case map_of t contextID of None \<Rightarrow> t | Some m \<Rightarrow> AList.update contextID (AList.delete recipient m) t)"

definition sortContexts :: "MessageContext list \<Rightarrow> MessageContext list" where
  "sortContexts cs = sort_key mc_ContextID cs"

definition sortPolicies :: "LocalRecipientPolicy list \<Rightarrow> LocalRecipientPolicy list" where
  "sortPolicies ps = sort_key lp_Recipient ps"

lemma policy_of_insert [simp]:
  "policy_of (insertPolicyLocked p t) k = (if k = (lp_ContextID p, lp_Recipient p) then Some p else policy_of t k)"
  by (cases k) (auto simp: policy_of_def insertPolicyLocked_def split: option.splits)

lemma policy_of_delete [simp]:
  "policy_of (delete_policy c r t) k = (if k = (c, r) then None else policy_of t k)"
  by (cases k) (auto simp: policy_of_def delete_policy_def split: option.splits)

text \<open>Keys are distinct and every entry is filed under its own identifiers.\<close>

definition contexts_ok :: "(string \<times> MessageContext) list \<Rightarrow> bool" where
  "contexts_ok t \<longleftrightarrow> table_ok t \<and> (\<forall>k c. map_of t k = Some c \<longrightarrow> mc_ContextID c = k)"

definition policies_ok :: "policy_table \<Rightarrow> bool" where
  "policies_ok t \<longleftrightarrow> table_ok t \<and> (\<forall>k m. map_of t k = Some m \<longrightarrow> table_ok m) \<and>
     (\<forall>k p. policy_of t k = Some p \<longrightarrow> (lp_ContextID p, lp_Recipient p) = k)"

lemma contexts_ok_update [simp]: "contexts_ok t \<Longrightarrow> contexts_ok (AList.update (mc_ContextID c) c t)"
  by (auto simp: contexts_ok_def)

lemma contexts_ok_delete [simp]: "contexts_ok t \<Longrightarrow> contexts_ok (AList.delete k t)"
  by (auto simp: contexts_ok_def)

lemma contexts_ok_Nil [simp]: "contexts_ok []"
  by (simp add: contexts_ok_def)

lemma policies_ok_Nil [simp]: "policies_ok []"
  by (simp add: policies_ok_def policy_of_def)

lemma policies_ok_insert [simp]:
  assumes "policies_ok t"
  shows "policies_ok (insertPolicyLocked p t)"
proof -
  have "table_ok m" if "map_of (insertPolicyLocked p t) k = Some m" for k m
    using that assms by (auto simp: insertPolicyLocked_def policies_ok_def split: if_splits option.splits)
  moreover have "table_ok (insertPolicyLocked p t)" using assms by (simp add: insertPolicyLocked_def policies_ok_def)
  ultimately show ?thesis using assms by (auto simp: policies_ok_def)
qed

lemma policies_ok_delete [simp]:
  assumes "policies_ok t"
  shows "policies_ok (delete_policy c r t)"
proof -
  have "table_ok m" if "map_of (delete_policy c r t) k = Some m" for k m
    using that assms by (auto simp: delete_policy_def policies_ok_def split: if_splits option.splits)
  moreover have "table_ok (delete_policy c r t)" using assms by (simp add: delete_policy_def policies_ok_def split: option.splits)
  ultimately show ?thesis using assms by (auto simp: policies_ok_def)
qed

lemma policies_ok_drop [simp]:
  assumes "policies_ok t"
  shows "policies_ok (AList.delete c t)"
  using assms by (fastforce simp: policies_ok_def policy_of_def split: option.splits if_splits)

subsection \<open>The in-memory context store\<close>

definition Mem_SaveContext ::
  "two_writes \<Rightarrow> MessageContext \<Rightarrow> MemoryContextStore \<Rightarrow> multi_error option \<times> MemoryContextStore" where
  "Mem_SaveContext io c s = (None, s\<lparr>contexts := AList.update (mc_ContextID c) c (contexts s)\<rparr>)"

definition Mem_LoadContext :: "string \<Rightarrow> MemoryContextStore \<Rightarrow> multi_error + MessageContext" where
  "Mem_LoadContext cid s = (case map_of (contexts s) cid of None \<Rightarrow> Inl ErrContextNotFound | Some c \<Rightarrow> Inr c)"

definition Mem_ListContexts :: "MemoryContextStore \<Rightarrow> MessageContext list" where
  "Mem_ListContexts s = sortContexts (map snd (contexts s))"

definition Mem_DeleteContext ::
  "two_writes \<Rightarrow> string \<Rightarrow> MemoryContextStore \<Rightarrow> multi_error option \<times> MemoryContextStore" where
  "Mem_DeleteContext io cid s =
     (None, s\<lparr>contexts := AList.delete cid (contexts s), policies := AList.delete cid (policies s)\<rparr>)"

definition Mem_SavePolicy ::
  "two_writes \<Rightarrow> LocalRecipientPolicy \<Rightarrow> MemoryContextStore \<Rightarrow> multi_error option \<times> MemoryContextStore" where
  "Mem_SavePolicy io p s = (None, s\<lparr>policies := insertPolicyLocked p (policies s)\<rparr>)"

definition Mem_LoadPolicy :: "string \<Rightarrow> string \<Rightarrow> MemoryContextStore \<Rightarrow> multi_error + LocalRecipientPolicy" where
  "Mem_LoadPolicy contextID recipient s =
     (case map_of (policies s) contextID of
        None \<Rightarrow> Inl ErrPolicyNotFound
      | Some ctxPolicies \<Rightarrow>
          (case map_of ctxPolicies recipient of None \<Rightarrow> Inl ErrPolicyNotFound | Some p \<Rightarrow> Inr p))"

definition Mem_ListPolicies :: "string \<Rightarrow> MemoryContextStore \<Rightarrow> LocalRecipientPolicy list" where
  "Mem_ListPolicies contextID s =
     (case map_of (policies s) contextID of
        None \<Rightarrow> []
      | Some ctxPolicies \<Rightarrow> sortPolicies (map snd ctxPolicies))"

definition Mem_DeletePolicy ::
  "two_writes \<Rightarrow> string \<Rightarrow> string \<Rightarrow> MemoryContextStore \<Rightarrow> multi_error option \<times> MemoryContextStore" where
  "Mem_DeletePolicy io contextID recipient s = (None, s\<lparr>policies := delete_policy contextID recipient (policies s)\<rparr>)"

definition MemoryContexts :: "MemoryContextStore ContextStore" where
  "MemoryContexts =
     \<lparr>cs_SaveContext = Mem_SaveContext, cs_LoadContext = Mem_LoadContext, cs_ListContexts = Mem_ListContexts,
      cs_DeleteContext = Mem_DeleteContext, cs_SavePolicy = Mem_SavePolicy, cs_LoadPolicy = Mem_LoadPolicy,
      cs_ListPolicies = Mem_ListPolicies, cs_DeletePolicy = Mem_DeletePolicy\<rparr>"

subsection \<open>The file-backed context store\<close>

record policyBin =
  pb_ContextID :: string
  pb_Recipient :: string
  pb_Policy :: byte
  pb_UpdatedAt :: "64 word"

definition policyBin_MarshalBinID :: "policyBin \<Rightarrow> npfield list" where
  "policyBin_MarshalBinID p =
     [(1, to_bytes (pb_ContextID p)), (2, to_bytes (pb_Recipient p)), (3, [pb_Policy p]), (4, putU64 (pb_UpdatedAt p))]"

definition policyBin_field :: "npfield \<Rightarrow> policyBin \<Rightarrow> np_error + policyBin" where
  "policyBin_field f p =
     (let (id, data) = f in
      if id = 1 then Inr (p\<lparr>pb_ContextID := to_str data\<rparr>)
      else if id = 2 then Inr (p\<lparr>pb_Recipient := to_str data\<rparr>)
      else if id = 3 then Inr (if length data = 1 then p\<lparr>pb_Policy := hd data\<rparr> else p)
      else if id = 4 then Inr (if length data = 8 then p\<lparr>pb_UpdatedAt := beU64 data\<rparr> else p)
      else Inr p)"

definition policyBin_UnmarshalBinID :: "npfield list \<Rightarrow> np_error + policyBin" where
  "policyBin_UnmarshalBinID fs =
     fold_fields policyBin_field fs \<lparr>pb_ContextID = [], pb_Recipient = [], pb_Policy = 0, pb_UpdatedAt = 0\<rparr>"

interpretation pbin: bin_codec policyBin_MarshalBinID policyBin_UnmarshalBinID "\<lambda>_. True"
  by unfold_locales
    (auto simp: policyBin_MarshalBinID_def policyBin_UnmarshalBinID_def policyBin_field_def intro!: policyBin.equality)

definition policyToRecord :: "LocalRecipientPolicy \<Rightarrow> policyBin" where
  "policyToRecord p =
     \<lparr>pb_ContextID = lp_ContextID p, pb_Recipient = lp_Recipient p, pb_Policy = word_of_int (lp_Policy p),
      pb_UpdatedAt = lp_UpdatedAt p\<rparr>"

definition policyFromRecord :: "policyBin \<Rightarrow> LocalRecipientPolicy" where
  "policyFromRecord pb =
     \<lparr>lp_ContextID = pb_ContextID pb, lp_Recipient = pb_Recipient pb, lp_Policy = uint (pb_Policy pb),
      lp_UpdatedAt = pb_UpdatedAt pb\<rparr>"

lemma policyFromRecord_To:
  assumes "0 \<le> lp_Policy p" "lp_Policy p < 256"
  shows "policyFromRecord (policyToRecord p) = p"
  using assms by (simp add: policyFromRecord_def policyToRecord_def uint_word_of_int)

definition npPath :: "string \<Rightarrow> string" where
  "npPath path =
     (if length ''.json'' \<le> length path \<and> drop (length path - 5) path = ''.json''
      then take (length path - 5) path else path) @ ''.np''"

lemma npPath_json: "npPath (b @ ''.json'') = b @ ''.np''"
  by (simp add: npPath_def)

record FileContextStore = MemoryContextStore +
  contextsFile :: string
  policiesFile :: string
  fc_disk :: filesystem

definition policy_records :: "policy_table \<Rightarrow> policyBin list" where
  "policy_records t = map policyToRecord (concat (map (\<lambda>(k, m). map snd m) t))"

definition FileContext_saveLocked ::
  "prims \<Rightarrow> packets \<Rightarrow> two_writes \<Rightarrow> FileContextStore \<Rightarrow> multi_error option \<times> FileContextStore" where
  "FileContext_saveLocked P K io s =
     (case encode_all P MessageContext_MarshalBinID (map snd (contexts s)) of
        Inl e \<Rightarrow> (Some (RecordFailed e), s)
      | Inr ctxs \<Rightarrow>
          (case Binstore_Save K (fst io) (contextsFile s) MessageContextSchemaID ctxs (fc_disk s) of
             (Some e, d1) \<Rightarrow> (Some (StoreFailed e), s\<lparr>fc_disk := d1\<rparr>)
           | (None, d1) \<Rightarrow>
               (case encode_all P policyBin_MarshalBinID (policy_records (policies s)) of
                  Inl e \<Rightarrow> (Some (RecordFailed e), s\<lparr>fc_disk := d1\<rparr>)
                | Inr pols \<Rightarrow>
                    (case Binstore_Save K (snd io) (policiesFile s) PolicySchemaID pols d1 of
                       (e, d2) \<Rightarrow> (map_option StoreFailed e, s\<lparr>fc_disk := d2\<rparr>)))))"

definition load_contexts :: "MessageContext list \<Rightarrow> (string \<times> MessageContext) list \<Rightarrow> (string \<times> MessageContext) list" where
  "load_contexts cs t =
     fold (\<lambda>c t. AList.update (mc_ContextID c) c t) (filter (\<lambda>c. mc_MetadataVersion c \<noteq> 0) cs) t"

text \<open>\<open>JC\<close> and \<open>JP\<close> read the legacy JSON files; \<open>None\<close> if the text does not parse.\<close>

definition legacy_values :: "(bytes \<Rightarrow> 'a list option) \<Rightarrow> bytes option \<Rightarrow> 'a list" where
  "legacy_values J file =
     (case file of None \<Rightarrow> [] | Some data \<Rightarrow> (case J data of None \<Rightarrow> [] | Some xs \<Rightarrow> xs))"

text \<open>\<^verbatim>\<open>binstore.Load\<close>, where a missing file is not an error.\<close>

definition load_or_missing :: "packets \<Rightarrow> string \<Rightarrow> byte \<Rightarrow> filesystem \<Rightarrow> multi_error + bytes list option" where
  "load_or_missing K path schema fs =
     (case Binstore_Load K path schema fs of
        Inr records \<Rightarrow> Inr (Some records)
      | Inl e \<Rightarrow> if e = StoreMissing then Inr None else Inl (StoreUnreadable e))"

definition FileContext_load ::
  "prims \<Rightarrow> packets \<Rightarrow> (bytes \<Rightarrow> MessageContext list option) \<Rightarrow> (bytes \<Rightarrow> LocalRecipientPolicy list option) \<Rightarrow>
   two_writes \<Rightarrow> string \<Rightarrow> string \<Rightarrow> FileContextStore \<Rightarrow> multi_error + FileContextStore" where
  "FileContext_load P K JC JP io legacyContexts legacyPolicies s =
     (case load_or_missing K (contextsFile s) MessageContextSchemaID (fc_disk s) of
        Inl e \<Rightarrow> Inl e
      | Inr ctxLoaded \<Rightarrow>
     (case load_or_missing K (policiesFile s) PolicySchemaID (fc_disk s) of
        Inl e \<Rightarrow> Inl e
      | Inr polLoaded \<Rightarrow>
          let cs = (case ctxLoaded of
                      Some records \<Rightarrow> decode_all P MessageContext_UnmarshalBinID records
                    | None \<Rightarrow> legacy_values JC (fc_disk s legacyContexts));
              ps = (case polLoaded of
                      Some records \<Rightarrow> map policyFromRecord (decode_all P policyBin_UnmarshalBinID records)
                    | None \<Rightarrow> legacy_values JP (fc_disk s legacyPolicies));
              s' = s\<lparr>contexts := load_contexts cs (contexts s), policies := fold insertPolicyLocked ps (policies s)\<rparr>
          in Inr (if ctxLoaded \<noteq> None \<and> polLoaded \<noteq> None then s' else snd (FileContext_saveLocked P K io s'))))"

definition NewFileContextStore ::
  "prims \<Rightarrow> packets \<Rightarrow> (bytes \<Rightarrow> MessageContext list option) \<Rightarrow> (bytes \<Rightarrow> LocalRecipientPolicy list option) \<Rightarrow>
   two_writes \<Rightarrow> string \<Rightarrow> string \<Rightarrow> filesystem \<Rightarrow> multi_error + FileContextStore" where
  "NewFileContextStore P K JC JP io ctxFile polFile fs =
     FileContext_load P K JC JP io ctxFile polFile
       \<lparr>contexts = [], policies = [], contextsFile = npPath ctxFile, policiesFile = npPath polFile, fc_disk = fs\<rparr>"

definition File_SaveContext ::
  "prims \<Rightarrow> packets \<Rightarrow> two_writes \<Rightarrow> MessageContext \<Rightarrow> FileContextStore \<Rightarrow> multi_error option \<times> FileContextStore" where
  "File_SaveContext P K io c s =
     (let save = FileContext_saveLocked P K io (s\<lparr>contexts := AList.update (mc_ContextID c) c (contexts s)\<rparr>)
      in case map_of (contexts s) (mc_ContextID c) of
           Some existing \<Rightarrow>
             if mc_MetadataVersion c \<le> mc_MetadataVersion existing
             then (Some (StaleContext (mc_MetadataVersion c) (mc_MetadataVersion existing)), s)
             else save
         | None \<Rightarrow> save)"

definition File_LoadContext :: "string \<Rightarrow> FileContextStore \<Rightarrow> multi_error + MessageContext" where
  "File_LoadContext cid s = (case map_of (contexts s) cid of None \<Rightarrow> Inl ErrContextNotFound | Some c \<Rightarrow> Inr c)"

definition File_ListContexts :: "FileContextStore \<Rightarrow> MessageContext list" where
  "File_ListContexts s = map snd (contexts s)"

definition File_DeleteContext ::
  "prims \<Rightarrow> packets \<Rightarrow> two_writes \<Rightarrow> string \<Rightarrow> FileContextStore \<Rightarrow> multi_error option \<times> FileContextStore" where
  "File_DeleteContext P K io cid s =
     FileContext_saveLocked P K io (s\<lparr>contexts := AList.delete cid (contexts s), policies := AList.delete cid (policies s)\<rparr>)"

definition File_SavePolicy ::
  "prims \<Rightarrow> packets \<Rightarrow> two_writes \<Rightarrow> LocalRecipientPolicy \<Rightarrow> FileContextStore \<Rightarrow> multi_error option \<times> FileContextStore" where
  "File_SavePolicy P K io p s = FileContext_saveLocked P K io (s\<lparr>policies := insertPolicyLocked p (policies s)\<rparr>)"

definition File_LoadPolicy :: "string \<Rightarrow> string \<Rightarrow> FileContextStore \<Rightarrow> multi_error + LocalRecipientPolicy" where
  "File_LoadPolicy contextID recipient s =
     (case map_of (policies s) contextID of
        None \<Rightarrow> Inl ErrPolicyNotFound
      | Some ctxPolicies \<Rightarrow>
          (case map_of ctxPolicies recipient of None \<Rightarrow> Inl ErrPolicyNotFound | Some p \<Rightarrow> Inr p))"

definition File_ListPolicies :: "string \<Rightarrow> FileContextStore \<Rightarrow> LocalRecipientPolicy list" where
  "File_ListPolicies contextID s =
     (case map_of (policies s) contextID of
        None \<Rightarrow> []
      | Some ctxPolicies \<Rightarrow> sortPolicies (map snd ctxPolicies))"

definition File_DeletePolicy ::
  "prims \<Rightarrow> packets \<Rightarrow> two_writes \<Rightarrow> string \<Rightarrow> string \<Rightarrow> FileContextStore \<Rightarrow> multi_error option \<times> FileContextStore" where
  "File_DeletePolicy P K io contextID recipient s =
     FileContext_saveLocked P K io (s\<lparr>policies := delete_policy contextID recipient (policies s)\<rparr>)"

definition FileContexts :: "prims \<Rightarrow> packets \<Rightarrow> FileContextStore ContextStore" where
  "FileContexts P K =
     \<lparr>cs_SaveContext = File_SaveContext P K, cs_LoadContext = File_LoadContext, cs_ListContexts = File_ListContexts,
      cs_DeleteContext = File_DeleteContext P K, cs_SavePolicy = File_SavePolicy P K, cs_LoadPolicy = File_LoadPolicy,
      cs_ListPolicies = File_ListPolicies, cs_DeletePolicy = File_DeletePolicy P K\<rparr>"

subsection \<open>Delivery stores\<close>

record MemoryDeliveryStore =
  deliveries :: "(string \<times> MessageDelivery) list"
  byMessage :: "string \<Rightarrow> string list"
  byRecipient :: "string \<Rightarrow> string list"

definition NewMemoryDeliveryStore :: MemoryDeliveryStore where
  "NewMemoryDeliveryStore = \<lparr>deliveries = [], byMessage = (\<lambda>_. []), byRecipient = (\<lambda>_. [])\<rparr>"

text \<open>The three map updates with which a delivery enters the tables.\<close>

definition index_delivery :: "MessageDelivery \<Rightarrow> 'a MemoryDeliveryStore_scheme \<Rightarrow> 'a MemoryDeliveryStore_scheme" where
  "index_delivery d s =
     s\<lparr>deliveries := AList.update (md_DeliveryID d) d (deliveries s),
       byMessage := (byMessage s)(md_MessageID d := byMessage s (md_MessageID d) @ [md_DeliveryID d]),
       byRecipient := (byRecipient s)(md_Recipient d := byRecipient s (md_Recipient d) @ [md_DeliveryID d])\<rparr>"

definition listed :: "(string \<times> MessageDelivery) list \<Rightarrow> string list \<Rightarrow> MessageDelivery list" where
  "listed t ids = List.map_filter (map_of t) ids"

definition undelivered :: "(string \<times> MessageDelivery) list \<Rightarrow> MessageDelivery list" where
  "undelivered t = filter (\<lambda>d. md_Ciphertext d = None) (map snd t)"

definition Mem_SaveDelivery ::
  "save_io \<Rightarrow> MessageDelivery \<Rightarrow> MemoryDeliveryStore \<Rightarrow> multi_error option \<times> MemoryDeliveryStore" where
  "Mem_SaveDelivery io d s = (None, index_delivery d s)"

definition Mem_LoadDelivery :: "string \<Rightarrow> MemoryDeliveryStore \<Rightarrow> multi_error + MessageDelivery" where
  "Mem_LoadDelivery did s = (case map_of (deliveries s) did of None \<Rightarrow> Inl ErrDeliveryNotFound | Some d \<Rightarrow> Inr d)"

definition Mem_ListDeliveriesByMessage :: "string \<Rightarrow> MemoryDeliveryStore \<Rightarrow> MessageDelivery list" where
  "Mem_ListDeliveriesByMessage msgID s = listed (deliveries s) (byMessage s msgID)"

definition Mem_ListDeliveriesByRecipient :: "string \<Rightarrow> MemoryDeliveryStore \<Rightarrow> MessageDelivery list" where
  "Mem_ListDeliveriesByRecipient recipient s = listed (deliveries s) (byRecipient s recipient)"

definition Mem_ListUndeliveredDeliveries :: "MemoryDeliveryStore \<Rightarrow> MessageDelivery list" where
  "Mem_ListUndeliveredDeliveries s = undelivered (deliveries s)"

definition Mem_MarkDelivered ::
  "save_io \<Rightarrow> string \<Rightarrow> MemoryDeliveryStore \<Rightarrow> multi_error option \<times> MemoryDeliveryStore" where
  "Mem_MarkDelivered io did s =
     (case map_of (deliveries s) did of
        None \<Rightarrow> (Some ErrDeliveryNotFound, s)
      | Some d \<Rightarrow> if md_Ciphertext d = None then (Some ErrDeliveryPending, s) else (None, s))"

definition MemoryDeliveries :: "MemoryDeliveryStore DeliveryStore" where
  "MemoryDeliveries =
     \<lparr>ds_SaveDelivery = Mem_SaveDelivery, ds_LoadDelivery = Mem_LoadDelivery,
      ds_ListDeliveriesByMessage = Mem_ListDeliveriesByMessage,
      ds_ListDeliveriesByRecipient = Mem_ListDeliveriesByRecipient,
      ds_ListUndeliveredDeliveries = Mem_ListUndeliveredDeliveries, ds_MarkDelivered = Mem_MarkDelivered\<rparr>"

record FileDeliveryStore = MemoryDeliveryStore +
  deliveriesFile :: string
  fd_disk :: filesystem

definition indexLocked :: "MessageDelivery \<Rightarrow> FileDeliveryStore \<Rightarrow> FileDeliveryStore" where
  "indexLocked d s = (case map_of (deliveries s) (md_DeliveryID d) of Some _ \<Rightarrow> s | None \<Rightarrow> index_delivery d s)"

definition FileDelivery_saveLocked ::
  "prims \<Rightarrow> packets \<Rightarrow> save_io \<Rightarrow> FileDeliveryStore \<Rightarrow> multi_error option \<times> FileDeliveryStore" where
  "FileDelivery_saveLocked P K io s =
     (case encode_all P MessageDelivery_MarshalBinID (map snd (deliveries s)) of
        Inl e \<Rightarrow> (Some (RecordFailed e), s)
      | Inr records \<Rightarrow>
          (case Binstore_Save K io (deliveriesFile s) MessageDeliverySchemaID records (fd_disk s) of
             (e, disk) \<Rightarrow> (map_option StoreFailed e, s\<lparr>fd_disk := disk\<rparr>)))"

definition NewFileDeliveryStore ::
  "prims \<Rightarrow> packets \<Rightarrow> bool \<Rightarrow> (bytes \<Rightarrow> MessageDelivery list option) \<Rightarrow> save_io \<Rightarrow> string \<Rightarrow> filesystem \<Rightarrow>
   multi_error + FileDeliveryStore" where
  "NewFileDeliveryStore P K nd J io path fs =
     (let s = \<lparr>deliveries = [], byMessage = (\<lambda>_. []), byRecipient = (\<lambda>_. []), deliveriesFile = npPath path, fd_disk = fs\<rparr>
      in case load_or_missing K (npPath path) MessageDeliverySchemaID fs of
           Inl e \<Rightarrow> Inl e
         | Inr (Some records) \<Rightarrow> Inr (fold indexLocked (decode_all P (MessageDelivery_UnmarshalBinID nd) records) s)
         | Inr None \<Rightarrow>
             (case fs path of
                None \<Rightarrow> Inr s
              | Some data \<Rightarrow>
                  Inr (snd (FileDelivery_saveLocked P K io (fold indexLocked (legacy_values J (Some data)) s)))))"

definition File_SaveDelivery ::
  "prims \<Rightarrow> packets \<Rightarrow> save_io \<Rightarrow> MessageDelivery \<Rightarrow> FileDeliveryStore \<Rightarrow> multi_error option \<times> FileDeliveryStore" where
  "File_SaveDelivery P K io d s =
     (case map_of (deliveries s) (md_DeliveryID d) of
        Some _ \<Rightarrow> (Some (DuplicateDeliveryID (md_DeliveryID d)), s)
      | None \<Rightarrow> FileDelivery_saveLocked P K io (index_delivery d s))"

definition File_LoadDelivery :: "string \<Rightarrow> FileDeliveryStore \<Rightarrow> multi_error + MessageDelivery" where
  "File_LoadDelivery did s = (case map_of (deliveries s) did of None \<Rightarrow> Inl ErrDeliveryNotFound | Some d \<Rightarrow> Inr d)"

definition File_ListDeliveriesByMessage :: "string \<Rightarrow> FileDeliveryStore \<Rightarrow> MessageDelivery list" where
  "File_ListDeliveriesByMessage msgID s = listed (deliveries s) (byMessage s msgID)"

definition File_ListDeliveriesByRecipient :: "string \<Rightarrow> FileDeliveryStore \<Rightarrow> MessageDelivery list" where
  "File_ListDeliveriesByRecipient recipient s = listed (deliveries s) (byRecipient s recipient)"

definition File_ListUndeliveredDeliveries :: "FileDeliveryStore \<Rightarrow> MessageDelivery list" where
  "File_ListUndeliveredDeliveries s = undelivered (deliveries s)"

definition File_MarkDelivered ::
  "prims \<Rightarrow> packets \<Rightarrow> save_io \<Rightarrow> string \<Rightarrow> FileDeliveryStore \<Rightarrow> multi_error option \<times> FileDeliveryStore" where
  "File_MarkDelivered P K io did s =
     (case map_of (deliveries s) did of
        None \<Rightarrow> (Some ErrDeliveryNotFound, s)
      | Some d \<Rightarrow>
          if md_Ciphertext d = None then (Some ErrDeliveryPending, s) else FileDelivery_saveLocked P K io s)"

definition FileDeliveries :: "prims \<Rightarrow> packets \<Rightarrow> FileDeliveryStore DeliveryStore" where
  "FileDeliveries P K =
     \<lparr>ds_SaveDelivery = File_SaveDelivery P K, ds_LoadDelivery = File_LoadDelivery,
      ds_ListDeliveriesByMessage = File_ListDeliveriesByMessage,
      ds_ListDeliveriesByRecipient = File_ListDeliveriesByRecipient,
      ds_ListUndeliveredDeliveries = File_ListUndeliveredDeliveries, ds_MarkDelivered = File_MarkDelivered P K\<rparr>"

text \<open>The stores of an identity, under the file names every caller uses.\<close>

definition OpenIdentityStores ::
  "prims \<Rightarrow> packets \<Rightarrow> bool \<Rightarrow> (bytes \<Rightarrow> MessageContext list option) \<Rightarrow> (bytes \<Rightarrow> LocalRecipientPolicy list option) \<Rightarrow>
   (bytes \<Rightarrow> MessageDelivery list option) \<Rightarrow> two_writes \<Rightarrow> save_io \<Rightarrow> string \<Rightarrow> filesystem \<Rightarrow>
   multi_error + FileContextStore \<times> FileDeliveryStore" where
  "OpenIdentityStores P K nd JC JP JD io2 io identityID fs =
     (case NewFileContextStore P K JC JP io2 (identityID @ ''.contexts.json'') (identityID @ ''.policies.json'') fs of
        Inl e \<Rightarrow> Inl e
      | Inr ctxStore \<Rightarrow>
          (case NewFileDeliveryStore P K nd JD io (identityID @ ''.deliveries.json'') (fc_disk ctxStore) of
             Inl e \<Rightarrow> Inl e
           | Inr deliveryStore \<Rightarrow> Inr (ctxStore, deliveryStore)))"

end
