(* ===== verification/MultiWire.thy ===== *)
theory MultiWire
  imports MultiTypes
begin

text \<open>
  Group messages, part two (\<^verbatim>\<open>src/internal/multimsg/wire.go\<close> and the encoders of \<^verbatim>\<open>fanout.go\<close>): the payload
  that a delivery carries inside the ratchet ciphertext, its binding header, and the signed descriptor of the
  group.
\<close>

subsection \<open>Length-prefixed fields\<close>

datatype wire_error =
    EmptyPayload | NeedLength | FieldTruncated nat nat | ShortVersion nat | TooShort | BindingMismatch
  | DescriptorDecode np_error | DescriptorRejected context_error | DescriptorEncode np_error | DescriptorTooLarge nat

text \<open>The length is written as one byte, so it is truncated modulo 256.\<close>

definition appendLengthPrefixed :: "bytes \<Rightarrow> bytes \<Rightarrow> bytes" where
  "appendLengthPrefixed buf data = buf @ [word_of_nat (length data)] @ data"

definition readLengthPrefixed :: "bytes \<Rightarrow> wire_error + bytes \<times> bytes" where
  "readLengthPrefixed buf =
     (case buf of
        [] \<Rightarrow> Inl NeedLength
      | b # rest \<Rightarrow>
          let n = unat b in
          if length buf < 1 + n then Inl (FieldTruncated n (length buf - 1)) else Inr (take n rest, drop n rest))"

definition readLengthPrefixedString :: "bytes \<Rightarrow> wire_error + string \<times> bytes" where
  "readLengthPrefixedString buf =
     (case readLengthPrefixed buf of Inl e \<Rightarrow> Inl e | Inr (data, rest) \<Rightarrow> Inr (to_str data, rest))"

lemma readLengthPrefixed_append:
  assumes "length data < 256"
  shows "readLengthPrefixed (word_of_nat (length data) # data @ rest) = Inr (data, rest)"
  using assms by (simp add: readLengthPrefixed_def unat_of_nat)

lemma readLengthPrefixedString_append:
  "length s < 256 \<Longrightarrow> readLengthPrefixedString (word_of_nat (length s) # to_bytes s @ rest) = Inr (s, rest)"
  using readLengthPrefixed_append [of "to_bytes s" rest] by (simp add: readLengthPrefixedString_def)

text \<open>Reading never invents bytes: what it returns are consecutive pieces of the input.\<close>

lemma readLengthPrefixed_pieces:
  "readLengthPrefixed buf = Inr (data, rest) \<Longrightarrow> buf = word_of_nat (length data) # data @ rest \<and> length data < 256"
  by (auto simp: readLengthPrefixed_def Let_def split: list.splits if_splits)

subsection \<open>The binding header\<close>

record DeliveryMeta =
  dm_MessageID :: string
  dm_ContextID :: string
  dm_Sender :: string
  dm_Recipient :: string
  dm_Version :: "64 word"

definition buildDeliveryAAD :: "string \<Rightarrow> string \<Rightarrow> string \<Rightarrow> string \<Rightarrow> 64 word \<Rightarrow> bytes" where
  "buildDeliveryAAD msgID ctxID sender recipient version =
     appendLengthPrefixed (appendLengthPrefixed (appendLengthPrefixed (appendLengthPrefixed []
       (to_bytes msgID)) (to_bytes ctxID)) (to_bytes sender)) (to_bytes recipient) @ putU64 version"

definition parseAAD :: "bytes \<Rightarrow> wire_error + DeliveryMeta \<times> bytes" where
  "parseAAD buf =
     (case readLengthPrefixedString buf of
        Inl e \<Rightarrow> Inl e
      | Inr (msgID, buf1) \<Rightarrow>
     (case readLengthPrefixedString buf1 of
        Inl e \<Rightarrow> Inl e
      | Inr (ctxID, buf2) \<Rightarrow>
     (case readLengthPrefixedString buf2 of
        Inl e \<Rightarrow> Inl e
      | Inr (sender, buf3) \<Rightarrow>
     (case readLengthPrefixedString buf3 of
        Inl e \<Rightarrow> Inl e
      | Inr (recipient, buf4) \<Rightarrow>
          if length buf4 < 8 then Inl (ShortVersion (length buf4))
          else Inr (\<lparr>dm_MessageID = msgID, dm_ContextID = ctxID, dm_Sender = sender, dm_Recipient = recipient,
                     dm_Version = beU64 (take 8 buf4)\<rparr>, drop 8 buf4)))))"

definition meta_fits :: "DeliveryMeta \<Rightarrow> bool" where
  "meta_fits m \<longleftrightarrow> length (dm_MessageID m) < 256 \<and> length (dm_ContextID m) < 256 \<and>
     length (dm_Sender m) < 256 \<and> length (dm_Recipient m) < 256"

definition aad_of :: "DeliveryMeta \<Rightarrow> bytes" where
  "aad_of m = buildDeliveryAAD (dm_MessageID m) (dm_ContextID m) (dm_Sender m) (dm_Recipient m) (dm_Version m)"

lemma parseAAD_build:
  assumes "meta_fits m"
  shows "parseAAD (aad_of m @ rest) = Inr (m, rest)"
proof -
  have "aad_of m @ rest = word_of_nat (length (dm_MessageID m)) # to_bytes (dm_MessageID m) @
      word_of_nat (length (dm_ContextID m)) # to_bytes (dm_ContextID m) @
      word_of_nat (length (dm_Sender m)) # to_bytes (dm_Sender m) @
      word_of_nat (length (dm_Recipient m)) # to_bytes (dm_Recipient m) @ putU64 (dm_Version m) @ rest"
    by (simp add: aad_of_def buildDeliveryAAD_def appendLengthPrefixed_def)
  then show ?thesis
    using assms by (simp add: parseAAD_def meta_fits_def readLengthPrefixedString_append DeliveryMeta.equality)
qed

lemma aad_of_inject: "meta_fits m \<Longrightarrow> meta_fits m' \<Longrightarrow> aad_of m @ r = aad_of m' @ r' \<longleftrightarrow> m = m' \<and> r = r'"
  by (metis parseAAD_build prod.inject sum.inject(2))

lemma readLengthPrefixedString_pieces:
  "readLengthPrefixedString buf = Inr (s, rest) \<Longrightarrow> buf = word_of_nat (length s) # to_bytes s @ rest \<and> length s < 256"
  by (auto simp: readLengthPrefixedString_def dest!: readLengthPrefixed_pieces split: sum.splits prod.splits)

text \<open>Conversely, a payload that parses is the header of what was read, followed by the rest.\<close>

lemma parseAAD_exact: "parseAAD buf = Inr (m, rest) \<Longrightarrow> meta_fits m \<and> buf = aad_of m @ rest"
proof -
  assume p: "parseAAD buf = Inr (m, rest)"
  then obtain a b1 b b2 c b3 d b4 where r: "readLengthPrefixedString buf = Inr (a, b1)"
      "readLengthPrefixedString b1 = Inr (b, b2)" "readLengthPrefixedString b2 = Inr (c, b3)"
      "readLengthPrefixedString b3 = Inr (d, b4)"
    and m: "m = \<lparr>dm_MessageID = a, dm_ContextID = b, dm_Sender = c, dm_Recipient = d, dm_Version = beU64 (take 8 b4)\<rparr>"
      "rest = drop 8 b4" "8 \<le> length b4"
    by (auto simp: parseAAD_def split: sum.splits prod.splits if_splits)
  have "putU64 (beU64 (take 8 b4)) @ drop 8 b4 = b4" using m(3) putU64_beU64 [of "take 8 b4"] by simp
  then show ?thesis using r [THEN readLengthPrefixedString_pieces]
    by (simp add: m(1,2) meta_fits_def aad_of_def buildDeliveryAAD_def appendLengthPrefixed_def)
qed

subsection \<open>Wrapped payloads\<close>

definition wireVersionV2 :: byte where "wireVersionV2 = 2"

record Parsed =
  ps_Meta :: DeliveryMeta
  ps_Context :: "MessageContext option"
  ps_Plaintext :: bytes

definition wrapPayloadV2 :: "prims \<Rightarrow> bytes \<Rightarrow> MessageContext option \<Rightarrow> bytes \<Rightarrow> wire_error + bytes" where
  "wrapPayloadV2 P aad msgCtx plaintext =
     (case msgCtx of
        None \<Rightarrow> Inr ([wireVersionV2] @ aad @ [0] @ plaintext)
      | Some c \<Rightarrow>
          (case MarshalFastID P MessageContext_MarshalBinID c of
             Inl e \<Rightarrow> Inl (DescriptorEncode e)
           | Inr ctxBin \<Rightarrow>
               if length ctxBin > 255 then Inl (DescriptorTooLarge (length ctxBin))
               else Inr ([wireVersionV2] @ aad @ [word_of_nat (length ctxBin)] @ ctxBin @ plaintext)))"

definition ParseWrapped :: "prims \<Rightarrow> bytes \<Rightarrow> wire_error + Parsed" where
  "ParseWrapped P wrapped =
     (case wrapped of
        [] \<Rightarrow> Inl EmptyPayload
      | v # body \<Rightarrow>
          if v = wireVersionV2 then
            (case parseAAD body of
               Inl e \<Rightarrow> Inl e
             | Inr (meta, rest) \<Rightarrow>
                 (case readLengthPrefixed rest of
                    Inl e \<Rightarrow> Inl e
                  | Inr (ctxBin, rest') \<Rightarrow>
                      if ctxBin = [] then Inr \<lparr>ps_Meta = meta, ps_Context = None, ps_Plaintext = rest'\<rparr>
                      else case UnmarshalFastID P MessageContext_UnmarshalBinID ctxBin of
                        Inl e \<Rightarrow> Inl (DescriptorDecode e)
                      | Inr c \<Rightarrow>
                          (case VerifyContextSignature P (Some c) of
                             Some e \<Rightarrow> Inl (DescriptorRejected e)
                           | None \<Rightarrow> Inr \<lparr>ps_Meta = meta, ps_Context = Some c, ps_Plaintext = rest'\<rparr>)))
          else
            (case parseAAD wrapped of
               Inl e \<Rightarrow> Inl e
             | Inr (meta, rest) \<Rightarrow> Inr \<lparr>ps_Meta = meta, ps_Context = None, ps_Plaintext = rest\<rparr>))"

text \<open>The legacy form, kept in the code as the reference for old senders.\<close>

definition wrapPlaintext :: "bytes \<Rightarrow> bytes \<Rightarrow> bytes" where
  "wrapPlaintext plaintext aad = aad @ plaintext"

definition unwrapPlaintext :: "bytes \<Rightarrow> bytes \<Rightarrow> wire_error + bytes" where
  "unwrapPlaintext wrapped expectedAAD =
     (if length wrapped < length expectedAAD then Inl TooShort
      else if take (length expectedAAD) wrapped \<noteq> expectedAAD then Inl BindingMismatch
      else Inr (drop (length expectedAAD) wrapped))"

text \<open>A descriptor that a sender may attach: signed by its creator and small enough for its length byte.\<close>

definition attachable :: "prims \<Rightarrow> MessageContext \<Rightarrow> bool" where
  "attachable P c \<longleftrightarrow> VerifyContextSignature P (Some c) = None \<and>
     (case MarshalFastID P MessageContext_MarshalBinID c of Inl e \<Rightarrow> False | Inr b \<Rightarrow> length b \<le> 255)"

lemma wrap_total:
  assumes "np_law P" "\<forall>c. ctx = Some c \<longrightarrow> attachable P c"
  shows "\<exists>w. wrapPayloadV2 P aad ctx pt = Inr w"
  using assms by (fastforce simp: wrapPayloadV2_def attachable_def split: option.splits sum.splits)

lemma ParseWrapped_wrap:
  assumes np: "np_law P" and fits: "meta_fits m" and ctx: "\<forall>c. ctx = Some c \<longrightarrow> attachable P c"
    and w: "wrapPayloadV2 P (aad_of m) ctx pt = Inr w"
  shows "ParseWrapped P w = Inr \<lparr>ps_Meta = m, ps_Context = ctx, ps_Plaintext = pt\<rparr>"
proof (cases ctx)
  case None
  have "readLengthPrefixed (0 # pt) = Inr ([], pt)" using readLengthPrefixed_append [of "[]" pt] by simp
  moreover have "w = wireVersionV2 # aad_of m @ 0 # pt" using w None by (simp add: wrapPayloadV2_def)
  ultimately show ?thesis using None parseAAD_build [OF fits, of "0 # pt"] by (simp add: ParseWrapped_def)
next
  case (Some c)
  obtain b where b: "MarshalFastID P MessageContext_MarshalBinID c = Inr b" "length b \<le> 255"
    and sig: "VerifyContextSignature P (Some c) = None"
    using ctx Some by (auto simp: attachable_def split: sum.splits)
  have "UnmarshalFastID P MessageContext_UnmarshalBinID b = Inr c" "b \<noteq> []"
    using mctx.fast_unmarshal [OF np _ b(1)] mctx.fast_first_byte [OF np b(1)] by simp_all
  moreover have "w = wireVersionV2 # aad_of m @ word_of_nat (length b) # b @ pt"
    using w Some b by (simp add: wrapPayloadV2_def)
  moreover have "readLengthPrefixed (word_of_nat (length b) # b @ pt) = Inr (b, pt)"
    using b(2) by (simp add: readLengthPrefixed_append)
  ultimately show ?thesis
    using Some sig parseAAD_build [OF fits, of "word_of_nat (length b) # b @ pt"] by (simp add: ParseWrapped_def)
qed

lemma unwrapPlaintext_iff: "unwrapPlaintext w a = Inr r \<longleftrightarrow> w = a @ r"
proof -
  have "take (length a) w = a \<Longrightarrow> w = a @ drop (length a) w" by (metis append_take_drop_id)
  then show ?thesis by (auto simp: unwrapPlaintext_def)
qed

lemma ParseWrapped_legacy:
  assumes "meta_fits m" "length (dm_MessageID m) \<noteq> 2"
  shows "ParseWrapped P (wrapPlaintext pt (aad_of m)) = Inr \<lparr>ps_Meta = m, ps_Context = None, ps_Plaintext = pt\<rparr>"
proof -
  have "\<exists>rest. aad_of m @ pt = word_of_nat (length (dm_MessageID m)) # rest"
    by (simp add: aad_of_def buildDeliveryAAD_def appendLengthPrefixed_def)
  moreover have "word_of_nat (length (dm_MessageID m)) = (2 :: byte) \<longleftrightarrow> length (dm_MessageID m) = 2"
    using assms(1) by (subst word_unat_eq_iff) (simp add: meta_fits_def unat_of_nat)
  ultimately show ?thesis
    using parseAAD_build [OF assms(1), of pt] assms(2)
    by (auto simp: ParseWrapped_def wrapPlaintext_def wireVersionV2_def)
qed

text \<open>
  C18.  What a group sender wraps, the recipient parses: the binding header, the signed
  descriptor when one is attached, and the plaintext come back unchanged.  A legacy payload parses too, as long
  as its message ID is not two bytes long (the two formats are told apart by their first byte); and different
  headers never give the same bytes.
\<close>

theorem wrapped_payload_roundtrip:
  assumes "np_law P" "meta_fits m" "\<forall>c. ctx = Some c \<longrightarrow> attachable P c"
  shows "(\<exists>w. wrapPayloadV2 P (aad_of m) ctx pt = Inr w \<and>
            ParseWrapped P w = Inr \<lparr>ps_Meta = m, ps_Context = ctx, ps_Plaintext = pt\<rparr>) \<and>
         (length (dm_MessageID m) \<noteq> 2 \<longrightarrow>
            ParseWrapped P (wrapPlaintext pt (aad_of m)) = Inr \<lparr>ps_Meta = m, ps_Context = None, ps_Plaintext = pt\<rparr>) \<and>
         (\<forall>m' pt'. meta_fits m' \<longrightarrow>
            (unwrapPlaintext (wrapPlaintext pt (aad_of m)) (aad_of m') = Inr pt' \<longleftrightarrow> m = m' \<and> pt = pt'))"
  using wrap_total [OF assms(1,3), of "aad_of m" pt] ParseWrapped_wrap [OF assms, of pt] ParseWrapped_legacy [OF assms(2)]
    aad_of_inject [OF assms(2)]
  by (auto simp: unwrapPlaintext_iff wrapPlaintext_def)

subsection \<open>Context signatures\<close>

text \<open>Ed25519 signatures are 64 bytes long.\<close>

definition sig_size_law :: "prims \<Rightarrow> bool" where
  "sig_size_law P \<longleftrightarrow> (\<forall>k m. length (p_ed_sign P k m) = 64)"

text \<open>A peer ID names the key pair whose public key is the first half of its bytes.\<close>

definition creates :: "prims \<Rightarrow> bytes \<Rightarrow> string \<Rightarrow> bool" where
  "creates P priv creator \<longleftrightarrow> (\<exists>h. length h = 32 \<and> creator = p_b58enc P (p_ed_pub P priv @ h))"

lemma creates_key:
  "b58_law P \<Longrightarrow> sig_law P \<Longrightarrow> creates P priv creator \<Longrightarrow> PeerIDToEd25519Pub P creator = Inr (p_ed_pub P priv)"
  by (auto simp: creates_def b58_law_def sig_law_def PeerIDToEd25519Pub_def PeerIDByteLen_def)

lemma SignContext_verifies:
  assumes "np_law P" "sig_law P" "b58_law P" "sig_size_law P" "creates P priv (mc_CreatorID c)"
  shows "\<exists>c'. SignContext P priv c = Inr c' \<and> VerifyContextSignature P (Some c') = None \<and>
     c'\<lparr>mc_Signature := []\<rparr> = c\<lparr>mc_Signature := []\<rparr>"
proof -
  obtain b where b: "signContextPayload P c = Inr b"
    using mctx.fast_marshal_total [OF assms(1)] by (metis signContextPayload_def)
  let ?c = "c\<lparr>mc_Signature := p_ed_sign P priv b\<rparr>"
  have "signContextPayload P ?c = Inr b" using b by (simp add: signContextPayload_def)
  moreover have "p_ed_verify P (p_ed_pub P priv) b (p_ed_sign P priv b)" "length (p_ed_sign P priv b) = 64"
    using assms(2,4) by (simp_all add: sig_law_def sig_size_law_def)
  ultimately show ?thesis
    using creates_key [OF assms(3,2,5)] b by (simp add: SignContext_def VerifyContextSignature_def)
qed

text \<open>
  Note.  A descriptor verifies exactly when its creator ID is a well-formed peer ID and its
  64-byte signature is valid under that ID's own key, over a text from which every field of the descriptor can be
  read back; a descriptor signed with the creator's key verifies.
\<close>

theorem context_signature_binds:
  assumes "np_law P" "sig_law P" "b58_law P" "sig_size_law P"
  shows "(VerifyContextSignature P (Some c) = None \<longleftrightarrow>
            length (mc_Signature c) = 64 \<and>
            (\<exists>raw payload. p_b58dec P (mc_CreatorID c) = Some raw \<and> length raw = 64 \<and>
               UnmarshalFastID P MessageContext_UnmarshalBinID payload = Inr (c\<lparr>mc_Signature := []\<rparr>) \<and>
               MarshalFastID P MessageContext_MarshalBinID (c\<lparr>mc_Signature := []\<rparr>) = Inr payload \<and>
               p_ed_verify P (take 32 raw) payload (mc_Signature c))) \<and>
         (creates P priv (mc_CreatorID c) \<longrightarrow>
            (\<exists>c'. SignContext P priv c = Inr c' \<and> VerifyContextSignature P (Some c') = None \<and>
               c'\<lparr>mc_Signature := []\<rparr> = c\<lparr>mc_Signature := []\<rparr>))"
proof -
  obtain b where b: "signContextPayload P c = Inr b"
    using mctx.fast_marshal_total [OF assms(1)] by (metis signContextPayload_def)
  have dec: "UnmarshalFastID P MessageContext_UnmarshalBinID b = Inr (c\<lparr>mc_Signature := []\<rparr>)"
    using mctx.fast_unmarshal [OF assms(1)] b by (simp add: signContextPayload_def)
  show ?thesis
    using SignContext_verifies [OF assms, of priv c] dec b
    by (auto simp: VerifyContextSignature_def PeerIDToEd25519Pub_def PeerIDByteLen_def signContextPayload_def
        split: option.splits)
qed

subsection \<open>A concrete instance\<close>

text \<open>
  The toy primitives with 64-byte signatures and a compact field encoding (chunks of at most 255 bytes), so that
  a signed descriptor fits into its length byte.
\<close>

function chunked :: "bytes \<Rightarrow> bytes" where
  "chunked d = (if length d < 255 then word_of_nat (length d) # d else 255 # take 255 d @ chunked (drop 255 d))"
  by pat_completeness auto
termination
  by (relation "measure length") auto

declare chunked.simps [simp del]

function unchunk :: "bytes \<Rightarrow> (bytes \<times> bytes) option" where
  "unchunk b =
     (case b of [] \<Rightarrow> None
      | n # r \<Rightarrow>
          if n = 255 then
            (case unchunk (drop 255 r) of None \<Rightarrow> None | Some (d, rest) \<Rightarrow> Some (take 255 r @ d, rest))
          else Some (take (unat n) r, drop (unat n) r))"
  by pat_completeness auto
termination
  by (relation "measure length") auto

declare unchunk.simps [simp del]

lemma unchunk_shorter: "unchunk b = Some (d, r) \<Longrightarrow> length r < length b"
proof (induction b arbitrary: d r rule: unchunk.induct)
  case (1 b)
  show ?case
  proof (cases b)
    case Nil
    then show ?thesis using 1(2) by (simp add: unchunk.simps)
  next
    case (Cons n t)
    then show ?thesis using 1
      by (subst (asm) (2) unchunk.simps) (fastforce split: if_splits option.splits)
  qed
qed

lemma unchunk_chunked: "unchunk (chunked d @ r) = Some (d, r)"
proof (induction d rule: chunked.induct)
  case (1 d)
  show ?case
  proof (cases "length d < 255")
    case True
    have "word_of_nat (length d) \<noteq> (255 :: byte)" "unat (word_of_nat (length d) :: byte) = length d"
      using True by (simp_all add: word_unat_eq_iff unat_of_nat)
    then show ?thesis using True by (subst chunked.simps, subst unchunk.simps) simp
  next
    case False
    then show ?thesis using 1 by (subst chunked.simps, subst unchunk.simps) simp
  qed
qed

definition tight_enc :: "npfield list \<Rightarrow> bytes option" where
  "tight_enc fs = Some (word_of_nat (length fs) # concat (map (\<lambda>(i, d). i # chunked d) fs))"

function tight_fields :: "bytes \<Rightarrow> npfield list option" where
  "tight_fields [] = Some []"
| "tight_fields (i # r) =
     (case unchunk r of None \<Rightarrow> None
      | Some (d, rest) \<Rightarrow> (case tight_fields rest of None \<Rightarrow> None | Some fs \<Rightarrow> Some ((i, d) # fs)))"
  by pat_completeness auto
termination
  by (relation "measure length") (auto dest: unchunk_shorter)

definition tight :: prims where
  "tight = toy\<lparr>p_ed_sign := (\<lambda>k m. toy_pad 32 k @ toy_pad 32 m),
      p_ed_verify := (\<lambda>pk m s. s = pk @ toy_pad 32 m),
      p_np_enc := tight_enc, p_np_dec := (\<lambda>b. case b of [] \<Rightarrow> None | n # r \<Rightarrow> tight_fields r)\<rparr>"

lemma tight_fields_enc: "tight_fields (concat (map (\<lambda>(i, d). i # chunked d) fs)) = Some fs"
  by (induction fs) (auto simp: unchunk_chunked)

lemma tight_laws:
  "dh_law tight" "hkdf_law tight" "aead_law tight" "np_law tight" "b58_law tight" "sig_law tight" "kem_law tight"
  "sig_size_law tight"
proof -
  show "np_law tight" by (simp add: np_law_def tight_def tight_enc_def tight_fields_enc)
  show "dh_law tight" "hkdf_law tight" "aead_law tight" "b58_law tight" "kem_law tight"
    using toy_laws by (simp_all add: tight_def dh_law_def hkdf_law_def aead_law_def b58_law_def kem_law_def)
  show "sig_law tight" using toy_laws(6) by (simp add: tight_def sig_law_def toy_def)
  show "sig_size_law tight" by (simp add: sig_size_law_def tight_def)
qed

definition toy_creator :: "byte \<Rightarrow> string" where
  "toy_creator b = to_str (toy_pad 32 [b] @ replicate 32 b)"

definition toy_context :: "string \<Rightarrow> 64 word \<Rightarrow> byte \<Rightarrow> MessageContext" where
  "toy_context name v b =
     (let c = \<lparr>mc_ContextID = ''ctx'', mc_DisplayName = name, mc_MetadataVersion = v, mc_CreatorID = toy_creator b,
               mc_Signature = []\<rparr>
      in case SignContext tight [b] c of Inl e \<Rightarrow> c | Inr c' \<Rightarrow> c')"

lemma toy_creates: "creates tight [b] (toy_creator b)"
  by (auto simp: creates_def toy_creator_def tight_def toy_def intro!: exI [of _ "replicate 32 b"])

lemma toy_context_fields [simp]:
  "mc_ContextID (toy_context name v b) = ''ctx''" "mc_MetadataVersion (toy_context name v b) = v"
  "mc_CreatorID (toy_context name v b) = toy_creator b" "mc_DisplayName (toy_context name v b) = name"
  by (simp_all add: toy_context_def SignContext_def Let_def split: sum.split)

lemma toy_context_verifies [simp]: "VerifyContextSignature tight (Some (toy_context name v b)) = None"
  using SignContext_verifies [OF tight_laws(4,6,5,8), of "[b]"
      "\<lparr>mc_ContextID = ''ctx'', mc_DisplayName = name, mc_MetadataVersion = v, mc_CreatorID = toy_creator b, mc_Signature = []\<rparr>"]
    toy_creates [of b]
  by (auto simp: toy_context_def Let_def)

lemma length_chunked: "length d < 255 \<Longrightarrow> length (chunked d) = Suc (length d)"
  by (simp add: chunked.simps)

lemma length_toy_creator: "length (toy_creator b) = 64"
  by (simp add: toy_creator_def)

lemma length_context_bin:
  assumes "length name < 64"
  shows "\<exists>b. MarshalFastID tight MessageContext_MarshalBinID (toy_context name v k) = Inr b \<and> length b \<le> 255"
proof -
  let ?c = "toy_context name v k"
  have "length (mc_Signature ?c) = 64"
    using toy_context_verifies [of name v k] by (auto simp: VerifyContextSignature_def split: if_splits)
  then show ?thesis using assms
    by (simp add: MarshalFastID_def tight_def tight_enc_def MessageContext_MarshalBinID_def length_chunked length_toy_creator)
qed

lemma toy_context_attachable: "length name < 64 \<Longrightarrow> attachable tight (toy_context name v k)"
  using length_context_bin [of name v k] by (auto simp: attachable_def)

definition toy_meta :: DeliveryMeta where
  "toy_meta = \<lparr>dm_MessageID = ''m1'', dm_ContextID = ''ctx'', dm_Sender = ''alice'', dm_Recipient = ''bob'', dm_Version = 1\<rparr>"

theorem wrapped_payload_roundtrip_witness:
  "\<exists>w. wrapPayloadV2 tight (aad_of toy_meta) (Some (toy_context ''team'' 1 7)) [5] = Inr w \<and>
     ParseWrapped tight w =
       Inr \<lparr>ps_Meta = toy_meta, ps_Context = Some (toy_context ''team'' 1 7), ps_Plaintext = [5]\<rparr>"
  using wrapped_payload_roundtrip [OF tight_laws(4), of toy_meta "Some (toy_context ''team'' 1 7)" "[5]"]
  by (simp add: toy_context_attachable) (simp add: meta_fits_def toy_meta_def)

theorem context_signature_binds_witness:
  "\<exists>c'. SignContext tight [7] (toy_context ''team'' 1 7) = Inr c' \<and> VerifyContextSignature tight (Some c') = None"
  using context_signature_binds [OF tight_laws(4,6,5,8), of "toy_context ''team'' 1 7" "[7]"] toy_creates [of 7]
  by auto

end
