(* ===== verification/StoreLaws.thy ===== *)
theory StoreLaws
  imports MultiStores MultiWire
begin

text \<open>
  The contracts of the two store interfaces as locales, the interpretations on the in-memory and the file-backed
  stores, and what the file-backed stores promise beyond them: monotone versions and a faithful reload.
\<close>

subsection \<open>Contexts and policies\<close>

locale context_table =
  fixes S :: "'c ContextStore" and valid :: "'c \<Rightarrow> bool"
  assumes save_valid: "valid s \<Longrightarrow> valid (snd (cs_SaveContext S io c s))"
    and save_loads: "cs_SaveContext S io c s = (None, s') \<Longrightarrow> cs_LoadContext S (mc_ContextID c) s' = Inr c"
    and save_either: "cs_LoadContext S cid (snd (cs_SaveContext S io c s)) = cs_LoadContext S cid s \<or>
        cid = mc_ContextID c \<and> cs_LoadContext S cid (snd (cs_SaveContext S io c s)) = Inr c"
    and save_policies: "cs_LoadPolicy S cid r (snd (cs_SaveContext S io c s)) = cs_LoadPolicy S cid r s"
    and load_id: "valid s \<Longrightarrow> cs_LoadContext S cid s = Inr c \<Longrightarrow> mc_ContextID c = cid"
    and delete_valid: "valid s \<Longrightarrow> valid (snd (cs_DeleteContext S io cid s))"
    and delete_loads: "cs_LoadContext S cid' (snd (cs_DeleteContext S io cid s)) =
        (if cid' = cid then Inl ErrContextNotFound else cs_LoadContext S cid' s)"
    and delete_policies: "cs_LoadPolicy S cid' r (snd (cs_DeleteContext S io cid s)) =
        (if cid' = cid then Inl ErrPolicyNotFound else cs_LoadPolicy S cid' r s)"
    and policy_valid: "valid s \<Longrightarrow> valid (snd (cs_SavePolicy S io p s))"
    and policy_loads: "cs_LoadPolicy S cid r (snd (cs_SavePolicy S io p s)) =
        (if cid = lp_ContextID p \<and> r = lp_Recipient p then Inr p else cs_LoadPolicy S cid r s)"
    and policy_contexts: "cs_LoadContext S cid (snd (cs_SavePolicy S io p s)) = cs_LoadContext S cid s"
    and drop_valid: "valid s \<Longrightarrow> valid (snd (cs_DeletePolicy S io cid r s))"
    and drop_loads: "cs_LoadPolicy S cid' r' (snd (cs_DeletePolicy S io cid r s)) =
        (if cid' = cid \<and> r' = r then Inl ErrPolicyNotFound else cs_LoadPolicy S cid' r' s)"
    and drop_contexts: "cs_LoadContext S cid' (snd (cs_DeletePolicy S io cid r s)) = cs_LoadContext S cid' s"
    and policy_key: "valid s \<Longrightarrow> cs_LoadPolicy S cid r s = Inr p \<Longrightarrow> lp_Recipient p = r"
    and policy_list: "valid s \<Longrightarrow> p \<in> set (cs_ListPolicies S cid s) \<longleftrightarrow> cs_LoadPolicy S cid (lp_Recipient p) s = Inr p"
    and policy_list_sorted: "valid s \<Longrightarrow>
        sorted (map lp_Recipient (cs_ListPolicies S cid s)) \<and> distinct (map lp_Recipient (cs_ListPolicies S cid s))"
    and policy_missing: "cs_LoadPolicy S cid r s = Inl e \<Longrightarrow> e = ErrPolicyNotFound"
    and context_missing: "cs_LoadContext S cid s = Inl e \<Longrightarrow> e = ErrContextNotFound"

text \<open>Only the file-backed store refuses to go back.\<close>

locale versioned_contexts = context_table +
  assumes stale_refused: "cs_LoadContext S (mc_ContextID c) s = Inr c0 \<Longrightarrow>
      mc_MetadataVersion c \<le> mc_MetadataVersion c0 \<Longrightarrow>
      cs_SaveContext S io c s = (Some (StaleContext (mc_MetadataVersion c) (mc_MetadataVersion c0)), s)"
begin

lemma save_monotone:
  assumes "cs_LoadContext S cid s = Inr c0"
  shows "\<exists>c1. cs_LoadContext S cid (snd (cs_SaveContext S io c s)) = Inr c1 \<and>
     (c1 = c0 \<or> mc_MetadataVersion c0 < mc_MetadataVersion c1)"
  using save_either [of cid io c s] stale_refused [of c s c0 io] assms
  by (cases "mc_MetadataVersion c \<le> mc_MetadataVersion c0") auto

end

lemma sortPolicies_set [simp]: "set (sortPolicies ps) = set ps"
  by (simp add: sortPolicies_def)

lemma policy_list_facts:
  assumes "policies_ok t" "map_of t cid = Some m"
  shows "p \<in> set (map snd m) \<longleftrightarrow> map_of m (lp_Recipient p) = Some p" "distinct (map lp_Recipient (map snd m))"
proof -
  have ok: "table_ok m" using assms by (auto simp: policies_ok_def)
  have key: "lp_Recipient p = r" if "map_of m r = Some p" for r p
  proof -
    have "policy_of t (cid, r) = Some p" using assms(2) that by (simp add: policy_of_def)
    then show ?thesis using assms(1) by (auto simp: policies_ok_def)
  qed
  have kv: "lp_Recipient v = k" if "(k, v) \<in> set m" for k v
    using key table_in_iff [OF ok] that by blast
  show "p \<in> set (map snd m) \<longleftrightarrow> map_of m (lp_Recipient p) = Some p"
    using kv table_in_iff [OF ok] by force
  have "map lp_Recipient (map snd m) = map fst m" using kv by (auto intro: map_cong)
  then show "distinct (map lp_Recipient (map snd m))" using ok unfolding table_ok_def by (simp only:)
qed

lemma sortPolicies_sorted: "sorted (map lp_Recipient (sortPolicies ps))"
  by (simp add: sortPolicies_def)

lemma sortPolicies_distinct: "distinct (map lp_Recipient (sortPolicies ps)) = distinct (map lp_Recipient ps)"
  unfolding sortPolicies_def by (rule mset_eq_imp_distinct_iff) simp

lemma Mem_LoadPolicy_eq: "Mem_LoadPolicy cid r s = (case policy_of (policies s) (cid, r) of None \<Rightarrow> Inl ErrPolicyNotFound | Some p \<Rightarrow> Inr p)"
  by (simp add: Mem_LoadPolicy_def policy_of_def split: option.splits)

lemma File_LoadPolicy_eq: "File_LoadPolicy cid r s = (case policy_of (policies s) (cid, r) of None \<Rightarrow> Inl ErrPolicyNotFound | Some p \<Rightarrow> Inr p)"
  by (simp add: File_LoadPolicy_def policy_of_def split: option.splits)

lemma policy_of_drop: "policy_of (AList.delete c t) k = (if fst k = c then None else policy_of t k)"
  by (simp add: policy_of_def)

lemma policy_lists:
  assumes "policies_ok t"
  shows "p \<in> set (case map_of t cid of None \<Rightarrow> [] | Some m \<Rightarrow> sortPolicies (map snd m)) \<longleftrightarrow>
      policy_of t (cid, lp_Recipient p) = Some p"
    and "sorted (map lp_Recipient (case map_of t cid of None \<Rightarrow> [] | Some m \<Rightarrow> sortPolicies (map snd m)))"
    and "distinct (map lp_Recipient (case map_of t cid of None \<Rightarrow> [] | Some m \<Rightarrow> sortPolicies (map snd m)))"
proof -
  note f = policy_list_facts [OF assms]
  show "p \<in> set (case map_of t cid of None \<Rightarrow> [] | Some m \<Rightarrow> sortPolicies (map snd m)) \<longleftrightarrow>
      policy_of t (cid, lp_Recipient p) = Some p"
    using f(1) by (auto simp: policy_of_def split: option.splits)
  show "sorted (map lp_Recipient (case map_of t cid of None \<Rightarrow> [] | Some m \<Rightarrow> sortPolicies (map snd m)))"
    by (simp add: sortPolicies_sorted split: option.splits)
  show "distinct (map lp_Recipient (case map_of t cid of None \<Rightarrow> [] | Some m \<Rightarrow> sortPolicies (map snd m)))"
    using f(2) sortPolicies_distinct by (auto split: option.splits)
qed

definition tables_ok :: "'a MemoryContextStore_scheme \<Rightarrow> bool" where
  "tables_ok s \<longleftrightarrow> contexts_ok (contexts s) \<and> policies_ok (policies s)"

lemma contexts_ok_key: "contexts_ok t \<Longrightarrow> map_of t k = Some c \<Longrightarrow> mc_ContextID c = k"
  by (simp add: contexts_ok_def)

lemma policies_ok_key: "policies_ok t \<Longrightarrow> policy_of t k = Some p \<Longrightarrow> lp_Recipient p = snd k \<and> lp_ContextID p = fst k"
  by (cases k) (auto simp: policies_ok_def)

lemmas mem_ops = Mem_SaveContext_def Mem_LoadContext_def Mem_DeleteContext_def Mem_SavePolicy_def
  Mem_LoadPolicy_eq Mem_ListPolicies_def Mem_DeletePolicy_def

interpretation mctxs: context_table MemoryContexts tables_ok
proof unfold_locales
  fix s :: MemoryContextStore and cid and p :: LocalRecipientPolicy
  assume "tables_ok s"
  then have ok: "policies_ok (policies s)" by (simp add: tables_ok_def)
  show "p \<in> set (cs_ListPolicies MemoryContexts cid s) \<longleftrightarrow> cs_LoadPolicy MemoryContexts cid (lp_Recipient p) s = Inr p"
    using policy_lists(1) [OF ok] by (auto simp: MemoryContexts_def mem_ops split: option.split)
  show "sorted (map lp_Recipient (cs_ListPolicies MemoryContexts cid s)) \<and>
      distinct (map lp_Recipient (cs_ListPolicies MemoryContexts cid s))"
    using policy_lists(2,3) [OF ok] by (simp add: MemoryContexts_def mem_ops)
qed (auto simp: MemoryContexts_def mem_ops tables_ok_def policy_of_drop
    dest: contexts_ok_key policies_ok_key split: option.splits if_splits)

lemma saveLocked_tables [simp]:
  "contexts (snd (FileContext_saveLocked P K io s)) = contexts s" "policies (snd (FileContext_saveLocked P K io s)) = policies s"
  "contextsFile (snd (FileContext_saveLocked P K io s)) = contextsFile s"
  "policiesFile (snd (FileContext_saveLocked P K io s)) = policiesFile s"
  by (auto simp: FileContext_saveLocked_def split: sum.splits prod.splits option.splits)

lemma saveLocked_tables':
  "FileContext_saveLocked P K io s = (r, s') \<Longrightarrow> contexts s' = contexts s \<and> policies s' = policies s"
  using saveLocked_tables(1,2) [of P K io s] by simp

lemmas file_ops = File_SaveContext_def File_LoadContext_def File_DeleteContext_def File_SavePolicy_def
  File_LoadPolicy_eq File_ListPolicies_def File_DeletePolicy_def

interpretation fctx: versioned_contexts "FileContexts P K" tables_ok for P K
proof unfold_locales
  fix s :: FileContextStore and cid and p :: LocalRecipientPolicy
  assume "tables_ok s"
  then have ok: "policies_ok (policies s)" by (simp add: tables_ok_def)
  show "p \<in> set (cs_ListPolicies (FileContexts P K) cid s) \<longleftrightarrow> cs_LoadPolicy (FileContexts P K) cid (lp_Recipient p) s = Inr p"
    using policy_lists(1) [OF ok] by (auto simp: FileContexts_def file_ops split: option.split)
  show "sorted (map lp_Recipient (cs_ListPolicies (FileContexts P K) cid s)) \<and>
      distinct (map lp_Recipient (cs_ListPolicies (FileContexts P K) cid s))"
    using policy_lists(2,3) [OF ok] by (simp add: FileContexts_def file_ops)
qed (auto simp: FileContexts_def file_ops tables_ok_def policy_of_drop Let_def
    dest: contexts_ok_key policies_ok_key dest!: saveLocked_tables' split: option.splits if_splits)

text \<open>A run of a context store: any sequence of operations that change it, with any outcome of the writes.\<close>

datatype store_op =
    OpSaveContext two_writes MessageContext
  | OpDeleteContext two_writes string
  | OpSavePolicy two_writes LocalRecipientPolicy
  | OpDeletePolicy two_writes string string

fun run_op :: "'c ContextStore \<Rightarrow> store_op \<Rightarrow> 'c \<Rightarrow> 'c" where
  "run_op S (OpSaveContext io c) s = snd (cs_SaveContext S io c s)"
| "run_op S (OpDeleteContext io cid) s = snd (cs_DeleteContext S io cid s)"
| "run_op S (OpSavePolicy io p) s = snd (cs_SavePolicy S io p s)"
| "run_op S (OpDeletePolicy io cid r) s = snd (cs_DeletePolicy S io cid r s)"

fun deletes :: "string \<Rightarrow> store_op \<Rightarrow> bool" where
  "deletes cid (OpDeleteContext io i) = (i = cid)"
| "deletes cid _ = False"

context versioned_contexts
begin

lemma run_op_monotone:
  assumes "cs_LoadContext S cid s = Inr c0" "\<not> deletes cid q"
  shows "\<exists>c1. cs_LoadContext S cid (run_op S q s) = Inr c1 \<and> (c1 = c0 \<or> mc_MetadataVersion c0 < mc_MetadataVersion c1)"
  using assms save_monotone [OF assms(1)] by (cases q) (simp_all add: policy_contexts drop_contexts delete_loads)

lemma run_monotone:
  "cs_LoadContext S cid s = Inr c0 \<Longrightarrow> \<not> list_ex (deletes cid) ops \<Longrightarrow>
   \<exists>c1. cs_LoadContext S cid (fold (run_op S) ops s) = Inr c1 \<and> (c1 = c0 \<or> mc_MetadataVersion c0 < mc_MetadataVersion c1)"
proof (induction ops arbitrary: s c0)
  case (Cons q ops)
  obtain c1 where c1: "cs_LoadContext S cid (run_op S q s) = Inr c1" "c1 = c0 \<or> mc_MetadataVersion c0 < mc_MetadataVersion c1"
    using run_op_monotone [OF Cons.prems(1)] Cons.prems(2) by auto
  obtain c2 where "cs_LoadContext S cid (fold (run_op S) ops (run_op S q s)) = Inr c2"
    "c2 = c1 \<or> mc_MetadataVersion c1 < mc_MetadataVersion c2"
    using Cons.IH [OF c1(1)] Cons.prems(2) by auto
  then show ?case using c1(2) by auto
qed auto

end

subsection \<open>Deliveries\<close>

locale delivery_table =
  fixes D :: "'d DeliveryStore" and valid :: "'d \<Rightarrow> bool"
  assumes save_valid: "valid s \<Longrightarrow> valid (snd (ds_SaveDelivery D io d s))"
    and save_loads: "ds_SaveDelivery D io d s = (None, s') \<Longrightarrow>
        ds_LoadDelivery D did s' = (if did = md_DeliveryID d then Inr d else ds_LoadDelivery D did s)"
    and save_either: "ds_LoadDelivery D did (snd (ds_SaveDelivery D io d s)) = ds_LoadDelivery D did s \<or>
        did = md_DeliveryID d \<and> ds_LoadDelivery D did (snd (ds_SaveDelivery D io d s)) = Inr d"
    and mark_valid: "valid s \<Longrightarrow> valid (snd (ds_MarkDelivered D io did s))"
    and mark_loads: "ds_LoadDelivery D did' (snd (ds_MarkDelivered D io did s)) = ds_LoadDelivery D did' s"
    and undelivered_pending: "valid s \<Longrightarrow> d \<in> set (ds_ListUndeliveredDeliveries D s) \<longleftrightarrow>
        ds_LoadDelivery D (md_DeliveryID d) s = Inr d \<and> md_Ciphertext d = None"
    and listed_known: "d \<in> set (ds_ListDeliveriesByMessage D m s) \<Longrightarrow> \<exists>did. ds_LoadDelivery D did s = Inr d"
    and listed_known': "d \<in> set (ds_ListDeliveriesByRecipient D r s) \<Longrightarrow> \<exists>did. ds_LoadDelivery D did s = Inr d"
begin

text \<open>A store that has only been given deliveries with a ciphertext has nothing to retry.\<close>

lemma saved_never_undelivered:
  assumes "valid s" "ds_ListUndeliveredDeliveries D s = []" "md_Ciphertext d \<noteq> None"
  shows "ds_ListUndeliveredDeliveries D (snd (ds_SaveDelivery D io d s)) = []"
proof -
  let ?s = "snd (ds_SaveDelivery D io d s)"
  have "d' \<notin> set (ds_ListUndeliveredDeliveries D ?s)" for d'
    using save_either [of "md_DeliveryID d'" io d s] assms
      undelivered_pending [OF assms(1), of d'] undelivered_pending [OF save_valid [OF assms(1), of io d], of d']
    by auto
  then show ?thesis by (metis last_in_set)
qed

end

definition deliveries_ok :: "'a MemoryDeliveryStore_scheme \<Rightarrow> bool" where
  "deliveries_ok s \<longleftrightarrow> table_ok (deliveries s) \<and> (\<forall>k d. map_of (deliveries s) k = Some d \<longrightarrow> md_DeliveryID d = k)"

lemma deliveries_ok_index [simp]: "deliveries_ok s \<Longrightarrow> deliveries_ok (index_delivery d s)"
  by (auto simp: deliveries_ok_def index_delivery_def)

lemma deliveries_index [simp]: "map_of (deliveries (index_delivery d s)) = (map_of (deliveries s))(md_DeliveryID d \<mapsto> d)"
  by (simp add: index_delivery_def)

lemma undelivered_iff:
  assumes "deliveries_ok s"
  shows "d \<in> set (undelivered (deliveries s)) \<longleftrightarrow> map_of (deliveries s) (md_DeliveryID d) = Some d \<and> md_Ciphertext d = None"
proof -
  have key: "map_of (deliveries s) k = Some d \<Longrightarrow> md_DeliveryID d = k" for k
    using assms by (simp add: deliveries_ok_def)
  have "d \<in> set (map snd (deliveries s)) \<longleftrightarrow> (\<exists>k. map_of (deliveries s) k = Some d)"
    using assms table_in_iff [of "deliveries s"] by (force simp: deliveries_ok_def)
  then show ?thesis using key by (auto simp: undelivered_def)
qed

lemma listed_known_iff: "d \<in> set (listed t ids) \<Longrightarrow> \<exists>k. map_of t k = Some d"
  by (auto simp: listed_def List.map_filter_def)

lemmas mem_delivery_ops = Mem_SaveDelivery_def Mem_LoadDelivery_def Mem_ListDeliveriesByMessage_def
  Mem_ListDeliveriesByRecipient_def Mem_ListUndeliveredDeliveries_def Mem_MarkDelivered_def

interpretation mdels: delivery_table MemoryDeliveries deliveries_ok
  by unfold_locales
    (auto simp: MemoryDeliveries_def mem_delivery_ops undelivered_iff dest!: listed_known_iff intro: exI split: option.splits if_splits)

lemma delivery_saveLocked_tables [simp]:
  "deliveries (snd (FileDelivery_saveLocked P K io s)) = deliveries s"
  by (auto simp: FileDelivery_saveLocked_def split: sum.splits prod.splits)

lemma delivery_saveLocked_tables':
  "FileDelivery_saveLocked P K io s = (r, s') \<Longrightarrow> deliveries s' = deliveries s"
  using delivery_saveLocked_tables [of P K io s] by simp

lemma deliveries_ok_saveLocked [simp]: "deliveries_ok (snd (FileDelivery_saveLocked P K io s)) = deliveries_ok s"
  by (simp add: deliveries_ok_def)

lemmas file_delivery_ops = File_SaveDelivery_def File_LoadDelivery_def File_ListDeliveriesByMessage_def
  File_ListDeliveriesByRecipient_def File_ListUndeliveredDeliveries_def File_MarkDelivered_def

interpretation fdels: delivery_table "FileDeliveries P K" deliveries_ok for P K
  by unfold_locales
    (auto simp: FileDeliveries_def file_delivery_ops undelivered_iff dest!: listed_known_iff delivery_saveLocked_tables' intro: exI split: option.splits if_splits)

end
