(* ===== verification/StoreReload.thy ===== *)
theory StoreReload
  imports StoreLaws
begin

text \<open>
  The group stores of an identity after a restart: what was saved is what the reopened stores answer.
\<close>

subsection \<open>The index of deliveries\<close>

definition indexed :: "'a MemoryDeliveryStore_scheme \<Rightarrow> bool" where
  "indexed s \<longleftrightarrow>
     (\<forall>m i. i \<in> set (byMessage s m) \<longleftrightarrow> (\<exists>d. map_of (deliveries s) i = Some d \<and> md_MessageID d = m)) \<and>
     (\<forall>r i. i \<in> set (byRecipient s r) \<longleftrightarrow> (\<exists>d. map_of (deliveries s) i = Some d \<and> md_Recipient d = r))"

lemma indexed_step: "indexed s \<Longrightarrow> map_of (deliveries s) (md_DeliveryID d) = None \<Longrightarrow> indexed (index_delivery d s)"
  by (auto simp: indexed_def index_delivery_def)

lemma indexed_indexLocked: "indexed s \<Longrightarrow> indexed (indexLocked d s)"
  by (auto simp: indexLocked_def indexed_step split: option.split)

lemma indexed_fold: "indexed s \<Longrightarrow> indexed (fold indexLocked ds s)"
  by (induction ds arbitrary: s) (simp_all add: indexed_indexLocked)

lemma listed_iff: "d \<in> set (listed t ids) \<longleftrightarrow> (\<exists>i\<in>set ids. map_of t i = Some d)"
  by (induction ids) (auto simp: listed_def List.map_filter_def split: option.splits)

lemma listed_indexed:
  assumes "indexed s"
  shows "d \<in> set (listed (deliveries s) (byMessage s m)) \<longleftrightarrow> (\<exists>i. map_of (deliveries s) i = Some d \<and> md_MessageID d = m)"
    and "d \<in> set (listed (deliveries s) (byRecipient s r)) \<longleftrightarrow> (\<exists>i. map_of (deliveries s) i = Some d \<and> md_Recipient d = r)"
  using assms by (auto simp: indexed_def listed_iff)

lemma fold_indexLocked:
  "distinct (map md_DeliveryID ds) \<Longrightarrow> \<forall>d\<in>set ds. map_of (deliveries s) (md_DeliveryID d) = None \<Longrightarrow>
   map_of (deliveries (fold indexLocked ds s)) = map_of (deliveries s) ++ map_of (map (\<lambda>d. (md_DeliveryID d, d)) ds)"
proof (induction ds arbitrary: s)
  case (Cons d ds)
  have step: "indexLocked d s = index_delivery d s" using Cons.prems(2) by (simp add: indexLocked_def)
  have "map_of (map (\<lambda>d. (md_DeliveryID d, d)) ds) (md_DeliveryID d) = None"
    using Cons.prems(1) by (auto simp: map_of_eq_None_iff)
  moreover have "\<forall>x\<in>set ds. map_of (deliveries (index_delivery d s)) (md_DeliveryID x) = None"
  proof
    fix x assume "x \<in> set ds"
    then show "map_of (deliveries (index_delivery d s)) (md_DeliveryID x) = None"
      using Cons.prems by (metis deliveries_index distinct.simps(2) fun_upd_other image_eqI list.set_intros(2)
          list.set_map list.simps(9))
  qed
  then have "map_of (deliveries (fold indexLocked ds (index_delivery d s))) =
      map_of (deliveries (index_delivery d s)) ++ map_of (map (\<lambda>d. (md_DeliveryID d, d)) ds)"
    by (rule Cons.IH [rotated]) (use Cons.prems(1) in simp)
  ultimately show ?case by (auto simp: step map_add_def fun_eq_iff split: option.splits)
qed simp

subsection \<open>Self-keyed tables\<close>

lemma self_keyed:
  assumes "table_ok t" "\<forall>k v. map_of t k = Some v \<longrightarrow> key v = k"
  shows "map (\<lambda>v. (key v, v)) (map snd t) = t" "distinct (map key (map snd t))"
proof -
  have k: "key (snd p) = fst p" if "p \<in> set t" for p
    using assms that table_in_iff [of t "fst p" "snd p"] by auto
  then show "map (\<lambda>v. (key v, v)) (map snd t) = t" by (auto simp: comp_def intro: map_idI)
  have "map key (map snd t) = map fst t" using k by (auto simp: comp_def intro: map_cong)
  then show "distinct (map key (map snd t))" using assms(1) unfolding table_ok_def by (simp only:)
qed

lemma load_contexts_same:
  assumes "contexts_ok t" "\<forall>k c. map_of t k = Some c \<longrightarrow> mc_MetadataVersion c \<noteq> 0"
  shows "map_of (load_contexts (map snd t) []) = map_of t"
proof -
  have ok: "table_ok t" and key: "\<forall>k c. map_of t k = Some c \<longrightarrow> mc_ContextID c = k"
    using assms(1) by (auto simp: contexts_ok_def)
  have all: "filter (\<lambda>c. mc_MetadataVersion c \<noteq> 0) (map snd t) = map snd t"
    using assms(2) table_in_iff [OF ok] by (auto simp: filter_id_conv)
  have "map_of (fold (\<lambda>c t. AList.update (mc_ContextID c) c t) (map snd t) []) k = map_of t k" for k
    using fold_update_table [of mc_ContextID "map snd t" "[]" k] self_keyed [OF ok key] by (simp split: option.splits)
  then show ?thesis unfolding load_contexts_def all by (simp add: fun_eq_iff)
qed

definition all_policies :: "policy_table \<Rightarrow> LocalRecipientPolicy list" where
  "all_policies t = concat (map (\<lambda>(k, m). map snd m) t)"

lemma in_all_policies: "p \<in> set (all_policies t) \<longleftrightarrow> (\<exists>k m r. (k, m) \<in> set t \<and> (r, p) \<in> set m)"
proof (induction t)
  case (Cons km t)
  have "all_policies (km # t) = map snd (snd km) @ all_policies t" by (cases km) (simp add: all_policies_def)
  then have "p \<in> set (all_policies (km # t)) \<longleftrightarrow> (\<exists>r. (r, p) \<in> set (snd km)) \<or> p \<in> set (all_policies t)" by force
  then show ?case unfolding Cons.IH by (metis list.set_intros(1,2) prod.collapse set_ConsD snd_conv)
qed (simp add: all_policies_def)

lemma all_policies_keys:
  assumes "policies_ok t"
  shows "p \<in> set (all_policies t) \<longleftrightarrow> policy_of t (lp_ContextID p, lp_Recipient p) = Some p"
    and "distinct (map (\<lambda>p. (lp_ContextID p, lp_Recipient p)) (all_policies t))"
proof -
  have ok: "table_ok t" and oks: "\<And>k m. (k, m) \<in> set t \<Longrightarrow> table_ok m"
    using assms table_in_iff [of t] by (auto simp: policies_ok_def)
  have key: "lp_ContextID p = k \<and> lp_Recipient p = r" if "(k, m) \<in> set t" "(r, p) \<in> set m" for k m r p
    using policies_ok_key [OF assms, of "(k, r)" p] that table_in_iff [OF ok] table_in_iff [OF oks [OF that(1)]]
    by (simp add: policy_of_def)
  show "p \<in> set (all_policies t) \<longleftrightarrow> policy_of t (lp_ContextID p, lp_Recipient p) = Some p"
  proof
    assume "p \<in> set (all_policies t)"
    then obtain k m r where km: "(k, m) \<in> set t" "(r, p) \<in> set m" unfolding in_all_policies by blast
    have "map_of t k = Some m" "map_of m r = Some p"
      using km table_in_iff [OF ok] table_in_iff [OF oks [OF km(1)]] by simp_all
    then show "policy_of t (lp_ContextID p, lp_Recipient p) = Some p"
      using key [OF km] by (simp add: policy_of_def)
  next
    assume "policy_of t (lp_ContextID p, lp_Recipient p) = Some p"
    then obtain m where "map_of t (lp_ContextID p) = Some m" "map_of m (lp_Recipient p) = Some p"
      by (auto simp: policy_of_def split: option.splits)
    then have "(lp_ContextID p, m) \<in> set t" "(lp_Recipient p, p) \<in> set m" by (blast dest: map_of_SomeD)+
    then show "p \<in> set (all_policies t)" unfolding in_all_policies by blast
  qed
  have "distinct (map (\<lambda>p. (lp_ContextID p, lp_Recipient p)) (all_policies u))" if "set u \<subseteq> set t" "distinct (map fst u)" for u
    using that
  proof (induction u)
    case (Cons km u)
    obtain k m where km: "km = (k, m)" by (cases km)
    have in_t: "(k, m) \<in> set t" using Cons.prems km by simp
    have m: "map (\<lambda>p. (lp_ContextID p, lp_Recipient p)) (map snd m) = map (\<lambda>(r, p). (k, r)) m"
      using key [OF in_t] by (auto simp: comp_def)
    have dm: "distinct (map (\<lambda>(r, p). (k, r)) m)"
      using oks [OF in_t] by (fastforce simp: table_ok_def distinct_map inj_on_def)
    have du: "distinct (map (\<lambda>p. (lp_ContextID p, lp_Recipient p)) (all_policies u))" using Cons by simp
    have other: "lp_ContextID p \<noteq> k" if p: "p \<in> set (all_policies u)" for p
    proof -
      obtain k' m' r' where u: "(k', m') \<in> set u" "(r', p) \<in> set m'" using p unfolding in_all_policies by blast
      then have "lp_ContextID p = k'" using key Cons.prems(1) by (meson list.set_intros(2) subsetD)
      moreover have "k \<notin> fst ` set u" using Cons.prems(2) km by simp
      ultimately show ?thesis using u(1) by force
    qed
    have "set (map (\<lambda>(r, p). (k, r)) m) \<inter> set (map (\<lambda>p. (lp_ContextID p, lp_Recipient p)) (all_policies u)) = {}"
    proof -
      have "x \<notin> set (map (\<lambda>p. (lp_ContextID p, lp_Recipient p)) (all_policies u))" if "fst x = k" for x
        using that by (auto dest: other)
      moreover have "fst x = k" if "x \<in> set (map (\<lambda>(r, p). (k, r)) m)" for x using that by auto
      ultimately show ?thesis by blast
    qed
    moreover have "map (\<lambda>p. (lp_ContextID p, lp_Recipient p)) (all_policies (km # u)) =
        map (\<lambda>(r, p). (k, r)) m @ map (\<lambda>p. (lp_ContextID p, lp_Recipient p)) (all_policies u)"
      using m by (simp add: km all_policies_def)
    ultimately show ?case using dm du by (simp only: distinct_append)
  qed (simp add: all_policies_def)
  then show "distinct (map (\<lambda>p. (lp_ContextID p, lp_Recipient p)) (all_policies t))"
    using ok by (simp add: table_ok_def)
qed

lemma reload_policies:
  assumes "policies_ok t"
  shows "policy_of (fold insertPolicyLocked (all_policies t) []) = policy_of t"
proof
  fix k
  let ?key = "\<lambda>p. (lp_ContextID p, lp_Recipient p)" and ?ps = "all_policies t"
  note a = all_policies_keys [OF assms]
  have look: "policy_of (fold insertPolicyLocked ?ps []) k =
      (case map_of (map (\<lambda>p. (?key p, p)) ?ps) k of None \<Rightarrow> policy_of [] k | Some p \<Rightarrow> Some p)"
    by (rule fold_insert_lookup) (use a(2) in simp_all)
  have "map_of (map (\<lambda>p. (?key p, p)) ?ps) k = Some p \<longleftrightarrow> policy_of t k = Some p" for p
  proof -
    have "distinct (map fst (map (\<lambda>p. (?key p, p)) ?ps))" using a(2) by (simp add: comp_def)
    then have "map_of (map (\<lambda>p. (?key p, p)) ?ps) k = Some p \<longleftrightarrow> (k, p) \<in> set (map (\<lambda>p. (?key p, p)) ?ps)"
      by (rule map_of_eq_Some_iff)
    also have "\<dots> \<longleftrightarrow> k = ?key p \<and> policy_of t (?key p) = Some p" using a(1) by auto
    finally show ?thesis using policies_ok_key [OF assms, of k p] by (cases k) auto
  qed
  then show "policy_of (fold insertPolicyLocked ?ps []) k = policy_of t k"
    unfolding look by (cases "policy_of t k") (auto simp: policy_of_def split: option.splits)
qed

subsection \<open>Reopening\<close>

lemma decode_policies:
  assumes "np_law P" "encode_all P policyBin_MarshalBinID (policy_records t) = Inr recs"
    and "\<forall>p\<in>set (all_policies t). 0 \<le> lp_Policy p \<and> lp_Policy p < 256"
  shows "map policyFromRecord (decode_all P policyBin_UnmarshalBinID recs) = all_policies t"
proof -
  have "decode_all P policyBin_UnmarshalBinID recs = policy_records t"
    by (rule pbin.decode_encode_all [OF assms(1) _ assms(2)]) simp
  moreover have "policy_records t = map policyToRecord (all_policies t)"
    by (simp add: policy_records_def all_policies_def)
  moreover have "map (policyFromRecord \<circ> policyToRecord) (all_policies t) = all_policies t"
    using assms(3) by (intro map_idI) (simp add: policyFromRecord_To)
  ultimately show ?thesis by simp
qed

text \<open>The names of the three store files of an identity.\<close>

definition identity_files :: "string \<Rightarrow> FileContextStore \<Rightarrow> FileDeliveryStore \<Rightarrow> bool" where
  "identity_files me s d \<longleftrightarrow> contextsFile s = me @ ''.contexts.np'' \<and> policiesFile s = me @ ''.policies.np'' \<and>
     deliveriesFile d = me @ ''.deliveries.np''"

text \<open>What the record formats can hold: versions above zero, policies in one byte, non-empty ciphertexts.\<close>

definition recordable :: "FileContextStore \<Rightarrow> FileDeliveryStore \<Rightarrow> bool" where
  "recordable s d \<longleftrightarrow> tables_ok s \<and> deliveries_ok d \<and>
     (\<forall>k c. map_of (contexts s) k = Some c \<longrightarrow> mc_MetadataVersion c \<noteq> 0) \<and>
     (\<forall>k p. policy_of (policies s) k = Some p \<longrightarrow> 0 \<le> lp_Policy p \<and> lp_Policy p < 256) \<and>
     (\<forall>k x. map_of (deliveries d) k = Some x \<longrightarrow> has_ciphertext x)"

text \<open>The records fit into store files.\<close>

definition fits_on_disk :: "prims \<Rightarrow> FileContextStore \<Rightarrow> FileDeliveryStore \<Rightarrow> bool" where
  "fits_on_disk P s d \<longleftrightarrow>
     (\<exists>cr pr dr. encode_all P MessageContext_MarshalBinID (map snd (contexts s)) = Inr cr \<and> storable cr \<and>
        encode_all P policyBin_MarshalBinID (policy_records (policies s)) = Inr pr \<and> storable pr \<and>
        encode_all P MessageDelivery_MarshalBinID (map snd (deliveries d)) = Inr dr \<and> storable dr)"

lemma reopened_lookup:
  assumes laws: "np_law P" "packet_law K" and rec: "recordable s d" and files: "identity_files me s d"
    and fits: "fits_on_disk P s d"
  shows "\<exists>s1 d1 s2 d2. FileContext_saveLocked P K (SaveDone, SaveDone) s = (None, s1) \<and>
     FileDelivery_saveLocked P K SaveDone (d\<lparr>fd_disk := fc_disk s1\<rparr>) = (None, d1) \<and>
     OpenIdentityStores P K nd JC JP JD io2 io me (fd_disk d1) = Inr (s2, d2) \<and>
     map_of (contexts s2) = map_of (contexts s) \<and> policy_of (policies s2) = policy_of (policies s) \<and>
     map_of (deliveries d2) = map_of (deliveries d) \<and> indexed d2"
proof -
  obtain cr pr dr where enc: "encode_all P MessageContext_MarshalBinID (map snd (contexts s)) = Inr cr"
      "encode_all P policyBin_MarshalBinID (policy_records (policies s)) = Inr pr"
      "encode_all P MessageDelivery_MarshalBinID (map snd (deliveries d)) = Inr dr"
    and st: "storable cr" "storable pr" "storable dr"
    using fits by (auto simp: fits_on_disk_def)
  have ok: "contexts_ok (contexts s)" "policies_ok (policies s)" "deliveries_ok d"
    using rec by (simp_all add: recordable_def tables_ok_def)
  let ?cf = "me @ ''.contexts.np''" and ?pf = "me @ ''.policies.np''" and ?df = "me @ ''.deliveries.np''"
  let ?disk1 = "(fc_disk s)(?cf @ ''.tmp'' := None, ?cf \<mapsto> k_wrap K MessageContextSchemaID (put_records cr),
      ?pf @ ''.tmp'' := None, ?pf \<mapsto> k_wrap K PolicySchemaID (put_records pr))"
  let ?disk = "?disk1(?df @ ''.tmp'' := None, ?df \<mapsto> k_wrap K MessageDeliverySchemaID (put_records dr))"
  have s1: "FileContext_saveLocked P K (SaveDone, SaveDone) s = (None, s\<lparr>fc_disk := ?disk1\<rparr>)"
    using files by (simp add: FileContext_saveLocked_def enc Binstore_Save_done identity_files_def)
  have d1: "FileDelivery_saveLocked P K SaveDone (d\<lparr>fd_disk := ?disk1\<rparr>) = (None, d\<lparr>fd_disk := ?disk\<rparr>)"
    using files by (simp add: FileDelivery_saveLocked_def enc Binstore_Save_done identity_files_def)
  have "Binstore_Load K ?cf MessageContextSchemaID ?disk = Inr cr" "Binstore_Load K ?pf PolicySchemaID ?disk = Inr pr"
    "Binstore_Load K ?df MessageDeliverySchemaID ?disk = Inr dr"
    by (rule Binstore_Load_saved [OF laws(2)]; simp add: st)+
  then have loads: "load_or_missing K ?cf MessageContextSchemaID ?disk = Inr (Some cr)"
    "load_or_missing K ?pf PolicySchemaID ?disk = Inr (Some pr)"
    "load_or_missing K ?df MessageDeliverySchemaID ?disk = Inr (Some dr)"
    by (simp_all add: load_or_missing_def)
  have paths: "npPath (me @ ''.contexts.json'') = ?cf" "npPath (me @ ''.policies.json'') = ?pf"
    "npPath (me @ ''.deliveries.json'') = ?df"
    using npPath_json [of "me @ ''.contexts''"] npPath_json [of "me @ ''.policies''"] npPath_json [of "me @ ''.deliveries''"]
    by simp_all
  have all: "\<forall>p\<in>set (all_policies (policies s)). 0 \<le> lp_Policy p \<and> lp_Policy p < 256"
    using rec all_policies_keys(1) [OF ok(2)] unfolding recordable_def by blast
  have cs: "decode_all P MessageContext_UnmarshalBinID cr = map snd (contexts s)"
    by (rule mctx.decode_encode_all [OF laws(1) _ enc(1)]) simp
  have ps: "map policyFromRecord (decode_all P policyBin_UnmarshalBinID pr) = all_policies (policies s)"
    by (rule decode_policies [OF laws(1) enc(2) all])
  have dok: "table_ok (deliveries d)" "\<forall>k x. map_of (deliveries d) k = Some x \<longrightarrow> md_DeliveryID x = k"
    using ok(3) by (simp_all add: deliveries_ok_def)
  have "\<forall>x\<in>set (map snd (deliveries d)). has_ciphertext x"
    using rec table_in_iff [OF dok(1)] by (auto simp: recordable_def)
  then have ds: "decode_all P (MessageDelivery_UnmarshalBinID nd) dr = map snd (deliveries d)"
    by (rule mdel.decode_encode_all [OF laws(1) _ enc(3)])
  let ?s2 = "\<lparr>contexts = load_contexts (map snd (contexts s)) [], policies = fold insertPolicyLocked (all_policies (policies s)) [],
      contextsFile = ?cf, policiesFile = ?pf, fc_disk = ?disk\<rparr>"
  let ?d0 = "\<lparr>deliveries = [], byMessage = (\<lambda>_. []), byRecipient = (\<lambda>_. []), deliveriesFile = ?df, fd_disk = ?disk\<rparr>"
  let ?d2 = "fold indexLocked (map snd (deliveries d)) ?d0"
  have "NewFileContextStore P K JC JP io2 (me @ ''.contexts.json'') (me @ ''.policies.json'') ?disk = Inr ?s2"
    using loads(1,2) by (simp add: NewFileContextStore_def FileContext_load_def paths cs ps Let_def)
  moreover have "NewFileDeliveryStore P K nd JD io (me @ ''.deliveries.json'') ?disk = Inr ?d2"
    using loads(3) by (simp add: NewFileDeliveryStore_def paths ds Let_def)
  ultimately have opened: "OpenIdentityStores P K nd JC JP JD io2 io me ?disk = Inr (?s2, ?d2)"
    by (simp add: OpenIdentityStores_def)
  have "map_of (contexts ?s2) = map_of (contexts s)"
    using load_contexts_same [OF ok(1)] rec by (simp add: recordable_def)
  moreover have "policy_of (policies ?s2) = policy_of (policies s)"
    using reload_policies [OF ok(2)] by simp
  moreover have "map_of (deliveries ?d2) = map_of (deliveries d)"
    using fold_indexLocked [of "map snd (deliveries d)" ?d0] self_keyed [OF dok] by simp
  moreover have "indexed ?d2" by (rule indexed_fold) (simp add: indexed_def)
  ultimately show ?thesis using s1 d1 opened by (intro exI conjI) (assumption | simp)+
qed

text \<open>
  C21.  Saving the group stores of an identity and opening them again restores every descriptor, every
  recipient policy and every delivery, under the file names all callers use; and the listings of the reopened
  delivery store show exactly the deliveries of a message or recipient.
\<close>

theorem group_stores_reload:
  assumes "np_law P" "packet_law K" "recordable s d" "identity_files me s d" "fits_on_disk P s d"
  shows "\<exists>s1 d1 s2 d2. FileContext_saveLocked P K (SaveDone, SaveDone) s = (None, s1) \<and>
     FileDelivery_saveLocked P K SaveDone (d\<lparr>fd_disk := fc_disk s1\<rparr>) = (None, d1) \<and>
     OpenIdentityStores P K nd JC JP JD io2 io me (fd_disk d1) = Inr (s2, d2) \<and>
     (\<forall>cid. File_LoadContext cid s2 = File_LoadContext cid s) \<and>
     (\<forall>cid r. File_LoadPolicy cid r s2 = File_LoadPolicy cid r s) \<and>
     (\<forall>did. File_LoadDelivery did d2 = File_LoadDelivery did d) \<and>
     (\<forall>m x. x \<in> set (File_ListDeliveriesByMessage m d2) \<longleftrightarrow> (\<exists>did. File_LoadDelivery did d = Inr x \<and> md_MessageID x = m)) \<and>
     (\<forall>r x. x \<in> set (File_ListDeliveriesByRecipient r d2) \<longleftrightarrow> (\<exists>did. File_LoadDelivery did d = Inr x \<and> md_Recipient x = r))"
proof -
  obtain s1 d1 s2 d2 where run: "FileContext_saveLocked P K (SaveDone, SaveDone) s = (None, s1)"
      "FileDelivery_saveLocked P K SaveDone (d\<lparr>fd_disk := fc_disk s1\<rparr>) = (None, d1)"
      "OpenIdentityStores P K nd JC JP JD io2 io me (fd_disk d1) = Inr (s2, d2)"
    and same: "map_of (contexts s2) = map_of (contexts s)" "policy_of (policies s2) = policy_of (policies s)"
      "map_of (deliveries d2) = map_of (deliveries d)" and idx: "indexed d2"
    using reopened_lookup [OF assms, of nd JC JP JD io2 io] by blast
  have load: "File_LoadDelivery did d = Inr x \<longleftrightarrow> map_of (deliveries d) did = Some x" for did x
    by (simp add: File_LoadDelivery_def split: option.split)
  have "x \<in> set (File_ListDeliveriesByMessage m d2) \<longleftrightarrow> (\<exists>did. File_LoadDelivery did d = Inr x \<and> md_MessageID x = m)" for x m
    using listed_indexed(1) [OF idx] by (simp add: File_ListDeliveriesByMessage_def load same)
  moreover have "x \<in> set (File_ListDeliveriesByRecipient r d2) \<longleftrightarrow> (\<exists>did. File_LoadDelivery did d = Inr x \<and> md_Recipient x = r)" for x r
    using listed_indexed(2) [OF idx] by (simp add: File_ListDeliveriesByRecipient_def load same)
  moreover have "File_LoadContext cid s2 = File_LoadContext cid s" "File_LoadPolicy cid r s2 = File_LoadPolicy cid r s"
    "File_LoadDelivery did d2 = File_LoadDelivery did d" for cid r did
    by (simp_all add: File_LoadContext_def File_LoadPolicy_eq File_LoadDelivery_def same)
  ultimately show ?thesis using run by blast
qed

definition toy_ctx_store :: FileContextStore where
  "toy_ctx_store = \<lparr>contexts = [(''ctx'', toy_context ''team'' 1 7)],
     policies = [(''ctx'', [(''bob'', \<lparr>lp_ContextID = ''ctx'', lp_Recipient = ''bob'', lp_Policy = 2, lp_UpdatedAt = 5\<rparr>)])],
     contextsFile = ''me.contexts.np'', policiesFile = ''me.policies.np'', fc_disk = Map.empty\<rparr>"

definition toy_delivery :: MessageDelivery where
  "toy_delivery = \<lparr>md_DeliveryID = ''d1'', md_MessageID = ''m1'', md_Recipient = ''bob'', md_ChannelID = ''bob'',
     md_Ciphertext = Some [1, 2], md_ContextID = ''ctx'', md_Timestamp = 9\<rparr>"

definition toy_del_store :: FileDeliveryStore where
  "toy_del_store = \<lparr>deliveries = [(''d1'', toy_delivery)], byMessage = (\<lambda>_. []), byRecipient = (\<lambda>_. []),
     deliveriesFile = ''me.deliveries.np'', fd_disk = Map.empty\<rparr>"

lemma storable_single: "length b < 2 ^ 14 \<Longrightarrow> storable [b]"
  using length_put_uvarint [of "length b" 2]
  by (simp add: storable_def slice_header_def max_alloc_def put_records_def put_uvarint.simps [of "Suc 0"])

lemma toy_fits: "fits_on_disk tight toy_ctx_store toy_del_store"
proof -
  obtain b where b: "MarshalFastID tight MessageContext_MarshalBinID (toy_context ''team'' 1 7) = Inr b" "length b \<le> 255"
    using length_context_bin [of "''team''" 1 7] by auto
  then have "storable [b]" by (intro storable_single) simp
  moreover obtain p where "MarshalFastID tight policyBin_MarshalBinID (policyToRecord
      \<lparr>lp_ContextID = ''ctx'', lp_Recipient = ''bob'', lp_Policy = 2, lp_UpdatedAt = 5\<rparr>) = Inr p" "length p < 2 ^ 14"
    by (simp add: MarshalFastID_def tight_def tight_enc_def policyBin_MarshalBinID_def policyToRecord_def length_chunked)
  moreover obtain d where "MarshalFastID tight MessageDelivery_MarshalBinID toy_delivery = Inr d" "length d < 2 ^ 14"
    by (simp add: MarshalFastID_def tight_def tight_enc_def MessageDelivery_MarshalBinID_def toy_delivery_def
        slice_bytes_def length_chunked)
  ultimately show ?thesis using b(1) storable_single [of p] storable_single [of d]
    by (simp add: fits_on_disk_def toy_ctx_store_def toy_del_store_def policy_records_def)
qed

lemma toy_recordable: "recordable toy_ctx_store toy_del_store"
  by (auto simp: recordable_def tables_ok_def contexts_ok_def policies_ok_def policy_of_def deliveries_ok_def
      toy_ctx_store_def toy_del_store_def toy_delivery_def has_ciphertext_def slice_bytes_def split: if_splits option.splits)

theorem group_stores_reload_witness:
  "\<exists>s1 d1 s2 d2. FileContext_saveLocked tight toy_packets (SaveDone, SaveDone) toy_ctx_store = (None, s1) \<and>
     FileDelivery_saveLocked tight toy_packets SaveDone (toy_del_store\<lparr>fd_disk := fc_disk s1\<rparr>) = (None, d1) \<and>
     OpenIdentityStores tight toy_packets True (\<lambda>_. None) (\<lambda>_. None) (\<lambda>_. None) (SaveDone, SaveDone) SaveDone ''me'' (fd_disk d1) = Inr (s2, d2) \<and>
     File_LoadContext ''ctx'' s2 = Inr (toy_context ''team'' 1 7) \<and> File_LoadDelivery ''d1'' d2 = Inr toy_delivery"
proof -
  have "identity_files ''me'' toy_ctx_store toy_del_store"
    by (simp add: identity_files_def toy_ctx_store_def toy_del_store_def)
  from group_stores_reload [OF tight_laws(4) toy_packet_law toy_recordable this toy_fits,
      of True "\<lambda>_. None" "\<lambda>_. None" "\<lambda>_. None" "(SaveDone, SaveDone)" SaveDone]
  obtain s1 d1 s2 d2 where "FileContext_saveLocked tight toy_packets (SaveDone, SaveDone) toy_ctx_store = (None, s1)"
      "FileDelivery_saveLocked tight toy_packets SaveDone (toy_del_store\<lparr>fd_disk := fc_disk s1\<rparr>) = (None, d1)"
      "OpenIdentityStores tight toy_packets True (\<lambda>_. None) (\<lambda>_. None) (\<lambda>_. None) (SaveDone, SaveDone) SaveDone ''me'' (fd_disk d1) = Inr (s2, d2)"
      "\<forall>cid. File_LoadContext cid s2 = File_LoadContext cid toy_ctx_store"
      "\<forall>did. File_LoadDelivery did d2 = File_LoadDelivery did toy_del_store"
    by (elim exE conjE) (rule that; assumption)
  moreover have "File_LoadContext ''ctx'' toy_ctx_store = Inr (toy_context ''team'' 1 7)"
    "File_LoadDelivery ''d1'' toy_del_store = Inr toy_delivery"
    by (simp_all add: File_LoadContext_def File_LoadDelivery_def toy_ctx_store_def toy_del_store_def)
  ultimately show ?thesis by (intro exI conjI) (assumption | simp)+
qed

text \<open>
  C20.  The file-backed context store never goes back: along any sequence of saves, deletions and policy
  changes, whatever becomes of the writes, a known group that is not deleted stays known and its descriptor is either
  unchanged or replaced by one with a strictly higher version; a save that is not newer is refused and changes nothing.  Only
  deleting the group forgets its version: then it is unknown, whatever becomes of the writes.
\<close>

theorem context_versions_monotone:
  assumes "File_LoadContext cid s = Inr c0"
  shows "(list_ex (deletes cid) ops \<or>
          (\<exists>c1. File_LoadContext cid (fold (run_op (FileContexts P K)) ops s) = Inr c1 \<and>
            (c1 = c0 \<or> mc_MetadataVersion c0 < mc_MetadataVersion c1))) \<and>
         (mc_ContextID c = cid \<and> mc_MetadataVersion c \<le> mc_MetadataVersion c0 \<longrightarrow>
            File_SaveContext P K io c s = (Some (StaleContext (mc_MetadataVersion c) (mc_MetadataVersion c0)), s)) \<and>
         File_LoadContext cid (snd (File_DeleteContext P K io gone s)) = (if gone = cid then Inl ErrContextNotFound else Inr c0)"
  using fctx.run_monotone [of P K cid s c0 ops] fctx.stale_refused [of P K c s c0 io] assms
  by (auto simp: FileContexts_def File_DeleteContext_def File_LoadContext_def)

theorem context_versions_monotone_witness:
  "\<exists>c1. File_LoadContext ''ctx'' (fold (run_op (FileContexts tight toy_packets))
        [OpDeleteContext (SaveDone, SaveDone) ''other'', OpSaveContext (SaveRenameFails, SaveDone) (toy_context ''other'' 3 7)] toy_ctx_store) = Inr c1 \<and>
     (c1 = toy_context ''team'' 1 7 \<or> 1 < mc_MetadataVersion c1)"
  using context_versions_monotone [of "''ctx''" toy_ctx_store "toy_context ''team'' 1 7"
      "[OpDeleteContext (SaveDone, SaveDone) ''other'', OpSaveContext (SaveRenameFails, SaveDone) (toy_context ''other'' 3 7)]" tight toy_packets]
  by (auto simp: File_LoadContext_def toy_ctx_store_def)

end
