(* ===== verification/StoreRefine.thy ===== *)
theory StoreRefine
  imports StoreReload
begin

text \<open>
  What the context store promises its callers, as an abstract book of groups: two finite maps, one from a context ID to
  its descriptor and one from a context ID and a recipient to the local policy.  Every operation of a store that
  satisfies the contract is simulated by the operation of the book, and every answer is the answer of the book.
\<close>

record group_book =
  gb_contexts :: "string \<rightharpoonup> MessageContext"
  gb_policies :: "string \<times> string \<rightharpoonup> LocalRecipientPolicy"

datatype book_call =
    BookSave two_writes MessageContext
  | BookDelete two_writes string
  | BookPolicy two_writes LocalRecipientPolicy
  | BookDropPolicy two_writes string string

definition not_newer :: "MessageContext \<Rightarrow> group_book \<Rightarrow> bool" where
  "not_newer c b \<longleftrightarrow> (\<exists>c0. gb_contexts b (mc_ContextID c) = Some c0 \<and> mc_MetadataVersion c \<le> mc_MetadataVersion c0)"

fun book_step :: "book_call \<Rightarrow> group_book \<Rightarrow> group_book" where
  "book_step (BookSave io c) b =
     (if not_newer c b then b else b\<lparr>gb_contexts := (gb_contexts b)(mc_ContextID c \<mapsto> c)\<rparr>)"
| "book_step (BookDelete io cid) b =
     b\<lparr>gb_contexts := (gb_contexts b)(cid := None), gb_policies := (\<lambda>k. if fst k = cid then None else gb_policies b k)\<rparr>"
| "book_step (BookPolicy io p) b = b\<lparr>gb_policies := (gb_policies b)((lp_ContextID p, lp_Recipient p) \<mapsto> p)\<rparr>"
| "book_step (BookDropPolicy io cid r) b = b\<lparr>gb_policies := (gb_policies b)((cid, r) := None)\<rparr>"

fun call_step :: "'c ContextStore \<Rightarrow> book_call \<Rightarrow> 'c \<Rightarrow> 'c" where
  "call_step S (BookSave io c) s = snd (cs_SaveContext S io c s)"
| "call_step S (BookDelete io cid) s = snd (cs_DeleteContext S io cid s)"
| "call_step S (BookPolicy io p) s = snd (cs_SavePolicy S io p s)"
| "call_step S (BookDropPolicy io cid r) s = snd (cs_DeletePolicy S io cid r s)"

definition result_option :: "'e + 'a \<Rightarrow> 'a option" where
  "result_option r = (case r of Inl _ \<Rightarrow> None | Inr x \<Rightarrow> Some x)"

definition book_of :: "'c ContextStore \<Rightarrow> 'c \<Rightarrow> group_book" where
  "book_of S s = \<lparr>gb_contexts = (\<lambda>cid. result_option (cs_LoadContext S cid s)),
                  gb_policies = (\<lambda>k. result_option (cs_LoadPolicy S (fst k) (snd k) s))\<rparr>"

lemma result_option_simps [simp]: "result_option (Inl e) = None" "result_option (Inr x) = Some x"
  by (simp_all add: result_option_def)

text \<open>The file-backed store keeps a newer descriptor in memory also when the write of the file fails.\<close>

locale book_contexts = versioned_contexts +
  assumes fresh_kept: "(\<And>c0. cs_LoadContext S (mc_ContextID c) s = Inr c0 \<Longrightarrow> mc_MetadataVersion c0 < mc_MetadataVersion c) \<Longrightarrow>
      cs_LoadContext S (mc_ContextID c) (snd (cs_SaveContext S io c s)) = Inr c"
begin

lemma call_step_valid: "valid s \<Longrightarrow> valid (call_step S q s)"
  by (cases q) (simp_all add: save_valid delete_valid policy_valid drop_valid)

lemma save_contexts:
  "result_option (cs_LoadContext S cid (snd (cs_SaveContext S io c s))) =
     gb_contexts (book_step (BookSave io c) (book_of S s)) cid"
proof (cases "not_newer c (book_of S s)")
  case True
  then obtain c0 where c0: "cs_LoadContext S (mc_ContextID c) s = Inr c0" "mc_MetadataVersion c \<le> mc_MetadataVersion c0"
    by (auto simp: not_newer_def book_of_def result_option_def split: sum.splits)
  then have "snd (cs_SaveContext S io c s) = s" by (simp add: stale_refused)
  then show ?thesis using True by (simp add: book_of_def)
next
  case False
  then have new: "cs_LoadContext S (mc_ContextID c) (snd (cs_SaveContext S io c s)) = Inr c"
    by (intro fresh_kept) (auto simp: not_newer_def book_of_def not_le)
  show ?thesis
  proof (cases "cid = mc_ContextID c")
    case True
    then show ?thesis using new False by simp
  next
    case other: False
    then have "cs_LoadContext S cid (snd (cs_SaveContext S io c s)) = cs_LoadContext S cid s" using save_either by blast
    then show ?thesis using other False by (simp add: book_of_def)
  qed
qed

lemma simulated: "book_of S (call_step S q s) = book_step q (book_of S s)"
proof (cases q)
  case (BookSave io c)
  then show ?thesis using save_contexts by (simp add: book_of_def save_policies fun_eq_iff)
qed (auto simp: book_of_def delete_loads delete_policies policy_loads policy_contexts drop_loads drop_contexts fun_eq_iff)

lemma run_simulated: "book_of S (fold (call_step S) qs s) = fold book_step qs (book_of S s)"
  by (induction qs arbitrary: s) (simp_all add: simulated)

lemma run_valid: "valid s \<Longrightarrow> valid (fold (call_step S) qs s)"
  by (induction qs arbitrary: s) (simp_all add: call_step_valid)

lemma listing:
  assumes "valid s"
  shows "cs_ListPolicies S cid s =
    map (\<lambda>r. the (gb_policies (book_of S s) (cid, r))) (sorted_list_of_set {r. gb_policies (book_of S s) (cid, r) \<noteq> None})"
proof -
  let ?l = "cs_ListPolicies S cid s" and ?R = "{r. gb_policies (book_of S s) (cid, r) \<noteq> None}"
  have val: "the (gb_policies (book_of S s) (cid, lp_Recipient p)) = p" if "p \<in> set ?l" for p
    using that policy_list [OF assms] by (simp add: book_of_def)
  have "set (map lp_Recipient ?l) = ?R"
  proof
    show "set (map lp_Recipient ?l) \<subseteq> ?R" using policy_list [OF assms] by (auto simp: book_of_def)
    show "?R \<subseteq> set (map lp_Recipient ?l)"
    proof
      fix r assume "r \<in> ?R"
      then obtain p where p: "cs_LoadPolicy S cid r s = Inr p" by (auto simp: book_of_def result_option_def split: sum.splits)
      then have "lp_Recipient p = r" using policy_key [OF assms] by blast
      then show "r \<in> set (map lp_Recipient ?l)" using p policy_list [OF assms, of p cid] by auto
    qed
  qed
  then have "sorted_list_of_set ?R = map lp_Recipient ?l"
    using policy_list_sorted [OF assms, of cid] sorted_list_of_set.idem_if_sorted_distinct by metis
  then show ?thesis using val by (simp add: map_idI)
qed

lemma stale_answer:
  "gb_contexts (book_of S s) (mc_ContextID c) = Some c0 \<Longrightarrow> mc_MetadataVersion c \<le> mc_MetadataVersion c0 \<Longrightarrow>
   fst (cs_SaveContext S io c s) = Some (StaleContext (mc_MetadataVersion c) (mc_MetadataVersion c0))"
  by (auto simp: book_of_def result_option_def stale_refused split: sum.splits)

lemma load_answer:
  "cs_LoadContext S cid s = (case gb_contexts (book_of S s) cid of None \<Rightarrow> Inl ErrContextNotFound | Some c \<Rightarrow> Inr c)"
  "cs_LoadPolicy S cid r s = (case gb_policies (book_of S s) (cid, r) of None \<Rightarrow> Inl ErrPolicyNotFound | Some p \<Rightarrow> Inr p)"
  using context_missing [of cid s] policy_missing [of cid r s]
  by (cases "cs_LoadContext S cid s"; simp add: book_of_def; fail)
    (cases "cs_LoadPolicy S cid r s"; use policy_missing [of cid r s] in \<open>simp add: book_of_def\<close>)

end

interpretation fbook: book_contexts "FileContexts P K" tables_ok for P K
  by unfold_locales (auto simp: FileContexts_def File_SaveContext_def File_LoadContext_def Let_def
      split: option.splits if_splits)

text \<open>
  C19.  The file-backed store of groups refines the abstract book: after any sequence of saves,
  deletions and policy changes, with any outcome of the writes, its content is what the book holds after the same
  sequence, where a descriptor is replaced only by a newer version; every load answers from the book, a save of an old
  version is refused, and the list of policies is that of the book, ordered by recipient.
\<close>

theorem group_store_refines:
  assumes "tables_ok s"
    and s': "s' = fold (call_step (FileContexts P K)) calls s"
    and b': "b' = fold book_step calls (book_of (FileContexts P K) s)"
  shows "book_of (FileContexts P K) s' = b' \<and>
     File_LoadContext cid s' = (case gb_contexts b' cid of None \<Rightarrow> Inl ErrContextNotFound | Some c \<Rightarrow> Inr c) \<and>
     File_LoadPolicy cid r s' = (case gb_policies b' (cid, r) of None \<Rightarrow> Inl ErrPolicyNotFound | Some p \<Rightarrow> Inr p) \<and>
     File_ListPolicies cid s' = map (\<lambda>r. the (gb_policies b' (cid, r))) (sorted_list_of_set {r. gb_policies b' (cid, r) \<noteq> None}) \<and>
     (\<forall>c0. gb_contexts b' (mc_ContextID c) = Some c0 \<and> mc_MetadataVersion c \<le> mc_MetadataVersion c0 \<longrightarrow>
        fst (File_SaveContext P K io c s') = Some (StaleContext (mc_MetadataVersion c) (mc_MetadataVersion c0)))"
proof -
  have b: "book_of (FileContexts P K) s' = b'" unfolding s' b' by (rule fbook.run_simulated)
  have v: "tables_ok s'" unfolding s' by (rule fbook.run_valid [OF assms(1)])
  have ops: "cs_LoadContext (FileContexts P K) = File_LoadContext" "cs_LoadPolicy (FileContexts P K) = File_LoadPolicy"
    "cs_ListPolicies (FileContexts P K) = File_ListPolicies" "cs_SaveContext (FileContexts P K) = File_SaveContext P K"
    by (simp_all add: FileContexts_def)
  show ?thesis
    using b fbook.load_answer(1) [of P K cid s'] fbook.load_answer(2) [of P K cid r s'] fbook.listing [OF v, of P K cid]
      fbook.stale_answer [of P K s' c _ io]
    unfolding ops b by auto
qed

definition toy_calls :: "book_call list" where
  "toy_calls = [BookSave (SaveRenameFails, SaveDone) (toy_context ''other'' 3 7), BookSave (SaveDone, SaveDone) (toy_context ''old'' 2 7),
     BookDropPolicy (SaveDone, SaveDone) ''ctx'' ''bob'']"

lemma toy_book: "fold book_step toy_calls (book_of (FileContexts P K) toy_ctx_store) =
    \<lparr>gb_contexts = [''ctx'' \<mapsto> toy_context ''other'' 3 7], gb_policies = Map.empty\<rparr>"
  by (auto simp: toy_calls_def book_of_def FileContexts_def File_LoadContext_def File_LoadPolicy_def toy_ctx_store_def
      not_newer_def word_le_nat_alt fun_eq_iff split: option.splits)

theorem group_store_refines_witness:
  "tables_ok toy_ctx_store \<and>
   File_LoadContext ''ctx'' (fold (call_step (FileContexts tight toy_packets)) toy_calls toy_ctx_store) = Inr (toy_context ''other'' 3 7) \<and>
   File_ListPolicies ''ctx'' (fold (call_step (FileContexts tight toy_packets)) toy_calls toy_ctx_store) = [] \<and>
   fst (File_SaveContext tight toy_packets (SaveDone, SaveDone) (toy_context ''old'' 2 7)
     (fold (call_step (FileContexts tight toy_packets)) toy_calls toy_ctx_store)) = Some (StaleContext 2 3)"
proof -
  have ok: "tables_ok toy_ctx_store"
    by (auto simp: tables_ok_def toy_ctx_store_def contexts_ok_def policies_ok_def table_ok_def policy_of_def
        split: if_splits option.splits)
  show ?thesis
    using ok group_store_refines [OF ok refl refl, of tight toy_packets toy_calls "''ctx''" "''bob''"
        "toy_context ''old'' 2 7" "(SaveDone, SaveDone)"]
    unfolding toy_book by auto
qed

end
