(* ===== verification/Fanout.thy ===== *)
theory Fanout
  imports StoreReload Clients
begin

text \<open>
  Group messages, part four (\<^verbatim>\<open>src/internal/multimsg/fanout.go\<close>): one plaintext, one ciphertext per recipient
  through the sessions of the client, and the way back.

  The two stores are reached through their interface records.  The relay is a parameter: whether a \<^verbatim>\<open>Send\<close>
  succeeds may depend on everything attempted before, so it is a function of the log of attempts, which is part
  of the state.  Random draws, the clock and the outcomes of writes are arguments.
\<close>

subsection \<open>State\<close>

type_synonym send_log = "(bytes \<times> bytes \<times> bool) list"

type_synonym network = "send_log \<Rightarrow> bytes \<Rightarrow> bytes \<Rightarrow> bool"

record ('c, 'd) Fanout =
  fo_client :: Client
  fo_relay :: bool
  CtxStore :: 'c
  deliveryStore :: 'd
  fo_config :: FanoutConfig
  seenDeliveries :: "string \<Rightarrow> bool"
  seenMessages :: "string \<times> string \<Rightarrow> bool"
  attempts :: send_log

datatype fanout_error =
    FanStore multi_error | FanContext context_error | FanWire wire_error | FanClient client_error | FanCrypto crypto_error
  | FanPeer relay_error | OnlyCreator | VersionOverflow | NilRemote | VersionZero | StaleRemote "64 word" "64 word"
  | NoEffectiveRecipients | NoDeliveries | NoSessionWith string | SendFailed string
  | SenderMismatch string string | OtherRecipient string | Duplicate

definition NewFanout ::
  "Client \<Rightarrow> bool \<Rightarrow> 'c \<Rightarrow> 'd \<Rightarrow> FanoutConfig \<Rightarrow> send_log \<Rightarrow> ('c, 'd) Fanout" where
  "NewFanout cl r ctxStore dlvStore config sent_before =
     \<lparr>fo_client = cl, fo_relay = r, CtxStore = ctxStore, deliveryStore = dlvStore,
      fo_config = (if MaxRetries config = 0 then DefaultFanoutConfig else config),
      seenDeliveries = (\<lambda>_. False), seenMessages = (\<lambda>_. False), attempts = sent_before\<rparr>"

definition IsDeliverySeen :: "string \<Rightarrow> ('c, 'd) Fanout \<Rightarrow> bool" where
  "IsDeliverySeen did f = seenDeliveries f did"

definition MarkDeliverySeen :: "string \<Rightarrow> ('c, 'd) Fanout \<Rightarrow> bool \<times> ('c, 'd) Fanout" where
  "MarkDeliverySeen did f =
     (if seenDeliveries f did then (False, f) else (True, f\<lparr>seenDeliveries := (seenDeliveries f)(did := True)\<rparr>))"

subsection \<open>Contexts and policies\<close>

definition sign_and_save ::
  "prims \<Rightarrow> 'c ContextStore \<Rightarrow> two_writes \<Rightarrow> bytes \<Rightarrow> MessageContext \<Rightarrow> ('c, 'd) Fanout \<Rightarrow>
   (fanout_error + MessageContext) \<times> ('c, 'd) Fanout" where
  "sign_and_save P S io creatorPriv c f =
     (case SignContext P creatorPriv c of
        Inl e \<Rightarrow> (Inl (FanContext e), f)
      | Inr ctx \<Rightarrow>
          (case cs_SaveContext S io ctx (CtxStore f) of
             (Some e, s) \<Rightarrow> (Inl (FanStore e), f\<lparr>CtxStore := s\<rparr>)
           | (None, s) \<Rightarrow> (Inr ctx, f\<lparr>CtxStore := s\<rparr>)))"

definition CreateContext ::
  "prims \<Rightarrow> 'c ContextStore \<Rightarrow> two_writes \<Rightarrow> bytes \<Rightarrow> string \<Rightarrow> bytes \<Rightarrow> ('c, 'd) Fanout \<Rightarrow>
   (fanout_error + MessageContext) \<times> ('c, 'd) Fanout" where
  "CreateContext P S io coins displayName creatorPriv f =
     sign_and_save P S io creatorPriv
       \<lparr>mc_ContextID = GenerateContextID coins, mc_DisplayName = displayName, mc_MetadataVersion = 1,
        mc_CreatorID = cl_Id (fo_client f), mc_Signature = []\<rparr> f"

definition UpdateContext ::
  "prims \<Rightarrow> 'c ContextStore \<Rightarrow> two_writes \<Rightarrow> string \<Rightarrow> string \<Rightarrow> bytes \<Rightarrow> ('c, 'd) Fanout \<Rightarrow>
   (fanout_error + MessageContext) \<times> ('c, 'd) Fanout" where
  "UpdateContext P S io contextID newDisplayName creatorPriv f =
     (case cs_LoadContext S contextID (CtxStore f) of
        Inl e \<Rightarrow> (Inl (FanStore e), f)
      | Inr stored \<Rightarrow>
          if mc_CreatorID stored \<noteq> cl_Id (fo_client f) then (Inl OnlyCreator, f)
          else
            let newVersion = mc_MetadataVersion stored + 1 in
            if newVersion \<le> mc_MetadataVersion stored then (Inl VersionOverflow, f)
            else sign_and_save P S io creatorPriv
                   \<lparr>mc_ContextID = mc_ContextID stored, mc_DisplayName = newDisplayName, mc_MetadataVersion = newVersion,
                    mc_CreatorID = mc_CreatorID stored, mc_Signature = []\<rparr> f)"

definition ApplyRemoteContext ::
  "prims \<Rightarrow> 'c ContextStore \<Rightarrow> two_writes \<Rightarrow> MessageContext option \<Rightarrow> ('c, 'd) Fanout \<Rightarrow>
   fanout_error option \<times> ('c, 'd) Fanout" where
  "ApplyRemoteContext P S io remote f =
     (case remote of
        None \<Rightarrow> (Some NilRemote, f)
      | Some c \<Rightarrow>
          if mc_MetadataVersion c = 0 then (Some VersionZero, f)
          else
            let verified =
              (case VerifyContextSignature P (Some c) of
                 Some e \<Rightarrow> (Some (FanContext e), f)
               | None \<Rightarrow>
                   (case cs_SaveContext S io c (CtxStore f) of (e, s) \<Rightarrow> (map_option FanStore e, f\<lparr>CtxStore := s\<rparr>)))
            in case cs_LoadContext S (mc_ContextID c) (CtxStore f) of
                 Inr stored \<Rightarrow>
                   if mc_MetadataVersion c \<le> mc_MetadataVersion stored
                   then (Some (StaleRemote (mc_MetadataVersion c) (mc_MetadataVersion stored)), f) else verified
               | Inl _ \<Rightarrow> verified)"

definition SetRecipientPolicy ::
  "'c ContextStore \<Rightarrow> two_writes \<Rightarrow> 64 word \<Rightarrow> string \<Rightarrow> string \<Rightarrow> RecipientPolicy \<Rightarrow> ('c, 'd) Fanout \<Rightarrow>
   fanout_error option \<times> ('c, 'd) Fanout" where
  "SetRecipientPolicy S io now contextID recipient policy f =
     (case cs_SavePolicy S io \<lparr>lp_ContextID = contextID, lp_Recipient = recipient, lp_Policy = policy, lp_UpdatedAt = now\<rparr>
             (CtxStore f) of
        (e, s) \<Rightarrow> (map_option FanStore e, f\<lparr>CtxStore := s\<rparr>))"

definition GetRecipientPolicy :: "'c ContextStore \<Rightarrow> string \<Rightarrow> string \<Rightarrow> ('c, 'd) Fanout \<Rightarrow> RecipientPolicy" where
  "GetRecipientPolicy S contextID recipient f =
     (case cs_LoadPolicy S contextID recipient (CtxStore f) of Inl _ \<Rightarrow> PolicyEnabled | Inr lp \<Rightarrow> lp_Policy lp)"

definition ListRecipientPolicies :: "'c ContextStore \<Rightarrow> string \<Rightarrow> ('c, 'd) Fanout \<Rightarrow> LocalRecipientPolicy list" where
  "ListRecipientPolicies S contextID f = cs_ListPolicies S contextID (CtxStore f)"

definition policy_map :: "LocalRecipientPolicy list \<Rightarrow> string \<Rightarrow> RecipientPolicy" where
  "policy_map ps = fold (\<lambda>p m. m(lp_Recipient p := lp_Policy p)) ps (\<lambda>_. PolicyEnabled)"

definition GetEffectiveRecipients :: "'c ContextStore \<Rightarrow> string \<Rightarrow> string list \<Rightarrow> ('c, 'd) Fanout \<Rightarrow> string list" where
  "GetEffectiveRecipients S contextID allRecipients f =
     (let policyMap = policy_map (ListRecipientPolicies S contextID f)
      in filter (\<lambda>r. \<not> (policyMap r = PolicyBlocked \<or> policyMap r = PolicyExcluded)) allRecipients)"

subsection \<open>Sending\<close>

definition encryptWithAAD ::
  "prims \<Rightarrow> bytes \<Rightarrow> string \<Rightarrow> bytes \<Rightarrow> bytes \<Rightarrow> MessageContext \<Rightarrow> SecurePeer \<Rightarrow> (fanout_error + bytes) \<times> SecurePeer" where
  "encryptWithAAD P rnd senderID plaintext aad msgCtx sp =
     (case wrapPayloadV2 P aad (Some msgCtx) plaintext of
        Inl e \<Rightarrow> (Inl (FanWire e), sp)
      | Inr wrapped \<Rightarrow>
          (case Encrypt P rnd senderID wrapped sp of
             (Inl e, sp') \<Rightarrow> (Inl (FanCrypto e), sp')
           | (Inr w, sp') \<Rightarrow> (Inr w, sp')))"

text \<open>What one round of the loop draws: the delivery ID, the ratchet key, and the fate of the store write.\<close>

record draw =
  dw_id :: bytes
  dw_key :: bytes
  dw_io :: save_io

record 'd send_state =
  ss_results :: "fanout_error DeliveryResult list"
  ss_deliveries :: "MessageDelivery list"
  ss_client :: Client
  ss_store :: 'd

definition send_one ::
  "prims \<Rightarrow> 'd DeliveryStore \<Rightarrow> bool \<Rightarrow> string \<Rightarrow> MessageContext \<Rightarrow> string \<Rightarrow> bytes \<Rightarrow> 64 word \<Rightarrow>
   draw \<times> string \<Rightarrow> 'd send_state \<Rightarrow> 'd send_state" where
  "send_one P D skipOffline msgID msgCtx contextID plaintext timestamp dr s =
     (let (dw, recipient) = dr;
          deliveryID = GenerateDeliveryID (dw_id dw);
          cl = ss_client s;
          aad = buildDeliveryAAD msgID (mc_ContextID msgCtx) (cl_Id cl) recipient (mc_MetadataVersion msgCtx);
          failed = (\<lambda>e. \<lparr>dr_DeliveryID = deliveryID, dr_Recipient = recipient, dr_Status = DeliveryFailed,
                          dr_Error = Some e, dr_Ciphertext = None\<rparr>);
          delivery = (\<lambda>channel ct. \<lparr>md_DeliveryID = deliveryID, md_MessageID = msgID, md_Recipient = recipient,
                        md_ChannelID = channel, md_Ciphertext = ct, md_ContextID = contextID, md_Timestamp = timestamp\<rparr>)
      in case (case map_of (Sessions cl) recipient of
                 None \<Rightarrow> None
               | Some a \<Rightarrow> (case heap cl a of None \<Rightarrow> None | Some sp \<Rightarrow> Some (a, sp))) of
           None \<Rightarrow>
             if skipOffline then s\<lparr>ss_results := ss_results s @ [failed (NoSessionWith recipient)]\<rparr>
             else s\<lparr>ss_deliveries := ss_deliveries s @ [delivery ''pending'' None],
                    ss_results := ss_results s @
                      [\<lparr>dr_DeliveryID = deliveryID, dr_Recipient = recipient, dr_Status = DeliveryPending,
                        dr_Error = None, dr_Ciphertext = None\<rparr>]\<rparr>
         | Some (a, sp) \<Rightarrow>
             (case encryptWithAAD P (dw_key dw) (cl_Id cl) plaintext aad msgCtx sp of
                (Inl e, sp') \<Rightarrow>
                  s\<lparr>ss_client := cl\<lparr>heap := (heap cl)(a \<mapsto> sp')\<rparr>, ss_results := ss_results s @ [failed e]\<rparr>
              | (Inr ciphertext, sp') \<Rightarrow>
                  s\<lparr>ss_client := cl\<lparr>heap := (heap cl)(a \<mapsto> sp')\<rparr>,
                    ss_deliveries := ss_deliveries s @ [delivery recipient (Some ciphertext)],
                    ss_results := ss_results s @
                      [\<lparr>dr_DeliveryID = deliveryID, dr_Recipient = recipient, dr_Status = DeliverySent,
                        dr_Error = None, dr_Ciphertext = Some ciphertext\<rparr>],
                    ss_store := snd (ds_SaveDelivery D (dw_io dw) (delivery recipient (Some ciphertext)) (ss_store s))\<rparr>))"

text \<open>Sending stops at the first delivery that fails; \<open>mio\<close> is what becomes of the write of each mark.\<close>

fun sendDeliveries ::
  "prims \<Rightarrow> 'd DeliveryStore \<Rightarrow> network \<Rightarrow> (string \<Rightarrow> save_io) \<Rightarrow> MessageDelivery list \<Rightarrow> ('c, 'd) Fanout \<Rightarrow>
   fanout_error option \<times> ('c, 'd) Fanout" where
  "sendDeliveries P D net mio [] f = (None, f)"
| "sendDeliveries P D net mio (d # ds) f =
     (case md_Ciphertext d of
        None \<Rightarrow> sendDeliveries P D net mio ds f
      | Some ct \<Rightarrow>
          let envelope = WrapEnvelope TypeMultiMsg ct in
          (case PeerIDToEd25519Pub P (md_Recipient d) of
             Inl e \<Rightarrow> (Some (FanPeer e), f)
           | Inr pub \<Rightarrow>
               let ok = net (attempts f) pub envelope;
                   f1 = f\<lparr>attempts := attempts f @ [(pub, envelope, ok)]\<rparr>
               in if \<not> ok then (Some (SendFailed (md_Recipient d)), f1)
                  else sendDeliveries P D net mio ds
                         (f1\<lparr>deliveryStore := snd (ds_MarkDelivered D (mio (md_DeliveryID d)) (md_DeliveryID d) (deliveryStore f1))\<rparr>)))"

definition SendMultiMessage ::
  "prims \<Rightarrow> 'c ContextStore \<Rightarrow> 'd DeliveryStore \<Rightarrow> network \<Rightarrow> bytes \<Rightarrow> (nat \<Rightarrow> draw) \<Rightarrow> 64 word \<Rightarrow> write_result \<Rightarrow>
   (string \<Rightarrow> save_io) \<Rightarrow> string \<Rightarrow> bytes \<Rightarrow> string list \<Rightarrow> ('c, 'd) Fanout \<Rightarrow>
   (fanout_error + fanout_error FanoutResult) \<times> ('c, 'd) Fanout" where
  "SendMultiMessage P S D net msgCoins draws timestamp wr mio contextID plaintext recipients f =
     (case cs_LoadContext S contextID (CtxStore f) of
        Inl e \<Rightarrow> (Inl (FanStore e), f)
      | Inr msgCtx \<Rightarrow>
          if mc_MetadataVersion msgCtx = 0 then (Inl VersionZero, f)
          else case VerifyContextSignature P (Some msgCtx) of
            Some e \<Rightarrow> (Inl (FanContext e), f)
          | None \<Rightarrow>
              let effective = GetEffectiveRecipients S contextID recipients f;
                  msgID = GenerateMessageID msgCoins;
                  s = fold (send_one P D (SkipOffline (fo_config f)) msgID msgCtx contextID plaintext timestamp)
                        (zip (map draws [0..<length effective]) effective)
                        \<lparr>ss_results = [], ss_deliveries = [], ss_client = fo_client f, ss_store = deliveryStore f\<rparr>
              in if effective = [] then (Inl NoEffectiveRecipients, f)
                 else if ss_results s = [] then (Inl NoDeliveries, f\<lparr>fo_client := ss_client s, deliveryStore := ss_store s\<rparr>)
                 else
                   let cl = (if \<exists>r\<in>set (ss_results s). dr_Status r = DeliverySent then SaveClient wr (ss_client s) else ss_client s);
                       f1 = f\<lparr>fo_client := cl, deliveryStore := ss_store s\<rparr>;
                       result = \<lparr>fr_MessageID = msgID, fr_Sender = cl_Id cl, fr_Context = msgCtx,
                                 fr_Deliveries = ss_results s, fr_Timestamp = timestamp\<rparr>
                   in (Inr result, if fo_relay f then snd (sendDeliveries P D net mio (ss_deliveries s) f1) else f1))"

definition retry_one ::
  "prims \<Rightarrow> 'd DeliveryStore \<Rightarrow> network \<Rightarrow> (string \<Rightarrow> save_io) \<Rightarrow> MessageDelivery \<Rightarrow> ('c, 'd) Fanout \<Rightarrow> ('c, 'd) Fanout" where
  "retry_one P D net mio d f =
     (case (map_of (Sessions (fo_client f)) (md_Recipient d), md_Ciphertext d, PeerIDToEd25519Pub P (md_Recipient d)) of
        (Some _, Some ct, Inr pub) \<Rightarrow>
          let envelope = WrapEnvelope TypeMessage ct;
              ok = net (attempts f) pub envelope;
              f1 = f\<lparr>attempts := attempts f @ [(pub, envelope, ok)]\<rparr>
          in if ok
             then f1\<lparr>deliveryStore := snd (ds_MarkDelivered D (mio (md_DeliveryID d)) (md_DeliveryID d) (deliveryStore f1))\<rparr>
             else f1
      | _ \<Rightarrow> f)"

definition RetryUndelivered ::
  "prims \<Rightarrow> 'd DeliveryStore \<Rightarrow> network \<Rightarrow> (string \<Rightarrow> save_io) \<Rightarrow> ('c, 'd) Fanout \<Rightarrow> ('c, 'd) Fanout" where
  "RetryUndelivered P D net mio f =
     fold (retry_one P D net mio) (ds_ListUndeliveredDeliveries D (deliveryStore f)) f"

subsection \<open>Receiving\<close>

record InboundMessage =
  im_Sender :: string
  im_Meta :: DeliveryMeta
  im_Context :: "MessageContext option"
  im_Plaintext :: bytes

definition InboundMessage_ContextID :: "InboundMessage \<Rightarrow> string" where
  "InboundMessage_ContextID m =
     (case im_Context m of
        Some c \<Rightarrow> if mc_ContextID c \<noteq> [] then mc_ContextID c else dm_ContextID (im_Meta m)
      | None \<Rightarrow> dm_ContextID (im_Meta m))"

definition InboundMessage_DisplayName :: "InboundMessage \<Rightarrow> string" where
  "InboundMessage_DisplayName m =
     (let fallback = ''group:'' @ take 8 (dm_ContextID (im_Meta m))
      in case im_Context m of
           Some c \<Rightarrow> if mc_DisplayName c \<noteq> [] then mc_DisplayName c else fallback
         | None \<Rightarrow> fallback)"

text \<open>The descriptor of the message: the attached one if it is news, otherwise the stored one.\<close>

definition learn_context ::
  "prims \<Rightarrow> 'c ContextStore \<Rightarrow> two_writes \<Rightarrow> Parsed \<Rightarrow> ('c, 'd) Fanout \<Rightarrow> MessageContext option \<times> ('c, 'd) Fanout" where
  "learn_context P S io parsed f =
     (let (ctx, f1) = (case ps_Context parsed of
            None \<Rightarrow> (None, f)
          | Some c \<Rightarrow>
              (case ApplyRemoteContext P S io (Some c) f of
                 (None, f1) \<Rightarrow> (Some c, f1)
               | (Some _, f1) \<Rightarrow> (None, f1)))
      in case ctx of
           Some c \<Rightarrow> (Some c, f1)
         | None \<Rightarrow>
             (case cs_LoadContext S (dm_ContextID (ps_Meta parsed)) (CtxStore f1) of
                Inr c \<Rightarrow> (Some c, f1)
              | Inl _ \<Rightarrow> (None, f1)))"

definition ProcessDelivery ::
  "prims \<Rightarrow> 'c ContextStore \<Rightarrow> write_result \<Rightarrow> two_writes \<Rightarrow> string \<Rightarrow> bytes \<Rightarrow> ('c, 'd) Fanout \<Rightarrow>
   (fanout_error + InboundMessage) \<times> ('c, 'd) Fanout" where
  "ProcessDelivery P S wr io selfID ciphertext f =
     (case Client_Decrypt P wr ciphertext (fo_client f) of
        (Inl e, cl) \<Rightarrow> (Inl (FanClient e), f\<lparr>fo_client := cl\<rparr>)
      | (Inr (frameSender, wrapped), cl) \<Rightarrow>
          let f1 = f\<lparr>fo_client := cl\<rparr> in
          (case ParseWrapped P wrapped of
             Inl e \<Rightarrow> (Inl (FanWire e), f1)
           | Inr parsed \<Rightarrow>
               let meta = ps_Meta parsed in
               if dm_Sender meta \<noteq> [] \<and> dm_Sender meta \<noteq> frameSender
               then (Inl (SenderMismatch (dm_Sender meta) frameSender), f1)
               else if dm_Recipient meta \<noteq> [] \<and> dm_Recipient meta \<noteq> selfID
               then (Inl (OtherRecipient (dm_Recipient meta)), f1)
               else
                 let meta' = (if dm_Sender meta = [] then meta\<lparr>dm_Sender := frameSender\<rparr> else meta);
                     key = (frameSender, dm_MessageID meta)
                 in if seenMessages f1 key then (Inl Duplicate, f1)
                    else
                      (case learn_context P S io parsed (f1\<lparr>seenMessages := (seenMessages f1)(key := True)\<rparr>) of
                         (ctx, f2) \<Rightarrow>
                           (Inr \<lparr>im_Sender = frameSender, im_Meta = meta', im_Context = ctx,
                                 im_Plaintext = ps_Plaintext parsed\<rparr>, f2))))"

text \<open>One batch from the relay; each body comes with the fate of the writes it causes.\<close>

fun receive_batch ::
  "prims \<Rightarrow> 'c ContextStore \<Rightarrow> (bytes \<times> write_result \<times> two_writes) list \<Rightarrow> ('c, 'd) Fanout \<Rightarrow>
   InboundMessage list \<times> ('c, 'd) Fanout" where
  "receive_batch P S [] f = ([], f)"
| "receive_batch P S ((body, wr, io) # ms) f =
     (if body = [] \<or> hd body \<noteq> TypeMultiMsg then receive_batch P S ms f
      else case ProcessDelivery P S wr io (cl_Id (fo_client f)) (tl body) f of
        (Inl e, f1) \<Rightarrow> receive_batch P S ms f1
      | (Inr m, f1) \<Rightarrow> (case receive_batch P S ms f1 of (out, f2) \<Rightarrow> (m # out, f2)))"

definition ReceiveMultiMessage ::
  "prims \<Rightarrow> 'c ContextStore \<Rightarrow> (bytes \<times> write_result \<times> two_writes) list option \<Rightarrow> ('c, 'd) Fanout \<Rightarrow>
   InboundMessage list option \<times> ('c, 'd) Fanout" where
  "ReceiveMultiMessage P S batch f =
     (case batch of
        None \<Rightarrow> (None, f)
      | Some msgs \<Rightarrow> (case receive_batch P S msgs f of (out, f') \<Rightarrow> (Some out, f')))"

end
