(* ===== verification/FanoutProps.thy ===== *)
theory FanoutProps
  imports Fanout SessionDelivery
begin

text \<open>
  What the group layer guarantees: who receives, what a report says, which deliveries are accepted, and that a
  message sent to a group reaches a recipient with whom a session is in step.
\<close>

subsection \<open>Recipients\<close>

lemma policy_map_lookup:
  "distinct (map lp_Recipient ps) \<Longrightarrow>
   policy_map ps r = (case map_of (map (\<lambda>p. (lp_Recipient p, p)) ps) r of None \<Rightarrow> PolicyEnabled | Some p \<Rightarrow> lp_Policy p)"
proof -
  have "fold (\<lambda>p m. m(lp_Recipient p := lp_Policy p)) ps m r =
      (case map_of (map (\<lambda>p. (lp_Recipient p, p)) ps) r of None \<Rightarrow> m r | Some p \<Rightarrow> lp_Policy p)"
    if "distinct (map lp_Recipient ps)" for m
    using that
  proof (induction ps arbitrary: m)
    case (Cons p ps)
    have "map_of (map (\<lambda>p. (lp_Recipient p, p)) ps) (lp_Recipient p) = None"
      using Cons.prems by (auto simp: map_of_eq_None_iff)
    then show ?case using Cons by (auto split: option.splits)
  qed simp
  then show "distinct (map lp_Recipient ps) \<Longrightarrow> ?thesis" by (simp add: policy_map_def)
qed

context context_table
begin

lemma listed_policy:
  assumes "valid s"
  shows "map_of (map (\<lambda>p. (lp_Recipient p, p)) (cs_ListPolicies S cid s)) r =
     (case cs_LoadPolicy S cid r s of Inl _ \<Rightarrow> None | Inr p \<Rightarrow> Some p)"
proof -
  let ?m = "map (\<lambda>p. (lp_Recipient p, p)) (cs_ListPolicies S cid s)"
  have d: "distinct (map fst ?m)" using policy_list_sorted [OF assms] by (simp add: comp_def)
  have "map_of ?m r = Some p \<longleftrightarrow> cs_LoadPolicy S cid r s = Inr p" for p
  proof -
    have "map_of ?m r = Some p \<longleftrightarrow> (r, p) \<in> set ?m" by (rule map_of_eq_Some_iff [OF d])
    also have "\<dots> \<longleftrightarrow> p \<in> set (cs_ListPolicies S cid s) \<and> r = lp_Recipient p" by auto
    finally show ?thesis using policy_list [OF assms, of p cid] policy_key [OF assms, of cid r p] by metis
  qed
  then show ?thesis by (metis (no_types, lifting) not_Some_eq old.sum.exhaust old.sum.simps(5,6) Inl_Inr_False)
qed

lemma effective_exactly:
  assumes "valid (CtxStore f)"
  shows "GetEffectiveRecipients S cid rs f =
     filter (\<lambda>r. GetRecipientPolicy S cid r f \<noteq> PolicyBlocked \<and> GetRecipientPolicy S cid r f \<noteq> PolicyExcluded) rs"
proof -
  have "policy_map (ListRecipientPolicies S cid f) r = GetRecipientPolicy S cid r f" for r
    using policy_map_lookup [of "cs_ListPolicies S cid (CtxStore f)" r] policy_list_sorted [OF assms]
      listed_policy [OF assms, of cid r]
    by (simp add: ListRecipientPolicies_def GetRecipientPolicy_def split: sum.splits)
  then show ?thesis by (simp add: GetEffectiveRecipients_def)
qed

lemma policy_set:
  assumes "valid (CtxStore f)"
  shows "GetRecipientPolicy S cid' r' (snd (SetRecipientPolicy S io now cid r p f)) =
     (if cid' = cid \<and> r' = r then p else GetRecipientPolicy S cid' r' f)"
  using policy_loads [of cid' r' io "\<lparr>lp_ContextID = cid, lp_Recipient = r, lp_Policy = p, lp_UpdatedAt = now\<rparr>" "CtxStore f"]
  by (auto simp: GetRecipientPolicy_def SetRecipientPolicy_def split: prod.splits)

end

text \<open>
  C17.  A group message goes to exactly those of the named recipients whose local policy is neither
  blocked nor excluded, in the order given; setting a policy changes that recipient in that group and no other,
  even when the write to disk fails.
\<close>

theorem effective_recipients:
  assumes "tables_ok (CtxStore f)"
  shows "GetEffectiveRecipients (FileContexts P K) cid rs f =
           filter (\<lambda>r. GetRecipientPolicy (FileContexts P K) cid r f \<noteq> PolicyBlocked \<and>
                       GetRecipientPolicy (FileContexts P K) cid r f \<noteq> PolicyExcluded) rs \<and>
         GetRecipientPolicy (FileContexts P K) cid' r' (snd (SetRecipientPolicy (FileContexts P K) io now cid r p f)) =
           (if cid' = cid \<and> r' = r then p else GetRecipientPolicy (FileContexts P K) cid' r' f) \<and>
         tables_ok (CtxStore (snd (SetRecipientPolicy (FileContexts P K) io now cid r p f)))"
proof -
  have "tables_ok (CtxStore (snd (SetRecipientPolicy (FileContexts P K) io now cid r p f)))"
    using fctx.policy_valid [OF assms, of P K io] by (auto simp: SetRecipientPolicy_def split: prod.splits) (metis snd_conv)
  then show ?thesis using fctx.effective_exactly [OF assms] fctx.policy_set [OF assms] by blast
qed

subsection \<open>Accepting deliveries\<close>

definition message_key :: "InboundMessage \<Rightarrow> string \<times> string" where
  "message_key m = (im_Sender m, dm_MessageID (im_Meta m))"

lemma ApplyRemote_frame [simp]:
  "seenMessages (snd (ApplyRemoteContext P S io c f)) = seenMessages f"
  "fo_client (snd (ApplyRemoteContext P S io c f)) = fo_client f"
  by (simp_all add: ApplyRemoteContext_def Let_def split: option.splits sum.splits prod.splits)

lemma ApplyRemote_frame':
  "ApplyRemoteContext P S io c f = (e, f') \<Longrightarrow> seenMessages f' = seenMessages f \<and> fo_client f' = fo_client f"
  using ApplyRemote_frame [of P S io c f] by simp

lemma learn_frame:
  assumes "learn_context P S io parsed f = (ctx, f')"
  shows "seenMessages f' = seenMessages f" "fo_client f' = fo_client f"
  using assms by (auto simp: learn_context_def dest!: ApplyRemote_frame' split: option.splits prod.splits sum.splits)

lemma ProcessDelivery_cases:
  assumes "ProcessDelivery P S wr io me ct f = (r, f')"
  obtains (refused) e where "r = Inl e" "seenMessages f' = seenMessages f"
  | (accepted) m cl wrapped parsed where "r = Inr m" "Client_Decrypt P wr ct (fo_client f) = (Inr (im_Sender m, wrapped), cl)"
      "fo_client f' = cl" "ParseWrapped P wrapped = Inr parsed" "im_Plaintext m = ps_Plaintext parsed"
      "im_Meta m = (ps_Meta parsed)\<lparr>dm_Sender := im_Sender m\<rparr>"
      "dm_Recipient (im_Meta m) = [] \<or> dm_Recipient (im_Meta m) = me" "\<not> seenMessages f (message_key m)"
      "seenMessages f' = (seenMessages f)(message_key m := True)"
proof -
  obtain d cl where dec: "Client_Decrypt P wr ct (fo_client f) = (d, cl)" by (cases "Client_Decrypt P wr ct (fo_client f)")
  show thesis
  proof (cases d)
    case (Inl e)
    then show thesis using assms dec refused by (auto simp: ProcessDelivery_def)
  next
    case (Inr x)
    obtain sender wrapped where x: "x = (sender, wrapped)" by (cases x)
    show thesis
    proof (cases "ParseWrapped P wrapped")
      case (Inl e)
      then show thesis using assms dec \<open>d = Inr x\<close> x refused by (auto simp: ProcessDelivery_def)
    next
      case parsed: (Inr parsed)
      let ?meta = "ps_Meta parsed"
      let ?f2 = "f\<lparr>fo_client := cl, seenMessages := (seenMessages f)((sender, dm_MessageID ?meta) := True)\<rparr>"
      obtain ctx f2 where learn: "learn_context P S io parsed ?f2 = (ctx, f2)"
        by (cases "learn_context P S io parsed ?f2")
      show thesis
      proof (cases "(dm_Sender ?meta = [] \<or> dm_Sender ?meta = sender) \<and> (dm_Recipient ?meta = [] \<or> dm_Recipient ?meta = me) \<and>
          \<not> seenMessages f (sender, dm_MessageID ?meta)")
        case True
        let ?m = "\<lparr>im_Sender = sender, im_Meta = ?meta\<lparr>dm_Sender := sender\<rparr>, im_Context = ctx, im_Plaintext = ps_Plaintext parsed\<rparr>"
        have "(if dm_Sender ?meta = [] then ?meta\<lparr>dm_Sender := sender\<rparr> else ?meta) = ?meta\<lparr>dm_Sender := sender\<rparr>"
          using True by auto
        then have "r = Inr ?m" "f' = f2"
          using assms True learn by (auto simp: ProcessDelivery_def dec \<open>d = Inr x\<close> x parsed Let_def)
        then show thesis using accepted [of ?m wrapped cl parsed] True learn_frame [OF learn] dec parsed \<open>d = Inr x\<close> x
          by (simp add: message_key_def)
      next
        case False
        then show thesis using assms refused
          by (auto simp: ProcessDelivery_def dec \<open>d = Inr x\<close> x parsed Let_def split: if_splits)
      qed
    qed
  qed
qed

lemma ProcessDelivery_accepts:
  assumes "ProcessDelivery P S wr io me ct f = (Inr m, f')"
  shows "\<exists>cl wrapped parsed. Client_Decrypt P wr ct (fo_client f) = (Inr (im_Sender m, wrapped), cl) \<and>
           ParseWrapped P wrapped = Inr parsed \<and> im_Plaintext m = ps_Plaintext parsed \<and>
           im_Meta m = (ps_Meta parsed)\<lparr>dm_Sender := im_Sender m\<rparr>"
    and "dm_Recipient (im_Meta m) = [] \<or> dm_Recipient (im_Meta m) = me"
    and "\<not> seenMessages f (message_key m)"
    and "seenMessages f' = (seenMessages f)(message_key m := True)"
  using assms by (cases rule: ProcessDelivery_cases; blast)+

lemma ProcessDelivery_seen:
  assumes "ProcessDelivery P S wr io me ct f = (r, f')" "seenMessages f k"
  shows "seenMessages f' k"
  using assms(1) by (cases rule: ProcessDelivery_cases) (use assms(2) in simp_all)

lemma receive_batch_once:
  "receive_batch P S ms f = (out, f') \<Longrightarrow>
   distinct (map message_key out) \<and> (\<forall>m\<in>set out. \<not> seenMessages f (message_key m)) \<and>
   (\<forall>k. seenMessages f k \<or> k \<in> message_key ` set out \<longrightarrow> seenMessages f' k)"
proof (induction ms arbitrary: f out f')
  case (Cons x ms)
  obtain body wr io where x: "x = (body, wr, io)" by (cases x)
  show ?case
  proof (cases "body = [] \<or> hd body \<noteq> TypeMultiMsg")
    case True
    then show ?thesis using Cons by (simp add: x)
  next
    case False
    obtain r f1 where pd: "ProcessDelivery P S wr io (cl_Id (fo_client f)) (tl body) f = (r, f1)"
      by (cases "ProcessDelivery P S wr io (cl_Id (fo_client f)) (tl body) f")
    note keeps = ProcessDelivery_seen [OF pd]
    show ?thesis
    proof (cases r)
      case (Inl e)
      have rest: "receive_batch P S ms f1 = (out, f')" using Cons.prems False pd Inl by (simp add: x)
      show ?thesis using Cons.IH [OF rest] keeps by blast
    next
      case (Inr m)
      obtain out' where rest: "receive_batch P S ms f1 = (out', f')" and out: "out = m # out'"
        using Cons.prems False pd Inr by (auto simp: x split: prod.splits)
      have "\<not> seenMessages f (message_key m)" "seenMessages f1 = (seenMessages f)(message_key m := True)"
        using ProcessDelivery_accepts(3,4) pd Inr by blast+
      then show ?thesis using Cons.IH [OF rest] unfolding out by (auto split: if_splits)
    qed
  qed
qed simp


subsection \<open>Remote descriptors\<close>

lemma FileContext_saveLocked_done:
  assumes "np_law P"
  shows "fst (FileContext_saveLocked P K (SaveDone, SaveDone) s) = None"
proof -
  obtain cr pr where "encode_all P MessageContext_MarshalBinID (map snd (contexts s)) = Inr cr"
    "encode_all P policyBin_MarshalBinID (policy_records (policies s)) = Inr pr"
    using mctx.encode_all_total [OF assms] pbin.encode_all_total [OF assms] by metis
  then show ?thesis by (simp add: FileContext_saveLocked_def Binstore_Save_done)
qed

lemma File_save_newer:
  assumes "np_law P" "File_LoadContext (mc_ContextID c) s = Inr c0" "mc_MetadataVersion c0 < mc_MetadataVersion c"
  shows "\<exists>s'. File_SaveContext P K (SaveDone, SaveDone) c s = (None, s') \<and> File_LoadContext (mc_ContextID c) s' = Inr c"
proof -
  let ?t = "s\<lparr>contexts := AList.update (mc_ContextID c) c (contexts s)\<rparr>"
  have "File_SaveContext P K (SaveDone, SaveDone) c s = FileContext_saveLocked P K (SaveDone, SaveDone) ?t"
  proof -
    have "map_of (contexts s) (mc_ContextID c) = Some c0" using assms(2) by (simp add: File_LoadContext_def split: option.splits)
    then show ?thesis using assms(3) by (simp add: File_SaveContext_def Let_def not_le [symmetric])
  qed
  moreover have "FileContext_saveLocked P K (SaveDone, SaveDone) ?t = (None, snd (FileContext_saveLocked P K (SaveDone, SaveDone) ?t))"
    using FileContext_saveLocked_done [OF assms(1), of K ?t] by (simp add: prod_eq_iff)
  ultimately have "File_SaveContext P K (SaveDone, SaveDone) c s = (None, snd (FileContext_saveLocked P K (SaveDone, SaveDone) ?t))"
    by simp
  then show ?thesis by (intro exI conjI) (assumption, simp add: File_LoadContext_def)
qed

text \<open>
  C40.  A descriptor for a known group that carries a valid signature of a different creator and a higher
  version replaces the stored one: the check compares the version but not the creator, and the original creator
  can then no longer update the group.
\<close>

theorem context_takeover:
  assumes "np_law P" "File_LoadContext cid (CtxStore f) = Inr c0" "mc_CreatorID c0 = cl_Id (fo_client f)"
    and "mc_ContextID c = cid" "mc_MetadataVersion c0 < mc_MetadataVersion c" "mc_CreatorID c \<noteq> mc_CreatorID c0"
    and "VerifyContextSignature P (Some c) = None"
  shows "\<exists>f'. ApplyRemoteContext P (FileContexts P K) (SaveDone, SaveDone) (Some c) f = (None, f') \<and>
     File_LoadContext cid (CtxStore f') = Inr c \<and>
     UpdateContext P (FileContexts P K) io cid name priv f' = (Inl OnlyCreator, f')"
proof -
  obtain s' where s': "File_SaveContext P K (SaveDone, SaveDone) c (CtxStore f) = (None, s')" "File_LoadContext cid s' = Inr c"
    using File_save_newer [OF assms(1), of c "CtxStore f" c0 K] assms(2,4,5) by auto
  have "mc_MetadataVersion c \<noteq> 0" using assms(5) by (metis word_not_simps(1))
  then have "ApplyRemoteContext P (FileContexts P K) (SaveDone, SaveDone) (Some c) f = (None, f\<lparr>CtxStore := s'\<rparr>)"
    using assms(2,4,5,7) s'(1) by (auto simp: ApplyRemoteContext_def FileContexts_def Let_def)
  moreover have "UpdateContext P (FileContexts P K) io cid name priv (f\<lparr>CtxStore := s'\<rparr>) = (Inl OnlyCreator, f\<lparr>CtxStore := s'\<rparr>)"
    using s'(2) assms(3,6) by (simp add: UpdateContext_def FileContexts_def)
  ultimately show ?thesis using s'(2) by (intro exI [of _ "f\<lparr>CtxStore := s'\<rparr>"]) simp
qed

subsection \<open>Retries\<close>

context delivery_table
begin

lemma retry_nothing:
  assumes "valid (deliveryStore f)"
  shows "RetryUndelivered P D net mio f = f"
proof -
  have "fold (retry_one P D net mio) ds f = f" if "\<forall>d\<in>set ds. md_Ciphertext d = None" for ds
    using that by (induction ds) (simp_all add: retry_one_def split: option.split sum.split)
  then show ?thesis using undelivered_pending [OF assms] by (simp add: RetryUndelivered_def)
qed

end

text \<open>
  Note.  Retrying undelivered messages does nothing at all: the stores list as undelivered exactly the
  deliveries without a ciphertext, and the retry skips exactly those, so no delivery that a relay refused is ever
  sent again, and nothing changes.
\<close>

theorem retry_never_sends:
  assumes "deliveries_ok (deliveryStore f)"
  shows "RetryUndelivered P (FileDeliveries P K) net mio f = f"
  using fdels.retry_nothing [OF assms] .

subsection \<open>The send loop\<close>

text \<open>One round appends one result for its recipient and touches no session but the recipient's.\<close>

lemma send_one_frame:
  assumes t: "t = send_one P D sk mid c cid pt ts (dw, r) s"
  shows "Sessions (ss_client t) = Sessions (ss_client s)" "cl_Id (ss_client t) = cl_Id (ss_client s)"
    and "map_of (Sessions (ss_client s)) r \<noteq> Some a \<Longrightarrow> heap (ss_client t) a = heap (ss_client s) a"
    and "\<exists>x. ss_results t = ss_results s @ [x] \<and> dr_Recipient x = r \<and>
           (dr_Status x = DeliverySent \<longleftrightarrow> dr_Ciphertext x \<noteq> None) \<and> (dr_Status x = DeliveryFailed \<longleftrightarrow> dr_Error x \<noteq> None)"
  unfolding t
  by (auto simp: send_one_def Let_def split: option.splits sum.splits prod.splits)

lemma send_fold_frame:
  shows "Sessions (ss_client (fold (send_one P D sk mid c cid pt ts) xs s)) = Sessions (ss_client s)" "cl_Id (ss_client (fold (send_one P D sk mid c cid pt ts) xs s)) = cl_Id (ss_client s)"
    and "\<forall>(dw, r)\<in>set xs. map_of (Sessions (ss_client s)) r \<noteq> Some a \<Longrightarrow> heap (ss_client (fold (send_one P D sk mid c cid pt ts) xs s)) a = heap (ss_client s) a"
    and "\<exists>rs. ss_results (fold (send_one P D sk mid c cid pt ts) xs s) = ss_results s @ rs \<and> map dr_Recipient rs = map snd xs \<and>
           (\<forall>x\<in>set rs. (dr_Status x = DeliverySent \<longleftrightarrow> dr_Ciphertext x \<noteq> None) \<and>
              (dr_Status x = DeliveryFailed \<longleftrightarrow> dr_Error x \<noteq> None))"
proof (induction xs rule: rev_induct)
  case (snoc x xs)
  obtain dw r where x: "x = (dw, r)" by (cases x)
  let ?s = "fold (send_one P D sk mid c cid pt ts) xs s"
  note fr = send_one_frame [where s = ?s and P = P and D = D and sk = sk and mid = mid and c = c and cid = cid and pt = pt
      and ts = ts and dw = dw and r = r, OF refl]
  { case 1 show ?case using snoc.IH(1) fr(1) by (simp add: x) }
  { case 2 show ?case using snoc.IH(2) fr(2) by (simp add: x) }
  { case 3 then show ?case using snoc.IH(1,3) fr(3) [of a] by (simp add: x) }
  { case 4
    obtain rs where rs: "ss_results ?s = ss_results s @ rs" "map dr_Recipient rs = map snd xs"
        "\<forall>x\<in>set rs. (dr_Status x = DeliverySent \<longleftrightarrow> dr_Ciphertext x \<noteq> None) \<and> (dr_Status x = DeliveryFailed \<longleftrightarrow> dr_Error x \<noteq> None)"
      using snoc.IH(4) by blast
    obtain y where y: "ss_results (send_one P D sk mid c cid pt ts (dw, r) ?s) = ss_results ?s @ [y]" "dr_Recipient y = r"
        "(dr_Status y = DeliverySent \<longleftrightarrow> dr_Ciphertext y \<noteq> None) \<and> (dr_Status y = DeliveryFailed \<longleftrightarrow> dr_Error y \<noteq> None)"
      using fr(4) by blast
    show ?case using rs y by (intro exI [of _ "rs @ [y]"]) (auto simp: x) }
qed auto

text \<open>A recipient whose session no earlier round has touched is sent what that session encrypts.\<close>

lemma send_fold_reaches:
  assumes xs: "xs = pre @ (dw, r) # post"
    and a: "map_of (Sessions (ss_client s)) r = Some a" "heap (ss_client s) a = Some sp"
    and pre: "\<forall>(dw, r')\<in>set pre. map_of (Sessions (ss_client s)) r' \<noteq> Some a"
    and enc: "encryptWithAAD P (dw_key dw) (cl_Id (ss_client s)) pt
        (buildDeliveryAAD mid (mc_ContextID c) (cl_Id (ss_client s)) r (mc_MetadataVersion c)) c sp = (Inr ct, sp')"
  shows "\<exists>x\<in>set (ss_results (fold (send_one P D sk mid c cid pt ts) xs s)).
     dr_Recipient x = r \<and> dr_Status x = DeliverySent \<and> dr_Ciphertext x = Some ct"
proof -
  let ?f = "send_one P D sk mid c cid pt ts"
  let ?s = "fold ?f pre s"
  have here: "Sessions (ss_client ?s) = Sessions (ss_client s)" "cl_Id (ss_client ?s) = cl_Id (ss_client s)"
    "heap (ss_client ?s) a = Some sp"
    using send_fold_frame(1,2) [of P D sk mid c cid pt ts pre s] send_fold_frame(3) [OF pre, of P D sk mid c cid pt ts] a(2)
    by simp_all
  have one: "\<exists>x\<in>set (ss_results (?f (dw, r) ?s)). dr_Recipient x = r \<and> dr_Status x = DeliverySent \<and> dr_Ciphertext x = Some ct"
    using enc a(1) by (simp add: send_one_def Let_def here)
  obtain rs where "ss_results (fold ?f post (?f (dw, r) ?s)) = ss_results (?f (dw, r) ?s) @ rs"
    using send_fold_frame(4) [of P D sk mid c cid pt ts post "?f (dw, r) ?s"] by blast
  then have "set (ss_results (?f (dw, r) ?s)) \<subseteq> set (ss_results (fold ?f xs s))" by (simp add: xs)
  then show ?thesis using one by blast
qed

subsection \<open>What the report says\<close>

text \<open>
  The encrypted copies among \<open>xs\<close> with their recipients, and their envelopes, in order, up to the first recipient whose ID is not
  that of a key.
\<close>

definition sealed_copies :: "(string \<times> bytes option) list \<Rightarrow> (string \<times> bytes) list" where
  "sealed_copies xs = concat (map (\<lambda>(r, c). case c of None \<Rightarrow> [] | Some ct \<Rightarrow> [(r, ct)]) xs)"

definition addressed :: "prims \<Rightarrow> (string \<times> bytes option) list \<Rightarrow> (bytes \<times> bytes) list" where
  "addressed P xs =
     map (\<lambda>(r, ct). (projr (PeerIDToEd25519Pub P r), WrapEnvelope TypeMultiMsg ct))
       (takeWhile (\<lambda>(r, ct). \<not> isl (PeerIDToEd25519Pub P r)) (sealed_copies xs))"

text \<open>
  The requests \<open>new\<close>, made after the requests \<open>old\<close>, try the envelopes \<open>envs\<close> in order up to the first refusal: all of them, or those
  up to one that was refused; the answers are those of the network.
\<close>

definition tried :: "network \<Rightarrow> (bytes \<times> bytes \<times> bool) list \<Rightarrow> (bytes \<times> bytes) list \<Rightarrow> (bytes \<times> bytes \<times> bool) list \<Rightarrow> bool" where
  "tried net old envs new \<longleftrightarrow>
     map (\<lambda>(pub, env, ok). (pub, env)) new = take (length new) envs \<and>
     (\<forall>i. Suc i < length new \<longrightarrow> snd (snd (new ! i))) \<and>
     (length new < length envs \<longrightarrow> new \<noteq> [] \<and> \<not> snd (snd (last new))) \<and>
     (\<forall>i<length new. snd (snd (new ! i)) = net (old @ take i new) (fst (new ! i)) (fst (snd (new ! i))))"

lemma addressed_simps [simp]:
  "addressed P [] = []" "addressed P ((r, None) # xs) = addressed P xs"
  "addressed P ((r, Some ct) # xs) =
     (case PeerIDToEd25519Pub P r of Inl _ \<Rightarrow> [] | Inr pub \<Rightarrow> (pub, WrapEnvelope TypeMultiMsg ct) # addressed P xs)"
  by (simp_all add: addressed_def sealed_copies_def split: sum.split)

lemma tried_accepted:
  assumes "net old pub env" "tried net (old @ [(pub, env, True)]) envs new"
  shows "tried net old ((pub, env) # envs) ((pub, env, True) # new)"
  using assms by (auto simp: tried_def nth_Cons less_Suc_eq_0_disj split: nat.splits)

lemma sendDeliveries_tries:
  "\<exists>new. attempts (snd (sendDeliveries P D net mio ds f)) = attempts f @ new \<and>
     tried net (attempts f) (addressed P (map (\<lambda>d. (md_Recipient d, md_Ciphertext d)) ds)) new"
proof (induction P D net mio ds f rule: sendDeliveries.induct)
  case (1 P D net mio f)
  then show ?case by (auto simp: tried_def)
next
  case (2 P D net mio d ds f)
  show ?case
  proof (cases "md_Ciphertext d")
    case None
    then show ?thesis using 2(1) [OF None] by simp
  next
    case (Some ct)
    show ?thesis
    proof (cases "PeerIDToEd25519Pub P (md_Recipient d)")
      case (Inl e)
      then show ?thesis using Some by (auto simp: Let_def tried_def intro: exI [of _ "[]"])
    next
      case (Inr pub)
      let ?env = "WrapEnvelope TypeMultiMsg ct"
      let ?ok = "net (attempts f) pub ?env"
      show ?thesis
      proof (cases ?ok)
        case True
        show ?thesis using 2(2) [OF Some refl Inr refl refl] True Some Inr
          by (auto simp: Let_def intro!: tried_accepted)
      next
        case False
        then show ?thesis using Some Inr by (auto simp: Let_def tried_def)
      qed
    qed
  qed
qed

text \<open>The copies that are handed to the relay are those the report calls sent.\<close>

lemma send_fold_copies:
  "sealed_copies (map (\<lambda>d. (md_Recipient d, md_Ciphertext d)) (ss_deliveries s)) = sealed_copies (map (\<lambda>x. (dr_Recipient x, dr_Ciphertext x)) (ss_results s)) \<Longrightarrow>
   sealed_copies (map (\<lambda>d. (md_Recipient d, md_Ciphertext d)) (ss_deliveries (fold (send_one P D sk mid c cid pt ts) xs s))) =
     sealed_copies (map (\<lambda>x. (dr_Recipient x, dr_Ciphertext x)) (ss_results (fold (send_one P D sk mid c cid pt ts) xs s)))"
proof (induction xs arbitrary: s)
  case (Cons x xs)
  have "sealed_copies (map (\<lambda>d. (md_Recipient d, md_Ciphertext d)) (ss_deliveries (send_one P D sk mid c cid pt ts x s))) =
     sealed_copies (map (\<lambda>x. (dr_Recipient x, dr_Ciphertext x)) (ss_results (send_one P D sk mid c cid pt ts x s)))"
    using Cons.prems by (auto simp: send_one_def sealed_copies_def Let_def split: prod.split option.split sum.split)
  then show ?case using Cons.IH by simp
qed simp

text \<open>
  C16.  The report of a group send has one entry per effective recipient, in order; an entry is marked sent
  exactly when it carries a ciphertext and failed exactly when it carries an error, and the counts add up.  The
  report is the same whatever the relay does with the envelopes, so "sent" means encrypted, not handed over.  A bound relay
  is offered the envelopes of the entries marked sent, in order, each once, until it refuses one (or a recipient is not the ID
  of a key): either all were accepted, or the last one offered was refused.  Without a relay nothing is offered.
\<close>

theorem fanout_report:
  assumes "SendMultiMessage P S D net coins draws ts wr mio cid pt rs f = (Inr r, f')"
  shows "map dr_Recipient (fr_Deliveries r) = GetEffectiveRecipients S cid rs f \<and>
         (\<forall>x\<in>set (fr_Deliveries r). (dr_Status x = DeliverySent \<longleftrightarrow> dr_Ciphertext x \<noteq> None) \<and>
            (dr_Status x = DeliveryFailed \<longleftrightarrow> dr_Error x \<noteq> None)) \<and>
         SuccessCount r + FailedCount r + PendingCount r = length (GetEffectiveRecipients S cid rs f) \<and>
         (\<forall>net'. fst (SendMultiMessage P S D net' coins draws ts wr mio cid pt rs f) = Inr r) \<and>
         (\<exists>new. attempts f' = attempts f @ new \<and>
            (if fo_relay f then tried net (attempts f) (addressed P (map (\<lambda>x. (dr_Recipient x, dr_Ciphertext x)) (fr_Deliveries r))) new
             else new = []))"
proof -
  let ?eff = "GetEffectiveRecipients S cid rs f"
  obtain c where c: "cs_LoadContext S cid (CtxStore f) = Inr c" "mc_MetadataVersion c \<noteq> 0"
      "VerifyContextSignature P (Some c) = None"
    using assms by (auto simp: SendMultiMessage_def split: sum.splits if_splits option.splits)
  let ?xs = "zip (map draws [0..<length ?eff]) ?eff"
  let ?init = "\<lparr>ss_results = [], ss_deliveries = [], ss_client = fo_client f, ss_store = deliveryStore f\<rparr>"
  let ?s = "fold (send_one P D (SkipOffline (fo_config f)) (GenerateMessageID coins) c cid pt ts) ?xs ?init"
  have ne: "?eff \<noteq> []" "ss_results ?s \<noteq> []" and r: "fr_Deliveries r = ss_results ?s"
    using assms c by (auto simp: SendMultiMessage_def Let_def split: if_splits)
  have snds: "map snd ?xs = ?eff" by simp
  obtain res where res: "ss_results ?s = ss_results ?init @ res" "map dr_Recipient res = ?eff"
      "\<forall>x\<in>set res. (dr_Status x = DeliverySent \<longleftrightarrow> dr_Ciphertext x \<noteq> None) \<and> (dr_Status x = DeliveryFailed \<longleftrightarrow> dr_Error x \<noteq> None)"
    using send_fold_frame(4) [of P D "SkipOffline (fo_config f)" "GenerateMessageID coins" c cid pt ts ?xs ?init]
    unfolding snds by (elim exE conjE) (rule that; assumption)
  have "fst (SendMultiMessage P S D net' coins draws ts wr mio cid pt rs f) = Inr r" for net'
    using assms c ne by (simp add: SendMultiMessage_def Let_def)
  moreover have "\<exists>new. attempts f' = attempts f @ new \<and>
      (if fo_relay f then tried net (attempts f) (addressed P (map (\<lambda>x. (dr_Recipient x, dr_Ciphertext x)) (ss_results ?s))) new else new = [])"
  proof -
    obtain cl where f': "f' = (let f1 = f\<lparr>fo_client := cl, deliveryStore := ss_store ?s\<rparr>
        in if fo_relay f then snd (sendDeliveries P D net mio (ss_deliveries ?s) f1) else f1)"
      using assms c ne by (auto simp: SendMultiMessage_def Let_def split: if_splits)
    have "addressed P (map (\<lambda>d. (md_Recipient d, md_Ciphertext d)) (ss_deliveries ?s)) =
        addressed P (map (\<lambda>x. (dr_Recipient x, dr_Ciphertext x)) (ss_results ?s))"
      using send_fold_copies [of ?init P D "SkipOffline (fo_config f)" "GenerateMessageID coins" c cid pt ts ?xs]
      by (simp add: addressed_def sealed_copies_def [of "[]"])
    then show ?thesis
      using sendDeliveries_tries [of P D net mio "ss_deliveries ?s" "f\<lparr>fo_client := cl, deliveryStore := ss_store ?s\<rparr>"]
      unfolding f' by (auto simp: Let_def)
  qed
  moreover have d: "fr_Deliveries r = res" using res(1) r by simp
  moreover have "length res = length ?eff" using res(2) by (metis length_map)
  ultimately show ?thesis using res(2,3) counts_cover [of r] unfolding r [symmetric] d by (metis (no_types, lifting))
qed

subsection \<open>End to end\<close>

text \<open>What makes a group send reach one recipient: a usable descriptor and a session of his own.\<close>

definition ready_to_send ::
  "prims \<Rightarrow> 'c ContextStore \<Rightarrow> string \<Rightarrow> string list \<Rightarrow> string \<Rightarrow> MessageContext \<Rightarrow> ('c, 'd) Fanout \<Rightarrow> bool" where
  "ready_to_send P S cid rs bob c f \<longleftrightarrow>
     cs_LoadContext S cid (CtxStore f) = Inr c \<and> mc_MetadataVersion c \<noteq> 0 \<and> attachable P c \<and>
     bob \<in> set (GetEffectiveRecipients S cid rs f) \<and>
     (\<forall>r\<in>set rs. r \<noteq> bob \<longrightarrow> map_of (Sessions (fo_client f)) r \<noteq> map_of (Sessions (fo_client f)) bob)"

lemma SendMultiMessage_reaches:
  assumes ready: "ready_to_send P S cid rs bob c f"
    and a: "map_of (Sessions (fo_client f)) bob = Some adr" "heap (fo_client f) adr = Some sp"
    and enc: "\<forall>i. \<exists>ct sp'. encryptWithAAD P (dw_key (draws i)) (cl_Id (fo_client f)) pt
        (buildDeliveryAAD (GenerateMessageID coins) (mc_ContextID c) (cl_Id (fo_client f)) bob (mc_MetadataVersion c)) c sp = (Inr ct, sp')"
  shows "\<exists>r f' x i ct sp'. SendMultiMessage P S D net coins draws ts wr mio cid pt rs f = (Inr r, f') \<and>
     x \<in> set (fr_Deliveries r) \<and> dr_Recipient x = bob \<and> dr_Status x = DeliverySent \<and> dr_Ciphertext x = Some ct \<and>
     encryptWithAAD P (dw_key (draws i)) (cl_Id (fo_client f)) pt
        (buildDeliveryAAD (GenerateMessageID coins) (mc_ContextID c) (cl_Id (fo_client f)) bob (mc_MetadataVersion c)) c sp = (Inr ct, sp')"
proof -
  let ?eff = "GetEffectiveRecipients S cid rs f"
  have eff: "set ?eff \<subseteq> set rs" by (auto simp: GetEffectiveRecipients_def Let_def)
  obtain pre post where split: "?eff = pre @ bob # post" "bob \<notin> set pre"
    using ready split_list_first by (metis ready_to_send_def)
  let ?n = "length pre"
  let ?xs = "zip (map draws [0..<length ?eff]) ?eff"
  let ?init = "\<lparr>ss_results = [], ss_deliveries = [], ss_client = fo_client f, ss_store = deliveryStore f\<rparr>"
  let ?last = "fold (send_one P D (SkipOffline (fo_config f)) (GenerateMessageID coins) c cid pt ts) ?xs ?init"
  have upt: "[0..<length ?eff] = [0..<?n] @ ?n # [Suc ?n..<length ?eff]"
    unfolding split(1) by (metis append_Cons append_Nil length_append le_add1 length_Cons less_add_Suc1 add_Suc_right upt_add_eq_append upt_conv_Cons zero_le add_0)
  have xs: "?xs = zip (map draws [0..<?n]) pre @ (draws ?n, bob) # zip (map draws [Suc ?n..<length ?eff]) post"
    unfolding upt by (subst split(1)) simp
  obtain ct sp' where e: "encryptWithAAD P (dw_key (draws ?n)) (cl_Id (fo_client f)) pt
      (buildDeliveryAAD (GenerateMessageID coins) (mc_ContextID c) (cl_Id (fo_client f)) bob (mc_MetadataVersion c)) c sp = (Inr ct, sp')"
    using enc by blast
  have "\<forall>(dw, r')\<in>set (zip (map draws [0..<?n]) pre). map_of (Sessions (fo_client f)) r' \<noteq> Some adr"
  proof (clarify)
    fix dw r' assume in_pre: "(dw, r') \<in> set (zip (map draws [0..<?n]) pre)" and adr: "map_of (Sessions (fo_client f)) r' = Some adr"
    have "r' \<in> set pre" using in_pre by (rule set_zip_rightD)
    then have "r' \<in> set rs" "r' \<noteq> bob" using eff split by auto
    then show False using ready a(1) adr by (auto simp: ready_to_send_def)
  qed
  then obtain x where x: "x \<in> set (ss_results ?last)" "dr_Recipient x = bob" "dr_Status x = DeliverySent" "dr_Ciphertext x = Some ct"
    using send_fold_reaches [OF xs, of ?init adr sp P pt "GenerateMessageID coins" c ct sp'] a e by fastforce
  then have "ss_results ?last \<noteq> []" "?eff \<noteq> []" using split(1) by auto
  moreover have "cs_LoadContext S cid (CtxStore f) = Inr c" "mc_MetadataVersion c \<noteq> 0" "VerifyContextSignature P (Some c) = None"
    using ready by (simp_all add: ready_to_send_def attachable_def)
  ultimately obtain r f' where r: "SendMultiMessage P S D net coins draws ts wr mio cid pt rs f = (Inr r, f')" "fr_Deliveries r = ss_results ?last"
    by (simp add: SendMultiMessage_def Let_def)
  then have "x \<in> set (fr_Deliveries r)" using x(1) by simp
  then show ?thesis using r(1) x(2-4) e by (intro exI [of _ r] exI [of _ f'] exI [of _ x] exI [of _ ?n] exI [of _ ct] exI [of _ sp'] conjI)
qed

lemma group_delivery_run:
  assumes laws: "np_law P" "aead_law P" "hkdf_law P" "dh_law P" and "mirrored P a b"
    and "duplex_reach P (cl_Id (fo_client f)) bob (fresh_duplex a b) s" "toB s = []"
    and "\<forall>i. p_basemult P (dw_key (draws i)) \<noteq> DhPublic (pA s)" "SendNonce (pA s) < 2 ^ 31"
    and ready: "ready_to_send P S cid rs bob c f"
    and "map_of (Sessions (fo_client f)) bob = Some adr" "heap (fo_client f) adr = Some (pA s)"
    and "map_of (Sessions (fo_client g)) (cl_Id (fo_client f)) = Some adr'" "heap (fo_client g) adr' = Some (pB s)"
    and fits: "meta_fits m" "m = \<lparr>dm_MessageID = GenerateMessageID coins, dm_ContextID = mc_ContextID c,
          dm_Sender = cl_Id (fo_client f), dm_Recipient = bob, dm_Version = mc_MetadataVersion c\<rparr>"
    and "\<not> seenMessages g (cl_Id (fo_client f), GenerateMessageID coins)"
  shows "\<exists>r f' x ct im g'. SendMultiMessage P S D net coins draws ts wr mio cid pt rs f = (Inr r, f') \<and>
     x \<in> set (fr_Deliveries r) \<and> dr_Recipient x = bob \<and> dr_Status x = DeliverySent \<and> dr_Ciphertext x = Some ct \<and>
     ProcessDelivery P S' wr' io bob ct g = (Inr im, g') \<and>
     im_Sender im = cl_Id (fo_client f) \<and> im_Plaintext im = pt \<and> im_Meta im = m \<and>
     (\<forall>e s'. cs_LoadContext S' (mc_ContextID c) (CtxStore g) = Inl e \<and> cs_SaveContext S' io c (CtxStore g) = (None, s') \<longrightarrow>
        im_Context im = Some c) \<and> ct \<noteq> [] \<and>
     (\<exists>p g1. ps_Context p = Some c \<and> dm_ContextID (ps_Meta p) = mc_ContextID c \<and> CtxStore g1 = CtxStore g \<and> attachable P c \<and>
        learn_context P S' io p g1 = (im_Context im, g'))"
proof -
  let ?me = "cl_Id (fo_client f)" and ?mid = "GenerateMessageID coins"
  let ?aad = "buildDeliveryAAD ?mid (mc_ContextID c) ?me bob (mc_MetadataVersion c)"
  have aad: "?aad = aad_of m" using fits(2) by (simp add: aad_of_def)
  have att: "\<forall>d. Some c = Some d \<longrightarrow> attachable P d" using ready by (simp add: ready_to_send_def)
  obtain wrapped where w: "wrapPayloadV2 P (aad_of m) (Some c) pt = Inr wrapped"
    using wrap_total [OF laws(1) att] by blast
  have parsed: "ParseWrapped P wrapped = Inr \<lparr>ps_Meta = m, ps_Context = Some c, ps_Plaintext = pt\<rparr>"
    by (rule ParseWrapped_wrap [OF laws(1) fits(1) att w])
  have frame: "\<exists>ct a' c'. Encrypt P (dw_key (draws i)) ?me wrapped (pA s) = (Inr ct, a') \<and>
      Client_Decrypt P wr' ct (fo_client g) = (Inr (?me, wrapped), c')" for i
    using next_frame_delivered [OF laws assms(5-7) _ assms(9) assms(13,14)] assms(8) by blast
  have "\<forall>i. \<exists>ct sp'. encryptWithAAD P (dw_key (draws i)) ?me pt ?aad c (pA s) = (Inr ct, sp')"
  proof
    fix i
    show "\<exists>ct sp'. encryptWithAAD P (dw_key (draws i)) ?me pt ?aad c (pA s) = (Inr ct, sp')"
      using frame [of i] w unfolding aad by (auto simp: encryptWithAAD_def)
  qed
  from SendMultiMessage_reaches [OF ready assms(11,12) this, of D net ts wr mio]
  obtain r f' x i ct sp' where send: "SendMultiMessage P S D net coins draws ts wr mio cid pt rs f = (Inr r, f')"
      "x \<in> set (fr_Deliveries r)" "dr_Recipient x = bob" "dr_Status x = DeliverySent" "dr_Ciphertext x = Some ct"
    and enc: "encryptWithAAD P (dw_key (draws i)) ?me pt ?aad c (pA s) = (Inr ct, sp')"
    by blast
  have "Encrypt P (dw_key (draws i)) ?me wrapped (pA s) = (Inr ct, sp')"
    using enc w unfolding aad by (auto simp: encryptWithAAD_def split: sum.splits prod.splits)
  then have "ct \<noteq> []" by (rule Encrypt_frame_nonempty [OF laws(1)])
  have "Encrypt P (dw_key (draws i)) ?me wrapped (pA s) = (Inr ct, sp')"
    using enc w unfolding aad by (auto simp: encryptWithAAD_def split: sum.splits prod.splits)
  then obtain c' where dec: "Client_Decrypt P wr' ct (fo_client g) = (Inr (?me, wrapped), c')"
    using frame [of i] by auto
  let ?p = "\<lparr>ps_Meta = m, ps_Context = Some c, ps_Plaintext = pt\<rparr>"
  let ?g1 = "g\<lparr>fo_client := c', seenMessages := (seenMessages g)((?me, ?mid) := True)\<rparr>"
  obtain ctx g' where learn: "learn_context P S' io ?p ?g1 = (ctx, g')" by (cases "learn_context P S' io ?p ?g1")
  let ?im = "\<lparr>im_Sender = ?me, im_Meta = m, im_Context = ctx, im_Plaintext = pt\<rparr>"
  have "ProcessDelivery P S' wr' io bob ct g = (Inr ?im, g')"
    using learn assms(17) fits(2) by (simp add: ProcessDelivery_def dec parsed Let_def)
  moreover have "ctx = Some c" if "cs_LoadContext S' (mc_ContextID c) (CtxStore g) = Inl e"
      "cs_SaveContext S' io c (CtxStore g) = (None, s')" for e s'
  proof -
    have "ApplyRemoteContext P S' io (Some c) ?g1 = (None, ?g1\<lparr>CtxStore := s'\<rparr>)"
      using that ready by (simp add: ApplyRemoteContext_def ready_to_send_def attachable_def)
    then show ?thesis using learn by (simp add: learn_context_def)
  qed
  moreover have "\<exists>p g1. ps_Context p = Some c \<and> dm_ContextID (ps_Meta p) = mc_ContextID c \<and> CtxStore g1 = CtxStore g \<and> attachable P c \<and>
      learn_context P S' io p g1 = (im_Context ?im, g')"
    using learn att fits(2) by (intro exI [of _ ?p] exI [of _ ?g1]) simp
  ultimately show ?thesis using send \<open>ct \<noteq> []\<close>
    by (intro exI [of _ r] exI [of _ f'] exI [of _ x] exI [of _ ct] exI [of _ ?im] exI [of _ g']) (intro conjI; auto)
qed

text \<open>The descriptor a message is filed under has the ID of the attached one.\<close>

context context_table
begin

lemma learned:
  assumes "learn_context P S io p g1 = (ctx, g')" "ps_Context p = Some c" "dm_ContextID (ps_Meta p) = mc_ContextID c" "valid (CtxStore g1)"
  shows "ctx = Some c' \<Longrightarrow> mc_ContextID c' = mc_ContextID c"
    and "cs_LoadContext S (mc_ContextID c) (CtxStore g1) = Inr c0 \<Longrightarrow> mc_MetadataVersion c \<le> mc_MetadataVersion c0 \<Longrightarrow> ctx = Some c0"
    and "cs_LoadContext S (mc_ContextID c) (CtxStore g1) = Inr c0 \<Longrightarrow> \<not> mc_MetadataVersion c \<le> mc_MetadataVersion c0 \<Longrightarrow>
      attachable P c \<Longrightarrow> cs_SaveContext S io c (CtxStore g1) = (None, s') \<Longrightarrow> ctx = Some c"
proof -
  have "valid (CtxStore f1)" if "ApplyRemoteContext P S io (Some c) g1 = (e, f1)" for e f1
    using that assms(4) save_valid [OF assms(4), of io c]
    by (auto simp: ApplyRemoteContext_def Let_def split: if_splits sum.splits option.splits prod.splits)
  then show "ctx = Some c' \<Longrightarrow> mc_ContextID c' = mc_ContextID c"
    using assms(1-3) load_id by (fastforce simp: learn_context_def Let_def split: prod.splits option.splits sum.splits)
qed (use assms in \<open>auto simp: learn_context_def ApplyRemoteContext_def attachable_def Let_def split: if_splits\<close>)

end

text \<open>
  C12.  A group message reaches its recipient: when the sender knows a signed descriptor and has a session
  with the recipient that is in step (any run of the duplex session with nothing in flight), the send reports the
  recipient's entry as sent, and the recipient's client, given that ciphertext, accepts it as a message of the
  sender with the same plaintext, message ID, group and version; if the group is new to him, he learns the
  descriptor.
\<close>

theorem group_delivery:
  assumes laws: "np_law P" "aead_law P" "hkdf_law P" "dh_law P" and "mirrored P a b"
    and "duplex_reach P (cl_Id (fo_client f)) bob (fresh_duplex a b) s" "toB s = []"
    and "\<forall>i. p_basemult P (dw_key (draws i)) \<noteq> DhPublic (pA s)" "SendNonce (pA s) < 2 ^ 31"
    and ready: "ready_to_send P S cid rs bob c f"
    and "map_of (Sessions (fo_client f)) bob = Some adr" "heap (fo_client f) adr = Some (pA s)"
    and "map_of (Sessions (fo_client g)) (cl_Id (fo_client f)) = Some adr'" "heap (fo_client g) adr' = Some (pB s)"
    and fits: "meta_fits m" "m = \<lparr>dm_MessageID = GenerateMessageID coins, dm_ContextID = mc_ContextID c,
          dm_Sender = cl_Id (fo_client f), dm_Recipient = bob, dm_Version = mc_MetadataVersion c\<rparr>"
    and "\<not> seenMessages g (cl_Id (fo_client f), GenerateMessageID coins)"
  shows "\<exists>r f' x ct im g'. SendMultiMessage P S D net coins draws ts wr mio cid pt rs f = (Inr r, f') \<and>
     x \<in> set (fr_Deliveries r) \<and> dr_Recipient x = bob \<and> dr_Status x = DeliverySent \<and> dr_Ciphertext x = Some ct \<and>
     ProcessDelivery P S' wr' io bob ct g = (Inr im, g') \<and>
     im_Sender im = cl_Id (fo_client f) \<and> im_Plaintext im = pt \<and> im_Meta im = m \<and>
     (\<forall>e s'. cs_LoadContext S' (mc_ContextID c) (CtxStore g) = Inl e \<and> cs_SaveContext S' io c (CtxStore g) = (None, s') \<longrightarrow>
        im_Context im = Some c)"
  using group_delivery_run [OF assms, of D net ts wr mio pt S' wr' io] by blast

subsection \<open>Concrete instances\<close>

definition toy_fan :: "string \<Rightarrow> string \<Rightarrow> SecurePeer \<Rightarrow> FileContextStore \<Rightarrow> (FileContextStore, FileDeliveryStore) Fanout" where
  "toy_fan me peer sp store =
     NewFanout (NewClientFromKeys me (toy_keys 1) [(peer, 0)] [0 \<mapsto> sp] 1 Map.empty) True store toy_del_store
       DefaultFanoutConfig []"

definition toy_open_store :: FileContextStore where
  "toy_open_store = toy_ctx_store\<lparr>policies := []\<rparr>"

definition toy_empty_store :: FileContextStore where
  "toy_empty_store = toy_ctx_store\<lparr>contexts := [], policies := []\<rparr>"

definition toy_draw :: "nat \<Rightarrow> draw" where
  "toy_draw i = \<lparr>dw_id = [1], dw_key = [], dw_io = SaveDone\<rparr>"

abbreviation "tight_contexts \<equiv> FileContexts tight toy_packets"
abbreviation "tight_deliveries \<equiv> FileDeliveries tight toy_packets"
abbreviation "alice_fan \<equiv> toy_fan ''alice'' ''bob'' toy_peer toy_open_store"
abbreviation "bob_fan \<equiv> toy_fan ''bob'' ''alice'' toy_peer' toy_empty_store"

lemma toy_fan_simps [simp]:
  "CtxStore (toy_fan me peer sp store) = store" "deliveryStore (toy_fan me peer sp store) = toy_del_store"
  "cl_Id (fo_client (toy_fan me peer sp store)) = me" "Sessions (fo_client (toy_fan me peer sp store)) = [(peer, 0)]"
  "heap (fo_client (toy_fan me peer sp store)) 0 = Some sp" "seenMessages (toy_fan me peer sp store) = (\<lambda>_. False)"
  by (simp_all add: toy_fan_def NewFanout_def NewClientFromKeys_def)

lemma toy_stores_ok [simp]: "tables_ok toy_ctx_store" "tables_ok toy_open_store" "deliveries_ok toy_del_store"
  using toy_recordable by (simp_all add: recordable_def toy_open_store_def tables_ok_def)

lemma toy_open_load: "cs_LoadContext tight_contexts ''ctx'' toy_open_store = Inr (toy_context ''team'' 1 7)"
  by (simp add: FileContexts_def File_LoadContext_def toy_open_store_def toy_ctx_store_def)

lemma toy_ready: "ready_to_send tight tight_contexts ''ctx'' [''bob''] ''bob'' (toy_context ''team'' 1 7) alice_fan"
  by (simp add: ready_to_send_def toy_open_load toy_context_attachable GetEffectiveRecipients_def ListRecipientPolicies_def
      policy_map_def PolicyEnabled_def PolicyBlocked_def PolicyExcluded_def)
    (simp add: FileContexts_def File_ListPolicies_def toy_open_store_def)

lemma tight_mirrored: "mirrored tight toy_peer toy_peer'"
  using toy_mirrored by (simp add: mirrored_def tight_def)

lemma toy_group_facts:
  "\<forall>i. p_basemult tight (dw_key (toy_draw i)) \<noteq> DhPublic (pA (fresh_duplex toy_peer toy_peer'))"
  "SendNonce (pA (fresh_duplex toy_peer toy_peer')) < 2 ^ 31"
  "toB (fresh_duplex toy_peer toy_peer') = []"
  "meta_fits \<lparr>dm_MessageID = GenerateMessageID [9], dm_ContextID = mc_ContextID (toy_context ''team'' 1 7),
     dm_Sender = cl_Id (fo_client alice_fan), dm_Recipient = ''bob'', dm_Version = mc_MetadataVersion (toy_context ''team'' 1 7)\<rparr>"
  by (simp_all add: fresh_duplex_def toy_peer_def toy_draw_def tight_def toy_def meta_fits_def GenerateMessageID_def)

lemma toy_group_run:
  "\<exists>r f' x ct im g'. SendMultiMessage tight tight_contexts tight_deliveries (\<lambda>_ _ _. False) [9] toy_draw 5 Written
       (\<lambda>_. SaveDone) ''ctx'' [42] [''bob''] alice_fan = (Inr r, f') \<and>
     x \<in> set (fr_Deliveries r) \<and> dr_Recipient x = ''bob'' \<and> dr_Status x = DeliverySent \<and> dr_Ciphertext x = Some ct \<and>
     ProcessDelivery tight tight_contexts Written (SaveDone, SaveDone) ''bob'' ct bob_fan = (Inr im, g') \<and>
     im_Sender im = ''alice'' \<and> im_Plaintext im = [42]"
proof -
  from group_delivery_run [OF tight_laws(4,3,2,1) tight_mirrored, of alice_fan "''bob''", OF _ toy_group_facts(3,1,2) toy_ready _ _ _ _ toy_group_facts(4) refl,
      of 0 bob_fan 0 tight_deliveries "\<lambda>_ _ _. False" 5 Written "\<lambda>_. SaveDone" "[42]" tight_contexts Written "(SaveDone, SaveDone)"]
  show ?thesis using duplex_reach.start by (fastforce simp: fresh_duplex_def)
qed

theorem group_delivery_witness:
  "\<exists>r f' x ct im g'. SendMultiMessage tight tight_contexts tight_deliveries (\<lambda>_ _ _. False) [9] toy_draw 5 Written
       (\<lambda>_. SaveDone) ''ctx'' [42] [''bob''] alice_fan = (Inr r, f') \<and>
     x \<in> set (fr_Deliveries r) \<and> dr_Recipient x = ''bob'' \<and> dr_Status x = DeliverySent \<and> dr_Ciphertext x = Some ct \<and>
     ProcessDelivery tight tight_contexts Written (SaveDone, SaveDone) ''bob'' ct bob_fan = (Inr im, g') \<and>
     im_Sender im = ''alice'' \<and> im_Plaintext im = [42]"
proof -
  from group_delivery [OF tight_laws(4,3,2,1) tight_mirrored, of alice_fan "''bob''", OF _ toy_group_facts(3,1,2) toy_ready _ _ _ _ toy_group_facts(4) refl,
      of 0 bob_fan 0 tight_deliveries "\<lambda>_ _ _. False" 5 Written "\<lambda>_. SaveDone" "[42]" tight_contexts Written "(SaveDone, SaveDone)"]
  show ?thesis using duplex_reach.start by (fastforce simp: fresh_duplex_def)
qed


theorem fanout_report_witness:
  "\<exists>r f'. SendMultiMessage tight tight_contexts tight_deliveries (\<lambda>_ _ _. False) [9] toy_draw 5 Written
       (\<lambda>_. SaveDone) ''ctx'' [42] [''bob''] alice_fan = (Inr r, f') \<and>
     fst (SendMultiMessage tight tight_contexts tight_deliveries (\<lambda>_ _ _. True) [9] toy_draw 5 Written
       (\<lambda>_. SaveDone) ''ctx'' [42] [''bob''] alice_fan) = Inr r"
proof -
  obtain r f' where "SendMultiMessage tight tight_contexts tight_deliveries (\<lambda>_ _ _. False) [9] toy_draw 5 Written
       (\<lambda>_. SaveDone) ''ctx'' [42] [''bob''] alice_fan = (Inr r, f')"
    using toy_group_run by blast
  from fanout_report [OF this] this show ?thesis by blast
qed

theorem effective_recipients_witness:
  "GetEffectiveRecipients tight_contexts ''ctx'' [''bob'', ''eve''] (toy_fan ''alice'' ''bob'' toy_peer toy_ctx_store) = [''eve'']"
proof -
  have "GetRecipientPolicy tight_contexts ''ctx'' ''bob'' (toy_fan ''alice'' ''bob'' toy_peer toy_ctx_store) = PolicyBlocked"
    "GetRecipientPolicy tight_contexts ''ctx'' ''eve'' (toy_fan ''alice'' ''bob'' toy_peer toy_ctx_store) = PolicyEnabled"
    by (simp_all add: GetRecipientPolicy_def FileContexts_def File_LoadPolicy_def toy_ctx_store_def PolicyBlocked_def)
  then show ?thesis
    using effective_recipients [of "toy_fan ''alice'' ''bob'' toy_peer toy_ctx_store" tight toy_packets "''ctx''" "[''bob'', ''eve'']"]
    by (simp add: PolicyBlocked_def PolicyExcluded_def PolicyEnabled_def)
qed

theorem context_takeover_witness:
  "\<exists>f'. ApplyRemoteContext tight tight_contexts (SaveDone, SaveDone) (Some (toy_context ''mine'' 2 9))
       (toy_fan (toy_creator 7) ''bob'' toy_peer toy_open_store) = (None, f') \<and>
     File_LoadContext ''ctx'' (CtxStore f') = Inr (toy_context ''mine'' 2 9)"
proof -
  have "toy_creator 9 \<noteq> toy_creator 7" by (simp add: toy_creator_def toy_pad_def)
  moreover have "File_LoadContext ''ctx'' toy_open_store = Inr (toy_context ''team'' 1 7)"
    using toy_open_load by (simp add: FileContexts_def)
  ultimately show ?thesis
    using context_takeover [OF tight_laws(4), of "''ctx''" "toy_fan (toy_creator 7) ''bob'' toy_peer toy_open_store"
        "toy_context ''team'' 1 7" "toy_context ''mine'' 2 9" toy_packets]
    by fastforce
qed

theorem retry_never_sends_witness:
  "RetryUndelivered tight tight_deliveries (\<lambda>_ _ _. True) (\<lambda>_. SaveDone) alice_fan = alice_fan"
  by (rule retry_never_sends) simp

end
