(* ===== verification/Mailbox.thy ===== *)
theory Mailbox
  imports RecordFiles Texts Toy "HOL-Library.Product_Lexorder"
begin

text \<open>
  The message store of an identity (\<^verbatim>\<open>src/internal/mailbox/store.go\<close>): threads of messages, keyed by peer
  ID or by \<^verbatim>\<open>ctx:<id>\<close>, with their record file.

  The table of threads is an association list with distinct keys in some order, the order in which
  the code happens to iterate over its map.  \<^verbatim>\<open>int64\<close> timestamps are 64-bit words read as signed numbers.
  The clock is an argument; the reader of the legacy JSON file is the argument \<open>J\<close>.  The mutex makes each
  operation atomic.
\<close>

subsection \<open>Data\<close>

datatype Direction = Incoming | Outgoing
datatype Kind = Direct | Group

record Message =
  m_ID :: string
  m_Direction :: Direction
  m_Kind :: Kind
  m_Body :: string
  m_Timestamp :: "64 word"
  m_IsRead :: bool
  m_Sender :: string
  m_ContextID :: string
  m_ContextName :: string

record Thread =
  t_Key :: string
  t_Title :: string
  t_Messages :: "Message list"

definition Thread_unread :: "Thread \<Rightarrow> int" where
  "Thread_unread t = fold (\<lambda>m n. if \<not> m_IsRead m then n + 1 else n) (t_Messages t) 0"

definition lastActivity :: "Thread \<Rightarrow> int" where
  "lastActivity t = (if t_Messages t = [] then 0 else sint (m_Timestamp (last (t_Messages t))))"

type_synonym threads = "(string \<times> Thread) list"

definition groupPrefix :: string where "groupPrefix = ''ctx:''"
definition IsGroupKey :: "string \<Rightarrow> bool" where "IsGroupKey key = HasPrefix key groupPrefix"
definition groupKey :: "string \<Rightarrow> string" where "groupKey contextID = ''ctx:'' @ contextID"

subsection \<open>Records\<close>

record messageBin =
  b_ThreadKey :: string
  b_ID :: string
  b_Direction :: byte
  b_Kind :: byte
  b_IsRead :: byte
  b_Body :: string
  b_Sender :: string
  b_ContextID :: string
  b_ContextName :: string
  b_Timestamp :: "64 word"

definition messageBin_MarshalBinID :: "messageBin \<Rightarrow> npfield list" where
  "messageBin_MarshalBinID m =
     [(1, to_bytes (b_ThreadKey m)), (2, to_bytes (b_ID m)), (3, [b_Direction m]), (4, [b_Kind m]),
      (5, [b_IsRead m]), (6, to_bytes (b_Body m)), (7, to_bytes (b_Sender m)), (8, to_bytes (b_ContextID m)),
      (9, to_bytes (b_ContextName m)), (10, putU64 (b_Timestamp m))]"

definition messageBin_field :: "npfield \<Rightarrow> messageBin \<Rightarrow> np_error + messageBin" where
  "messageBin_field f m =
     (let (id, data) = f in
      if id = 1 then Inr (m\<lparr>b_ThreadKey := to_str data\<rparr>)
      else if id = 2 then Inr (m\<lparr>b_ID := to_str data\<rparr>)
      else if id = 3 then Inr (if length data = 1 then m\<lparr>b_Direction := data ! 0\<rparr> else m)
      else if id = 4 then Inr (if length data = 1 then m\<lparr>b_Kind := data ! 0\<rparr> else m)
      else if id = 5 then Inr (if length data = 1 then m\<lparr>b_IsRead := data ! 0\<rparr> else m)
      else if id = 6 then Inr (m\<lparr>b_Body := to_str data\<rparr>)
      else if id = 7 then Inr (m\<lparr>b_Sender := to_str data\<rparr>)
      else if id = 8 then Inr (m\<lparr>b_ContextID := to_str data\<rparr>)
      else if id = 9 then Inr (m\<lparr>b_ContextName := to_str data\<rparr>)
      else if id = 10 then Inr (if length data = 8 then m\<lparr>b_Timestamp := beU64 data\<rparr> else m)
      else Inr m)"

definition messageBin_UnmarshalBinID :: "npfield list \<Rightarrow> np_error + messageBin" where
  "messageBin_UnmarshalBinID fs =
     fold_fields messageBin_field fs
       \<lparr>b_ThreadKey = [], b_ID = [], b_Direction = 0, b_Kind = 0, b_IsRead = 0, b_Body = [], b_Sender = [],
        b_ContextID = [], b_ContextName = [], b_Timestamp = 0\<rparr>"

interpretation message: bin_codec messageBin_MarshalBinID messageBin_UnmarshalBinID "\<lambda>_. True"
  by unfold_locales
    (auto simp: messageBin_MarshalBinID_def messageBin_UnmarshalBinID_def messageBin_field_def
      intro!: messageBin.equality)

definition toBin :: "string \<Rightarrow> Message \<Rightarrow> messageBin" where
  "toBin threadKey msg =
     \<lparr>b_ThreadKey = threadKey, b_ID = m_ID msg, b_Direction = (if m_Direction msg = Outgoing then 1 else 0),
      b_Kind = (if m_Kind msg = Group then 1 else 0), b_IsRead = (if m_IsRead msg then 1 else 0),
      b_Body = m_Body msg, b_Sender = m_Sender msg, b_ContextID = m_ContextID msg,
      b_ContextName = m_ContextName msg, b_Timestamp = m_Timestamp msg\<rparr>"

definition fromBin :: "messageBin \<Rightarrow> Message" where
  "fromBin mb =
     \<lparr>m_ID = b_ID mb, m_Direction = (if b_Direction mb = 1 then Outgoing else Incoming),
      m_Kind = (if b_Kind mb = 1 then Group else Direct), m_Body = b_Body mb,
      m_Timestamp = b_Timestamp mb, m_IsRead = (b_IsRead mb = 1), m_Sender = b_Sender mb,
      m_ContextID = b_ContextID mb, m_ContextName = b_ContextName mb\<rparr>"

lemma fromBin_toBin [simp]: "fromBin (toBin k m) = m"
  by (cases "m_Direction m"; cases "m_Kind m") (auto simp: fromBin_def toBin_def intro!: Message.equality)

lemma toBin_key [simp]: "b_ThreadKey (toBin k m) = k"
  by (simp add: toBin_def)

subsection \<open>Files\<close>

datatype mailbox_error =
    MailboxRead store_error | MailboxLegacyParse | MailboxSerialize np_error | MailboxWrite store_error
  | NoConversation string | AmbiguousName string nat | AmbiguousPrefix string nat

definition fileFor :: "string \<Rightarrow> string" where "fileFor identityID = identityID @ ''.mailbox.np''"
definition legacyFileFor :: "string \<Rightarrow> string" where "legacyFileFor identityID = identityID @ ''.mailbox.json''"
definition mailbox_schema :: byte where "mailbox_schema = 41"

text \<open>Most recent activity first; keys decide among equals.\<close>

definition activity_order :: "Thread \<Rightarrow> int \<times> string" where
  "activity_order t = (- lastActivity t, t_Key t)"

definition ordered_threads :: "threads \<Rightarrow> Thread list" where
  "ordered_threads s = sort_key activity_order (map snd s)"

definition thread_records :: "threads \<Rightarrow> messageBin list" where
  "thread_records s = concat (map (\<lambda>t. map (toBin (t_Key t)) (t_Messages t)) (ordered_threads s))"

definition saveLocked ::
  "prims \<Rightarrow> packets \<Rightarrow> save_io \<Rightarrow> string \<Rightarrow> threads \<Rightarrow> filesystem \<Rightarrow> mailbox_error option \<times> filesystem" where
  "saveLocked P K io file s fs =
     (case encode_all P messageBin_MarshalBinID (thread_records s) of
        Inl e \<Rightarrow> (Some (MailboxSerialize e), fs)
      | Inr records \<Rightarrow>
          (case Binstore_Save K io file mailbox_schema records fs of
             (Some e, fs') \<Rightarrow> (Some (MailboxWrite e), fs')
           | (None, fs') \<Rightarrow> (None, fs')))"

definition insert_message :: "string \<Rightarrow> Message \<Rightarrow> threads \<Rightarrow> threads" where
  "insert_message key msg s =
     (let t = (case map_of s key of Some t \<Rightarrow> t | None \<Rightarrow> \<lparr>t_Key = key, t_Title = [], t_Messages = []\<rparr>);
          t1 = (if t_Title t = [] \<and> m_ContextName msg \<noteq> [] \<and> IsGroupKey key
                then t\<lparr>t_Title := m_ContextName msg\<rparr> else t)
      in AList.update key (t1\<lparr>t_Messages := t_Messages t1 @ [msg]\<rparr>) s)"

definition load_records :: "messageBin list \<Rightarrow> threads" where
  "load_records mbs =
     fold (\<lambda>mb s. if b_ThreadKey mb = [] then s else insert_message (b_ThreadKey mb) (fromBin mb) s) mbs []"

definition Mailbox_Load ::
  "prims \<Rightarrow> packets \<Rightarrow> (bytes \<Rightarrow> Thread option list option) \<Rightarrow> save_io \<Rightarrow> string \<Rightarrow> filesystem
   \<Rightarrow> (mailbox_error + threads) \<times> filesystem" where
  "Mailbox_Load P K J io identityID fs =
     (case Binstore_Load K (fileFor identityID) mailbox_schema fs of
        Inr records \<Rightarrow> (Inr (load_records (decode_all P messageBin_UnmarshalBinID records)), fs)
      | Inl e \<Rightarrow>
          if e \<noteq> StoreMissing then (Inl (MailboxRead e), fs)
          else (case fs (legacyFileFor identityID) of
                  None \<Rightarrow> (Inr [], fs)
                | Some data \<Rightarrow>
                    (case J data of
                       None \<Rightarrow> (Inl MailboxLegacyParse, fs)
                     | Some ts \<Rightarrow>
                         let s = fold (\<lambda>ot s. case ot of None \<Rightarrow> s
                                   | Some t \<Rightarrow> if t_Key t = [] then s else AList.update (t_Key t) t s) ts []
                         in (Inr s, snd (saveLocked P K io (fileFor identityID) s fs)))))"

subsection \<open>Operations\<close>

record clock =
  nowNano :: nat
  nowMilli :: "64 word"

definition appendDefaults :: "clock \<Rightarrow> Message \<Rightarrow> Message" where
  "appendDefaults now msg =
     (let m1 = (if m_ID msg = [] then msg\<lparr>m_ID := dec_nat (nowNano now)\<rparr> else msg);
          m2 = (if m_Timestamp m1 = 0 then m1\<lparr>m_Timestamp := nowMilli now\<rparr> else m1)
      in if m_Direction m2 = Outgoing then m2\<lparr>m_IsRead := True\<rparr> else m2)"

definition append_thread :: "clock \<Rightarrow> string \<Rightarrow> string \<Rightarrow> Message \<Rightarrow> threads \<Rightarrow> threads" where
  "append_thread now key title msg s =
     (let t = (case map_of s key of Some t \<Rightarrow> t | None \<Rightarrow> \<lparr>t_Key = key, t_Title = [], t_Messages = []\<rparr>);
          t1 = (if title \<noteq> [] then t\<lparr>t_Title := title\<rparr> else t)
      in AList.update key (t1\<lparr>t_Messages := t_Messages t1 @ [appendDefaults now msg]\<rparr>) s)"

definition Mailbox_append ::
  "prims \<Rightarrow> packets \<Rightarrow> save_io \<Rightarrow> clock \<Rightarrow> string \<Rightarrow> string \<Rightarrow> string \<Rightarrow> Message \<Rightarrow> threads \<times> filesystem
   \<Rightarrow> mailbox_error option \<times> threads \<times> filesystem" where
  "Mailbox_append P K io now file key title msg st =
     (let (s, fs) = st; s' = append_thread now key title msg s; (err, fs') = saveLocked P K io file s' fs
      in (err, s', fs'))"

definition new_message :: "Direction \<Rightarrow> Kind \<Rightarrow> string \<Rightarrow> Message" where
  "new_message d k body =
     \<lparr>m_ID = [], m_Direction = d, m_Kind = k, m_Body = body, m_Timestamp = 0, m_IsRead = False,
      m_Sender = [], m_ContextID = [], m_ContextName = []\<rparr>"

definition AppendIncoming where
  "AppendIncoming P K io now file peer body =
     Mailbox_append P K io now file peer [] (new_message Incoming Direct body)"

definition AppendOutgoing where
  "AppendOutgoing P K io now file peer body =
     Mailbox_append P K io now file peer [] (new_message Outgoing Direct body)"

definition AppendGroupIncoming where
  "AppendGroupIncoming P K io now file contextID contextName sender body =
     Mailbox_append P K io now file (groupKey contextID) contextName
       ((new_message Incoming Group body)\<lparr>m_Sender := sender, m_ContextID := contextID, m_ContextName := contextName\<rparr>)"

definition AppendGroupOutgoing where
  "AppendGroupOutgoing P K io now file contextID contextName body =
     Mailbox_append P K io now file (groupKey contextID) contextName
       ((new_message Outgoing Group body)\<lparr>m_Sender := ''Me'', m_ContextID := contextID, m_ContextName := contextName\<rparr>)"

definition Mailbox_Get :: "string \<Rightarrow> threads \<Rightarrow> Thread option" where
  "Mailbox_Get key s = map_of s key"

definition Mailbox_List :: "threads \<Rightarrow> Thread list" where
  "Mailbox_List s = ordered_threads s"

definition mark_read :: "Thread \<Rightarrow> Thread" where
  "mark_read t = t\<lparr>t_Messages := map (\<lambda>m. m\<lparr>m_IsRead := True\<rparr>) (t_Messages t)\<rparr>"

definition Mailbox_Read ::
  "prims \<Rightarrow> packets \<Rightarrow> save_io \<Rightarrow> string \<Rightarrow> string \<Rightarrow> threads \<times> filesystem
   \<Rightarrow> (mailbox_error + Message list \<times> mailbox_error option) \<times> threads \<times> filesystem" where
  "Mailbox_Read P K io file key st =
     (let (s, fs) = st in
      case map_of s key of
        None \<Rightarrow> (Inl (NoConversation key), s, fs)
      | Some t \<Rightarrow>
          if \<exists>m\<in>set (t_Messages t). \<not> m_IsRead m then
            let s' = AList.update key (mark_read t) s; (err, fs') = saveLocked P K io file s' fs
            in (Inr (t_Messages t, err), s', fs')
          else (Inr (t_Messages t, None), s, fs))"

definition UnreadTotal :: "threads \<Rightarrow> int" where
  "UnreadTotal s = fold (\<lambda>(k, t) n. n + Thread_unread t) s 0"

definition lowerASCII :: "string \<Rightarrow> string" where
  "lowerASCII s = map lower_char s"

definition threadTitle :: "Thread \<Rightarrow> string" where
  "threadTitle t =
     (if t_Title t \<noteq> [] then t_Title t
      else case List.find (\<lambda>m. m_ContextName m \<noteq> []) (t_Messages t) of None \<Rightarrow> [] | Some m \<Rightarrow> m_ContextName m)"

definition strip_ref :: "string \<Rightarrow> string" where
  "strip_ref arg =
     (if HasPrefix arg ''group:'' then drop 6 arg else if HasPrefix arg ''ctx:'' then drop 4 arg else arg)"

definition title_matches :: "string \<Rightarrow> threads \<Rightarrow> string list" where
  "title_matches ref s =
     map t_Key (filter (\<lambda>t. IsGroupKey (t_Key t) \<and> threadTitle t \<noteq> [] \<and> lowerASCII (threadTitle t) = lowerASCII ref)
       (map snd s))"

definition id_prefix_matches :: "string \<Rightarrow> threads \<Rightarrow> string list" where
  "id_prefix_matches ref s =
     map t_Key (filter (\<lambda>t. IsGroupKey (t_Key t) \<and> ref \<noteq> [] \<and> HasPrefix (drop 4 (t_Key t)) ref) (map snd s))"

definition ResolveThread :: "string \<Rightarrow> threads \<Rightarrow> mailbox_error + string" where
  "ResolveThread arg s =
     (let ref = strip_ref arg; exact = map_of s (groupKey ref) in
      if (case exact of None \<Rightarrow> False | Some t \<Rightarrow> IsGroupKey (t_Key t))
      then (case exact of None \<Rightarrow> Inl (NoConversation arg) | Some t \<Rightarrow> Inr (t_Key t))
      else
        let titleMatches = title_matches ref s; idPrefixMatches = id_prefix_matches ref s
        in if length titleMatches = 1 then Inr (titleMatches ! 0)
           else if length titleMatches > 1 then Inl (AmbiguousName arg (length titleMatches))
           else if length idPrefixMatches = 1 then Inr (idPrefixMatches ! 0)
           else if length idPrefixMatches > 1 then Inl (AmbiguousPrefix arg (length idPrefixMatches))
           else Inl (NoConversation arg))"

subsection \<open>Invariant\<close>

definition mailbox_ok :: "threads \<Rightarrow> bool" where
  "mailbox_ok s \<longleftrightarrow> table_ok s \<and> (\<forall>k t. map_of s k = Some t \<longrightarrow> t_Key t = k)"

lemma mailbox_ok_Nil [simp]: "mailbox_ok []"
  by (simp add: mailbox_ok_def)

lemma mailbox_ok_update: "mailbox_ok s \<Longrightarrow> t_Key t = k \<Longrightarrow> mailbox_ok (AList.update k t s)"
  by (simp add: mailbox_ok_def)

lemma append_thread_ok: "mailbox_ok s \<Longrightarrow> mailbox_ok (append_thread now key title msg s)"
  unfolding append_thread_def Let_def
  by (rule mailbox_ok_update) (auto simp: mailbox_ok_def split: option.splits)

lemma insert_message_ok: "mailbox_ok s \<Longrightarrow> mailbox_ok (insert_message key msg s)"
  unfolding insert_message_def Let_def
  by (rule mailbox_ok_update) (auto simp: mailbox_ok_def split: option.splits)

lemma load_records_ok: "mailbox_ok (load_records mbs)"
proof -
  have "mailbox_ok s \<Longrightarrow> mailbox_ok (fold (\<lambda>mb s. if b_ThreadKey mb = [] then s
      else insert_message (b_ThreadKey mb) (fromBin mb) s) mbs s)" for s
    by (induction mbs arbitrary: s) (auto intro: insert_message_ok)
  then show ?thesis by (simp add: load_records_def)
qed

lemma mailbox_pairs: "mailbox_ok s \<Longrightarrow> map (\<lambda>t. (t_Key t, t)) (map snd s) = s"
proof -
  assume ok: "mailbox_ok s"
  have "t_Key (snd p) = fst p" if "p \<in> set s" for p
    using ok that table_in_iff [of s "fst p" "snd p"] by (auto simp: mailbox_ok_def)
  then show ?thesis by (auto simp: comp_def intro: map_idI)
qed

text \<open>
  Note.  The list of conversations does not depend on the order in which the table is iterated: it is
  sorted by last activity, newest first, with ties broken by key.
\<close>

theorem mailbox_list_deterministic:
  assumes "mailbox_ok s1" "mailbox_ok s2" "map_of s1 = map_of s2"
  shows "Mailbox_List s1 = Mailbox_List s2 \<and> sorted_wrt (\<lambda>a b. lastActivity b < lastActivity a \<or>
    lastActivity a = lastActivity b \<and> t_Key a \<le> t_Key b) (Mailbox_List s1)"
proof -
  have set: "set s1 = set s2"
    using assms map_of_inject_set [of s1 s2] by (simp add: mailbox_ok_def table_ok_def)
  have inj: "inj_on activity_order (set (map snd s1))"
    using mailbox_pairs [OF assms(1)] assms(1)
    by (auto simp: inj_on_def activity_order_def mailbox_ok_def table_ok_def)
      (metis assms(1) mailbox_ok_def option.inject table_in_iff)
  have "distinct (map snd s)" if "mailbox_ok s" for s
  proof -
    have "map t_Key (map snd s) = map fst s"
      using arg_cong [OF mailbox_pairs [OF that], of "map fst"] by simp
    then show ?thesis using that distinct_map by (metis mailbox_ok_def table_ok_def)
  qed
  then have "mset (map snd s1) = mset (map snd s2)"
    using assms set by (intro set_eq_iff_mset_eq_distinct [THEN iffD1]) auto
  then have "Mailbox_List s1 = Mailbox_List s2"
    unfolding Mailbox_List_def ordered_threads_def
    by (intro sort_key_inj_key_eq) (use inj in auto)
  moreover have "sorted (map activity_order (Mailbox_List s1))"
    by (simp add: Mailbox_List_def ordered_threads_def)
  then have "sorted_wrt (\<lambda>a b. lastActivity b < lastActivity a \<or> lastActivity a = lastActivity b \<and> t_Key a \<le> t_Key b)
      (Mailbox_List s1)"
    unfolding sorted_map by (rule sorted_wrt_mono_rel [rotated]) (auto simp: activity_order_def less_eq_prod_def)
  ultimately show ?thesis by blast
qed

definition toy_thread :: "string \<Rightarrow> 64 word \<Rightarrow> Thread" where
  "toy_thread k ts = \<lparr>t_Key = k, t_Title = [], t_Messages = [(new_message Incoming Direct ''hi'')\<lparr>m_Timestamp := ts\<rparr>]\<rparr>"

theorem mailbox_list_deterministic_witness:
  "Mailbox_List [(''a'', toy_thread ''a'' 1), (''b'', toy_thread ''b'' 2)] =
   Mailbox_List [(''b'', toy_thread ''b'' 2), (''a'', toy_thread ''a'' 1)]"
proof -
  let ?s1 = "[(''a'', toy_thread ''a'' 1), (''b'', toy_thread ''b'' 2)]"
  let ?s2 = "[(''b'', toy_thread ''b'' 2), (''a'', toy_thread ''a'' 1)]"
  have "mailbox_ok ?s1" "mailbox_ok ?s2" "map_of ?s1 = map_of ?s2"
    by (auto simp: mailbox_ok_def table_ok_def toy_thread_def fun_eq_iff)
  from mailbox_list_deterministic [OF this] show ?thesis by (rule conjunct1)
qed

subsection \<open>Saving and loading\<close>

text \<open>The title a load gives a thread: the first display name any of its messages carries.\<close>

definition first_title :: "string \<Rightarrow> Message list \<Rightarrow> string" where
  "first_title key ms =
     (if IsGroupKey key
      then (case List.find (\<lambda>m. m_ContextName m \<noteq> []) ms of None \<Rightarrow> [] | Some m \<Rightarrow> m_ContextName m) else [])"

definition reloaded :: "Thread \<Rightarrow> Thread" where
  "reloaded t = t\<lparr>t_Title := first_title (t_Key t) (t_Messages t)\<rparr>"

abbreviation load_step :: "messageBin \<Rightarrow> threads \<Rightarrow> threads" where
  "load_step mb s \<equiv> (if b_ThreadKey mb = [] then s else insert_message (b_ThreadKey mb) (fromBin mb) s)"

lemma load_thread_onto:
  "key \<noteq> [] \<Longrightarrow> map_of s key = Some t \<Longrightarrow>
   map_of (fold load_step (map (toBin key) ms) s) = (map_of s)(key \<mapsto>
     t\<lparr>t_Title := (if t_Title t \<noteq> [] then t_Title t else first_title key ms), t_Messages := t_Messages t @ ms\<rparr>)"
proof (induction ms arbitrary: s t)
  case Nil
  then show ?case by (auto simp: first_title_def fun_eq_iff)
next
  case (Cons m ms)
  let ?t1 = "if t_Title t = [] \<and> m_ContextName m \<noteq> [] \<and> IsGroupKey key then t\<lparr>t_Title := m_ContextName m\<rparr> else t"
  let ?t2 = "?t1\<lparr>t_Messages := t_Messages ?t1 @ [m]\<rparr>"
  have s1: "map_of (insert_message key m s) = (map_of s)(key \<mapsto> ?t2)"
    using Cons.prems by (simp add: insert_message_def Let_def)
  have step: "fold load_step (map (toBin key) (m # ms)) s = fold load_step (map (toBin key) ms) (insert_message key m s)"
    using Cons.prems(1) by simp
  have at: "map_of (insert_message key m s) key = Some ?t2" unfolding s1 by simp
  show ?case unfolding step Cons.IH [OF Cons.prems(1) at] s1
    by (cases "t_Title t = []"; cases "m_ContextName m = []"; cases "IsGroupKey key") (simp_all add: first_title_def)
qed

lemma load_thread_new:
  assumes "key \<noteq> []" "map_of s key = None" "ms \<noteq> []"
  shows "map_of (fold load_step (map (toBin key) ms) s) = (map_of s)(key \<mapsto>
     \<lparr>t_Key = key, t_Title = first_title key ms, t_Messages = ms\<rparr>)"
proof -
  obtain m ms' where ms: "ms = m # ms'" using assms(3) by (cases ms) auto
  let ?t = "\<lparr>t_Key = key, t_Title = (if m_ContextName m \<noteq> [] \<and> IsGroupKey key then m_ContextName m else []),
     t_Messages = [m]\<rparr>"
  have s1: "map_of (insert_message key m s) = (map_of s)(key \<mapsto> ?t)"
    using assms(1,2) by (simp add: insert_message_def Let_def)
  then show ?thesis
    using load_thread_onto [OF assms(1), of "insert_message key m s" ?t ms'] assms(1)
    by (auto simp: ms s1 first_title_def fun_eq_iff)
qed

lemma load_threads:
  "distinct (map t_Key ts) \<Longrightarrow> \<forall>t\<in>set ts. map_of s (t_Key t) = None \<Longrightarrow>
   map_of (fold load_step (concat (map (\<lambda>t. map (toBin (t_Key t)) (t_Messages t)) ts)) s) k =
     (case map_of (map (\<lambda>t. (t_Key t, t)) ts) k of
        None \<Rightarrow> map_of s k
      | Some t \<Rightarrow> if t_Messages t \<noteq> [] \<and> k \<noteq> [] then Some (reloaded t) else None)"
proof (induction ts arbitrary: s)
  case (Cons t ts)
  let ?s1 = "fold load_step (map (toBin (t_Key t)) (t_Messages t)) s"
  have skip: "fold load_step (map (toBin []) ms) s = s" for ms
    by (induction ms) simp_all
  have s1: "map_of ?s1 = (map_of s)(t_Key t := (if t_Messages t \<noteq> [] \<and> t_Key t \<noteq> [] then Some (reloaded t) else None))"
  proof (cases "t_Messages t \<noteq> [] \<and> t_Key t \<noteq> []")
    case True
    then show ?thesis using load_thread_new [of "t_Key t" s "t_Messages t"] Cons.prems(2)
      by (auto simp: reloaded_def fun_eq_iff)
  next
    case False
    then show ?thesis using skip Cons.prems(2) by (cases "t_Key t = []") (auto simp: fun_eq_iff)
  qed
  have none: "map_of (map (\<lambda>t. (t_Key t, t)) ts) (t_Key t) = None"
    using Cons.prems(1) by (auto simp: map_of_eq_None_iff)
  have "\<forall>u\<in>set ts. map_of ?s1 (t_Key u) = None" using Cons.prems by (auto simp: s1 image_iff)
  then have "map_of (fold load_step (concat (map (\<lambda>t. map (toBin (t_Key t)) (t_Messages t)) (t # ts))) s) k =
     (case map_of (map (\<lambda>t. (t_Key t, t)) ts) k of
        None \<Rightarrow> map_of ?s1 k
      | Some t \<Rightarrow> if t_Messages t \<noteq> [] \<and> k \<noteq> [] then Some (reloaded t) else None)"
    using Cons.IH [of ?s1] Cons.prems(1) by simp
  then show ?case using none unfolding s1 by (cases "k = t_Key t") (auto split: option.splits)
qed simp

lemma load_thread_records:
  assumes "mailbox_ok s"
  shows "map_of (load_records (thread_records s)) k = (case map_of s k of
      None \<Rightarrow> None
    | Some t \<Rightarrow> if t_Messages t \<noteq> [] \<and> k \<noteq> [] then Some (t\<lparr>t_Title := first_title k (t_Messages t)\<rparr>) else None)"
proof -
  let ?ts = "ordered_threads s"
  have pairs: "mset (map (\<lambda>t. (t_Key t, t)) ?ts) = mset s"
    unfolding ordered_threads_def mset_map mset_sort using arg_cong [OF mailbox_pairs [OF assms], of mset]
    by (simp add: multiset.map_comp)
  have "distinct (map fst (map (\<lambda>t. (t_Key t, t)) ?ts))"
  proof -
    have "mset (map fst (map (\<lambda>t. (t_Key t, t)) ?ts)) = mset (map fst s)"
      unfolding mset_map [of fst] pairs by (rule refl)
    then show ?thesis using mset_eq_imp_distinct_iff assms unfolding mailbox_ok_def table_ok_def by blast
  qed
  moreover have "map_of (map (\<lambda>t. (t_Key t, t)) ?ts) = map_of s"
    using calculation assms mset_eq_setD [OF pairs]
    by (intro map_of_inject_set [THEN iffD2]) (auto simp: mailbox_ok_def table_ok_def)
  ultimately have look: "map_of (load_records (thread_records s)) k = (case map_of s k of None \<Rightarrow> None
      | Some t \<Rightarrow> if t_Messages t \<noteq> [] \<and> k \<noteq> [] then Some (reloaded t) else None)"
    using load_threads [of ?ts "[]" k] by (simp add: load_records_def thread_records_def comp_def split: option.splits)
  have "t_Key t = k" if "map_of s k = Some t" for t
    using assms that by (simp add: mailbox_ok_def)
  then show ?thesis unfolding look by (auto simp: reloaded_def split: option.splits)
qed

text \<open>Every record of the mailbox can be written down and the file is not too long to be read back.\<close>

definition fits_store :: "prims \<Rightarrow> threads \<Rightarrow> bool" where
  "fits_store P s \<longleftrightarrow> (case encode_all P messageBin_MarshalBinID (thread_records s) of Inl _ \<Rightarrow> False | Inr recs \<Rightarrow> storable recs)"

lemma saved_loads:
  assumes "np_law P" "packet_law K" "fits_store P s" "saveLocked P K SaveDone (fileFor me) s fs = (err, fs')"
  shows "err = None \<and> Mailbox_Load P K J io me fs' = (Inr (load_records (thread_records s)), fs')"
proof -
  obtain recs where recs: "encode_all P messageBin_MarshalBinID (thread_records s) = Inr recs" "storable recs"
    using assms(3) by (auto simp: fits_store_def split: sum.splits)
  obtain fs1 where fs1: "Binstore_Save K SaveDone (fileFor me) mailbox_schema recs fs = (None, fs1)"
    by (simp add: Binstore_Save_def Let_def)
  have load: "Binstore_Load K (fileFor me) mailbox_schema fs1 = Inr recs"
    using fs1 assms(2) read_body_put [OF recs(2)]
    by (auto simp: Binstore_Save_def Binstore_Load_def packet_law_def Let_def)
  have dec: "decode_all P messageBin_UnmarshalBinID recs = thread_records s"
    by (rule message.decode_encode_all [OF assms(1) _ recs(1)]) simp
  show ?thesis using assms(4) recs(1) fs1 load dec by (auto simp: saveLocked_def Mailbox_Load_def)
qed

text \<open>
  C29.  A saved mailbox loads with every message of every thread, in order; a thread that is empty or
  has an empty key is dropped.  A thread's title is
  rebuilt from the first display name among its messages, so a later change of the title does not
  survive the reload.
\<close>

theorem mailbox_roundtrip:
  assumes "np_law P" "packet_law K" "mailbox_ok s"
    and "encode_all P messageBin_MarshalBinID (thread_records s) = Inr recs" "storable recs"
  shows "\<exists>fs' s'. saveLocked P K SaveDone (fileFor me) s fs = (None, fs') \<and>
     Mailbox_Load P K J io me fs' = (Inr s', fs') \<and> mailbox_ok s' \<and>
     (\<forall>k. map_of s' k = (case map_of s k of
        None \<Rightarrow> None
      | Some t \<Rightarrow> if t_Messages t \<noteq> [] \<and> k \<noteq> [] then Some (t\<lparr>t_Title := first_title k (t_Messages t)\<rparr>) else None))"
proof -
  obtain err fs' where save: "saveLocked P K SaveDone (fileFor me) s fs = (err, fs')" by fastforce
  have "fits_store P s" using assms(4,5) by (simp add: fits_store_def)
  from saved_loads [OF assms(1,2) this save, of J io] save show ?thesis
    using load_thread_records [OF assms(3)] load_records_ok [of "thread_records s"] by auto
qed

definition toy_mailbox :: threads where
  "toy_mailbox = [(''ctx:1'', \<lparr>t_Key = ''ctx:1'', t_Title = ''new'',
     t_Messages = [(new_message Incoming Group ''hi'')\<lparr>m_ContextName := ''old''\<rparr>]\<rparr>)]"

theorem mailbox_roundtrip_witness:
  "\<exists>fs' s' t. saveLocked toy toy_packets SaveDone (fileFor ''me'') toy_mailbox Map.empty = (None, fs') \<and>
     Mailbox_Load toy toy_packets (\<lambda>_. None) SaveDone ''me'' fs' = (Inr s', fs') \<and>
     map_of s' ''ctx:1'' = Some t \<and> t_Title t = ''old'' \<and> length (t_Messages t) = 1"
proof -
  let ?m = "(new_message Incoming Group ''hi'')\<lparr>m_ContextName := ''old''\<rparr>"
  have ok: "mailbox_ok toy_mailbox" by (simp add: mailbox_ok_def table_ok_def toy_mailbox_def)
  have recs: "thread_records toy_mailbox = [toBin ''ctx:1'' ?m]"
    by (simp add: thread_records_def ordered_threads_def toy_mailbox_def)
  let ?b = "the (toy_np_enc (messageBin_MarshalBinID (toBin ''ctx:1'' ?m)))"
  have enc: "encode_all toy messageBin_MarshalBinID (thread_records toy_mailbox) = Inr [?b]"
    by (simp add: recs MarshalFastID_def toy_def toy_np_enc_def)
  have "length ?b < 2 ^ 14"
    by (simp add: length_toy_np_enc messageBin_MarshalBinID_def toBin_def new_message_def)
  then have st: "storable [?b]"
    using length_put_uvarint [of "length ?b" 2]
    by (simp add: storable_def slice_header_def max_alloc_def put_records_def put_uvarint.simps [of "Suc 0"])
  have "map_of toy_mailbox ''ctx:1'' = Some \<lparr>t_Key = ''ctx:1'', t_Title = ''new'', t_Messages = [?m]\<rparr>"
    "first_title ''ctx:1'' [?m] = ''old''"
    by (simp_all add: toy_mailbox_def first_title_def IsGroupKey_def HasPrefix_def groupPrefix_def)
  then show ?thesis
    using mailbox_roundtrip [OF toy_laws(4) toy_packet_law ok enc st, of "''me''" Map.empty "\<lambda>_. None" SaveDone]
    by fastforce
qed

subsection \<open>Appending and reading\<close>

lemma unread_fold: "fold (\<lambda>m n. if \<not> m_IsRead m then n + 1 else n) ms n = n + int (length (filter (\<lambda>m. \<not> m_IsRead m) ms))"
  by (induction ms arbitrary: n) auto

lemma Thread_unread_length: "Thread_unread t = int (length (filter (\<lambda>m. \<not> m_IsRead m) (t_Messages t)))"
  by (simp add: Thread_unread_def unread_fold)

lemma UnreadTotal_sum: "UnreadTotal s = sum_list (map (\<lambda>(k, t). Thread_unread t) s)"
proof -
  have "fold (\<lambda>(k, t) n. n + Thread_unread t) s n = n + sum_list (map (\<lambda>(k, t). Thread_unread t) s)" for n
    by (induction s arbitrary: n) auto
  then show ?thesis by (simp add: UnreadTotal_def)
qed

lemma UnreadTotal_update:
  "table_ok s \<Longrightarrow> UnreadTotal (AList.update k t s) =
     UnreadTotal s - (case map_of s k of None \<Rightarrow> 0 | Some t0 \<Rightarrow> Thread_unread t0) + Thread_unread t"
proof (induction s)
  case (Cons p s)
  have "map_of s k = None" if "fst p = k"
    using Cons.prems that by (auto simp: table_ok_def map_of_eq_None_iff)
  then show ?case using Cons by (cases p) (auto simp: UnreadTotal_sum table_ok_def split: option.splits)
qed (simp add: UnreadTotal_sum)

text \<open>
  Note.  Appending a message puts it at the end of its thread, leaves the other threads alone and raises the
  unread total by one exactly when it is incoming; reading the thread then returns all its messages
  oldest first and takes them off the unread total.
\<close>

theorem mailbox_append_read:
  assumes "mailbox_ok s" "m_IsRead msg = False"
    and "Mailbox_append P K io now file key title msg (s, fs) = (err, s1, fs1)"
    and "Mailbox_Read P K io2 file key (s1, fs1) = (res, s2, fs2)"
  shows "(\<exists>e m old. res = Inr (old @ [m], e) \<and> m_Body m = m_Body msg \<and>
        old = (case map_of s key of None \<Rightarrow> [] | Some t \<Rightarrow> t_Messages t)) \<and>
     UnreadTotal s1 = UnreadTotal s + (if m_Direction msg = Incoming then 1 else 0) \<and>
     (\<forall>k. k \<noteq> key \<longrightarrow> map_of s2 k = map_of s k) \<and> (\<exists>t. map_of s2 key = Some t \<and> Thread_unread t = 0) \<and>
     UnreadTotal s2 = UnreadTotal s1 - Thread_unread (the (map_of s1 key)) \<and> mailbox_ok s2"
proof -
  let ?m = "appendDefaults now msg"
  have m: "m_Body ?m = m_Body msg" "m_IsRead ?m = (m_Direction msg = Outgoing)"
    using assms(2) by (simp_all add: appendDefaults_def Let_def)
  have s1: "s1 = append_thread now key title msg s"
    using assms(3) by (simp add: Mailbox_append_def Let_def case_prod_beta)
  have ok1: "mailbox_ok s1" unfolding s1 by (rule append_thread_ok [OF assms(1)])
  have ok: "table_ok s" "mailbox_ok s1" "table_ok s1"
    using assms(1) ok1 by (simp_all add: mailbox_ok_def)
  define old where "old = (case map_of s key of None \<Rightarrow> [] | Some t \<Rightarrow> t_Messages t)"
  obtain t1 where t1: "s1 = AList.update key t1 s" "t_Messages t1 = old @ [?m]" "t_Key t1 = key"
    using assms(1) by (auto simp: s1 append_thread_def Let_def old_def mailbox_ok_def split: option.splits)
  have total: "UnreadTotal s1 = UnreadTotal s + (if m_Direction msg = Incoming then 1 else 0)"
  proof -
    have "(case map_of s key of None \<Rightarrow> 0 | Some t0 \<Rightarrow> Thread_unread t0) = int (length (filter (\<lambda>m. \<not> m_IsRead m) old))"
      by (simp add: old_def Thread_unread_length split: option.splits)
    moreover have "Thread_unread t1 = int (length (filter (\<lambda>m. \<not> m_IsRead m) old)) + (if m_Direction msg = Incoming then 1 else 0)"
      using m(2) by (cases "m_Direction msg") (simp_all add: Thread_unread_length t1(2))
    ultimately show ?thesis using UnreadTotal_update [OF ok(1), of key t1] t1(1) by simp
  qed
  have at: "map_of s1 key = Some t1" by (simp add: t1(1))
  have zero: "Thread_unread (mark_read t1) = 0" by (simp add: Thread_unread_length mark_read_def comp_def)
  let ?sv = "saveLocked P K io2 file (AList.update key (mark_read t1) s1) fs1"
  have "(res, s2, fs2) = (if \<exists>m\<in>set (old @ [?m]). \<not> m_IsRead m
      then (Inr (old @ [?m], fst ?sv), AList.update key (mark_read t1) s1, snd ?sv)
      else (Inr (old @ [?m], None), s1, fs1))"
    unfolding assms(4) [symmetric] Mailbox_Read_def Let_def case_prod_beta fst_conv snd_conv at option.case t1(2) ..
  moreover have "Thread_unread t1 = 0" if "\<not> (\<exists>m\<in>set (old @ [?m]). \<not> m_IsRead m)"
    using that unfolding Thread_unread_length t1(2) by (simp add: filter_empty_conv)
  ultimately obtain e where read: "res = Inr (old @ [?m], e)"
    and s2: "s2 = AList.update key (mark_read t1) s1 \<or> s2 = s1 \<and> Thread_unread t1 = 0"
    by (cases "\<exists>m\<in>set (old @ [?m]). \<not> m_IsRead m") (simp_all only: if_True if_False prod.inject simp_thms)
  have "\<exists>t. map_of s2 key = Some t \<and> Thread_unread t = 0" using s2 zero at by auto
  moreover have "UnreadTotal s2 = UnreadTotal s1 - Thread_unread (the (map_of s1 key))"
    using s2 UnreadTotal_update [OF ok(3), of key "mark_read t1"] zero at by auto
  moreover have "mailbox_ok s2" using s2 ok(2) t1(3) by (auto intro: mailbox_ok_update simp: mark_read_def)
  moreover have "\<forall>k. k \<noteq> key \<longrightarrow> map_of s2 k = map_of s k" using s2 by (auto simp: t1(1))
  ultimately show ?thesis using read total m(1) unfolding old_def by blast
qed

theorem mailbox_append_read_witness:
  "\<exists>err s1 fs1 res s2 fs2. Mailbox_append toy toy_packets SaveDone \<lparr>nowNano = 1, nowMilli = 1\<rparr> ''f'' ''p'' []
       (new_message Incoming Direct ''x'') ([], Map.empty) = (err, s1, fs1) \<and>
     Mailbox_Read toy toy_packets SaveDone ''f'' ''p'' (s1, fs1) = (res, s2, fs2) \<and>
     UnreadTotal s1 = UnreadTotal [] + 1 \<and> (\<exists>e m. res = Inr ([] @ [m], e) \<and> m_Body m = ''x'')"
proof -
  obtain err s1 fs1 where a: "Mailbox_append toy toy_packets SaveDone \<lparr>nowNano = 1, nowMilli = 1\<rparr> ''f'' ''p'' []
       (new_message Incoming Direct ''x'') ([], Map.empty) = (err, s1, fs1)"
    by (metis prod_cases3)
  obtain res s2 fs2 where r: "Mailbox_Read toy toy_packets SaveDone ''f'' ''p'' (s1, fs1) = (res, s2, fs2)"
    by (metis prod_cases3)
  have n: "m_IsRead (new_message Incoming Direct ''x'') = False" "m_Direction (new_message Incoming Direct ''x'') = Incoming"
    "m_Body (new_message Incoming Direct ''x'') = ''x''" by (simp_all add: new_message_def)
  show ?thesis using mailbox_append_read [OF mailbox_ok_Nil n(1) a r] a r n by auto
qed

text \<open>
  Note.  Resolving a reference to a conversation never guesses: the key it returns is that of an existing
  group thread, and either its ID is exactly the reference, or it is the only thread with that display
  name, or no thread has that name and it is the only one whose ID starts with the reference.
\<close>

theorem resolve_thread_exact:
  assumes "mailbox_ok s" "ResolveThread arg s = Inr k"
  shows "(\<exists>t. map_of s k = Some t) \<and> IsGroupKey k \<and>
    (k = groupKey (strip_ref arg) \<or> title_matches (strip_ref arg) s = [k] \<or>
     title_matches (strip_ref arg) s = [] \<and> id_prefix_matches (strip_ref arg) s = [k])"
proof -
  have known: "\<exists>t. map_of s k = Some t" if k: "k \<in> t_Key ` snd ` set s"
  proof -
    obtain p where p: "p \<in> set s" "k = t_Key (snd p)" using k by blast
    then show ?thesis using assms(1) table_in_iff [of s "fst p" "snd p"] by (auto simp: mailbox_ok_def)
  qed
  have one: "length xs = 1 \<Longrightarrow> xs ! 0 = k \<Longrightarrow> xs = [k]" for xs :: "string list" by (cases xs) auto
  have sub: "set (title_matches r s) \<subseteq> t_Key ` snd ` set s \<inter> Collect IsGroupKey"
    "set (id_prefix_matches r s) \<subseteq> t_Key ` snd ` set s \<inter> Collect IsGroupKey" for r
    by (auto simp: title_matches_def id_prefix_matches_def)
  consider (exact) t where "map_of s (groupKey (strip_ref arg)) = Some t" "IsGroupKey (t_Key t)" "k = t_Key t"
    | (title) "title_matches (strip_ref arg) s = [k]"
    | (ident) "title_matches (strip_ref arg) s = []" "id_prefix_matches (strip_ref arg) s = [k]"
  proof -
    define T where "T = title_matches (strip_ref arg) s"
    define I where "I = id_prefix_matches (strip_ref arg) s"
    have "(\<exists>t. map_of s (groupKey (strip_ref arg)) = Some t \<and> IsGroupKey (t_Key t) \<and> k = t_Key t) \<or>
        length T = 1 \<and> T ! 0 = k \<or> length T \<noteq> 1 \<and> \<not> length T > 1 \<and> length I = 1 \<and> I ! 0 = k"
      using assms(2) unfolding ResolveThread_def Let_def T_def [symmetric] I_def [symmetric]
      by (auto split: if_split_asm option.splits)
    moreover have "length T \<noteq> 1 \<and> \<not> length T > 1 \<Longrightarrow> T = []" by (cases T) auto
    ultimately show thesis using that one [of T] one [of I] unfolding T_def I_def by blast
  qed
  then show ?thesis
  proof cases
    case exact
    then show ?thesis using assms(1) by (auto simp: mailbox_ok_def)
  next
    case title
    then show ?thesis using sub(1) [of "strip_ref arg"] known by auto
  next
    case ident
    then show ?thesis using sub(2) [of "strip_ref arg"] known by auto
  qed
qed

theorem resolve_thread_exact_witness:
  "(\<exists>t. map_of toy_mailbox ''ctx:1'' = Some t) \<and> IsGroupKey ''ctx:1'' \<and>
    (''ctx:1'' = groupKey (strip_ref ''NEW'') \<or> title_matches (strip_ref ''NEW'') toy_mailbox = [''ctx:1''] \<or>
     title_matches (strip_ref ''NEW'') toy_mailbox = [] \<and> id_prefix_matches (strip_ref ''NEW'') toy_mailbox = [''ctx:1''])"
proof (rule resolve_thread_exact)
  show "mailbox_ok toy_mailbox" by (simp add: mailbox_ok_def table_ok_def toy_mailbox_def)
  have "lowerASCII ''NEW'' = ''new''" "lowerASCII ''new'' = ''new''" by code_simp+
  then show "ResolveThread ''NEW'' toy_mailbox = Inr ''ctx:1''"
    by (simp add: ResolveThread_def strip_ref_def HasPrefix_def groupKey_def toy_mailbox_def title_matches_def
      IsGroupKey_def groupPrefix_def threadTitle_def Let_def)
qed

end
