(* ===== verification/Dispatch.thy ===== *)
theory Dispatch
  imports FanoutProps Mailbox
begin

text \<open>
  The receive path that every transport shares (\<^verbatim>\<open>src/internal/dispatch/dispatch.go\<close>): one frame comes in, the
  protocol step of its type runs, the result goes into the mailbox and the group stores, and an event describes
  what happened.

  The client is one object: the dispatcher and the group layer hold the same pointer, so the group layer runs on
  the dispatcher's client and hands it back.  What one frame meets (random draws, the clock, the fate of each
  write and of the reply) is an argument.  Error texts are values of a datatype.
\<close>

subsection \<open>UTF-8\<close>

text \<open>\<^verbatim>\<open>utf8.Valid\<close>: no position decodes to the replacement rune of width one.\<close>

function utf8_valid :: "bytes \<Rightarrow> bool" where
  "utf8_valid b =
     (if b = [] then True
      else let (w, r) = decode_rune b in if r = 0xFFFD \<and> w \<le> 1 then False else utf8_valid (drop (max 1 w) b))"
  by pat_completeness auto
termination by (relation "measure length") auto

declare utf8_valid.simps [simp del]

lemma utf8_valid_ascii: "\<forall>x\<in>set b. x < 0x80 \<Longrightarrow> utf8_valid b"
proof (induction b)
  case (Cons x b)
  have "unat x < 128" using Cons.prems by (simp add: word_less_nat_alt)
  then have "decode_rune (x # b) = (1, unat x)" by (simp add: decode_rune_def Let_def case_prod_beta)
  then show ?case using Cons \<open>unat x < 128\<close> by (subst utf8_valid.simps) simp
next
  case Nil
  show ?case by (subst utf8_valid.simps) simp
qed

subsection \<open>Events and state\<close>

record Action =
  ac_Type :: string
  ac_Peer :: string
  ac_Pubkey :: string

record Event =
  ev_Type :: string
  ev_Peer :: string
  ev_Sender :: string
  ev_Encoding :: string
  ev_Message :: string
  ev_Context :: string
  ev_Actions :: "Action list"
  ev_Pubkey :: string
  ev_ContextID :: string
  ev_MessageID :: string

definition Event_zero :: Event where
  "Event_zero = \<lparr>ev_Type = [], ev_Peer = [], ev_Sender = [], ev_Encoding = [], ev_Message = [], ev_Context = [],
     ev_Actions = [], ev_Pubkey = [], ev_ContextID = [], ev_MessageID = []\<rparr>"

record ('c, 'd) Deps =
  dp_Client :: Client
  dp_Mailbox :: "threads option"
  dp_disk :: filesystem
  dp_Fanout :: "('c, 'd) Fanout option"
  dp_sent :: "(bytes \<times> frame_type \<times> bytes) list"   \<comment> \<open>replies handed to the sender\<close>

text \<open>What one frame meets; \<open>fi_reply\<close> is \<open>None\<close> when no sender is bound, else whether sending succeeds.\<close>

record frame_io =
  fi_coins :: coins
  fi_kem :: bytes
  fi_write :: write_result
  fi_reply :: "bool option"
  fi_clock :: clock
  fi_save :: save_io
  fi_contexts :: two_writes

datatype dispatch_error =
    Unwrap frame_error | UnknownEnvelope byte
  | OfferDecode decode_error | OfferAccept client_error | NoSender | AnswerSend
  | AnswerFinish client_error | MessageReplay | MessageDecrypt client_error | StoreIncoming mailbox_error
  | NoFanout | GroupReplay | GroupError fanout_error | StoreGroup mailbox_error

text \<open>
  A handler returns an event, an error, both (a message that decrypts but cannot be stored) or neither (a group
  message already shown).
\<close>

type_synonym outcome = "Event option \<times> dispatch_error option"

text \<open>\<^verbatim>\<open>errors.Is(err, crypto.ErrReplay)\<close>.\<close>

fun is_replay :: "client_error \<Rightarrow> bool" where
  "is_replay (CryptoErr (ErrReplay _ _)) = True"
| "is_replay _ = False"

fun describeDecryptError :: "fanout_error \<Rightarrow> dispatch_error" where
  "describeDecryptError (FanClient e) = (if is_replay e then GroupReplay else GroupError (FanClient e))"
| "describeDecryptError e = GroupError e"

subsection \<open>Handlers\<close>

definition handleOffer ::
  "prims \<Rightarrow> legacy_json \<Rightarrow> frame_io \<Rightarrow> bytes \<Rightarrow> ('c, 'd) Deps \<Rightarrow> outcome \<times> ('c, 'd) Deps" where
  "handleOffer P J io data d =
     (case decodeOffer P J data of
        Inl e \<Rightarrow> ((None, Some (OfferDecode e)), d)
      | Inr offer \<Rightarrow>
          (case Client_AcceptOffer P J (fi_coins io) (fi_kem io) (fi_write io) data (dp_Client d) of
             (Inl e, cl) \<Rightarrow> ((None, Some (OfferAccept e)), d\<lparr>dp_Client := cl\<rparr>)
           | (Inr answer, cl) \<Rightarrow>
               let d1 = d\<lparr>dp_Client := cl\<rparr> in
               (case fi_reply io of
                  None \<Rightarrow> ((None, Some NoSender), d1)
                | Some ok \<Rightarrow>
                    let d2 = d1\<lparr>dp_sent := dp_sent d1 @ [(o_IdPub offer, TypeAnswer, answer)]\<rparr> in
                    if \<not> ok then ((None, Some AnswerSend), d2)
                    else
                      let pubHex = hex_encode (o_IdPub offer) in
                      ((Some (Event_zero\<lparr>ev_Type := ''offer'', ev_Peer := o_SenderId offer, ev_Pubkey := pubHex,
                          ev_Actions := [\<lparr>ac_Type = ''answer_sent'', ac_Peer = o_SenderId offer, ac_Pubkey = pubHex\<rparr>]\<rparr>),
                        None), d2))))"

definition handleAnswer ::
  "prims \<Rightarrow> legacy_json \<Rightarrow> frame_io \<Rightarrow> bytes \<Rightarrow> ('c, 'd) Deps \<Rightarrow> outcome \<times> ('c, 'd) Deps" where
  "handleAnswer P J io data d =
     (case Client_FinishHandshake P J (fi_write io) data (dp_Client d) of
        (Inl e, cl) \<Rightarrow> ((None, Some (AnswerFinish e)), d\<lparr>dp_Client := cl\<rparr>)
      | (Inr peerID, cl) \<Rightarrow>
          ((Some (Event_zero\<lparr>ev_Type := ''answer'', ev_Peer := peerID,
              ev_Actions := [\<lparr>ac_Type = ''session_established'', ac_Peer = peerID, ac_Pubkey = []\<rparr>]\<rparr>), None),
           d\<lparr>dp_Client := cl\<rparr>))"

text \<open>The text shown for a plaintext and its encoding.\<close>

definition body_text :: "bytes \<Rightarrow> string \<times> string" where
  "body_text plaintext =
     (if utf8_valid plaintext then (to_str plaintext, ''utf-8'') else (b64_encode plaintext, ''base64''))"

definition handleMessage ::
  "prims \<Rightarrow> packets \<Rightarrow> frame_io \<Rightarrow> bytes \<Rightarrow> ('c, 'd) Deps \<Rightarrow> outcome \<times> ('c, 'd) Deps" where
  "handleMessage P K io data d =
     (case Client_Decrypt P (fi_write io) data (dp_Client d) of
        (Inl e, cl) \<Rightarrow> ((None, Some (if is_replay e then MessageReplay else MessageDecrypt e)), d\<lparr>dp_Client := cl\<rparr>)
      | (Inr (senderID, plaintext), cl) \<Rightarrow>
          let d1 = d\<lparr>dp_Client := cl\<rparr>;
              (body, enc) = body_text plaintext;
              event = Event_zero\<lparr>ev_Type := ''message'', ev_Sender := senderID, ev_Encoding := enc, ev_Message := body\<rparr>
          in case dp_Mailbox d1 of
               None \<Rightarrow> ((Some event, None), d1)
             | Some s \<Rightarrow>
                 (case AppendIncoming P K (fi_save io) (fi_clock io) (fileFor (cl_Id cl)) senderID body (s, dp_disk d1) of
                    (err, s', fs') \<Rightarrow>
                      ((Some event, map_option StoreIncoming err), d1\<lparr>dp_Mailbox := Some s', dp_disk := fs'\<rparr>)))"

definition handleMultiMessage ::
  "prims \<Rightarrow> packets \<Rightarrow> 'c ContextStore \<Rightarrow> frame_io \<Rightarrow> bytes \<Rightarrow> ('c, 'd) Deps \<Rightarrow> outcome \<times> ('c, 'd) Deps" where
  "handleMultiMessage P K S io data d =
     (case dp_Fanout d of
        None \<Rightarrow> ((None, Some NoFanout), d)
      | Some f \<Rightarrow>
          (case ProcessDelivery P S (fi_write io) (fi_contexts io) (cl_Id (dp_Client d)) data (f\<lparr>fo_client := dp_Client d\<rparr>) of
             (r, f') \<Rightarrow>
               let d1 = d\<lparr>dp_Client := fo_client f', dp_Fanout := Some f'\<rparr> in
               (case r of
                  Inl e \<Rightarrow> (if e = Duplicate then (None, None) else (None, Some (describeDecryptError e)), d1)
                | Inr inbound \<Rightarrow>
                    let (body, enc) = body_text (im_Plaintext inbound);
                        event = Event_zero\<lparr>ev_Type := ''group_message'', ev_Sender := im_Sender inbound,
                          ev_Context := InboundMessage_DisplayName inbound, ev_Message := body, ev_Encoding := enc,
                          ev_ContextID := InboundMessage_ContextID inbound, ev_MessageID := dm_MessageID (im_Meta inbound)\<rparr>
                    in case dp_Mailbox d1 of
                         None \<Rightarrow> ((Some event, None), d1)
                       | Some s \<Rightarrow>
                           (case AppendGroupIncoming P K (fi_save io) (fi_clock io) (fileFor (cl_Id (dp_Client d1)))
                                   (InboundMessage_ContextID inbound) (InboundMessage_DisplayName inbound)
                                   (im_Sender inbound) body (s, dp_disk d1) of
                              (err, s', fs') \<Rightarrow>
                                (case err of Some e \<Rightarrow> (None, Some (StoreGroup e)) | None \<Rightarrow> (Some event, None),
                                 d1\<lparr>dp_Mailbox := Some s', dp_disk := fs'\<rparr>)))))"

subsection \<open>Frames and batches\<close>

definition DispatchFrame ::
  "prims \<Rightarrow> packets \<Rightarrow> legacy_json \<Rightarrow> 'c ContextStore \<Rightarrow> frame_io \<Rightarrow> bytes \<Rightarrow> ('c, 'd) Deps \<Rightarrow> outcome \<times> ('c, 'd) Deps" where
  "DispatchFrame P K J S io body d =
     (case Frame_Unwrap body of
        Inl e \<Rightarrow> ((None, Some (Unwrap e)), d)
      | Inr (t, data) \<Rightarrow>
          if t = TypeOffer then handleOffer P J io data d
          else if t = TypeAnswer then handleAnswer P J io data d
          else if t = TypeMessage then handleMessage P K io data d
          else if t = TypeMultiMsg then handleMultiMessage P K S io data d
          else ((None, Some (UnknownEnvelope t)), d))"

text \<open>An entry of the batch: the event of a frame, or the error event that stands for it.\<close>

datatype batch_event = Shown Event | Failed dispatch_error

definition batch_entry :: "outcome \<Rightarrow> batch_event list" where
  "batch_entry r =
     (case r of
        (_, Some e) \<Rightarrow> [Failed e]
      | (Some ev, None) \<Rightarrow> [Shown ev]
      | (None, None) \<Rightarrow> [])"

fun DispatchBatch ::
  "prims \<Rightarrow> packets \<Rightarrow> legacy_json \<Rightarrow> 'c ContextStore \<Rightarrow> (frame_io \<times> bytes) list \<Rightarrow> ('c, 'd) Deps \<Rightarrow>
   batch_event list \<times> ('c, 'd) Deps" where
  "DispatchBatch P K J S [] d = ([], d)"
| "DispatchBatch P K J S ((io, f) # fs) d =
     (case DispatchFrame P K J S io f d of
        (r, d1) \<Rightarrow> (case DispatchBatch P K J S fs d1 of (events, d2) \<Rightarrow> (batch_entry r @ events, d2)))"

subsection \<open>Opening the stores\<close>

text \<open>Stores that cannot be opened are replaced by ones in memory.\<close>

datatype opened =
    OnFiles "(FileContextStore, FileDeliveryStore) Deps"
  | InMemory "(MemoryContextStore, MemoryDeliveryStore) Deps"

text \<open>The files as an opened group layer leaves them.\<close>

definition opened_disk :: "opened \<Rightarrow> filesystem" where
  "opened_disk x = (case x of OnFiles dp \<Rightarrow> dp_disk dp | InMemory dp \<Rightarrow> dp_disk dp)"

definition OpenDeps ::
  "prims \<Rightarrow> packets \<Rightarrow> bool \<Rightarrow> (bytes \<Rightarrow> Thread option list option) \<Rightarrow> (bytes \<Rightarrow> MessageContext list option) \<Rightarrow>
   (bytes \<Rightarrow> LocalRecipientPolicy list option) \<Rightarrow> (bytes \<Rightarrow> MessageDelivery list option) \<Rightarrow>
   save_io \<Rightarrow> two_writes \<Rightarrow> save_io \<Rightarrow> Client \<Rightarrow> filesystem \<Rightarrow> opened" where
  "OpenDeps P K nd JM JC JP JD iom io2 iod cl fs =
     (let (st, fs1) = Mailbox_Load P K JM iom (cl_Id cl) fs;
          box = (case st of Inl _ \<Rightarrow> None | Inr s \<Rightarrow> Some s)
      in case OpenIdentityStores P K nd JC JP JD io2 iod (cl_Id cl) fs1 of
           Inl _ \<Rightarrow> InMemory \<lparr>dp_Client = cl, dp_Mailbox = box, dp_disk = fs1,
               dp_Fanout = Some (NewFanout cl False NewMemoryContextStore NewMemoryDeliveryStore DefaultFanoutConfig []), dp_sent = []\<rparr>
         | Inr (ctxStore, dlvStore) \<Rightarrow> OnFiles \<lparr>dp_Client = cl, dp_Mailbox = box, dp_disk = fs1,
               dp_Fanout = Some (NewFanout cl False ctxStore dlvStore DefaultFanoutConfig []), dp_sent = []\<rparr>)"

end
