(* ===== verification/DispatchProps.thy ===== *)
theory DispatchProps
  imports Dispatch
begin

text \<open>
  What the receive path guarantees: no frame disappears, a handshake runs through it on both sides, and a message
  sent over a session in step ends up in the conversation with its sender.
\<close>

subsection \<open>Accounting\<close>

lemma frame_types [simp]:
  "TypeMessage \<noteq> TypeOffer" "TypeMessage \<noteq> TypeAnswer" "TypeAnswer \<noteq> TypeOffer"
  "TypeMultiMsg \<noteq> TypeOffer" "TypeMultiMsg \<noteq> TypeAnswer" "TypeMultiMsg \<noteq> TypeMessage"
  by (simp_all add: type_defs)

lemma Frame_Unwrap_Wrap: "p \<noteq> [] \<Longrightarrow> t \<in> {TypeOffer, TypeAnswer, TypeMessage, TypeMultiMsg} \<Longrightarrow> Frame_Unwrap (WrapEnvelope t p) = Inr (t, p)"
  by (auto simp: Frame_Unwrap_def WrapEnvelope_def Type_Valid_iff type_defs Suc_le_eq not_less Let_def)

lemma batch_entry_simps [simp]:
  "batch_entry (oe, Some e) = [Failed e]" "batch_entry (Some ev, None) = [Shown ev]" "batch_entry (None, None) = []"
  by (simp_all add: batch_entry_def split: option.split)

text \<open>Only a group message that was accepted before yields neither an event nor an error.\<close>

lemma silent_frame:
  assumes "DispatchFrame P K J S io body d = ((None, None), d')"
  shows "\<exists>f f'. hd body = TypeMultiMsg \<and> dp_Fanout d = Some f \<and> dp_Mailbox d' = dp_Mailbox d \<and> dp_disk d' = dp_disk d \<and>
     ProcessDelivery P S (fi_write io) (fi_contexts io) (cl_Id (dp_Client d)) (tl body) (f\<lparr>fo_client := dp_Client d\<rparr>) = (Inl Duplicate, f')"
proof -
  obtain t data where u: "Frame_Unwrap body = Inr (t, data)" using assms by (auto simp: DispatchFrame_def split: sum.splits)
  have body: "hd body = t" "tl body = data" "t \<in> {TypeOffer, TypeAnswer, TypeMessage, TypeMultiMsg}"
    using u by (cases body; auto simp: Frame_Unwrap_def Type_Valid_iff type_defs Let_def split: if_splits)+
  have no: "handleOffer P J io data d \<noteq> ((None, None), d')" "handleAnswer P J io data d \<noteq> ((None, None), d')"
    "handleMessage P K io data d \<noteq> ((None, None), d')"
    by (auto simp: handleOffer_def handleAnswer_def handleMessage_def Let_def split: sum.splits prod.splits option.splits if_splits)
  then have t: "t = TypeMultiMsg" "handleMultiMessage P K S io data d = ((None, None), d')"
    using assms u body(3) by (auto simp: DispatchFrame_def split: if_splits)
  then obtain f where f: "dp_Fanout d = Some f" by (auto simp: handleMultiMessage_def split: option.splits)
  obtain r f' where pd: "ProcessDelivery P S (fi_write io) (fi_contexts io) (cl_Id (dp_Client d)) data (f\<lparr>fo_client := dp_Client d\<rparr>) = (r, f')"
    by (cases "ProcessDelivery P S (fi_write io) (fi_contexts io) (cl_Id (dp_Client d)) data (f\<lparr>fo_client := dp_Client d\<rparr>)")
  have "r = Inl Duplicate \<and> d' = d\<lparr>dp_Client := fo_client f', dp_Fanout := Some f'\<rparr>"
    using t(2) by (auto simp: handleMultiMessage_def f pd Let_def split: sum.splits prod.splits option.splits if_splits)
  then show ?thesis using body t f pd by auto
qed

lemma DispatchBatch_append:
  "DispatchBatch P K J S (xs @ ys) d =
     (case DispatchBatch P K J S xs d of (e1, d1) \<Rightarrow> case DispatchBatch P K J S ys d1 of (e2, d2) \<Rightarrow> (e1 @ e2, d2))"
  by (induction xs arbitrary: d) (auto split: prod.splits)

text \<open>
  C22.  In a batch every frame is accounted for: what comes before a frame is processed first, an error
  becomes one error event and does not stop the rest, and the frame itself yields exactly one event unless it is
  a group message with a sender and message ID already accepted, which yields none and leaves the mailbox alone.
\<close>

theorem batch_accounted:
  assumes "DispatchBatch P K J S xs d = (before, d1)" and "DispatchFrame P K J S io body d1 = (r, d2)"
    and "DispatchBatch P K J S ys d2 = (after, d3)"
  shows "DispatchBatch P K J S (xs @ (io, body) # ys) d = (before @ batch_entry r @ after, d3) \<and>
     length (batch_entry r) = (if r = (None, None) then 0 else 1) \<and>
     (r = (None, None) \<longrightarrow> hd body = TypeMultiMsg \<and> dp_Mailbox d2 = dp_Mailbox d1 \<and>
        (\<exists>f f'. dp_Fanout d1 = Some f \<and> ProcessDelivery P S (fi_write io) (fi_contexts io) (cl_Id (dp_Client d1)) (tl body)
            (f\<lparr>fo_client := dp_Client d1\<rparr>) = (Inl Duplicate, f')))"
proof -
  have "DispatchBatch P K J S (xs @ (io, body) # ys) d = (before @ batch_entry r @ after, d3)"
    using assms by (simp add: DispatchBatch_append)
  moreover have "length (batch_entry r) = (if r = (None, None) then 0 else 1)"
    by (cases r; cases "fst r"; cases "snd r") auto
  ultimately show ?thesis using silent_frame [of P K J S io body d1 d2] assms(2) by blast
qed

subsection \<open>Messages\<close>

lemma append_thread_lookup:
  "map_of (append_thread now key title msg s) k =
     (if k = key then Some (let t = (case map_of s key of Some t \<Rightarrow> t | None \<Rightarrow> \<lparr>t_Key = key, t_Title = [], t_Messages = []\<rparr>)
        in t\<lparr>t_Title := if title \<noteq> [] then title else t_Title t, t_Messages := t_Messages t @ [appendDefaults now msg]\<rparr>)
      else map_of s k)"
  by (auto simp: append_thread_def Let_def split: option.splits)

text \<open>The messages of a conversation.\<close>

definition thread_messages :: "threads \<Rightarrow> string \<Rightarrow> Message list" where
  "thread_messages s k = (case map_of s k of None \<Rightarrow> [] | Some t \<Rightarrow> t_Messages t)"

lemma thread_messages_append:
  "thread_messages (append_thread now key title msg s) k =
     thread_messages s k @ (if k = key then [appendDefaults now msg] else [])"
  by (auto simp: thread_messages_def append_thread_lookup Let_def split: option.splits)

lemma handleMessage_stores:
  assumes "Client_Decrypt P (fi_write io) data (dp_Client d) = (Inr (sender, pt), cl)" "dp_Mailbox d = Some s"
  shows "\<exists>ev err d' s'. handleMessage P K io data d = ((Some ev, err), d') \<and> dp_Mailbox d' = Some s' \<and> dp_Client d' = cl \<and>
     ev_Type ev = ''message'' \<and> ev_Sender ev = sender \<and> (ev_Message ev, ev_Encoding ev) = body_text pt \<and>
     (\<forall>k. thread_messages s' k = thread_messages s k @
        (if k = sender then [appendDefaults (fi_clock io) (new_message Incoming Direct (fst (body_text pt)))] else []))"
proof -
  obtain body enc where b: "body_text pt = (body, enc)" by (cases "body_text pt")
  obtain err fs' where save: "saveLocked P K (fi_save io) (fileFor (cl_Id cl))
      (append_thread (fi_clock io) sender [] (new_message Incoming Direct body) s) (dp_disk d) = (err, fs')"
    by (cases "saveLocked P K (fi_save io) (fileFor (cl_Id cl))
      (append_thread (fi_clock io) sender [] (new_message Incoming Direct body) s) (dp_disk d)")
  then show ?thesis using assms
    by (simp add: handleMessage_def b Let_def AppendIncoming_def Mailbox_append_def thread_messages_append Event_zero_def)
qed

text \<open>
  Note.  A message that a client encrypts over a session in step, framed and given to the receive path on
  the other side, produces a message event of the sender with the plaintext as text (base64 if it is not UTF-8),
  and exactly that text is appended, unread and incoming, to the conversation with the sender and to no other;
  this holds in memory even when the mailbox cannot be written, in which case the error is returned as well.
\<close>

theorem message_to_mailbox:
  assumes laws: "np_law P" "aead_law P" "hkdf_law P" "dh_law P" and "mirrored P a b"
    and "duplex_reach P (cl_Id ca) nb (fresh_duplex a b) s" "toB s = []"
    and "p_basemult P rnd \<noteq> DhPublic (pA s)" "SendNonce (pA s) < 2 ^ 31"
    and "map_of (Sessions ca) peer = Some adr" "heap ca adr = Some (pA s)"
    and "map_of (Sessions (dp_Client d)) (cl_Id ca) = Some adr'" "heap (dp_Client d) adr' = Some (pB s)"
    and "dp_Mailbox d = Some box"
  shows "\<exists>w ca' ev err d' box'. Client_Encrypt P rnd wr peer pt ca = (Inr w, ca') \<and>
     DispatchFrame P K J S io (WrapEnvelope TypeMessage w) d = ((Some ev, err), d') \<and> dp_Mailbox d' = Some box' \<and>
     ev_Type ev = ''message'' \<and> ev_Sender ev = cl_Id ca \<and>
     ev_Message ev = (if utf8_valid pt then to_str pt else b64_encode pt) \<and>
     (\<forall>k. thread_messages box' k = thread_messages box k @
        (if k = cl_Id ca then [appendDefaults (fi_clock io) (new_message Incoming Direct (ev_Message ev))] else []))"
proof -
  obtain w ca' cb' where enc: "Client_Encrypt P rnd wr peer pt ca = (Inr w, ca')"
    and dec: "Client_Decrypt P (fi_write io) w (dp_Client d) = (Inr (cl_Id ca, pt), cb')"
    using client_frame_delivered [OF laws assms(5-13)] by blast
  obtain ev err d' box' where h: "handleMessage P K io w d = ((Some ev, err), d')" "dp_Mailbox d' = Some box'"
      "ev_Type ev = ''message''" "ev_Sender ev = cl_Id ca" "(ev_Message ev, ev_Encoding ev) = body_text pt"
      "\<forall>k. thread_messages box' k = thread_messages box k @
        (if k = cl_Id ca then [appendDefaults (fi_clock io) (new_message Incoming Direct (fst (body_text pt)))] else [])"
    using handleMessage_stores [OF dec assms(14), of K] by blast
  have "DispatchFrame P K J S io (WrapEnvelope TypeMessage w) d = ((Some ev, err), d')"
    using Frame_Unwrap_Wrap [OF Encrypt_nonempty [OF laws(1) enc], of TypeMessage] h(1) by (simp add: DispatchFrame_def)
  moreover have "ev_Message ev = fst (body_text pt)" using h(5) by (metis fst_conv)
  ultimately show ?thesis using enc h
    by (intro exI [of _ w] exI [of _ ca'] exI [of _ ev] exI [of _ err] exI [of _ d'] exI [of _ box'] conjI)
      (simp_all add: body_text_def)
qed

subsection \<open>Handshakes\<close>

lemma CreateOffer_wire:
  assumes "np_law P" "CreateOffer P c oid me k peer = Inr (sp, w)"
  shows "w \<noteq> []" "\<exists>ho. decodeOffer P J w = Inr ho \<and> o_SenderId ho = me \<and> o_IdPub ho = k_idPub k"
proof -
  obtain ho where m: "MarshalFastID P HandShakeOffer_MarshalBinID ho = Inr w" "o_DhPub ho \<noteq> None" "o_SenderId ho = me"
      "o_IdPub ho = IdentityPublic sp" "newPeer P c None k = Inr sp"
    using assms(2) by (auto simp: CreateOffer_def Let_def split: sum.splits option.splits)
  show "w \<noteq> []" using offer.fast_first_byte [OF assms(1) m(1)] by blast
  show "\<exists>ho. decodeOffer P J w = Inr ho \<and> o_SenderId ho = me \<and> o_IdPub ho = k_idPub k"
    using decodeOffer_marshal [OF assms(1) m(2,1)] m(3,4) newPeer_facts(2) [OF m(5)] by auto
qed

lemma AcceptOffer_wire: "np_law P \<Longrightarrow> AcceptOffer P J c r me k S w = Inr (x, sp, aw) \<Longrightarrow> aw \<noteq> []"
  by (auto simp: AcceptOffer_def Let_def dest: answer.fast_first_byte
      split: sum.splits option.splits prod.splits if_splits)

lemma handleOffer_replies:
  assumes "np_law P" "Client_CreateOffer P ca oid w1 peer a = (Inr w, a1)"
    and "Client_AcceptOffer P J (fi_coins io) (fi_kem io) (fi_write io) w (dp_Client d) = (Inr aw, b1)" "fi_reply io = Some True"
  shows "\<exists>ev d'. DispatchFrame P K J S io (WrapEnvelope TypeOffer w) d = ((Some ev, None), d') \<and>
     ev_Type ev = ''offer'' \<and> ev_Peer ev = cl_Id a \<and> dp_Client d' = b1 \<and>
     dp_sent d' = dp_sent d @ [(k_idPub (cl_keys a), TypeAnswer, aw)]"
proof -
  obtain sp where create: "CreateOffer P ca oid (cl_Id a) (cl_keys a) peer = Inr (sp, w)"
    using assms(2) by (auto simp: Client_CreateOffer_def Let_def split: sum.splits prod.splits)
  obtain ho where ho: "decodeOffer P J w = Inr ho" "o_SenderId ho = cl_Id a" "o_IdPub ho = k_idPub (cl_keys a)"
    using CreateOffer_wire(2) [OF assms(1) create] by blast
  have "Frame_Unwrap (WrapEnvelope TypeOffer w) = Inr (TypeOffer, w)"
    by (rule Frame_Unwrap_Wrap) (use CreateOffer_wire(1) [OF assms(1) create] in auto)
  then show ?thesis using assms(3,4) ho by (simp add: DispatchFrame_def handleOffer_def Let_def Event_zero_def)
qed

lemma dispatch_handshake_run:
  assumes laws: "np_law P" "sig_law P" "b58_law P" "kem_law P" "dh_law P"
    and run: "can_run P (cl_keys a) ca (cl_keys (dp_Client db)) (fi_coins io) oid (session (dp_Client db))"
    and inv: "client_inv P a" "client_inv P (dp_Client db)" "cl_Id (dp_Client db) \<noteq> []"
    and reply: "fi_reply io = Some True"
  shows "\<exists>w a1 aw evb db' eva da' sa sb. Client_CreateOffer P ca oid w1 (cl_Id (dp_Client db)) a = (Inr w, a1) \<and>
     DispatchFrame P K J S io (WrapEnvelope TypeOffer w) db = ((Some evb, None), db') \<and> ev_Peer evb = cl_Id a \<and>
     dp_sent db' = dp_sent db @ [(k_idPub (cl_keys a), TypeAnswer, aw)] \<and>
     DispatchFrame P K J S' io' (WrapEnvelope TypeAnswer aw) (da\<lparr>dp_Client := a1\<rparr>) = ((Some eva, None), da') \<and>
     ev_Peer eva = cl_Id (dp_Client db) \<and>
     session (dp_Client da') (cl_Id (dp_Client db)) = Some sa \<and> session (dp_Client db') (cl_Id a) = Some sb \<and> mirrored P sa sb"
proof -
  obtain w a1 aw b1 a2 sa sb where c: "Client_CreateOffer P ca oid w1 (cl_Id (dp_Client db)) a = (Inr w, a1)"
      "Client_AcceptOffer P J (fi_coins io) (fi_kem io) (fi_write io) w (dp_Client db) = (Inr aw, b1)"
      "Client_FinishHandshake P J (fi_write io') aw a1 = (Inr (cl_Id (dp_Client db)), a2)"
      "session a2 (cl_Id (dp_Client db)) = Some sa" "session b1 (cl_Id a) = Some sb" "mirrored P sa sb"
    using client_handshake_run [OF laws run inv, of w1 J "fi_kem io" "fi_write io" "fi_write io'"] by blast
  obtain evb db' where b: "DispatchFrame P K J S io (WrapEnvelope TypeOffer w) db = ((Some evb, None), db')" "ev_Peer evb = cl_Id a"
      "dp_Client db' = b1" "dp_sent db' = dp_sent db @ [(k_idPub (cl_keys a), TypeAnswer, aw)]"
    using handleOffer_replies [OF laws(1) c(1,2) reply] by blast
  have "aw \<noteq> []" using c(2) AcceptOffer_wire [OF laws(1)]
    by (auto simp: Client_AcceptOffer_def split: sum.splits prod.splits)
  then have "Frame_Unwrap (WrapEnvelope TypeAnswer aw) = Inr (TypeAnswer, aw)" by (rule Frame_Unwrap_Wrap) simp
  then have "\<exists>eva da'. DispatchFrame P K J S' io' (WrapEnvelope TypeAnswer aw) (da\<lparr>dp_Client := a1\<rparr>) = ((Some eva, None), da') \<and>
      ev_Peer eva = cl_Id (dp_Client db) \<and> dp_Client da' = a2"
    using c(3) by (simp add: DispatchFrame_def handleAnswer_def Event_zero_def)
  then obtain eva da' where "DispatchFrame P K J S' io' (WrapEnvelope TypeAnswer aw) (da\<lparr>dp_Client := a1\<rparr>) = ((Some eva, None), da')"
      "ev_Peer eva = cl_Id (dp_Client db)" "dp_Client da' = a2" by blast
  then show ?thesis using c b
    by (intro exI [of _ w] exI [of _ a1] exI [of _ aw] exI [of _ evb] exI [of _ db'] exI [of _ eva] exI [of _ da']
        exI [of _ sa] exI [of _ sb] conjI) simp_all
qed

text \<open>
  Note.  A handshake runs through the receive path: the responder, given the framed offer, files the
  session, reports the initiator's peer ID and sends one answer to the initiator's identity key; the initiator,
  given that answer framed, reports the responder's peer ID, and both clients then hold mirrored sessions under
  each other's peer IDs.
\<close>

theorem dispatch_handshake:
  assumes laws: "np_law P" "sig_law P" "b58_law P" "kem_law P" "dh_law P"
    and run: "can_run P (cl_keys a) ca (cl_keys (dp_Client db)) (fi_coins io) oid (session (dp_Client db))"
    and inv: "client_inv P a" "client_inv P (dp_Client db)" "cl_Id (dp_Client db) \<noteq> []"
    and reply: "fi_reply io = Some True"
  shows "\<exists>w a1 aw evb db' eva da' sa sb. Client_CreateOffer P ca oid w1 (cl_Id (dp_Client db)) a = (Inr w, a1) \<and>
     DispatchFrame P K J S io (WrapEnvelope TypeOffer w) db = ((Some evb, None), db') \<and> ev_Peer evb = cl_Id a \<and>
     dp_sent db' = dp_sent db @ [(k_idPub (cl_keys a), TypeAnswer, aw)] \<and>
     DispatchFrame P K J S' io' (WrapEnvelope TypeAnswer aw) (da\<lparr>dp_Client := a1\<rparr>) = ((Some eva, None), da') \<and>
     ev_Peer eva = cl_Id (dp_Client db) \<and>
     session (dp_Client da') (cl_Id (dp_Client db)) = Some sa \<and> session (dp_Client db') (cl_Id a) = Some sb \<and> mirrored P sa sb"
  by (rule dispatch_handshake_run [OF assms])

text \<open>
  Note.  An offer is acted on before its answer leaves: when no sender is bound or the answer cannot be
  sent, the frame is reported as an error, yet the new session has already replaced the one that was on file
  under the initiator's peer ID (no other name is affected), although the initiator cannot complete it.
\<close>

theorem offer_without_answer:
  assumes "AcceptOffer P J (fi_coins io) (fi_kem io) (cl_Id (dp_Client d)) (cl_keys (dp_Client d)) (session (dp_Client d)) data
      = Inr (x, sp, aw)" "data \<noteq> []" "fi_reply io \<noteq> Some True" "client_wf (dp_Client d)"
  shows "\<exists>e d'. DispatchFrame P K J S io (WrapEnvelope TypeOffer data) d = ((None, Some e), d') \<and>
     e = (if fi_reply io = None then NoSender else AnswerSend) \<and>
     session (dp_Client d') x = Some sp \<and> (\<forall>k. k \<noteq> x \<longrightarrow> session (dp_Client d') k = session (dp_Client d) k)"
proof -
  let ?cl = "SaveClient (fi_write io) (bind_name x (next_addr (dp_Client d)) (alloc sp (dp_Client d)))"
  obtain ho where ho: "decodeOffer P J data = Inr ho"
    using assms(1) by (auto simp: AcceptOffer_def checkOffer_def split: sum.splits)
  have acc: "Client_AcceptOffer P J (fi_coins io) (fi_kem io) (fi_write io) data (dp_Client d) = (Inr aw, ?cl)"
    using assms(1) by (simp add: Client_AcceptOffer_def)
  have u: "Frame_Unwrap (WrapEnvelope TypeOffer data) = Inr (TypeOffer, data)" using assms(2) by (rule Frame_Unwrap_Wrap) simp
  have "map_of (Sessions (dp_Client d)) k \<noteq> Some (next_addr (dp_Client d))" for k
    using assms(4) by (fastforce simp: client_wf_def dest: map_of_SomeD)
  then have "session ?cl k = session (dp_Client d) k" if "k \<noteq> x" for k
    using that by (auto simp: session_def alloc_def bind_name_def split: option.splits)
  moreover have "session ?cl x = Some sp" by (simp add: session_def)
  ultimately show ?thesis using assms(3) ho acc u
    by (cases "fi_reply io") (auto simp: DispatchFrame_def handleOffer_def Let_def)
qed

subsection \<open>Concrete instances\<close>

type_synonym file_deps = "(FileContextStore, FileDeliveryStore) Deps"

definition toy_deps :: "Client \<Rightarrow> file_deps" where
  "toy_deps cl = \<lparr>dp_Client = cl, dp_Mailbox = Some [], dp_disk = Map.empty, dp_Fanout = None, dp_sent = []\<rparr>"

definition toy_io :: "bool option \<Rightarrow> frame_io" where
  "toy_io reply = \<lparr>fi_coins = toy_coins 4, fi_kem = [8], fi_write = NotWritten, fi_reply = reply,
     fi_clock = \<lparr>nowNano = 1, nowMilli = 2\<rparr>, fi_save = SaveDone, fi_contexts = (SaveDone, SaveDone)\<rparr>"

abbreviation "toy_contexts \<equiv> FileContexts toy toy_packets"

theorem batch_accounted_witness:
  "\<exists>before d1 after d3. DispatchBatch toy toy_packets toy_json toy_contexts [(toy_io None, [9])] (toy_deps toy_bob) = (before, d1) \<and>
     DispatchBatch toy toy_packets toy_json toy_contexts [(toy_io None, [9]), (toy_io None, [4, 4]), (toy_io None, [])] (toy_deps toy_bob) =
       (before @ [Failed NoFanout] @ after, d3)"
proof -
  have "DispatchFrame toy toy_packets toy_json toy_contexts (toy_io None) [4, 4] (toy_deps toy_bob) = ((None, Some NoFanout), toy_deps toy_bob)"
    by (simp add: DispatchFrame_def Frame_Unwrap_def Type_Valid_iff type_defs handleMultiMessage_def toy_deps_def)
  then show ?thesis
    using batch_accounted [of toy toy_packets toy_json toy_contexts "[(toy_io None, [9])]" "toy_deps toy_bob" _ "toy_deps toy_bob"
        "toy_io None" "[4, 4]" "(None, Some NoFanout)" "toy_deps toy_bob" "[(toy_io None, [])]"]
    by (simp add: DispatchFrame_def Frame_Unwrap_def)
qed

theorem message_to_mailbox_witness:
  "\<exists>w ca' ev err d' box'. Client_Encrypt toy [] NotWritten ''bob'' [72, 105] toy_alice = (Inr w, ca') \<and>
     DispatchFrame toy toy_packets toy_json toy_contexts (toy_io None) (WrapEnvelope TypeMessage w) (toy_deps toy_bob) = ((Some ev, err), d') \<and>
     dp_Mailbox d' = Some box' \<and> ev_Sender ev = ''alice'' \<and> ev_Message ev = ''Hi'' \<and>
     map m_Body (thread_messages box' ''alice'') = [''Hi'']"
proof -
  have hi: "utf8_valid [72, 105]" "to_str [72, 105] = ''Hi''"
    by (rule utf8_valid_ascii, simp, code_simp)
  show ?thesis
    using message_to_mailbox [OF toy_laws(4,3,2,1) toy_mirrored, of toy_alice "''bob''" "fresh_duplex toy_peer toy_peer'" "[]" "''bob''" 0
        "toy_deps toy_bob" 0 "[]" NotWritten "[72, 105]" toy_packets toy_json toy_contexts "toy_io None"] toy_duplex hi
    by (simp add: toy_deps_def)
      (fastforce simp: thread_messages_def appendDefaults_def new_message_def Let_def)
qed

theorem dispatch_handshake_witness:
  "\<exists>w a1 aw evb db' eva da' sa sb. Client_CreateOffer toy (toy_coins 3) [9] Written (toy_id 2) (toy_new 1) = (Inr w, a1) \<and>
     DispatchFrame toy toy_packets toy_json toy_contexts (toy_io (Some True)) (WrapEnvelope TypeOffer w) (toy_deps (toy_new 2)) = ((Some evb, None), db') \<and>
     dp_sent db' = [(k_idPub (toy_keys 1), TypeAnswer, aw)] \<and>
     DispatchFrame toy toy_packets toy_json toy_contexts (toy_io None) (WrapEnvelope TypeAnswer aw) ((toy_deps toy_alice)\<lparr>dp_Client := a1\<rparr>) = ((Some eva, None), da') \<and>
     session (dp_Client da') (toy_id 2) = Some sa \<and> session (dp_Client db') (toy_id 1) = Some sb \<and> mirrored toy sa sb"
proof -
  have d: "dp_Client (toy_deps (toy_new 2)) = toy_new 2" "dp_sent (toy_deps (toy_new 2)) = []" by (simp_all add: toy_deps_def)
  have run: "can_run toy (cl_keys (toy_new 1)) (toy_coins 3) (cl_keys (toy_new 2)) (fi_coins (toy_io (Some True))) [9] (session (toy_new 2))"
    using toy_runs [of 2] by (simp add: toy_io_def)
  have reply: "fi_reply (toy_io (Some True)) = Some True" and ne: "cl_Id (toy_new 2) \<noteq> []" by (simp_all add: toy_io_def)
  show ?thesis
    using dispatch_handshake [OF toy_laws(4,6,5,7,1), of "toy_new 1" "toy_coins 3" "toy_deps (toy_new 2)" "toy_io (Some True)" "[9]"
        Written toy_packets toy_json toy_contexts toy_contexts "toy_io None" "toy_deps toy_alice", unfolded d, OF run toy_new_inv toy_new_inv ne reply]
    by simp blast
qed

theorem offer_without_answer_witness:
  "\<exists>data d'. DispatchFrame toy toy_packets toy_json toy_contexts (toy_io None) (WrapEnvelope TypeOffer data) (toy_deps (toy_new 2)) =
     ((None, Some NoSender), d') \<and> session (dp_Client d') (toy_id 1) \<noteq> None \<and> session (toy_new 2) (toy_id 1) = None"
proof -
  have run: "can_run toy (toy_keys 1) (toy_coins 3) (toy_keys 2) (toy_coins 4) [9] Map.empty" using toy_runs [of 2] by simp
  obtain pa w pb aw where w: "CreateOffer toy (toy_coins 3) [9] (toy_id 1) (toy_keys 1) (toy_id 2) = Inr (pa, w)"
    "AcceptOffer toy toy_json (toy_coins 4) [8] (toy_id 2) (toy_keys 2) Map.empty w = Inr (toy_id 1, pb, aw)"
    using handshake_run [OF toy_laws(4,6,5,7,1) run, of toy_json "[8]"] unfolding toy_id_def by blast
  have wf: "client_wf (toy_new 2)" using toy_new_inv by (simp add: client_inv_def)
  show ?thesis
    using offer_without_answer [of toy toy_json "toy_io None" "toy_deps (toy_new 2)" w "toy_id 1" pb aw toy_packets toy_contexts]
      w(2) wf CreateOffer_wire(1) [OF toy_laws(4) w(1)]
    by (simp add: toy_deps_def toy_io_def) blast
qed

end
