(* ===== verification/Filetransfer.thy ===== *)
theory Filetransfer
  imports SessionDelivery MultiWire "HOL-Library.Monad_Syntax"
begin

text \<open>
  File transfer (\<^verbatim>\<open>src/internal/filetransfer/filetransfer.go\<close> and \<^verbatim>\<open>ticket.go\<close>): a file is encrypted whole with
  the peer's session, the ciphertext is cut into chunks, and a manifest with sizes and hashes travels to the
  recipient inside a ticket.

  A Go \<^verbatim>\<open>int\<close> of the manifest is a 64-bit word read with its sign, so that the conversions to and from the
  unsigned wire integers are the ones of the code.
\<close>

subsection \<open>Manifest\<close>

definition MaxFilePlaintext :: nat where "MaxFilePlaintext = 8 * 2 ^ 20"
definition DefaultChunkSize :: int where "DefaultChunkSize = 32 * 1024"
definition ManifestSchemaID :: byte where "ManifestSchemaID = 12"

record Manifest =
  mf_FileName :: string
  mf_PlainSize :: "64 word"
  mf_CipherSize :: "64 word"
  mf_ChunkSize :: "64 word"
  mf_ChunkCount :: "64 word"
  mf_FileHash :: bytes
  mf_CipherHash :: bytes

definition Manifest_fields :: "Manifest \<Rightarrow> npfield list" where
  "Manifest_fields m =
     [(1, to_bytes (mf_FileName m)), (2, putU64 (mf_PlainSize m)), (3, putU64 (mf_CipherSize m)),
      (4, putU32 (ucast (mf_ChunkSize m))), (5, putU32 (ucast (mf_ChunkCount m))),
      (6, mf_FileHash m), (7, mf_CipherHash m)]"

text \<open>\<^verbatim>\<open>Bytes\<close> drops the encoder's error, so a failure yields the empty slice.\<close>

definition Manifest_Bytes :: "prims \<Rightarrow> Manifest \<Rightarrow> bytes" where
  "Manifest_Bytes P m = (case p_np_enc P (Manifest_fields m) of None \<Rightarrow> [] | Some raw \<Rightarrow> raw)"

definition getU32 :: "bytes \<Rightarrow> np_error + 32 word" where
  "getU32 b = (if length b \<noteq> 4 then Inl ErrShortBody else Inr (beU32 b))"

definition getU64 :: "bytes \<Rightarrow> np_error + 64 word" where
  "getU64 b = (if length b \<noteq> 8 then Inl ErrShortBody else Inr (beU64 b))"

datatype file_error =
    ManifestNp np_error | BadManifest
  | FileSize nat | ChunkSizeBounds | FileEncrypt client_error
  | WantChunks "64 word" nat | ChunkEmpty nat | CipherSizeMismatch | CipherHashMismatch
  | FileDecrypt client_error | FileSender string string | PlainSizeMismatch | FileHashMismatch
  | TransferLength | SecretLength | MissingFields | TicketNp np_error | JSONTicket | TicketVersionErr
  | TicketManifest file_error | BadBase64

definition Manifest_zero :: Manifest where
  "Manifest_zero = \<lparr>mf_FileName = [], mf_PlainSize = 0, mf_CipherSize = 0, mf_ChunkSize = 0, mf_ChunkCount = 0,
     mf_FileHash = [], mf_CipherHash = []\<rparr>"

definition Manifest_field :: "npfield \<Rightarrow> Manifest \<Rightarrow> np_error + Manifest" where
  "Manifest_field f m =
     (let (i, data) = f in
      if i = 1 then Inr (m\<lparr>mf_FileName := to_str data\<rparr>)
      else if i = 2 then (case getU64 data of Inl e \<Rightarrow> Inl e | Inr v \<Rightarrow> Inr (m\<lparr>mf_PlainSize := v\<rparr>))
      else if i = 3 then (case getU64 data of Inl e \<Rightarrow> Inl e | Inr v \<Rightarrow> Inr (m\<lparr>mf_CipherSize := v\<rparr>))
      else if i = 4 then (case getU32 data of Inl e \<Rightarrow> Inl e | Inr v \<Rightarrow> Inr (m\<lparr>mf_ChunkSize := ucast v\<rparr>))
      else if i = 5 then (case getU32 data of Inl e \<Rightarrow> Inl e | Inr v \<Rightarrow> Inr (m\<lparr>mf_ChunkCount := ucast v\<rparr>))
      else if i = 6 then Inr (m\<lparr>mf_FileHash := data\<rparr>)
      else if i = 7 then Inr (m\<lparr>mf_CipherHash := data\<rparr>)
      else Inr m)"

definition bad_sizes :: "Manifest \<Rightarrow> bool" where
  "bad_sizes m \<longleftrightarrow> sint (mf_ChunkCount m) \<le> 0 \<or> sint (mf_ChunkSize m) \<le> 0 \<or> sint (mf_CipherSize m) \<le> 0 \<or>
     length (mf_FileHash m) \<noteq> 32 \<or> length (mf_CipherHash m) \<noteq> 32"

definition ParseManifest :: "prims \<Rightarrow> bytes \<Rightarrow> file_error + Manifest" where
  "ParseManifest P raw =
     (case p_np_dec P raw of
        None \<Rightarrow> Inl (ManifestNp NpDecode)
      | Some fs \<Rightarrow>
          (case fold_fields Manifest_field fs Manifest_zero of
             Inl e \<Rightarrow> Inl (ManifestNp e)
           | Inr m \<Rightarrow> if bad_sizes m then Inl BadManifest else Inr m))"

subsection \<open>Encrypting and cutting\<close>

text \<open>
  The loop \<^verbatim>\<open>for off := 0; off < len(cipher); off += chunkSize\<close>.  Nothing in the loop makes it end: that
  \<^verbatim>\<open>chunkSize\<close> is positive is what the guards before it ensure, so a run that does not end is the value \<open>None\<close>.
\<close>

partial_function (option) chunk_loop :: "int \<Rightarrow> bytes \<Rightarrow> int \<Rightarrow> bytes list option" where
  [code]: "chunk_loop chunkSize cipher off =
     (if off < int (length cipher) then do {
        let stop = (if off + chunkSize > int (length cipher) then int (length cipher) else off + chunkSize);
        rest \<leftarrow> chunk_loop chunkSize cipher (off + chunkSize);
        Some (take (nat (stop - off)) (drop (nat off) cipher) # rest)
      } else Some [])"

record file_out =
  fo_cipher :: bytes
  fo_chunks :: "bytes list"
  fo_manifest :: Manifest

text \<open>The outer option is that of the loop.\<close>

definition EncryptFile ::
  "prims \<Rightarrow> bytes \<Rightarrow> write_result \<Rightarrow> string \<Rightarrow> string \<Rightarrow> bytes \<Rightarrow> int \<Rightarrow> Client \<Rightarrow>
   ((file_error + file_out) \<times> Client) option" where
  "EncryptFile P rnd wr peerID fileName plaintext chunkSize cl =
     (if plaintext = [] \<or> length plaintext > MaxFilePlaintext then Some (Inl (FileSize (length plaintext)), cl)
      else
        let chunkSize = (if chunkSize \<le> 0 then DefaultChunkSize else chunkSize) in
        if chunkSize > 64 * 1024 then Some (Inl ChunkSizeBounds, cl)
        else case Client_Encrypt P rnd wr peerID plaintext cl of
          (Inl e, cl') \<Rightarrow> Some (Inl (FileEncrypt e), cl')
        | (Inr cipher, cl') \<Rightarrow>
            (case chunk_loop chunkSize cipher 0 of
               None \<Rightarrow> None
             | Some chunks \<Rightarrow>
                 Some (Inr \<lparr>fo_cipher = cipher, fo_chunks = chunks,
                     fo_manifest = \<lparr>mf_FileName = fileName, mf_PlainSize = word_of_nat (length plaintext),
                       mf_CipherSize = word_of_nat (length cipher), mf_ChunkSize = word_of_int chunkSize,
                       mf_ChunkCount = word_of_nat (length chunks), mf_FileHash = p_sha256 P plaintext,
                       mf_CipherHash = p_sha256 P cipher\<rparr>\<rparr>, cl')))"

subsection \<open>Reassembling\<close>

definition decryptFor :: "prims \<Rightarrow> write_result \<Rightarrow> bytes \<Rightarrow> Client \<Rightarrow> (client_error + bytes \<times> string) \<times> Client" where
  "decryptFor P wr cipher cl =
     (case Client_Decrypt P wr cipher cl of
        (Inl e, cl') \<Rightarrow> (Inl e, cl')
      | (Inr (sender, plain), cl') \<Rightarrow> (Inr (plain, sender), cl'))"

definition shortPeer :: "string \<Rightarrow> string" where
  "shortPeer p = (if length p \<le> 12 then p else take 6 p @ ''...'' @ drop (length p - 4) p)"

fun join_chunks :: "nat \<Rightarrow> bytes list \<Rightarrow> bytes \<Rightarrow> file_error + bytes" where
  "join_chunks i [] cipher = Inr cipher"
| "join_chunks i (c # cs) cipher = (if c = [] then Inl (ChunkEmpty i) else join_chunks (Suc i) cs (cipher @ c))"

definition ReassembleAndDecrypt ::
  "prims \<Rightarrow> write_result \<Rightarrow> string \<Rightarrow> bytes list \<Rightarrow> Manifest \<Rightarrow> Client \<Rightarrow> (file_error + bytes) \<times> Client" where
  "ReassembleAndDecrypt P wr peerID chunks mf cl =
     (if int (length chunks) \<noteq> sint (mf_ChunkCount mf) then (Inl (WantChunks (mf_ChunkCount mf) (length chunks)), cl)
      else case join_chunks 0 chunks [] of
        Inl e \<Rightarrow> (Inl e, cl)
      | Inr cipher \<Rightarrow>
          if int (length cipher) \<noteq> sint (mf_CipherSize mf) then (Inl CipherSizeMismatch, cl)
          else if p_sha256 P cipher \<noteq> mf_CipherHash mf then (Inl CipherHashMismatch, cl)
          else case decryptFor P wr cipher cl of
            (Inl e, cl') \<Rightarrow> (Inl (FileDecrypt e), cl')
          | (Inr (plaintext, senderID), cl') \<Rightarrow>
              (if peerID \<noteq> [] \<and> senderID \<noteq> peerID then Inl (FileSender (shortPeer peerID) (shortPeer senderID))
               else if int (length plaintext) \<noteq> sint (mf_PlainSize mf) then Inl PlainSizeMismatch
               else if p_sha256 P plaintext \<noteq> mf_FileHash mf then Inl FileHashMismatch
               else Inr plaintext, cl'))"

subsection \<open>Tickets\<close>

definition TicketSchemaID :: byte where "TicketSchemaID = 13"
definition TicketVersion :: byte where "TicketVersion = 2"

record Ticket =
  tk_Transfer :: bytes
  tk_Secret :: bytes
  tk_Shard :: string
  tk_Manifest :: bytes
  tk_From :: string

definition Ticket_fields :: "Ticket \<Rightarrow> npfield list" where
  "Ticket_fields t =
     [(1, [TicketVersion]), (2, tk_Transfer t), (3, tk_Secret t), (4, to_bytes (tk_Shard t)), (5, tk_Manifest t),
      (6, to_bytes (tk_From t))]"

definition MarshalTicket :: "prims \<Rightarrow> Ticket \<Rightarrow> file_error + bytes" where
  "MarshalTicket P t =
     (if length (tk_Transfer t) \<noteq> 16 then Inl TransferLength
      else if length (tk_Secret t) \<noteq> 32 then Inl SecretLength
      else if tk_Shard t = [] \<or> tk_Manifest t = [] then Inl MissingFields
      else case p_np_enc P (Ticket_fields t) of None \<Rightarrow> Inl (TicketNp NpEncode) | Some raw \<Rightarrow> Inr raw)"

definition Ticket_zero :: Ticket where
  "Ticket_zero = \<lparr>tk_Transfer = [], tk_Secret = [], tk_Shard = [], tk_Manifest = [], tk_From = []\<rparr>"

definition Ticket_field :: "npfield \<Rightarrow> Ticket \<Rightarrow> file_error + Ticket" where
  "Ticket_field f t =
     (let (i, data) = f in
      if i = 1 then (if data \<noteq> [TicketVersion] then Inl TicketVersionErr else Inr t)
      else if i = 2 then Inr (t\<lparr>tk_Transfer := data\<rparr>)
      else if i = 3 then Inr (t\<lparr>tk_Secret := data\<rparr>)
      else if i = 4 then Inr (t\<lparr>tk_Shard := to_str data\<rparr>)
      else if i = 5 then Inr (t\<lparr>tk_Manifest := data\<rparr>)
      else if i = 6 then Inr (t\<lparr>tk_From := to_str data\<rparr>)
      else Inr t)"

definition ParseTicket :: "prims \<Rightarrow> bytes \<Rightarrow> file_error + Ticket" where
  "ParseTicket P raw =
     (if raw \<noteq> [] \<and> hd raw = byte_of_char CHR ''{'' then Inl JSONTicket
      else case p_np_dec P raw of
        None \<Rightarrow> Inl (TicketNp NpDecode)
      | Some fs \<Rightarrow>
          (case fold_fields Ticket_field fs Ticket_zero of
             Inl e \<Rightarrow> Inl e
           | Inr t \<Rightarrow>
               if length (tk_Transfer t) \<noteq> 16 \<or> length (tk_Secret t) \<noteq> 32 \<or> tk_Shard t = [] \<or> tk_Manifest t = []
               then Inl MissingFields
               else case ParseManifest P (tk_Manifest t) of
                 Inl e \<Rightarrow> Inl (TicketManifest e)
               | Inr _ \<Rightarrow> Inr t))"

definition EncodeTicketString :: "bytes \<Rightarrow> string" where
  "EncodeTicketString raw = b64_encode raw"

definition DecodeTicketString :: "string \<Rightarrow> file_error + bytes" where
  "DecodeTicketString s = (case b64_decode s of None \<Rightarrow> Inl BadBase64 | Some raw \<Rightarrow> Inr raw)"

subsection \<open>The chunk loop ends\<close>

lemma chunk_loop_runs:
  assumes "0 < sz" "0 \<le> off"
  shows "\<exists>cs. chunk_loop sz c off = Some cs \<and> concat cs = drop (nat off) c \<and>
     (\<forall>x\<in>set cs. x \<noteq> [] \<and> int (length x) \<le> sz) \<and> (\<forall>i. Suc i < length cs \<longrightarrow> int (length (cs ! i)) = sz)"
  using assms(2)
proof (induction "nat (int (length c) - off)" arbitrary: off rule: less_induct)
  case less
  show ?case
  proof (cases "off < int (length c)")
    case False
    then show ?thesis using less.prems by (subst chunk_loop.simps) auto
  next
    case True
    then obtain cs where cs: "chunk_loop sz c (off + sz) = Some cs" "concat cs = drop (nat (off + sz)) c"
        "\<forall>x\<in>set cs. x \<noteq> [] \<and> int (length x) \<le> sz" "\<forall>i. Suc i < length cs \<longrightarrow> int (length (cs ! i)) = sz"
      using less.hyps [of "off + sz"] less.prems assms(1) by auto
    let ?n = "nat ((if off + sz > int (length c) then int (length c) else off + sz) - off)"
    let ?x = "take ?n (drop (nat off) c)"
    have now: "chunk_loop sz c off = Some (?x # cs)"
      using True cs(1) by (subst chunk_loop.simps) (simp add: Let_def)
    have nonempty: "?x \<noteq> []" "int (length ?x) \<le> sz" using True less.prems assms(1) by (auto split: if_splits)
    have n: "?n = min (nat sz) (length c - nat off)" using True less.prems assms(1) by auto
    have "drop (nat off + ?n) c = drop (nat (off + sz)) c"
    proof (cases "off + sz > int (length c)")
      case True
      then show ?thesis using less.prems by simp
    next
      case False
      then show ?thesis using less.prems assms(1) by (simp add: nat_add_distrib)
    qed
    then have "?x @ drop (nat (off + sz)) c = drop (nat off) c"
      by (metis append_take_drop_id drop_drop add.commute)
    moreover have "int (length ?x) = sz" if "cs \<noteq> []"
    proof -
      have "drop (nat (off + sz)) c \<noteq> []" using that cs(2,3) by (cases cs) auto
      then show ?thesis using assms(1) less.prems by (auto simp: n)
    qed
    then have "\<forall>i. Suc i < length (?x # cs) \<longrightarrow> int (length ((?x # cs) ! i)) = sz"
      using cs(4) by (auto simp: nth_Cons split: nat.splits)
    moreover have "\<forall>x\<in>set (?x # cs). x \<noteq> [] \<and> int (length x) \<le> sz" using nonempty cs(3) by auto
    ultimately show ?thesis using now cs(2) by (intro exI [of _ "?x # cs"] conjI) simp_all
  qed
qed

lemma join_chunks_concat: "\<forall>x\<in>set cs. x \<noteq> [] \<Longrightarrow> join_chunks i cs acc = Inr (acc @ concat cs)"
  by (induction cs arbitrary: i acc) auto

lemma join_chunks_Inr: "join_chunks i cs acc = Inr c \<Longrightarrow> c = acc @ concat cs"
  by (induction cs arbitrary: i acc) (fastforce split: if_splits)+

lemma join_chunks_Inl: "(\<exists>e. join_chunks i cs acc = Inl e) \<longleftrightarrow> [] \<in> set cs"
  by (induction cs arbitrary: i acc) auto

lemma length_chunks: "\<forall>x\<in>set cs. x \<noteq> [] \<Longrightarrow> length cs \<le> length (concat cs)"
proof (induction cs)
  case (Cons x cs)
  then have "0 < length x" "length cs \<le> length (concat cs)" by auto
  then show ?case by (simp only: list.size concat.simps length_append)
qed simp

text \<open>A chunk size that passes the guards of \<^verbatim>\<open>EncryptFile\<close>, after the default is put in.\<close>

definition chunk_size :: "int \<Rightarrow> int" where
  "chunk_size n = (if n \<le> 0 then DefaultChunkSize else n)"

text \<open>
  C24.  Encrypting a file always ends, whatever chunk size is asked for; when it succeeds, the chunks are
  the ciphertext cut in order, none is empty, none is longer than the chunk size (the default if a non-positive
  one was given, never above 64 KiB), and all but the last are exactly that long.
\<close>

theorem encrypt_file_total:
  "\<exists>r cl'. EncryptFile P rnd wr peer name pt n cl = Some (r, cl') \<and>
     (case r of
        Inl e \<Rightarrow> True
      | Inr out \<Rightarrow>
          concat (fo_chunks out) = fo_cipher out \<and> chunk_size n \<le> 65536 \<and>
          list_all (\<lambda>x. x \<noteq> [] \<and> int (length x) \<le> chunk_size n) (fo_chunks out) \<and>
          list_all (\<lambda>x. int (length x) = chunk_size n) (butlast (fo_chunks out)))"
proof -
  have pos: "0 < chunk_size n" by (simp add: chunk_size_def DefaultChunkSize_def)
  have butlast: "list_all (\<lambda>x. Q x) (butlast cs)" if "\<forall>i. Suc i < length cs \<longrightarrow> Q (cs ! i)" for Q and cs :: "bytes list"
    using that by (auto simp: list_all_length nth_butlast)
  show ?thesis
  proof (cases "pt = [] \<or> length pt > MaxFilePlaintext \<or> chunk_size n > 64 * 1024")
    case True
    then show ?thesis by (auto simp: EncryptFile_def chunk_size_def Let_def)
  next
    case False
    obtain r cl' where enc: "Client_Encrypt P rnd wr peer pt cl = (r, cl')" by (cases "Client_Encrypt P rnd wr peer pt cl")
    show ?thesis
    proof (cases r)
      case (Inl e)
      then show ?thesis using False enc by (auto simp: EncryptFile_def chunk_size_def Let_def)
    next
      case (Inr c)
      obtain cs where cs: "chunk_loop (chunk_size n) c 0 = Some cs" "concat cs = c"
          "\<forall>x\<in>set cs. x \<noteq> [] \<and> int (length x) \<le> chunk_size n" "\<forall>i. Suc i < length cs \<longrightarrow> int (length (cs ! i)) = chunk_size n"
        using chunk_loop_runs [OF pos, of 0 c] by auto
      show ?thesis using False enc Inr cs butlast [OF cs(4)]
        by (auto simp: EncryptFile_def chunk_size_def [symmetric] Let_def list_all_iff)
    qed
  qed
qed

subsection \<open>Manifests on the wire\<close>

text \<open>SHA-256 digests are 32 bytes long.\<close>

definition sha_law :: "prims \<Rightarrow> bool" where
  "sha_law P \<longleftrightarrow> (\<forall>b. length (p_sha256 P b) = 32)"

text \<open>A manifest whose sizes survive the 32-bit fields of the wire form.\<close>

definition manifest_fits :: "Manifest \<Rightarrow> bool" where
  "manifest_fits m \<longleftrightarrow> \<not> bad_sizes m \<and> unat (mf_ChunkSize m) < 2 ^ 32 \<and> unat (mf_ChunkCount m) < 2 ^ 32"

lemma ucast_fits: "unat w < 2 ^ 32 \<Longrightarrow> ucast (ucast w :: 32 word) = w" for w :: "64 word"
  by (rule word_unat_eq_iff [THEN iffD2]) (simp add: unsigned_ucast_eq unsigned_take_bit_eq take_bit_nat_eq_self)

lemma ParseManifest_Bytes:
  assumes "np_law P" "manifest_fits m"
  shows "ParseManifest P (Manifest_Bytes P m) = Inr m"
proof -
  obtain b where b: "p_np_enc P (Manifest_fields m) = Some b" "p_np_dec P b = Some (Manifest_fields m)"
    using np_enc_dec [OF assms(1), of "Manifest_fields m"] by (auto simp: Manifest_fields_def)
  have "fold_fields Manifest_field (Manifest_fields m) Manifest_zero = Inr m"
    using assms(2) by (simp add: Manifest_fields_def Manifest_field_def Manifest_zero_def getU32_def getU64_def ucast_fits
        manifest_fits_def Manifest.equality)
  then show ?thesis using assms(2) b by (simp add: ParseManifest_def Manifest_Bytes_def manifest_fits_def)
qed

lemma word_of_length: "length xs < 2 ^ 63 \<Longrightarrow> sint (word_of_nat (length xs) :: 64 word) = int (length xs)"
  by (simp add: signed_of_nat signed_take_bit_int_eq_self)

lemma EncryptFile_out:
  assumes np: "np_law P" and enc: "Client_Encrypt P rnd wr peer pt cl = (Inr c, cl')" and small: "length c < 2 ^ 32"
    and pt: "pt \<noteq> []" "length pt \<le> MaxFilePlaintext" and n: "n \<le> 65536" and sha: "sha_law P"
  shows "\<exists>cs m. EncryptFile P rnd wr peer name pt n cl = Some (Inr \<lparr>fo_cipher = c, fo_chunks = cs, fo_manifest = m\<rparr>, cl') \<and>
     manifest_fits m \<and> join_chunks 0 cs [] = Inr c \<and> sint (mf_ChunkCount m) = int (length cs) \<and>
     sint (mf_CipherSize m) = int (length c) \<and> sint (mf_PlainSize m) = int (length pt) \<and>
     mf_FileHash m = p_sha256 P pt \<and> mf_CipherHash m = p_sha256 P c"
proof -
  have sz: "0 < chunk_size n" "chunk_size n \<le> 65536" using n by (auto simp: chunk_size_def DefaultChunkSize_def)
  obtain cs where cs: "chunk_loop (chunk_size n) c 0 = Some cs" "concat cs = c" "\<forall>x\<in>set cs. x \<noteq> []"
    using chunk_loop_runs [OF sz(1), of 0 c] by auto
  have c: "c \<noteq> []" by (rule Encrypt_nonempty [OF np enc])
  have few: "length cs \<le> length c" using length_chunks [OF cs(3)] cs(2) by simp
  have ne: "cs \<noteq> []" using c cs(2) by auto
  let ?m = "\<lparr>mf_FileName = name, mf_PlainSize = word_of_nat (length pt), mf_CipherSize = word_of_nat (length c),
      mf_ChunkSize = word_of_int (chunk_size n), mf_ChunkCount = word_of_nat (length cs), mf_FileHash = p_sha256 P pt,
      mf_CipherHash = p_sha256 P c\<rparr>"
  have lens: "sint (word_of_nat (length cs) :: 64 word) = int (length cs)" "sint (word_of_nat (length c) :: 64 word) = int (length c)"
    "sint (word_of_nat (length pt) :: 64 word) = int (length pt)"
    using few small pt(2) by (auto intro!: word_of_length simp: MaxFilePlaintext_def)
  have s: "sint (word_of_int (chunk_size n) :: 64 word) = chunk_size n"
    using sz by (simp add: signed_of_int signed_take_bit_int_eq_self)
  have "unat (word_of_int (chunk_size n) :: 64 word) < 2 ^ 32" "unat (word_of_nat (length cs) :: 64 word) < 2 ^ 32"
    using sz few small by (simp_all add: unsigned_of_int unat_of_nat take_bit_int_eq_self nat_less_iff)
  then have "manifest_fits ?m"
    using lens s sz c ne sha by (simp add: manifest_fits_def bad_sizes_def sha_law_def)
  moreover have "EncryptFile P rnd wr peer name pt n cl = Some (Inr \<lparr>fo_cipher = c, fo_chunks = cs, fo_manifest = ?m\<rparr>, cl')"
    using pt sz enc cs(1) by (simp add: EncryptFile_def chunk_size_def [symmetric] Let_def)
  moreover have "join_chunks 0 cs [] = Inr c" using join_chunks_concat [OF cs(3)] cs(2) by simp
  ultimately show ?thesis using lens by (intro exI [of _ cs] exI [of _ ?m] conjI) simp_all
qed

lemma file_delivery_run:
  assumes laws: "np_law P" "aead_law P" "hkdf_law P" "dh_law P" and "mirrored P a b"
    and "duplex_reach P (cl_Id ca) nb (fresh_duplex a b) s" "toB s = []"
    and "p_basemult P rnd \<noteq> DhPublic (pA s)" "SendNonce (pA s) < 2 ^ 31"
    and "map_of (Sessions ca) peer = Some adr" "heap ca adr = Some (pA s)"
    and "map_of (Sessions cb) (cl_Id ca) = Some adr'" "heap cb adr' = Some (pB s)"
    and f: "sha_law P" "pt \<noteq> []" "length pt \<le> MaxFilePlaintext" "n \<le> 65536"
    and small: "\<forall>w ca'. Client_Encrypt P rnd wr peer pt ca = (Inr w, ca') \<longrightarrow> length w < 2 ^ 32"
  shows "\<exists>out ca' cb'. EncryptFile P rnd wr peer name pt n ca = Some (Inr out, ca') \<and>
     ParseManifest P (Manifest_Bytes P (fo_manifest out)) = Inr (fo_manifest out) \<and>
     ReassembleAndDecrypt P wr' (cl_Id ca) (fo_chunks out) (fo_manifest out) cb = (Inr pt, cb')"
proof -
  obtain c ca' cb' where enc: "Client_Encrypt P rnd wr peer pt ca = (Inr c, ca')"
    and dec: "Client_Decrypt P wr' c cb = (Inr (cl_Id ca, pt), cb')"
    using client_frame_delivered [OF laws assms(5-13)] by blast
  obtain cs m where out: "EncryptFile P rnd wr peer name pt n ca = Some (Inr \<lparr>fo_cipher = c, fo_chunks = cs, fo_manifest = m\<rparr>, ca')"
      and m: "manifest_fits m" "join_chunks 0 cs [] = Inr c" "sint (mf_ChunkCount m) = int (length cs)"
        "sint (mf_CipherSize m) = int (length c)" "sint (mf_PlainSize m) = int (length pt)"
        "mf_FileHash m = p_sha256 P pt" "mf_CipherHash m = p_sha256 P c"
    using EncryptFile_out [OF laws(1) enc _ f(2-4,1), of name] small enc by blast
  have "ReassembleAndDecrypt P wr' (cl_Id ca) cs m cb = (Inr pt, cb')"
    using m dec by (simp add: ReassembleAndDecrypt_def decryptFor_def)
  then show ?thesis using out ParseManifest_Bytes [OF laws(1) m(1)]
    by (intro exI [of _ "\<lparr>fo_cipher = c, fo_chunks = cs, fo_manifest = m\<rparr>"] exI [of _ ca'] exI [of _ cb'] conjI) simp_all
qed

text \<open>
  Note.  A file of 1 byte to 8 MiB sent over a session in step arrives: encrypting it succeeds, its manifest
  survives the wire, and the recipient who reassembles the chunks in order gets the file back and accepts it as
  the sender's.
\<close>

theorem file_delivery:
  assumes laws: "np_law P" "aead_law P" "hkdf_law P" "dh_law P" and "mirrored P a b"
    and "duplex_reach P (cl_Id ca) nb (fresh_duplex a b) s" "toB s = []"
    and "p_basemult P rnd \<noteq> DhPublic (pA s)" "SendNonce (pA s) < 2 ^ 31"
    and "map_of (Sessions ca) peer = Some adr" "heap ca adr = Some (pA s)"
    and "map_of (Sessions cb) (cl_Id ca) = Some adr'" "heap cb adr' = Some (pB s)"
    and f: "sha_law P" "pt \<noteq> []" "length pt \<le> MaxFilePlaintext" "n \<le> 65536"
    and small: "\<forall>w ca'. Client_Encrypt P rnd wr peer pt ca = (Inr w, ca') \<longrightarrow> length w < 2 ^ 32"
  shows "\<exists>out ca' cb'. EncryptFile P rnd wr peer name pt n ca = Some (Inr out, ca') \<and>
     ParseManifest P (Manifest_Bytes P (fo_manifest out)) = Inr (fo_manifest out) \<and>
     ReassembleAndDecrypt P wr' (cl_Id ca) (fo_chunks out) (fo_manifest out) cb = (Inr pt, cb')"
  by (rule file_delivery_run [OF assms])

subsection \<open>What an accepted file is\<close>

text \<open>
  C23.  A file is accepted only if the chunks are as many as the manifest says and none is empty, their
  concatenation has the announced length and hash and decrypts under the session of the expected peer, and the
  plaintext has the announced length and hash; before the hash of the ciphertext has matched, the client is not
  touched.
\<close>

theorem file_accepted:
  assumes "ReassembleAndDecrypt P wr peer cs m cl = (r, cl')"
  shows "(\<forall>pt. r = Inr pt \<longrightarrow>
            int (length cs) = sint (mf_ChunkCount m) \<and> [] \<notin> set cs \<and>
            int (length (concat cs)) = sint (mf_CipherSize m) \<and> p_sha256 P (concat cs) = mf_CipherHash m \<and>
            int (length pt) = sint (mf_PlainSize m) \<and> p_sha256 P pt = mf_FileHash m \<and>
            (\<exists>sender. Client_Decrypt P wr (concat cs) cl = (Inr (sender, pt), cl') \<and> (peer = [] \<or> sender = peer))) \<and>
         (p_sha256 P (concat cs) \<noteq> mf_CipherHash m \<longrightarrow> cl' = cl)"
proof -
  have j: "join_chunks 0 cs [] = Inr (concat cs) \<and> [] \<notin> set cs \<or> (\<exists>e. join_chunks 0 cs [] = Inl e)"
    using join_chunks_concat [of cs 0 "[]"] join_chunks_Inl [of 0 cs "[]"] by force
  show ?thesis
  proof (cases "int (length cs) \<noteq> sint (mf_ChunkCount m) \<or> (\<exists>e. join_chunks 0 cs [] = Inl e)")
    case True
    then show ?thesis using assms by (auto simp: ReassembleAndDecrypt_def split: if_splits)
  next
    case False
    then show ?thesis using assms j
      by (auto simp: ReassembleAndDecrypt_def decryptFor_def split: if_splits prod.splits sum.splits)
  qed
qed

subsection \<open>Tickets\<close>

definition ticket_ok :: "prims \<Rightarrow> Ticket \<Rightarrow> bool" where
  "ticket_ok P t \<longleftrightarrow> length (tk_Transfer t) = 16 \<and> length (tk_Secret t) = 32 \<and> tk_Shard t \<noteq> [] \<and> tk_Manifest t \<noteq> [] \<and>
     (\<exists>m. ParseManifest P (tk_Manifest t) = Inr m)"

lemma Ticket_fields_fold:
  "fold_fields Ticket_field (Ticket_fields t) Ticket_zero = Inr t"
  "fold_fields Ticket_field (tl (Ticket_fields t)) Ticket_zero = Inr t"
  by (simp_all add: Ticket_fields_def Ticket_field_def Ticket_zero_def Ticket.equality)

lemma ParseTicket_fields:
  assumes "ticket_ok P t" "p_np_dec P raw = Some fs" "fold_fields Ticket_field fs Ticket_zero = Inr t"
    and "raw \<noteq> []" "hd raw = word_of_nat (length fs)" "length fs \<le> 11"
  shows "ParseTicket P raw = Inr t"
proof -
  have "unat (hd raw) \<le> 11" using assms(5,6) by (simp add: unat_of_nat)
  then have "hd raw \<noteq> byte_of_char CHR ''{''" by (auto simp: byte_of_char_def)
  then show ?thesis using assms by (auto simp: ParseTicket_def ticket_ok_def)
qed

text \<open>
  Note.  A ticket with a 16-byte transfer ID, a 32-byte secret, a shard and a valid manifest survives its
  wire form and the copy-and-paste form; every ticket that is accepted has these parts.
\<close>

theorem ticket_roundtrip:
  assumes "np_law P"
  shows "(ticket_ok P t \<longrightarrow> (\<exists>raw raw'. MarshalTicket P t = Inr raw \<and>
            DecodeTicketString (EncodeTicketString raw) = Inr raw' \<and> ParseTicket P raw' = Inr t)) \<and>
         (\<forall>raw t'. ParseTicket P raw = Inr t' \<longrightarrow> ticket_ok P t')"
proof (intro conjI impI allI)
  assume ok: "ticket_ok P t"
  have few: "length (Ticket_fields t) \<le> 11" by (simp add: Ticket_fields_def)
  obtain raw where raw: "p_np_enc P (Ticket_fields t) = Some raw" "p_np_dec P raw = Some (Ticket_fields t)" "raw \<noteq> []"
      "hd raw = word_of_nat (length (Ticket_fields t))"
    by (rule np_enc_dec [OF assms few])
  have "MarshalTicket P t = Inr raw" using ok raw(1) by (auto simp: MarshalTicket_def ticket_ok_def)
  then show "\<exists>raw raw'. MarshalTicket P t = Inr raw \<and>
      DecodeTicketString (EncodeTicketString raw) = Inr raw' \<and> ParseTicket P raw' = Inr t"
    using ParseTicket_fields [OF ok raw(2) Ticket_fields_fold(1) raw(3,4) few]
    by (simp add: DecodeTicketString_def EncodeTicketString_def)
next
  fix raw t' assume "ParseTicket P raw = Inr t'"
  then show "ticket_ok P t'"
    by (auto simp: ParseTicket_def ticket_ok_def split: if_splits option.splits sum.splits)
qed

text \<open>The version is checked when its field is there; a ticket without the field is accepted.\<close>

lemma ticket_version_optional:
  assumes "np_law P" "ticket_ok P t"
  shows "\<exists>raw. p_np_enc P (tl (Ticket_fields t)) = Some raw \<and> ParseTicket P raw = Inr t"
proof -
  have few: "length (tl (Ticket_fields t)) \<le> 11" by (simp add: Ticket_fields_def)
  obtain raw where raw: "p_np_enc P (tl (Ticket_fields t)) = Some raw" "p_np_dec P raw = Some (tl (Ticket_fields t))" "raw \<noteq> []"
      "hd raw = word_of_nat (length (tl (Ticket_fields t)))"
    by (rule np_enc_dec [OF assms(1) few])
  show ?thesis using raw(1) ParseTicket_fields [OF assms(2) raw(2) Ticket_fields_fold(2) raw(3,4) few] by blast
qed

subsection \<open>Concrete instances\<close>

lemma toy_cipher_small:
  "\<forall>w c'. Client_Encrypt toy [] NotWritten ''bob'' [42] toy_alice = (Inr w, c') \<longrightarrow> length w < 2 ^ 32"
proof -
  have "case fst (Encrypt toy [] ''alice'' [42] toy_peer) of Inr w \<Rightarrow> length w < 1000 | _ \<Rightarrow> False" by code_simp
  then show ?thesis by (auto simp: Client_Encrypt_def split: sum.splits prod.splits)
qed

lemma toy_sha: "sha_law toy"
  by (simp add: sha_law_def toy_def)

theorem file_delivery_witness:
  "\<exists>out ca' cb'. EncryptFile toy [] NotWritten ''bob'' ''a.txt'' [42] 16 toy_alice = Some (Inr out, ca') \<and>
     ParseManifest toy (Manifest_Bytes toy (fo_manifest out)) = Inr (fo_manifest out) \<and>
     ReassembleAndDecrypt toy Written ''alice'' (fo_chunks out) (fo_manifest out) toy_bob = (Inr [42], cb')"
  using file_delivery [OF toy_laws(4,3,2,1) toy_mirrored, of toy_alice "''bob''" "fresh_duplex toy_peer toy_peer'" "[]" "''bob''" 0 toy_bob 0 "[42]" 16
      NotWritten "''a.txt''" Written] toy_duplex toy_sha toy_cipher_small
  by (simp add: MaxFilePlaintext_def)

lemma toy_file_run:
  "\<exists>(out :: file_out) cb'. ReassembleAndDecrypt toy Written ''alice'' (fo_chunks out) (fo_manifest out) toy_bob = (Inr [42], cb')"
proof -
  have "\<exists>out ca' cb'. EncryptFile toy [] NotWritten ''bob'' ''a.txt'' [42] 16 toy_alice = Some (Inr out, ca') \<and>
      ParseManifest toy (Manifest_Bytes toy (fo_manifest out)) = Inr (fo_manifest out) \<and>
      ReassembleAndDecrypt toy Written ''alice'' (fo_chunks out) (fo_manifest out) toy_bob = (Inr [42], cb')"
    using file_delivery_run [OF toy_laws(4,3,2,1) toy_mirrored, of toy_alice "''bob''" "fresh_duplex toy_peer toy_peer'" "[]" "''bob''" 0 toy_bob 0 "[42]" 16
      NotWritten "''a.txt''" Written] toy_duplex toy_sha toy_cipher_small
    by (simp add: MaxFilePlaintext_def)
  then show ?thesis by blast
qed

theorem file_accepted_witness:
  "\<exists>cs m cb'. ReassembleAndDecrypt toy Written ''alice'' cs m toy_bob = (Inr [42], cb') \<and> [] \<notin> set cs \<and>
     p_sha256 toy (concat cs) = mf_CipherHash m \<and> Client_Decrypt toy Written (concat cs) toy_bob = (Inr (''alice'', [42]), cb')"
proof -
  obtain out :: file_out and cb' where run: "ReassembleAndDecrypt toy Written ''alice'' (fo_chunks out) (fo_manifest out) toy_bob = (Inr [42], cb')"
    using toy_file_run by blast
  then show ?thesis using file_accepted [OF run] by auto
qed

definition toy_manifest :: Manifest where
  "toy_manifest = \<lparr>mf_FileName = ''a'', mf_PlainSize = 1, mf_CipherSize = 40, mf_ChunkSize = 16, mf_ChunkCount = 3,
     mf_FileHash = replicate 32 7, mf_CipherHash = replicate 32 8\<rparr>"

definition toy_ticket :: Ticket where
  "toy_ticket = \<lparr>tk_Transfer = replicate 16 1, tk_Secret = replicate 32 2, tk_Shard = ''s'',
     tk_Manifest = Manifest_Bytes toy toy_manifest, tk_From = []\<rparr>"

lemma toy_ticket_ok: "ticket_ok toy toy_ticket"
proof -
  have "manifest_fits toy_manifest" by (simp add: manifest_fits_def bad_sizes_def toy_manifest_def)
  moreover have "Manifest_Bytes toy toy_manifest \<noteq> []" by (simp add: Manifest_Bytes_def toy_def toy_np_enc_def)
  ultimately show ?thesis using ParseManifest_Bytes [OF toy_laws(4)] by (simp add: ticket_ok_def toy_ticket_def)
qed

theorem ticket_roundtrip_witness:
  "\<exists>raw raw'. MarshalTicket toy toy_ticket = Inr raw \<and>
     DecodeTicketString (EncodeTicketString raw) = Inr raw' \<and> ParseTicket toy raw' = Inr toy_ticket"
  using ticket_roundtrip [OF toy_laws(4), of toy_ticket] toy_ticket_ok by blast

end
