(* ===== verification/Contacts.thy ===== *)
theory Contacts
  imports RecordFiles Toy
begin

text \<open>
  The contacts book (\<^verbatim>\<open>src/internal/contacts/store.go\<close>): aliases for peer IDs, with its record file.  The
  reader of the legacy JSON file is the argument \<open>J\<close>.
\<close>

subsection \<open>Records\<close>

record Contact =
  c_Name :: string
  c_UserID :: string
  c_Note :: string

definition Contact_MarshalBinID :: "Contact \<Rightarrow> npfield list" where
  "Contact_MarshalBinID c = [(1, to_bytes (c_Name c)), (2, to_bytes (c_UserID c)), (3, to_bytes (c_Note c))]"

definition Contact_field :: "npfield \<Rightarrow> Contact \<Rightarrow> np_error + Contact" where
  "Contact_field f c =
     (let (id, data) = f in
      if id = 1 then Inr (c\<lparr>c_Name := to_str data\<rparr>)
      else if id = 2 then Inr (c\<lparr>c_UserID := to_str data\<rparr>)
      else if id = 3 then Inr (c\<lparr>c_Note := to_str data\<rparr>)
      else Inr c)"

definition Contact_UnmarshalBinID :: "npfield list \<Rightarrow> np_error + Contact" where
  "Contact_UnmarshalBinID fs = fold_fields Contact_field fs \<lparr>c_Name = [], c_UserID = [], c_Note = []\<rparr>"

interpretation contact: bin_codec Contact_MarshalBinID Contact_UnmarshalBinID "\<lambda>_. True"
  by unfold_locales
    (auto simp: Contact_MarshalBinID_def Contact_UnmarshalBinID_def Contact_field_def intro!: Contact.equality)

subsection \<open>The book\<close>

type_synonym book = "(string \<times> Contact) list"

datatype contacts_error =
    ContactExists string | ContactNotFound string | ContactsRead store_error | ContactsLegacyParse
  | ContactsSerialize np_error | ContactsWrite store_error

definition contacts_file :: string where "contacts_file = ''contacts.np''"
definition contacts_legacy :: string where "contacts_legacy = ''contacts.json''"
definition contacts_schema :: byte where "contacts_schema = 40"

definition Contacts_Save ::
  "prims \<Rightarrow> packets \<Rightarrow> save_io \<Rightarrow> book \<Rightarrow> filesystem \<Rightarrow> contacts_error option \<times> filesystem" where
  "Contacts_Save P K io s fs =
     (case encode_all P Contact_MarshalBinID (map snd s) of
        Inl e \<Rightarrow> (Some (ContactsSerialize e), fs)
      | Inr records \<Rightarrow>
          (case Binstore_Save K io contacts_file contacts_schema records fs of
             (Some e, fs') \<Rightarrow> (Some (ContactsWrite e), fs')
           | (None, fs') \<Rightarrow> (None, fs')))"

definition Contacts_Load ::
  "prims \<Rightarrow> packets \<Rightarrow> (bytes \<Rightarrow> book option) \<Rightarrow> save_io \<Rightarrow> filesystem \<Rightarrow> (contacts_error + book) \<times> filesystem" where
  "Contacts_Load P K J io fs =
     (case Binstore_Load K contacts_file contacts_schema fs of
        Inr records \<Rightarrow>
          (Inr (fold (\<lambda>c s. AList.update (c_Name c) c s) (decode_all P Contact_UnmarshalBinID records) []), fs)
      | Inl e \<Rightarrow>
          if e \<noteq> StoreMissing then (Inl (ContactsRead e), fs)
          else (case fs contacts_legacy of
                  None \<Rightarrow> (Inr [], fs)
                | Some data \<Rightarrow>
                    (case J data of
                       None \<Rightarrow> (Inl ContactsLegacyParse, fs)
                     | Some s \<Rightarrow> (Inr s, snd (Contacts_Save P K io s fs)))))"

definition Contacts_Add :: "string \<Rightarrow> string \<Rightarrow> book \<Rightarrow> contacts_error option \<times> book" where
  "Contacts_Add name userID s =
     (case map_of s name of
        Some _ \<Rightarrow> (Some (ContactExists name), s)
      | None \<Rightarrow> (None, AList.update name \<lparr>c_Name = name, c_UserID = userID, c_Note = []\<rparr> s))"

definition Contacts_Remove :: "string \<Rightarrow> book \<Rightarrow> contacts_error option \<times> book" where
  "Contacts_Remove name s =
     (case map_of s name of
        None \<Rightarrow> (Some (ContactNotFound name), s)
      | Some _ \<Rightarrow> (None, AList.delete name s))"

definition Contacts_Rename :: "string \<Rightarrow> string \<Rightarrow> book \<Rightarrow> contacts_error option \<times> book" where
  "Contacts_Rename oldName newName s =
     (case map_of s oldName of
        None \<Rightarrow> (Some (ContactNotFound oldName), s)
      | Some contact \<Rightarrow>
          (case map_of s newName of
             Some _ \<Rightarrow> (Some (ContactExists newName), s)
           | None \<Rightarrow> (None, AList.update newName (contact\<lparr>c_Name := newName\<rparr>) (AList.delete oldName s))))"

definition Contacts_SetNote :: "string \<Rightarrow> string \<Rightarrow> book \<Rightarrow> contacts_error option \<times> book" where
  "Contacts_SetNote name note s =
     (case map_of s name of
        None \<Rightarrow> (Some (ContactNotFound name), s)
      | Some contact \<Rightarrow> (None, AList.update name (contact\<lparr>c_Note := note\<rparr>) s))"

definition Contacts_Get :: "string \<Rightarrow> book \<Rightarrow> contacts_error + Contact" where
  "Contacts_Get name s =
     (case map_of s name of None \<Rightarrow> Inl (ContactNotFound name) | Some contact \<Rightarrow> Inr contact)"

definition Contacts_Resolve :: "string \<Rightarrow> book \<Rightarrow> string" where
  "Contacts_Resolve nameOrID s = (case map_of s nameOrID of None \<Rightarrow> nameOrID | Some contact \<Rightarrow> c_UserID contact)"

subsection \<open>Contract\<close>

text \<open>What the commands rely on: a table from aliases to peer IDs with exclusive names.\<close>

locale alias_book =
  fixes alias_of :: "'b \<Rightarrow> string \<Rightarrow> string option"
    and valid :: "'b \<Rightarrow> bool"
    and add :: "string \<Rightarrow> string \<Rightarrow> 'b \<Rightarrow> 'e option \<times> 'b"
    and remove :: "string \<Rightarrow> 'b \<Rightarrow> 'e option \<times> 'b"
    and rename :: "string \<Rightarrow> string \<Rightarrow> 'b \<Rightarrow> 'e option \<times> 'b"
  assumes add_new: "valid s \<Longrightarrow> alias_of s n = None \<Longrightarrow>
      fst (add n u s) = None \<and> valid (snd (add n u s)) \<and> alias_of (snd (add n u s)) = (alias_of s)(n \<mapsto> u)"
    and add_taken: "alias_of s n \<noteq> None \<Longrightarrow> fst (add n u s) \<noteq> None \<and> snd (add n u s) = s"
    and remove_known: "valid s \<Longrightarrow> alias_of s n \<noteq> None \<Longrightarrow>
      fst (remove n s) = None \<and> valid (snd (remove n s)) \<and> alias_of (snd (remove n s)) = (alias_of s)(n := None)"
    and rename_free: "valid s \<Longrightarrow> alias_of s n = Some u \<Longrightarrow> alias_of s m = None \<Longrightarrow>
      fst (rename n m s) = None \<and> valid (snd (rename n m s)) \<and>
      alias_of (snd (rename n m s)) = (alias_of s)(n := None, m \<mapsto> u)"
    and rename_taken: "alias_of s m \<noteq> None \<Longrightarrow> fst (rename n m s) \<noteq> None \<and> snd (rename n m s) = s"
begin

lemma add_remove: "valid s \<Longrightarrow> alias_of s n = None \<Longrightarrow> alias_of (snd (remove n (snd (add n u s)))) = alias_of s"
  using add_new [of s n u] remove_known [of "snd (add n u s)" n] by (auto simp: fun_eq_iff)

lemma rename_back:
  assumes "valid s" "alias_of s n = Some u" "alias_of s m = None"
  shows "fst (rename m n (snd (rename n m s))) = None \<and> alias_of (snd (rename m n (snd (rename n m s)))) = alias_of s"
proof -
  have "n \<noteq> m" using assms by auto
  then show ?thesis
    using rename_free [OF assms] rename_free [of "snd (rename n m s)" m u n] assms by (auto simp: fun_eq_iff)
qed

end

definition alias_lookup :: "book \<Rightarrow> string \<Rightarrow> string option" where
  "alias_lookup s n = map_option c_UserID (map_of s n)"

text \<open>Keys are distinct and every contact is filed under its own name.\<close>

definition book_ok :: "book \<Rightarrow> bool" where
  "book_ok s \<longleftrightarrow> table_ok s \<and> (\<forall>k c. map_of s k = Some c \<longrightarrow> c_Name c = k)"

interpretation book: alias_book alias_lookup book_ok Contacts_Add Contacts_Remove Contacts_Rename
  by unfold_locales
    (auto simp: alias_lookup_def book_ok_def Contacts_Add_def Contacts_Remove_def Contacts_Rename_def fun_eq_iff
      split: option.splits)

lemma SetNote_ok: "book_ok s \<Longrightarrow> book_ok (snd (Contacts_SetNote n note s))"
  by (auto simp: book_ok_def Contacts_SetNote_def split: option.splits)

subsection \<open>Saving and loading\<close>

lemma book_self_keyed:
  assumes "book_ok s"
  shows "map (\<lambda>c. (c_Name c, c)) (map snd s) = s" "map c_Name (map snd s) = map fst s"
proof -
  have "c_Name (snd p) = fst p" if "p \<in> set s" for p
    using assms that table_in_iff [of s "fst p" "snd p"] by (auto simp: book_ok_def)
  then show "map (\<lambda>c. (c_Name c, c)) (map snd s) = s" "map c_Name (map snd s) = map fst s"
    by (auto simp: comp_def intro: map_idI)
qed

text \<open>
  Note.  Aliases are exclusive and exact (a rename to a free name moves the entry and can be undone, adding
  and removing a name leaves the book as it was), and a saved book loads to the same entries.
\<close>

theorem contacts_roundtrip:
  assumes "np_law P" "packet_law K" "book_ok s" and "encode_all P Contact_MarshalBinID (map snd s) = Inr recs" "storable recs"
  shows "(\<exists>s' fs'. Contacts_Save P K SaveDone s fs = (None, fs') \<and> Contacts_Load P K J io fs' = (Inr s', fs') \<and>
            map_of s' = map_of s) \<and>
    (alias_lookup s n = None \<longrightarrow> alias_lookup (snd (Contacts_Remove n (snd (Contacts_Add n u s)))) = alias_lookup s) \<and>
    (alias_lookup s n = Some u \<and> alias_lookup s m = None \<longrightarrow>
       alias_lookup (snd (Contacts_Rename m n (snd (Contacts_Rename n m s)))) = alias_lookup s)"
proof -
  obtain fs' where fs': "Binstore_Save K SaveDone contacts_file contacts_schema recs fs = (None, fs')"
    by (simp add: Binstore_Save_def Let_def)
  have load: "Binstore_Load K contacts_file contacts_schema fs' = Inr recs"
    using fs' assms(2) read_body_put [OF assms(5)]
    by (auto simp: Binstore_Save_def Binstore_Load_def packet_law_def Let_def)
  have dec: "decode_all P Contact_UnmarshalBinID recs = map snd s"
    by (rule contact.decode_encode_all [OF assms(1) _ assms(4)]) simp
  let ?s' = "fold (\<lambda>c s. AList.update (c_Name c) c s) (map snd s) []"
  have "distinct (map c_Name (map snd s))"
    unfolding book_self_keyed(2) [OF assms(3)] using assms(3) by (simp add: book_ok_def table_ok_def)
  then have "map_of ?s' k = map_of s k" for k
    using fold_update_table [of c_Name "map snd s" "[]" k] book_self_keyed(1) [OF assms(3)]
    by (simp split: option.splits)
  then have "Contacts_Save P K SaveDone s fs = (None, fs') \<and> Contacts_Load P K J io fs' = (Inr ?s', fs') \<and> map_of ?s' = map_of s"
    using assms(4) fs' load dec by (auto simp: Contacts_Save_def Contacts_Load_def fun_eq_iff)
  then show ?thesis using book.add_remove [OF assms(3)] book.rename_back [OF assms(3)] by blast
qed

definition toy_book :: book where
  "toy_book = [(''ann'', \<lparr>c_Name = ''ann'', c_UserID = ''id1'', c_Note = ''x''\<rparr>)]"

theorem contacts_roundtrip_witness:
  "(\<exists>s' fs'. Contacts_Save toy toy_packets SaveDone toy_book Map.empty = (None, fs') \<and>
      Contacts_Load toy toy_packets (\<lambda>_. None) SaveDone fs' = (Inr s', fs') \<and> map_of s' = map_of toy_book) \<and>
   alias_lookup (snd (Contacts_Rename ''bob'' ''ann'' (snd (Contacts_Rename ''ann'' ''bob'' toy_book)))) = alias_lookup toy_book"
proof -
  have ok: "book_ok toy_book" by (simp add: book_ok_def table_ok_def toy_book_def)
  have enc: "encode_all toy Contact_MarshalBinID (map snd toy_book) =
      Inr [the (toy_np_enc (Contact_MarshalBinID (snd (hd toy_book))))]"
    by (simp add: toy_book_def MarshalFastID_def toy_def toy_np_enc_def)
  have st: "storable [the (toy_np_enc (Contact_MarshalBinID (snd (hd toy_book))))]"
    by (simp add: storable_def slice_header_def max_alloc_def put_records_def toy_book_def toy_np_enc_def
      toy_enc1_def Contact_MarshalBinID_def put_uvarint.simps to_bytes_def)
  show ?thesis
    using contacts_roundtrip [OF toy_laws(4) toy_packet_law ok enc st, of Map.empty "\<lambda>_. None" SaveDone "''ann''" "''id1''" "''bob''"]
    by (simp add: alias_lookup_def toy_book_def)
qed

end
