(* ===== verification/Peers.thy ===== *)
theory Peers
  imports Dispatch Contacts
begin

text \<open>
  Who is known and what a name means (\<^verbatim>\<open>src/internal/registry/peers.go\<close>, \<^verbatim>\<open>state.go\<close>, \<^verbatim>\<open>completion.go\<close> and
  \<^verbatim>\<open>registry.go\<close>): the shared state of the interactive shells, the set of known peers, the resolution of a typed
  name into a peer ID, the tables of commands and of transports.

  Sets that the code keeps as \<^verbatim>\<open>map[string]bool\<close> are sets; a list made from one is sorted.  The contacts book is
  read from disk on every call; the argument is what the read returns, \<open>None\<close> for an error.
\<close>

subsection \<open>State\<close>

datatype fan_stores =
    FileFan "(FileContextStore, FileDeliveryStore) Fanout"
  | MemoryFan "(MemoryContextStore, MemoryDeliveryStore) Fanout"

record State =
  ActiveClient :: "Client option"
  st_relay :: bool                        \<comment> \<open>a relay is bound\<close>
  MailboxStore :: "threads option"
  KnownPeers :: "string set"
  st_Fanout :: "fan_stores option"

definition NewState :: State where
  "NewState = \<lparr>ActiveClient = None, st_relay = False, MailboxStore = None, KnownPeers = {}, st_Fanout = None\<rparr>"

definition InitMailbox ::
  "prims \<Rightarrow> packets \<Rightarrow> (bytes \<Rightarrow> Thread option list option) \<Rightarrow> save_io \<Rightarrow> State \<Rightarrow> filesystem \<Rightarrow> State \<times> filesystem" where
  "InitMailbox P K J io s fs =
     (case ActiveClient s of
        None \<Rightarrow> (s\<lparr>MailboxStore := None\<rparr>, fs)
      | Some cl \<Rightarrow>
          (case Mailbox_Load P K J io (cl_Id cl) fs of
             (Inl _, fs') \<Rightarrow> (s\<lparr>MailboxStore := None\<rparr>, fs')
           | (Inr st, fs') \<Rightarrow> (s\<lparr>MailboxStore := Some st\<rparr>, fs')))"

definition InitFanout ::
  "prims \<Rightarrow> packets \<Rightarrow> bool \<Rightarrow> (bytes \<Rightarrow> MessageContext list option) \<Rightarrow> (bytes \<Rightarrow> LocalRecipientPolicy list option) \<Rightarrow>
   (bytes \<Rightarrow> MessageDelivery list option) \<Rightarrow> two_writes \<Rightarrow> save_io \<Rightarrow> State \<Rightarrow> filesystem \<Rightarrow> State" where
  "InitFanout P K nd JC JP JD io2 iod s fs =
     (case ActiveClient s of
        None \<Rightarrow> s
      | Some cl \<Rightarrow>
          (case OpenIdentityStores P K nd JC JP JD io2 iod (cl_Id cl) fs of
             Inl _ \<Rightarrow> s\<lparr>st_Fanout := Some (MemoryFan
                 (NewFanout cl (st_relay s) NewMemoryContextStore NewMemoryDeliveryStore DefaultFanoutConfig []))\<rparr>
           | Inr (ctxStore, dlvStore) \<Rightarrow>
               s\<lparr>st_Fanout := Some (FileFan (NewFanout cl (st_relay s) ctxStore dlvStore DefaultFanoutConfig []))\<rparr>))"

subsection \<open>Known peers\<close>

definition pendingPrefix :: string where "pendingPrefix = ''pending''"

definition isPending :: "string \<Rightarrow> bool" where
  "isPending key \<longleftrightarrow> key = pendingPrefix \<or> HasPrefix key (pendingPrefix @ ''_'')"

definition State_RememberPeer :: "string \<Rightarrow> State \<Rightarrow> State" where
  "State_RememberPeer peerID s =
     (let p = TrimSpace peerID
      in if p = [] \<or> isPending p then s else s\<lparr>KnownPeers := insert p (KnownPeers s)\<rparr>)"

definition SyncPeersFromClient :: "State \<Rightarrow> State" where
  "SyncPeersFromClient s =
     (case ActiveClient s of None \<Rightarrow> s | Some cl \<Rightarrow> fold State_RememberPeer (map fst (Sessions cl)) s)"

definition session_names :: "State \<Rightarrow> string set" where
  "session_names s = (case ActiveClient s of None \<Rightarrow> {} | Some cl \<Rightarrow> set (map fst (Sessions cl)))"

text \<open>What one conversation contributes: its key unless it is a group's, and the senders of its messages.\<close>

definition thread_peers :: "Thread \<Rightarrow> string set" where
  "thread_peers t =
     (if IsGroupKey (t_Key t) then {} else {t_Key t}) \<union>
     set (filter (\<lambda>x. x \<noteq> [] \<and> x \<noteq> ''Me'') (map m_Sender (t_Messages t)))"

definition mailbox_peers :: "State \<Rightarrow> string set" where
  "mailbox_peers s = (case MailboxStore s of None \<Rightarrow> {} | Some st \<Rightarrow> \<Union> (set (map thread_peers (Mailbox_List st))))"

definition peerIDs :: "State \<Rightarrow> string set" where
  "peerIDs s = Set.filter (\<lambda>x. \<not> isPending x) (KnownPeers s \<union> mailbox_peers s \<union> session_names s)"

definition sortedKeys :: "string set \<Rightarrow> string list" where
  "sortedKeys S = sorted_list_of_set S"

definition book_words :: "book option \<Rightarrow> string set" where
  "book_words bk = (case bk of None \<Rightarrow> {}
     | Some s \<Rightarrow> set (filter (\<lambda>x. x \<noteq> []) (map fst s)) \<union> set (filter (\<lambda>x. x \<noteq> []) (map (c_UserID \<circ> snd) s)))"

definition PeerCandidates :: "book option \<Rightarrow> State \<Rightarrow> string list" where
  "PeerCandidates bk s =
     (let all = peerIDs s \<union> book_words bk
      in sortedKeys (case ActiveClient s of None \<Rightarrow> all | Some cl \<Rightarrow> all - {cl_Id cl}))"

text \<open>The names in the working directory with a flag for directories; \<^verbatim>\<open>filepath.Ext\<close> is \<^verbatim>\<open>.json\<close> when the name ends so.\<close>

definition HasSuffix :: "string \<Rightarrow> string \<Rightarrow> bool" where
  "HasSuffix s x \<longleftrightarrow> length x \<le> length s \<and> drop (length s - length x) s = x"

definition IdentityCandidates :: "(string \<times> bool) list option \<Rightarrow> string list" where
  "IdentityCandidates entries =
     (case entries of
        None \<Rightarrow> []
      | Some es \<Rightarrow>
          sortedKeys (set (filter (\<lambda>i. i \<noteq> [] \<and> i \<noteq> ''contacts'')
            (map (\<lambda>(n, d). take (length n - 5) n) (filter (\<lambda>(n, d). \<not> d \<and> HasSuffix n ''.json'') es)))))"

datatype peer_error = ErrEmptyPeer | AmbiguousPeer string "string list"

text \<open>The part after the contacts book: an exact ID, then a unique prefix, then the literal input.\<close>

definition resolve_known :: "string \<Rightarrow> State \<Rightarrow> peer_error + string" where
  "resolve_known input s =
     (let known = peerIDs s; matches = filter (\<lambda>i. HasPrefix i input) (sortedKeys known)
      in if input \<in> known then Inr input
         else case matches of
           [] \<Rightarrow> Inr input
         | [m] \<Rightarrow> Inr m
         | _ \<Rightarrow> Inl (AmbiguousPeer input matches))"

definition ResolvePeer :: "book option \<Rightarrow> string \<Rightarrow> State \<Rightarrow> peer_error + string" where
  "ResolvePeer bk typed s =
     (let input = TrimSpace typed in
      if input = [] then Inl ErrEmptyPeer
      else case (case bk of None \<Rightarrow> None | Some b \<Rightarrow> map_of b input) of
        Some c \<Rightarrow> if c_UserID c \<noteq> [] then Inr (c_UserID c) else resolve_known input s
      | None \<Rightarrow> resolve_known input s)"

definition ShortID :: "string \<Rightarrow> string" where
  "ShortID p = (if length p < 12 then p else take 6 p @ ''...'' @ drop (length p - 4) p)"

definition shortIDs :: "string list \<Rightarrow> string list" where
  "shortIDs ids = map ShortID ids"

definition ThreadCandidates :: "book option \<Rightarrow> State \<Rightarrow> string list" where
  "ThreadCandidates bk s =
     sortedKeys (set (PeerCandidates bk s) \<union>
       (case MailboxStore s of None \<Rightarrow> {}
        | Some st \<Rightarrow> \<Union> (set (map (\<lambda>t. {t_Key t} \<union> (if t_Title t \<noteq> [] then {t_Title t} else {}))
             (filter (\<lambda>t. IsGroupKey (t_Key t)) (Mailbox_List st))))))"

definition listed_contexts :: "fan_stores \<Rightarrow> MessageContext list" where
  "listed_contexts fs =
     (case fs of FileFan f \<Rightarrow> File_ListContexts (CtxStore f) | MemoryFan f \<Rightarrow> Mem_ListContexts (CtxStore f))"

definition ContextCandidates :: "State \<Rightarrow> string list" where
  "ContextCandidates s =
     (case st_Fanout s of
        None \<Rightarrow> []
      | Some f \<Rightarrow> sortedKeys (set (map mc_ContextID (listed_contexts f)) \<union>
          set (filter (\<lambda>n. n \<noteq> []) (map mc_DisplayName (listed_contexts f)))))"

subsection \<open>Command tables\<close>

datatype ArgKind = ArgText | ArgPeer | ArgIdentity | ArgContext | ArgThread

record CommandSpec =
  sp_Name :: string
  sp_Aliases :: "string list"
  sp_Args :: "ArgKind list"
  sp_Variadic :: ArgKind
  sp_Usage :: string
  sp_Help :: string

definition spec :: "string \<Rightarrow> CommandSpec" where
  "spec n = \<lparr>sp_Name = n, sp_Aliases = [], sp_Args = [], sp_Variadic = ArgText, sp_Usage = [], sp_Help = []\<rparr>"

definition ArgKindAt :: "CommandSpec \<Rightarrow> nat \<Rightarrow> ArgKind" where
  "ArgKindAt c i = (if i < length (sp_Args c) then sp_Args c ! i else sp_Variadic c)"

definition CommandSpec_Names :: "CommandSpec \<Rightarrow> string list" where
  "CommandSpec_Names c = [sp_Name c] @ sp_Aliases c"

definition CommandSpec_usage :: "CommandSpec \<Rightarrow> string" where
  "CommandSpec_usage c = (if sp_Usage c \<noteq> [] then sp_Usage c else sp_Name c)"

definition BaseCommands :: "CommandSpec list" where
  "BaseCommands =
     [(spec ''help'')\<lparr>sp_Help := ''Show this command list''\<rparr>,
      (spec ''switch'')\<lparr>sp_Aliases := [''exit''], sp_Usage := ''switch / exit'', sp_Help := ''Return to the main menu''\<rparr>]"

definition IdentityCommand :: "string \<Rightarrow> CommandSpec" where
  "IdentityCommand help = (spec ''load'')\<lparr>sp_Args := [ArgIdentity], sp_Usage := ''load <id>'', sp_Help := help\<rparr>"

definition PeersCommand :: CommandSpec where
  "PeersCommand = (spec ''peers'')\<lparr>sp_Help := ''List every peer ID this shell can complete''\<rparr>"

definition MessageCommand :: "string \<Rightarrow> string list \<Rightarrow> CommandSpec" where
  "MessageCommand name aliases =
     (spec name)\<lparr>sp_Aliases := aliases, sp_Args := [ArgPeer], sp_Variadic := ArgText, sp_Usage := name @ '' <peer> <msg>''\<rparr>"

definition CommandsOf :: "CommandSpec list option \<Rightarrow> CommandSpec list" where
  "CommandsOf provider = (case provider of Some cs \<Rightarrow> cs | None \<Rightarrow> BaseCommands)"

fun FindCommand :: "CommandSpec list \<Rightarrow> string \<Rightarrow> CommandSpec option" where
  "FindCommand [] name = None"
| "FindCommand (s # specs) name = (if name \<in> set (CommandSpec_Names s) then Some s else FindCommand specs name)"

definition CommandNames :: "CommandSpec list \<Rightarrow> string list" where
  "CommandNames specs = sortedKeys (set (filter (\<lambda>n. n \<noteq> []) (concat (map CommandSpec_Names specs))))"

subsection \<open>Transports\<close>

text \<open>
  An entry: the name of its interactive face if it has one, whether it has a command-line face, its menu position.
  \<^verbatim>\<open>sort.Slice\<close> sorts by insertion up to twelve elements, which keeps the order of equal positions.
\<close>

record Entry =
  en_GUI :: "string option"
  en_CLI :: bool
  en_MenuOrder :: int

datatype registry_error = DuplicateName string

definition Registry_Register :: "Entry \<Rightarrow> Entry list \<Rightarrow> registry_error + Entry list" where
  "Registry_Register e entries =
     (case en_GUI e of
        Some n \<Rightarrow> if Some n \<in> set (map en_GUI entries) then Inl (DuplicateName n) else Inr (sort_key en_MenuOrder (entries @ [e]))
      | None \<Rightarrow> Inr (sort_key en_MenuOrder (entries @ [e])))"

definition GUITransports :: "Entry list \<Rightarrow> Entry list" where
  "GUITransports entries = filter (\<lambda>e. en_GUI e \<noteq> None) entries"

definition CLITransports :: "Entry list \<Rightarrow> Entry list" where
  "CLITransports entries = filter en_CLI entries"

subsection \<open>Resolution never guesses\<close>

lemma finite_peerIDs: "finite (KnownPeers s) \<Longrightarrow> finite (peerIDs s)"
proof -
  have "finite (mailbox_peers s)"
    by (cases "MailboxStore s") (auto simp: mailbox_peers_def thread_peers_def)
  moreover have "finite (session_names s)" by (cases "ActiveClient s") (auto simp: session_names_def)
  ultimately show "finite (KnownPeers s) \<Longrightarrow> finite (peerIDs s)" by (simp add: peerIDs_def)
qed

lemma set_sortedKeys [simp]: "finite S \<Longrightarrow> set (sortedKeys S) = S"
  by (simp add: sortedKeys_def)

lemma sortedKeys_sorted: "sorted (sortedKeys S)" "distinct (sortedKeys S)"
  by (simp_all add: sortedKeys_def)

text \<open>The peer ID an alias stands for, if the book has it.\<close>

definition alias_target :: "book option \<Rightarrow> string \<Rightarrow> string option" where
  "alias_target bk n = (case bk of None \<Rightarrow> None | Some b \<Rightarrow>
     (case map_of b n of None \<Rightarrow> None | Some c \<Rightarrow> if c_UserID c \<noteq> [] then Some (c_UserID c) else None))"

lemma ResolvePeer_alias:
  "TrimSpace typed \<noteq> [] \<Longrightarrow> ResolvePeer bk typed s =
     (case alias_target bk (TrimSpace typed) of Some u \<Rightarrow> Inr u | None \<Rightarrow> resolve_known (TrimSpace typed) s)"
  by (auto simp: ResolvePeer_def alias_target_def Let_def split: option.splits)

definition prefix_matches :: "string \<Rightarrow> State \<Rightarrow> string set" where
  "prefix_matches input s = {p \<in> peerIDs s. HasPrefix p input}"

lemma resolve_known_cases:
  assumes "finite (KnownPeers s)"
  shows "case resolve_known input s of
     Inr p \<Rightarrow> p = input \<and> (input \<in> peerIDs s \<or> prefix_matches input s = {}) \<or> input \<notin> peerIDs s \<and> prefix_matches input s = {p}
   | Inl e \<Rightarrow> (\<exists>ms. e = AmbiguousPeer input ms \<and> input \<notin> peerIDs s \<and> set ms = prefix_matches input s \<and>
        sorted ms \<and> distinct ms \<and> 2 \<le> length ms)"
proof -
  let ?ms = "filter (\<lambda>i. HasPrefix i input) (sortedKeys (peerIDs s))"
  have ms: "set ?ms = prefix_matches input s" "sorted ?ms" "distinct ?ms"
    using finite_peerIDs [OF assms] sortedKeys_sorted [of "peerIDs s"]
    by (auto simp: prefix_matches_def sorted_wrt_filter)
  consider "?ms = []" | m where "?ms = [m]" | x y zs where "?ms = x # y # zs" by (metis list.exhaust)
  then show ?thesis
  proof cases
    case 3
    then have "resolve_known input s = (if input \<in> peerIDs s then Inr input else Inl (AmbiguousPeer input ?ms))"
      by (simp add: resolve_known_def Let_def)
    moreover have "2 \<le> length ?ms" using 3 by simp
    ultimately show ?thesis using ms by simp
  qed (use ms(1) in \<open>auto simp: resolve_known_def Let_def\<close>)
qed

text \<open>
  C25.  What a typed name resolves to: nothing for a blank one; the peer ID of a contact if the name
  is exactly an alias; otherwise the name itself if it is a known peer ID or no known peer ID starts with it;
  otherwise the one known peer ID that starts with it; and if several do, an error that lists exactly those, in
  order, and never one of them.
\<close>

theorem resolve_never_guesses:
  assumes "finite (KnownPeers s)"
  shows "let input = TrimSpace typed in
     (case ResolvePeer bk typed s of
        Inr p \<Rightarrow> input \<noteq> [] \<and>
          (alias_target bk input = Some p \<or>
           alias_target bk input = None \<and>
             (p = input \<and> (input \<in> peerIDs s \<or> prefix_matches input s = {}) \<or>
              input \<notin> peerIDs s \<and> prefix_matches input s = {p}))
      | Inl ErrEmptyPeer \<Rightarrow> input = []
      | Inl (AmbiguousPeer i ms) \<Rightarrow> i = input \<and> alias_target bk input = None \<and> input \<notin> peerIDs s \<and>
          set ms = prefix_matches input s \<and> sorted ms \<and> distinct ms \<and> 2 \<le> length ms)"
proof (cases "TrimSpace typed = []")
  case True
  then show ?thesis by (simp add: ResolvePeer_def)
next
  case False
  show ?thesis
  proof (cases "alias_target bk (TrimSpace typed)")
    case None
    then show ?thesis using resolve_known_cases [OF assms, of "TrimSpace typed"] False
      by (auto simp: ResolvePeer_alias Let_def split: sum.splits)
  next
    case (Some u)
    then show ?thesis using False by (simp add: ResolvePeer_alias Let_def)
  qed
qed

subsection \<open>Where known peers come from\<close>

lemma RememberPeer_finite: "finite (KnownPeers s) \<Longrightarrow> finite (KnownPeers (State_RememberPeer p s))"
  by (simp add: State_RememberPeer_def Let_def)

lemma SyncPeers_known: "finite (KnownPeers s) \<Longrightarrow> finite (KnownPeers (SyncPeersFromClient s))"
proof -
  have "finite (KnownPeers s) \<Longrightarrow> finite (KnownPeers (fold State_RememberPeer xs s))" for xs
    by (induction xs arbitrary: s) (simp_all add: RememberPeer_finite)
  then show "finite (KnownPeers s) \<Longrightarrow> finite (KnownPeers (SyncPeersFromClient s))"
    by (cases "ActiveClient s") (simp_all add: SyncPeersFromClient_def)
qed

lemma pending_never_known: "p \<in> peerIDs s \<Longrightarrow> p \<noteq> ''pending'' \<and> (\<nexists>x. p = ''pending_'' @ x)"
  by (auto simp: peerIDs_def isPending_def pendingPrefix_def HasPrefix_iff)

lemma FindCommand_names: "n \<noteq> [] \<Longrightarrow> FindCommand specs n \<noteq> None \<longleftrightarrow> n \<in> set (CommandNames specs)"
proof -
  assume "n \<noteq> []"
  then have "n \<in> set (CommandNames specs) \<longleftrightarrow> (\<exists>c\<in>set specs. n \<in> set (CommandSpec_Names c))"
    by (auto simp: CommandNames_def)
  moreover have "FindCommand specs n \<noteq> None \<longleftrightarrow> (\<exists>c\<in>set specs. n \<in> set (CommandSpec_Names c))"
    by (induction specs) auto
  ultimately show ?thesis by blast
qed

text \<open>The table of transports stays sorted by position and its interactive names stay distinct.\<close>

definition registry_ok :: "Entry list \<Rightarrow> bool" where
  "registry_ok es \<longleftrightarrow> sorted (map en_MenuOrder es) \<and> distinct (map en_GUI (GUITransports es))"

lemma Register_ok:
  assumes "registry_ok es" "Registry_Register e es = Inr es'"
  shows "registry_ok es' \<and> set es' = insert e (set es)"
proof -
  have es': "es' = sort_key en_MenuOrder (es @ [e])" using assms(2)
    by (auto simp: Registry_Register_def split: option.splits if_splits)
  have new: "en_GUI e \<noteq> None \<Longrightarrow> en_GUI e \<notin> set (map en_GUI es)" using assms(2)
    by (auto simp: Registry_Register_def split: option.splits if_splits)
  have "mset (GUITransports es') = mset (GUITransports (es @ [e]))"
    unfolding es' GUITransports_def by (simp only: mset_filter mset_sort)
  then have "mset (map en_GUI (GUITransports es')) = mset (map en_GUI (GUITransports (es @ [e])))" by (simp only: mset_map)
  moreover have "distinct (map en_GUI (GUITransports (es @ [e])))"
    using assms(1) new by (auto simp: registry_ok_def GUITransports_def)
  ultimately have "distinct (map en_GUI (GUITransports es'))" by (metis mset_eq_imp_distinct_iff)
  then show ?thesis by (auto simp: registry_ok_def es')
qed

subsection \<open>Concrete instances\<close>

definition toy_state :: State where
  "toy_state = NewState\<lparr>KnownPeers := {''abcX'', ''abcY''}\<rparr>"

theorem resolve_never_guesses_witness:
  "finite (KnownPeers toy_state) \<and> ResolvePeer None ''abc'' toy_state = Inl (AmbiguousPeer ''abc'' [''abcX'', ''abcY'']) \<and>
   ''abc'' \<notin> peerIDs toy_state"
proof -
  have f: "finite (KnownPeers toy_state)" by (simp add: toy_state_def)
  have known: "peerIDs toy_state = {''abcX'', ''abcY''}"
    by (auto simp: peerIDs_def toy_state_def NewState_def mailbox_peers_def session_names_def isPending_def pendingPrefix_def HasPrefix_def)
  have t: "''abcX'' < ''abcY''" "TrimSpace ''abc'' = ''abc''" by code_simp+
  then have r: "ResolvePeer None ''abc'' toy_state = Inl (AmbiguousPeer ''abc'' [''abcX'', ''abcY''])"
    by (simp add: ResolvePeer_def resolve_known_def known sortedKeys_def HasPrefix_def)
  show ?thesis using resolve_never_guesses [OF f, of "''abc''" None] f r t(2) by (simp add: Let_def)
qed

end
