(* ===== verification/Shellcmd.thy ===== *)
theory Shellcmd
  imports Texts Peers
begin

text \<open>
  The command framework of the interactive shell (\<^verbatim>\<open>src/internal/shellcmd\<close>) and the loop that drives it
  (\<^verbatim>\<open>execute\<close> and \<^verbatim>\<open>RunScript\<close> of \<^verbatim>\<open>src/cmd/shell/unified.go\<close>): splitting a line into words, named parameters,
  the tree of commands, suggestions by edit distance, and scripts.

  A table of child commands is an association list in the order in which the code happens to iterate over its
  map.  What a command does is its \<^verbatim>\<open>Run\<close> function, a field of its record, acting on the session and on a world of
  type \<open>'w\<close>.  Error texts are params of a datatype.
\<close>

subsection \<open>Words\<close>

text \<open>\<^verbatim>\<open>WriteRune\<close>: the UTF-8 bytes of a code point.\<close>

definition encode_rune :: "nat \<Rightarrow> bytes" where
  "encode_rune r =
     (if r < 0x80 then [word_of_nat r]
      else if r < 0x800 then [word_of_nat (0xC0 + r div 64), word_of_nat (0x80 + r mod 64)]
      else if r < 0x10000 then
        [word_of_nat (0xE0 + r div 4096), word_of_nat (0x80 + r div 64 mod 64), word_of_nat (0x80 + r mod 64)]
      else [word_of_nat (0xF0 + r div 262144), word_of_nat (0x80 + r div 4096 mod 64),
            word_of_nat (0x80 + r div 64 mod 64), word_of_nat (0x80 + r mod 64)])"

definition rune_string :: "nat list \<Rightarrow> string" where
  "rune_string rs = to_str (concat (map encode_rune rs))"

datatype shell_error =
    Unterminated nat
  | NeedsValue string | WantsBool string string | UnknownParameter string | MissingRequired "string list"
  | EmptyPath | DuplicateCommand "string list"
  | DidYouMean "string list" "string list" | Incomplete "string list" "string list" | UnknownCommand string
  | CommandUsage string | TooManyArguments string | InCommand "string list" string | ParseLine shell_error
  | SwitchInteractive

record lexer =
  lx_out :: "nat list list"
  lx_buf :: "nat list"
  lx_quote :: nat      \<comment> \<open>0 outside quotes\<close>
  lx_have :: bool

definition lex_flush :: "lexer \<Rightarrow> lexer" where
  "lex_flush s = (if lx_have s then s\<lparr>lx_out := lx_out s @ [lx_buf s], lx_buf := [], lx_have := False\<rparr> else s)"

definition lex_rune :: "nat \<Rightarrow> lexer \<Rightarrow> lexer" where
  "lex_rune r s =
     (if lx_quote s \<noteq> 0 then
        (if r = lx_quote s then s\<lparr>lx_quote := 0\<rparr> else s\<lparr>lx_buf := lx_buf s @ [r]\<rparr>)\<lparr>lx_have := True\<rparr>
      else if r = 39 \<or> r = 34 then s\<lparr>lx_quote := r, lx_have := True\<rparr>
      else if r = 32 \<or> r = 9 \<or> r = 13 \<or> r = 10 then lex_flush s
      else s\<lparr>lx_buf := lx_buf s @ [r], lx_have := True\<rparr>)"

definition split_runes :: "nat list \<Rightarrow> shell_error + nat list list" where
  "split_runes rs =
     (let s = fold lex_rune rs \<lparr>lx_out = [], lx_buf = [], lx_quote = 0, lx_have = False\<rparr>
      in if lx_quote s \<noteq> 0 then Inl (Unterminated (lx_quote s)) else Inr (lx_out (lex_flush s)))"

definition SplitLine :: "string \<Rightarrow> shell_error + string list" where
  "SplitLine line = (case split_runes (runes (to_bytes line)) of Inl e \<Rightarrow> Inl e | Inr ws \<Rightarrow> Inr (map rune_string ws))"

subsection \<open>Parameters\<close>

record Flag =
  fl_Name :: string
  fl_Default :: string
  fl_Required :: bool
  fl_IsBool :: bool

type_synonym params = "string \<rightharpoonup> string"

definition initial_value :: "Flag \<Rightarrow> params \<Rightarrow> params" where
  "initial_value f v =
     (let v1 = (if \<not> fl_IsBool f \<and> fl_Default f \<noteq> [] then v(fl_Name f \<mapsto> fl_Default f) else v)
      in if fl_IsBool f then v1(fl_Name f \<mapsto> ''false'') else v1)"

definition byName :: "Flag list \<Rightarrow> string \<Rightarrow> Flag option" where
  "byName flags n = fold (\<lambda>f m. m(fl_Name f \<mapsto> f)) flags Map.empty n"

definition set_value :: "string \<Rightarrow> string \<Rightarrow> Flag \<Rightarrow> params \<Rightarrow> shell_error + params" where
  "set_value name val f v =
     (if fl_IsBool f then
        let lower = ToLower val in
        if lower \<notin> {''true'', ''false'', ''1'', ''0'', ''yes'', ''no''} then Inl (WantsBool name val)
        else Inr (v(name \<mapsto> lower))
      else Inr (v(name \<mapsto> val)))"

fun parse_args :: "Flag list \<Rightarrow> string list \<Rightarrow> string list \<Rightarrow> params \<Rightarrow> shell_error + string list \<times> params" where
  "parse_args flags [] positional v = Inr (positional, v)"
| "parse_args flags (w # ws) positional v =
     (case byName flags w of
        Some f \<Rightarrow>
          if fl_IsBool f then parse_args flags ws positional (v(fl_Name f \<mapsto> ''true''))
          else (case ws of
                  [] \<Rightarrow> Inl (NeedsValue (fl_Name f))
                | val # ws' \<Rightarrow>
                    (case set_value (fl_Name f) val f v of
                       Inl e \<Rightarrow> Inl e
                     | Inr v' \<Rightarrow> parse_args flags ws' positional v'))
      | None \<Rightarrow>
          if HasPrefix w ''-'' then Inl (UnknownParameter w) else parse_args flags ws (positional @ [w]) v)"

definition lookup_value :: "params \<Rightarrow> string \<Rightarrow> string" where
  "lookup_value v n = (case v n of None \<Rightarrow> [] | Some x \<Rightarrow> x)"

definition Parse :: "string list \<Rightarrow> Flag list \<Rightarrow> shell_error + string list \<times> params" where
  "Parse argv flags =
     (case parse_args flags argv [] (fold initial_value flags Map.empty) of
        Inl e \<Rightarrow> Inl e
      | Inr (positional, v) \<Rightarrow>
          let missing = map fl_Name (filter (\<lambda>f. fl_Required f \<and> lookup_value v (fl_Name f) = []) flags)
          in if missing \<noteq> [] then Inl (MissingRequired missing) else Inr (positional, v))"

subsection \<open>Session\<close>

record PeerAddr =
  pa_PeerID :: string
  pa_MailboxID :: string
  pa_ShardURL :: string

record TransferRef =
  tr_ID :: string
  tr_File :: string
  tr_Size :: int
  tr_TicketB64 :: string

record Session =
  se_Identity :: string
  se_Relay :: string
  se_TransportsDir :: string
  se_Aliases :: "string \<rightharpoonup> string"
  se_History :: "string list"
  se_JSON :: bool
  se_ShowSecrets :: bool
  se_Transfers :: "TransferRef list"
  se_Interactive :: bool
  se_Peers :: "string list"
  se_PeerMailboxes :: "string \<rightharpoonup> PeerAddr"

definition NewSession :: Session where
  "NewSession = \<lparr>se_Identity = [], se_Relay = [], se_TransportsDir = [],
     se_Aliases = [''xsend'' \<mapsto> ''xfer send'', ''xget'' \<mapsto> ''xfer recv''], se_History = [], se_JSON = False,
     se_ShowSecrets = False, se_Transfers = [], se_Interactive = False, se_Peers = [], se_PeerMailboxes = Map.empty\<rparr>"

text \<open>\<^verbatim>\<open>strings.Fields\<close> on ASCII text.\<close>

definition Fields :: "string \<Rightarrow> string list" where
  "Fields s = filter (\<lambda>w. w \<noteq> []) (split_on CHR '' ''
     (map (\<lambda>c. if c \<in> {CHR 0x09, CHR 0x0A, CHR 0x0B, CHR 0x0C, CHR 0x0D} then CHR '' '' else c) s))"

definition ExpandAlias :: "string list \<Rightarrow> Session \<Rightarrow> string list" where
  "ExpandAlias ws s =
     (case ws of
        [] \<Rightarrow> ws
      | w # rest \<Rightarrow>
          (case se_Aliases s (ToLower w) of
             None \<Rightarrow> ws
           | Some ex \<Rightarrow> if ex = [] then ws else Fields ex @ rest))"

fun record_transfer :: "TransferRef \<Rightarrow> TransferRef list \<Rightarrow> TransferRef list" where
  "record_transfer ref [] = [ref]"
| "record_transfer ref (t # ts) = (if tr_ID t = tr_ID ref then ref # ts else t # record_transfer ref ts)"

definition RecordTransfer :: "TransferRef \<Rightarrow> Session \<Rightarrow> Session" where
  "RecordTransfer ref s = s\<lparr>se_Transfers := record_transfer ref (se_Transfers s)\<rparr>"

definition Session_RememberPeer :: "string \<Rightarrow> Session \<Rightarrow> Session" where
  "Session_RememberPeer p s =
     (if p = [] \<or> p \<in> set (se_Peers s) then s else s\<lparr>se_Peers := se_Peers s @ [p]\<rparr>)"

definition shortID :: "string \<Rightarrow> string" where
  "shortID p = (if length p \<le> 12 then p else take 6 p @ ''...'' @ drop (length p - 4) p)"

subsection \<open>Commands\<close>

datatype run_result = RunOk | RunExit | RunErr string

record 'w Command =
  cm_Name :: string
  cm_Aliases :: "string list"
  cm_ArgsUsage :: string
  cm_MinArgs :: int
  cm_MaxArgs :: int
  cm_Flags :: "Flag list"
  cm_Args :: "ArgKind list"
  cm_Variadic :: ArgKind
  cm_Run :: "string list \<Rightarrow> params \<Rightarrow> Session \<Rightarrow> 'w \<Rightarrow> run_result \<times> Session \<times> 'w"

definition Command_Names :: "'w Command \<Rightarrow> string list" where
  "Command_Names c = [cm_Name c] @ cm_Aliases c"

definition Context_Get :: "params \<Rightarrow> string \<Rightarrow> string" where
  "Context_Get v n = lookup_value v n"

definition Context_Bool :: "params \<Rightarrow> string \<Rightarrow> bool" where
  "Context_Bool v n = (case v n of None \<Rightarrow> False | Some x \<Rightarrow> x = ''true'' \<or> x = ''1'' \<or> x = ''yes'')"

definition Context_JSON :: "params \<Rightarrow> Session option \<Rightarrow> bool" where
  "Context_JSON v s \<longleftrightarrow> Context_Bool v ''json'' \<or> (case s of None \<Rightarrow> False | Some x \<Rightarrow> se_JSON x)"

definition Context_ShowSecrets :: "params \<Rightarrow> Session option \<Rightarrow> bool" where
  "Context_ShowSecrets v s \<longleftrightarrow> Context_Bool v ''show-secrets'' \<or> (case s of None \<Rightarrow> False | Some x \<Rightarrow> se_ShowSecrets x)"

definition Redacted :: string where "Redacted = ''********''"

definition Secret :: "string \<Rightarrow> bool \<Rightarrow> string" where
  "Secret v visible = (if visible then v else if v = [] then [] else Redacted)"

definition Command_Usage :: "string list \<Rightarrow> 'w Command \<Rightarrow> string" where
  "Command_Usage path c =
     join_with CHR '' '' path @ (if cm_ArgsUsage c \<noteq> [] then '' '' @ cm_ArgsUsage c else []) @
     concat (map (\<lambda>f. if fl_IsBool f then '' ['' @ fl_Name f @ '']'' else '' ['' @ fl_Name f @ '' <value>]'') (cm_Flags c))"

subsection \<open>The command tree\<close>

datatype 'w node = Node (node_cmd: "'w Command option") (node_children: "(string \<times> 'w node) list")

type_synonym 'w tree = "(string \<times> 'w node) list"

record 'w Registry =
  roots :: "'w tree"
  order :: "string list"

definition NewRegistry :: "'w Registry" where
  "NewRegistry = \<lparr>roots = [], order = []\<rparr>"

definition child_or_group :: "'w tree \<Rightarrow> string \<Rightarrow> 'w node" where
  "child_or_group m w = (case map_of m w of None \<Rightarrow> Node None [] | Some n \<Rightarrow> n)"

fun insert_command :: "string list \<Rightarrow> 'w Command \<Rightarrow> 'w tree \<Rightarrow> 'w tree option" where
  "insert_command [] cmd m = None"
| "insert_command [w] cmd m =
     (case child_or_group m (ToLower w) of
        Node None ch \<Rightarrow> Some (AList.update (ToLower w) (Node (Some cmd) ch) m)
      | Node (Some _) ch \<Rightarrow> None)"
| "insert_command (w # v # ws) cmd m =
     (case child_or_group m (ToLower w) of
        Node c ch \<Rightarrow>
          (case insert_command (v # ws) cmd ch of
             None \<Rightarrow> None
           | Some ch' \<Rightarrow> Some (AList.update (ToLower w) (Node c ch') m)))"

text \<open>The two errors are panics.\<close>

definition Register :: "string list \<Rightarrow> 'w Command \<Rightarrow> 'w Registry \<Rightarrow> shell_error + 'w Registry" where
  "Register path cmd r =
     (if path = [] then Inl EmptyPath
      else case insert_command path cmd (roots r) of
        None \<Rightarrow> Inl (DuplicateCommand path)
      | Some m \<Rightarrow> Inr (r\<lparr>roots := m, order := order r @ [join_with CHR '' '' path]\<rparr>))"

definition child_matches :: "string \<Rightarrow> string \<times> 'w node \<Rightarrow> bool" where
  "child_matches w = (\<lambda>(name, child). name = w \<or>
     (case node_cmd child of None \<Rightarrow> False | Some c \<Rightarrow> w \<in> set (map ToLower (cm_Aliases c))))"

fun resolve :: "'w tree \<Rightarrow> string list \<Rightarrow> 'w Command option \<times> nat \<times> string list" where
  "resolve m [] = (None, 0, [])"
| "resolve m (w # ws) =
     (case List.find (child_matches (ToLower w)) m of
        None \<Rightarrow> (None, 0, [])
      | Some (name, Node c ch) \<Rightarrow>
          (case resolve ch ws of
             (deeper, consumed, path) \<Rightarrow> (case deeper of None \<Rightarrow> c | Some d \<Rightarrow> Some d, Suc consumed, name # path)))"

definition Resolve :: "'w Registry \<Rightarrow> string list \<Rightarrow> 'w Command option \<times> nat \<times> string list" where
  "Resolve r ws = resolve (roots r) ws"

fun subtree :: "'w tree \<Rightarrow> string list \<Rightarrow> 'w tree option" where
  "subtree m [] = Some m"
| "subtree m (w # ws) = (case map_of m (ToLower w) of None \<Rightarrow> None | Some n \<Rightarrow> subtree (node_children n) ws)"

definition Children :: "'w Registry \<Rightarrow> string list \<Rightarrow> string list" where
  "Children r path = (case subtree (roots r) path of None \<Rightarrow> [] | Some m \<Rightarrow> sort (map fst m))"

fun first_seen :: "string list \<Rightarrow> string list \<Rightarrow> string list" where
  "first_seen seen [] = []"
| "first_seen seen (p # ps) = (if p \<in> set seen then first_seen seen ps else p # first_seen (p # seen) ps)"

definition TopLevel :: "'w Registry \<Rightarrow> string list" where
  "TopLevel r = first_seen [] (order r)"

function all_under :: "string list \<Rightarrow> 'w node \<Rightarrow> (string list \<times> 'w Command) list" where
  "all_under p (Node c ch) =
     (case c of None \<Rightarrow> [] | Some cmd \<Rightarrow> [(p, cmd)]) @
     concat (map (\<lambda>(name, child). all_under (p @ [name]) child) (sort_key fst ch))"
  by pat_completeness auto
termination
proof (relation "measure (\<lambda>(p, n). size n)", goal_cases)
  case (2 p c ch x name child)
  then have "(name, child) \<in> set ch" by simp
  then show ?case by (induction ch) auto
qed simp

definition AllCommands :: "'w Registry \<Rightarrow> (string list \<times> 'w Command) list" where
  "AllCommands r = concat (map (\<lambda>(name, child). all_under [name] child) (sort_key fst (roots r)))"

subsection \<open>Suggestions\<close>

text \<open>One row of the table: \<open>a\<close> is the rune of the row, the row above starts at \<open>p0\<close>, the cell to the left is \<open>left\<close>.\<close>

fun lev_cells :: "nat \<Rightarrow> nat list \<Rightarrow> nat list \<Rightarrow> nat \<Rightarrow> nat list" where
  "lev_cells a (b # bs) (p0 # p1 # ps) left =
     (let cost = (if a \<noteq> b then 1 else 0); del = p1 + 1; ins = left + 1; sub = p0 + cost;
          c1 = (if ins < del then ins else del); cur = (if sub < c1 then sub else c1)
      in cur # lev_cells a bs (p1 # ps) cur)"
| "lev_cells a _ _ left = []"

fun lev_rows :: "nat \<Rightarrow> nat list \<Rightarrow> nat list \<Rightarrow> nat list \<Rightarrow> nat list" where
  "lev_rows i [] br prev = prev"
| "lev_rows i (a # ar) br prev = lev_rows (Suc i) ar br (i # lev_cells a br prev i)"

definition lev_runes :: "nat list \<Rightarrow> nat list \<Rightarrow> nat" where
  "lev_runes ar br = lev_rows 1 ar br [0..<Suc (length br)] ! length br"

definition levenshtein :: "string \<Rightarrow> string \<Rightarrow> nat" where
  "levenshtein a b = lev_runes (runes (to_bytes a)) (runes (to_bytes b))"

definition candidates :: "(string list \<times> 'w Command) list \<Rightarrow> string list" where
  "candidates cmds = first_seen [] (concat (map (\<lambda>(p, c). [join_with CHR '' '' p, last p] @ cm_Aliases c) cmds))"

definition close_enough :: "string \<Rightarrow> string \<Rightarrow> bool" where
  "close_enough word c \<longleftrightarrow> levenshtein word c \<le> 2 \<or> length word > 4 \<and> levenshtein word c * 2 \<le> length c"

definition Suggest :: "'w Registry \<Rightarrow> string \<Rightarrow> string list" where
  "Suggest r typed =
     (let word = ToLower typed;
          ranked = filter (close_enough word) (candidates (AllCommands r))
      in take 3 (sort_key (\<lambda>c. (levenshtein word c, c)) ranked))"

subsection \<open>Running a line\<close>

text \<open>\<open>LinePanic\<close>: indexing the first of no words, when an alias expands to nothing.\<close>

datatype line_result = LineOk | LineHelp "string list" | LineExit | LineErr shell_error | LinePanic

definition unresolved :: "'w Registry \<Rightarrow> string list \<Rightarrow> nat \<Rightarrow> string list \<Rightarrow> shell_error" where
  "unresolved reg ws consumed path =
     (let sug = (if consumed < length ws then Suggest reg (ws ! consumed) else [])
      in if sug \<noteq> [] then
           DidYouMean ws (map (\<lambda>s. if s \<in> set (Children reg path) then join_with CHR '' '' (path @ [s]) else s) sug)
         else if path \<noteq> [] then Incomplete ws (Children reg path)
         else let sug0 = Suggest reg (hd ws) in if sug0 \<noteq> [] then DidYouMean [hd ws] sug0 else UnknownCommand (hd ws))"

definition invoke ::
  "string list \<Rightarrow> 'w Command \<Rightarrow> string list \<Rightarrow> Session \<Rightarrow> 'w \<Rightarrow> line_result \<times> Session \<times> 'w" where
  "invoke path cmd rest s w =
     (if ''help'' \<in> set rest then (LineHelp path, s, w)
      else case Parse rest (cm_Flags cmd) of
        Inl e \<Rightarrow> (LineErr e, s, w)
      | Inr (positional, v) \<Rightarrow>
          if v ''help'' = Some ''true'' \<or> v ''help'' = Some ''1'' then (LineHelp path, s, w)
          else if cm_MinArgs cmd > 0 \<and> int (length positional) < cm_MinArgs cmd
          then (LineErr (CommandUsage (Command_Usage path cmd)), s, w)
          else if cm_MaxArgs cmd > 0 \<and> int (length positional) > cm_MaxArgs cmd
          then (LineErr (TooManyArguments (Command_Usage path cmd)), s, w)
          else (case cm_Run cmd positional v s w of
                  (RunOk, s', w') \<Rightarrow> (LineOk, s', w')
                | (RunExit, s', w') \<Rightarrow> (LineExit, s', w')
                | (RunErr e, s', w') \<Rightarrow> (LineErr (InCommand path e), s', w')))"

definition execute :: "'w Registry \<Rightarrow> string \<Rightarrow> Session \<Rightarrow> 'w \<Rightarrow> line_result \<times> Session \<times> 'w" where
  "execute reg line s w =
     (case SplitLine line of
        Inl e \<Rightarrow> (LineErr (ParseLine e), s, w)
      | Inr ws0 \<Rightarrow>
          if ws0 = [] then (LineOk, s, w)
          else let ws = ExpandAlias ws0 s in
            (case Resolve reg ws of
               (None, consumed, path) \<Rightarrow>
                 if ws = [] then (LinePanic, s, w) else (LineErr (unresolved reg ws consumed path), s, w)
             | (Some cmd, consumed, path) \<Rightarrow> invoke path cmd (drop consumed ws) s w))"

subsection \<open>Scripts\<close>

text \<open>
  The scanner has a buffer of 1 MiB: it yields the lines before the first one that does not fit and then stops,
  and the loop does not ask why it stopped.
\<close>

definition scan_lines :: "string list \<Rightarrow> string list" where
  "scan_lines ls = takeWhile (\<lambda>l. length l < 1024 * 1024) ls"

text \<open>The exit code; \<open>None\<close> if the process panics.\<close>

fun script_loop :: "'w Registry \<Rightarrow> string list \<Rightarrow> nat \<Rightarrow> Session \<Rightarrow> 'w \<Rightarrow> nat option \<times> Session \<times> 'w" where
  "script_loop reg [] code s w = (Some code, s, w)"
| "script_loop reg (text # ls) code s w =
     (let line = TrimSpace text in
      if line = [] \<or> HasPrefix line ''#'' then script_loop reg ls code s w
      else case SplitLine line of
        Inl e \<Rightarrow> script_loop reg ls 1 s w
      | Inr [] \<Rightarrow> script_loop reg ls code s w
      | Inr (w0 # ws) \<Rightarrow>
          if ToLower w0 = ''switch'' then script_loop reg ls 1 s w
          else (case execute reg line (s\<lparr>se_History := se_History s @ [line]\<rparr>) w of
                  (LineExit, s', w') \<Rightarrow> (Some code, s', w')
                | (LinePanic, s', w') \<Rightarrow> (None, s', w')
                | (LineErr e, s', w') \<Rightarrow> script_loop reg ls 1 s' w'
                | (_, s', w') \<Rightarrow> script_loop reg ls code s' w'))"

definition RunScript :: "'w Registry \<Rightarrow> string list \<Rightarrow> Session \<Rightarrow> 'w \<Rightarrow> nat option \<times> Session \<times> 'w" where
  "RunScript reg ls s w = script_loop reg (scan_lines ls) 0 s w"

subsection \<open>The alias command\<close>

definition joinWords :: "string list \<Rightarrow> string" where
  "joinWords ws = join_with CHR '' '' ws"

text \<open>What \<^verbatim>\<open>alias [name [expansion...]]\<close> does to the session; what it prints is left out.\<close>

definition alias_run :: "string list \<Rightarrow> params \<Rightarrow> Session \<Rightarrow> 'w \<Rightarrow> run_result \<times> Session \<times> 'w" where
  "alias_run args v s w =
     (case args of
        [] \<Rightarrow> (RunOk, s, w)
      | [n] \<Rightarrow> (case se_Aliases s n of None \<Rightarrow> (RunErr (''no alias '' @ n), s, w) | Some _ \<Rightarrow> (RunOk, s, w))
      | n # ws \<Rightarrow> (RunOk, s\<lparr>se_Aliases := (se_Aliases s)(n \<mapsto> joinWords ws)\<rparr>, w))"

definition alias_command :: "'w Command" where
  "alias_command = \<lparr>cm_Name = ''alias'', cm_Aliases = [], cm_ArgsUsage = ''[name [expansion...]]'', cm_MinArgs = 0,
     cm_MaxArgs = 0, cm_Flags = [], cm_Args = [], cm_Variadic = ArgText, cm_Run = alias_run\<rparr>"

end
