(* ===== verification/EditDistance.thy ===== *)
theory EditDistance
  imports Shellcmd
begin

text \<open>
  The edit distance of \<^verbatim>\<open>src/internal/shellcmd/suggest.go\<close>: the two-row table computes the least number of
  single-rune insertions, deletions and substitutions that turn one word into the other.
\<close>

subsection \<open>Specification\<close>

inductive edit_step :: "'a list \<Rightarrow> 'a list \<Rightarrow> bool" where
  deletion: "edit_step (us @ x # vs) (us @ vs)"
| insertion: "edit_step (us @ vs) (us @ x # vs)"
| substitution: "edit_step (us @ x # vs) (us @ y # vs)"

inductive edits :: "nat \<Rightarrow> 'a list \<Rightarrow> 'a list \<Rightarrow> bool" where
  none: "edits 0 xs xs"
| more: "edit_step xs ys \<Longrightarrow> edits n ys zs \<Longrightarrow> edits (Suc n) xs zs"

lemma edit_step_Cons: "edit_step xs ys \<Longrightarrow> edit_step (a # xs) (a # ys)"
proof (induction rule: edit_step.induct)
  case (deletion us x vs)
  show ?case using edit_step.deletion [of "a # us" x vs] by simp
next
  case (insertion us vs x)
  show ?case using edit_step.insertion [of "a # us" vs x] by simp
next
  case (substitution us x vs y)
  show ?case using edit_step.substitution [of "a # us" x vs y] by simp
qed

lemma edits_Cons: "edits n xs ys \<Longrightarrow> edits n (a # xs) (a # ys)"
  by (induction rule: edits.induct) (auto intro: edits.intros edit_step_Cons)

lemma edit_step_rev: "edit_step xs ys \<Longrightarrow> edit_step (rev xs) (rev ys)"
proof (induction rule: edit_step.induct)
  case (deletion us x vs)
  show ?case using edit_step.deletion [of "rev vs" x "rev us"] by simp
next
  case (insertion us vs x)
  show ?case using edit_step.insertion [of "rev vs" "rev us" x] by simp
next
  case (substitution us x vs y)
  show ?case using edit_step.substitution [of "rev vs" x "rev us" y] by simp
qed

lemma edits_rev: "edits n xs ys \<Longrightarrow> edits n (rev xs) (rev ys)"
  by (induction rule: edits.induct) (auto intro: edits.intros edit_step_rev)

subsection \<open>The recursion behind the table\<close>

fun dist :: "'a list \<Rightarrow> 'a list \<Rightarrow> nat" where
  "dist [] ys = length ys"
| "dist xs [] = length xs"
| "dist (x # xs) (y # ys) =
     min (min (dist xs (y # ys) + 1) (dist (x # xs) ys + 1)) (dist xs ys + (if x = y then 0 else 1))"

lemma dist_Nil [simp]: "dist xs [] = length xs"
  by (cases xs) auto

lemma dist_self [simp]: "dist xs xs = 0"
  by (induction xs) auto

lemma edits_insert_all: "edits (length ys) [] ys"
proof (induction ys)
  case (Cons y ys)
  have "edit_step [] [y]" using edit_step.insertion [of "[]" "[]" y] by simp
  then show ?case using edits_Cons [OF Cons, of y] by (auto intro: edits.more)
qed (simp add: edits.none)

lemma edits_delete_all: "edits (length xs) xs []"
proof (induction xs)
  case (Cons x xs)
  have "edit_step (x # xs) xs" using edit_step.deletion [of "[]" x xs] by simp
  then show ?case using Cons by (auto intro: edits.more)
qed (simp add: edits.none)

lemma dist_edits: "edits (dist xs ys) xs ys"
proof (induction xs ys rule: dist.induct)
  case (3 x xs y ys)
  have del: "edit_step (x # xs) xs" using edit_step.deletion [of "[]" x xs] by simp
  have ins: "edit_step (x # xs) (y # x # xs)" using edit_step.insertion [of "[]" "x # xs" y] by simp
  have sub: "edit_step (x # xs) (y # xs)" using edit_step.substitution [of "[]" x xs y] by simp
  have "edits (Suc (dist xs (y # ys))) (x # xs) (y # ys)" using del 3(1) by (rule edits.more)
  moreover have "edits (Suc (dist (x # xs) ys)) (x # xs) (y # ys)" using ins edits_Cons [OF 3(2)] by (rule edits.more)
  moreover have "edits (dist xs ys + (if x = y then 0 else 1)) (x # xs) (y # ys)"
    using sub edits_Cons [OF 3(3), of y] by (auto intro: edits.more)
  ultimately show ?case by (auto simp: min_def)
next
  case (2 v va)
  show ?case using edits_delete_all [of "v # va"] by (simp only: dist.simps)
qed (simp add: edits_insert_all)

text \<open>One edit changes the distance to any word by at most one.\<close>

lemma dist_drop_left: "dist vs zs \<le> Suc (dist (x # vs) zs)"
proof (induction zs arbitrary: vs x)
  case (Cons z zs)
  have "dist vs (z # zs) \<le> Suc (dist vs zs)" by (cases vs) auto
  moreover have "dist vs zs \<le> Suc (dist (x # vs) zs)" by (rule Cons)
  ultimately show ?case by auto
qed simp

lemma dist_swap: "dist (x # vs) zs \<le> Suc (dist (y # vs) zs)"
proof (induction zs)
  case (Cons z zs)
  have "dist (x # vs) (z # zs) \<le> Suc (dist vs zs)" by (simp add: min_le_iff_disj)
  then show ?case using Cons by auto
qed simp

lemma dist_under:
  assumes "\<And>zs. dist as zs \<le> Suc (dist bs zs)"
  shows "dist (u # as) zs \<le> Suc (dist (u # bs) zs)"
proof (induction zs)
  case Nil
  then show ?case using assms [of "[]"] by simp
next
  case (Cons z zs)
  have "dist as (z # zs) \<le> Suc (dist bs (z # zs))" "dist as zs \<le> Suc (dist bs zs)" by (rule assms)+
  then show ?case using Cons by auto
qed

lemma dist_step: "edit_step xs ys \<Longrightarrow> dist xs zs \<le> Suc (dist ys zs)"
proof (induction arbitrary: zs rule: edit_step.induct)
  case (deletion us x vs)
  have base: "dist (x # vs) zs \<le> Suc (dist vs zs)" for zs by (cases zs) auto
  show ?case by (induction us arbitrary: zs) (use base in \<open>auto simp del: dist.simps intro: dist_under\<close>)
next
  case (insertion us vs x)
  show ?case by (induction us arbitrary: zs) (use dist_drop_left in \<open>auto simp del: dist.simps intro: dist_under\<close>)
next
  case (substitution us x vs y)
  show ?case by (induction us arbitrary: zs) (use dist_swap in \<open>auto simp del: dist.simps intro: dist_under\<close>)
qed

lemma edits_dist: "edits n xs ys \<Longrightarrow> dist xs ys \<le> n"
proof (induction rule: edits.induct)
  case (more xs ys n zs)
  then show ?case using dist_step [OF more(1), of zs] by simp
qed simp

lemma dist_least: "dist xs ys = (LEAST n. edits n xs ys)"
  by (metis (mono_tags, lifting) LeastI_ex Least_le dist_edits edits_dist le_antisym)

lemma dist_rev: "dist (rev xs) (rev ys) = dist xs ys"
  using edits_dist [OF edits_rev [OF dist_edits [of xs ys]]] edits_dist [OF edits_rev [OF dist_edits [of "rev xs" "rev ys"]]]
  by simp

subsection \<open>The table\<close>

lemma lev_cells_row:
  fixes as :: "nat list" and a :: nat
  defines "f \<equiv> \<lambda>zs. dist (rev as) (rev zs)" and "g \<equiv> \<lambda>zs. dist (a # rev as) (rev zs)"
  shows "lev_cells a bs (map (\<lambda>j. f (ps @ take j bs)) [0..<Suc (length bs)]) (g ps) =
     map (\<lambda>j. g (ps @ take (Suc j) bs)) [0..<length bs]"
proof (induction bs arbitrary: ps)
  case (Cons b bs)
  have upt: "[0..<Suc (length (b # bs))] = 0 # map Suc [0..<Suc (length bs)]" "[0..<Suc (length bs)] = 0 # map Suc [0..<length bs]"
    by (simp_all add: map_Suc_upt upt_conv_Cons del: upt_Suc)
  have cell: "g (ps @ [b]) = min (min (f (ps @ [b]) + 1) (g ps + 1)) (f ps + (if a = b then 0 else 1))"
    by (simp add: f_def g_def)
  have row: "map (\<lambda>j. f (ps @ take j (b # bs))) [0..<Suc (length (b # bs))] =
      f ps # f (ps @ [b]) # map (\<lambda>j. f ((ps @ [b]) @ take (Suc j) bs)) [0..<length bs]"
    unfolding upt by (simp add: comp_def)
  have tail: "f (ps @ [b]) # map (\<lambda>j. f ((ps @ [b]) @ take (Suc j) bs)) [0..<length bs] =
      map (\<lambda>j. f ((ps @ [b]) @ take j bs)) [0..<Suc (length bs)]"
    unfolding upt(2) by (simp add: comp_def)
  have "lev_cells a (b # bs) (f ps # f (ps @ [b]) # map (\<lambda>j. f ((ps @ [b]) @ take (Suc j) bs)) [0..<length bs]) (g ps) =
      g (ps @ [b]) # lev_cells a bs (map (\<lambda>j. f ((ps @ [b]) @ take j bs)) [0..<Suc (length bs)]) (g (ps @ [b]))"
    unfolding cell tail [symmetric] by (simp add: Let_def min_def)
  also have "\<dots> = map (\<lambda>j. g (ps @ take (Suc j) (b # bs))) [0..<length (b # bs)]"
    unfolding Cons by (simp add: upt_conv_Cons map_Suc_upt [symmetric] comp_def del: upt_Suc)
  finally show ?case unfolding row .
qed simp

definition dist_row :: "nat list \<Rightarrow> nat list \<Rightarrow> nat list" where
  "dist_row as bs = map (\<lambda>j. dist (rev as) (rev (take j bs))) [0..<Suc (length bs)]"

lemma lev_row_next: "Suc (length as) # lev_cells a bs (dist_row as bs) (Suc (length as)) = dist_row (as @ [a]) bs"
proof -
  have "lev_cells a bs (dist_row as bs) (Suc (length as)) = map (\<lambda>j. dist (a # rev as) (rev (take (Suc j) bs))) [0..<length bs]"
    using lev_cells_row [of a bs as "[]"] by (simp add: dist_row_def del: upt_Suc dist.simps)
  moreover have "[0..<Suc (length bs)] = 0 # map Suc [0..<length bs]" by (simp add: map_Suc_upt upt_conv_Cons del: upt_Suc)
  ultimately show ?thesis by (simp add: dist_row_def comp_def del: dist.simps upt_Suc)
qed

lemma lev_rows_dist: "lev_rows (Suc (length as)) ar bs (dist_row as bs) = dist_row (as @ ar) bs"
proof (induction ar arbitrary: as)
  case (Cons a ar)
  show ?case using Cons [of "as @ [a]"] by (simp add: lev_row_next)
qed simp

lemma lev_runes_dist: "lev_runes ar br = dist ar br"
proof -
  have "dist_row [] br = [0..<Suc (length br)]" by (auto simp: dist_row_def intro: nth_equalityI simp del: upt_Suc)
  then have "lev_rows 1 ar br [0..<Suc (length br)] = dist_row ar br" using lev_rows_dist [of "[]" ar br] by simp
  then show ?thesis by (simp add: lev_runes_def dist_row_def dist_rev del: upt_Suc)
qed

text \<open>
  C28.  The distance the table computes is the least number of single-rune insertions, deletions and
  substitutions that turn the first word into the second: such a sequence of edits exists, and no shorter one.
\<close>

theorem levenshtein_minimal:
  "edits (levenshtein a b) (runes (to_bytes a)) (runes (to_bytes b)) \<and>
   levenshtein a b = (LEAST n. edits n (runes (to_bytes a)) (runes (to_bytes b)))"
  by (simp add: levenshtein_def lev_runes_dist dist_edits dist_least [symmetric])

subsection \<open>Suggestions\<close>

lemma first_seen_set: "set (first_seen seen xs) = set xs - set seen" "distinct (first_seen seen xs)"
  by (induction xs arbitrary: seen) auto

text \<open>
  Note.  The suggestions for a mistyped word are at most three command words within the threshold, in
  order of distance and then of spelling, and no other candidate within the threshold is closer than a suggested
  one.
\<close>

theorem suggestions_closest:
  "length (Suggest r typed) \<le> 3 \<and> distinct (Suggest r typed) \<and>
   sorted (map (\<lambda>c. (levenshtein (ToLower typed) c, c)) (Suggest r typed)) \<and>
   list_all (\<lambda>c. close_enough (ToLower typed) c \<and> c \<in> set (candidates (AllCommands r))) (Suggest r typed) \<and>
   (\<nexists>c d. c \<in> set (Suggest r typed) \<and> d \<in> set (candidates (AllCommands r)) \<and> close_enough (ToLower typed) d \<and>
      d \<notin> set (Suggest r typed) \<and> levenshtein (ToLower typed) d < levenshtein (ToLower typed) c)"
proof -
  define w key where "w = ToLower typed" and "key = (\<lambda>c. (levenshtein w c, c))"
  define ranked where "ranked = filter (close_enough w) (candidates (AllCommands r))"
  define l where "l = sort_key key ranked"
  have s: "Suggest r typed = take 3 l" by (simp add: Suggest_def Let_def l_def ranked_def key_def w_def)
  have l: "distinct l" "sorted (map key l)" "set l = set ranked"
    by (simp_all add: l_def ranked_def candidates_def first_seen_set)
  have sub: "set (take 3 l) \<subseteq> set ranked" using set_take_subset [of 3 l] l(3) by simp
  have later: "key c \<le> key d" if "c \<in> set (take 3 l)" "d \<in> set (drop 3 l)" for c d
  proof -
    have "sorted (map key (take 3 l) @ map key (drop 3 l))" using l(2) by (metis map_append append_take_drop_id)
    then show ?thesis using that unfolding sorted_append by auto
  qed
  have "\<not> levenshtein w d < levenshtein w c" if "c \<in> set (take 3 l)" "d \<in> set ranked" "d \<notin> set (take 3 l)" for c d
  proof -
    have "d \<in> set (drop 3 l)" using that(2,3) l(3) by (metis Un_iff set_append append_take_drop_id)
    from later [OF that(1) this] show ?thesis by (auto simp: less_eq_prod_def key_def)
  qed
  then have best: "\<nexists>c d. c \<in> set (take 3 l) \<and> d \<in> set (candidates (AllCommands r)) \<and> close_enough w d \<and>
      d \<notin> set (take 3 l) \<and> levenshtein w d < levenshtein w c"
    unfolding ranked_def by auto
  have "sorted (map key (take 3 l))" using l(2) by (metis sorted_wrt_take take_map)
  moreover have "list_all (\<lambda>c. close_enough w c \<and> c \<in> set (candidates (AllCommands r))) (take 3 l)"
    using sub unfolding ranked_def by (auto simp: list_all_iff)
  ultimately show ?thesis using best l(1) unfolding s w_def [symmetric] key_def [symmetric]
    by (intro conjI) (simp_all add: key_def)
qed

end
