(* ===== verification/ShellProps.thy ===== *)
theory ShellProps
  imports Shellcmd "HOL-Library.Sublist"
begin

text \<open>
  What the command framework guarantees: quoting brings every word through, parameters are told from arguments,
  a registered command is found, and where a line is lost without an error.
\<close>

subsection \<open>Quoting\<close>

definition quote :: "string \<Rightarrow> string" where
  "quote w = CHR 0x22 # w @ [CHR 0x22]"

definition idle :: "lexer \<Rightarrow> bool" where
  "idle s \<longleftrightarrow> lx_quote s = 0 \<and> \<not> lx_have s \<and> lx_buf s = []"

lemma lex_inside:
  "34 \<notin> set w \<Longrightarrow> lx_quote s = 34 \<Longrightarrow> lx_have s \<Longrightarrow> fold lex_rune w s = s\<lparr>lx_buf := lx_buf s @ w\<rparr>"
proof (induction w arbitrary: s)
  case (Cons r w)
  then have "lex_rune r s = s\<lparr>lx_buf := lx_buf s @ [r]\<rparr>" by (auto simp: lex_rune_def)
  then show ?case using Cons by simp
qed simp

lemma lex_quoted:
  assumes "idle s" "34 \<notin> set w"
  shows "fold lex_rune (34 # w @ [34]) s = s\<lparr>lx_buf := w, lx_have := True\<rparr>"
proof -
  have "lex_rune 34 s = s\<lparr>lx_quote := 34, lx_have := True\<rparr>" using assms by (simp add: lex_rune_def idle_def)
  then have "fold lex_rune (34 # w) s = s\<lparr>lx_quote := 34, lx_have := True, lx_buf := w\<rparr>"
    using lex_inside [OF assms(2), of "s\<lparr>lx_quote := 34, lx_have := True\<rparr>"] assms(1) by (simp add: idle_def)
  then show ?thesis using assms(1) by (auto simp: lex_rune_def idle_def)
qed

lemma lex_quoted_words:
  assumes "\<forall>w\<in>set ws. 34 \<notin> set w" "idle s" "ws \<noteq> []"
  shows "fold lex_rune (join_with 32 (map (\<lambda>w. 34 # w @ [34]) ws)) s =
     s\<lparr>lx_out := lx_out s @ butlast ws, lx_buf := last ws, lx_have := True\<rparr>"
  using assms
proof (induction ws arbitrary: s rule: induct_list012)
  case (2 w)
  have "fold lex_rune (34 # w @ [34]) s = s\<lparr>lx_buf := w, lx_have := True\<rparr>" by (rule lex_quoted) (use 2 in auto)
  then show ?case by simp
next
  case (3 w v ws)
  let ?s = "s\<lparr>lx_out := lx_out s @ [w]\<rparr>"
  let ?q = "34 # w @ [34]" and ?rest = "join_with 32 (map (\<lambda>w. 34 # w @ [34]) (v # ws))"
  have q: "fold lex_rune ?q s = s\<lparr>lx_buf := w, lx_have := True\<rparr>" by (rule lex_quoted) (use 3 in auto)
  have flush: "lex_rune 32 (s\<lparr>lx_buf := w, lx_have := True\<rparr>) = ?s"
    using 3(4) by (simp add: lex_rune_def lex_flush_def idle_def)
  have "idle ?s" using 3(4) by (simp add: idle_def)
  then have rest: "fold lex_rune ?rest ?s = ?s\<lparr>lx_out := lx_out ?s @ butlast (v # ws), lx_buf := last (v # ws), lx_have := True\<rparr>"
    using 3(2) 3(3) by simp
  have "join_with 32 (map (\<lambda>w. 34 # w @ [34]) (w # v # ws)) = ?q @ 32 # ?rest" by simp
  then have "fold lex_rune (join_with 32 (map (\<lambda>w. 34 # w @ [34]) (w # v # ws))) s = fold lex_rune ?rest (lex_rune 32 (fold lex_rune ?q s))"
    by (simp only: fold_append fold.simps comp_apply)
  then show ?case unfolding q flush rest by simp
qed simp

lemma split_runes_quoted:
  assumes "\<forall>w\<in>set ws. 34 \<notin> set w"
  shows "split_runes (join_with 32 (map (\<lambda>w. 34 # w @ [34]) ws)) = Inr ws"
proof (cases "ws = []")
  case False
  then show ?thesis using lex_quoted_words [OF assms, of "\<lparr>lx_out = [], lx_buf = [], lx_quote = 0, lx_have = False\<rparr>"]
    by (simp add: split_runes_def idle_def lex_flush_def)
qed (simp add: split_runes_def lex_flush_def)

definition ascii :: "string \<Rightarrow> bool" where
  "ascii s \<longleftrightarrow> (\<forall>c\<in>set s. (of_char c :: nat) < 128)"

lemma byte_of_ascii: "(of_char c :: nat) < 128 \<Longrightarrow> byte_of_char c < 0x80 \<and> unat (byte_of_char c) = of_char c"
  by (simp add: byte_of_char_def word_less_nat_alt unat_of_nat)

lemma runes_string: "ascii s \<Longrightarrow> runes (to_bytes s) = map of_char s"
  using runes_ascii [of "to_bytes s"] byte_of_ascii by (auto simp: ascii_def to_bytes_def)

lemma rune_string_ascii: "ascii s \<Longrightarrow> rune_string (map of_char s) = s"
proof -
  assume "ascii s"
  then have "concat (map encode_rune (map of_char s)) = to_bytes s"
    by (induction s) (auto simp: ascii_def encode_rune_def to_bytes_def byte_of_char_def)
  then show ?thesis by (simp add: rune_string_def)
qed

lemma map_join_with: "map f (join_with c ws) = join_with (f c) (map (map f) ws)"
  by (induction c ws rule: join_with.induct) auto

lemma set_join_with: "set (join_with c ws) \<subseteq> insert c (\<Union> (set ` set ws))"
  by (induction c ws rule: join_with.induct) auto

text \<open>
  Note.  Any list of ASCII words, each put between double quotes and joined by spaces, is split back
  into exactly that list, also when words are empty or contain spaces, single quotes or backslashes.
\<close>

theorem quoted_words_survive:
  assumes "\<forall>w\<in>set ws. ascii w \<and> CHR 0x22 \<notin> set w"
  shows "SplitLine (join_with CHR '' '' (map quote ws)) = Inr ws"
proof -
  let ?line = "join_with CHR '' '' (map quote ws)"
  have "(of_char c :: nat) < 128" if "c \<in> set ?line" for c
  proof -
    have "c = CHR '' '' \<or> (\<exists>w\<in>set ws. c \<in> set (quote w))" using that set_join_with [of "CHR '' ''" "map quote ws"] by auto
    then have "c \<in> {CHR '' '', CHR 0x22} \<or> (\<exists>w\<in>set ws. c \<in> set w)" by (auto simp: quote_def)
    then show ?thesis using assms by (auto simp: ascii_def)
  qed
  then have "ascii ?line" by (simp add: ascii_def)
  then have "runes (to_bytes ?line) = map of_char ?line" by (rule runes_string)
  also have "\<dots> = join_with 32 (map (\<lambda>w. 34 # w @ [34]) (map (map of_char) ws))"
    by (simp add: map_join_with quote_def comp_def)
  finally have r: "runes (to_bytes ?line) = join_with 32 (map (\<lambda>w. 34 # w @ [34]) (map (map of_char) ws))" .
  have "\<forall>w\<in>set (map (map of_char) ws). (34 :: nat) \<notin> set w"
  proof -
    have "(of_char c :: nat) \<noteq> 34" if "c \<noteq> CHR 0x22" for c
    proof
      assume "(of_char c :: nat) = 34"
      then have "(of_char c :: nat) = of_char (CHR 0x22)" by simp
      then show False using that by (simp only: of_char_eq_iff)
    qed
    then have "34 \<notin> (of_char ` set w :: nat set)" if "CHR 0x22 \<notin> set w" for w using that by (metis imageE)
    then show ?thesis using assms by simp
  qed
  then have "split_runes (runes (to_bytes ?line)) = Inr (map (map of_char) ws)" unfolding r by (rule split_runes_quoted)
  moreover have "map rune_string (map (map of_char) ws) = ws"
    using assms rune_string_ascii by (auto intro: map_idI simp: comp_def)
  ultimately show ?thesis by (simp add: SplitLine_def)
qed

subsection \<open>Parameters\<close>

lemma byName_name: "byName flags n = Some f \<Longrightarrow> f \<in> set flags \<and> fl_Name f = n"
proof -
  have "fold (\<lambda>f m. m(fl_Name f \<mapsto> f)) flags m n = Some f \<Longrightarrow> f \<in> set flags \<and> fl_Name f = n \<or> m n = Some f" for m
    by (induction flags arbitrary: m) (fastforce split: if_splits)+
  then show "byName flags n = Some f \<Longrightarrow> f \<in> set flags \<and> fl_Name f = n" by (fastforce simp: byName_def)
qed

lemma byName_flag: "f \<in> set flags \<Longrightarrow> byName flags (fl_Name f) \<noteq> None"
proof -
  have "(fl_Name f \<in> fl_Name ` set flags \<or> m (fl_Name f) \<noteq> None) \<Longrightarrow> fold (\<lambda>f m. m(fl_Name f \<mapsto> f)) flags m (fl_Name f) \<noteq> None" for m
    by (induction flags arbitrary: m) (auto split: if_splits)
  then show "f \<in> set flags \<Longrightarrow> byName flags (fl_Name f) \<noteq> None" by (simp add: byName_def)
qed

text \<open>A word left as an argument is no parameter and has no dash; the arguments keep their order.\<close>

definition plain_word :: "Flag list \<Rightarrow> string \<Rightarrow> bool" where
  "plain_word flags w \<longleftrightarrow> byName flags w = None \<and> \<not> HasPrefix w ''-''"

lemma parse_args_positional:
  "parse_args flags argv pos v = Inr (pos', v') \<Longrightarrow>
   \<exists>new. pos' = pos @ new \<and> subseq new argv \<and> (\<forall>w\<in>set new. plain_word flags w)"
proof (induction flags argv pos v rule: parse_args.induct)
  case (2 flags w ws pos v)
  show ?case
  proof (cases "byName flags w")
    case None
    then have nodash: "\<not> HasPrefix w ''-''" and rec: "parse_args flags ws (pos @ [w]) v = Inr (pos', v')"
      using 2(4) by (auto split: if_splits)
    obtain new where "pos' = (pos @ [w]) @ new" "subseq new ws" "\<forall>w\<in>set new. plain_word flags w"
      using 2(1) [OF None nodash rec] by blast
    then show ?thesis using None nodash by (intro exI [of _ "w # new"]) (auto simp: plain_word_def)
  next
    case (Some f)
    show ?thesis
    proof (cases "fl_IsBool f")
      case True
      then have "parse_args flags ws pos (v(fl_Name f \<mapsto> ''true'')) = Inr (pos', v')" using 2(4) Some by simp
      then obtain new where "pos' = pos @ new" "subseq new ws" "\<forall>w\<in>set new. plain_word flags w"
        using 2(2) [OF Some True] by blast
      then show ?thesis by (intro exI [of _ new]) auto
    next
      case False
      obtain val ws' v1 where ws: "ws = val # ws'" "set_value (fl_Name f) val f v = Inr v1" "parse_args flags ws' pos v1 = Inr (pos', v')"
        using 2(4) Some False by (auto split: list.splits sum.splits)
      obtain new where "pos' = pos @ new" "subseq new ws'" "\<forall>w\<in>set new. plain_word flags w"
        using 2(3) [OF Some False ws(1,2,3)] by blast
      then show ?thesis using ws(1) by (intro exI [of _ new]) auto
    qed
  qed
qed simp

text \<open>
  Note.  When the parameters of a line parse, the arguments are words of the line in their order; none
  of them is the name of a parameter or starts with a dash; and every required parameter has a non-empty value.
  So a word that equals a parameter name is never passed on as an argument, however it was quoted.
\<close>

theorem parameters_told_apart:
  assumes "Parse argv flags = Inr (positional, v)"
  shows "subseq positional argv \<and> (\<forall>w\<in>set positional. w \<notin> fl_Name ` set flags \<and> \<not> HasPrefix w ''-'') \<and>
     (\<forall>f\<in>set flags. fl_Required f \<longrightarrow> lookup_value v (fl_Name f) \<noteq> [])"
proof -
  have args: "parse_args flags argv [] (fold initial_value flags Map.empty) = Inr (positional, v)"
    and req: "filter (\<lambda>f. fl_Required f \<and> lookup_value v (fl_Name f) = []) flags = []"
    using assms by (auto simp: Parse_def Let_def split: sum.splits prod.splits if_splits)
  obtain new where "positional = [] @ new" "subseq new argv" "\<forall>w\<in>set new. plain_word flags w"
    using parse_args_positional [OF args] by blast
  then show ?thesis using req byName_flag by (fastforce simp: plain_word_def filter_empty_conv)
qed

subsection \<open>Finding a registered command\<close>

text \<open>No other command answers to a word of the path through an alias.\<close>

fun clear_path :: "'w tree \<Rightarrow> string list \<Rightarrow> bool" where
  "clear_path m [] = True"
| "clear_path m (w # ws) =
     ((\<forall>p\<in>set m. fst p \<noteq> ToLower w \<longrightarrow> \<not> child_matches (ToLower w) p) \<and>
      (case map_of m (ToLower w) of None \<Rightarrow> True | Some n \<Rightarrow> clear_path (node_children n) ws))"

lemma find_named:
  "map_of m w = Some n \<Longrightarrow> \<forall>p\<in>set m. fst p \<noteq> w \<longrightarrow> \<not> child_matches w p \<Longrightarrow> List.find (child_matches w) m = Some (w, n)"
  by (induction m) (auto simp: child_matches_def split: if_splits)

lemma update_others: "p \<in> set (AList.update k v m) \<Longrightarrow> fst p \<noteq> k \<Longrightarrow> p \<in> set m"
  by (induction m) (auto split: if_splits)

lemma find_updated:
  assumes "\<forall>p\<in>set m. fst p \<noteq> k \<longrightarrow> \<not> child_matches k p"
  shows "List.find (child_matches k) (AList.update k n m) = Some (k, n)"
  by (rule find_named) (use assms in \<open>auto dest!: update_others\<close>)

lemma resolve_inserted:
  "insert_command path cmd m = Some m' \<Longrightarrow> clear_path m path \<Longrightarrow>
   resolve m' path = (Some cmd, length path, map ToLower path)"
proof (induction path cmd m arbitrary: m' rule: insert_command.induct)
  case (2 w cmd m)
  obtain ch where "m' = AList.update (ToLower w) (Node (Some cmd) ch) m"
    using 2(1) by (auto split: node.splits option.splits)
  then show ?case using 2(2) find_updated [of m "ToLower w"] by auto
next
  case (3 w v ws cmd m)
  obtain c ch where n: "child_or_group m (ToLower w) = Node c ch" by (cases "child_or_group m (ToLower w)")
  obtain ch' where ch': "insert_command (v # ws) cmd ch = Some ch'" "m' = AList.update (ToLower w) (Node c ch') m"
    using 3(2) n by (auto split: option.splits)
  have "clear_path ch (v # ws)"
    using 3(3) n by (auto simp: child_or_group_def split: option.splits)
  then have "resolve ch' (v # ws) = (Some cmd, length (v # ws), map ToLower (v # ws))"
    using 3(1) [OF n ch'(1)] by blast
  moreover have "List.find (child_matches (ToLower w)) m' = Some (ToLower w, Node c ch')"
    unfolding ch'(2) by (rule find_updated) (use 3(3) in auto)
  ultimately show ?case by (simp del: resolve.simps(1) add: resolve.simps(2) [of m' w])
qed simp

text \<open>
  Note.  After a command has been registered under a path that no other command answers to by an alias,
  typing that path, in upper or lower case, resolves to that command and consumes exactly the path.
\<close>

theorem registered_resolves:
  assumes "Register path cmd r = Inr r'" "clear_path (roots r) path"
  shows "Resolve r' path = (Some cmd, length path, map ToLower path)"
  using assms resolve_inserted by (auto simp: Register_def Resolve_def split: if_splits option.splits)

subsection \<open>Lines that are lost\<close>

lemma script_one_line:
  assumes "TrimSpace line = line" "line \<noteq> []" "\<not> HasPrefix line ''#''" "length line < 1024 * 1024"
    and "SplitLine line = Inr (w0 # ws)" "ToLower w0 \<noteq> ''switch''"
  shows "RunScript reg [line] s w = (case execute reg line (s\<lparr>se_History := se_History s @ [line]\<rparr>) w of
     (LineErr e, s', w') \<Rightarrow> (Some 1, s', w') | (LinePanic, s', w') \<Rightarrow> (None, s', w') | (_, s', w') \<Rightarrow> (Some 0, s', w'))"
  using assms by (simp add: RunScript_def scan_lines_def Let_def split: prod.splits line_result.splits)

text \<open>
  Note.  A command line one of whose words is \<open>help\<close>, quoted or not, runs nothing: in a script the line
  leaves everything as it was (but for the history) and counts as a success, so a message whose text has the word
  \<open>help\<close> is silently not sent.
\<close>

theorem help_word_suppresses:
  assumes "TrimSpace line = line" "line \<noteq> []" "\<not> HasPrefix line ''#''" "length line < 1024 * 1024"
    and "SplitLine line = Inr (w0 # ws)" "ToLower w0 \<noteq> ''switch''" "se_Aliases s (ToLower w0) = None"
    and "Resolve reg (w0 # ws) = (Some cmd, consumed, path)" "''help'' \<in> set (drop consumed (w0 # ws))"
  shows "RunScript reg [line] s w = (Some 0, s\<lparr>se_History := se_History s @ [line]\<rparr>, w)"
proof -
  let ?s = "s\<lparr>se_History := se_History s @ [line]\<rparr>"
  have "execute reg line ?s w = (LineHelp path, ?s, w)"
    using assms(5,7-9) by (simp add: execute_def ExpandAlias_def invoke_def)
  then show ?thesis by (simp add: script_one_line [OF assms(1-6)])
qed

text \<open>
  Note.  An alias whose expansion has only white space is accepted, and using it alone crashes the shell.
\<close>

theorem blank_alias_panics:
  assumes "SplitLine line = Inr [w0]" "se_Aliases s (ToLower w0) = Some ex" "ex \<noteq> []" "Fields ex = []"
  shows "execute reg line s w = (LinePanic, s, w)"
  using assms by (simp add: execute_def ExpandAlias_def Resolve_def)

text \<open>An alias defined with an upper-case letter in its name is stored but never found.\<close>

lemma alias_case_lost:
  assumes "ToLower n \<noteq> n" "alias_run (n # e # es) v s w = (RunOk, s', w')"
  shows "se_Aliases s' n = Some (joinWords (e # es)) \<and> ExpandAlias (n # ws) s' = ExpandAlias (n # ws) s"
  using assms by (auto simp: alias_run_def ExpandAlias_def)

text \<open>
  Note.  A script stops at the first line of 1 MiB or more: that line and all lines after it are not run,
  and the exit code is the one of the lines before it.
\<close>

theorem script_stops_silently:
  assumes "1024 * 1024 \<le> length line"
  shows "RunScript reg (ls @ line # rest) s w = RunScript reg ls s w"
proof -
  have "takeWhile Q (ls @ line # rest) = takeWhile Q ls" if "\<not> Q line" for Q
    using that by (induction ls) auto
  then show ?thesis using assms by (simp add: RunScript_def scan_lines_def)
qed

subsection \<open>Concrete instances\<close>

definition count_run :: "string list \<Rightarrow> params \<Rightarrow> Session \<Rightarrow> nat \<Rightarrow> run_result \<times> Session \<times> nat" where
  "count_run args v s n = (RunOk, s, n + length args)"

definition count_command :: "nat Command" where
  "count_command = \<lparr>cm_Name = ''send'', cm_Aliases = [], cm_ArgsUsage = [], cm_MinArgs = 0, cm_MaxArgs = 0,
     cm_Flags = [\<lparr>fl_Name = ''via'', fl_Default = [], fl_Required = False, fl_IsBool = False\<rparr>], cm_Args = [], cm_Variadic = ArgText, cm_Run = count_run\<rparr>"

definition toy_tree :: "nat Registry" where
  "toy_tree = \<lparr>roots = [(''alias'', Node (Some alias_command) []), (''message'', Node None [(''send'', Node (Some count_command) [])])],
     order = [''alias'', ''message send'']\<rparr>"

theorem quoted_words_survive_witness: "SplitLine (join_with CHR '' '' (map quote [''a b'', []])) = Inr [''a b'', []]"
  by (rule quoted_words_survive) (simp add: ascii_def)

theorem parameters_told_apart_witness:
  "\<exists>v. Parse [''bob'', ''go'', ''via'', ''train''] (cm_Flags count_command) = Inr ([''bob'', ''go''], v) \<and>
     subseq [''bob'', ''go''] [''bob'', ''go'', ''via'', ''train'']"
proof -
  obtain v where v: "Parse [''bob'', ''go'', ''via'', ''train''] (cm_Flags count_command) = Inr ([''bob'', ''go''], v)"
    by (simp add: Parse_def count_command_def byName_def HasPrefix_def set_value_def Let_def)
  then show ?thesis using parameters_told_apart [OF v] by blast
qed

theorem registered_resolves_witness:
  "\<exists>r'. Register [''Message'', ''send''] count_command NewRegistry = Inr r' \<and>
     Resolve r' [''Message'', ''send''] = (Some count_command, 2, [''message'', ''send''])"
proof -
  obtain r' where r': "Register [''Message'', ''send''] count_command NewRegistry = Inr r'"
    by (simp add: Register_def NewRegistry_def child_or_group_def)
  have lower: "map ToLower [''Message'', ''send''] = [''message'', ''send'']" by code_simp
  have "clear_path (roots (NewRegistry :: nat Registry)) [''Message'', ''send'']" by (simp add: NewRegistry_def)
  from registered_resolves [OF r' this] show ?thesis using r' lower by simp
qed

theorem help_word_suppresses_witness:
  "RunScript toy_tree [''message send bob help''] NewSession 0 = (Some 0, NewSession\<lparr>se_History := [''message send bob help'']\<rparr>, 0)"
proof -
  have split: "SplitLine ''message send bob help'' = Inr [''message'', ''send'', ''bob'', ''help'']"
    and trim: "TrimSpace ''message send bob help'' = ''message send bob help''"
    and low: "ToLower ''message'' = ''message''" "ToLower ''send'' = ''send''" "ToLower ''bob'' = ''bob''"
    by code_simp+
  have res: "Resolve toy_tree [''message'', ''send'', ''bob'', ''help''] = (Some count_command, 2, [''message'', ''send''])"
    by (simp add: Resolve_def toy_tree_def low child_matches_def alias_command_def)
  show ?thesis
    using help_word_suppresses [OF trim _ _ _ split _ _ res, of NewSession 0] low
    by (simp add: HasPrefix_def NewSession_def)
qed

theorem blank_alias_panics_witness:
  "execute toy_tree ''x'' (NewSession\<lparr>se_Aliases := [''x'' \<mapsto> '' '']\<rparr>) 0 = (LinePanic, NewSession\<lparr>se_Aliases := [''x'' \<mapsto> '' '']\<rparr>, 0)"
proof -
  have "SplitLine ''x'' = Inr [''x'']" "ToLower ''x'' = ''x''" "Fields '' '' = []" by code_simp+
  then show ?thesis using blank_alias_panics [of "''x''" "''x''" "NewSession\<lparr>se_Aliases := [''x'' \<mapsto> '' '']\<rparr>" "'' ''" toy_tree 0] by simp
qed

theorem script_stops_silently_witness:
  "RunScript toy_tree ([] @ replicate (1024 * 1024) CHR ''x'' # [''message send bob hi'']) NewSession 0 = (Some 0, NewSession, 0)"
  using script_stops_silently [of "replicate (1024 * 1024) CHR ''x''" toy_tree "[]" "[''message send bob hi'']" NewSession 0]
  by (simp add: RunScript_def scan_lines_def)

end
