(* ===== verification/Rpc.thy ===== *)
theory Rpc
  imports Filetransfer
begin

text \<open>
  The protocol between the core and a transport process (\<^verbatim>\<open>src/internal/transport/rpc.go\<close>): length-prefixed
  bodies on a byte stream, an envelope with operation and request number, and one nanopack message per operation.
  The arguments of a \<^verbatim>\<open>Marshal...\<close> function are the fields of the record that its \<^verbatim>\<open>Unmarshal...\<close> returns.
\<close>

subsection \<open>Errors and integers\<close>

datatype rpc_error = RpcNp np_error | RpcBad string | RpcLength nat | RpcUnknownOp byte | RpcIn string rpc_error

definition rpc_getU32 :: "bytes \<Rightarrow> np_error + 32 word" where
  "rpc_getU32 b = (if length b \<noteq> 4 then Inl ErrShortBody else Inr (beU32 b))"

definition rpc_getU64 :: "bytes \<Rightarrow> np_error + 64 word" where
  "rpc_getU64 b = (if length b \<noteq> 8 then Inl ErrShortBody else Inr (beU64 b))"

definition bool_byte :: "bool \<Rightarrow> byte" where
  "bool_byte b = (if b then 1 else 0)"

lemma rpc_get_put [simp]: "rpc_getU32 (putU32 v) = Inr v" "rpc_getU64 (putU64 w) = Inr w"
  by (simp_all add: rpc_getU32_def rpc_getU64_def)

lemma bool_byte_1 [simp]: "bool_byte b = 1 \<longleftrightarrow> b"
  by (simp add: bool_byte_def)

lemmas rpc_checks = rpc_get_put bool_byte_1

subsection \<open>Encoding and decoding a message\<close>

text \<open>Every encoder refuses some arguments and then encodes its fields.\<close>

definition rpc_enc ::
  "('a \<Rightarrow> rpc_error option) \<Rightarrow> ('a \<Rightarrow> npfield list) \<Rightarrow> prims \<Rightarrow> 'a \<Rightarrow> rpc_error + bytes" where
  "rpc_enc refuse flds P x =
     (case refuse x of
        Some e \<Rightarrow> Inl e
      | None \<Rightarrow> (case p_np_enc P (flds x) of None \<Rightarrow> Inl (RpcNp NpEncode) | Some b \<Rightarrow> Inr b))"

text \<open>Every decoder may refuse a body by its size, reads the fields one by one and may refuse the result.\<close>

definition rpc_dec ::
  "(bytes \<Rightarrow> rpc_error option) \<Rightarrow> (npfield \<Rightarrow> 'a \<Rightarrow> rpc_error + 'a) \<Rightarrow> 'a \<Rightarrow> ('a \<Rightarrow> rpc_error option) \<Rightarrow> prims \<Rightarrow>
   bytes \<Rightarrow> rpc_error + 'a" where
  "rpc_dec too_large step zero refuse P body =
     (case too_large body of
        Some e \<Rightarrow> Inl e
      | None \<Rightarrow>
          (case p_np_dec P body of
             None \<Rightarrow> Inl (RpcNp NpDecode)
           | Some fs \<Rightarrow>
               (case fold_fields step fs zero of
                  Inl e \<Rightarrow> Inl e
                | Inr x \<Rightarrow> (case refuse x of Some e \<Rightarrow> Inl e | None \<Rightarrow> Inr x))))"

locale rpc_codec =
  fixes refuse_enc :: "'a \<Rightarrow> rpc_error option"
    and flds :: "'a \<Rightarrow> npfield list"
    and too_large :: "bytes \<Rightarrow> rpc_error option"
    and step :: "npfield \<Rightarrow> 'a \<Rightarrow> rpc_error + 'a"
    and zero :: 'a
    and refuse_dec :: "'a \<Rightarrow> rpc_error option"
  assumes few_fields: "length (flds x) \<le> 11"
    and reads_back: "refuse_enc x = None \<Longrightarrow> fold_fields step (flds x) zero = Inr x"
    and accepts: "refuse_enc x = None \<Longrightarrow> refuse_dec x = None"
begin

lemma enc_total:
  assumes "np_law P" "refuse_enc x = None"
  shows "\<exists>b. rpc_enc refuse_enc flds P x = Inr b \<and> b \<noteq> []"
proof (rule np_enc_dec [OF assms(1) few_fields [of x]])
  fix b assume "p_np_enc P (flds x) = Some b" "b \<noteq> []"
  then show ?thesis using assms(2) by (simp add: rpc_enc_def)
qed

lemma dec_enc:
  assumes "np_law P" "rpc_enc refuse_enc flds P x = Inr b" "too_large b = None"
  shows "rpc_dec too_large step zero refuse_dec P b = Inr x"
proof -
  have ok: "refuse_enc x = None" "p_np_enc P (flds x) = Some b"
    using assms(2) by (auto simp: rpc_enc_def split: option.splits)
  then have "p_np_dec P b = Some (flds x)" using np_dec_enc [OF assms(1) few_fields] by blast
  then show ?thesis using assms(3) reads_back [OF ok(1)] accepts [OF ok(1)] by (simp add: rpc_dec_def)
qed

lemma dec_checked: "rpc_dec too_large step zero refuse_dec P b = Inr x \<Longrightarrow> refuse_dec x = None"
  by (auto simp: rpc_dec_def split: option.splits sum.splits)

end

subsection \<open>Constants\<close>

definition OpError :: byte where "OpError = 0"
definition OpInitialize :: byte where "OpInitialize = 1"
definition OpStartStop :: byte where "OpStartStop = 2"
definition OpSend :: byte where "OpSend = 3"
definition OpAttach :: byte where "OpAttach = 4"
definition OpDetach :: byte where "OpDetach = 5"
definition OpPoll :: byte where "OpPoll = 6"
definition OpStatus :: byte where "OpStatus = 7"
definition OpCapabilities :: byte where "OpCapabilities = 8"
definition OpRegister :: byte where "OpRegister = 9"
definition OpResolve :: byte where "OpResolve = 10"
definition OpXferCreate :: byte where "OpXferCreate = 11"
definition OpXferPut :: byte where "OpXferPut = 12"
definition OpXferResume :: byte where "OpXferResume = 13"
definition OpXferGet :: byte where "OpXferGet = 14"
definition OpXferComplete :: byte where "OpXferComplete = 15"
definition OpXferCancel :: byte where "OpXferCancel = 16"
definition OpIdentityRegister :: byte where "OpIdentityRegister = 17"

lemmas op_defs = OpError_def OpInitialize_def OpStartStop_def OpSend_def OpAttach_def OpDetach_def OpPoll_def OpStatus_def
  OpCapabilities_def OpRegister_def OpResolve_def OpXferCreate_def OpXferPut_def OpXferResume_def OpXferGet_def
  OpXferComplete_def OpXferCancel_def OpIdentityRegister_def

definition ActionStart :: byte where "ActionStart = 1"
definition ActionStop :: byte where "ActionStop = 2"

definition ErrInvalid :: "32 word" where "ErrInvalid = 1"
definition ErrUnsupported :: "32 word" where "ErrUnsupported = 2"
definition ErrNotReady :: "32 word" where "ErrNotReady = 3"
definition ErrTransport :: "32 word" where "ErrTransport = 4"
definition ErrUnauthorized :: "32 word" where "ErrUnauthorized = 5"

definition MaxFrameBytes :: nat where "MaxFrameBytes = 40 * 1024"
definition MaxRPCBytes :: nat where "MaxRPCBytes = 2 * 2 ^ 20"

subsection \<open>Envelopes and framing\<close>

record Envelope =
  env_Op :: byte
  env_ReqID :: "32 word"
  env_Payload :: bytes

definition Envelope_fields :: "Envelope \<Rightarrow> npfield list" where
  "Envelope_fields e = [(1, [env_Op e]), (2, putU32 (env_ReqID e)), (3, env_Payload e)]"

definition MarshalEnvelope :: "prims \<Rightarrow> Envelope \<Rightarrow> rpc_error + bytes" where
  "MarshalEnvelope = rpc_enc (\<lambda>_. None) Envelope_fields"

definition Envelope_zero :: Envelope where
  "Envelope_zero = \<lparr>env_Op = 0, env_ReqID = 0, env_Payload = []\<rparr>"

definition Envelope_field :: "npfield \<Rightarrow> Envelope \<Rightarrow> rpc_error + Envelope" where
  "Envelope_field f e =
     (let (i, data) = f in
      if i = 1 then (if length data \<noteq> 1 then Inl (RpcBad ''bad op'') else Inr (e\<lparr>env_Op := hd data\<rparr>))
      else if i = 2 then (case rpc_getU32 data of Inl x \<Rightarrow> Inl (RpcNp x) | Inr v \<Rightarrow> Inr (e\<lparr>env_ReqID := v\<rparr>))
      else if i = 3 then Inr (e\<lparr>env_Payload := data\<rparr>)
      else Inr e)"

definition unknown_op :: "Envelope \<Rightarrow> rpc_error option" where
  "unknown_op e = (if env_Op e \<noteq> OpError \<and> (env_Op e < OpInitialize \<or> env_Op e > OpIdentityRegister)
     then Some (RpcUnknownOp (env_Op e)) else None)"

definition body_length :: "bytes \<Rightarrow> rpc_error option" where
  "body_length b = (if b = [] \<or> length b > MaxRPCBytes then Some (RpcLength (length b)) else None)"

definition UnmarshalEnvelope :: "prims \<Rightarrow> bytes \<Rightarrow> rpc_error + Envelope" where
  "UnmarshalEnvelope = rpc_dec body_length Envelope_field Envelope_zero unknown_op"

text \<open>The encoder does not look at the operation, the decoder does.\<close>

interpretation envelope: rpc_codec unknown_op Envelope_fields body_length Envelope_field Envelope_zero unknown_op
  by unfold_locales (auto simp: Envelope_fields_def Envelope_field_def Envelope_zero_def intro!: Envelope.equality)

definition frameMessage :: "bytes \<Rightarrow> bytes" where
  "frameMessage body = putU32 (word_of_nat (length body)) @ body"

subsection \<open>Messages\<close>

record Initialize =
  ini_TransportID :: string
  ini_APIVersion :: byte
  ini_Config :: bytes

definition Initialize_refuse :: "Initialize \<Rightarrow> rpc_error option" where
  "Initialize_refuse x = (if ini_TransportID x = [] \<or> length (ini_Config x) > 64 * 1024
     then Some (RpcBad ''bad initialize'') else None)"

definition Initialize_bad :: "Initialize \<Rightarrow> rpc_error option" where
  "Initialize_bad x = (if ini_TransportID x = [] then Some (RpcBad ''empty transport id'') else None)"

definition Initialize_fields :: "Initialize \<Rightarrow> npfield list" where
  "Initialize_fields x = [(1, to_bytes (ini_TransportID x)), (2, [ini_APIVersion x]), (3, ini_Config x)]"

definition Initialize_zero :: Initialize where
  "Initialize_zero = \<lparr>ini_TransportID = [], ini_APIVersion = 0, ini_Config = []\<rparr>"

definition Initialize_field :: "npfield \<Rightarrow> Initialize \<Rightarrow> rpc_error + Initialize" where
  "Initialize_field f x =
     (let (i, data) = f in
      if i = 1 then Inr (x\<lparr>ini_TransportID := to_str data\<rparr>)
      else if i = 2 then (if length data \<noteq> 1 then Inl (RpcNp ErrShortBody) else Inr (x\<lparr>ini_APIVersion := hd data\<rparr>))
      else if i = 3 then Inr (x\<lparr>ini_Config := data\<rparr>)
      else Inr x)"

definition MarshalInitialize :: "prims \<Rightarrow> Initialize \<Rightarrow> rpc_error + bytes" where
  "MarshalInitialize = rpc_enc Initialize_refuse Initialize_fields"

definition UnmarshalInitialize :: "prims \<Rightarrow> bytes \<Rightarrow> rpc_error + Initialize" where
  "UnmarshalInitialize = rpc_dec (\<lambda>_. None) Initialize_field Initialize_zero Initialize_bad"

interpretation initialize_rpc: rpc_codec Initialize_refuse Initialize_fields "\<lambda>_. None" Initialize_field Initialize_zero Initialize_bad
  by unfold_locales (auto simp: Initialize_fields_def Initialize_field_def Initialize_zero_def Initialize_refuse_def Initialize_bad_def
    rpc_checks split: if_splits intro!: Initialize.equality)

record InitResult =
  inr_OK :: bool
  inr_Detail :: string
  inr_ActualAPI :: byte

definition InitResult_fields :: "InitResult \<Rightarrow> npfield list" where
  "InitResult_fields x = [(1, [bool_byte (inr_OK x)]), (2, to_bytes (inr_Detail x)), (3, [inr_ActualAPI x])]"

definition InitResult_zero :: InitResult where
  "InitResult_zero = \<lparr>inr_OK = False, inr_Detail = [], inr_ActualAPI = 0\<rparr>"

definition InitResult_field :: "npfield \<Rightarrow> InitResult \<Rightarrow> rpc_error + InitResult" where
  "InitResult_field f x =
     (let (i, data) = f in
      if i = 1 then (if length data \<noteq> 1 then Inl (RpcNp ErrShortBody) else Inr (x\<lparr>inr_OK := hd data = 1\<rparr>))
      else if i = 2 then Inr (x\<lparr>inr_Detail := to_str data\<rparr>)
      else if i = 3 then (if length data \<noteq> 1 then Inl (RpcNp ErrShortBody) else Inr (x\<lparr>inr_ActualAPI := hd data\<rparr>))
      else Inr x)"

definition MarshalInitResult :: "prims \<Rightarrow> InitResult \<Rightarrow> rpc_error + bytes" where
  "MarshalInitResult = rpc_enc (\<lambda>_. None) InitResult_fields"

definition UnmarshalInitResult :: "prims \<Rightarrow> bytes \<Rightarrow> rpc_error + InitResult" where
  "UnmarshalInitResult = rpc_dec (\<lambda>_. None) InitResult_field InitResult_zero (\<lambda>_. None)"

interpretation initResult_rpc: rpc_codec "\<lambda>_. None" InitResult_fields "\<lambda>_. None" InitResult_field InitResult_zero "\<lambda>_. None"
  by unfold_locales (auto simp: InitResult_fields_def InitResult_field_def InitResult_zero_def 
    rpc_checks split: if_splits intro!: InitResult.equality)

record Send =
  snd_Frame :: bytes
  snd_RecipientPub :: bytes
  snd_SenderHint :: bytes
  snd_MailboxID :: bytes
  snd_ShardURL :: string

definition Send_refuse :: "Send \<Rightarrow> rpc_error option" where
  "Send_refuse x = (if snd_Frame x = [] \<or> length (snd_Frame x) > MaxFrameBytes
     then Some (RpcBad ''frame out of bounds'') else if length (snd_RecipientPub x) \<notin> {0, 32}
     then Some (RpcBad ''recipient_pub must be 0 or 32 bytes'')
     else if length (snd_SenderHint x) \<notin> {0, 32} then Some (RpcBad ''sender_hint must be 0 or 32 bytes'')
     else if length (snd_MailboxID x) \<notin> {0, 16} then Some (RpcBad ''mailbox_id must be 0 or 16 bytes'')
     else None)"

definition Send_bad :: "Send \<Rightarrow> rpc_error option" where
  "Send_bad x = (if snd_Frame x = [] \<or> length (snd_Frame x) > MaxFrameBytes
     then Some (RpcBad ''frame out of bounds'') else None)"

definition Send_large :: "bytes \<Rightarrow> rpc_error option" where
  "Send_large b = (if length b > MaxFrameBytes + 1024 then Some (RpcBad ''send too large'') else None)"

definition Send_fields :: "Send \<Rightarrow> npfield list" where
  "Send_fields x = [(1, snd_Frame x), (2, snd_RecipientPub x), (3, snd_SenderHint x), (4, snd_MailboxID x),
     (5, to_bytes (snd_ShardURL x))]"

definition Send_zero :: Send where
  "Send_zero = \<lparr>snd_Frame = [], snd_RecipientPub = [], snd_SenderHint = [], snd_MailboxID = [], snd_ShardURL = []\<rparr>"

definition Send_field :: "npfield \<Rightarrow> Send \<Rightarrow> rpc_error + Send" where
  "Send_field f x =
     (let (i, data) = f in
      if i = 1 then Inr (x\<lparr>snd_Frame := data\<rparr>)
      else if i = 2 then Inr (x\<lparr>snd_RecipientPub := data\<rparr>)
      else if i = 3 then Inr (x\<lparr>snd_SenderHint := data\<rparr>)
      else if i = 4 then Inr (x\<lparr>snd_MailboxID := data\<rparr>)
      else if i = 5 then Inr (x\<lparr>snd_ShardURL := to_str data\<rparr>)
      else Inr x)"

definition MarshalSend :: "prims \<Rightarrow> Send \<Rightarrow> rpc_error + bytes" where
  "MarshalSend = rpc_enc Send_refuse Send_fields"

definition UnmarshalSend :: "prims \<Rightarrow> bytes \<Rightarrow> rpc_error + Send" where
  "UnmarshalSend = rpc_dec Send_large Send_field Send_zero Send_bad"

interpretation send_rpc: rpc_codec Send_refuse Send_fields Send_large Send_field Send_zero Send_bad
  by unfold_locales (auto simp: Send_fields_def Send_field_def Send_zero_def Send_refuse_def Send_bad_def Send_large_def
    rpc_checks split: if_splits intro!: Send.equality)

record Ack =
  ack_OK :: bool
  ack_Detail :: string

definition Ack_fields :: "Ack \<Rightarrow> npfield list" where
  "Ack_fields x = [(1, [bool_byte (ack_OK x)]), (2, to_bytes (ack_Detail x))]"

definition Ack_zero :: Ack where
  "Ack_zero = \<lparr>ack_OK = False, ack_Detail = []\<rparr>"

definition Ack_field :: "npfield \<Rightarrow> Ack \<Rightarrow> rpc_error + Ack" where
  "Ack_field f x =
     (let (i, data) = f in
      if i = 1 then (if length data \<noteq> 1 then Inl (RpcNp ErrShortBody) else Inr (x\<lparr>ack_OK := hd data = 1\<rparr>))
      else if i = 2 then Inr (x\<lparr>ack_Detail := to_str data\<rparr>)
      else Inr x)"

definition MarshalAck :: "prims \<Rightarrow> Ack \<Rightarrow> rpc_error + bytes" where
  "MarshalAck = rpc_enc (\<lambda>_. None) Ack_fields"

definition UnmarshalAck :: "prims \<Rightarrow> bytes \<Rightarrow> rpc_error + Ack" where
  "UnmarshalAck = rpc_dec (\<lambda>_. None) Ack_field Ack_zero (\<lambda>_. None)"

interpretation ack_rpc: rpc_codec "\<lambda>_. None" Ack_fields "\<lambda>_. None" Ack_field Ack_zero "\<lambda>_. None"
  by unfold_locales (auto simp: Ack_fields_def Ack_field_def Ack_zero_def 
    rpc_checks split: if_splits intro!: Ack.equality)

record Attach =
  att_MailboxID :: bytes
  att_ReadSecret :: bytes
  att_ShardURL :: string
  att_RouterURL :: string

definition Attach_bad :: "Attach \<Rightarrow> rpc_error option" where
  "Attach_bad x = (if length (att_MailboxID x) \<noteq> 16 \<or> length (att_ReadSecret x) \<noteq> 32
     \<or> att_ShardURL x = [] then Some (RpcBad ''bad attach'') else None)"

definition Attach_fields :: "Attach \<Rightarrow> npfield list" where
  "Attach_fields x = [(1, att_MailboxID x), (2, att_ReadSecret x), (3, to_bytes (att_ShardURL x)),
     (4, to_bytes (att_RouterURL x))]"

definition Attach_zero :: Attach where
  "Attach_zero = \<lparr>att_MailboxID = [], att_ReadSecret = [], att_ShardURL = [], att_RouterURL = []\<rparr>"

definition Attach_field :: "npfield \<Rightarrow> Attach \<Rightarrow> rpc_error + Attach" where
  "Attach_field f x =
     (let (i, data) = f in
      if i = 1 then Inr (x\<lparr>att_MailboxID := data\<rparr>)
      else if i = 2 then Inr (x\<lparr>att_ReadSecret := data\<rparr>)
      else if i = 3 then Inr (x\<lparr>att_ShardURL := to_str data\<rparr>)
      else if i = 4 then Inr (x\<lparr>att_RouterURL := to_str data\<rparr>)
      else Inr x)"

definition MarshalAttach :: "prims \<Rightarrow> Attach \<Rightarrow> rpc_error + bytes" where
  "MarshalAttach = rpc_enc Attach_bad Attach_fields"

definition UnmarshalAttach :: "prims \<Rightarrow> bytes \<Rightarrow> rpc_error + Attach" where
  "UnmarshalAttach = rpc_dec (\<lambda>_. None) Attach_field Attach_zero Attach_bad"

interpretation attach_rpc: rpc_codec Attach_bad Attach_fields "\<lambda>_. None" Attach_field Attach_zero Attach_bad
  by unfold_locales (auto simp: Attach_fields_def Attach_field_def Attach_zero_def Attach_bad_def
    rpc_checks split: if_splits intro!: Attach.equality)

definition bad_detach :: "bytes \<Rightarrow> rpc_error option" where
  "bad_detach x = (if length x \<noteq> 16 then Some (RpcBad ''bad detach'') else None)"

definition Detach_fields :: "bytes \<Rightarrow> npfield list" where
  "Detach_fields x = [(1, x)]"

definition Detach_field :: "npfield \<Rightarrow> bytes \<Rightarrow> rpc_error + bytes" where
  "Detach_field f x = (let (i, data) = f in if i = 1 then Inr data else Inr x)"

definition MarshalDetach :: "prims \<Rightarrow> bytes \<Rightarrow> rpc_error + bytes" where
  "MarshalDetach = rpc_enc bad_detach Detach_fields"

definition UnmarshalDetach :: "prims \<Rightarrow> bytes \<Rightarrow> rpc_error + bytes" where
  "UnmarshalDetach = rpc_dec (\<lambda>_. None) Detach_field [] bad_detach"

interpretation detach_rpc: rpc_codec bad_detach Detach_fields "\<lambda>_. None" Detach_field "[]" bad_detach
  by unfold_locales (auto simp: Detach_fields_def Detach_field_def)

record Status =
  sts_Running :: bool
  sts_Detail :: string

definition Status_fields :: "Status \<Rightarrow> npfield list" where
  "Status_fields x = [(1, [bool_byte (sts_Running x)]), (2, to_bytes (sts_Detail x))]"

definition Status_zero :: Status where
  "Status_zero = \<lparr>sts_Running = False, sts_Detail = []\<rparr>"

definition Status_field :: "npfield \<Rightarrow> Status \<Rightarrow> rpc_error + Status" where
  "Status_field f x =
     (let (i, data) = f in
      if i = 1 then (if length data \<noteq> 1 then Inl (RpcNp ErrShortBody) else Inr (x\<lparr>sts_Running := hd data = 1\<rparr>))
      else if i = 2 then Inr (x\<lparr>sts_Detail := to_str data\<rparr>)
      else Inr x)"

definition MarshalStatus :: "prims \<Rightarrow> Status \<Rightarrow> rpc_error + bytes" where
  "MarshalStatus = rpc_enc (\<lambda>_. None) Status_fields"

definition UnmarshalStatus :: "prims \<Rightarrow> bytes \<Rightarrow> rpc_error + Status" where
  "UnmarshalStatus = rpc_dec (\<lambda>_. None) Status_field Status_zero (\<lambda>_. None)"

interpretation status_rpc: rpc_codec "\<lambda>_. None" Status_fields "\<lambda>_. None" Status_field Status_zero "\<lambda>_. None"
  by unfold_locales (auto simp: Status_fields_def Status_field_def Status_zero_def 
    rpc_checks split: if_splits intro!: Status.equality)

record RPCError =
  err_Code :: "32 word"
  err_Detail :: string

definition RPCError_bad :: "RPCError \<Rightarrow> rpc_error option" where
  "RPCError_bad x = (if err_Code x = 0 then Some (RpcBad ''error code 0 reserved'') else None)"

definition RPCError_fields :: "RPCError \<Rightarrow> npfield list" where
  "RPCError_fields x = [(1, putU32 (err_Code x)), (2, to_bytes (err_Detail x))]"

definition RPCError_zero :: RPCError where
  "RPCError_zero = \<lparr>err_Code = 0, err_Detail = []\<rparr>"

definition RPCError_field :: "npfield \<Rightarrow> RPCError \<Rightarrow> rpc_error + RPCError" where
  "RPCError_field f x =
     (let (i, data) = f in
      if i = 1 then (case rpc_getU32 data of Inl e \<Rightarrow> Inl (RpcNp e) | Inr v \<Rightarrow> Inr (x\<lparr>err_Code := v\<rparr>))
      else if i = 2 then Inr (x\<lparr>err_Detail := to_str data\<rparr>)
      else Inr x)"

definition MarshalError :: "prims \<Rightarrow> RPCError \<Rightarrow> rpc_error + bytes" where
  "MarshalError = rpc_enc (\<lambda>_. None) RPCError_fields"

definition UnmarshalError :: "prims \<Rightarrow> bytes \<Rightarrow> rpc_error + RPCError" where
  "UnmarshalError = rpc_dec (\<lambda>_. None) RPCError_field RPCError_zero RPCError_bad"

interpretation error_rpc: rpc_codec RPCError_bad RPCError_fields "\<lambda>_. None" RPCError_field RPCError_zero RPCError_bad
  by unfold_locales (auto simp: RPCError_fields_def RPCError_field_def RPCError_zero_def RPCError_bad_def
    rpc_checks split: if_splits intro!: RPCError.equality)

subsection \<open>Polling\<close>

record Poll =
  pol_Limit :: byte
  pol_MailboxID :: bytes

text \<open>A limit of zero stands for 32, on both sides.\<close>

definition poll_limit :: "byte \<Rightarrow> byte" where
  "poll_limit n = (if n = 0 then 32 else n)"

definition Poll_fields :: "Poll \<Rightarrow> npfield list" where
  "Poll_fields x = [(1, [poll_limit (pol_Limit x)]), (2, pol_MailboxID x)]"

definition Poll_field :: "npfield \<Rightarrow> Poll \<Rightarrow> rpc_error + Poll" where
  "Poll_field f x =
     (let (i, data) = f in
      if i = 1 then (if length data \<noteq> 1 then Inl (RpcNp ErrShortBody) else Inr (x\<lparr>pol_Limit := hd data\<rparr>))
      else if i = 2 then Inr (x\<lparr>pol_MailboxID := data\<rparr>)
      else Inr x)"

definition bad_poll :: "Poll \<Rightarrow> rpc_error option" where
  "bad_poll x = (if length (pol_MailboxID x) \<noteq> 0 \<and> length (pol_MailboxID x) \<noteq> 16 then Some (RpcBad ''bad poll mailbox'') else None)"

definition MarshalPoll :: "prims \<Rightarrow> Poll \<Rightarrow> rpc_error + bytes" where
  "MarshalPoll = rpc_enc bad_poll Poll_fields"

definition UnmarshalPoll :: "prims \<Rightarrow> bytes \<Rightarrow> rpc_error + Poll" where
  "UnmarshalPoll P body =
     (case rpc_dec (\<lambda>_. None) Poll_field \<lparr>pol_Limit = 0, pol_MailboxID = []\<rparr> bad_poll P body of
        Inl e \<Rightarrow> Inl e
      | Inr x \<Rightarrow> Inr (x\<lparr>pol_Limit := poll_limit (pol_Limit x)\<rparr>))"

subsection \<open>Poll results\<close>

definition put_frame :: "bytes \<Rightarrow> bytes" where
  "put_frame f = putU32 (word_of_nat (length f)) @ f"

definition frame_bad :: "bytes \<Rightarrow> bool" where
  "frame_bad f \<longleftrightarrow> f = [] \<or> length f > MaxFrameBytes"

definition MarshalPollResult :: "prims \<Rightarrow> bytes list \<Rightarrow> rpc_error + bytes" where
  "MarshalPollResult P frames =
     (if length frames > 32 then Inl (RpcBad ''too many frames'')
      else if list_ex frame_bad frames then Inl (RpcBad ''frame out of bounds'')
      else case p_np_enc P [(1, concat (map put_frame frames)), (2, putU32 (word_of_nat (length frames)))] of
        None \<Rightarrow> Inl (RpcNp NpEncode) | Some b \<Rightarrow> Inr b)"

text \<open>The loop stops after \<open>cnt\<close> frames; what is left of the blob is returned to the check for trailing bytes.\<close>

fun read_frames :: "nat \<Rightarrow> bytes \<Rightarrow> rpc_error + bytes list \<times> bytes" where
  "read_frames 0 blob = Inr ([], blob)"
| "read_frames (Suc k) blob =
     (if length blob < 4 then Inl (RpcBad ''poll result truncated'')
      else
        let n = be_get (take 4 blob); rest = drop 4 blob in
        if n = 0 \<or> n > MaxFrameBytes \<or> n > length rest then Inl (RpcBad ''frame out of bounds'')
        else case read_frames k (drop n rest) of
          Inl e \<Rightarrow> Inl e
        | Inr (fs, left) \<Rightarrow> Inr (take n rest # fs, left))"

definition poll_field :: "npfield \<Rightarrow> bytes \<times> 32 word option \<Rightarrow> rpc_error + bytes \<times> 32 word option" where
  "poll_field f st =
     (let (i, data) = f; (blob, cnt) = st in
      if i = 1 then Inr (data, cnt)
      else if i = 2 then (case rpc_getU32 data of Inl e \<Rightarrow> Inl (RpcNp e) | Inr v \<Rightarrow> Inr (blob, Some v))
      else Inr st)"

definition UnmarshalPollResult :: "prims \<Rightarrow> bytes \<Rightarrow> rpc_error + bytes list" where
  "UnmarshalPollResult P body =
     (case p_np_dec P body of
        None \<Rightarrow> Inl (RpcNp NpDecode)
      | Some fs \<Rightarrow>
          (case fold_fields poll_field fs ([], None) of
             Inl e \<Rightarrow> Inl e
           | Inr (blob, None) \<Rightarrow> Inl (RpcBad ''bad poll result'')
           | Inr (blob, Some cnt) \<Rightarrow>
               if cnt > 32 then Inl (RpcBad ''bad poll result'')
               else case read_frames (unat cnt) blob of
                 Inl e \<Rightarrow> Inl e
               | Inr (out, left) \<Rightarrow> if left \<noteq> [] then Inl (RpcBad ''poll result trailing bytes'') else Inr out))"

subsection \<open>Capabilities\<close>

record Caps =
  cap_Capabilities :: "string list"
  cap_TransportID :: string
  cap_Version :: string

definition put_cap :: "string \<Rightarrow> bytes" where
  "put_cap c = putU16 (word_of_nat (length c)) @ to_bytes c"

definition MarshalCaps :: "prims \<Rightarrow> Caps \<Rightarrow> rpc_error + bytes" where
  "MarshalCaps P x =
     (if list_ex (\<lambda>c. c = [] \<or> length c > 64) (cap_Capabilities x) then Inl (RpcBad ''bad capability'')
      else case p_np_enc P [(1, concat (map put_cap (cap_Capabilities x))), (2, to_bytes (cap_TransportID x)), (3, to_bytes (cap_Version x))] of
        None \<Rightarrow> Inl (RpcNp NpEncode) | Some b \<Rightarrow> Inr b)"

function read_caps :: "bytes \<Rightarrow> np_error + string list" where
  "read_caps data =
     (if data = [] then Inr []
      else if length data < 2 then Inl ErrShortBody
      else
        let n = be_get (take 2 data); rest = drop 2 data in
        if n = 0 \<or> n > length rest then Inl ErrShortBody
        else case read_caps (drop n rest) of Inl e \<Rightarrow> Inl e | Inr cs \<Rightarrow> Inr (to_str (take n rest) # cs))"
  by pat_completeness auto
termination by (relation "measure length") auto

declare read_caps.simps [simp del]

definition Caps_field :: "npfield \<Rightarrow> Caps \<Rightarrow> rpc_error + Caps" where
  "Caps_field f x =
     (let (i, data) = f in
      if i = 1 then (case read_caps data of Inl e \<Rightarrow> Inl (RpcNp e)
                     | Inr cs \<Rightarrow> Inr (x\<lparr>cap_Capabilities := cap_Capabilities x @ cs\<rparr>))
      else if i = 2 then Inr (x\<lparr>cap_TransportID := to_str data\<rparr>)
      else if i = 3 then Inr (x\<lparr>cap_Version := to_str data\<rparr>)
      else Inr x)"

definition UnmarshalCaps :: "prims \<Rightarrow> bytes \<Rightarrow> rpc_error + Caps" where
  "UnmarshalCaps = rpc_dec (\<lambda>_. None) Caps_field \<lparr>cap_Capabilities = [], cap_TransportID = [], cap_Version = []\<rparr>
     (\<lambda>x. if cap_TransportID x = [] then Some (RpcBad ''empty transport id'') else None)"

subsection \<open>Start and stop\<close>

definition MarshalStartStop :: "prims \<Rightarrow> byte \<Rightarrow> rpc_error + bytes" where
  "MarshalStartStop = rpc_enc (\<lambda>a. if a \<noteq> ActionStart \<and> a \<noteq> ActionStop then Some (RpcBad ''bad action'') else None) (\<lambda>a. [(1, [a])])"

definition UnmarshalStartStop :: "prims \<Rightarrow> bytes \<Rightarrow> rpc_error + byte" where
  "UnmarshalStartStop P body =
     (case p_np_dec P body of
        None \<Rightarrow> Inl (RpcNp NpDecode)
      | Some fs \<Rightarrow>
          (case List.find (\<lambda>f. fst f = 1) fs of
             None \<Rightarrow> Inl (RpcBad ''missing action'')
           | Some (_, data) \<Rightarrow>
               if length data \<noteq> 1 then Inl (RpcNp ErrShortBody)
               else if hd data \<noteq> ActionStart \<and> hd data \<noteq> ActionStop then Inl (RpcBad ''bad action'')
               else Inr (hd data)))"

end
