(* ===== verification/RpcFile.thy ===== *)
theory RpcFile
  imports Rpc
begin

text \<open>
  The messages for mailboxes and binary transfers of the transport protocol
  (\<^verbatim>\<open>src/internal/transport/rpc_file.go\<close>), in the order of the source.
\<close>

definition MaxXferManifest :: nat where "MaxXferManifest = 4096"

definition xfer_chunk_max :: nat where "xfer_chunk_max = 64 * 1024"

subsection \<open>Registration and resolution\<close>

record IdentityRegisterReq =
  irq_Pubkey :: bytes
  irq_Timestamp :: "64 word"
  irq_Nonce :: bytes
  irq_Signature :: bytes
  irq_RouterURL :: string

definition IdentityRegisterReq_bad :: "IdentityRegisterReq \<Rightarrow> rpc_error option" where
  "IdentityRegisterReq_bad x = (if length (irq_Pubkey x) \<noteq> 32 \<or> length (irq_Nonce x) \<noteq> 16
     \<or> length (irq_Signature x) \<noteq> 64 \<or> length (irq_RouterURL x) > 512
     then Some (RpcBad ''bad identity register request'') else None)"

definition IdentityRegisterReq_fields :: "IdentityRegisterReq \<Rightarrow> npfield list" where
  "IdentityRegisterReq_fields x = [(1, irq_Pubkey x), (2, putU64 (irq_Timestamp x)), (3, irq_Nonce x),
     (4, irq_Signature x)] @ (if irq_RouterURL x \<noteq> [] then [(5, to_bytes (irq_RouterURL x))] else [])"

definition IdentityRegisterReq_zero :: IdentityRegisterReq where
  "IdentityRegisterReq_zero = \<lparr>irq_Pubkey = [], irq_Timestamp = 0, irq_Nonce = [], irq_Signature = [], irq_RouterURL = []\<rparr>"

definition IdentityRegisterReq_field :: "npfield \<Rightarrow> IdentityRegisterReq \<Rightarrow> rpc_error + IdentityRegisterReq" where
  "IdentityRegisterReq_field f x =
     (let (i, data) = f in
      if i = 1 then Inr (x\<lparr>irq_Pubkey := data\<rparr>)
      else if i = 2 then (case rpc_getU64 data of Inl e \<Rightarrow> Inl (RpcNp e) | Inr v \<Rightarrow> Inr (x\<lparr>irq_Timestamp := v\<rparr>))
      else if i = 3 then Inr (x\<lparr>irq_Nonce := data\<rparr>)
      else if i = 4 then Inr (x\<lparr>irq_Signature := data\<rparr>)
      else if i = 5 then Inr (x\<lparr>irq_RouterURL := to_str data\<rparr>)
      else Inr x)"

definition MarshalIdentityRegisterReq :: "prims \<Rightarrow> IdentityRegisterReq \<Rightarrow> rpc_error + bytes" where
  "MarshalIdentityRegisterReq = rpc_enc IdentityRegisterReq_bad IdentityRegisterReq_fields"

definition UnmarshalIdentityRegisterReq :: "prims \<Rightarrow> bytes \<Rightarrow> rpc_error + IdentityRegisterReq" where
  "UnmarshalIdentityRegisterReq = rpc_dec (\<lambda>_. None) IdentityRegisterReq_field IdentityRegisterReq_zero IdentityRegisterReq_bad"

interpretation identityRegisterReq_rpc: rpc_codec IdentityRegisterReq_bad IdentityRegisterReq_fields "\<lambda>_. None" IdentityRegisterReq_field IdentityRegisterReq_zero IdentityRegisterReq_bad
  by unfold_locales (auto simp: IdentityRegisterReq_fields_def IdentityRegisterReq_field_def IdentityRegisterReq_zero_def IdentityRegisterReq_bad_def
    rpc_checks split: if_splits intro!: IdentityRegisterReq.equality)

record RegisterReq =
  rrq_UserTag :: string
  rrq_RouterURL :: string

definition RegisterReq_refuse :: "RegisterReq \<Rightarrow> rpc_error option" where
  "RegisterReq_refuse x = (if rrq_UserTag x = [] \<or> length (rrq_UserTag x) > 128
     \<or> length (rrq_RouterURL x) > 512 then Some (RpcBad ''bad register request'') else None)"

definition RegisterReq_bad :: "RegisterReq \<Rightarrow> rpc_error option" where
  "RegisterReq_bad x = (if rrq_UserTag x = [] then Some (RpcBad ''bad register request'') else None)"

definition RegisterReq_fields :: "RegisterReq \<Rightarrow> npfield list" where
  "RegisterReq_fields x = [(1, to_bytes (rrq_UserTag x)), (2, to_bytes (rrq_RouterURL x))]"

definition RegisterReq_zero :: RegisterReq where
  "RegisterReq_zero = \<lparr>rrq_UserTag = [], rrq_RouterURL = []\<rparr>"

definition RegisterReq_field :: "npfield \<Rightarrow> RegisterReq \<Rightarrow> rpc_error + RegisterReq" where
  "RegisterReq_field f x =
     (let (i, data) = f in
      if i = 1 then Inr (x\<lparr>rrq_UserTag := to_str data\<rparr>)
      else if i = 2 then Inr (x\<lparr>rrq_RouterURL := to_str data\<rparr>)
      else Inr x)"

definition MarshalRegisterReq :: "prims \<Rightarrow> RegisterReq \<Rightarrow> rpc_error + bytes" where
  "MarshalRegisterReq = rpc_enc RegisterReq_refuse RegisterReq_fields"

definition UnmarshalRegisterReq :: "prims \<Rightarrow> bytes \<Rightarrow> rpc_error + RegisterReq" where
  "UnmarshalRegisterReq = rpc_dec (\<lambda>_. None) RegisterReq_field RegisterReq_zero RegisterReq_bad"

interpretation registerReq_rpc: rpc_codec RegisterReq_refuse RegisterReq_fields "\<lambda>_. None" RegisterReq_field RegisterReq_zero RegisterReq_bad
  by unfold_locales (auto simp: RegisterReq_fields_def RegisterReq_field_def RegisterReq_zero_def RegisterReq_refuse_def RegisterReq_bad_def
    rpc_checks split: if_splits intro!: RegisterReq.equality)

record RegisterResult =
  rrs_MailboxID :: bytes
  rrs_ReadSecret :: bytes
  rrs_ShardURL :: string
  rrs_RouterURL :: string

definition RegisterResult_bad :: "RegisterResult \<Rightarrow> rpc_error option" where
  "RegisterResult_bad x = (if length (rrs_MailboxID x) \<noteq> 16 \<or> length (rrs_ReadSecret x) \<noteq> 32
     \<or> rrs_ShardURL x = [] then Some (RpcBad ''bad register result'') else None)"

definition RegisterResult_fields :: "RegisterResult \<Rightarrow> npfield list" where
  "RegisterResult_fields x = [(1, rrs_MailboxID x), (2, rrs_ReadSecret x), (3, to_bytes (rrs_ShardURL x)),
     (4, to_bytes (rrs_RouterURL x))]"

definition RegisterResult_zero :: RegisterResult where
  "RegisterResult_zero = \<lparr>rrs_MailboxID = [], rrs_ReadSecret = [], rrs_ShardURL = [], rrs_RouterURL = []\<rparr>"

definition RegisterResult_field :: "npfield \<Rightarrow> RegisterResult \<Rightarrow> rpc_error + RegisterResult" where
  "RegisterResult_field f x =
     (let (i, data) = f in
      if i = 1 then Inr (x\<lparr>rrs_MailboxID := data\<rparr>)
      else if i = 2 then Inr (x\<lparr>rrs_ReadSecret := data\<rparr>)
      else if i = 3 then Inr (x\<lparr>rrs_ShardURL := to_str data\<rparr>)
      else if i = 4 then Inr (x\<lparr>rrs_RouterURL := to_str data\<rparr>)
      else Inr x)"

definition MarshalRegisterResult :: "prims \<Rightarrow> RegisterResult \<Rightarrow> rpc_error + bytes" where
  "MarshalRegisterResult = rpc_enc RegisterResult_bad RegisterResult_fields"

definition UnmarshalRegisterResult :: "prims \<Rightarrow> bytes \<Rightarrow> rpc_error + RegisterResult" where
  "UnmarshalRegisterResult = rpc_dec (\<lambda>_. None) RegisterResult_field RegisterResult_zero RegisterResult_bad"

interpretation registerResult_rpc: rpc_codec RegisterResult_bad RegisterResult_fields "\<lambda>_. None" RegisterResult_field RegisterResult_zero RegisterResult_bad
  by unfold_locales (auto simp: RegisterResult_fields_def RegisterResult_field_def RegisterResult_zero_def RegisterResult_bad_def
    rpc_checks split: if_splits intro!: RegisterResult.equality)

record ResolveReq =
  rsq_RecipientPub :: bytes
  rsq_RouterURL :: string

definition ResolveReq_refuse :: "ResolveReq \<Rightarrow> rpc_error option" where
  "ResolveReq_refuse x = (if length (rsq_RecipientPub x) \<noteq> 32
     then Some (RpcBad ''recipient_pub must be 32 bytes'') else None)"

definition ResolveReq_bad :: "ResolveReq \<Rightarrow> rpc_error option" where
  "ResolveReq_bad x = (if length (rsq_RecipientPub x) \<noteq> 32 then Some (RpcBad ''bad resolve request'')
     else None)"

definition ResolveReq_fields :: "ResolveReq \<Rightarrow> npfield list" where
  "ResolveReq_fields x = [(1, rsq_RecipientPub x), (2, to_bytes (rsq_RouterURL x))]"

definition ResolveReq_zero :: ResolveReq where
  "ResolveReq_zero = \<lparr>rsq_RecipientPub = [], rsq_RouterURL = []\<rparr>"

definition ResolveReq_field :: "npfield \<Rightarrow> ResolveReq \<Rightarrow> rpc_error + ResolveReq" where
  "ResolveReq_field f x =
     (let (i, data) = f in
      if i = 1 then Inr (x\<lparr>rsq_RecipientPub := data\<rparr>)
      else if i = 2 then Inr (x\<lparr>rsq_RouterURL := to_str data\<rparr>)
      else Inr x)"

definition MarshalResolveReq :: "prims \<Rightarrow> ResolveReq \<Rightarrow> rpc_error + bytes" where
  "MarshalResolveReq = rpc_enc ResolveReq_refuse ResolveReq_fields"

definition UnmarshalResolveReq :: "prims \<Rightarrow> bytes \<Rightarrow> rpc_error + ResolveReq" where
  "UnmarshalResolveReq = rpc_dec (\<lambda>_. None) ResolveReq_field ResolveReq_zero ResolveReq_bad"

interpretation resolveReq_rpc: rpc_codec ResolveReq_refuse ResolveReq_fields "\<lambda>_. None" ResolveReq_field ResolveReq_zero ResolveReq_bad
  by unfold_locales (auto simp: ResolveReq_fields_def ResolveReq_field_def ResolveReq_zero_def ResolveReq_refuse_def ResolveReq_bad_def
    rpc_checks split: if_splits intro!: ResolveReq.equality)

record ResolveResult =
  rss_MailboxID :: bytes
  rss_ShardURL :: string

definition ResolveResult_bad :: "ResolveResult \<Rightarrow> rpc_error option" where
  "ResolveResult_bad x = (if length (rss_MailboxID x) \<noteq> 16 \<or> rss_ShardURL x = []
     then Some (RpcBad ''bad resolve result'') else None)"

definition ResolveResult_fields :: "ResolveResult \<Rightarrow> npfield list" where
  "ResolveResult_fields x = [(1, rss_MailboxID x), (2, to_bytes (rss_ShardURL x))]"

definition ResolveResult_zero :: ResolveResult where
  "ResolveResult_zero = \<lparr>rss_MailboxID = [], rss_ShardURL = []\<rparr>"

definition ResolveResult_field :: "npfield \<Rightarrow> ResolveResult \<Rightarrow> rpc_error + ResolveResult" where
  "ResolveResult_field f x =
     (let (i, data) = f in
      if i = 1 then Inr (x\<lparr>rss_MailboxID := data\<rparr>)
      else if i = 2 then Inr (x\<lparr>rss_ShardURL := to_str data\<rparr>)
      else Inr x)"

definition MarshalResolveResult :: "prims \<Rightarrow> ResolveResult \<Rightarrow> rpc_error + bytes" where
  "MarshalResolveResult = rpc_enc ResolveResult_bad ResolveResult_fields"

definition UnmarshalResolveResult :: "prims \<Rightarrow> bytes \<Rightarrow> rpc_error + ResolveResult" where
  "UnmarshalResolveResult = rpc_dec (\<lambda>_. None) ResolveResult_field ResolveResult_zero ResolveResult_bad"

interpretation resolveResult_rpc: rpc_codec ResolveResult_bad ResolveResult_fields "\<lambda>_. None" ResolveResult_field ResolveResult_zero ResolveResult_bad
  by unfold_locales (auto simp: ResolveResult_fields_def ResolveResult_field_def ResolveResult_zero_def ResolveResult_bad_def
    rpc_checks split: if_splits intro!: ResolveResult.equality)

subsection \<open>Creating a transfer\<close>

record XferCreate =
  xcr_Total :: "64 word"
  xcr_ChunkSize :: "32 word"
  xcr_ChunkCount :: "32 word"
  xcr_Manifest :: bytes
  xcr_MailboxID :: bytes
  xcr_RecipientPub :: bytes
  xcr_ShardURL :: string

definition XferCreate_refuse :: "XferCreate \<Rightarrow> rpc_error option" where
  "XferCreate_refuse x = (if length (xcr_Manifest x) > MaxXferManifest then Some (RpcBad ''manifest too large'')
     else if length (xcr_MailboxID x) \<notin> {0, 16} then Some (RpcBad ''bad mailbox'')
     else if length (xcr_RecipientPub x) \<notin> {0, 32} then Some (RpcBad ''bad recipient'')
     else if xcr_ChunkSize x = 0 \<or> xcr_ChunkSize x > 64 * 1024 \<or> xcr_ChunkCount x = 0
     \<or> xcr_ChunkCount x > 16384 \<or> xcr_Total x = 0 then Some (RpcBad ''bad transfer params'') else None)"

definition XferCreate_bad :: "XferCreate \<Rightarrow> rpc_error option" where
  "XferCreate_bad x = (if xcr_Total x = 0 \<or> xcr_ChunkSize x = 0 \<or> xcr_ChunkSize x > 64 * 1024
     \<or> xcr_ChunkCount x = 0 \<or> xcr_ChunkCount x > 16384 then Some (RpcBad ''bad transfer params'') else None)"

definition XferCreate_large :: "bytes \<Rightarrow> rpc_error option" where
  "XferCreate_large b = (if length b > MaxXferManifest + 256 then Some (RpcBad ''create too large'') else None)"

definition XferCreate_fields :: "XferCreate \<Rightarrow> npfield list" where
  "XferCreate_fields x = [(1, putU64 (xcr_Total x)), (2, putU32 (xcr_ChunkSize x)), (3, putU32 (xcr_ChunkCount x)),
     (4, xcr_Manifest x), (5, xcr_MailboxID x), (6, xcr_RecipientPub x), (7, to_bytes (xcr_ShardURL x))]"

definition XferCreate_zero :: XferCreate where
  "XferCreate_zero = \<lparr>xcr_Total = 0, xcr_ChunkSize = 0, xcr_ChunkCount = 0, xcr_Manifest = [], xcr_MailboxID = [], xcr_RecipientPub = [], xcr_ShardURL = []\<rparr>"

definition XferCreate_field :: "npfield \<Rightarrow> XferCreate \<Rightarrow> rpc_error + XferCreate" where
  "XferCreate_field f x =
     (let (i, data) = f in
      if i = 1 then (case rpc_getU64 data of Inl e \<Rightarrow> Inl (RpcNp e) | Inr v \<Rightarrow> Inr (x\<lparr>xcr_Total := v\<rparr>))
      else if i = 2 then (case rpc_getU32 data of Inl e \<Rightarrow> Inl (RpcNp e) | Inr v \<Rightarrow> Inr (x\<lparr>xcr_ChunkSize := v\<rparr>))
      else if i = 3 then (case rpc_getU32 data of Inl e \<Rightarrow> Inl (RpcNp e) | Inr v \<Rightarrow> Inr (x\<lparr>xcr_ChunkCount := v\<rparr>))
      else if i = 4 then Inr (x\<lparr>xcr_Manifest := data\<rparr>)
      else if i = 5 then Inr (x\<lparr>xcr_MailboxID := data\<rparr>)
      else if i = 6 then Inr (x\<lparr>xcr_RecipientPub := data\<rparr>)
      else if i = 7 then Inr (x\<lparr>xcr_ShardURL := to_str data\<rparr>)
      else Inr x)"

definition MarshalXferCreate :: "prims \<Rightarrow> XferCreate \<Rightarrow> rpc_error + bytes" where
  "MarshalXferCreate = rpc_enc XferCreate_refuse XferCreate_fields"

definition UnmarshalXferCreate :: "prims \<Rightarrow> bytes \<Rightarrow> rpc_error + XferCreate" where
  "UnmarshalXferCreate = rpc_dec XferCreate_large XferCreate_field XferCreate_zero XferCreate_bad"

interpretation xferCreate_rpc: rpc_codec XferCreate_refuse XferCreate_fields XferCreate_large XferCreate_field XferCreate_zero XferCreate_bad
  by unfold_locales (auto simp: XferCreate_fields_def XferCreate_field_def XferCreate_zero_def XferCreate_refuse_def XferCreate_bad_def XferCreate_large_def
    rpc_checks split: if_splits intro!: XferCreate.equality)

record XferCreated =
  xcd_TransferID :: bytes
  xcd_Expires :: "64 word"
  xcd_DownloadSecret :: bytes
  xcd_ShardURL :: string

definition XferCreated_refuse :: "XferCreated \<Rightarrow> rpc_error option" where
  "XferCreated_refuse x = (if length (xcd_TransferID x) \<noteq> 16 then Some (RpcBad ''bad transfer id'')
     else if length (xcd_DownloadSecret x) \<noteq> 32 then Some (RpcBad ''bad download secret'') else None)"

definition XferCreated_bad :: "XferCreated \<Rightarrow> rpc_error option" where
  "XferCreated_bad x = (if length (xcd_TransferID x) \<noteq> 16 then Some (RpcBad ''bad transfer id'')
     else if length (xcd_DownloadSecret x) \<noteq> 32
     then Some (RpcBad ''bad download secret (transport too old for tickets?)'') else None)"

definition XferCreated_fields :: "XferCreated \<Rightarrow> npfield list" where
  "XferCreated_fields x = [(1, xcd_TransferID x), (2, putU64 (xcd_Expires x)), (3, xcd_DownloadSecret x),
     (4, to_bytes (xcd_ShardURL x))]"

definition XferCreated_zero :: XferCreated where
  "XferCreated_zero = \<lparr>xcd_TransferID = [], xcd_Expires = 0, xcd_DownloadSecret = [], xcd_ShardURL = []\<rparr>"

definition XferCreated_field :: "npfield \<Rightarrow> XferCreated \<Rightarrow> rpc_error + XferCreated" where
  "XferCreated_field f x =
     (let (i, data) = f in
      if i = 1 then Inr (x\<lparr>xcd_TransferID := data\<rparr>)
      else if i = 2 then (case rpc_getU64 data of Inl e \<Rightarrow> Inl (RpcNp e) | Inr v \<Rightarrow> Inr (x\<lparr>xcd_Expires := v\<rparr>))
      else if i = 3 then Inr (x\<lparr>xcd_DownloadSecret := data\<rparr>)
      else if i = 4 then Inr (x\<lparr>xcd_ShardURL := to_str data\<rparr>)
      else Inr x)"

definition MarshalXferCreated :: "prims \<Rightarrow> XferCreated \<Rightarrow> rpc_error + bytes" where
  "MarshalXferCreated = rpc_enc XferCreated_refuse XferCreated_fields"

definition UnmarshalXferCreated :: "prims \<Rightarrow> bytes \<Rightarrow> rpc_error + XferCreated" where
  "UnmarshalXferCreated = rpc_dec (\<lambda>_. None) XferCreated_field XferCreated_zero XferCreated_bad"

interpretation xferCreated_rpc: rpc_codec XferCreated_refuse XferCreated_fields "\<lambda>_. None" XferCreated_field XferCreated_zero XferCreated_bad
  by unfold_locales (auto simp: XferCreated_fields_def XferCreated_field_def XferCreated_zero_def XferCreated_refuse_def XferCreated_bad_def
    rpc_checks split: if_splits intro!: XferCreated.equality)

subsection \<open>Chunks\<close>

record XferPut =
  xpt_TransferID :: bytes
  xpt_Index :: "32 word"
  xpt_Payload :: bytes
  xpt_Hash :: bytes
  xpt_Offset :: "64 word"

definition XferPut_refuse :: "XferPut \<Rightarrow> rpc_error option" where
  "XferPut_refuse x = (if length (xpt_TransferID x) \<noteq> 16 \<or> xpt_Payload x = []
     \<or> length (xpt_Payload x) > xfer_chunk_max \<or> length (xpt_Hash x) \<noteq> 32
     then Some (RpcBad ''bad chunk'') else None)"

definition XferPut_bad :: "XferPut \<Rightarrow> rpc_error option" where
  "XferPut_bad x = (if length (xpt_TransferID x) \<noteq> 16 \<or> xpt_Payload x = []
     \<or> length (xpt_Hash x) \<noteq> 32 then Some (RpcBad ''bad chunk'') else None)"

definition XferPut_large :: "bytes \<Rightarrow> rpc_error option" where
  "XferPut_large b = (if length b > xfer_chunk_max + 256 then Some (RpcBad ''chunk too large'') else None)"

definition XferPut_fields :: "XferPut \<Rightarrow> npfield list" where
  "XferPut_fields x = [(1, xpt_TransferID x), (2, putU32 (xpt_Index x)), (3, xpt_Payload x), (4, xpt_Hash x),
     (5, putU64 (xpt_Offset x))]"

definition XferPut_zero :: XferPut where
  "XferPut_zero = \<lparr>xpt_TransferID = [], xpt_Index = 0, xpt_Payload = [], xpt_Hash = [], xpt_Offset = 0\<rparr>"

definition XferPut_field :: "npfield \<Rightarrow> XferPut \<Rightarrow> rpc_error + XferPut" where
  "XferPut_field f x =
     (let (i, data) = f in
      if i = 1 then Inr (x\<lparr>xpt_TransferID := data\<rparr>)
      else if i = 2 then (case rpc_getU32 data of Inl e \<Rightarrow> Inl (RpcNp e) | Inr v \<Rightarrow> Inr (x\<lparr>xpt_Index := v\<rparr>))
      else if i = 3 then Inr (x\<lparr>xpt_Payload := data\<rparr>)
      else if i = 4 then Inr (x\<lparr>xpt_Hash := data\<rparr>)
      else if i = 5 then (case rpc_getU64 data of Inl e \<Rightarrow> Inl (RpcNp e) | Inr v \<Rightarrow> Inr (x\<lparr>xpt_Offset := v\<rparr>))
      else Inr x)"

definition MarshalXferPut :: "prims \<Rightarrow> XferPut \<Rightarrow> rpc_error + bytes" where
  "MarshalXferPut = rpc_enc XferPut_refuse XferPut_fields"

definition UnmarshalXferPut :: "prims \<Rightarrow> bytes \<Rightarrow> rpc_error + XferPut" where
  "UnmarshalXferPut = rpc_dec XferPut_large XferPut_field XferPut_zero XferPut_bad"

interpretation xferPut_rpc: rpc_codec XferPut_refuse XferPut_fields XferPut_large XferPut_field XferPut_zero XferPut_bad
  by unfold_locales (auto simp: XferPut_fields_def XferPut_field_def XferPut_zero_def XferPut_refuse_def XferPut_bad_def XferPut_large_def
    rpc_checks split: if_splits intro!: XferPut.equality)

record XferProgress =
  xpg_Highest :: "32 word"
  xpg_Count :: "32 word"
  xpg_MissingRanges :: bytes
  xpg_Bitmap :: bytes
  xpg_Encoding :: byte

definition XferProgress_refuse :: "XferProgress \<Rightarrow> rpc_error option" where
  "XferProgress_refuse x = (if length (xpg_MissingRanges x) mod 8 \<noteq> 0
     \<or> length (xpg_MissingRanges x) > 8 * 1024 then Some (RpcBad ''bad ranges'') else None)"

definition XferProgress_bad :: "XferProgress \<Rightarrow> rpc_error option" where
  "XferProgress_bad x = (if length (xpg_MissingRanges x) mod 8 \<noteq> 0 then Some (RpcBad ''bad ranges'')
     else None)"

definition XferProgress_fields :: "XferProgress \<Rightarrow> npfield list" where
  "XferProgress_fields x = [(1, putU32 (xpg_Highest x)), (2, xpg_MissingRanges x), (3, xpg_Bitmap x),
     (4, [xpg_Encoding x]), (5, putU32 (xpg_Count x))]"

definition XferProgress_zero :: XferProgress where
  "XferProgress_zero = \<lparr>xpg_Highest = 0, xpg_Count = 0, xpg_MissingRanges = [], xpg_Bitmap = [], xpg_Encoding = 0\<rparr>"

definition XferProgress_field :: "npfield \<Rightarrow> XferProgress \<Rightarrow> rpc_error + XferProgress" where
  "XferProgress_field f x =
     (let (i, data) = f in
      if i = 1 then (case rpc_getU32 data of Inl e \<Rightarrow> Inl (RpcNp e) | Inr v \<Rightarrow> Inr (x\<lparr>xpg_Highest := v\<rparr>))
      else if i = 2 then Inr (x\<lparr>xpg_MissingRanges := data\<rparr>)
      else if i = 3 then Inr (x\<lparr>xpg_Bitmap := data\<rparr>)
      else if i = 4 then (if length data \<noteq> 1 then Inl (RpcBad ''bad encoding'') else Inr (x\<lparr>xpg_Encoding := hd data\<rparr>))
      else if i = 5 then (case rpc_getU32 data of Inl e \<Rightarrow> Inl (RpcNp e) | Inr v \<Rightarrow> Inr (x\<lparr>xpg_Count := v\<rparr>))
      else Inr x)"

definition MarshalXferProgress :: "prims \<Rightarrow> XferProgress \<Rightarrow> rpc_error + bytes" where
  "MarshalXferProgress = rpc_enc XferProgress_refuse XferProgress_fields"

definition UnmarshalXferProgress :: "prims \<Rightarrow> bytes \<Rightarrow> rpc_error + XferProgress" where
  "UnmarshalXferProgress = rpc_dec (\<lambda>_. None) XferProgress_field XferProgress_zero XferProgress_bad"

interpretation xferProgress_rpc: rpc_codec XferProgress_refuse XferProgress_fields "\<lambda>_. None" XferProgress_field XferProgress_zero XferProgress_bad
  by unfold_locales (auto simp: XferProgress_fields_def XferProgress_field_def XferProgress_zero_def XferProgress_refuse_def XferProgress_bad_def
    rpc_checks split: if_splits intro!: XferProgress.equality)

subsection \<open>Authorised requests\<close>

definition checkXferAuth :: "bytes \<Rightarrow> bytes \<Rightarrow> bytes \<Rightarrow> rpc_error option" where
  "checkXferAuth mailboxID readSecret ticket =
     (if length ticket = 32 then
        if length mailboxID \<noteq> 0 \<or> length readSecret \<noteq> 0
        then Some (RpcBad ''ticket mode: mailbox and read_secret must be empty'') else None
      else if length ticket \<noteq> 0 then Some (RpcBad ''ticket must be 32 bytes'')
      else if length mailboxID \<noteq> 16 \<or> length readSecret \<noteq> 32 then Some (RpcBad ''bad resume'')
      else None)"

record XferResume =
  xrs_TransferID :: bytes
  xrs_MailboxID :: bytes
  xrs_ReadSecret :: bytes
  xrs_Ticket :: bytes
  xrs_ShardURL :: string

definition XferResume_bad :: "XferResume \<Rightarrow> rpc_error option" where
  "XferResume_bad x = (if length (xrs_TransferID x) \<noteq> 16 then Some (RpcBad ''bad resume'')
     else checkXferAuth (xrs_MailboxID x) (xrs_ReadSecret x) (xrs_Ticket x))"

definition XferResume_fields :: "XferResume \<Rightarrow> npfield list" where
  "XferResume_fields x = [(1, xrs_TransferID x), (2, xrs_MailboxID x), (3, xrs_ReadSecret x), (4, xrs_Ticket x),
     (5, to_bytes (xrs_ShardURL x))]"

definition XferResume_zero :: XferResume where
  "XferResume_zero = \<lparr>xrs_TransferID = [], xrs_MailboxID = [], xrs_ReadSecret = [], xrs_Ticket = [], xrs_ShardURL = []\<rparr>"

definition XferResume_field :: "npfield \<Rightarrow> XferResume \<Rightarrow> rpc_error + XferResume" where
  "XferResume_field f x =
     (let (i, data) = f in
      if i = 1 then Inr (x\<lparr>xrs_TransferID := data\<rparr>)
      else if i = 2 then Inr (x\<lparr>xrs_MailboxID := data\<rparr>)
      else if i = 3 then Inr (x\<lparr>xrs_ReadSecret := data\<rparr>)
      else if i = 4 then Inr (x\<lparr>xrs_Ticket := data\<rparr>)
      else if i = 5 then Inr (x\<lparr>xrs_ShardURL := to_str data\<rparr>)
      else Inr x)"

definition MarshalXferResume :: "prims \<Rightarrow> XferResume \<Rightarrow> rpc_error + bytes" where
  "MarshalXferResume = rpc_enc XferResume_bad XferResume_fields"

definition UnmarshalXferResume :: "prims \<Rightarrow> bytes \<Rightarrow> rpc_error + XferResume" where
  "UnmarshalXferResume = rpc_dec (\<lambda>_. None) XferResume_field XferResume_zero XferResume_bad"

interpretation xferResume_rpc: rpc_codec XferResume_bad XferResume_fields "\<lambda>_. None" XferResume_field XferResume_zero XferResume_bad
  by unfold_locales (auto simp: XferResume_fields_def XferResume_field_def XferResume_zero_def XferResume_bad_def
    rpc_checks split: if_splits intro!: XferResume.equality)

record XferGet =
  xgt_TransferID :: bytes
  xgt_Index :: "32 word"
  xgt_MailboxID :: bytes
  xgt_ReadSecret :: bytes
  xgt_Ticket :: bytes
  xgt_ShardURL :: string

definition XferGet_bad :: "XferGet \<Rightarrow> rpc_error option" where
  "XferGet_bad x = (if length (xgt_TransferID x) \<noteq> 16 then Some (RpcBad ''bad get'')
     else map_option (RpcIn ''bad get'') (checkXferAuth (xgt_MailboxID x) (xgt_ReadSecret x) (xgt_Ticket x)))"

definition XferGet_fields :: "XferGet \<Rightarrow> npfield list" where
  "XferGet_fields x = [(1, xgt_TransferID x), (2, putU32 (xgt_Index x)), (3, xgt_MailboxID x),
     (4, xgt_ReadSecret x), (5, xgt_Ticket x), (6, to_bytes (xgt_ShardURL x))]"

definition XferGet_zero :: XferGet where
  "XferGet_zero = \<lparr>xgt_TransferID = [], xgt_Index = 0, xgt_MailboxID = [], xgt_ReadSecret = [], xgt_Ticket = [], xgt_ShardURL = []\<rparr>"

definition XferGet_field :: "npfield \<Rightarrow> XferGet \<Rightarrow> rpc_error + XferGet" where
  "XferGet_field f x =
     (let (i, data) = f in
      if i = 1 then Inr (x\<lparr>xgt_TransferID := data\<rparr>)
      else if i = 2 then (case rpc_getU32 data of Inl e \<Rightarrow> Inl (RpcNp e) | Inr v \<Rightarrow> Inr (x\<lparr>xgt_Index := v\<rparr>))
      else if i = 3 then Inr (x\<lparr>xgt_MailboxID := data\<rparr>)
      else if i = 4 then Inr (x\<lparr>xgt_ReadSecret := data\<rparr>)
      else if i = 5 then Inr (x\<lparr>xgt_Ticket := data\<rparr>)
      else if i = 6 then Inr (x\<lparr>xgt_ShardURL := to_str data\<rparr>)
      else Inr x)"

definition MarshalXferGet :: "prims \<Rightarrow> XferGet \<Rightarrow> rpc_error + bytes" where
  "MarshalXferGet = rpc_enc XferGet_bad XferGet_fields"

definition UnmarshalXferGet :: "prims \<Rightarrow> bytes \<Rightarrow> rpc_error + XferGet" where
  "UnmarshalXferGet = rpc_dec (\<lambda>_. None) XferGet_field XferGet_zero XferGet_bad"

interpretation xferGet_rpc: rpc_codec XferGet_bad XferGet_fields "\<lambda>_. None" XferGet_field XferGet_zero XferGet_bad
  by unfold_locales (auto simp: XferGet_fields_def XferGet_field_def XferGet_zero_def XferGet_bad_def
    rpc_checks split: if_splits intro!: XferGet.equality)

record XferChunk =
  xch_Payload :: bytes
  xch_Hash :: bytes

definition XferChunk_refuse :: "XferChunk \<Rightarrow> rpc_error option" where
  "XferChunk_refuse x = (if xch_Payload x = [] \<or> length (xch_Payload x) > xfer_chunk_max
     \<or> length (xch_Hash x) \<noteq> 32 then Some (RpcBad ''bad chunk data'') else None)"

definition XferChunk_bad :: "XferChunk \<Rightarrow> rpc_error option" where
  "XferChunk_bad x = (if xch_Payload x = [] \<or> length (xch_Hash x) \<noteq> 32
     then Some (RpcBad ''bad chunk data'') else None)"

definition XferChunk_large :: "bytes \<Rightarrow> rpc_error option" where
  "XferChunk_large b = (if length b > xfer_chunk_max + 128 then Some (RpcBad ''chunk too large'') else None)"

definition XferChunk_fields :: "XferChunk \<Rightarrow> npfield list" where
  "XferChunk_fields x = [(1, xch_Payload x), (2, xch_Hash x)]"

definition XferChunk_zero :: XferChunk where
  "XferChunk_zero = \<lparr>xch_Payload = [], xch_Hash = []\<rparr>"

definition XferChunk_field :: "npfield \<Rightarrow> XferChunk \<Rightarrow> rpc_error + XferChunk" where
  "XferChunk_field f x =
     (let (i, data) = f in
      if i = 1 then Inr (x\<lparr>xch_Payload := data\<rparr>)
      else if i = 2 then Inr (x\<lparr>xch_Hash := data\<rparr>)
      else Inr x)"

definition MarshalXferChunk :: "prims \<Rightarrow> XferChunk \<Rightarrow> rpc_error + bytes" where
  "MarshalXferChunk = rpc_enc XferChunk_refuse XferChunk_fields"

definition UnmarshalXferChunk :: "prims \<Rightarrow> bytes \<Rightarrow> rpc_error + XferChunk" where
  "UnmarshalXferChunk = rpc_dec XferChunk_large XferChunk_field XferChunk_zero XferChunk_bad"

interpretation xferChunk_rpc: rpc_codec XferChunk_refuse XferChunk_fields XferChunk_large XferChunk_field XferChunk_zero XferChunk_bad
  by unfold_locales (auto simp: XferChunk_fields_def XferChunk_field_def XferChunk_zero_def XferChunk_refuse_def XferChunk_bad_def XferChunk_large_def
    rpc_checks split: if_splits intro!: XferChunk.equality)

record XferCompleteReq =
  xcm_TransferID :: bytes
  xcm_ManifestHash :: bytes

definition XferCompleteReq_bad :: "XferCompleteReq \<Rightarrow> rpc_error option" where
  "XferCompleteReq_bad x = (if length (xcm_TransferID x) \<noteq> 16
     \<or> length (xcm_ManifestHash x) \<noteq> 32 then Some (RpcBad ''bad complete'') else None)"

definition XferCompleteReq_fields :: "XferCompleteReq \<Rightarrow> npfield list" where
  "XferCompleteReq_fields x = [(1, xcm_TransferID x), (2, xcm_ManifestHash x)]"

definition XferCompleteReq_zero :: XferCompleteReq where
  "XferCompleteReq_zero = \<lparr>xcm_TransferID = [], xcm_ManifestHash = []\<rparr>"

definition XferCompleteReq_field :: "npfield \<Rightarrow> XferCompleteReq \<Rightarrow> rpc_error + XferCompleteReq" where
  "XferCompleteReq_field f x =
     (let (i, data) = f in
      if i = 1 then Inr (x\<lparr>xcm_TransferID := data\<rparr>)
      else if i = 2 then Inr (x\<lparr>xcm_ManifestHash := data\<rparr>)
      else Inr x)"

definition MarshalXferCompleteReq :: "prims \<Rightarrow> XferCompleteReq \<Rightarrow> rpc_error + bytes" where
  "MarshalXferCompleteReq = rpc_enc XferCompleteReq_bad XferCompleteReq_fields"

definition UnmarshalXferCompleteReq :: "prims \<Rightarrow> bytes \<Rightarrow> rpc_error + XferCompleteReq" where
  "UnmarshalXferCompleteReq = rpc_dec (\<lambda>_. None) XferCompleteReq_field XferCompleteReq_zero XferCompleteReq_bad"

interpretation xferCompleteReq_rpc: rpc_codec XferCompleteReq_bad XferCompleteReq_fields "\<lambda>_. None" XferCompleteReq_field XferCompleteReq_zero XferCompleteReq_bad
  by unfold_locales (auto simp: XferCompleteReq_fields_def XferCompleteReq_field_def XferCompleteReq_zero_def XferCompleteReq_bad_def
    rpc_checks split: if_splits intro!: XferCompleteReq.equality)

record XferCancelReq =
  xcn_TransferID :: bytes
  xcn_MailboxID :: bytes
  xcn_ReadSecret :: bytes

definition XferCancelReq_bad :: "XferCancelReq \<Rightarrow> rpc_error option" where
  "XferCancelReq_bad x = (if length (xcn_TransferID x) \<noteq> 16 \<or> length (xcn_MailboxID x) \<noteq> 16
     \<or> length (xcn_ReadSecret x) \<noteq> 32 then Some (RpcBad ''bad cancel'') else None)"

definition XferCancelReq_fields :: "XferCancelReq \<Rightarrow> npfield list" where
  "XferCancelReq_fields x = [(1, xcn_TransferID x), (2, xcn_MailboxID x), (3, xcn_ReadSecret x)]"

definition XferCancelReq_zero :: XferCancelReq where
  "XferCancelReq_zero = \<lparr>xcn_TransferID = [], xcn_MailboxID = [], xcn_ReadSecret = []\<rparr>"

definition XferCancelReq_field :: "npfield \<Rightarrow> XferCancelReq \<Rightarrow> rpc_error + XferCancelReq" where
  "XferCancelReq_field f x =
     (let (i, data) = f in
      if i = 1 then Inr (x\<lparr>xcn_TransferID := data\<rparr>)
      else if i = 2 then Inr (x\<lparr>xcn_MailboxID := data\<rparr>)
      else if i = 3 then Inr (x\<lparr>xcn_ReadSecret := data\<rparr>)
      else Inr x)"

definition MarshalXferCancelReq :: "prims \<Rightarrow> XferCancelReq \<Rightarrow> rpc_error + bytes" where
  "MarshalXferCancelReq = rpc_enc XferCancelReq_bad XferCancelReq_fields"

definition UnmarshalXferCancelReq :: "prims \<Rightarrow> bytes \<Rightarrow> rpc_error + XferCancelReq" where
  "UnmarshalXferCancelReq = rpc_dec (\<lambda>_. None) XferCancelReq_field XferCancelReq_zero XferCancelReq_bad"

interpretation xferCancelReq_rpc: rpc_codec XferCancelReq_bad XferCancelReq_fields "\<lambda>_. None" XferCancelReq_field XferCancelReq_zero XferCancelReq_bad
  by unfold_locales (auto simp: XferCancelReq_fields_def XferCancelReq_field_def XferCancelReq_zero_def XferCancelReq_bad_def
    rpc_checks split: if_splits intro!: XferCancelReq.equality)

end
