(* ===== verification/RpcProps.thy ===== *)
theory RpcProps
  imports RpcFile
begin

text \<open>
  The messages that carry lists (poll results and capabilities) and the ones with defaults, and what holds for every
  message of the transport protocol.
\<close>

subsection \<open>Length-prefixed lists\<close>

lemma be_get_putU32: "n < 2 ^ 32 \<Longrightarrow> be_get (putU32 (word_of_nat n)) = n"
  by (simp add: putU32_def be_get_put unat_of_nat take_bit_eq_mod)

lemma read_frames_put:
  "list_all (\<lambda>f. \<not> frame_bad f) fs \<Longrightarrow> read_frames (length fs) (concat (map put_frame fs) @ rest) = Inr (fs, rest)"
proof (induction fs)
  case (Cons f fs)
  then have f: "f \<noteq> []" "length f \<le> MaxFrameBytes" by (auto simp: frame_bad_def)
  then have "be_get (putU32 (word_of_nat (length f))) = length f" by (intro be_get_putU32) (simp add: MaxFrameBytes_def)
  then show ?case using f Cons by (simp add: put_frame_def Let_def)
qed simp

lemma read_frames_bounded:
  "read_frames k blob = Inr (fs, rest) \<Longrightarrow> length fs = k \<and> list_all (\<lambda>f. \<not> frame_bad f) fs \<and> length (concat fs) \<le> length blob"
proof (induction k arbitrary: blob fs rest)
  case (Suc k)
  let ?n = "be_get (take 4 blob)"
  obtain gs where g: "read_frames k (drop ?n (drop 4 blob)) = Inr (gs, rest)" "fs = take ?n (drop 4 blob) # gs"
    and n: "4 \<le> length blob" "?n \<noteq> 0" "?n \<le> MaxFrameBytes" "?n \<le> length (drop 4 blob)"
    using Suc.prems by (auto simp: Let_def split: if_splits sum.splits prod.splits)
  have "\<not> frame_bad (take ?n (drop 4 blob))" using n by (auto simp: frame_bad_def)
  then show ?case using Suc.IH [OF g(1)] g(2) n by auto
qed simp

lemma poll_result_encodes:
  assumes "np_law P" "length frames \<le> 32" "list_all (\<lambda>f. \<not> frame_bad f) frames"
  shows "\<exists>b. MarshalPollResult P frames = Inr b"
proof (rule np_enc_dec [OF assms(1)])
  show "length [(1, concat (map put_frame frames)), (2, putU32 (word_of_nat (length frames)))] \<le> 11" by simp
qed (use assms(2,3) in \<open>simp add: MarshalPollResult_def list_ex_iff list_all_iff\<close>)

lemma poll_result_decodes:
  assumes "np_law P" "MarshalPollResult P frames = Inr b"
  shows "UnmarshalPollResult P b = Inr frames"
proof -
  let ?fs = "[(1, concat (map put_frame frames)), (2, putU32 (word_of_nat (length frames)))] :: npfield list"
  have ok: "length frames \<le> 32" "list_all (\<lambda>f. \<not> frame_bad f) frames" "p_np_enc P ?fs = Some b"
    using assms(2) by (auto simp: MarshalPollResult_def list_ex_iff list_all_iff split: if_splits option.splits)
  have "p_np_dec P b = Some ?fs" by (rule np_dec_enc [OF assms(1) _ ok(3)]) simp
  moreover have "unat (word_of_nat (length frames) :: 32 word) = length frames" "(word_of_nat (length frames) :: 32 word) \<le> 32"
    using ok(1) by (simp_all add: unat_of_nat take_bit_eq_mod word_le_nat_alt)
  ultimately show ?thesis
    using read_frames_put [OF ok(2), of "[]"] by (simp add: UnmarshalPollResult_def poll_field_def)
qed

text \<open>
  Note.  Up to 32 frames, each of 1 byte to 40 KiB, survive a poll result in their order; whatever a
  transport sends, an accepted poll result has at most 32 such frames.
\<close>

theorem poll_result_roundtrip:
  assumes "np_law P"
  shows "(length frames \<le> 32 \<and> list_all (\<lambda>f. \<not> frame_bad f) frames \<longrightarrow>
            (\<exists>b. MarshalPollResult P frames = Inr b \<and> UnmarshalPollResult P b = Inr frames)) \<and>
         (\<forall>b got. UnmarshalPollResult P b = Inr got \<longrightarrow> length got \<le> 32 \<and> list_all (\<lambda>f. \<not> frame_bad f) got)"
proof (intro conjI impI allI)
  assume "length frames \<le> 32 \<and> list_all (\<lambda>f. \<not> frame_bad f) frames"
  then show "\<exists>b. MarshalPollResult P frames = Inr b \<and> UnmarshalPollResult P b = Inr frames"
    using poll_result_encodes [OF assms] poll_result_decodes [OF assms] by blast
next
  fix b got assume "UnmarshalPollResult P b = Inr got"
  then obtain c blob where "\<not> 32 < c" "read_frames (unat (c :: 32 word)) blob = Inr (got, [])"
    by (auto simp: UnmarshalPollResult_def split: option.splits sum.splits prod.splits if_splits)
  then show "length got \<le> 32" "list_all (\<lambda>f. \<not> frame_bad f) got"
    using read_frames_bounded [of "unat c" blob got "[]"] by (simp_all add: word_less_nat_alt)
qed

lemma read_caps_put:
  "list_all (\<lambda>c. c \<noteq> [] \<and> length c \<le> 64) cs \<Longrightarrow> read_caps (concat (map put_cap cs)) = Inr cs"
proof (induction cs)
  case Nil
  then show ?case by (simp add: read_caps.simps)
next
  case (Cons c cs)
  then have c: "c \<noteq> []" "length c \<le> 64" by auto
  then have n: "be_get (putU16 (word_of_nat (length c))) = length c"
    by (simp add: putU16_def be_get_put unat_of_nat take_bit_eq_mod)
  have p: "put_cap c = putU16 (word_of_nat (length c)) @ to_bytes c" by (simp add: put_cap_def)
  show ?case by (subst read_caps.simps) (use n c Cons in \<open>simp add: p Let_def\<close>)
qed

lemma caps_roundtrip:
  assumes "np_law P" "MarshalCaps P x = Inr b" "cap_TransportID x \<noteq> []"
  shows "UnmarshalCaps P b = Inr x"
proof -
  let ?fs = "[(1, concat (map put_cap (cap_Capabilities x))), (2, to_bytes (cap_TransportID x)), (3, to_bytes (cap_Version x))]
    :: npfield list"
  have c: "list_all (\<lambda>c. c \<noteq> [] \<and> length c \<le> 64) (cap_Capabilities x)" "p_np_enc P ?fs = Some b"
    using assms(2) by (auto simp: MarshalCaps_def list_all_iff list_ex_iff split: if_splits option.splits)
  have "p_np_dec P b = Some ?fs" by (rule np_dec_enc [OF assms(1) _ c(2)]) simp
  then show ?thesis using read_caps_put [OF c(1)] assms(3) by (simp add: UnmarshalCaps_def rpc_dec_def Caps_field_def)
qed

subsection \<open>Defaults\<close>

lemma poll_roundtrip:
  assumes "np_law P" "MarshalPoll P x = Inr b"
  shows "UnmarshalPoll P b = Inr (x\<lparr>pol_Limit := poll_limit (pol_Limit x)\<rparr>)"
proof -
  have c: "p_np_enc P (Poll_fields x) = Some b" "bad_poll x = None"
    using assms(2) by (auto simp: MarshalPoll_def rpc_enc_def split: option.splits)
  have "p_np_dec P b = Some (Poll_fields x)" by (rule np_dec_enc [OF assms(1) _ c(1)]) (simp add: Poll_fields_def)
  then show ?thesis using c(2)
    by (simp add: UnmarshalPoll_def rpc_dec_def Poll_fields_def Poll_field_def bad_poll_def poll_limit_def split: if_splits)
qed

lemma start_stop_roundtrip:
  assumes "np_law P" "MarshalStartStop P a = Inr b"
  shows "UnmarshalStartStop P b = Inr a"
proof -
  have c: "p_np_enc P [(1, [a])] = Some b" "a = ActionStart \<or> a = ActionStop"
    using assms(2) by (auto simp: MarshalStartStop_def rpc_enc_def split: option.splits if_splits)
  have "p_np_dec P b = Some [(1, [a])]" by (rule np_dec_enc [OF assms(1) _ c(1)]) simp
  then show ?thesis using c(2) by (auto simp: UnmarshalStartStop_def)
qed

subsection \<open>A concrete instance\<close>

theorem poll_result_roundtrip_witness:
  "\<exists>b. MarshalPollResult toy [[1], [2, 3]] = Inr b \<and> UnmarshalPollResult toy b = Inr [[1], [2, 3]]"
  using poll_result_roundtrip [OF toy_laws(4), of "[[1], [2, 3]]"] by (simp add: frame_bad_def MaxFrameBytes_def)

end
