(* ===== verification/RpcProcess.thy ===== *)
theory RpcProcess
  imports Texts RpcProps
begin

text \<open>
  A running transport process seen from the core (\<^verbatim>\<open>src/internal/transport/process.go\<close>): the calls that wait for an
  answer, the loop that reads answers from the byte stream, and the steps of one call.  Channels are numbered in the
  order of their creation; each holds at most one result, as the channels of the source do.
\<close>

subsection \<open>State\<close>

datatype call_error =
    ReadFailed
  | BadFrameLength nat
  | CallRpc rpc_error
  | WriteFailed
  | CallTimeout
  | RemoteError RPCError
  | RemoteUndecodable rpc_error
  | OpMismatch byte byte
  | ProcessExited

datatype rpcResult = Answer Envelope | Failed call_error

record Process =
  pr_next :: "32 word"
  pr_pend :: "32 word \<Rightarrow> nat option"
  pr_dying :: bool
  pr_stdin :: bytes
  pr_chans :: nat
  pr_buffer :: "nat \<Rightarrow> rpcResult option"

definition Spawned :: Process where
  "Spawned = \<lparr>pr_next = 0, pr_pend = Map.empty, pr_dying = False, pr_stdin = [], pr_chans = 0, pr_buffer = Map.empty\<rparr>"

subsection \<open>The read loop\<close>

text \<open>One frame of the stream: the envelope and what follows it.  The end of the list is the end of the stream.\<close>

definition read_envelope :: "prims \<Rightarrow> bytes \<Rightarrow> call_error + Envelope \<times> bytes" where
  "read_envelope P bs =
     (if length bs < 4 then Inl ReadFailed
      else
        let n = unat (beU32 (take 4 bs)); rest = drop 4 bs in
        if n = 0 \<or> n > MaxRPCBytes then Inl (BadFrameLength n)
        else if length rest < n then Inl ReadFailed
        else case UnmarshalEnvelope P (take n rest) of
          Inl e \<Rightarrow> Inl (CallRpc e)
        | Inr env \<Rightarrow> Inr (env, drop n rest))"

text \<open>
  An envelope goes to the channel of the call that waits for its number, which then waits no more; an envelope nobody
  waits for is dropped.  Sending to a full channel blocks, which is the value \<open>None\<close>.
\<close>

definition deliver :: "Envelope \<Rightarrow> Process \<Rightarrow> Process option" where
  "deliver env p =
     (case pr_pend p (env_ReqID env) of
        None \<Rightarrow> Some p
      | Some ch \<Rightarrow>
          let p1 = p\<lparr>pr_pend := (pr_pend p)(env_ReqID env := None)\<rparr> in
          if pr_buffer p1 ch \<noteq> None then None
          else Some (p1\<lparr>pr_buffer := (pr_buffer p1)(ch \<mapsto> Answer env)\<rparr>))"

text \<open>Every waiting call is failed; a full channel is passed over.\<close>

definition failAll :: "call_error \<Rightarrow> Process \<Rightarrow> Process" where
  "failAll e p = p\<lparr>pr_pend := Map.empty,
     pr_buffer := (\<lambda>ch. if ch \<in> ran (pr_pend p) \<and> pr_buffer p ch = None then Some (Failed e) else pr_buffer p ch)\<rparr>"

function readLoop :: "prims \<Rightarrow> bytes \<Rightarrow> Process \<Rightarrow> Process option" where
  "readLoop P bs p =
     (case read_envelope P bs of
        Inl e \<Rightarrow> Some ((failAll e p)\<lparr>pr_dying := True\<rparr>)
      | Inr (env, rest) \<Rightarrow> (case deliver env p of None \<Rightarrow> None | Some p' \<Rightarrow> readLoop P rest p'))"
  by pat_completeness auto
termination
  by (relation "measure (\<lambda>(P, bs, p). length bs)") (auto simp: read_envelope_def Let_def split: if_splits sum.splits)

declare readLoop.simps [simp del]

subsection \<open>Calls\<close>

record call =
  ca_chan :: nat
  ca_op :: byte
  ca_id :: "32 word"
  ca_framed :: bytes

text \<open>The first part of a call takes the next number and starts to wait; it does not stop waiting if encoding fails.\<close>

definition Call_begin :: "prims \<Rightarrow> byte \<Rightarrow> bytes \<Rightarrow> Process \<Rightarrow> (call_error + call) \<times> Process" where
  "Call_begin P op payload p =
     (let i = pr_next p + 1; ch = pr_chans p;
          p1 = p\<lparr>pr_next := i, pr_pend := (pr_pend p)(i \<mapsto> ch), pr_chans := ch + 1\<rparr> in
      case MarshalEnvelope P \<lparr>env_Op = op, env_ReqID = i, env_Payload = payload\<rparr> of
        Inl e \<Rightarrow> (Inl (CallRpc e), p1)
      | Inr body \<Rightarrow> (Inr \<lparr>ca_chan = ch, ca_op = op, ca_id = i, ca_framed = frameMessage body\<rparr>, p1))"

text \<open>The request is written by a goroutine of its own; \<open>n\<close> bytes of it reach the pipe.\<close>

definition Call_write :: "nat \<Rightarrow> call \<Rightarrow> Process \<Rightarrow> call_error option \<times> Process" where
  "Call_write n c p =
     (if n < length (ca_framed c) then Some WriteFailed else None, p\<lparr>pr_stdin := pr_stdin p @ take n (ca_framed c)\<rparr>)"

text \<open>What a call makes of the result in its channel.\<close>

definition Call_result :: "prims \<Rightarrow> byte \<Rightarrow> rpcResult \<Rightarrow> call_error + Envelope" where
  "Call_result P op r =
     (case r of
        Failed e \<Rightarrow> Inl e
      | Answer env \<Rightarrow>
          if env_Op env = OpError then
            (case UnmarshalError P (env_Payload env) of
               Inl e \<Rightarrow> Inl (RemoteUndecodable e)
             | Inr err \<Rightarrow> Inl (RemoteError err))
          else if env_Op env \<noteq> op then Inl (OpMismatch (env_Op env) op)
          else Inr env)"

text \<open>
  The second wait of a call takes one of the ready alternatives: a result in the channel, the timer or the context,
  the end of the read loop.
\<close>

inductive Call_end :: "prims \<Rightarrow> call \<Rightarrow> Process \<Rightarrow> call_error + Envelope \<Rightarrow> Process \<Rightarrow> bool" for P where
  result: "pr_buffer p (ca_chan c) = Some r \<Longrightarrow>
     Call_end P c p (Call_result P (ca_op c) r) (p\<lparr>pr_buffer := (pr_buffer p)(ca_chan c := None)\<rparr>)"
| timeout: "Call_end P c p (Inl CallTimeout) p"
| dying: "pr_dying p \<Longrightarrow> Call_end P c p (Inl ProcessExited) p"

inductive_cases Call_end_Inr: "Call_end P c p (Inr env) p'"

subsection \<open>The surroundings of the child\<close>

text \<open>The diagnostics of the child, kept up to a limit; the environment it is given.\<close>

record cappedBuffer =
  cb_buf :: bytes
  cb_max :: int

definition capped_Write :: "bytes \<Rightarrow> cappedBuffer \<Rightarrow> nat \<times> cappedBuffer" where
  "capped_Write p c =
     (let room = cb_max c - int (length (cb_buf c)) in
      (length p,
       if room > 0 then
         let n = (if int (length p) < room then int (length p) else room) in c\<lparr>cb_buf := cb_buf c @ take (nat n) p\<rparr>
       else c))"

definition Process_Stderr :: "cappedBuffer \<Rightarrow> bytes" where
  "Process_Stderr c = (let s = cb_buf c in if length s > 4096 then drop (length s - 4096) s else s)"

text \<open>The environment of the host as the list of its variables with their values.\<close>

definition env_allowed :: "string list" where
  "env_allowed = [''PATH'', ''HOME'', ''TMPDIR'', ''TEMP'', ''TMP'', ''SYSTEMROOT'', ''USERPROFILE'']"

definition minimalEnv :: "(string \<times> string) list \<Rightarrow> string list" where
  "minimalEnv environ =
     concat (map (\<lambda>k. case map_of environ k of None \<Rightarrow> [] | Some v \<Rightarrow> [k @ ''='' @ v]) env_allowed) @
     filter (\<lambda>kv. HasPrefix kv ''NTX_'') (map (\<lambda>(k, v). k @ ''='' @ v) environ)"

text \<open>However the child splits its output into writes, the first bytes of it are kept and no more than the limit.\<close>

lemma capped_keeps_prefix:
  assumes "0 \<le> cb_max c" "int (length (cb_buf c)) \<le> cb_max c"
  shows "cb_buf (fold (\<lambda>p c. snd (capped_Write p c)) ps c) = take (nat (cb_max c)) (cb_buf c @ concat ps)"
  using assms
proof (induction ps arbitrary: c)
  case Nil
  then show ?case by simp
next
  case (Cons p ps)
  let ?c = "snd (capped_Write p c)"
  have c: "cb_max ?c = cb_max c" "cb_buf ?c = take (nat (cb_max c)) (cb_buf c @ p)"
    using Cons.prems by (auto simp: capped_Write_def Let_def nat_diff_distrib)
  then have "int (length (cb_buf ?c)) \<le> cb_max ?c" using Cons.prems by simp
  then have "cb_buf (fold (\<lambda>p c. snd (capped_Write p c)) ps ?c) = take (nat (cb_max c)) (cb_buf ?c @ concat ps)"
    using Cons.IH [of ?c] Cons.prems(1) c(1) by simp
  moreover have "take n (take n x @ y) = take n (x @ y)" for n and x y :: bytes by (simp add: take_append) (simp add: min_def)
  ultimately show ?case using c(2) by (metis append.assoc concat.simps(2) fold_simps(2))
qed

lemma environment_scoped:
  "kv \<in> set (minimalEnv environ) \<Longrightarrow>
     (\<exists>k v. k \<in> set env_allowed \<and> map_of environ k = Some v \<and> kv = k @ ''='' @ v) \<or> HasPrefix kv ''NTX_''"
  by (auto simp: minimalEnv_def split: option.splits)

subsection \<open>Interleavings\<close>

text \<open>
  Any number of goroutines call at the same time while the read loop runs.  The state of a step is the process with
  the calls that were begun.
\<close>

inductive proc_step :: "prims \<Rightarrow> Process \<times> call set \<Rightarrow> Process \<times> call set \<Rightarrow> bool" for P where
  begin_ok: "Call_begin P op payload p = (Inr c, p') \<Longrightarrow> proc_step P (p, cs) (p', insert c cs)"
| begin_fail: "Call_begin P op payload p = (Inl e, p') \<Longrightarrow> proc_step P (p, cs) (p', cs)"
| written: "c \<in> cs \<Longrightarrow> proc_step P (p, cs) (snd (Call_write n c p), cs)"
| arrived: "deliver env p = Some p' \<Longrightarrow> proc_step P (p, cs) (p', cs)"
| stopped: "proc_step P (p, cs) ((failAll e p)\<lparr>pr_dying := True\<rparr>, cs)"
| finished: "c \<in> cs \<Longrightarrow> Call_end P c p r p' \<Longrightarrow> proc_step P (p, cs) (p', cs)"

definition proc_reach :: "prims \<Rightarrow> Process \<times> call set \<Rightarrow> bool" where
  "proc_reach P = (proc_step P)\<^sup>*\<^sup>* (Spawned, {})"

text \<open>
  A channel that a number waits on is empty, belongs to that number alone and, if a call owns it, to the number of
  that call; the answer in a channel has the number of the call that owns it.
\<close>

definition proc_inv :: "Process \<times> call set \<Rightarrow> bool" where
  "proc_inv s \<longleftrightarrow>
     (case s of (p, cs) \<Rightarrow>
        (\<forall>i ch. pr_pend p i = Some ch \<longrightarrow> ch < pr_chans p \<and> pr_buffer p ch = None \<and>
           (\<forall>j. pr_pend p j = Some ch \<longrightarrow> j = i) \<and> (\<forall>c\<in>cs. ca_chan c = ch \<longrightarrow> ca_id c = i)) \<and>
        (\<forall>ch\<ge>pr_chans p. pr_buffer p ch = None) \<and>
        (\<forall>c\<in>cs. ca_chan c < pr_chans p \<and>
           (\<forall>env. pr_buffer p (ca_chan c) = Some (Answer env) \<longrightarrow> env_ReqID env = ca_id c)))"

lemma proc_invI:
  assumes "\<And>i ch. pr_pend p i = Some ch \<Longrightarrow> ch < pr_chans p \<and> pr_buffer p ch = None"
    and "\<And>i j ch. pr_pend p i = Some ch \<Longrightarrow> pr_pend p j = Some ch \<Longrightarrow> j = i"
    and "\<And>i c. pr_pend p i = Some (ca_chan c) \<Longrightarrow> c \<in> cs \<Longrightarrow> ca_id c = i"
    and "\<And>ch. pr_chans p \<le> ch \<Longrightarrow> pr_buffer p ch = None"
    and "\<And>c. c \<in> cs \<Longrightarrow> ca_chan c < pr_chans p"
    and "\<And>c env. c \<in> cs \<Longrightarrow> pr_buffer p (ca_chan c) = Some (Answer env) \<Longrightarrow> env_ReqID env = ca_id c"
  shows "proc_inv (p, cs)"
  using assms unfolding proc_inv_def by blast

lemma proc_inv_pend:
  assumes "proc_inv (p, cs)" "pr_pend p i = Some ch"
  shows "ch < pr_chans p" "pr_buffer p ch = None" "pr_pend p j = Some ch \<Longrightarrow> j = i"
    "c \<in> cs \<Longrightarrow> ca_chan c = ch \<Longrightarrow> ca_id c = i"
  using assms unfolding proc_inv_def by (blast+)

lemma proc_inv_fresh: "proc_inv (p, cs) \<Longrightarrow> pr_chans p \<le> ch \<Longrightarrow> pr_buffer p ch = None"
  unfolding proc_inv_def by blast

lemma proc_inv_call:
  assumes "proc_inv (p, cs)" "c \<in> cs"
  shows "ca_chan c < pr_chans p" "pr_buffer p (ca_chan c) = Some (Answer env) \<Longrightarrow> env_ReqID env = ca_id c"
  using assms unfolding proc_inv_def by (blast+)

lemma proc_inv_deliver:
  assumes inv: "proc_inv (p, cs)"
  obtains p' where "deliver env p = Some p'" "proc_inv (p', cs)"
proof (cases "pr_pend p (env_ReqID env)")
  case None
  then show ?thesis using that inv by (simp add: deliver_def)
next
  case (Some ch)
  note w = proc_inv_pend [OF inv Some]
  let ?p = "p\<lparr>pr_pend := (pr_pend p)(env_ReqID env := None), pr_buffer := (pr_buffer p)(ch \<mapsto> Answer env)\<rparr>"
  have "deliver env p = Some ?p" using Some w(2) by (simp add: deliver_def)
  moreover have "proc_inv (?p, cs)"
  proof (rule proc_invI)
    fix c env' assume c: "c \<in> cs" "pr_buffer ?p (ca_chan c) = Some (Answer env')"
    then show "env_ReqID env' = ca_id c"
      using w(4) [OF c(1)] proc_inv_call(2) [OF inv c(1)] by (cases "ca_chan c = ch") auto
  next
    fix i ch' assume "pr_pend ?p i = Some ch'"
    then have i: "pr_pend p i = Some ch'" "i \<noteq> env_ReqID env" by (auto split: if_splits)
    then have "ch' \<noteq> ch" using w(3) [of i] by blast
    then show "ch' < pr_chans ?p \<and> pr_buffer ?p ch' = None" using proc_inv_pend(1,2) [OF inv i(1)] by simp
  qed (use w(1) proc_inv_fresh [OF inv] proc_inv_call(1) [OF inv] in
        \<open>auto split: if_splits dest: proc_inv_pend(3) [OF inv] proc_inv_pend(4) [OF inv]\<close>)
  ultimately show ?thesis by (rule that)
qed

lemma proc_inv_begin:
  assumes inv: "proc_inv (p, cs)" and call: "Call_begin P op payload p = (r, p')"
    and new: "new = (case r of Inl e \<Rightarrow> {} | Inr c \<Rightarrow> {c})"
  shows "proc_inv (p', new \<union> cs)"
proof -
  have r: "ca_chan c = pr_chans p" "ca_id c = pr_next p + 1" if "c \<in> new" for c
    using call new that by (auto simp: Call_begin_def Let_def split: sum.splits)
  have p': "p' = p\<lparr>pr_next := pr_next p + 1, pr_pend := (pr_pend p)(pr_next p + 1 \<mapsto> pr_chans p), pr_chans := pr_chans p + 1\<rparr>"
    using call by (auto simp: Call_begin_def Let_def split: sum.splits)
  have empty: "pr_buffer p (pr_chans p) = None" by (rule proc_inv_fresh [OF inv]) simp
  show ?thesis unfolding p'
  proof (rule proc_invI, goal_cases)
    case (1 i ch)
    then show ?case using empty proc_inv_pend(1,2) [OF inv, of i ch] by (auto split: if_splits)
  next
    case (2 i j ch)
    then show ?case using proc_inv_pend(1,3) [OF inv] by (fastforce split: if_splits)
  next
    case (3 i c)
    show ?case
    proof (cases "i = pr_next p + 1")
      case True
      then have "ca_chan c = pr_chans p" using 3(1) by simp
      then show ?thesis using True 3(2) r(2) [of c] proc_inv_call(1) [OF inv, of c] by auto
    next
      case False
      then have "pr_pend p i = Some (ca_chan c)" using 3(1) by simp
      then show ?thesis using 3(2) r(1) [of c] proc_inv_pend(1,4) [OF inv, of i "ca_chan c"] by auto
    qed
  next
    case (4 ch)
    then show ?case using proc_inv_fresh [OF inv, of ch] by simp
  next
    case (5 c)
    then show ?case using r(1) [of c] proc_inv_call(1) [OF inv, of c] by auto
  next
    case (6 c env)
    then show ?case using r(1) [of c] empty proc_inv_call(2) [OF inv, of c env] by auto
  qed
qed

lemma proc_inv_end:
  assumes inv: "proc_inv (p, cs)" and "Call_end P c p r p'"
  shows "proc_inv (p', cs)"
  using assms(2)
proof cases
  case (result x)
  show ?thesis unfolding result
    by (rule proc_invI) (use proc_inv_fresh [OF inv] in \<open>auto split: if_splits dest: proc_inv_pend [OF inv] proc_inv_call [OF inv]\<close>)
qed (use inv in simp_all)

lemma proc_inv_stop:
  assumes inv: "proc_inv (p, cs)"
  shows "proc_inv ((failAll e p)\<lparr>pr_dying := b\<rparr>, cs)"
proof (rule proc_invI, goal_cases)
  case (4 ch)
  then have "ch \<notin> ran (pr_pend p)" using proc_inv_pend(1) [OF inv] by (fastforce simp: ran_def failAll_def)
  then show ?case using 4 proc_inv_fresh [OF inv, of ch] by (simp add: failAll_def)
next
  case (6 c env)
  then show ?case using proc_inv_call(2) [OF inv, of c env] by (auto simp: failAll_def split: if_splits)
qed (use proc_inv_call(1) [OF inv] in \<open>auto simp: failAll_def\<close>)

lemma proc_inv_step: "proc_step P s s' \<Longrightarrow> proc_inv s \<Longrightarrow> proc_inv s'"
proof (induction rule: proc_step.induct)
  case (begin_ok op payload p c p' cs)
  then show ?case using proc_inv_begin [of p cs P op payload "Inr c" p' "{c}"] by simp
next
  case (begin_fail op payload p e p' cs)
  then show ?case using proc_inv_begin [of p cs P op payload "Inl e" p' "{}"] by simp
next
  case (written c cs p n)
  then show ?case by (simp add: Call_write_def proc_inv_def)
next
  case (arrived env p p' cs)
  then show ?case using proc_inv_deliver by (metis option.inject)
qed (auto intro: proc_inv_end proc_inv_stop)

lemma proc_inv_spawned: "proc_inv (Spawned, {})"
  by (simp add: proc_inv_def Spawned_def)

lemma proc_reach_inv: "proc_reach P s \<Longrightarrow> proc_inv s"
  unfolding proc_reach_def
  by (induction rule: rtranclp_induct) (auto intro: proc_inv_step proc_inv_spawned)


subsection \<open>Reading a stream\<close>

lemma read_envelope_frame:
  assumes "np_law P" "unknown_op e = None" "MarshalEnvelope P e = Inr b" "length b \<le> MaxRPCBytes"
  shows "read_envelope P (frameMessage b @ rest) = Inr (e, rest)"
proof -
  have enc: "rpc_enc unknown_op Envelope_fields P e = Inr b"
    using assms(2,3) by (simp add: MarshalEnvelope_def rpc_enc_def)
  have ne: "b \<noteq> []" using envelope.enc_total [OF assms(1,2)] enc by auto
  have "body_length b = None" using ne assms(4) by (simp add: body_length_def)
  then have "UnmarshalEnvelope P b = Inr e" using envelope.dec_enc [OF assms(1) enc] by (simp add: UnmarshalEnvelope_def)
  moreover have "unat (word_of_nat (length b) :: 32 word) = length b"
    using assms(4) by (simp add: unat_of_nat take_bit_eq_mod MaxRPCBytes_def)
  ultimately show ?thesis using ne assms(4) by (simp add: read_envelope_def frameMessage_def)
qed

text \<open>What the envelopes of a stream and its end leave in the channel of a waiting call.\<close>

definition stream_result :: "Envelope list \<Rightarrow> call_error \<Rightarrow> 32 word \<Rightarrow> rpcResult" where
  "stream_result envs e i = (case List.find (\<lambda>env. env_ReqID env = i) envs of Some env \<Rightarrow> Answer env | None \<Rightarrow> Failed e)"

text \<open>The envelopes of a stream up to the first frame that cannot be read, and why it cannot.\<close>

function stream_envelopes :: "prims \<Rightarrow> bytes \<Rightarrow> Envelope list \<times> call_error" where
  "stream_envelopes P bs =
     (case read_envelope P bs of
        Inl e \<Rightarrow> ([], e)
      | Inr (env, rest) \<Rightarrow> (case stream_envelopes P rest of (envs, e) \<Rightarrow> (env # envs, e)))"
  by pat_completeness auto
termination
  by (relation "measure (\<lambda>(P, bs). length bs)") (auto simp: read_envelope_def Let_def split: if_splits sum.splits)

declare stream_envelopes.simps [simp del]

lemma deliver_waiting:
  assumes "deliver env p = Some p'" "pr_pend p i = Some ch" "i \<noteq> env_ReqID env"
  shows "pr_pend p' i = Some ch"
  using assms by (auto simp: deliver_def Let_def split: option.splits if_splits)

lemma deliver_answered:
  assumes "proc_inv (p, cs)" "deliver env p = Some p'" "pr_pend p (env_ReqID env) = Some ch"
  shows "pr_buffer p' ch = Some (Answer env) \<and> ch \<notin> ran (pr_pend p')"
proof -
  have "\<forall>j. pr_pend p j = Some ch \<longrightarrow> j = env_ReqID env" using proc_inv_pend(3) [OF assms(1,3)] by blast
  moreover have "p' = p\<lparr>pr_pend := (pr_pend p)(env_ReqID env := None), pr_buffer := (pr_buffer p)(ch \<mapsto> Answer env)\<rparr>"
    using assms(2,3) proc_inv_pend(2) [OF assms(1,3)] by (simp add: deliver_def)
  ultimately show ?thesis by (auto simp: ran_def)
qed

lemma deliver_keeps:
  assumes "deliver env p = Some p'" "ch \<notin> ran (pr_pend p)"
  shows "pr_buffer p' ch = pr_buffer p ch \<and> ch \<notin> ran (pr_pend p')"
  using assms by (auto simp: deliver_def Let_def ran_def split: option.splits if_splits)

lemma readLoop_runs:
  assumes "proc_inv (p, cs)" "stream_envelopes P bs = (envs, e)"
  shows "\<exists>p'. readLoop P bs p = Some p' \<and> pr_dying p' \<and> pr_pend p' = Map.empty \<and>
     (\<forall>i ch. pr_pend p i = Some ch \<longrightarrow> pr_buffer p' ch = Some (stream_result envs e i)) \<and>
     (\<forall>ch. ch \<notin> ran (pr_pend p) \<longrightarrow> pr_buffer p' ch = pr_buffer p ch)"
  using assms
proof (induction bs arbitrary: p envs rule: length_induct)
  case (1 bs)
  show ?case
  proof (cases "read_envelope P bs")
    case (Inl x)
    then have "envs = []" "e = x" using "1.prems"(2) by (simp_all add: stream_envelopes.simps)
    then show ?thesis using Inl proc_inv_pend(2) [OF "1.prems"(1)]
      by (auto simp: readLoop.simps failAll_def stream_result_def intro: ranI)
  next
    case (Inr y)
    then obtain env rest where r: "read_envelope P bs = Inr (env, rest)" by (cases y) auto
    then have l: "length rest < length bs" by (auto simp: read_envelope_def Let_def split: if_splits sum.splits)
    obtain es where es: "stream_envelopes P rest = (es, e)" "envs = env # es"
      using "1.prems"(2) r by (auto simp: stream_envelopes.simps [of P bs] split: prod.splits)
    obtain p1 where p1: "deliver env p = Some p1" "proc_inv (p1, cs)" using proc_inv_deliver [OF "1.prems"(1)] by blast
    obtain p' where p': "readLoop P rest p1 = Some p'" "pr_dying p'" "pr_pend p' = Map.empty"
        "\<And>i ch. pr_pend p1 i = Some ch \<Longrightarrow> pr_buffer p' ch = Some (stream_result es e i)"
        "\<And>ch. ch \<notin> ran (pr_pend p1) \<Longrightarrow> pr_buffer p' ch = pr_buffer p1 ch"
      using "1.IH" l p1(2) es(1) by blast
    have "pr_buffer p' ch = Some (stream_result envs e i)" if "pr_pend p i = Some ch" for i ch
    proof (cases "i = env_ReqID env")
      case True
      then show ?thesis using deliver_answered [OF "1.prems"(1) p1(1)] that p'(5) by (simp add: es(2) stream_result_def)
    next
      case False
      then have "stream_result envs e i = stream_result es e i" by (simp add: es(2) stream_result_def)
      then show ?thesis using p'(4) [OF deliver_waiting [OF p1(1) that False]] by simp
    qed
    moreover have "pr_buffer p' ch = pr_buffer p ch" if "ch \<notin> ran (pr_pend p)" for ch
      using deliver_keeps [OF p1(1) that] p'(5) by simp
    moreover have "readLoop P bs p = Some p'" using r p1(1) p'(1) by (simp add: readLoop.simps [of P bs])
    ultimately show ?thesis using p'(2,3) by blast
  qed
qed

lemma stream_of_frames:
  assumes "np_law P"
    and "list_all (\<lambda>e. unknown_op e = None \<and> MarshalEnvelope P e = Inr (enc e) \<and> length (enc e) \<le> MaxRPCBytes) envs"
  shows "stream_envelopes P (concat (map (\<lambda>e. frameMessage (enc e)) envs)) = (envs, ReadFailed)"
  using assms(2)
proof (induction envs)
  case Nil
  then show ?case by (simp add: stream_envelopes.simps read_envelope_def)
next
  case (Cons e es)
  then show ?case using read_envelope_frame [OF assms(1), of e "enc e"] by (subst stream_envelopes.simps) simp
qed


subsection \<open>A concrete instance\<close>

text \<open>A process with one call that waits, and the envelope that answers it.\<close>

definition toy_answer :: Envelope where
  "toy_answer = \<lparr>env_Op = OpSend, env_ReqID = 1, env_Payload = []\<rparr>"

lemma toy_answer_known: "unknown_op toy_answer = None"
  by (simp add: unknown_op_def toy_answer_def op_defs)

lemma toy_waiting:
  obtains c p where "proc_reach toy (p, {c})" "pr_pend p 1 = Some (ca_chan c)" "ca_id c = 1" "ca_op c = OpSend"
proof -
  obtain b where b: "MarshalEnvelope toy toy_answer = Inr b"
    using envelope.enc_total [OF toy_laws(4) toy_answer_known] toy_answer_known by (auto simp: MarshalEnvelope_def rpc_enc_def)
  define c where "c = \<lparr>ca_chan = 0, ca_op = OpSend, ca_id = 1, ca_framed = frameMessage b\<rparr>"
  define p where "p = Spawned\<lparr>pr_next := 1, pr_pend := [1 \<mapsto> 0], pr_chans := 1\<rparr>"
  have "Call_begin toy OpSend [] Spawned = (Inr c, p)"
    using b by (simp add: Call_begin_def Spawned_def c_def p_def toy_answer_def)
  then have "proc_reach toy (p, {c})" unfolding proc_reach_def by (blast intro: begin_ok)
  then show ?thesis using that by (simp add: c_def p_def)
qed



end
