(* ===== verification/Package.thy ===== *)
theory Package
  imports Texts RpcProcess
begin

text \<open>
  Manifests of transport packages (\<^verbatim>\<open>src/internal/transport/manifest.go\<close>) and the paths below the directory of the
  transports.  The JSON reader is a parameter of the functions that use it.
\<close>

subsection \<open>Paths\<close>

text \<open>
  An absolute path is the list of its segments.  \<open>path_join\<close> is \<^verbatim>\<open>filepath.Join\<close>: the added text is split at slashes,
  empty segments and \<open>.\<close> are dropped and \<open>..\<close> takes one segment away.
\<close>

type_synonym path = "string list"
type_synonym disk = "path \<Rightarrow> bytes option"

fun clean_segment :: "string \<Rightarrow> path \<Rightarrow> path" where
  "clean_segment seg p = (if seg = [] \<or> seg = ''.'' then p else if seg = ''..'' then butlast p else p @ [seg])"

definition path_join :: "path \<Rightarrow> string \<Rightarrow> path" where
  "path_join p s = fold clean_segment (split_on CHR ''/'' s) p"

definition below :: "path \<Rightarrow> path \<Rightarrow> bool" where
  "below p q \<longleftrightarrow> take (length p) q = p"

text \<open>\<^verbatim>\<open>os.RemoveAll\<close>.\<close>

definition RemoveAll :: "path \<Rightarrow> disk \<Rightarrow> disk" where
  "RemoveAll p fs = (\<lambda>q. if below p q then None else fs q)"

lemma path_join_plain: "CHR ''/'' \<notin> set s \<Longrightarrow> s \<noteq> [] \<Longrightarrow> s \<noteq> ''.'' \<Longrightarrow> s \<noteq> ''..'' \<Longrightarrow> path_join p s = p @ [s]"
  by (simp add: path_join_def split_on_word)

lemma below_refl [simp]: "below p (p @ q)"
  by (simp add: below_def)

lemma below_child [simp]: "below (p @ [a]) (p @ b # q) \<longleftrightarrow> a = b"
  by (auto simp: below_def)

lemma below_not_child: "length q < length p \<Longrightarrow> \<not> below p q"
  by (auto simp: below_def dest: arg_cong [where f = length])

subsection \<open>Manifests\<close>

record TransportManifest =
  tm_ID :: string
  tm_Name :: string
  tm_Version :: string
  tm_APIVersion :: string
  tm_Entry :: string
  tm_Capabilities :: "string list"
  tm_Permissions :: "string list"
  tm_Description :: string

definition KnownCapabilities :: "string set" where
  "KnownCapabilities = {''message'', ''binary-transfer'', ''presence'', ''local-network'', ''p2p''}"

definition KnownPermissions :: "string set" where
  "KnownPermissions = {''network'', ''storage''}"

definition in_class :: "(char \<times> char) list \<Rightarrow> char \<Rightarrow> bool" where
  "in_class ranges c = list_ex (\<lambda>(lo, hi). lo \<le> c \<and> c \<le> hi) ranges"

definition lower_alnum :: "char \<Rightarrow> bool" where
  "lower_alnum = in_class [(CHR ''a'', CHR ''z''), (CHR ''0'', CHR ''9'')]"

text \<open>The expression \<^verbatim>\<open>^[a-z0-9][a-z0-9-]{0,63}$\<close>.\<close>

definition idRe :: "string \<Rightarrow> bool" where
  "idRe s = (case s of [] \<Rightarrow> False
     | c # cs \<Rightarrow> lower_alnum c \<and> list_all (\<lambda>x. lower_alnum x \<or> x = CHR ''-'') cs \<and> length cs \<le> 63)"

definition entry_char :: "char \<Rightarrow> bool" where
  "entry_char c \<longleftrightarrow> in_class [(CHR ''a'', CHR ''z''), (CHR ''A'', CHR ''Z''), (CHR ''0'', CHR ''9'')] c \<or> c \<in> set ''.-_''"

definition safeEntry :: "string \<Rightarrow> string" where
  "safeEntry e = (if \<not> list_all entry_char e then [] else if e = ''.'' \<or> e = ''..'' then [] else e)"

datatype manifest_error =
    ManifestJson | BadId string | EmptyName | EmptyVersion | UnsupportedApi string | BadEntry string | NoCapabilities
  | UnknownCapability string | UnknownPermission string

definition Validate :: "TransportManifest \<Rightarrow> manifest_error option" where
  "Validate m =
     (if \<not> idRe (tm_ID m) then Some (BadId (tm_ID m))
      else if tm_Name m = [] then Some EmptyName
      else if tm_Version m = [] then Some EmptyVersion
      else if tm_APIVersion m \<noteq> ''1'' then Some (UnsupportedApi (tm_APIVersion m))
      else if tm_Entry m = [] \<or> tm_Entry m \<noteq> safeEntry (tm_Entry m) then Some (BadEntry (tm_Entry m))
      else if tm_Capabilities m = [] then Some NoCapabilities
      else case List.find (\<lambda>c. c \<notin> KnownCapabilities) (tm_Capabilities m) of
        Some c \<Rightarrow> Some (UnknownCapability c)
      | None \<Rightarrow> map_option UnknownPermission (List.find (\<lambda>p. p \<notin> KnownPermissions) (tm_Permissions m)))"

type_synonym manifest_json = "bytes \<Rightarrow> TransportManifest option"

definition ParseTransportManifest :: "manifest_json \<Rightarrow> bytes \<Rightarrow> manifest_error + TransportManifest" where
  "ParseTransportManifest J raw =
     (case J raw of
        None \<Rightarrow> Inl ManifestJson
      | Some m \<Rightarrow> (case Validate m of Some e \<Rightarrow> Inl e | None \<Rightarrow> Inr m))"

definition HasCapability :: "string \<Rightarrow> TransportManifest \<Rightarrow> bool" where
  "HasCapability cap m \<longleftrightarrow> cap \<in> set (tm_Capabilities m)"

lemma id_plain:
  assumes "idRe s"
  shows "CHR ''/'' \<notin> set s" "s \<noteq> []" "s \<noteq> ''.''" "s \<noteq> ''..''" "path_join p s = p @ [s]"
proof -
  have no: "\<not> lower_alnum CHR ''/''" "\<not> lower_alnum CHR ''.''" by (simp_all add: lower_alnum_def in_class_def less_eq_char_def)
  show plain: "CHR ''/'' \<notin> set s" "s \<noteq> []" "s \<noteq> ''.''" "s \<noteq> ''..''"
    using assms no by (auto simp: idRe_def list_all_iff split: list.splits)
  show "path_join p s = p @ [s]" using plain by (rule path_join_plain)
qed

lemma entry_plain:
  assumes "e \<noteq> []" "e = safeEntry e"
  shows "CHR ''/'' \<notin> set e" "e \<noteq> ''.''" "e \<noteq> ''..''" "path_join p e = p @ [e]"
proof -
  have "\<not> entry_char CHR ''/''" by (simp add: entry_char_def in_class_def less_eq_char_def)
  moreover have e: "list_all entry_char e" "e \<noteq> ''.''" "e \<noteq> ''..''" using assms by (auto simp: safeEntry_def split: if_splits)
  ultimately show plain: "CHR ''/'' \<notin> set e" "e \<noteq> ''.''" "e \<noteq> ''..''" by (auto simp: list_all_iff)
  show "path_join p e = p @ [e]" using plain assms(1) by (intro path_join_plain)
qed

text \<open>
  C34.  A manifest is accepted only if its identifier and its entry are single path segments (so that the
  files of a transport lie directly in a directory of its own), it speaks API version 1, and it asks for known
  capabilities, at least one, and known permissions only.
\<close>

theorem manifest_confined:
  assumes "ParseTransportManifest J raw = Inr m"
  shows "path_join (path_join dir (tm_ID m)) (tm_Entry m) = dir @ [tm_ID m, tm_Entry m] \<and>
     1 \<le> length (tm_ID m) \<and> length (tm_ID m) \<le> 64 \<and> tm_APIVersion m = ''1'' \<and>
     tm_Capabilities m \<noteq> [] \<and> set (tm_Capabilities m) \<subseteq> KnownCapabilities \<and> set (tm_Permissions m) \<subseteq> KnownPermissions"
proof -
  have ok: "Validate m = None"
    using assms by (auto simp: ParseTransportManifest_def split: option.splits)
  then have i: "idRe (tm_ID m)" and e: "tm_Entry m \<noteq> []" "tm_Entry m = safeEntry (tm_Entry m)"
    by (auto simp: Validate_def split: if_splits)
  have l: "1 \<le> length (tm_ID m)" "length (tm_ID m) \<le> 64" using i by (auto simp: idRe_def split: list.splits)
  have "set (tm_Capabilities m) \<subseteq> KnownCapabilities" "set (tm_Permissions m) \<subseteq> KnownPermissions"
    "tm_APIVersion m = ''1''" "tm_Capabilities m \<noteq> []"
    using ok by (auto simp: Validate_def find_None_iff split: if_splits option.splits)
  then show ?thesis using l id_plain(5) [OF i] entry_plain(4) [OF e] by simp
qed

definition toy_package :: TransportManifest where
  "toy_package = \<lparr>tm_ID = ''relay'', tm_Name = ''r'', tm_Version = ''1'', tm_APIVersion = ''1'', tm_Entry = ''relay.wasm'',
     tm_Capabilities = [''message''], tm_Permissions = [''network''], tm_Description = []\<rparr>"

lemma toy_package_valid: "ParseTransportManifest (\<lambda>_. Some toy_package) raw = Inr toy_package"
proof -
  have "Validate toy_package = None" by code_simp
  then show ?thesis by (simp add: ParseTransportManifest_def)
qed

theorem manifest_confined_witness:
  "ParseTransportManifest (\<lambda>_. Some toy_package) [] = Inr toy_package \<and>
   path_join (path_join [''t''] ''relay'') ''relay.wasm'' = [''t'', ''relay'', ''relay.wasm'']"
  using manifest_confined [OF toy_package_valid, of "[''t'']"] toy_package_valid
  by (simp add: toy_package_def)

end
