(* ===== verification/ProcTransport.thy ===== *)
theory ProcTransport
  imports Package
begin

text \<open>
  A transport that runs as a process (\<^verbatim>\<open>src/internal/transport/process_transport.go\<close> and the methods of
  \<^verbatim>\<open>src/internal/transport/file.go\<close>).  What \<^verbatim>\<open>Process.Call\<close> returns for an operation and a payload is the argument
  \<open>call\<close> of every method; a method makes at most one call per operation.
\<close>

type_synonym caller = "byte \<Rightarrow> bytes \<Rightarrow> call_error + Envelope"

datatype transport_error =
    TCall call_error
  | TRpc rpc_error
  | TRemote RPCError
  | NotStarted string
  | SpawnFailed
  | InitRefused string string byte
  | IdMismatch string string
  | ActionRefused string string
  | RangesMalformed

record ProcessTransport =
  pt_manifest :: TransportManifest
  pt_started :: bool
  pt_caps :: "string list"
  pt_version :: string

record RouteHint =
  rh_RecipientPub :: bytes
  rh_SenderHint :: bytes
  rh_MailboxID :: bytes
  rh_ShardURL :: string

definition TransportAPIVersion :: byte where "TransportAPIVersion = 1"

subsection \<open>One request\<close>

text \<open>The shape all methods share: encode, call, decode the payload of the answer.\<close>

definition request :: "rpc_error + bytes \<Rightarrow> byte \<Rightarrow> (bytes \<Rightarrow> rpc_error + 'b) \<Rightarrow> caller \<Rightarrow> transport_error + 'b" where
  "request payload op decode call =
     (case payload of
        Inl e \<Rightarrow> Inl (TRpc e)
      | Inr body \<Rightarrow>
          (case call op body of
             Inl e \<Rightarrow> Inl (TCall e)
           | Inr env \<Rightarrow> (case decode (env_Payload env) of Inl e \<Rightarrow> Inl (TRpc e) | Inr x \<Rightarrow> Inr x)))"

definition acked :: "transport_error + Ack \<Rightarrow> transport_error + unit" where
  "acked r =
     (case r of
        Inl e \<Rightarrow> Inl e
      | Inr ack \<Rightarrow> if ack_OK ack then Inr () else Inl (TRemote \<lparr>err_Code = ErrTransport, err_Detail = ack_Detail ack\<rparr>))"

subsection \<open>Life cycle\<close>

definition queryCaps :: "prims \<Rightarrow> caller \<Rightarrow> transport_error + Caps" where
  "queryCaps P call = request (Inr [0]) OpCapabilities (UnmarshalCaps P) call"

definition NewProcessTransport ::
  "prims \<Rightarrow> bool \<Rightarrow> caller \<Rightarrow> TransportManifest \<Rightarrow> bytes \<Rightarrow> transport_error + ProcessTransport" where
  "NewProcessTransport P spawned call m config =
     (if \<not> spawned then Inl SpawnFailed
      else case request (MarshalInitialize P \<lparr>ini_TransportID = tm_ID m, ini_APIVersion = TransportAPIVersion, ini_Config = config\<rparr>)
          OpInitialize (UnmarshalInitResult P) call of
        Inl e \<Rightarrow> Inl e
      | Inr res \<Rightarrow>
          if \<not> inr_OK res \<or> inr_ActualAPI res \<noteq> TransportAPIVersion
          then Inl (InitRefused (tm_ID m) (inr_Detail res) (inr_ActualAPI res))
          else case queryCaps P call of
            Inl e \<Rightarrow> Inl e
          | Inr caps \<Rightarrow>
              if cap_TransportID caps \<noteq> tm_ID m then Inl (IdMismatch (tm_ID m) (cap_TransportID caps))
              else Inr \<lparr>pt_manifest = m, pt_started = False, pt_caps = cap_Capabilities caps, pt_version = cap_Version caps\<rparr>)"

definition action_payload :: "prims \<Rightarrow> byte \<Rightarrow> bytes" where
  "action_payload P a = (case MarshalStartStop P a of Inl _ \<Rightarrow> [] | Inr b \<Rightarrow> b)"

definition Transport_Start :: "prims \<Rightarrow> caller \<Rightarrow> ProcessTransport \<Rightarrow> (transport_error + unit) \<times> ProcessTransport" where
  "Transport_Start P call t =
     (case request (Inr (action_payload P ActionStart)) OpStartStop (UnmarshalAck P) call of
        Inl e \<Rightarrow> (Inl e, t)
      | Inr ack \<Rightarrow>
          if \<not> ack_OK ack then (Inl (ActionRefused (tm_ID (pt_manifest t)) (ack_Detail ack)), t)
          else (Inr (), t\<lparr>pt_started := True\<rparr>))"

definition Transport_Stop :: "prims \<Rightarrow> caller \<Rightarrow> ProcessTransport \<Rightarrow> (transport_error + unit) \<times> ProcessTransport" where
  "Transport_Stop P call t =
     (case request (Inr (action_payload P ActionStop)) OpStartStop (UnmarshalAck P) call of
        Inl e \<Rightarrow> (Inl e, t)
      | Inr ack \<Rightarrow>
          (if \<not> ack_OK ack then Inl (ActionRefused (tm_ID (pt_manifest t)) (ack_Detail ack)) else Inr (),
           t\<lparr>pt_started := False\<rparr>))"

definition requireStarted :: "ProcessTransport \<Rightarrow> transport_error option" where
  "requireStarted t = (if \<not> pt_started t then Some (NotStarted (tm_ID (pt_manifest t))) else None)"

subsection \<open>Frames and mailboxes\<close>

definition not_ready :: "string \<Rightarrow> RPCError" where
  "not_ready i = \<lparr>err_Code = ErrNotReady, err_Detail = ''transport \"'' @ i @ ''\" not started''\<rparr>"

definition SendFrame :: "prims \<Rightarrow> caller \<Rightarrow> bytes \<Rightarrow> RouteHint \<Rightarrow> ProcessTransport \<Rightarrow> transport_error + unit" where
  "SendFrame P call frame to t =
     (case requireStarted t of
        Some e \<Rightarrow> Inl (TRemote (not_ready (tm_ID (pt_manifest t))))
      | None \<Rightarrow>
          acked (request (MarshalSend P \<lparr>snd_Frame = frame, snd_RecipientPub = rh_RecipientPub to, snd_SenderHint = rh_SenderHint to,
              snd_MailboxID = rh_MailboxID to, snd_ShardURL = rh_ShardURL to\<rparr>) OpSend (UnmarshalAck P) call))"

definition AttachMailbox ::
  "prims \<Rightarrow> caller \<Rightarrow> bytes \<Rightarrow> bytes \<Rightarrow> string \<Rightarrow> string \<Rightarrow> ProcessTransport \<Rightarrow> transport_error + unit" where
  "AttachMailbox P call mailboxID readSecret shardURL routerURL t =
     (case requireStarted t of
        Some e \<Rightarrow> Inl e
      | None \<Rightarrow>
          acked (request (MarshalAttach P \<lparr>att_MailboxID = mailboxID, att_ReadSecret = readSecret, att_ShardURL = shardURL,
              att_RouterURL = routerURL\<rparr>) OpAttach (UnmarshalAck P) call))"

definition DetachMailbox :: "prims \<Rightarrow> caller \<Rightarrow> bytes \<Rightarrow> ProcessTransport \<Rightarrow> transport_error + unit" where
  "DetachMailbox P call mailboxID t =
     (case requireStarted t of
        Some e \<Rightarrow> Inl e
      | None \<Rightarrow> acked (request (MarshalDetach P mailboxID) OpDetach (UnmarshalAck P) call))"

definition poll_count :: "int \<Rightarrow> int" where
  "poll_count limit = (if limit \<le> 0 \<or> limit > 32 then 32 else limit)"

definition PollFrames :: "prims \<Rightarrow> caller \<Rightarrow> int \<Rightarrow> bytes \<Rightarrow> ProcessTransport \<Rightarrow> transport_error + bytes list" where
  "PollFrames P call limit mailboxID t =
     (case requireStarted t of
        Some e \<Rightarrow> Inl e
      | None \<Rightarrow>
          request (MarshalPoll P \<lparr>pol_Limit = word_of_int (poll_count limit), pol_MailboxID = mailboxID\<rparr>)
            OpPoll (UnmarshalPollResult P) call)"

definition Transport_Status :: "prims \<Rightarrow> caller \<Rightarrow> transport_error + bool \<times> string" where
  "Transport_Status P call =
     map_sum id (\<lambda>st. (sts_Running st, sts_Detail st)) (request (Inr [0]) OpStatus (UnmarshalStatus P) call)"

subsection \<open>Transfers\<close>

definition Transport_XferCreate :: "prims \<Rightarrow> caller \<Rightarrow> XferCreate \<Rightarrow> transport_error + XferCreated" where
  "Transport_XferCreate P call x = request (MarshalXferCreate P x) OpXferCreate (UnmarshalXferCreated P) call"

definition Transport_XferPut :: "prims \<Rightarrow> caller \<Rightarrow> XferPut \<Rightarrow> transport_error + 32 word" where
  "Transport_XferPut P call x =
     map_sum id xpg_Highest (request (MarshalXferPut P x) OpXferPut (UnmarshalXferProgress P) call)"

function ranges_loop :: "bytes \<Rightarrow> (32 word \<times> 32 word) list" where
  "ranges_loop blob =
     (if blob = [] then [] else (beU32 (take 4 blob), beU32 (take 4 (drop 4 blob))) # ranges_loop (drop 8 blob))"
  by pat_completeness auto
termination by (relation "measure length") auto

declare ranges_loop.simps [simp del]

definition decodeRanges :: "bytes \<Rightarrow> (32 word \<times> 32 word) list option" where
  "decodeRanges blob = (if length blob mod 8 \<noteq> 0 then None else Some (ranges_loop blob))"

definition resume :: "prims \<Rightarrow> caller \<Rightarrow> XferResume \<Rightarrow> transport_error + 32 word \<times> 32 word \<times> (32 word \<times> 32 word) list" where
  "resume P call x =
     (case request (MarshalXferResume P x) OpXferResume (UnmarshalXferProgress P) call of
        Inl e \<Rightarrow> Inl e
      | Inr prog \<Rightarrow>
          (case decodeRanges (xpg_MissingRanges prog) of
             None \<Rightarrow> Inl RangesMalformed
           | Some missing \<Rightarrow> Inr (xpg_Count prog, xpg_Highest prog, missing)))"

definition Transport_XferResume ::
  "prims \<Rightarrow> caller \<Rightarrow> bytes \<Rightarrow> bytes \<Rightarrow> bytes \<Rightarrow> transport_error + 32 word \<times> 32 word \<times> (32 word \<times> 32 word) list" where
  "Transport_XferResume P call transferID mailboxID readSecret =
     resume P call \<lparr>xrs_TransferID = transferID, xrs_MailboxID = mailboxID, xrs_ReadSecret = readSecret, xrs_Ticket = [],
       xrs_ShardURL = []\<rparr>"

definition XferResumeByTicket ::
  "prims \<Rightarrow> caller \<Rightarrow> bytes \<Rightarrow> bytes \<Rightarrow> string \<Rightarrow> transport_error + 32 word \<times> 32 word \<times> (32 word \<times> 32 word) list" where
  "XferResumeByTicket P call transferID ticket shardURL =
     resume P call \<lparr>xrs_TransferID = transferID, xrs_MailboxID = [], xrs_ReadSecret = [], xrs_Ticket = ticket,
       xrs_ShardURL = shardURL\<rparr>"

definition get_chunk :: "prims \<Rightarrow> caller \<Rightarrow> XferGet \<Rightarrow> transport_error + bytes \<times> bytes" where
  "get_chunk P call x =
     map_sum id (\<lambda>c. (xch_Payload c, xch_Hash c)) (request (MarshalXferGet P x) OpXferGet (UnmarshalXferChunk P) call)"

definition Transport_XferGet ::
  "prims \<Rightarrow> caller \<Rightarrow> bytes \<Rightarrow> 32 word \<Rightarrow> bytes \<Rightarrow> bytes \<Rightarrow> transport_error + bytes \<times> bytes" where
  "Transport_XferGet P call transferID index mailboxID readSecret =
     get_chunk P call \<lparr>xgt_TransferID = transferID, xgt_Index = index, xgt_MailboxID = mailboxID, xgt_ReadSecret = readSecret,
       xgt_Ticket = [], xgt_ShardURL = []\<rparr>"

definition XferGetByTicket ::
  "prims \<Rightarrow> caller \<Rightarrow> bytes \<Rightarrow> 32 word \<Rightarrow> bytes \<Rightarrow> string \<Rightarrow> transport_error + bytes \<times> bytes" where
  "XferGetByTicket P call transferID index ticket shardURL =
     get_chunk P call \<lparr>xgt_TransferID = transferID, xgt_Index = index, xgt_MailboxID = [], xgt_ReadSecret = [],
       xgt_Ticket = ticket, xgt_ShardURL = shardURL\<rparr>"

definition XferComplete :: "prims \<Rightarrow> caller \<Rightarrow> bytes \<Rightarrow> bytes \<Rightarrow> transport_error + unit" where
  "XferComplete P call transferID manifestHash =
     acked (request (MarshalXferCompleteReq P \<lparr>xcm_TransferID = transferID, xcm_ManifestHash = manifestHash\<rparr>)
       OpXferComplete (UnmarshalAck P) call)"

definition XferCancel :: "prims \<Rightarrow> caller \<Rightarrow> bytes \<Rightarrow> bytes \<Rightarrow> bytes \<Rightarrow> transport_error + unit" where
  "XferCancel P call transferID mailboxID readSecret =
     acked (request (MarshalXferCancelReq P \<lparr>xcn_TransferID = transferID, xcn_MailboxID = mailboxID, xcn_ReadSecret = readSecret\<rparr>)
       OpXferCancel (UnmarshalAck P) call)"

definition IdentityRegister :: "prims \<Rightarrow> caller \<Rightarrow> IdentityRegisterReq \<Rightarrow> transport_error + RegisterResult" where
  "IdentityRegister P call x =
     request (MarshalIdentityRegisterReq P x) OpIdentityRegister (UnmarshalRegisterResult P) call"

definition XferRegister :: "prims \<Rightarrow> caller \<Rightarrow> string \<Rightarrow> string \<Rightarrow> transport_error + RegisterResult" where
  "XferRegister P call userTag routerURL =
     request (MarshalRegisterReq P \<lparr>rrq_UserTag = userTag, rrq_RouterURL = routerURL\<rparr>) OpRegister (UnmarshalRegisterResult P) call"

definition XferResolve :: "prims \<Rightarrow> caller \<Rightarrow> bytes \<Rightarrow> string \<Rightarrow> transport_error + ResolveResult" where
  "XferResolve P call recipientPub routerURL =
     request (MarshalResolveReq P \<lparr>rsq_RecipientPub = recipientPub, rsq_RouterURL = routerURL\<rparr>) OpResolve (UnmarshalResolveResult P) call"

definition SupportsCapability :: "ProcessTransport \<Rightarrow> string \<Rightarrow> bool" where
  "SupportsCapability t cap \<longleftrightarrow> cap \<in> set (pt_caps t)"

end
