(* ===== verification/ProcProps.thy ===== *)
theory ProcProps
  imports ProcTransport
begin

text \<open>What the methods of a transport process guarantee when the process keeps to the protocol, and when it does not.\<close>

subsection \<open>One request\<close>

lemma request_ok:
  "payload = Inr body \<Longrightarrow> call op body = Inr env \<Longrightarrow> decode (env_Payload env) = Inr x \<Longrightarrow> request payload op decode call = Inr x"
  by (simp add: request_def)

lemma request_InrD:
  assumes "request payload op decode call = Inr x"
  obtains body env where "payload = Inr body" "call op body = Inr env" "decode (env_Payload env) = Inr x"
  using assms by (auto simp: request_def split: sum.splits)

text \<open>An answer that carries an encoded acknowledgement.\<close>

lemma acked_request:
  assumes "np_law P" "payload = Inr body" "call op body = Inr env" "MarshalAck P a = Inr (env_Payload env)"
  shows "acked (request payload op (UnmarshalAck P) call) =
     (if ack_OK a then Inr () else Inl (TRemote \<lparr>err_Code = ErrTransport, err_Detail = ack_Detail a\<rparr>))"
proof -
  have "UnmarshalAck P (env_Payload env) = Inr a"
    using ack_rpc.dec_enc [OF assms(1)] assms(4) by (simp add: MarshalAck_def UnmarshalAck_def)
  then have "request payload op (UnmarshalAck P) call = Inr a" by (rule request_ok [where call = call, OF assms(2,3)])
  then show ?thesis by (simp add: acked_def)
qed

subsection \<open>Polling\<close>

text \<open>A process that keeps to the protocol answers a poll with the first frames of the mailbox, up to the limit.\<close>

definition answers_polls :: "prims \<Rightarrow> (bytes \<Rightarrow> bytes list) \<Rightarrow> caller \<Rightarrow> bool" where
  "answers_polls P queue call \<longleftrightarrow>
     (\<forall>body q. UnmarshalPoll P body = Inr q \<longrightarrow>
        (\<exists>env. call OpPoll body = Inr env \<and>
           MarshalPollResult P (take (unat (pol_Limit q)) (queue (pol_MailboxID q))) = Inr (env_Payload env)))"

lemma poll_count_word: "unat (poll_limit (word_of_int (poll_count n))) = nat (poll_count n)"
proof -
  have c: "0 < poll_count n" "poll_count n \<le> 32" by (auto simp: poll_count_def)
  then have "uint (word_of_int (poll_count n) :: byte) = poll_count n" by (simp add: uint_word_of_int take_bit_eq_mod)
  then have u: "unat (word_of_int (poll_count n) :: byte) = nat (poll_count n)" by (simp add: unat_eq_nat_uint)
  then have "(word_of_int (poll_count n) :: byte) \<noteq> 0" using c by auto
  then show ?thesis using u by (simp add: poll_limit_def)
qed

text \<open>
  Note.  Polling a started transport that keeps to the protocol returns the first frames that wait in the mailbox,
  unchanged and in order, as many as asked for (32 if the number asked for is not between 1 and 32); a transport that
  is not started is never called.
\<close>

theorem poll_exact:
  assumes "np_law P" "answers_polls P queue call" "length mailboxID \<in> {0, 16}"
  shows "PollFrames P call limit mailboxID t =
     (if pt_started t then Inr (take (nat (poll_count limit)) (queue mailboxID)) else Inl (NotStarted (tm_ID (pt_manifest t))))"
proof (cases "pt_started t")
  case True
  let ?q = "\<lparr>pol_Limit = word_of_int (poll_count limit), pol_MailboxID = mailboxID\<rparr>"
  have ok: "bad_poll ?q = None" using assms(3) by (auto simp: bad_poll_def)
  obtain b where b: "p_np_enc P (Poll_fields ?q) = Some b"
    by (rule np_enc_dec [OF assms(1), of "Poll_fields ?q"]) (simp add: Poll_fields_def)
  then have m: "MarshalPoll P ?q = Inr b" using ok by (simp add: MarshalPoll_def rpc_enc_def)
  have "UnmarshalPoll P b = Inr (?q\<lparr>pol_Limit := poll_limit (pol_Limit ?q)\<rparr>)" by (rule poll_roundtrip [OF assms(1) m])
  then have "\<exists>env. call OpPoll b = Inr env \<and>
      MarshalPollResult P (take (nat (poll_count limit)) (queue mailboxID)) = Inr (env_Payload env)"
    using assms(2) unfolding answers_polls_def by (fastforce simp: poll_count_word)
  then obtain env where env: "call OpPoll b = Inr env"
      "MarshalPollResult P (take (nat (poll_count limit)) (queue mailboxID)) = Inr (env_Payload env)" by blast
  have "UnmarshalPollResult P (env_Payload env) = Inr (take (nat (poll_count limit)) (queue mailboxID))"
    using poll_result_decodes [OF assms(1) env(2)] .
  then show ?thesis using True m env(1) by (simp add: PollFrames_def requireStarted_def request_def)
qed (simp add: PollFrames_def requireStarted_def)

subsection \<open>Who may download\<close>

lemma auth_exclusive:
  "checkXferAuth m s t = None \<longleftrightarrow> length t = 32 \<and> m = [] \<and> s = [] \<or> t = [] \<and> length m = 16 \<and> length s = 32"
  by (auto simp: checkXferAuth_def)

text \<open>
  Note.  A request for the state or a chunk of a transfer carries exactly one kind of authority, a download
  ticket or the credentials of a mailbox, both when the core sends it and when it is decoded; the two methods that take a
  ticket send no mailbox credential, and nothing is sent when the ticket or the credentials have the wrong size.
\<close>

theorem xfer_auth_exclusive:
  shows "(\<forall>x. UnmarshalXferGet P b = Inr x \<longrightarrow> (length (xgt_Ticket x) = 32 \<and> xgt_MailboxID x = [] \<and> xgt_ReadSecret x = []) \<noteq>
           (xgt_Ticket x = [] \<and> length (xgt_MailboxID x) = 16 \<and> length (xgt_ReadSecret x) = 32)) \<and>
     (\<forall>x. UnmarshalXferResume P b = Inr x \<longrightarrow> (length (xrs_Ticket x) = 32 \<and> xrs_MailboxID x = [] \<and> xrs_ReadSecret x = []) \<noteq>
           (xrs_Ticket x = [] \<and> length (xrs_MailboxID x) = 16 \<and> length (xrs_ReadSecret x) = 32)) \<and>
     (np_law P \<and> length tid = 16 \<and> length ticket = 32 \<longrightarrow>
        (\<exists>body x. XferGetByTicket P call tid index ticket shard =
             map_sum id (\<lambda>c. (xch_Payload c, xch_Hash c)) (request (Inr body) OpXferGet (UnmarshalXferChunk P) call) \<and>
           UnmarshalXferGet P body = Inr x \<and> xgt_TransferID x = tid \<and> xgt_Index x = index \<and> xgt_Ticket x = ticket \<and>
           xgt_MailboxID x = [] \<and> xgt_ReadSecret x = [])) \<and>
     (length ticket \<noteq> 32 \<longrightarrow> (\<exists>e. XferGetByTicket P call tid index ticket shard = Inl (TRpc e)))"
proof (intro conjI allI impI)
  fix x assume "UnmarshalXferGet P b = Inr x"
  then have "XferGet_bad x = None" using xferGet_rpc.dec_checked by (auto simp: UnmarshalXferGet_def)
  then show "(length (xgt_Ticket x) = 32 \<and> xgt_MailboxID x = [] \<and> xgt_ReadSecret x = []) \<noteq>
      (xgt_Ticket x = [] \<and> length (xgt_MailboxID x) = 16 \<and> length (xgt_ReadSecret x) = 32)"
    by (auto simp: XferGet_bad_def auth_exclusive split: if_splits)
next
  fix x assume "UnmarshalXferResume P b = Inr x"
  then have "XferResume_bad x = None" using xferResume_rpc.dec_checked by (auto simp: UnmarshalXferResume_def)
  then show "(length (xrs_Ticket x) = 32 \<and> xrs_MailboxID x = [] \<and> xrs_ReadSecret x = []) \<noteq>
      (xrs_Ticket x = [] \<and> length (xrs_MailboxID x) = 16 \<and> length (xrs_ReadSecret x) = 32)"
    by (auto simp: XferResume_bad_def auth_exclusive split: if_splits)
next
  let ?x = "\<lparr>xgt_TransferID = tid, xgt_Index = index, xgt_MailboxID = [], xgt_ReadSecret = [], xgt_Ticket = ticket, xgt_ShardURL = shard\<rparr>"
  assume h: "np_law P \<and> length tid = 16 \<and> length ticket = 32"
  then have ok: "XferGet_bad ?x = None" by (simp add: XferGet_bad_def auth_exclusive)
  obtain body where body: "MarshalXferGet P ?x = Inr body"
    using xferGet_rpc.enc_total ok h by (auto simp: MarshalXferGet_def)
  then have "UnmarshalXferGet P body = Inr ?x"
    using xferGet_rpc.dec_enc h by (simp add: MarshalXferGet_def UnmarshalXferGet_def)
  then show "\<exists>body x. XferGetByTicket P call tid index ticket shard =
        map_sum id (\<lambda>c. (xch_Payload c, xch_Hash c)) (request (Inr body) OpXferGet (UnmarshalXferChunk P) call) \<and>
      UnmarshalXferGet P body = Inr x \<and> xgt_TransferID x = tid \<and> xgt_Index x = index \<and> xgt_Ticket x = ticket \<and>
      xgt_MailboxID x = [] \<and> xgt_ReadSecret x = []"
    using body by (intro exI [of _ body] exI [of _ ?x]) (simp add: XferGetByTicket_def get_chunk_def)
next
  assume "length ticket \<noteq> 32"
  then show "\<exists>e. XferGetByTicket P call tid index ticket shard = Inl (TRpc e)"
    by (auto simp: XferGetByTicket_def get_chunk_def request_def MarshalXferGet_def rpc_enc_def XferGet_bad_def checkXferAuth_def)
qed

subsection \<open>Starting\<close>

text \<open>A process is taken for a transport only under the identifier of its manifest and with the API version of the core.\<close>

lemma new_transport_checked:
  assumes "NewProcessTransport P sp call m config = Inr t"
  shows "pt_manifest t = m \<and> \<not> pt_started t \<and> (\<exists>caps. queryCaps P call = Inr caps \<and> cap_TransportID caps = tm_ID m \<and> pt_caps t = cap_Capabilities caps)"
  using assms by (auto simp: NewProcessTransport_def split: if_splits sum.splits)

subsection \<open>Concrete instances\<close>

definition toy_queue :: "bytes \<Rightarrow> bytes list" where
  "toy_queue _ = [[3, 1], [3, 2]]"

definition toy_poll_call :: caller where
  "toy_poll_call op body =
     (case UnmarshalPoll toy body of
        Inl e \<Rightarrow> Inl ReadFailed
      | Inr q \<Rightarrow>
          (case MarshalPollResult toy (take (unat (pol_Limit q)) (toy_queue (pol_MailboxID q))) of
             Inl e \<Rightarrow> Inl ReadFailed
           | Inr b \<Rightarrow> Inr \<lparr>env_Op = op, env_ReqID = 1, env_Payload = b\<rparr>))"

lemma toy_answers_polls: "answers_polls toy toy_queue toy_poll_call"
proof -
  have "\<exists>b. MarshalPollResult toy (take n (toy_queue m)) = Inr b" for n m
  proof -
    have "list_all (\<lambda>f. \<not> frame_bad f) (take n (toy_queue m))"
      by (auto simp: toy_queue_def frame_bad_def MaxFrameBytes_def list_all_iff dest!: in_set_takeD)
    then show ?thesis by (intro poll_result_encodes [OF toy_laws(4)]) (simp_all add: toy_queue_def)
  qed
  then have "\<exists>env. toy_poll_call OpPoll body = Inr env \<and>
      MarshalPollResult toy (take (unat (pol_Limit q)) (toy_queue (pol_MailboxID q))) = Inr (env_Payload env)"
    if "UnmarshalPoll toy body = Inr q" for body q
    using that by (simp add: toy_poll_call_def split: sum.splits) (metis Envelope.select_convs(3) Inl_Inr_False)
  then show ?thesis by (simp add: answers_polls_def)
qed

theorem poll_exact_witness:
  "PollFrames toy toy_poll_call 1 [] \<lparr>pt_manifest = toy_package, pt_started = True, pt_caps = [], pt_version = []\<rparr> = Inr [[3, 1]]"
  using poll_exact [OF toy_laws(4) toy_answers_polls, of "[]" 1] by (simp add: poll_count_def toy_queue_def)

theorem xfer_auth_exclusive_witness:
  "\<exists>body x. UnmarshalXferGet toy body = Inr x \<and> xgt_Ticket x = replicate 32 7 \<and> xgt_MailboxID x = []"
  using xfer_auth_exclusive [of toy "[]" "replicate 16 1" "replicate 32 7" toy_poll_call 0 "''s''"] toy_laws(4) by auto

end
