(* ===== verification/Manager.thy ===== *)
theory Manager
  imports ProcProps
begin

text \<open>
  The transport manager (\<^verbatim>\<open>src/internal/transport/manager.go\<close>): which transports are installed, enabled and running,
  the mailboxes attached to them, and the integrity check before a transport is run.  The disk maps absolute paths to
  file contents.  What the environment does is an argument of the operations: whether files can be written, what a
  spawned transport answers, and the disk at the moment a native entry is executed.  The JSON form of the state file is a
  parameter, as is the reading of archives.
\<close>

subsection \<open>State\<close>

record Attachment =
  at_MailboxID :: string
  at_ReadSecret :: string
  at_ShardURL :: string
  at_RouterURL :: string
  at_Owner :: string

record stateFile =
  sf_Enabled :: "string \<Rightarrow> bool option"
  sf_Hash :: "string \<Rightarrow> string option"
  sf_Files :: "string \<Rightarrow> string option"
  sf_Config :: "string \<Rightarrow> string option"
  sf_Attach :: "string \<Rightarrow> Attachment list option"

text \<open>A live transport; \<open>lv_image\<close> is the code it runs and \<open>lv_process\<close> tells a process from a WebAssembly module.\<close>

record live =
  lv_number :: nat
  lv_ID :: string
  lv_Capabilities :: "string list"
  lv_process :: bool
  lv_image :: bytes
  lv_config :: bytes

text \<open>\<open>mg_running\<close> is the set of numbers of the transports that were spawned and not killed.\<close>

record Manager =
  mg_dir :: path
  mg_state :: stateFile
  mg_live :: "string \<Rightarrow> live option"
  mg_spawned :: nat
  mg_running :: "nat set"

record Installed =
  is_Manifest :: TransportManifest
  is_Dir :: path
  is_Enabled :: bool
  is_Hash :: string
  is_Running :: bool

datatype mgr_error =
    StateRead | StateWrite
  | InstallOpen | InstallRead | ManifestMissing | InstallManifest manifest_error | EntryMissing string | EntryTooLarge
  | StillRunning string | InstallWrite
  | NotInstalled string | Disabled string | NotRunning string
  | NoPin string | ReadInstalled | IntegrityFailed string
  | SpawnError | StartError | CorruptAttachment string string | CorruptSecret string string | ReplayAttach string string
  | ConfigTooLarge | ConfigNotJson
  | BadMailbox | BadSecret | ShardRequired | NotAttached
  | ListFailed

record json_codec =
  jc_manifest :: manifest_json
  jc_put_state :: "stateFile \<Rightarrow> bytes"
  jc_get_state :: "bytes \<Rightarrow> stateFile option"

record mgr_io =
  io_save :: bool
  io_mkdir :: bool
  io_entry_first :: bool
  io_file :: "string \<Rightarrow> nat option"
  io_entries :: "string list option"
  io_spawn :: "string list option"
  io_exec :: disk
  io_start :: bool
  io_attach :: "Attachment \<Rightarrow> bool"

subsection \<open>The state file\<close>

definition state_path :: "path \<Rightarrow> path" where
  "state_path dir = dir @ [''state.json'']"

definition empty_state :: stateFile where
  "empty_state = \<lparr>sf_Enabled = Map.empty, sf_Hash = Map.empty, sf_Files = Map.empty, sf_Config = Map.empty, sf_Attach = Map.empty\<rparr>"

definition loadState :: "json_codec \<Rightarrow> path \<Rightarrow> disk \<Rightarrow> mgr_error + stateFile" where
  "loadState J dir fs =
     (case fs (state_path dir) of
        None \<Rightarrow> Inr empty_state
      | Some raw \<Rightarrow> (case jc_get_state J raw of None \<Rightarrow> Inl StateRead | Some s \<Rightarrow> Inr s))"

definition NewManager :: "json_codec \<Rightarrow> path \<Rightarrow> disk \<Rightarrow> mgr_error + Manager" where
  "NewManager J dir fs =
     (case loadState J dir fs of
        Inl e \<Rightarrow> Inl e
      | Inr s \<Rightarrow> Inr \<lparr>mg_dir = dir, mg_state = s, mg_live = Map.empty, mg_spawned = 0, mg_running = {}\<rparr>)"

definition saveState :: "json_codec \<Rightarrow> mgr_io \<Rightarrow> Manager \<Rightarrow> disk \<Rightarrow> mgr_error option \<times> disk" where
  "saveState J io m fs =
     (if io_save io then (None, fs(state_path (mg_dir m) \<mapsto> jc_put_state J (mg_state m))) else (Some StateWrite, fs))"

text \<open>Operations end by saving; the manager keeps its new state even if that fails.\<close>

definition saved :: "json_codec \<Rightarrow> mgr_io \<Rightarrow> Manager \<Rightarrow> disk \<Rightarrow> (mgr_error + unit) \<times> Manager \<times> disk" where
  "saved J io m fs =
     (case saveState J io m fs of (Some e, fs') \<Rightarrow> (Inl e, m, fs') | (None, fs') \<Rightarrow> (Inr (), m, fs'))"

definition transport_file :: "path \<Rightarrow> string \<Rightarrow> string \<Rightarrow> path" where
  "transport_file dir i name = path_join (path_join dir i) name"

definition has_manifest :: "Manager \<Rightarrow> string \<Rightarrow> disk \<Rightarrow> bool" where
  "has_manifest m i fs \<longleftrightarrow> fs (transport_file (mg_dir m) i ''manifest.json'') \<noteq> None"

subsection \<open>Listing\<close>

definition installed :: "json_codec \<Rightarrow> Manager \<Rightarrow> disk \<Rightarrow> string \<Rightarrow> Installed list" where
  "installed J m fs e =
     (case fs (transport_file (mg_dir m) e ''manifest.json'') of
        None \<Rightarrow> []
      | Some raw \<Rightarrow>
          (case ParseTransportManifest (jc_manifest J) raw of
             Inl _ \<Rightarrow> []
           | Inr mf \<Rightarrow>
               [\<lparr>is_Manifest = mf, is_Dir = path_join (mg_dir m) e, is_Enabled = sf_Enabled (mg_state m) (tm_ID mf) = Some True,
                 is_Hash = (case sf_Hash (mg_state m) (tm_ID mf) of None \<Rightarrow> [] | Some h \<Rightarrow> h),
                 is_Running = mg_live m (tm_ID mf) \<noteq> None\<rparr>]))"

definition Manager_List :: "json_codec \<Rightarrow> mgr_io \<Rightarrow> Manager \<Rightarrow> disk \<Rightarrow> mgr_error + Installed list" where
  "Manager_List J io m fs =
     (case io_entries io of
        None \<Rightarrow> Inl ListFailed
      | Some entries \<Rightarrow> Inr (sort_key (\<lambda>x. tm_ID (is_Manifest x)) (concat (map (installed J m fs) entries))))"

subsection \<open>Installing\<close>

text \<open>An archive: the entries in order, with their declared size and their content if it can be read.\<close>

record zip_file =
  zf_Name :: string
  zf_Size :: nat
  zf_Data :: "bytes option"

record ntx =
  nx_files :: "zip_file list option"
  nx_raw :: "bytes option"

definition zip_lookup :: "zip_file list \<Rightarrow> string \<Rightarrow> zip_file option" where
  "zip_lookup zs name = map_of (rev (map (\<lambda>f. (zf_Name f, f)) zs)) name"

definition filesPin :: "prims \<Rightarrow> bytes \<Rightarrow> bytes \<Rightarrow> string" where
  "filesPin P manifest entry =
     hex_encode (p_sha256 P (putU64 (word_of_nat (length manifest)) @ manifest @ putU64 (word_of_nat (length entry)) @ entry))"

text \<open>The manifest of an archive, read up to 64 KiB; a later entry of that name replaces an earlier one.\<close>

definition read_manifest :: "zip_file list \<Rightarrow> mgr_error + bytes" where
  "read_manifest zs =
     (let ms = filter (\<lambda>f. zf_Name f = ''manifest.json'') zs in
      if list_ex (\<lambda>f. zf_Data f = None) ms then Inl InstallRead
      else if ms = [] then Inl ManifestMissing
      else Inr (take (64 * 1024) (the (zf_Data (last ms)))))"

definition opened :: "json_codec \<Rightarrow> ntx \<Rightarrow> mgr_error + zip_file list \<times> TransportManifest \<times> bytes" where
  "opened J pkg =
     (case nx_files pkg of
        None \<Rightarrow> Inl InstallOpen
      | Some zs \<Rightarrow>
          (case read_manifest zs of
             Inl e \<Rightarrow> Inl e
           | Inr mfRaw \<Rightarrow>
               (case ParseTransportManifest (jc_manifest J) mfRaw of
                  Inl e \<Rightarrow> Inl (InstallManifest e)
                | Inr mf \<Rightarrow>
                    (case zip_lookup zs (tm_Entry mf) of
                       None \<Rightarrow> Inl (EntryMissing (tm_Entry mf))
                     | Some entry \<Rightarrow>
                         if zf_Size entry > 100 * 2 ^ 20 then Inl EntryTooLarge
                         else case nx_raw pkg of None \<Rightarrow> Inl InstallRead | Some raw \<Rightarrow> Inr (zs, mf, raw)))))"

text \<open>
  The two files are written in the order of the iteration over a map.  A failed write leaves some first bytes of the
  file.
\<close>

fun write_files :: "mgr_io \<Rightarrow> path \<Rightarrow> zip_file list \<Rightarrow> string list \<Rightarrow> disk \<Rightarrow> (mgr_error + (string \<times> bytes) list) \<times> disk" where
  "write_files io dest zs [] fs = (Inr [], fs)"
| "write_files io dest zs (name # names) fs =
     (case zip_lookup zs name of
        None \<Rightarrow> write_files io dest zs names fs
      | Some zf \<Rightarrow>
          (case zf_Data zf of
             None \<Rightarrow> (Inl InstallRead, fs)
           | Some content \<Rightarrow>
               let data = take (110 * 2 ^ 20) content in
               (case io_file io name of
                  Some k \<Rightarrow> (Inl InstallWrite, fs(path_join dest name \<mapsto> take k data))
                | None \<Rightarrow>
                    (case write_files io dest zs names (fs(path_join dest name \<mapsto> data)) of
                       (Inl e, fs') \<Rightarrow> (Inl e, fs')
                     | (Inr ws, fs') \<Rightarrow> (Inr ((name, data) # ws), fs')))))"

definition write_order :: "mgr_io \<Rightarrow> string \<Rightarrow> string list" where
  "write_order io entry =
     (if entry = ''manifest.json'' then [entry]
      else if io_entry_first io then [entry, ''manifest.json''] else [''manifest.json'', entry])"

definition written :: "(string \<times> bytes) list \<Rightarrow> string \<Rightarrow> bytes" where
  "written ws name = (case map_of ws name of None \<Rightarrow> [] | Some b \<Rightarrow> b)"

text \<open>A running transport blocks the installation unless the package differs from the one installed.\<close>

definition may_install :: "Manager \<Rightarrow> string \<Rightarrow> string \<Rightarrow> bool" where
  "may_install m i hash \<longleftrightarrow>
     (case sf_Hash (mg_state m) i of None \<Rightarrow> False | Some old \<Rightarrow> old \<noteq> [] \<and> old \<noteq> hash) \<or> mg_live m i = None"

definition install_state :: "prims \<Rightarrow> bool \<Rightarrow> TransportManifest \<Rightarrow> string \<Rightarrow> (string \<times> bytes) list \<Rightarrow> stateFile \<Rightarrow> stateFile" where
  "install_state P enable mf hash ws st =
     (let i = tm_ID mf in
      st\<lparr>sf_Hash := (sf_Hash st)(i \<mapsto> hash),
         sf_Files := (sf_Files st)(i \<mapsto> filesPin P (written ws ''manifest.json'') (written ws (tm_Entry mf))),
         sf_Enabled := (if sf_Enabled st i = None then (sf_Enabled st)(i \<mapsto> enable)
           else if enable then (sf_Enabled st)(i \<mapsto> True) else sf_Enabled st)\<rparr>)"

definition Install :: "prims \<Rightarrow> json_codec \<Rightarrow> mgr_io \<Rightarrow> ntx \<Rightarrow> bool \<Rightarrow> Manager \<Rightarrow> disk \<Rightarrow> (mgr_error + TransportManifest) \<times> Manager \<times> disk" where
  "Install P J io pkg enable m fs =
     (case opened J pkg of
        Inl e \<Rightarrow> (Inl e, m, fs)
      | Inr (zs, mf, pkgRaw) \<Rightarrow>
          let hash = hex_encode (p_sha256 P pkgRaw) in
          if \<not> may_install m (tm_ID mf) hash then (Inl (StillRunning (tm_ID mf)), m, fs)
          else if \<not> io_mkdir io then (Inl InstallWrite, m, fs)
          else case write_files io (path_join (mg_dir m) (tm_ID mf)) zs (write_order io (tm_Entry mf)) fs of
            (Inl e, fs') \<Rightarrow> (Inl e, m, fs')
          | (Inr ws, fs') \<Rightarrow>
              (case saved J io (m\<lparr>mg_state := install_state P enable mf hash ws (mg_state m)\<rparr>) fs' of
                 (Inl e, r) \<Rightarrow> (Inl e, r)
               | (Inr _, r) \<Rightarrow> (Inr mf, r)))"

subsection \<open>Removing, enabling, disabling\<close>

definition killLive :: "live \<Rightarrow> Manager \<Rightarrow> Manager" where
  "killLive t m = m\<lparr>mg_running := mg_running m - {lv_number t}\<rparr>"

definition take_down :: "string \<Rightarrow> Manager \<Rightarrow> Manager" where
  "take_down i m =
     (case mg_live m i of
        None \<Rightarrow> m
      | Some t \<Rightarrow> killLive t (m\<lparr>mg_live := (mg_live m)(i := None)\<rparr>))"

definition forget :: "string \<Rightarrow> stateFile \<Rightarrow> stateFile" where
  "forget i st = st\<lparr>sf_Enabled := (sf_Enabled st)(i := None), sf_Hash := (sf_Hash st)(i := None),
     sf_Files := (sf_Files st)(i := None), sf_Attach := (sf_Attach st)(i := None), sf_Config := (sf_Config st)(i := None)\<rparr>"

definition Manager_Remove :: "json_codec \<Rightarrow> mgr_io \<Rightarrow> string \<Rightarrow> Manager \<Rightarrow> disk \<Rightarrow> (mgr_error + unit) \<times> Manager \<times> disk" where
  "Manager_Remove J io i m fs =
     (let m1 = take_down i m; m2 = m1\<lparr>mg_state := forget i (mg_state m1)\<rparr> in
      case saved J io m2 fs of
        (Inl e, r) \<Rightarrow> (Inl e, r)
      | (Inr _, m3, fs') \<Rightarrow> (Inr (), m3, RemoveAll (path_join (mg_dir m) i) fs'))"

definition set_enabled :: "string \<Rightarrow> bool \<Rightarrow> Manager \<Rightarrow> Manager" where
  "set_enabled i b m = m\<lparr>mg_state := (mg_state m)\<lparr>sf_Enabled := (sf_Enabled (mg_state m))(i \<mapsto> b)\<rparr>\<rparr>"

definition Enable :: "json_codec \<Rightarrow> mgr_io \<Rightarrow> string \<Rightarrow> Manager \<Rightarrow> disk \<Rightarrow> (mgr_error + unit) \<times> Manager \<times> disk" where
  "Enable J io i m fs =
     (if \<not> has_manifest m i fs then (Inl (NotInstalled i), m, fs) else saved J io (set_enabled i True m) fs)"

definition Disable :: "json_codec \<Rightarrow> mgr_io \<Rightarrow> string \<Rightarrow> Manager \<Rightarrow> disk \<Rightarrow> (mgr_error + unit) \<times> Manager \<times> disk" where
  "Disable J io i m fs = saved J io (set_enabled i False (take_down i m)) fs"

subsection \<open>Starting and stopping\<close>

definition verifyInstalled :: "prims \<Rightarrow> json_codec \<Rightarrow> string \<Rightarrow> Manager \<Rightarrow> disk \<Rightarrow> mgr_error + TransportManifest \<times> bytes" where
  "verifyInstalled P J i m fs =
     (let pinned = (case sf_Files (mg_state m) i of None \<Rightarrow> [] | Some p \<Rightarrow> p) in
      if pinned = [] then Inl (NoPin i)
      else case fs (transport_file (mg_dir m) i ''manifest.json'') of
        None \<Rightarrow> Inl ReadInstalled
      | Some mfRaw \<Rightarrow>
          (case ParseTransportManifest (jc_manifest J) mfRaw of
             Inl e \<Rightarrow> Inl (InstallManifest e)
           | Inr mf \<Rightarrow>
               (case fs (transport_file (mg_dir m) i (tm_Entry mf)) of
                  None \<Rightarrow> Inl ReadInstalled
                | Some entryRaw \<Rightarrow>
                    if filesPin P mfRaw entryRaw \<noteq> pinned then Inl (IntegrityFailed i) else Inr (mf, entryRaw))))"

definition HasSuffix :: "string \<Rightarrow> string \<Rightarrow> bool" where
  "HasSuffix s t \<longleftrightarrow> length t \<le> length s \<and> drop (length s - length t) s = t"

definition is_wasm :: "TransportManifest \<Rightarrow> bool" where
  "is_wasm mf \<longleftrightarrow> HasSuffix (ToLower (tm_Entry mf)) ''.wasm''"

text \<open>
  A WebAssembly entry runs the bytes it is given, a native one whatever is stored at its path when it is executed.  A
  process that is refused is killed before \<open>spawn\<close> returns.
\<close>

definition spawn :: "mgr_io \<Rightarrow> path \<Rightarrow> bytes \<Rightarrow> TransportManifest \<Rightarrow> bytes \<Rightarrow> nat \<Rightarrow> live option" where
  "spawn io bin entryRaw mf cfg n =
     (case (io_spawn io, if is_wasm mf then Some entryRaw else io_exec io bin) of
        (Some caps, Some code) \<Rightarrow>
          Some \<lparr>lv_number = n, lv_ID = tm_ID mf, lv_Capabilities = caps, lv_process = (\<not> is_wasm mf), lv_image = code, lv_config = cfg\<rparr>
      | _ \<Rightarrow> None)"

fun replay_attach :: "mgr_io \<Rightarrow> string \<Rightarrow> Attachment list \<Rightarrow> mgr_error option" where
  "replay_attach io i [] = None"
| "replay_attach io i (a # as) =
     (if \<not> (case hex_decode (at_MailboxID a) of None \<Rightarrow> False | Some b \<Rightarrow> length b = 16)
      then Some (CorruptAttachment i (at_MailboxID a))
      else if \<not> (case hex_decode (at_ReadSecret a) of None \<Rightarrow> False | Some b \<Rightarrow> length b = 32)
      then Some (CorruptSecret i (at_MailboxID a))
      else if \<not> io_attach io a then Some (ReplayAttach i (take 8 (at_MailboxID a)))
      else replay_attach io i as)"

definition attachments :: "Manager \<Rightarrow> string \<Rightarrow> Attachment list" where
  "attachments m i = (case sf_Attach (mg_state m) i of None \<Rightarrow> [] | Some as \<Rightarrow> as)"

definition launched :: "live \<Rightarrow> Manager \<Rightarrow> Manager" where
  "launched t m = m\<lparr>mg_spawned := mg_spawned m + 1, mg_running := insert (lv_number t) (mg_running m)\<rparr>"

text \<open>A stale handle under the same identifier is killed and replaced.\<close>

definition placed :: "string \<Rightarrow> live \<Rightarrow> Manager \<Rightarrow> Manager" where
  "placed i t m =
     (let m' = (case mg_live m i of None \<Rightarrow> m | Some old \<Rightarrow> killLive old m) in m'\<lparr>mg_live := (mg_live m')(i \<mapsto> t)\<rparr>)"

definition Manager_Start :: "prims \<Rightarrow> json_codec \<Rightarrow> mgr_io \<Rightarrow> string \<Rightarrow> Manager \<Rightarrow> disk \<Rightarrow> (mgr_error + live) \<times> Manager" where
  "Manager_Start P J io i m fs =
     (if sf_Enabled (mg_state m) i \<noteq> Some True then (Inl (Disabled i), m)
      else if \<not> has_manifest m i fs then (Inl (NotInstalled i), m)
      else case verifyInstalled P J i m fs of
        Inl e \<Rightarrow> (Inl e, m)
      | Inr (mf, entryRaw) \<Rightarrow>
          let bin = transport_file (mg_dir m) i (tm_Entry mf);
              cfg = (case sf_Config (mg_state m) i of None \<Rightarrow> [] | Some c \<Rightarrow> to_bytes c) in
          (case spawn io bin entryRaw mf cfg (mg_spawned m) of
             None \<Rightarrow> (Inl SpawnError, m)
           | Some t \<Rightarrow>
               let m1 = launched t m in
               if \<not> io_start io then (Inl StartError, killLive t m1)
               else case replay_attach io i (attachments m1 i) of
                 Some e \<Rightarrow> (Inl e, killLive t m1)
               | None \<Rightarrow>
                   (Inr t, placed i t m1)))"

definition Manager_Stop :: "string \<Rightarrow> Manager \<Rightarrow> (mgr_error + unit) \<times> Manager" where
  "Manager_Stop i m = (if mg_live m i = None then (Inl (NotRunning i), m) else (Inr (), take_down i m))"

text \<open>Every enabled transport is started in the order of the list; one that fails is disabled.\<close>

fun start_each ::
  "prims \<Rightarrow> json_codec \<Rightarrow> (string \<Rightarrow> mgr_io) \<Rightarrow> Installed list \<Rightarrow> (string \<times> mgr_error) list \<Rightarrow> Manager \<Rightarrow> disk \<Rightarrow>
   (string \<times> mgr_error) list \<times> Manager \<times> disk" where
  "start_each P J io [] out m fs = (out, m, fs)"
| "start_each P J io (inst # rest) out m fs =
     (let i = tm_ID (is_Manifest inst) in
      if \<not> is_Enabled inst then start_each P J io rest out m fs
      else case Manager_Start P J (io i) i m fs of
        (Inr _, m') \<Rightarrow> start_each P J io rest out m' fs
      | (Inl e, m') \<Rightarrow>
          (case saveState J (io i) (set_enabled i False m') fs of
             (_, fs') \<Rightarrow> start_each P J io rest (AList.update i e out) (set_enabled i False m') fs'))"

definition StartEnabled ::
  "prims \<Rightarrow> json_codec \<Rightarrow> mgr_io \<Rightarrow> (string \<Rightarrow> mgr_io) \<Rightarrow> Manager \<Rightarrow> disk \<Rightarrow> (string \<times> mgr_error) list \<times> Manager \<times> disk" where
  "StartEnabled P J io ios m fs =
     (case Manager_List J io m fs of
        Inl e \<Rightarrow> ([([], e)], m, fs)
      | Inr insts \<Rightarrow> start_each P J ios insts [] m fs)"

definition EnsureRunning :: "prims \<Rightarrow> json_codec \<Rightarrow> mgr_io \<Rightarrow> string \<Rightarrow> Manager \<Rightarrow> disk \<Rightarrow> (mgr_error + live) \<times> Manager" where
  "EnsureRunning P J io i m fs =
     (case mg_live m i of Some t \<Rightarrow> (Inr t, m) | None \<Rightarrow> Manager_Start P J io i m fs)"

text \<open>The transports are collected from the map in some order \<open>ids\<close> and sorted.\<close>

definition Route :: "string \<Rightarrow> string list \<Rightarrow> Manager \<Rightarrow> live list" where
  "Route cap ids m =
     sort_key lv_ID (filter (\<lambda>t. cap \<in> set (lv_Capabilities t)) (List.map_filter (mg_live m) ids))"

definition FileRoute :: "string list \<Rightarrow> Manager \<Rightarrow> live list" where
  "FileRoute ids m =
     sort_key lv_ID (filter (\<lambda>t. lv_process t \<and> ''binary-transfer'' \<in> set (lv_Capabilities t)) (List.map_filter (mg_live m) ids))"

subsection \<open>Configuration and mailboxes\<close>

definition SetConfig :: "(string \<Rightarrow> bool) \<Rightarrow> json_codec \<Rightarrow> mgr_io \<Rightarrow> string \<Rightarrow> string \<Rightarrow> Manager \<Rightarrow> disk \<Rightarrow> (mgr_error + unit) \<times> Manager \<times> disk" where
  "SetConfig is_object J io i configJSON m fs =
     (if \<not> has_manifest m i fs then (Inl (NotInstalled i), m, fs)
      else if length configJSON > 64 * 1024 then (Inl ConfigTooLarge, m, fs)
      else if TrimSpace configJSON \<noteq> [] \<and> \<not> is_object configJSON then (Inl ConfigNotJson, m, fs)
      else saved J io (m\<lparr>mg_state := (mg_state m)\<lparr>sf_Config := (sf_Config (mg_state m))(i \<mapsto> configJSON)\<rparr>\<rparr>) fs)"

definition Manager_Config :: "Manager \<Rightarrow> string \<Rightarrow> string" where
  "Manager_Config m i = (case sf_Config (mg_state m) i of None \<Rightarrow> [] | Some c \<Rightarrow> c)"

definition hex_letter :: "char \<Rightarrow> bool" where
  "hex_letter = in_class [(CHR ''0'', CHR ''9''), (CHR ''a'', CHR ''f''), (CHR ''A'', CHR ''F'')]"

definition isHex :: "string \<Rightarrow> bool" where
  "isHex s \<longleftrightarrow> list_all hex_letter s"

definition set_attachments :: "string \<Rightarrow> Attachment list \<Rightarrow> Manager \<Rightarrow> Manager" where
  "set_attachments i as m = m\<lparr>mg_state := (mg_state m)\<lparr>sf_Attach := (sf_Attach (mg_state m))(i \<mapsto> as)\<rparr>\<rparr>"

fun upsert :: "Attachment \<Rightarrow> Attachment list \<Rightarrow> Attachment list" where
  "upsert a [] = [a]"
| "upsert a (b # bs) = (if at_MailboxID b = at_MailboxID a then a # bs else b # upsert a bs)"

definition AddAttachment :: "json_codec \<Rightarrow> mgr_io \<Rightarrow> string \<Rightarrow> Attachment \<Rightarrow> Manager \<Rightarrow> disk \<Rightarrow> (mgr_error + unit) \<times> Manager \<times> disk" where
  "AddAttachment J io i a m fs =
     (if length (at_MailboxID a) \<noteq> 32 \<or> \<not> isHex (at_MailboxID a) then (Inl BadMailbox, m, fs)
      else if length (at_ReadSecret a) \<noteq> 64 \<or> \<not> isHex (at_ReadSecret a) then (Inl BadSecret, m, fs)
      else if at_ShardURL a = [] then (Inl ShardRequired, m, fs)
      else if \<not> has_manifest m i fs then (Inl (NotInstalled i), m, fs)
      else saved J io (set_attachments i (upsert a (attachments m i)) m) fs)"

definition RemoveAttachment :: "json_codec \<Rightarrow> mgr_io \<Rightarrow> string \<Rightarrow> string \<Rightarrow> Manager \<Rightarrow> disk \<Rightarrow> (mgr_error + unit) \<times> Manager \<times> disk" where
  "RemoveAttachment J io i mailboxID m fs =
     (let kept = filter (\<lambda>a. at_MailboxID a \<noteq> mailboxID) (attachments m i) in
      if length kept = length (attachments m i) then (Inl NotAttached, m, fs)
      else saved J io (set_attachments i kept m) fs)"

end
