(* ===== verification/ManagerProps.thy ===== *)
theory ManagerProps
  imports Manager
begin

text \<open>
  Correctness of the transport manager: what is run is what was installed, no process is left behind, attached mailboxes
  are always well formed, a failing transport is put aside, and what removing a transport deletes.
\<close>

subsection \<open>Integrity\<close>

text \<open>What the pin of two files is the hash of; it determines both files.\<close>

definition pinned_bytes :: "bytes \<Rightarrow> bytes \<Rightarrow> bytes" where
  "pinned_bytes manifest entry = putU64 (word_of_nat (length manifest)) @ manifest @ putU64 (word_of_nat (length entry)) @ entry"

lemma filesPin_sha: "filesPin P a b = filesPin P c d \<Longrightarrow> p_sha256 P (pinned_bytes a b) = p_sha256 P (pinned_bytes c d)"
  by (simp add: filesPin_def pinned_bytes_def)

lemma pinned_bytes_inject:
  assumes "pinned_bytes a b = pinned_bytes c d" "length a + length b < 2 ^ 64"
  shows "a = c \<and> b = d"
proof -
  note e = assms(1) [unfolded pinned_bytes_def]
  have "length (pinned_bytes a b) = length (pinned_bytes c d)" by (simp only: assms(1))
  then have l: "length a < 2 ^ 64" "length c < 2 ^ 64" using assms(2) by (simp_all add: pinned_bytes_def)
  have "putU64 (word_of_nat (length a)) = putU64 (word_of_nat (length c))" using e by (simp add: append_eq_append_conv)
  then have "(word_of_nat (length a) :: 64 word) = word_of_nat (length c)" by (metis beU64_putU64)
  then have "unat (word_of_nat (length a) :: 64 word) = unat (word_of_nat (length c) :: 64 word)" by simp
  then have "length a = length c" using l by (simp add: unat_of_nat take_bit_eq_mod)
  then show ?thesis using e by simp
qed

lemma verify_InrD:
  assumes "verifyInstalled P J i m fs = Inr (mf, entry)"
  obtains pin mfRaw where "sf_Files (mg_state m) i = Some pin" "fs (transport_file (mg_dir m) i ''manifest.json'') = Some mfRaw"
    "ParseTransportManifest (jc_manifest J) mfRaw = Inr mf" "fs (transport_file (mg_dir m) i (tm_Entry mf)) = Some entry"
    "filesPin P mfRaw entry = pin"
  using assms by (auto simp: verifyInstalled_def Let_def split: if_splits option.splits sum.splits)

text \<open>The three ways a start ends: nothing was spawned, what was spawned is killed again, or it is live.\<close>

lemma start_outcome:
  assumes "Manager_Start P J io i m fs = (r, m')"
  shows "(\<exists>e. r = Inl e) \<and> m' = m \<or>
     (\<exists>t e. lv_number t = mg_spawned m \<and> r = Inl e \<and> m' = killLive t (launched t m)) \<or>
     (\<exists>t mf entry. lv_number t = mg_spawned m \<and> r = Inr t \<and> m' = placed i t (launched t m) \<and>
        sf_Enabled (mg_state m) i = Some True \<and> verifyInstalled P J i m fs = Inr (mf, entry) \<and>
        (if is_wasm mf then Some entry else io_exec io (transport_file (mg_dir m) i (tm_Entry mf))) = Some (lv_image t))"
proof (cases "sf_Enabled (mg_state m) i = Some True \<and> has_manifest m i fs")
  case True
  show ?thesis
  proof (cases "verifyInstalled P J i m fs")
    case (Inl e)
    then show ?thesis using assms True by (auto simp: Manager_Start_def)
  next
    case (Inr x)
    obtain mf entry where x: "x = (mf, entry)" by (cases x)
    let ?spawn = "spawn io (transport_file (mg_dir m) i (tm_Entry mf)) entry mf
        (case sf_Config (mg_state m) i of None \<Rightarrow> [] | Some c \<Rightarrow> to_bytes c) (mg_spawned m)"
    show ?thesis
    proof (cases ?spawn)
      case None
      then show ?thesis using assms True by (auto simp: Manager_Start_def Inr x)
    next
      case (Some t)
      then have "lv_number t = mg_spawned m"
        "(if is_wasm mf then Some entry else io_exec io (transport_file (mg_dir m) i (tm_Entry mf))) = Some (lv_image t)"
        by (auto simp: spawn_def split: option.splits)
      then show ?thesis using assms True Some
        by (auto simp: Manager_Start_def Inr x Let_def split: if_splits option.splits)
    qed
  qed
qed (use assms in \<open>auto simp: Manager_Start_def split: if_splits\<close>)

lemma start_InrD:
  assumes "Manager_Start P J io i m fs = (Inr t, m')"
  obtains mf entry where "sf_Enabled (mg_state m) i = Some True" "verifyInstalled P J i m fs = Inr (mf, entry)"
    "(if is_wasm mf then Some entry else io_exec io (transport_file (mg_dir m) i (tm_Entry mf))) = Some (lv_image t)"
    "mg_live m' i = Some t"
  using start_outcome [OF assms] by (auto simp: placed_def Let_def)

text \<open>What a successful installation leaves on disk and in the state.\<close>

lemma write_files_written:
  assumes "write_files io (dir @ [i]) zs names fs = (Inr ws, fs')" "distinct names" "\<forall>n\<in>set names. path_join (dir @ [i]) n = dir @ [i, n]"
  shows "(\<forall>n\<in>set names. zip_lookup zs n \<noteq> None \<longrightarrow> (\<exists>c. (map_option zf_Data (zip_lookup zs n)) = Some (Some c) \<and>
            map_of ws n = Some (take (110 * 2 ^ 20) c) \<and> fs' (dir @ [i, n]) = Some (take (110 * 2 ^ 20) c))) \<and>
         (\<forall>q. q \<notin> (\<lambda>n. dir @ [i, n]) ` set names \<longrightarrow> fs' q = fs q)"
  using assms
proof (induction names arbitrary: fs ws)
  case (Cons n ns)
  show ?case
  proof (cases "zip_lookup zs n")
    case None
    then show ?thesis using Cons by auto
  next
    case (Some zf)
    then obtain c ws' where c: "zf_Data zf = Some c" "ws = (n, take (110 * 2 ^ 20) c) # ws'"
      and rest: "write_files io (dir @ [i]) zs ns (fs(dir @ [i, n] \<mapsto> take (110 * 2 ^ 20) c)) = (Inr ws', fs')"
      using Cons.prems by (auto simp: Let_def split: option.splits sum.splits prod.splits)
    have ih: "\<forall>k\<in>set ns. zip_lookup zs k \<noteq> None \<longrightarrow> (\<exists>c. (map_option zf_Data (zip_lookup zs k)) = Some (Some c) \<and>
            map_of ws' k = Some (take (110 * 2 ^ 20) c) \<and> fs' (dir @ [i, k]) = Some (take (110 * 2 ^ 20) c))"
      and keep: "\<forall>q. q \<notin> (\<lambda>n. dir @ [i, n]) ` set ns \<longrightarrow> fs' q = (fs(dir @ [i, n] \<mapsto> take (110 * 2 ^ 20) c)) q"
      using Cons.IH [OF rest] Cons.prems(2,3) by auto
    have "dir @ [i, n] \<notin> (\<lambda>n. dir @ [i, n]) ` set ns" using Cons.prems(2) by auto
    then have "fs' (dir @ [i, n]) = Some (take (110 * 2 ^ 20) c)" using keep by simp
    then show ?thesis using Some c ih keep Cons.prems(2) by auto
  qed
qed simp

lemma manifest_name [simp]: "path_join p ''manifest.json'' = p @ [''manifest.json'']"
  by (rule path_join_plain) simp_all

lemma transport_file_plain: "idRe i \<Longrightarrow> n \<noteq> [] \<Longrightarrow> n = safeEntry n \<Longrightarrow> transport_file dir i n = dir @ [i, n]"
  by (simp add: transport_file_def id_plain(5) entry_plain(4))

lemma transport_manifest_plain: "idRe i \<Longrightarrow> transport_file dir i ''manifest.json'' = dir @ [i, ''manifest.json'']"
  by (simp add: transport_file_def id_plain(5))

lemma parsed_plain:
  assumes "ParseTransportManifest J raw = Inr mf"
  shows "idRe (tm_ID mf)" "tm_Entry mf \<noteq> []" "tm_Entry mf = safeEntry (tm_Entry mf)"
  using assms by (auto simp: ParseTransportManifest_def Validate_def split: option.splits if_splits)

lemma zip_lookup_last:
  assumes "filter (\<lambda>f. zf_Name f = n) zs \<noteq> []"
  shows "zip_lookup zs n = Some (last (filter (\<lambda>f. zf_Name f = n) zs))"
  using assms
proof (induction zs rule: rev_induct)
  case (snoc z zs)
  then show ?case by (cases "filter (\<lambda>f. zf_Name f = n) zs = []") (auto simp: zip_lookup_def)
qed simp

lemma install_InrD:
  assumes "Install P J io pkg en m fs = (Inr mf, m1, fs1)"
  obtains mfRaw mfBytes entry where
    "ParseTransportManifest (jc_manifest J) mfRaw = Inr mf" "mfRaw = take (64 * 1024) mfBytes"
    "fs1 (mg_dir m @ [tm_ID mf, ''manifest.json'']) = Some mfBytes" "fs1 (mg_dir m @ [tm_ID mf, tm_Entry mf]) = Some entry"
    "sf_Files (mg_state m1) (tm_ID mf) = Some (filesPin P mfBytes entry)" "mg_dir m1 = mg_dir m"
    "length mfBytes + length entry < 2 ^ 64"
proof -
  obtain zs raw where o: "opened J pkg = Inr (zs, mf, raw)"
  proof (cases "opened J pkg")
    case (Inr x)
    obtain zs mf' raw where x: "x = (zs, mf', raw)" by (cases x) auto
    have "mf' = mf" using assms
      by (auto simp: Inr x Install_def Let_def split: if_splits prod.splits sum.splits)
    then show ?thesis using that Inr x by simp
  qed (use assms in \<open>simp add: Install_def\<close>)
  then obtain mfRaw where r: "read_manifest zs = Inr mfRaw" "ParseTransportManifest (jc_manifest J) mfRaw = Inr mf"
    and e: "zip_lookup zs (tm_Entry mf) \<noteq> None"
    by (auto simp: opened_def split: option.splits sum.splits if_splits)
  note plain = parsed_plain [OF r(2)]
  define ns where "ns = write_order io (tm_Entry mf)"
  have names: "distinct ns" "tm_Entry mf \<in> set ns" "''manifest.json'' \<in> set ns"
      "\<forall>n\<in>set ns. path_join (mg_dir m @ [tm_ID mf]) n = mg_dir m @ [tm_ID mf, n]"
    using entry_plain(4) [OF plain(2,3)] by (auto simp: ns_def write_order_def)
  obtain res fs' where wf: "write_files io (mg_dir m @ [tm_ID mf]) zs ns fs = (res, fs')" by fastforce
  have ok: "may_install m (tm_ID mf) (hex_encode (p_sha256 P raw))" "io_mkdir io"
    using assms o by (auto simp: Install_def Let_def split: if_splits)
  obtain ws where w: "write_files io (mg_dir m @ [tm_ID mf]) zs ns fs = (Inr ws, fs')"
  proof (cases res)
    case (Inl e)
    then show ?thesis using assms o ok wf id_plain(5) [OF plain(1)] by (simp add: Install_def ns_def)
  qed (use wf that in simp)
  obtain f where f: "zip_lookup zs ''manifest.json'' = Some f" "mfRaw = take (64 * 1024) (the (zf_Data f))" "zf_Data f \<noteq> None"
  proof -
    let ?ms = "filter (\<lambda>f. zf_Name f = ''manifest.json'') zs"
    have "?ms \<noteq> []" "list_all (\<lambda>f. zf_Data f \<noteq> None) ?ms" "mfRaw = take (64 * 1024) (the (zf_Data (last ?ms)))"
      using r(1) unfolding read_manifest_def Let_def by (simp_all split: if_splits add: Bex_set [symmetric] Ball_set [symmetric])
    moreover have "zf_Data (last ?ms) \<noteq> None" using calculation(1,2) last_in_set [of ?ms] by (simp add: list_all_iff del: last_in_set)
    ultimately show ?thesis using that zip_lookup_last by blast
  qed
  note on_disk = write_files_written [OF w names(1,4), THEN conjunct1, rule_format]
  obtain mc where mc: "zf_Data f = Some mc" "map_of ws ''manifest.json'' = Some (take (110 * 2 ^ 20) mc)"
      "fs' (mg_dir m @ [tm_ID mf, ''manifest.json'']) = Some (take (110 * 2 ^ 20) mc)"
    using on_disk [OF names(3)] f(1) by auto
  obtain ec where ec: "map_of ws (tm_Entry mf) = Some (take (110 * 2 ^ 20) ec)"
      "fs' (mg_dir m @ [tm_ID mf, tm_Entry mf]) = Some (take (110 * 2 ^ 20) ec)"
    using on_disk [OF names(2) e] by auto
  have m1: "fs1 = fs'(state_path (mg_dir m) \<mapsto> jc_put_state J (mg_state m1))" "mg_dir m1 = mg_dir m"
      "sf_Files (mg_state m1) (tm_ID mf) = Some (filesPin P (written ws ''manifest.json'') (written ws (tm_Entry mf)))"
    using assms o w ok id_plain(5) [OF plain(1)]
    by (auto simp: Install_def install_state_def Let_def saved_def saveState_def ns_def split: if_splits)
  have "fs1 (mg_dir m @ [tm_ID mf, x]) = fs' (mg_dir m @ [tm_ID mf, x])" for x by (simp add: m1(1) state_path_def)
  moreover have "mfRaw = take (64 * 1024) (take (110 * 2 ^ 20) mc)" using f(2) mc(1) by (simp add: min_def)
  moreover have "length (take (110 * 2 ^ 20) mc) + length (take (110 * 2 ^ 20) ec) < 2 ^ 64" by simp
  ultimately show ?thesis
    using that [OF r(2), of "take (110 * 2 ^ 20) mc" "take (110 * 2 ^ 20) ec"] mc ec m1 by (simp add: written_def)
qed

text \<open>
  C30.  A transport starts only while it is enabled and only if the manifest and the entry that are on disk at
  that moment have the SHA-256 of those that were installed, whatever happened to the disk and the manager in between except
  another installation.  The bytes that are hashed determine both files, so either the two files are the installed ones,
  byte for byte, or these very files are a second preimage of the installed ones.  A WebAssembly transport runs exactly the entry that
  was checked, a native one what its file holds when it is executed.
\<close>

theorem start_runs_installed:
  assumes "Install P J io pkg en m fs = (Inr mf, m1, fs1)"
    and "fs1 (mg_dir m @ [tm_ID mf, ''manifest.json'']) = Some raw" "length raw \<le> 64 * 1024"
    and "sf_Files (mg_state m2) (tm_ID mf) = sf_Files (mg_state m1) (tm_ID mf)" "mg_dir m2 = mg_dir m1"
    and "Manager_Start P J io' (tm_ID mf) m2 fs2 = (Inr t, m3)"
  shows "sf_Enabled (mg_state m2) (tm_ID mf) = Some True \<and> mg_live m3 (tm_ID mf) = Some t \<and>
     (\<exists>entry raw2 mf2 entry2. fs1 (mg_dir m @ [tm_ID mf, tm_Entry mf]) = Some entry \<and>
        fs2 (mg_dir m @ [tm_ID mf, ''manifest.json'']) = Some raw2 \<and> ParseTransportManifest (jc_manifest J) raw2 = Inr mf2 \<and>
        fs2 (mg_dir m @ [tm_ID mf, tm_Entry mf2]) = Some entry2 \<and>
        p_sha256 P (pinned_bytes raw2 entry2) = p_sha256 P (pinned_bytes raw entry) \<and>
        (pinned_bytes raw2 entry2 = pinned_bytes raw entry \<longrightarrow> raw2 = raw \<and> entry2 = entry \<and> mf2 = mf) \<and>
        Some (lv_image t) = (if is_wasm mf2 then Some entry2 else io_exec io' (mg_dir m @ [tm_ID mf, tm_Entry mf2])))"
proof -
  obtain mfRaw mfBytes entry where i: "ParseTransportManifest (jc_manifest J) mfRaw = Inr mf" "mfRaw = take (64 * 1024) mfBytes"
      "fs1 (mg_dir m @ [tm_ID mf, ''manifest.json'']) = Some mfBytes" "fs1 (mg_dir m @ [tm_ID mf, tm_Entry mf]) = Some entry"
      "sf_Files (mg_state m1) (tm_ID mf) = Some (filesPin P mfBytes entry)" "mg_dir m1 = mg_dir m"
      "length mfBytes + length entry < 2 ^ 64"
    by (rule install_InrD [OF assms(1)])
  have raw: "mfBytes = raw" "mfRaw = raw" using i(2,3) assms(2,3) by simp_all
  note plain = parsed_plain [OF i(1)]
  obtain mf2 entry2 where s: "sf_Enabled (mg_state m2) (tm_ID mf) = Some True" "verifyInstalled P J (tm_ID mf) m2 fs2 = Inr (mf2, entry2)"
      "(if is_wasm mf2 then Some entry2 else io_exec io' (transport_file (mg_dir m2) (tm_ID mf) (tm_Entry mf2))) = Some (lv_image t)"
      "mg_live m3 (tm_ID mf) = Some t"
    using assms(6) by (rule start_InrD)
  obtain pin raw2 where v: "sf_Files (mg_state m2) (tm_ID mf) = Some pin"
      "fs2 (transport_file (mg_dir m2) (tm_ID mf) ''manifest.json'') = Some raw2"
      "ParseTransportManifest (jc_manifest J) raw2 = Inr mf2" "fs2 (transport_file (mg_dir m2) (tm_ID mf) (tm_Entry mf2)) = Some entry2"
      "filesPin P raw2 entry2 = pin"
    using s(2) by (rule verify_InrD)
  have paths: "transport_file (mg_dir m2) (tm_ID mf) (tm_Entry mf2) = mg_dir m @ [tm_ID mf, tm_Entry mf2]"
      "transport_file (mg_dir m2) (tm_ID mf) ''manifest.json'' = mg_dir m @ [tm_ID mf, ''manifest.json'']"
    using transport_file_plain [OF plain(1) parsed_plain(2,3) [OF v(3)]] transport_manifest_plain [OF plain(1)] i(6) assms(5) by simp_all
  have sha: "p_sha256 P (pinned_bytes raw2 entry2) = p_sha256 P (pinned_bytes raw entry)"
    using v(1,5) i(5) assms(4) raw by (intro filesPin_sha) simp
  have same: "raw2 = raw \<and> entry2 = entry \<and> mf2 = mf" if "pinned_bytes raw2 entry2 = pinned_bytes raw entry"
    using pinned_bytes_inject [of raw entry raw2 entry2] that i(1,7) raw v(3) by auto
  show ?thesis using s(1,3,4) v(2-4) i(4) sha same unfolding paths by auto
qed

subsection \<open>Runs of the manager\<close>

text \<open>
  The steps of a manager, each with any outcome of the environment; the disk may also change behind its back.
\<close>

inductive mgr_step :: "prims \<Rightarrow> json_codec \<Rightarrow> Manager \<times> disk \<Rightarrow> Manager \<times> disk \<Rightarrow> bool" for P J where
  install: "Install P J io pkg en m fs = (r, m', fs') \<Longrightarrow> mgr_step P J (m, fs) (m', fs')"
| remove: "Manager_Remove J io i m fs = (r, m', fs') \<Longrightarrow> mgr_step P J (m, fs) (m', fs')"
| enable: "Enable J io i m fs = (r, m', fs') \<Longrightarrow> mgr_step P J (m, fs) (m', fs')"
| disable: "Disable J io i m fs = (r, m', fs') \<Longrightarrow> mgr_step P J (m, fs) (m', fs')"
| start: "Manager_Start P J io i m fs = (r, m') \<Longrightarrow> mgr_step P J (m, fs) (m', fs)"
| stop: "Manager_Stop i m = (r, m') \<Longrightarrow> mgr_step P J (m, fs) (m', fs)"
| start_all: "StartEnabled P J io ios m fs = (out, m', fs') \<Longrightarrow> mgr_step P J (m, fs) (m', fs')"
| config: "SetConfig f J io i c m fs = (r, m', fs') \<Longrightarrow> mgr_step P J (m, fs) (m', fs')"
| attach: "AddAttachment J io i a m fs = (r, m', fs') \<Longrightarrow> mgr_step P J (m, fs) (m', fs')"
| detach: "RemoveAttachment J io i b m fs = (r, m', fs') \<Longrightarrow> mgr_step P J (m, fs) (m', fs')"
| outside: "mgr_step P J (m, fs) (m, fs')"

definition attachment_ok :: "Attachment \<Rightarrow> bool" where
  "attachment_ok a \<longleftrightarrow> (\<exists>b. hex_decode (at_MailboxID a) = Some b \<and> length b = 16) \<and>
     (\<exists>b. hex_decode (at_ReadSecret a) = Some b \<and> length b = 32) \<and> at_ShardURL a \<noteq> []"

definition attachments_ok :: "Manager \<Rightarrow> bool" where
  "attachments_ok m \<longleftrightarrow>
     (\<forall>i. list_all attachment_ok (attachments m i) \<and> distinct (map at_MailboxID (attachments m i)))"

text \<open>The transports that run are the live ones, each under one identifier.\<close>

definition live_ok :: "Manager \<Rightarrow> bool" where
  "live_ok m \<longleftrightarrow> mg_running m = lv_number ` ran (mg_live m) \<and> (\<forall>n\<in>mg_running m. n < mg_spawned m) \<and>
     (\<forall>i j t u. mg_live m i = Some t \<and> mg_live m j = Some u \<and> lv_number t = lv_number u \<longrightarrow> i = j)"

lemma live_ok_state [simp]: "live_ok (m\<lparr>mg_state := s\<rparr>) = live_ok m"
  by (simp add: live_ok_def)

lemma saved_manager: "saved J io m fs = (r, m', fs') \<Longrightarrow> m' = m"
  by (auto simp: saved_def split: prod.splits option.splits)

lemma live_okD:
  assumes "live_ok m"
  shows "mg_running m = lv_number ` ran (mg_live m)" "n \<in> mg_running m \<Longrightarrow> n < mg_spawned m"
    "mg_live m i = Some t \<Longrightarrow> lv_number t \<in> mg_running m"
    "mg_live m i = Some t \<Longrightarrow> mg_live m j = Some u \<Longrightarrow> lv_number t = lv_number u \<Longrightarrow> i = j"
  using assms unfolding live_ok_def by (auto intro: ranI)

lemma live_okI:
  assumes "mg_running m = lv_number ` ran (mg_live m)" "\<And>n. n \<in> mg_running m \<Longrightarrow> n < mg_spawned m"
    and "\<And>i j t u. mg_live m i = Some t \<Longrightarrow> mg_live m j = Some u \<Longrightarrow> lv_number t = lv_number u \<Longrightarrow> i = j"
  shows "live_ok m"
  using assms unfolding live_ok_def by blast

lemma live_ok_take_down:
  assumes "live_ok m"
  shows "live_ok (take_down i m)"
proof (cases "mg_live m i")
  case (Some t)
  then have d: "mg_live (take_down i m) = (mg_live m)(i := None)" "mg_running (take_down i m) = mg_running m - {lv_number t}"
      "mg_spawned (take_down i m) = mg_spawned m"
    by (simp_all add: take_down_def killLive_def)
  show ?thesis
  proof (rule live_okI)
    have "n \<in> lv_number ` ran ((mg_live m)(i := None)) \<longleftrightarrow> n \<in> lv_number ` ran (mg_live m) \<and> n \<noteq> lv_number t" for n
    proof
      assume "n \<in> lv_number ` ran ((mg_live m)(i := None))"
      then obtain k u where u: "mg_live m k = Some u" "k \<noteq> i" "n = lv_number u" by (auto simp: ran_def split: if_splits)
      then show "n \<in> lv_number ` ran (mg_live m) \<and> n \<noteq> lv_number t" using live_okD(4) [OF assms u(1) Some] by (auto intro: ranI)
    next
      assume n: "n \<in> lv_number ` ran (mg_live m) \<and> n \<noteq> lv_number t"
      then obtain k u where u: "mg_live m k = Some u" "n = lv_number u" by (auto simp: ran_def)
      then have "u \<in> ran ((mg_live m)(i := None))" using n Some by (intro ranI [of _ k]) auto
      then show "n \<in> lv_number ` ran ((mg_live m)(i := None))" using u(2) by simp
    qed
    then show "mg_running (take_down i m) = lv_number ` ran (mg_live (take_down i m))"
      unfolding d live_okD(1) [OF assms] by blast
  next
    fix n assume "n \<in> mg_running (take_down i m)"
    then show "n < mg_spawned (take_down i m)" using live_okD(2) [OF assms, of n] by (simp add: d)
  next
    fix k l u v assume "mg_live (take_down i m) k = Some u" "mg_live (take_down i m) l = Some v" "lv_number u = lv_number v"
    then show "k = l" using live_okD(4) [OF assms, of k u l v] by (simp add: d split: if_splits)
  qed
qed (use assms in \<open>simp add: take_down_def\<close>)

lemma live_ok_killed:
  assumes "live_ok m" "lv_number t = mg_spawned m"
  shows "live_ok (killLive t (launched t m))"
proof -
  have "lv_number t \<notin> mg_running m" using live_okD(2) [OF assms(1)] assms(2) by fastforce
  then have "mg_running (killLive t (launched t m)) = mg_running m" "mg_live (killLive t (launched t m)) = mg_live m"
      "mg_spawned (killLive t (launched t m)) = mg_spawned m + 1"
    by (simp_all add: killLive_def launched_def)
  then show ?thesis using live_okD(1,2,4) [OF assms(1)] by (intro live_okI) (auto intro: less_SucI)
qed

lemma live_ok_placed:
  assumes "live_ok m" "lv_number t = mg_spawned m"
  shows "live_ok (placed i t (launched t m))"
proof -
  define d where "d = take_down i m"
  have d: "live_ok d" "mg_live d i = None" "mg_spawned d = mg_spawned m"
    using live_ok_take_down [OF assms(1)] by (auto simp: d_def take_down_def killLive_def split: option.splits)
  have new: "lv_number t \<notin> mg_running d" using live_okD(2) [OF d(1)] d(3) assms(2) by fastforce
  have other: "lv_number w \<noteq> lv_number t" if "mg_live d l = Some w" for l w using live_okD(3) [OF d(1) that] new by auto
  have "lv_number u \<noteq> lv_number t" if "mg_live m i = Some u" for u
    using live_okD(2) [OF assms(1) live_okD(3) [OF assms(1) that]] assms(2) by simp
  then have p: "placed i t (launched t m) = d\<lparr>mg_spawned := mg_spawned d + 1, mg_running := insert (lv_number t) (mg_running d),
      mg_live := (mg_live d)(i \<mapsto> t)\<rparr>"
    by (cases "mg_live m i") (simp_all add: placed_def launched_def d_def take_down_def killLive_def Let_def insert_Diff_if)
  show ?thesis unfolding p
  proof (rule live_okI, goal_cases)
    case 1
    then show ?case using live_okD(1) [OF d(1)] d(2) by simp
  next
    case (2 n)
    then show ?case using live_okD(2) [OF d(1), of n] d(3) assms(2) by (auto intro: less_SucI)
  next
    case (3 k l u v)
    then show ?case using live_okD(4) [OF d(1), of k u l v] other [of k u] other [of l v] by (auto split: if_splits)
  qed
qed

lemma live_ok_start: "live_ok m \<Longrightarrow> Manager_Start P J io i m fs = (r, m') \<Longrightarrow> live_ok m'"
  using start_outcome [of P J io i m fs r m'] live_ok_killed live_ok_placed by blast

subsection \<open>Attached mailboxes\<close>

lemma hex_letter_val: "hex_letter c \<Longrightarrow> hex_val c \<noteq> None"
proof -
  let ?codes = "[48..<58] @ [97..<103] @ [65..<71] :: nat list"
  have vals: "\<forall>n\<in>set ?codes. hex_val (char_of n) \<noteq> None" by code_simp
  assume "hex_letter c"
  then have "of_char c \<in> {48..<58} \<union> {97..<103} \<union> {65..<71 :: nat}" by (simp add: hex_letter_def in_class_def less_eq_char_def) linarith
  then have "of_char c \<in> set ?codes" unfolding set_append set_upt by blast
  with vals have "hex_val (char_of (of_char c :: nat)) \<noteq> None" by (rule bspec)
  then show ?thesis by simp
qed

lemma isHex_decodes: "length s = 2 * n \<Longrightarrow> isHex s \<Longrightarrow> \<exists>b. hex_decode s = Some b \<and> length b = n"
proof (induction n arbitrary: s)
  case (Suc n)
  then obtain a b t where s: "s = a # b # t" by (metis length_0_conv length_Suc_conv mult_Suc_right nat.simps(3) add_2_eq_Suc)
  obtain x y where v: "hex_val a = Some x" "hex_val b = Some y"
    using Suc.prems(2) hex_letter_val [of a] hex_letter_val [of b] by (auto simp: s isHex_def)
  obtain u where u: "hex_decode t = Some u" "length u = n" using Suc by (auto simp: s isHex_def)
  then show ?case using v by (simp add: s)
qed simp

lemma upsert_keys: "at_MailboxID ` set (upsert a as) = insert (at_MailboxID a) (at_MailboxID ` set as)"
  by (induction as) auto

lemma upsert_distinct: "distinct (map at_MailboxID as) \<Longrightarrow> distinct (map at_MailboxID (upsert a as))"
  by (induction as) (auto simp: upsert_keys)

lemma upsert_all: "list_all Q as \<Longrightarrow> Q a \<Longrightarrow> list_all Q (upsert a as)"
  by (induction as) auto

lemma attachments_ok_cong: "sf_Attach (mg_state m') = sf_Attach (mg_state m) \<Longrightarrow> attachments_ok m \<Longrightarrow> attachments_ok m'"
  by (simp add: attachments_ok_def attachments_def)

lemma attachments_ok_set:
  assumes "attachments_ok m" "list_all attachment_ok as" "distinct (map at_MailboxID as)"
  shows "attachments_ok (set_attachments i as m)"
  using assms by (simp add: attachments_ok_def attachments_def set_attachments_def)

lemma attachments_ok_add:
  assumes "attachments_ok m" "AddAttachment J io i a m fs = (r, m', fs')"
  shows "attachments_ok m'"
proof (cases "m' = m")
  case False
  then have c: "length (at_MailboxID a) = 2 * 16" "isHex (at_MailboxID a)" "length (at_ReadSecret a) = 2 * 32" "isHex (at_ReadSecret a)"
      "at_ShardURL a \<noteq> []" and s: "saved J io (set_attachments i (upsert a (attachments m i)) m) fs = (r, m', fs')"
    using assms(2) by (auto simp: AddAttachment_def split: if_splits)
  have "attachment_ok a" using isHex_decodes [OF c(1,2)] isHex_decodes [OF c(3,4)] c(5) by (simp add: attachment_ok_def)
  moreover have "list_all attachment_ok (attachments m i)" "distinct (map at_MailboxID (attachments m i))"
    using assms(1) by (simp_all add: attachments_ok_def)
  ultimately show ?thesis unfolding saved_manager [OF s]
    by (intro attachments_ok_set [OF assms(1)]) (simp_all add: upsert_all upsert_distinct)
qed (use assms in simp)

lemma attachments_ok_remove:
  assumes "attachments_ok m" "RemoveAttachment J io i b m fs = (r, m', fs')"
  shows "attachments_ok m'"
proof (cases "m' = m")
  case False
  let ?kept = "filter (\<lambda>a. at_MailboxID a \<noteq> b) (attachments m i)"
  have s: "saved J io (set_attachments i ?kept m) fs = (r, m', fs')"
    using assms(2) False by (auto simp: RemoveAttachment_def Let_def split: if_splits)
  have "list_all attachment_ok ?kept" "distinct (map at_MailboxID ?kept)"
    using assms(1) by (auto simp: attachments_ok_def list_all_iff intro: distinct_map_filter)
  then show ?thesis unfolding saved_manager [OF s] by (rule attachments_ok_set [OF assms(1)])
qed (use assms in simp)

lemma attachments_ok_forget: "attachments_ok m \<Longrightarrow> attachments_ok (m\<lparr>mg_state := forget i (mg_state m)\<rparr>)"
  by (simp add: attachments_ok_def attachments_def forget_def)

lemma replay_never_corrupt:
  "list_all attachment_ok as \<Longrightarrow> replay_attach io i as = Some e \<Longrightarrow> \<exists>b. e = ReplayAttach i b"
  by (induction as) (auto simp: attachment_ok_def split: if_splits)

subsection \<open>The invariant\<close>

definition mgr_inv :: "Manager \<Rightarrow> bool" where
  "mgr_inv m \<longleftrightarrow> live_ok m \<and> attachments_ok m"

lemma start_state: "Manager_Start P J io i m fs = (r, m') \<Longrightarrow> mg_state m' = mg_state m"
  using start_outcome [of P J io i m fs r m']
  by (auto simp: killLive_def launched_def placed_def Let_def split: option.splits)

lemma take_down_state [simp]: "mg_state (take_down i m) = mg_state m"
  by (auto simp: take_down_def killLive_def split: option.splits)

lemma mgr_inv_start: "mgr_inv m \<Longrightarrow> Manager_Start P J io i m fs = (r, m') \<Longrightarrow> mgr_inv m'"
  using live_ok_start [of m P J io i fs r m'] start_state [of P J io i m fs r m'] attachments_ok_cong [of m' m]
  by (simp add: mgr_inv_def)

lemma mgr_inv_enabled: "mgr_inv m \<Longrightarrow> mgr_inv (set_enabled i b m)"
  using attachments_ok_cong [of "set_enabled i b m" m] by (simp add: mgr_inv_def set_enabled_def)

lemma mgr_inv_take_down: "mgr_inv m \<Longrightarrow> mgr_inv (take_down i m)"
  using attachments_ok_cong [of "take_down i m" m] live_ok_take_down by (simp add: mgr_inv_def)

lemma mgr_inv_start_each: "mgr_inv m \<Longrightarrow> start_each P J io insts out m fs = (out', m', fs') \<Longrightarrow> mgr_inv m'"
proof (induction insts arbitrary: out m fs)
  case (Cons inst insts)
  let ?i = "tm_ID (is_Manifest inst)"
  obtain r m1 where s: "Manager_Start P J (io ?i) ?i m fs = (r, m1)" by fastforce
  note inv = mgr_inv_start [OF Cons.prems(1) s]
  obtain x fs1 where w: "saveState J (io ?i) (set_enabled ?i False m1) fs = (x, fs1)" by fastforce
  show ?case
  proof (cases "is_Enabled inst")
    case True
    show ?thesis
    proof (cases r)
      case (Inl e)
      then have "start_each P J io insts (AList.update ?i e out) (set_enabled ?i False m1) fs1 = (out', m', fs')"
        using Cons.prems(2) True s w by (simp add: Let_def)
      then show ?thesis by (rule Cons.IH [OF mgr_inv_enabled [OF inv]])
    next
      case (Inr t)
      then have "start_each P J io insts out m1 fs = (out', m', fs')" using Cons.prems(2) True s by (simp add: Let_def)
      then show ?thesis by (rule Cons.IH [OF inv])
    qed
  qed (use Cons in \<open>simp add: Let_def\<close>)
qed simp

lemma mgr_inv_install: "mgr_inv m \<Longrightarrow> Install P J io pkg en m fs = (r, m', fs') \<Longrightarrow> mgr_inv m'"
proof -
  assume inv: "mgr_inv m" and i: "Install P J io pkg en m fs = (r, m', fs')"
  have "m' = m \<or> (\<exists>mf h ws. m' = m\<lparr>mg_state := install_state P en mf h ws (mg_state m)\<rparr>)"
    using i by (auto simp: Install_def Let_def dest: saved_manager split: sum.splits prod.splits if_splits)
  moreover have "sf_Attach (install_state P en mf h ws st) = sf_Attach st" for mf h ws st by (simp add: install_state_def Let_def)
  ultimately show "mgr_inv m'" using inv attachments_ok_cong [of m' m] by (auto simp: mgr_inv_def)
qed

lemma mgr_inv_saved: "mgr_inv m \<Longrightarrow> saved J io m fs = (r, m', fs') \<Longrightarrow> mgr_inv m'"
  using saved_manager by blast

lemma mgr_inv_remove: "mgr_inv m \<Longrightarrow> Manager_Remove J io i m fs = (r, m', fs') \<Longrightarrow> mgr_inv m'"
proof -
  assume inv: "mgr_inv m" and r: "Manager_Remove J io i m fs = (r, m', fs')"
  have "mgr_inv ((take_down i m)\<lparr>mg_state := forget i (mg_state (take_down i m))\<rparr>)"
    using mgr_inv_take_down [OF inv, of i] attachments_ok_forget [of "take_down i m" i] by (simp add: mgr_inv_def)
  then show "mgr_inv m'" using r by (auto simp: Manager_Remove_def Let_def dest: saved_manager split: prod.splits sum.splits)
qed

lemma mgr_inv_config: "mgr_inv m \<Longrightarrow> SetConfig f J io i c m fs = (r, m', fs') \<Longrightarrow> mgr_inv m'"
  by (auto simp: SetConfig_def mgr_inv_def attachments_ok_def attachments_def dest!: saved_manager split: if_splits)

lemma mgr_inv_attach: "mgr_inv m \<Longrightarrow> AddAttachment J io i a m fs = (r, m', fs') \<Longrightarrow> mgr_inv m'"
  using attachments_ok_add [of m J io i a fs r m' fs']
  by (auto simp: mgr_inv_def AddAttachment_def set_attachments_def dest!: saved_manager split: if_splits)

lemma mgr_inv_detach: "mgr_inv m \<Longrightarrow> RemoveAttachment J io i b m fs = (r, m', fs') \<Longrightarrow> mgr_inv m'"
  using attachments_ok_remove [of m J io i b fs r m' fs']
  by (auto simp: mgr_inv_def RemoveAttachment_def set_attachments_def Let_def dest!: saved_manager split: if_splits)

lemma mgr_inv_step: "mgr_step P J s s' \<Longrightarrow> mgr_inv (fst s) \<Longrightarrow> mgr_inv (fst s')"
proof (induction rule: mgr_step.induct)
  case (enable io i m fs r m' fs')
  then show ?case using mgr_inv_enabled [of m i True] by (auto simp: Enable_def dest: saved_manager split: if_splits)
next
  case (disable io i m fs r m' fs')
  then show ?case using mgr_inv_enabled [OF mgr_inv_take_down] by (auto simp: Disable_def dest: saved_manager)
next
  case (stop i m r m' fs)
  then show ?case using mgr_inv_take_down [of m i] by (auto simp: Manager_Stop_def split: if_splits)
next
  case (start_all io ios m fs out m' fs')
  then show ?case using mgr_inv_start_each by (auto simp: StartEnabled_def split: sum.splits)
qed (auto intro: mgr_inv_install mgr_inv_remove mgr_inv_start mgr_inv_config mgr_inv_attach mgr_inv_detach)

lemma mgr_inv_run: "(mgr_step P J)\<^sup>*\<^sup>* s s' \<Longrightarrow> mgr_inv (fst s) \<Longrightarrow> mgr_inv (fst s')"
  by (induction rule: rtranclp_induct) (auto intro: mgr_inv_step)

text \<open>
  C32.  In every run of a manager that begins in a fresh directory, whatever packages, files, processes and
  write errors it meets, the transports that run are exactly the live ones, so that none is left behind; and the
  mailboxes attached to a transport are distinct and well formed, so that no start is refused for a corrupt attachment.
\<close>

theorem manager_invariant:
  assumes "NewManager J dir fs = Inr m" "fs (state_path dir) = None" "(mgr_step P J)\<^sup>*\<^sup>* (m, fs) (m', fs')"
  shows "mg_running m' = lv_number ` ran (mg_live m') \<and>
     list_all attachment_ok (attachments m' i) \<and> distinct (map at_MailboxID (attachments m' i)) \<and>
     fst (Manager_Start P J io i m' fs') \<notin> Inl ` (range (CorruptAttachment i) \<union> range (CorruptSecret i))"
proof -
  have "mgr_inv m" using assms(1,2)
    by (auto simp: NewManager_def loadState_def empty_state_def mgr_inv_def live_ok_def attachments_ok_def attachments_def)
  then have inv: "mgr_inv m'" using mgr_inv_run [OF assms(3)] by simp
  then have a: "list_all attachment_ok (attachments m' i)" "distinct (map at_MailboxID (attachments m' i))"
    by (simp_all add: mgr_inv_def attachments_ok_def)
  have "e \<notin> range (CorruptAttachment i) \<union> range (CorruptSecret i)" if "replay_attach io i (attachments m' i) = Some e" for e
    using replay_never_corrupt [OF a(1) that] by auto
  moreover have "attachments (launched t m') i = attachments m' i" for t by (simp add: attachments_def launched_def)
  moreover have "e \<notin> range (CorruptAttachment i) \<union> range (CorruptSecret i)" if "verifyInstalled P J i m' fs' = Inl e" for e
    using that by (auto simp: verifyInstalled_def Let_def split: if_splits option.splits sum.splits)
  ultimately have "fst (Manager_Start P J io i m' fs') \<notin> Inl ` (range (CorruptAttachment i) \<union> range (CorruptSecret i))"
    by (auto simp: Manager_Start_def Let_def split: if_splits sum.splits option.splits prod.splits)
  then show ?thesis using inv a by (simp add: mgr_inv_def live_ok_def)
qed

end
