(* ===== verification/Ops.thy ===== *)
theory Ops
  imports ManagerProps DispatchProps Filetransfer Shellcmd
begin

text \<open>
  The operations behind every user interface of the transports (\<^verbatim>\<open>src/internal/transportops\<close>): sending messages and
  offers, polling mailboxes, addresses of peers.  Their state is what \<^verbatim>\<open>Deps\<close> reaches: the cached transport manager with
  its disk, the identity files, the session of the shell, and the transports themselves, whose behaviour behind the interface is the
  parameter \<open>T\<close> acting on a state of its own.  What an operation prints is its result.
\<close>

subsection \<open>Transports behind their interface\<close>

record 't Transports =
  tp_SendFrame :: "live \<Rightarrow> bytes \<Rightarrow> RouteHint \<Rightarrow> 't \<Rightarrow> (transport_error + unit) \<times> 't"
  tp_AttachMailbox :: "live \<Rightarrow> bytes \<Rightarrow> bytes \<Rightarrow> string \<Rightarrow> string \<Rightarrow> 't \<Rightarrow> (transport_error + unit) \<times> 't"
  tp_PollFrames :: "live \<Rightarrow> int \<Rightarrow> bytes \<Rightarrow> 't \<Rightarrow> (transport_error + bytes list) \<times> 't"
  tp_Status :: "live \<Rightarrow> 't \<Rightarrow> (transport_error + bool \<times> string) \<times> 't"

type_synonym progress = "32 word \<times> 32 word \<times> (32 word \<times> 32 word) list"

record 't FileTransports = "'t Transports" +
  tp_XferCreate :: "live \<Rightarrow> XferCreate \<Rightarrow> 't \<Rightarrow> (transport_error + XferCreated) \<times> 't"
  tp_XferPut :: "live \<Rightarrow> XferPut \<Rightarrow> 't \<Rightarrow> (transport_error + 32 word) \<times> 't"
  tp_XferResume :: "live \<Rightarrow> bytes \<Rightarrow> bytes \<Rightarrow> bytes \<Rightarrow> 't \<Rightarrow> (transport_error + progress) \<times> 't"
  tp_XferGet :: "live \<Rightarrow> bytes \<Rightarrow> 32 word \<Rightarrow> bytes \<Rightarrow> bytes \<Rightarrow> 't \<Rightarrow> (transport_error + bytes \<times> bytes) \<times> 't"
  tp_XferResumeByTicket :: "live \<Rightarrow> bytes \<Rightarrow> bytes \<Rightarrow> string \<Rightarrow> 't \<Rightarrow> (transport_error + progress) \<times> 't"
  tp_XferGetByTicket :: "live \<Rightarrow> bytes \<Rightarrow> 32 word \<Rightarrow> bytes \<Rightarrow> string \<Rightarrow> 't \<Rightarrow> (transport_error + bytes \<times> bytes) \<times> 't"
  tp_XferComplete :: "live \<Rightarrow> bytes \<Rightarrow> bytes \<Rightarrow> 't \<Rightarrow> (transport_error + unit) \<times> 't"
  tp_XferCancel :: "live \<Rightarrow> bytes \<Rightarrow> bytes \<Rightarrow> bytes \<Rightarrow> 't \<Rightarrow> (transport_error + unit) \<times> 't"
  tp_IdentityRegister :: "live \<Rightarrow> IdentityRegisterReq \<Rightarrow> 't \<Rightarrow> (transport_error + RegisterResult) \<times> 't"
  tp_XferRegister :: "live \<Rightarrow> string \<Rightarrow> string \<Rightarrow> 't \<Rightarrow> (transport_error + RegisterResult) \<times> 't"
  tp_XferResolve :: "live \<Rightarrow> bytes \<Rightarrow> string \<Rightarrow> 't \<Rightarrow> (transport_error + ResolveResult) \<times> 't"

text \<open>Only a process has the methods for transfers.\<close>

definition RequiresFile :: "live \<Rightarrow> transport_error option" where
  "RequiresFile t =
     (if lv_process t then None
      else Some (TRemote \<lparr>err_Code = ErrUnsupported, err_Detail = ''transport \"'' @ lv_ID t @ ''\" lacks binary-transfer''\<rparr>))"

subsection \<open>What operations work on\<close>

record 't ops =
  op_TransportsDir :: path
  op_manager :: "Manager option"
  op_disk :: "Package.disk"
  op_clients :: "Clients.disk"
  op_Session :: "Session option"
  op_net :: 't

datatype ops_error =
    NoRelay | NoIdentity | NothingToSend | BadFormat string
  | LoadSession client_error | OpsEncrypt client_error | OpsOffer client_error
  | InvalidRecipient string | MailboxNotHex | ShardMissing | NoShell
  | OpsManager mgr_error | OpsTransport transport_error
  | SecretNeeded | NoRegister | PromptFailed | EmptySecret | ConfirmFailed | Aborted
  | MailboxNotAttached string | NothingAttached
  | FrameRead | FrameOutOfBounds nat
  | FileRead | OpsFile file_error | OpsCreate transport_error | OpsPut nat transport_error | OpsComplete transport_error
  | SenderRequired | OutRequired | FlagsRequired | TransferNotHex | SecretNotHex | TicketShardMissing
  | ManifestBase64 | OpsResume transport_error | Incomplete "32 word" nat | OpsGet nat transport_error | ChunkHash nat
  | OutWrite
  | NoIdentityKey | NoRouter | NonceFailed | IncompleteCapability | MalformedSecret | AliasLength nat | NoResolve | RouterRegister

definition Deps_Manager :: "json_codec \<Rightarrow> 't ops \<Rightarrow> (ops_error + Manager) \<times> 't ops" where
  "Deps_Manager J d =
     (case op_manager d of
        Some m \<Rightarrow> (Inr m, d)
      | None \<Rightarrow>
          (case NewManager J (op_TransportsDir d) (op_disk d) of
             Inl e \<Rightarrow> (Inl (OpsManager e), d)
           | Inr m \<Rightarrow> (Inr m, d\<lparr>op_manager := Some m\<rparr>)))"

definition running_transport ::
  "prims \<Rightarrow> json_codec \<Rightarrow> mgr_io \<Rightarrow> string \<Rightarrow> 't ops \<Rightarrow> (ops_error + live) \<times> 't ops" where
  "running_transport P J io i d =
     (case Deps_Manager J d of
        (Inl e, d') \<Rightarrow> (Inl e, d')
      | (Inr m, d') \<Rightarrow>
          (case EnsureRunning P J io i m (op_disk d') of
             (Inl e, m') \<Rightarrow> (Inl (OpsManager e), d'\<lparr>op_manager := Some m'\<rparr>)
           | (Inr t, m') \<Rightarrow> (Inr t, d'\<lparr>op_manager := Some m'\<rparr>)))"

text \<open>A transport's method, run on the state of the transports.\<close>

definition on_net :: "('t \<Rightarrow> (transport_error + 'a) \<times> 't) \<Rightarrow> 't ops \<Rightarrow> (transport_error + 'a) \<times> 't ops" where
  "on_net f d = (case f (op_net d) of (r, n) \<Rightarrow> (r, d\<lparr>op_net := n\<rparr>))"

definition file_transport ::
  "prims \<Rightarrow> json_codec \<Rightarrow> mgr_io \<Rightarrow> string \<Rightarrow> 't ops \<Rightarrow> (ops_error + live) \<times> 't ops" where
  "file_transport P J io i d =
     (case running_transport P J io i d of
        (Inl e, d') \<Rightarrow> (Inl e, d')
      | (Inr t, d') \<Rightarrow> (case RequiresFile t of Some e \<Rightarrow> (Inl (OpsTransport e), d') | None \<Rightarrow> (Inr t, d')))"

text \<open>The prompter and the confirmation of the shell, \<open>None\<close> when unwired; their outcome is an argument.\<close>

definition ConfirmOr :: "bool option option \<Rightarrow> ops_error + unit" where
  "ConfirmOr confirm =
     (case confirm of
        None \<Rightarrow> Inr ()
      | Some None \<Rightarrow> Inl ConfirmFailed
      | Some (Some yes) \<Rightarrow> if yes then Inr () else Inl Aborted)"

definition SecretOr :: "string option option \<Rightarrow> string \<Rightarrow> ops_error + string" where
  "SecretOr prompt flagValue =
     (if flagValue \<noteq> [] then Inr flagValue
      else case prompt of
        None \<Rightarrow> Inl SecretNeeded
      | Some None \<Rightarrow> Inl PromptFailed
      | Some (Some v) \<Rightarrow> if v = [] then Inl EmptySecret else Inr v)"

definition session_identity :: "'t ops \<Rightarrow> string \<Rightarrow> ops_error + string" where
  "session_identity d i =
     (let i' = (if i = [] then (case op_Session d of None \<Rightarrow> [] | Some s \<Rightarrow> se_Identity s) else i) in
      if i' = [] then Inl NoIdentity else Inr i')"

definition session_relay :: "'t ops \<Rightarrow> string \<Rightarrow> ops_error + string" where
  "session_relay d t =
     (let t' = (if t = [] then (case op_Session d of None \<Rightarrow> [] | Some s \<Rightarrow> se_Relay s) else t) in
      if t' = [] then Inl NoRelay else Inr t')"

definition remember :: "string \<Rightarrow> 't ops \<Rightarrow> 't ops" where
  "remember p d = d\<lparr>op_Session := map_option (Session_RememberPeer p) (op_Session d)\<rparr>"

subsection \<open>Recipients and routes\<close>

definition resolveRecipient :: "prims \<Rightarrow> string \<Rightarrow> ops_error + bytes" where
  "resolveRecipient P s =
     (let s = TrimSpace s;
          byID = (case PeerIDToEd25519Pub P s of Inl _ \<Rightarrow> Inl (InvalidRecipient s) | Inr pub \<Rightarrow> Inr pub) in
      if length s = 64 then (case hex_decode s of Some raw \<Rightarrow> Inr raw | None \<Rightarrow> byID) else byID)"

definition shortHex :: "string \<Rightarrow> string" where
  "shortHex s = (if length s \<le> 12 then s else take 6 s @ ''...'' @ drop (length s - 4) s)"

definition peerAddrFor :: "'t ops \<Rightarrow> bytes \<Rightarrow> PeerAddr option" where
  "peerAddrFor d pub =
     (case op_Session d of
        None \<Rightarrow> None
      | Some s \<Rightarrow>
          if pub = [] then None
          else case se_PeerMailboxes s (ToLower (hex_encode pub)) of
            None \<Rightarrow> None
          | Some addr \<Rightarrow> if pa_MailboxID addr \<noteq> [] \<and> pa_ShardURL addr \<noteq> [] then Some addr else None)"

text \<open>\<^verbatim>\<open>hex.DecodeString\<close> with its error dropped yields the bytes decoded before it.\<close>

fun hex_prefix :: "string \<Rightarrow> bytes" where
  "hex_prefix (a # b # s) = (case hex_decode [a, b] of Some x \<Rightarrow> x @ hex_prefix s | None \<Rightarrow> [])"
| "hex_prefix _ = []"

definition hint_to :: "bytes \<Rightarrow> bytes \<Rightarrow> RouteHint" where
  "hint_to me pub = \<lparr>rh_RecipientPub = pub, rh_SenderHint = me, rh_MailboxID = [], rh_ShardURL = []\<rparr>"

definition hint_at :: "bytes \<Rightarrow> bytes \<Rightarrow> string \<Rightarrow> RouteHint" where
  "hint_at me mbox shard = \<lparr>rh_RecipientPub = [], rh_SenderHint = me, rh_MailboxID = mbox, rh_ShardURL = shard\<rparr>"

definition known_route :: "'t ops \<Rightarrow> bytes \<Rightarrow> bytes \<Rightarrow> RouteHint" where
  "known_route d me pub =
     (case peerAddrFor d pub of
        Some addr \<Rightarrow> hint_at me (hex_prefix (pa_MailboxID addr)) (pa_ShardURL addr)
      | None \<Rightarrow> hint_to me pub)"

definition mailbox_hex :: "string \<Rightarrow> ops_error + bytes" where
  "mailbox_hex s =
     (case hex_decode s of None \<Rightarrow> Inl MailboxNotHex | Some m \<Rightarrow> if length m \<noteq> 16 then Inl MailboxNotHex else Inr m)"

text \<open>An explicit mailbox wins over a recorded address, and that over the public key.\<close>

definition choose_route :: "'t ops \<Rightarrow> bytes \<Rightarrow> bytes \<Rightarrow> string \<Rightarrow> string \<Rightarrow> ops_error + RouteHint" where
  "choose_route d me pub mailboxID shardURL =
     (if mailboxID \<noteq> []
      then (case mailbox_hex mailboxID of
              Inl e \<Rightarrow> Inl e
            | Inr mbox \<Rightarrow> if shardURL = [] then Inl ShardMissing else Inr (hint_at me mbox shardURL))
      else Inr (known_route d me pub))"

subsection \<open>Messages and offers\<close>

record send_io =
  sio_rnd :: bytes
  sio_coins :: coins
  sio_offer :: bytes
  sio_write :: write_result
  sio_save :: write_result
  sio_mgr :: mgr_io

text \<open>The steps both operations share once the frame exists: the client is saved, then the route is chosen.\<close>

definition deliver_frame ::
  "prims \<Rightarrow> json_codec \<Rightarrow> ('t, 'x) Transports_scheme \<Rightarrow> send_io \<Rightarrow> string \<Rightarrow> string \<Rightarrow> string \<Rightarrow> string \<Rightarrow> frame_type \<Rightarrow> bytes \<Rightarrow>
   Client \<Rightarrow> 't ops \<Rightarrow> (ops_error + unit) \<times> 't ops" where
  "deliver_frame P J T io transportID peer mailboxID shardURL ty body cl d =
     (let cl = SaveClient (sio_save io) cl;
          d = d\<lparr>op_clients := files cl\<rparr>;
          me = k_idPub (cl_keys cl) in
      case resolveRecipient P peer of
        Inl e \<Rightarrow> (Inl e, d)
      | Inr pub \<Rightarrow>
          (case choose_route d me pub mailboxID shardURL of
             Inl e \<Rightarrow> (Inl e, d)
           | Inr hint \<Rightarrow>
               (case running_transport P J (sio_mgr io) transportID d of
                  (Inl e, d') \<Rightarrow> (Inl e, d')
                | (Inr t, d') \<Rightarrow>
                    (case on_net (tp_SendFrame T t (WrapEnvelope ty body) hint) d' of
                       (Inl e, d'') \<Rightarrow> (Inl (OpsTransport e), d'')
                     | (Inr _, d'') \<Rightarrow> (Inr (), remember peer d'')))))"

definition MessageSend ::
  "prims \<Rightarrow> json_codec \<Rightarrow> ('t, 'x) Transports_scheme \<Rightarrow> send_io \<Rightarrow> string \<Rightarrow> string \<Rightarrow> string \<Rightarrow> string \<Rightarrow> string \<Rightarrow> string \<Rightarrow> string \<Rightarrow>
   't ops \<Rightarrow> (ops_error + unit) \<times> 't ops" where
  "MessageSend P J T io transportID ident peer text ticketB64 mailboxID shardURL d =
     (case session_relay d transportID of
        Inl e \<Rightarrow> (Inl e, d)
      | Inr transportID \<Rightarrow>
          (case session_identity d ident of
             Inl e \<Rightarrow> (Inl e, d)
           | Inr identity \<Rightarrow>
               if text = [] \<and> ticketB64 = [] then (Inl NothingToSend, d)
               else case LoadClient identity (op_clients d) of
                 Inl e \<Rightarrow> (Inl (LoadSession e), d)
               | Inr cl \<Rightarrow>
                   let body = (if ticketB64 = [] then text else if text = [] then ticketB64 else text @ [CHR 0x0A] @ ticketB64) in
                   (case Client_Encrypt P (sio_rnd io) (sio_write io) peer (to_bytes body) cl of
                      (Inl e, cl') \<Rightarrow> (Inl (OpsEncrypt e), d\<lparr>op_clients := files cl'\<rparr>)
                    | (Inr cipher, cl') \<Rightarrow>
                        deliver_frame P J T io transportID peer mailboxID shardURL TypeMessage cipher cl' d)))"

definition PeerConnect ::
  "prims \<Rightarrow> json_codec \<Rightarrow> ('t, 'x) Transports_scheme \<Rightarrow> send_io \<Rightarrow> string \<Rightarrow> string \<Rightarrow> string \<Rightarrow> string \<Rightarrow> string \<Rightarrow>
   't ops \<Rightarrow> (ops_error + unit) \<times> 't ops" where
  "PeerConnect P J T io transportID ident peer mailboxID shardURL d =
     (case session_relay d transportID of
        Inl e \<Rightarrow> (Inl e, d)
      | Inr transportID \<Rightarrow>
          (case session_identity d ident of
             Inl e \<Rightarrow> (Inl e, d)
           | Inr identity \<Rightarrow>
               (case LoadClient identity (op_clients d) of
                  Inl e \<Rightarrow> (Inl (LoadSession e), d)
                | Inr cl \<Rightarrow>
                    (case Client_CreateOffer P (sio_coins io) (sio_offer io) (sio_write io) peer cl of
                       (Inl e, cl') \<Rightarrow> (Inl (OpsOffer e), d\<lparr>op_clients := files cl'\<rparr>)
                     | (Inr offer, cl') \<Rightarrow>
                         deliver_frame P J T io transportID peer mailboxID shardURL TypeOffer offer cl' d))))"

definition PeerRecord :: "prims \<Rightarrow> string \<Rightarrow> string \<Rightarrow> string \<Rightarrow> 't ops \<Rightarrow> (ops_error + unit) \<times> 't ops" where
  "PeerRecord P peer mailboxID shardURL d =
     (case resolveRecipient P peer of
        Inl e \<Rightarrow> (Inl e, d)
      | Inr pub \<Rightarrow>
          (case mailbox_hex mailboxID of
             Inl e \<Rightarrow> (Inl e, d)
           | Inr mbox \<Rightarrow>
               if shardURL = [] then (Inl ShardMissing, d)
               else case op_Session d of
                 None \<Rightarrow> (Inl NoShell, d)
               | Some s \<Rightarrow>
                   (Inr (), remember peer (d\<lparr>op_Session := Some (s\<lparr>se_PeerMailboxes := (se_PeerMailboxes s)
                      (ToLower (hex_encode pub) \<mapsto> \<lparr>pa_PeerID = peer, pa_MailboxID = ToLower (hex_encode mbox), pa_ShardURL = shardURL\<rparr>)\<rparr>)\<rparr>))))"

end
