(* ===== verification/PollOps.thy ===== *)
theory PollOps
  imports Ops
begin

text \<open>
  Mailboxes of a transport (\<^verbatim>\<open>src/internal/transportops/frames.go\<close> and \<^verbatim>\<open>register.go\<close>): attaching and detaching them,
  polling them through the receive path, and registering for them.
\<close>

subsection \<open>Attached mailboxes\<close>

definition with_manager ::
  "json_codec \<Rightarrow> (Manager \<Rightarrow> Package.disk \<Rightarrow> (mgr_error + 'a) \<times> Manager \<times> Package.disk) \<Rightarrow> 't ops \<Rightarrow> (ops_error + 'a) \<times> 't ops" where
  "with_manager J f d =
     (case Deps_Manager J d of
        (Inl e, d') \<Rightarrow> (Inl e, d')
      | (Inr m, d') \<Rightarrow>
          (case f m (op_disk d') of
             (r, m', fs) \<Rightarrow> (map_sum OpsManager id r, d'\<lparr>op_manager := Some m', op_disk := fs\<rparr>)))"

definition session_owner :: "'t ops \<Rightarrow> string" where
  "session_owner d = (case op_Session d of None \<Rightarrow> [] | Some s \<Rightarrow> se_Identity s)"

definition Ops_Attach ::
  "json_codec \<Rightarrow> mgr_io \<Rightarrow> string option option \<Rightarrow> string \<Rightarrow> string \<Rightarrow> string \<Rightarrow> string \<Rightarrow> string \<Rightarrow> 't ops \<Rightarrow> (ops_error + unit) \<times> 't ops" where
  "Ops_Attach J io prompt transportID mailboxID readSecret shardURL routerURL d =
     (case SecretOr prompt readSecret of
        Inl e \<Rightarrow> (Inl e, d)
      | Inr secret \<Rightarrow>
          with_manager J (AddAttachment J io transportID \<lparr>at_MailboxID = mailboxID, at_ReadSecret = secret, at_ShardURL = shardURL,
            at_RouterURL = routerURL, at_Owner = session_owner d\<rparr>) d)"

definition Detach ::
  "json_codec \<Rightarrow> mgr_io \<Rightarrow> bool option option \<Rightarrow> string \<Rightarrow> string \<Rightarrow> 't ops \<Rightarrow> (ops_error + unit) \<times> 't ops" where
  "Detach J io confirm transportID mailboxID d =
     (case ConfirmOr confirm of
        Inl e \<Rightarrow> (Inl e, d)
      | Inr _ \<Rightarrow> with_manager J (RemoveAttachment J io transportID mailboxID) d)"

subsection \<open>Polling\<close>

text \<open>Which mailboxes a poll visits.\<close>

definition own_mailboxes :: "string \<Rightarrow> Attachment list \<Rightarrow> Attachment list" where
  "own_mailboxes ident atts =
     (let hasOwner = list_ex (\<lambda>a. at_Owner a \<noteq> []) atts;
          filtered = filter (\<lambda>a. at_Owner a = [] \<or> at_Owner a = ident) atts in
      if hasOwner \<and> length filtered > 0 then filtered else atts)"

definition poll_targets :: "string \<Rightarrow> string \<Rightarrow> Attachment list \<Rightarrow> ops_error + Attachment list" where
  "poll_targets ident mailbox atts =
     (if mailbox \<noteq> []
      then (case find (\<lambda>a. at_MailboxID a = mailbox) atts of
              None \<Rightarrow> Inl (MailboxNotAttached mailbox)
            | Some a \<Rightarrow> Inr [a])
      else let atts = own_mailboxes ident atts in if atts = [] then Inl NothingAttached else Inr atts)"

datatype poll_event = Dispatched batch_event | AttachError string transport_error | PollError transport_error

text \<open>
  One frame with the reply it may cause.  The reply does not depend on whether the transport takes it, so it is computed
  first, handed over, and the frame is processed with the outcome.
\<close>

definition dispatch_one where
  "dispatch_one P K J S T tr route io f dp n =
     (let run = (\<lambda>ok. DispatchFrame P K J S (io\<lparr>fi_reply := Some ok\<rparr>) f dp) in
      case drop (length (dp_sent dp)) (dp_sent (snd (run True))) of
        [] \<Rightarrow> (run True, n)
      | (pub, ty, payload) # _ \<Rightarrow>
          (case tp_SendFrame T tr (WrapEnvelope ty payload) (route pub) n of
             (r, n') \<Rightarrow> (run (\<not> isl r), n')))"

fun dispatch_frames where
  "dispatch_frames P K J S T tr route [] dp n = ([], dp, n)"
| "dispatch_frames P K J S T tr route ((io, f) # fs) dp n =
     (case dispatch_one P K J S T tr route io f dp n of
        ((r, dp1), n1) \<Rightarrow>
          (case dispatch_frames P K J S T tr route fs dp1 n1 of
             (events, dp2, n2) \<Rightarrow> (batch_entry r @ events, dp2, n2)))"

definition poll_one where
  "poll_one P K J S T tr route ios limit a dp n =
     (let mid = hex_prefix (at_MailboxID a); sec = hex_prefix (at_ReadSecret a) in
      case tp_AttachMailbox T tr mid sec (at_ShardURL a) (at_RouterURL a) n of
        (Inl e, n1) \<Rightarrow> ([AttachError (shortHex (at_MailboxID a)) e], dp, n1)
      | (Inr _, n1) \<Rightarrow>
          (case tp_PollFrames T tr limit mid n1 of
             (Inl e, n2) \<Rightarrow> ([PollError e], dp, n2)
           | (Inr frames, n2) \<Rightarrow>
               (case dispatch_frames P K J S T tr route (zip (map (ios a) [0..<length frames]) frames) dp n2 of
                  (events, dp', n3) \<Rightarrow> (map Dispatched events, dp', n3))))"

fun poll_each where
  "poll_each P K J S T tr route ios limit [] dp n = ([], dp, n)"
| "poll_each P K J S T tr route ios limit (a # as) dp n =
     (case poll_one P K J S T tr route ios limit a dp n of
        (events, dp1, n1) \<Rightarrow>
          (case poll_each P K J S T tr route ios limit as dp1 n1 of
             (events', dp2, n2) \<Rightarrow> (events @ events', dp2, n2)))"

fun event_peers :: "poll_event \<Rightarrow> string list" where
  "event_peers (Dispatched (Shown e)) = [ev_Sender e, ev_Peer e]"
| "event_peers _ = [[], []]"

text \<open>The client is saved once more when all mailboxes are done, and the shell learns every peer it heard of.\<close>

definition poll_run ::
  "prims \<Rightarrow> packets \<Rightarrow> legacy_json \<Rightarrow> 'c ContextStore \<Rightarrow> ('t, 'x) Transports_scheme \<Rightarrow> live \<Rightarrow> (Attachment \<Rightarrow> nat \<Rightarrow> frame_io) \<Rightarrow> write_result \<Rightarrow> int \<Rightarrow>
   Attachment list \<Rightarrow> ('c, 'd) Deps \<Rightarrow> 't ops \<Rightarrow> poll_event list \<times> ('c, 'd) Deps \<times> 't ops" where
  "poll_run P K J S T tr ios wr limit atts dp d =
     (let me = k_idPub (cl_keys (dp_Client dp)) in
      case poll_each P K J S T tr (known_route d me) ios (poll_count limit) atts dp (op_net d) of
        (events, dp', n) \<Rightarrow>
          let cl = SaveClient wr (dp_Client dp') in
          (events, dp'\<lparr>dp_Client := cl\<rparr>,
           fold remember (concat (map event_peers events)) (d\<lparr>op_net := n, op_clients := files cl\<rparr>)))"

text \<open>What a poll meets: the files of the identity, the outcome of opening them, and what each frame meets.\<close>

record poll_io =
  pi_mgr :: mgr_io
  pi_frames :: "Attachment \<Rightarrow> nat \<Rightarrow> frame_io"
  pi_save :: write_result
  pi_store :: filesystem
  pi_mkdir :: bool
  pi_threads :: "bytes \<Rightarrow> Thread option list option"
  pi_contexts :: "bytes \<Rightarrow> MessageContext list option"
  pi_policies :: "bytes \<Rightarrow> LocalRecipientPolicy list option"
  pi_deliveries :: "bytes \<Rightarrow> MessageDelivery list option"
  pi_writes :: "save_io \<times> two_writes \<times> save_io"

definition open_deps :: "prims \<Rightarrow> packets \<Rightarrow> poll_io \<Rightarrow> Client \<Rightarrow> opened" where
  "open_deps P K io cl =
     (case pi_writes io of
        (iom, io2, iod) \<Rightarrow>
          OpenDeps P K (pi_mkdir io) (pi_threads io) (pi_contexts io) (pi_policies io) (pi_deliveries io) iom io2 iod cl (pi_store io))"

definition Ops_Poll ::
  "prims \<Rightarrow> packets \<Rightarrow> legacy_json \<Rightarrow> json_codec \<Rightarrow> ('t, 'x) Transports_scheme \<Rightarrow> poll_io \<Rightarrow> string \<Rightarrow> string \<Rightarrow> string \<Rightarrow> int \<Rightarrow> string \<Rightarrow>
   't ops \<Rightarrow> (ops_error + poll_event list \<times> opened) \<times> 't ops" where
  "Ops_Poll P K LJ J T io transportID ident mailbox limit format d =
     (if format \<notin> {[], ''human'', ''json''} then (Inl (BadFormat format), d)
      else case session_identity d ident of
        Inl e \<Rightarrow> (Inl e, d)
      | Inr identity \<Rightarrow>
          (case running_transport P J (pi_mgr io) transportID d of
             (Inl e, d1) \<Rightarrow> (Inl e, d1)
           | (Inr tr, d1) \<Rightarrow>
               (case LoadClient identity (op_clients d1) of
                  Inl e \<Rightarrow> (Inl (LoadSession e), d1)
                | Inr cl \<Rightarrow>
                    (case poll_targets identity mailbox (attachments (the (op_manager d1)) transportID) of
                       Inl e \<Rightarrow> (Inl e, d1)
                     | Inr atts \<Rightarrow>
                         (case open_deps P K io cl of
                            OnFiles dp \<Rightarrow>
                              (case poll_run P K LJ (FileContexts P K) T tr (pi_frames io) (pi_save io) limit atts dp d1 of
                                 (events, dp', d2) \<Rightarrow> (Inr (events, OnFiles dp'), d2))
                          | InMemory dp \<Rightarrow>
                              (case poll_run P K LJ MemoryContexts T tr (pi_frames io) (pi_save io) limit atts dp d1 of
                                 (events, dp', d2) \<Rightarrow> (Inr (events, InMemory dp'), d2)))))))"

definition SendFrame_file ::
  "prims \<Rightarrow> json_codec \<Rightarrow> ('t, 'x) Transports_scheme \<Rightarrow> mgr_io \<Rightarrow> string \<Rightarrow> string \<Rightarrow> string \<Rightarrow> string \<Rightarrow> bytes option \<Rightarrow>
   't ops \<Rightarrow> (ops_error + nat) \<times> 't ops" where
  "SendFrame_file P J T io transportID peer mailboxID shardURL content d =
     (case Deps_Manager J d of
        (Inl e, d1) \<Rightarrow> (Inl e, d1)
      | (Inr _, d1) \<Rightarrow>
          (case content of
             None \<Rightarrow> (Inl FrameRead, d1)
           | Some raw \<Rightarrow>
               if length raw < 2 \<or> length raw > 40 * 1024 then (Inl (FrameOutOfBounds (length raw)), d1)
               else
                 let hint = (if mailboxID \<noteq> []
                   then (case mailbox_hex mailboxID of
                           Inl e \<Rightarrow> Inl e
                         | Inr mbox \<Rightarrow> if shardURL = [] then Inl ShardMissing else Inr (hint_at [] mbox shardURL))
                   else map_sum id (hint_to []) (resolveRecipient P peer)) in
                 (case hint of
                    Inl e \<Rightarrow> (Inl e, d1)
                  | Inr to \<Rightarrow>
                      (case running_transport P J io transportID d1 of
                         (Inl e, d2) \<Rightarrow> (Inl e, d2)
                       | (Inr tr, d2) \<Rightarrow>
                           (case on_net (tp_SendFrame T tr raw to) d2 of
                              (Inl e, d3) \<Rightarrow> (Inl (OpsTransport e), d3)
                            | (Inr _, d3) \<Rightarrow> (Inr (length raw), d3))))))"

subsection \<open>Registering\<close>

text \<open>A tag for the scoped credential of a peer, 16 hexadecimal digits.\<close>

definition deriveUserTag :: "prims \<Rightarrow> string \<Rightarrow> string" where
  "deriveUserTag P peerID = (if peerID = [] then [] else hex_encode (take 8 (p_sha256 P (to_bytes peerID))))"

text \<open>\<open>router_of\<close> stands for decoding the configuration as a JSON object of strings and taking \<^verbatim>\<open>router_url\<close>.\<close>

definition routerURLFor :: "(string \<Rightarrow> string option) \<Rightarrow> Manager \<Rightarrow> string \<Rightarrow> string" where
  "routerURLFor router_of m transportID =
     (let cfg = Manager_Config m transportID;
          attached = (case find (\<lambda>a. at_RouterURL a \<noteq> []) (attachments m transportID) of None \<Rightarrow> [] | Some a \<Rightarrow> at_RouterURL a) in
      if cfg = [] then attached
      else case router_of cfg of
        None \<Rightarrow> attached
      | Some u \<Rightarrow> if u = [] then attached else u)"

text \<open>An identity given as blanks counts as missing, but is used as it is otherwise.\<close>

definition registering_identity :: "'t ops \<Rightarrow> string \<Rightarrow> ops_error + string" where
  "registering_identity d i =
     (let i' = (if TrimSpace i = [] then (case op_Session d of None \<Rightarrow> i | Some s \<Rightarrow> se_Identity s) else i) in
      if TrimSpace i' = [] then Inl NoIdentity else Inr i')"

definition add_attachment :: "json_codec \<Rightarrow> mgr_io \<Rightarrow> string \<Rightarrow> Attachment \<Rightarrow> 't ops \<Rightarrow> 't ops" where
  "add_attachment J io transportID a d = snd (with_manager J (AddAttachment J io transportID a) d)"

definition FilerelayRegister ::
  "prims \<Rightarrow> json_codec \<Rightarrow> ('t, 'x) FileTransports_scheme \<Rightarrow> (string \<Rightarrow> string option) \<Rightarrow> mgr_io \<Rightarrow> string \<Rightarrow> string \<Rightarrow> string \<Rightarrow>
   't ops \<Rightarrow> (ops_error + RegisterResult) \<times> 't ops" where
  "FilerelayRegister P J T router_of io transportID ident router d =
     (case registering_identity d ident of
        Inl e \<Rightarrow> (Inl e, d)
      | Inr identity \<Rightarrow>
          (case Deps_Manager J d of
             (Inl e, d1) \<Rightarrow> (Inl e, d1)
           | (Inr m, d1) \<Rightarrow>
               let router = (if TrimSpace router = [] then routerURLFor router_of m transportID else router) in
               (case file_transport P J io transportID d1 of
                  (Inl e, d2) \<Rightarrow> (Inl e, d2)
                | (Inr tr, d2) \<Rightarrow>
                    (case on_net (tp_XferRegister T tr (deriveUserTag P identity) router) d2 of
                       (Inl e, d3) \<Rightarrow> (Inl (OpsTransport e), d3)
                     | (Inr r, d3) \<Rightarrow>
                         (Inr r, add_attachment J io transportID \<lparr>at_MailboxID = hex_encode (rrs_MailboxID r),
                            at_ReadSecret = hex_encode (rrs_ReadSecret r), at_ShardURL = rrs_ShardURL r, at_RouterURL = rrs_RouterURL r,
                            at_Owner = session_owner d\<rparr> d3)))))"

definition FilerelayResolve ::
  "prims \<Rightarrow> json_codec \<Rightarrow> ('t, 'x) FileTransports_scheme \<Rightarrow> mgr_io \<Rightarrow> string \<Rightarrow> string \<Rightarrow> string \<Rightarrow> 't ops \<Rightarrow> (ops_error + ResolveResult) \<times> 't ops" where
  "FilerelayResolve P J T io transportID peer router d =
     (case resolveRecipient P peer of
        Inl e \<Rightarrow> (Inl e, d)
      | Inr pub \<Rightarrow>
          (case file_transport P J io transportID d of
             (Inl e, d1) \<Rightarrow> (Inl e, d1)
           | (Inr tr, d1) \<Rightarrow>
               (case on_net (tp_XferResolve T tr pub router) d1 of
                  (Inl e, d2) \<Rightarrow> (Inl (OpsTransport e), d2)
                | (Inr r, d2) \<Rightarrow> (Inr r, d2))))"

definition canonicalFileRelayRegister :: "bytes \<Rightarrow> 64 word \<Rightarrow> bytes \<Rightarrow> bytes" where
  "canonicalFileRelayRegister pub timestamp nonce =
     to_bytes ''FR1/REGISTER'' @ [0] @ pub @ putU64 timestamp @ nonce"

record IdentityRegistration =
  ir_Identity :: string
  ir_Pubkey :: string
  ir_MailboxID :: string
  ir_Alias :: string
  ir_ReadSecret :: string
  ir_ShardURL :: string
  ir_RouterURL :: string
  ir_Attached :: bool

text \<open>What a router answered to \<^verbatim>\<open>/register\<close>: the mailbox, its bearer and the shard.\<close>

record capability =
  cp_MailboxID :: string
  cp_ReadSecret :: string
  cp_ShardURL :: string

record register_io =
  rg_mgr :: mgr_io
  rg_nonce :: "bytes option"
  rg_millis :: "64 word"
  rg_router :: "bytes \<Rightarrow> capability option"   \<comment> \<open>the worker router, asked with the identity key\<close>

definition filerelay_capability ::
  "prims \<Rightarrow> json_codec \<Rightarrow> ('t, 'x) FileTransports_scheme \<Rightarrow> register_io \<Rightarrow> string \<Rightarrow> string \<Rightarrow> keys \<Rightarrow> 't ops \<Rightarrow>
   (ops_error + string \<times> bytes \<times> string \<times> string \<times> string) \<times> 't ops" where
  "filerelay_capability P J T io transportID router k d =
     (case running_transport P J (rg_mgr io) transportID d of
        (Inl e, d1) \<Rightarrow> (Inl e, d1)
      | (Inr tr, d1) \<Rightarrow>
          (case RequiresFile tr of
             Some e \<Rightarrow> (Inl NoRegister, d1)
           | None \<Rightarrow>
               (case rg_nonce io of
                  None \<Rightarrow> (Inl NonceFailed, d1)
                | Some nonce \<Rightarrow>
                    let sig = p_ed_sign P (k_idPriv k) (canonicalFileRelayRegister (k_idPub k) (rg_millis io) nonce) in
                    (case on_net (tp_IdentityRegister T tr \<lparr>irq_Pubkey = k_idPub k, irq_Timestamp = rg_millis io, irq_Nonce = nonce,
                        irq_Signature = sig, irq_RouterURL = router\<rparr>) d1 of
                       (Inl e, d2) \<Rightarrow> (Inl (OpsTransport e), d2)
                     | (Inr r, d2) \<Rightarrow>
                         if length (rrs_MailboxID r) \<noteq> 16 \<or> length (rrs_ReadSecret r) \<noteq> 32 \<or> rrs_ShardURL r = []
                         then (Inl IncompleteCapability, d2)
                         else (Inr (hex_encode (rrs_MailboxID r), rrs_ReadSecret r, hex_encode (rrs_ReadSecret r), rrs_ShardURL r,
                           rrs_RouterURL r), d2)))))"

definition worker_capability :: "register_io \<Rightarrow> string \<Rightarrow> keys \<Rightarrow> ops_error + string \<times> bytes \<times> string \<times> string \<times> string" where
  "worker_capability io router k =
     (case rg_router io (k_idPriv k) of
        None \<Rightarrow> Inl RouterRegister
      | Some cap \<Rightarrow>
          if cp_MailboxID cap = [] \<or> cp_ReadSecret cap = [] \<or> cp_ShardURL cap = [] then Inl IncompleteCapability
          else case hex_decode (cp_ReadSecret cap) of
            None \<Rightarrow> Inl MalformedSecret
          | Some secret \<Rightarrow>
              if length secret \<noteq> 32 then Inl MalformedSecret
              else Inr (cp_MailboxID cap, secret, cp_ReadSecret cap, cp_ShardURL cap, router))"

text \<open>The 16-byte name of the mailbox at the transport: the mailbox itself, or the alias the transport knows it by.\<close>

definition mailbox_alias ::
  "('t, 'x) FileTransports_scheme \<Rightarrow> live \<Rightarrow> string \<Rightarrow> string \<Rightarrow> string \<Rightarrow> keys \<Rightarrow> 't ops \<Rightarrow> (ops_error + bytes) \<times> 't ops" where
  "mailbox_alias T tr transportID shown router k d =
     (if transportID = ''filerelay'' then (mailbox_hex shown, d)
      else if RequiresFile tr \<noteq> None then (Inl NoResolve, d)
      else case on_net (tp_XferResolve T tr (k_idPub k) router) d of
        (Inl e, d') \<Rightarrow> (Inl (OpsTransport e), d')
      | (Inr r, d') \<Rightarrow>
          (if length (rss_MailboxID r) \<noteq> 16 then Inl (AliasLength (length (rss_MailboxID r))) else Inr (rss_MailboxID r), d'))"

definition attach_registered ::
  "prims \<Rightarrow> json_codec \<Rightarrow> ('t, 'x) FileTransports_scheme \<Rightarrow> register_io \<Rightarrow> string \<Rightarrow> string \<Rightarrow> keys \<Rightarrow> bytes \<Rightarrow> IdentityRegistration \<Rightarrow>
   't ops \<Rightarrow> (ops_error + IdentityRegistration) \<times> 't ops" where
  "attach_registered P J T io transportID router k secret out d =
     (case running_transport P J (rg_mgr io) transportID d of
        (Inl e, d1) \<Rightarrow> (Inr out, d1)
      | (Inr tr, d1) \<Rightarrow>
          (case mailbox_alias T tr transportID (ir_MailboxID out) router k d1 of
             (Inl e, d2) \<Rightarrow> (Inl e, d2)
           | (Inr mailbox, d2) \<Rightarrow>
               let out = out\<lparr>ir_Alias := hex_encode mailbox\<rparr> in
               (case on_net (tp_AttachMailbox T tr mailbox secret (ir_ShardURL out) router) d2 of
                  (Inl e, d3) \<Rightarrow> (Inr out, d3)
                | (Inr _, d3) \<Rightarrow>
                    (Inr (out\<lparr>ir_Attached := True\<rparr>),
                     add_attachment J (rg_mgr io) transportID \<lparr>at_MailboxID = ir_Alias out, at_ReadSecret = ir_ReadSecret out,
                       at_ShardURL = ir_ShardURL out, at_RouterURL = router, at_Owner = ir_Identity out\<rparr> d3))))"

definition Ops_IdentityRegister ::
  "prims \<Rightarrow> json_codec \<Rightarrow> ('t, 'x) FileTransports_scheme \<Rightarrow> (string \<Rightarrow> string option) \<Rightarrow> register_io \<Rightarrow> string \<Rightarrow> string \<Rightarrow> string \<Rightarrow>
   't ops \<Rightarrow> (ops_error + IdentityRegistration) \<times> 't ops" where
  "Ops_IdentityRegister P J T router_of io transportID ident router d =
     (case registering_identity d ident of
        Inl e \<Rightarrow> (Inl e, d)
      | Inr identity \<Rightarrow>
          (case LoadClient identity (op_clients d) of
             Inl e \<Rightarrow> (Inl (LoadSession e), d)
           | Inr cl \<Rightarrow>
               let k = cl_keys cl in
               if k_idPriv k = [] \<or> length (k_idPub k) \<noteq> 32 then (Inl NoIdentityKey, d)
               else case Deps_Manager J d of
                 (Inl e, d1) \<Rightarrow> (Inl e, d1)
               | (Inr m, d1) \<Rightarrow>
                   let router = (if TrimSpace router = [] then routerURLFor router_of m transportID else router) in
                   if TrimSpace router = [] then (Inl NoRouter, d1)
                   else
                     (case (if transportID = ''filerelay'' then filerelay_capability P J T io transportID router k d1
                            else (worker_capability io router k, d1)) of
                        (Inl e, d2) \<Rightarrow> (Inl e, d2)
                      | (Inr (shown, secret, readSecret, shard, outRouter), d2) \<Rightarrow>
                          attach_registered P J T io transportID router k secret
                            \<lparr>ir_Identity = identity, ir_Pubkey = hex_encode (k_idPub k), ir_MailboxID = shown, ir_Alias = [],
                             ir_ReadSecret = readSecret, ir_ShardURL = shard, ir_RouterURL = outRouter, ir_Attached = False\<rparr> d2)))"

end
