(* ===== verification/XferOps.thy ===== *)
theory XferOps
  imports PollOps
begin

text \<open>
  File transfers as the user interfaces run them (\<^verbatim>\<open>src/internal/transportops/xfer.go\<close>): encrypt and upload a file and
  make a ticket for it; download, verify and decrypt a file by its ticket or with the credentials of a mailbox.
\<close>

fun last_segment :: "string \<Rightarrow> string \<Rightarrow> string" where
  "last_segment seen [] = seen"
| "last_segment seen (c # cs) = (if c = CHR ''/'' \<or> c = CHR 0x5C then last_segment [] cs else last_segment (seen @ [c]) cs)"

text \<open>The loop looks for the last separator from the end; reading forward, the name starts anew at every separator.\<close>

definition baseName :: "string \<Rightarrow> string" where
  "baseName p = last_segment [] p"

subsection \<open>Sending\<close>

record xfer_io =
  xi_rnd :: bytes
  xi_write :: write_result
  xi_save :: write_result
  xi_mgr :: mgr_io
  xi_prompt :: "string option option"
  xi_out :: bool

record xfer_sent =
  xs_transfer_id :: string
  xs_manifest :: string
  xs_chunks :: nat
  xs_ticket :: string

definition explicit_mailbox :: "string \<Rightarrow> string \<Rightarrow> bytes \<Rightarrow> ops_error + bytes \<times> bytes" where
  "explicit_mailbox mailboxID shardURL pub =
     (if mailboxID = [] then Inr (pub, [])
      else case mailbox_hex mailboxID of
        Inl e \<Rightarrow> Inl e
      | Inr mbox \<Rightarrow> if shardURL = [] then Inl ShardMissing else Inr ([], mbox))"

fun put_chunks where
  "put_chunks P T tr tid sz i [] d = (Inr (), d)"
| "put_chunks P T tr tid sz i (chunk # rest) d =
     (case on_net (tp_XferPut T tr \<lparr>xpt_TransferID = tid, xpt_Index = word_of_nat i, xpt_Payload = chunk, xpt_Hash = p_sha256 P chunk,
          xpt_Offset = word_of_nat i * sz\<rparr>) d of
        (Inl e, d') \<Rightarrow> (Inl (OpsPut i e), d')
      | (Inr _, d') \<Rightarrow> put_chunks P T tr tid sz (Suc i) rest d')"

definition upload ::
  "prims \<Rightarrow> ('t, 'x) FileTransports_scheme \<Rightarrow> live \<Rightarrow> string \<Rightarrow> string \<Rightarrow> bytes \<Rightarrow> bytes \<Rightarrow> file_out \<Rightarrow> 't ops \<Rightarrow> (ops_error + xfer_sent) \<times> 't ops" where
  "upload P T tr identity shardURL pub mbox out d =
     (let mf = fo_manifest out in
      case on_net (tp_XferCreate T tr \<lparr>xcr_Total = word_of_nat (length (fo_cipher out)), xcr_ChunkSize = ucast (mf_ChunkSize mf),
          xcr_ChunkCount = ucast (mf_ChunkCount mf), xcr_Manifest = Manifest_Bytes P mf, xcr_MailboxID = mbox,
          xcr_RecipientPub = pub, xcr_ShardURL = shardURL\<rparr>) d of
        (Inl e, d1) \<Rightarrow> (Inl (OpsCreate e), d1)
      | (Inr created, d1) \<Rightarrow>
          (case put_chunks P T tr (xcd_TransferID created) (mf_ChunkSize mf) 0 (fo_chunks out) d1 of
             (Inl e, d2) \<Rightarrow> (Inl e, d2)
           | (Inr _, d2) \<Rightarrow>
               (case on_net (tp_XferComplete T tr (xcd_TransferID created) (p_sha256 P (fo_cipher out))) d2 of
                  (Inl e, d3) \<Rightarrow> (Inl (OpsComplete e), d3)
                | (Inr _, d3) \<Rightarrow>
                    (case MarshalTicket P \<lparr>tk_Transfer = xcd_TransferID created, tk_Secret = xcd_DownloadSecret created,
                        tk_Shard = xcd_ShardURL created, tk_Manifest = Manifest_Bytes P mf, tk_From = identity\<rparr> of
                       Inl e \<Rightarrow> (Inl (OpsFile e), d3)
                     | Inr ticketRaw \<Rightarrow>
                         let tid = hex_encode (xcd_TransferID created); ticketB64 = EncodeTicketString ticketRaw in
                         (Inr \<lparr>xs_transfer_id = tid, xs_manifest = b64_encode (Manifest_Bytes P mf), xs_chunks = length (fo_chunks out),
                            xs_ticket = ticketB64\<rparr>,
                          d3\<lparr>op_Session := map_option (RecordTransfer \<lparr>tr_ID = tid, tr_File = mf_FileName mf,
                            tr_Size = sint (mf_PlainSize mf), tr_TicketB64 = ticketB64\<rparr>) (op_Session d3)\<rparr>)))))"

text \<open>The value \<open>None\<close> would be a file whose chunks are never all cut.\<close>

definition XferSend ::
  "prims \<Rightarrow> json_codec \<Rightarrow> ('t, 'x) FileTransports_scheme \<Rightarrow> xfer_io \<Rightarrow> string \<Rightarrow> string \<Rightarrow> string \<Rightarrow> string \<Rightarrow> string \<Rightarrow> string \<Rightarrow> bytes option \<Rightarrow> int \<Rightarrow>
   't ops \<Rightarrow> ((ops_error + xfer_sent) \<times> 't ops) option" where
  "XferSend P J T io transportID ident peer mailboxID shardURL path content chunkSize d =
     (case session_identity d ident of
        Inl e \<Rightarrow> Some (Inl e, d)
      | Inr identity \<Rightarrow>
          (case content of
             None \<Rightarrow> Some (Inl FileRead, d)
           | Some raw \<Rightarrow>
               (case LoadClient identity (op_clients d) of
                  Inl e \<Rightarrow> Some (Inl (LoadSession e), d)
                | Inr cl \<Rightarrow>
                    (case file_transport P J (xi_mgr io) transportID d of
                       (Inl e, d1) \<Rightarrow> Some (Inl e, d1)
                     | (Inr tr, d1) \<Rightarrow>
                         (case resolveRecipient P peer of
                            Inl e \<Rightarrow> Some (Inl e, d1)
                          | Inr pub \<Rightarrow>
                              (case explicit_mailbox mailboxID shardURL pub of
                                 Inl e \<Rightarrow> Some (Inl e, d1)
                               | Inr (pub, mbox) \<Rightarrow>
                                   (case EncryptFile P (xi_rnd io) (xi_write io) peer (baseName path) raw
                                       (if chunkSize \<le> 0 then 32 * 1024 else chunkSize) cl of
                                      None \<Rightarrow> None
                                    | Some (Inl e, cl') \<Rightarrow> Some (Inl (OpsFile e), d1\<lparr>op_clients := files cl'\<rparr>)
                                    | Some (Inr out, cl') \<Rightarrow>
                                        Some (upload P T tr identity shardURL pub mbox out
                                          (d1\<lparr>op_clients := files (SaveClient (xi_save io) cl')\<rparr>)))))))))"

subsection \<open>Receiving\<close>

record recv_params =
  rp_TransportID :: string
  rp_Identity :: string
  rp_Peer :: string
  rp_TicketB64 :: string
  rp_TransferID :: string
  rp_MailboxID :: string
  rp_Secret :: string
  rp_ManifestB64 :: string
  rp_Out :: string

text \<open>A ticket replaces the flags it stands for.\<close>

record recv_flags =
  rf_transfer :: string
  rf_mailbox :: string
  rf_secret :: string
  rf_shard :: string
  rf_manifest :: string
  rf_peer :: string

definition read_ticket :: "prims \<Rightarrow> string \<Rightarrow> ops_error + Ticket" where
  "read_ticket P s =
     (case DecodeTicketString s of
        Inl e \<Rightarrow> Inl (OpsFile e)
      | Inr raw \<Rightarrow> map_sum OpsFile id (ParseTicket P raw))"

definition recv_flags_of :: "prims \<Rightarrow> recv_params \<Rightarrow> ops_error + recv_flags" where
  "recv_flags_of P p =
     (if rp_TicketB64 p = []
      then Inr \<lparr>rf_transfer = rp_TransferID p, rf_mailbox = rp_MailboxID p, rf_secret = rp_Secret p, rf_shard = [],
             rf_manifest = rp_ManifestB64 p, rf_peer = rp_Peer p\<rparr>
      else map_sum id (\<lambda>t. \<lparr>rf_transfer = hex_encode (tk_Transfer t), rf_mailbox = [], rf_secret = hex_encode (tk_Secret t),
             rf_shard = tk_Shard t, rf_manifest = b64_encode (tk_Manifest t),
             rf_peer = (if rp_Peer p = [] then tk_From t else rp_Peer p)\<rparr>) (read_ticket P (rp_TicketB64 p)))"

definition hex_field :: "ops_error \<Rightarrow> nat \<Rightarrow> string \<Rightarrow> ops_error + bytes" where
  "hex_field e n s = (case hex_decode s of None \<Rightarrow> Inl e | Some b \<Rightarrow> if length b \<noteq> n then Inl e else Inr b)"

datatype authority = ByTicket bytes string | ByMailbox bytes bytes

definition recv_authority :: "string option option \<Rightarrow> bool \<Rightarrow> recv_flags \<Rightarrow> ops_error + bytes \<times> authority" where
  "recv_authority prompt ticketMode f =
     (case hex_field TransferNotHex 16 (rf_transfer f) of
        Inl e \<Rightarrow> Inl e
      | Inr tid \<Rightarrow>
          (case SecretOr prompt (rf_secret f) of
             Inl e \<Rightarrow> Inl e
           | Inr secretHex \<Rightarrow>
               if ticketMode
               then (case hex_field SecretNotHex 32 secretHex of
                       Inl e \<Rightarrow> Inl e
                     | Inr ticket \<Rightarrow> if rf_shard f = [] then Inl TicketShardMissing else Inr (tid, ByTicket ticket (rf_shard f)))
               else (case hex_field MailboxNotHex 16 (rf_mailbox f) of
                       Inl e \<Rightarrow> Inl e
                     | Inr mbox \<Rightarrow> map_sum id (\<lambda>sec. (tid, ByMailbox mbox sec)) (hex_field SecretNotHex 32 secretHex))))"

fun ask_progress where
  "ask_progress T tr tid (ByTicket ticket shard) = tp_XferResumeByTicket T tr tid ticket shard"
| "ask_progress T tr tid (ByMailbox mbox sec) = tp_XferResume T tr tid mbox sec"

fun ask_chunk where
  "ask_chunk T tr tid i (ByTicket ticket shard) = tp_XferGetByTicket T tr tid i ticket shard"
| "ask_chunk T tr tid i (ByMailbox mbox sec) = tp_XferGet T tr tid i mbox sec"

fun get_chunks where
  "get_chunks P T tr tid auth i 0 d = (Inr [], d)"
| "get_chunks P T tr tid auth i (Suc n) d =
     (case on_net (ask_chunk T tr tid (word_of_nat i) auth) d of
        (Inl e, d') \<Rightarrow> (Inl (OpsGet i e), d')
      | (Inr (payload, h), d') \<Rightarrow>
          if p_sha256 P payload \<noteq> h then (Inl (ChunkHash i), d')
          else case get_chunks P T tr tid auth (Suc i) n d' of
            (Inl e, d'') \<Rightarrow> (Inl e, d'')
          | (Inr chunks, d'') \<Rightarrow> (Inr (payload # chunks), d''))"

definition download ::
  "prims \<Rightarrow> ('t, 'x) FileTransports_scheme \<Rightarrow> xfer_io \<Rightarrow> live \<Rightarrow> bytes \<Rightarrow> authority \<Rightarrow> string \<Rightarrow> Manifest \<Rightarrow> Client \<Rightarrow> 't ops \<Rightarrow>
   (ops_error + bytes) \<times> 't ops" where
  "download P T io tr tid auth peer mf cl d =
     (case on_net (ask_progress T tr tid auth) d of
        (Inl e, d1) \<Rightarrow> (Inl (OpsResume e), d1)
      | (Inr (_, highest, missing), d1) \<Rightarrow>
          if missing \<noteq> [] then (Inl (Incomplete highest (length missing)), d1)
          else case get_chunks P T tr tid auth 0 (nat (sint (mf_ChunkCount mf))) d1 of
            (Inl e, d2) \<Rightarrow> (Inl e, d2)
          | (Inr chunks, d2) \<Rightarrow>
              (case ReassembleAndDecrypt P (xi_write io) peer chunks mf cl of
                 (Inl e, cl') \<Rightarrow> (Inl (OpsFile e), d2\<lparr>op_clients := files cl'\<rparr>)
               | (Inr plain, cl') \<Rightarrow>
                   (if xi_out io then Inr plain else Inl OutWrite,
                    d2\<lparr>op_clients := files (SaveClient (xi_save io) cl')\<rparr>)))"

definition XferRecv ::
  "prims \<Rightarrow> json_codec \<Rightarrow> ('t, 'x) FileTransports_scheme \<Rightarrow> xfer_io \<Rightarrow> recv_params \<Rightarrow> 't ops \<Rightarrow> (ops_error + bytes) \<times> 't ops" where
  "XferRecv P J T io p d =
     (case session_identity d (rp_Identity p) of
        Inl e \<Rightarrow> (Inl e, d)
      | Inr identity \<Rightarrow>
          (case recv_flags_of P p of
             Inl e \<Rightarrow> (Inl e, d)
           | Inr f \<Rightarrow>
               let ticketMode = (rp_TicketB64 p \<noteq> []) in
               if rf_peer f = [] then (Inl SenderRequired, d)
               else if rp_Out p = [] then (Inl OutRequired, d)
               else if \<not> ticketMode \<and> (rf_transfer f = [] \<or> rf_mailbox f = [] \<or> rf_secret f = [] \<or> rf_manifest f = [])
               then (Inl FlagsRequired, d)
               else case recv_authority (xi_prompt io) ticketMode f of
                 Inl e \<Rightarrow> (Inl e, d)
               | Inr (tid, auth) \<Rightarrow>
                   (case b64_decode (rf_manifest f) of
                      None \<Rightarrow> (Inl ManifestBase64, d)
                    | Some mfRaw \<Rightarrow>
                        (case ParseManifest P mfRaw of
                           Inl e \<Rightarrow> (Inl (OpsFile e), d)
                         | Inr mf \<Rightarrow>
                             (case LoadClient identity (op_clients d) of
                                Inl e \<Rightarrow> (Inl (LoadSession e), d)
                              | Inr cl \<Rightarrow>
                                  (case file_transport P J (xi_mgr io) (rp_TransportID p) d of
                                     (Inl e, d1) \<Rightarrow> (Inl e, d1)
                                   | (Inr tr, d1) \<Rightarrow> download P T io tr tid auth (rf_peer f) mf cl d1))))))"

end
