(* ===== verification/UserOps.thy ===== *)
theory UserOps
  imports XferOps Contacts
begin

text \<open>
  The remaining operations behind the user interfaces: progress and cancellation of transfers, the contacts, the mailbox,
  identities and the management of transports (\<^verbatim>\<open>contacts.go\<close>, \<^verbatim>\<open>mailbox.go\<close>, \<^verbatim>\<open>identity.go\<close>, \<^verbatim>\<open>relay.go\<close> and
  \<^verbatim>\<open>transport.go\<close> of \<^verbatim>\<open>src/internal/transportops\<close>).  The result of an operation is what it reports.
\<close>

subsection \<open>Transfers\<close>

definition Ops_XferResume ::
  "prims \<Rightarrow> json_codec \<Rightarrow> ('t, 'x) FileTransports_scheme \<Rightarrow> xfer_io \<Rightarrow> string \<Rightarrow> string \<Rightarrow> string \<Rightarrow> string \<Rightarrow> string \<Rightarrow> string \<Rightarrow>
   't ops \<Rightarrow> (ops_error + progress) \<times> 't ops" where
  "Ops_XferResume P J T io transportID transferID mailboxID secret ticketB64 shardURL d =
     (case (if ticketB64 = [] then hex_field TransferNotHex 16 transferID else Inr []) of
        Inl e \<Rightarrow> (Inl e, d)
      | Inr tid \<Rightarrow>
          (case file_transport P J (xi_mgr io) transportID d of
             (Inl e, d1) \<Rightarrow> (Inl e, d1)
           | (Inr tr, d1) \<Rightarrow>
               let auth = (if ticketB64 \<noteq> []
                   then map_sum id (\<lambda>t. (tk_Transfer t, ByTicket (tk_Secret t) (if shardURL = [] then tk_Shard t else shardURL)))
                     (read_ticket P ticketB64)
                   else (case SecretOr (xi_prompt io) secret of
                           Inl e \<Rightarrow> Inl e
                         | Inr secretHex \<Rightarrow>
                             (case mailbox_hex mailboxID of
                                Inl e \<Rightarrow> Inl e
                              | Inr mbox \<Rightarrow> map_sum id (\<lambda>sec. (tid, ByMailbox mbox sec)) (hex_field SecretNotHex 32 secretHex)))) in
               (case auth of
                  Inl e \<Rightarrow> (Inl e, d1)
                | Inr (tid, a) \<Rightarrow>
                    (case on_net (ask_progress T tr tid a) d1 of
                       (Inl e, d2) \<Rightarrow> (Inl (OpsResume e), d2)
                     | (Inr p, d2) \<Rightarrow> (Inr p, d2)))))"

definition Ops_XferCancel ::
  "prims \<Rightarrow> json_codec \<Rightarrow> ('t, 'x) FileTransports_scheme \<Rightarrow> xfer_io \<Rightarrow> bool option option \<Rightarrow> string \<Rightarrow> string \<Rightarrow> string \<Rightarrow> string \<Rightarrow>
   't ops \<Rightarrow> (ops_error + unit) \<times> 't ops" where
  "Ops_XferCancel P J T io confirm transportID transferID mailboxID secret d =
     (case hex_field TransferNotHex 16 transferID of
        Inl e \<Rightarrow> (Inl e, d)
      | Inr tid \<Rightarrow>
     (case mailbox_hex mailboxID of
        Inl e \<Rightarrow> (Inl e, d)
      | Inr mbox \<Rightarrow>
     (case SecretOr (xi_prompt io) secret of
        Inl e \<Rightarrow> (Inl e, d)
      | Inr secretHex \<Rightarrow>
     (case hex_field SecretNotHex 32 secretHex of
        Inl e \<Rightarrow> (Inl e, d)
      | Inr sec \<Rightarrow>
     (case ConfirmOr confirm of
        Inl e \<Rightarrow> (Inl e, d)
      | Inr _ \<Rightarrow>
     (case file_transport P J (xi_mgr io) transportID d of
        (Inl e, d1) \<Rightarrow> (Inl e, d1)
      | (Inr tr, d1) \<Rightarrow>
          (case on_net (tp_XferCancel T tr tid mbox sec) d1 of
             (Inl e, d2) \<Rightarrow> (Inl (OpsTransport e), d2)
           | (Inr _, d2) \<Rightarrow> (Inr (), d2))))))))"

text \<open>What a ticket says of the transfer, without asking anyone.\<close>

definition XferInspect :: "prims \<Rightarrow> string \<Rightarrow> ops_error + Ticket \<times> Manifest" where
  "XferInspect P ticketB64 =
     (case read_ticket P ticketB64 of
        Inl e \<Rightarrow> Inl e
      | Inr ticket \<Rightarrow>
          (case ParseManifest P (tk_Manifest ticket) of
             Inl e \<Rightarrow> Inl (OpsFile (TicketManifest e))
           | Inr mf \<Rightarrow> Inr (ticket, mf)))"

subsection \<open>Contacts\<close>

record book_io =
  bi_load :: save_io
  bi_save :: save_io
  bi_legacy :: "bytes \<Rightarrow> book option"

datatype contact_error = ContactStore contacts_error | ContactAborted ops_error

definition edit_book ::
  "prims \<Rightarrow> packets \<Rightarrow> book_io \<Rightarrow> (book \<Rightarrow> contacts_error option \<times> book) \<Rightarrow> filesystem \<Rightarrow> (contact_error + unit) \<times> filesystem" where
  "edit_book P K io f fs =
     (case Contacts_Load P K (bi_legacy io) (bi_load io) fs of
        (Inl e, fs1) \<Rightarrow> (Inl (ContactStore e), fs1)
      | (Inr s, fs1) \<Rightarrow>
          (case f s of
             (Some e, _) \<Rightarrow> (Inl (ContactStore e), fs1)
           | (None, s') \<Rightarrow>
               (case Contacts_Save P K (bi_save io) s' fs1 of
                  (Some e, fs2) \<Rightarrow> (Inl (ContactStore e), fs2)
                | (None, fs2) \<Rightarrow> (Inr (), fs2))))"

definition ContactAdd where "ContactAdd P K io name userID = edit_book P K io (Contacts_Add name userID)"
definition ContactRename where "ContactRename P K io oldName newName = edit_book P K io (Contacts_Rename oldName newName)"
definition ContactNote where "ContactNote P K io name note = edit_book P K io (Contacts_SetNote name note)"

definition ContactRemove where
  "ContactRemove P K io confirm name fs =
     (case ConfirmOr confirm of
        Inl e \<Rightarrow> (Inl (ContactAborted e), fs)
      | Inr _ \<Rightarrow> edit_book P K io (Contacts_Remove name) fs)"

definition ContactInfo :: "prims \<Rightarrow> packets \<Rightarrow> book_io \<Rightarrow> string \<Rightarrow> filesystem \<Rightarrow> (contact_error + Contact) \<times> filesystem" where
  "ContactInfo P K io name fs =
     (case Contacts_Load P K (bi_legacy io) (bi_load io) fs of
        (Inl e, fs1) \<Rightarrow> (Inl (ContactStore e), fs1)
      | (Inr s, fs1) \<Rightarrow> (map_sum ContactStore id (Contacts_Get name s), fs1))"

text \<open>Names, user IDs and notes by name.\<close>

definition ContactList :: "prims \<Rightarrow> packets \<Rightarrow> book_io \<Rightarrow> filesystem \<Rightarrow> (contact_error + (string \<times> string \<times> string) list) \<times> filesystem" where
  "ContactList P K io fs =
     (case Contacts_Load P K (bi_legacy io) (bi_load io) fs of
        (Inl e, fs1) \<Rightarrow> (Inl (ContactStore e), fs1)
      | (Inr s, fs1) \<Rightarrow>
          (Inr (map (\<lambda>name. case map_of s name of None \<Rightarrow> (name, [], []) | Some c \<Rightarrow> (name, c_UserID c, c_Note c)) (sort (map fst s))), fs1))"

subsection \<open>Mailbox\<close>

datatype mail_error = MailIdentity ops_error | MailStore mailbox_error | NoThread string

definition MailboxList :: "prims \<Rightarrow> packets \<Rightarrow> (bytes \<Rightarrow> Thread option list option) \<Rightarrow> save_io \<Rightarrow> string \<Rightarrow> 't ops \<Rightarrow> filesystem \<Rightarrow>
   (mail_error + (string \<times> nat \<times> int) list) \<times> filesystem" where
  "MailboxList P K JM io ident d fs =
     (case session_identity d ident of
        Inl e \<Rightarrow> (Inl (MailIdentity e), fs)
      | Inr identity \<Rightarrow>
          (case Mailbox_Load P K JM io identity fs of
             (Inl e, fs1) \<Rightarrow> (Inl (MailStore e), fs1)
           | (Inr st, fs1) \<Rightarrow>
               (Inr (map (\<lambda>t. (if t_Title t = [] then shortHex (t_Key t) else t_Title t, length (t_Messages t), Thread_unread t)) (Mailbox_List st)), fs1)))"

definition thread_matches :: "string \<Rightarrow> Thread \<Rightarrow> bool" where
  "thread_matches thread t \<longleftrightarrow>
     t_Key t = thread \<or> t_Title t = thread \<or> HasPrefix (t_Key t) thread \<or> HasPrefix (t_Title t) thread"

definition MailboxRead_op :: "prims \<Rightarrow> packets \<Rightarrow> (bytes \<Rightarrow> Thread option list option) \<Rightarrow> save_io \<Rightarrow> string \<Rightarrow> string \<Rightarrow> 't ops \<Rightarrow> filesystem \<Rightarrow>
   (mail_error + Thread) \<times> filesystem" where
  "MailboxRead_op P K JM io ident thread d fs =
     (case session_identity d ident of
        Inl e \<Rightarrow> (Inl (MailIdentity e), fs)
      | Inr identity \<Rightarrow>
          (case Mailbox_Load P K JM io identity fs of
             (Inl e, fs1) \<Rightarrow> (Inl (MailStore e), fs1)
           | (Inr st, fs1) \<Rightarrow>
               (case find (thread_matches thread) (Mailbox_List st) of
                  None \<Rightarrow> (Inl (NoThread thread), fs1)
                | Some t \<Rightarrow> (Inr t, fs1))))"

subsection \<open>Identities\<close>

definition select_identity :: "string \<Rightarrow> 't ops \<Rightarrow> 't ops" where
  "select_identity i d = d\<lparr>op_Session := map_option (\<lambda>s. s\<lparr>se_Identity := i\<rparr>) (op_Session d)\<rparr>"

definition IdentityInit :: "prims \<Rightarrow> bytes \<Rightarrow> bytes \<Rightarrow> write_result \<Rightarrow> 't ops \<Rightarrow> string \<times> 't ops" where
  "IdentityInit P privEd dilCoins wr d =
     (let cl = NewClient P privEd dilCoins wr (op_clients d) in
      (cl_Id cl, select_identity (cl_Id cl) (d\<lparr>op_clients := files cl\<rparr>)))"

definition IdentityLoad :: "string \<Rightarrow> 't ops \<Rightarrow> (ops_error + string \<times> nat) \<times> 't ops" where
  "IdentityLoad i d =
     (case LoadClient i (op_clients d) of
        Inl e \<Rightarrow> (Inl (LoadSession e), d)
      | Inr cl \<Rightarrow> (Inr (cl_Id cl, length (Sessions cl)), select_identity (cl_Id cl) d))"

text \<open>The names \<open>matches\<close> of the files that end in \<^verbatim>\<open>.json\<close>, each kept if it can be examined.\<close>

definition IdentityList :: "string list \<Rightarrow> (string \<Rightarrow> bool) \<Rightarrow> string list" where
  "IdentityList matches stat_ok =
     sort (filter (\<lambda>i. i \<noteq> ''contacts'') (map (\<lambda>m. take (length m - 5) m) (filter stat_ok matches)))"

definition IdentityUse :: "string \<Rightarrow> 't ops \<Rightarrow> (ops_error + unit) \<times> 't ops" where
  "IdentityUse i d =
     (case LoadClient i (op_clients d) of
        Inl e \<Rightarrow> (Inl (LoadSession e), d)
      | Inr _ \<Rightarrow> (Inr (), select_identity i d))"

definition IdentityInfo :: "'t ops \<Rightarrow> ops_error + string \<times> nat" where
  "IdentityInfo d =
     (case session_identity d [] of
        Inl e \<Rightarrow> Inl e
      | Inr i \<Rightarrow> (case LoadClient i (op_clients d) of Inl e \<Rightarrow> Inl (LoadSession e) | Inr cl \<Rightarrow> Inr (cl_Id cl, length (Sessions cl))))"

subsection \<open>Transports\<close>

record TransportInfo =
  ti_ID :: string
  ti_Enabled :: bool
  ti_Running :: bool
  ti_Version :: string
  ti_APIVersion :: string
  ti_Capabilities :: "string list"
  ti_Permissions :: "string list"

definition transport_info :: "Installed \<Rightarrow> TransportInfo" where
  "transport_info x = \<lparr>ti_ID = tm_ID (is_Manifest x), ti_Enabled = is_Enabled x, ti_Running = is_Running x, ti_Version = tm_Version (is_Manifest x),
     ti_APIVersion = tm_APIVersion (is_Manifest x), ti_Capabilities = tm_Capabilities (is_Manifest x),
     ti_Permissions = tm_Permissions (is_Manifest x)\<rparr>"

definition listing :: "json_codec \<Rightarrow> mgr_io \<Rightarrow> 't ops \<Rightarrow> (ops_error + Installed list) \<times> 't ops" where
  "listing J io d = with_manager J (\<lambda>m fs. (Manager_List J io m fs, m, fs)) d"

definition Ops_List :: "json_codec \<Rightarrow> mgr_io \<Rightarrow> 't ops \<Rightarrow> (ops_error + TransportInfo list) \<times> 't ops" where
  "Ops_List J io d = apfst (map_sum id (\<lambda>xs. sort_key ti_ID (map transport_info xs))) (listing J io d)"

definition Ops_Install :: "prims \<Rightarrow> json_codec \<Rightarrow> mgr_io \<Rightarrow> ntx \<Rightarrow> bool \<Rightarrow> 't ops \<Rightarrow> (ops_error + TransportManifest) \<times> 't ops" where
  "Ops_Install P J io pkg enable d = with_manager J (Install P J io pkg enable) d"

definition Ops_Remove :: "json_codec \<Rightarrow> mgr_io \<Rightarrow> bool option option \<Rightarrow> string \<Rightarrow> 't ops \<Rightarrow> (ops_error + unit) \<times> 't ops" where
  "Ops_Remove J io confirm i d =
     (case ConfirmOr confirm of Inl e \<Rightarrow> (Inl e, d) | Inr _ \<Rightarrow> with_manager J (Manager_Remove J io i) d)"

definition Ops_Enable :: "json_codec \<Rightarrow> mgr_io \<Rightarrow> string \<Rightarrow> 't ops \<Rightarrow> (ops_error + unit) \<times> 't ops" where
  "Ops_Enable J io i d = with_manager J (Enable J io i) d"

definition Ops_Disable :: "json_codec \<Rightarrow> mgr_io \<Rightarrow> string \<Rightarrow> 't ops \<Rightarrow> (ops_error + unit) \<times> 't ops" where
  "Ops_Disable J io i d = with_manager J (Disable J io i) d"

definition Ops_SetConfig :: "(string \<Rightarrow> bool) \<Rightarrow> json_codec \<Rightarrow> mgr_io \<Rightarrow> string \<Rightarrow> string \<Rightarrow> 't ops \<Rightarrow> (ops_error + unit) \<times> 't ops" where
  "Ops_SetConfig is_object J io i configJSON d = with_manager J (SetConfig is_object J io i configJSON) d"

definition Ops_Status :: "json_codec \<Rightarrow> mgr_io \<Rightarrow> string \<Rightarrow> 't ops \<Rightarrow> (ops_error + TransportInfo) \<times> 't ops" where
  "Ops_Status J io i d =
     (case listing J io d of
        (Inl e, d') \<Rightarrow> (Inl e, d')
      | (Inr insts, d') \<Rightarrow>
          (case find (\<lambda>x. tm_ID (is_Manifest x) = i) insts of
             None \<Rightarrow> (Inl (OpsManager (NotInstalled i)), d')
           | Some x \<Rightarrow> (Inr (transport_info x), d')))"

definition RelayList :: "json_codec \<Rightarrow> mgr_io \<Rightarrow> 't ops \<Rightarrow> (ops_error + (string \<times> bool \<times> bool) list) \<times> 't ops" where
  "RelayList J io d =
     apfst (map_sum id (\<lambda>xs. sort_key fst (map (\<lambda>x. (tm_ID (is_Manifest x), is_Enabled x, is_Running x))
       (filter (\<lambda>x. ''message'' \<in> set (tm_Capabilities (is_Manifest x))) xs)))) (listing J io d)"

datatype ping_error = PingOps ops_error | ReportsStopped string string

text \<open>With JSON output a stopped transport is reported, not an error.\<close>

definition RelayPing ::
  "prims \<Rightarrow> json_codec \<Rightarrow> ('t, 'x) Transports_scheme \<Rightarrow> mgr_io \<Rightarrow> bool \<Rightarrow> string \<Rightarrow> 't ops \<Rightarrow> (ping_error + bool \<times> string) \<times> 't ops" where
  "RelayPing P J T io json i d =
     (case running_transport P J io i d of
        (Inl e, d1) \<Rightarrow> (Inl (PingOps e), d1)
      | (Inr tr, d1) \<Rightarrow>
          (case on_net (tp_Status T tr) d1 of
             (Inl e, d2) \<Rightarrow> (Inl (PingOps (OpsTransport e)), d2)
           | (Inr (running, detail), d2) \<Rightarrow>
               (if json \<or> running then Inr (running, detail) else Inl (ReportsStopped i detail), d2)))"

definition RelayInfo :: "json_codec \<Rightarrow> mgr_io \<Rightarrow> string \<Rightarrow> 't ops \<Rightarrow> (ops_error + Installed \<times> nat) \<times> 't ops" where
  "RelayInfo J io i d =
     (case listing J io d of
        (Inl e, d') \<Rightarrow> (Inl e, d')
      | (Inr insts, d') \<Rightarrow>
          (case find (\<lambda>x. tm_ID (is_Manifest x) = i) insts of
             None \<Rightarrow> (Inl (OpsManager (NotInstalled i)), d')
           | Some x \<Rightarrow> (Inr (x, length (attachments (the (op_manager d')) i)), d')))"

subsection \<open>What they keep\<close>

text \<open>
  An edit of the contacts that is reported as done is what the next operation reads back from the file: every name has
  the entry the edit gave it.
\<close>

lemma edited_book_read:
  assumes "np_law P" "packet_law K" "Contacts_Load P K (bi_legacy io) (bi_load io) fs = (Inr s, fs1)" "f s = (None, s')" "book_ok s'"
    and "encode_all P Contact_MarshalBinID (map snd s') = Inr recs" "storable recs" "bi_save io = SaveDone"
  shows "\<exists>fs2. edit_book P K io f fs = (Inr (), fs2) \<and> fst (ContactInfo P K io' name fs2) = map_sum ContactStore id (Contacts_Get name s')"
proof -
  obtain s2 fs2 where r: "Contacts_Save P K SaveDone s' fs1 = (None, fs2)" "Contacts_Load P K (bi_legacy io') (bi_load io') fs2 = (Inr s2, fs2)"
      "map_of s2 = map_of s'"
    using contacts_roundtrip [OF assms(1,2,5-7)] by blast
  then show ?thesis using assms(3,4,8) by (simp add: edit_book_def ContactInfo_def Contacts_Get_def)
qed

text \<open>Reading a thread takes the first that starts with the word, also when a later one has exactly this key.\<close>

lemma prefix_shadows_exact:
  assumes "Mailbox_List st = t # ts" "HasPrefix (t_Key t) thread" "session_identity d ident = Inr identity"
    and "Mailbox_Load P K JM io identity fs = (Inr st, fs1)"
  shows "MailboxRead_op P K JM io ident thread d fs = (Inr t, fs1)"
  using assms by (simp add: MailboxRead_op_def thread_matches_def)

text \<open>Receiving with the credentials of a mailbox never asks for the secret: a missing secret is refused before.\<close>

lemma recv_never_prompts:
  assumes "session_identity d (rp_Identity p) = Inr identity" "rp_TicketB64 p = []" "rp_Secret p = []" "rp_Peer p \<noteq> []" "rp_Out p \<noteq> []"
  shows "XferRecv P J T io p d = (Inl FlagsRequired, d)"
  using assms by (simp add: XferRecv_def recv_flags_of_def)

end
