(* ===== verification/ManagerCases.thy ===== *)
theory ManagerCases
  imports ManagerProps
begin

text \<open>Starting all transports, removing one, replacing a running one, and concrete runs of the manager.\<close>

subsection \<open>Quarantine\<close>

lemma start_live_other: "Manager_Start P J io i m fs = (r, m') \<Longrightarrow> k \<noteq> i \<Longrightarrow> mg_live m' k = mg_live m k"
  using start_outcome [of P J io i m fs r m']
  by (auto simp: killLive_def launched_def placed_def Let_def split: option.splits)

lemma set_enabled_other [simp]:
  "k \<noteq> i \<Longrightarrow> sf_Enabled (mg_state (set_enabled i b m)) k = sf_Enabled (mg_state m) k"
  "sf_Enabled (mg_state (set_enabled i b m)) i = Some b"
  "mg_live (set_enabled i b m) = mg_live m"
  by (simp_all add: set_enabled_def)

definition inst_ID :: "Installed \<Rightarrow> string" where
  "inst_ID inst = tm_ID (is_Manifest inst)"

text \<open>One round of the loop: what is reported, the manager and the disk after one transport.\<close>

lemma start_each_Cons:
  obtains out1 m1 fs1 where "start_each P J io (x # insts) out m fs = start_each P J io insts out1 m1 fs1"
    "\<And>k. k \<noteq> inst_ID x \<Longrightarrow> mg_live m1 k = mg_live m k \<and> sf_Enabled (mg_state m1) k = sf_Enabled (mg_state m) k \<and> map_of out1 k = map_of out k"
    "if is_Enabled x
     then (map_of out1 (inst_ID x) = map_of out (inst_ID x) \<and> mg_live m1 (inst_ID x) \<noteq> None \<and> sf_Enabled (mg_state m1) (inst_ID x) = Some True) \<or>
       (map_of out1 (inst_ID x) \<noteq> None \<and> sf_Enabled (mg_state m1) (inst_ID x) = Some False)
     else out1 = out \<and> m1 = m"
proof -
  let ?i = "inst_ID x"
  obtain r m1 where s: "Manager_Start P J (io ?i) ?i m fs = (r, m1)" by fastforce
  obtain y fs1 where w: "saveState J (io ?i) (set_enabled ?i False m1) fs = (y, fs1)" by fastforce
  show ?thesis
  proof (cases "is_Enabled x")
    case False
    then show ?thesis using that [of out m fs] by (simp add: Let_def)
  next
    case True
    show ?thesis
    proof (cases r)
      case (Inl e)
      then show ?thesis using True s w start_live_other [OF s] start_state [OF s]
        by (intro that [of "AList.update ?i e out" "set_enabled ?i False m1" fs1]) (simp_all add: Let_def inst_ID_def update_conv')
    next
      case (Inr t)
      have "mg_live m1 ?i = Some t" "sf_Enabled (mg_state m) ?i = Some True" using s Inr by (auto elim: start_InrD)
      then show ?thesis using True Inr s start_live_other [OF s] start_state [OF s]
        by (intro that [of out m1 fs]) (simp_all add: Let_def inst_ID_def)
    qed
  qed
qed

lemma start_each_other:
  assumes "start_each P J io insts out m fs = (out', m', fs')" "k \<notin> inst_ID ` set insts"
  shows "mg_live m' k = mg_live m k \<and> sf_Enabled (mg_state m') k = sf_Enabled (mg_state m) k \<and> map_of out' k = map_of out k"
  using assms
proof (induction insts arbitrary: out m fs)
  case (Cons x insts)
  obtain out1 m1 fs1 where c: "start_each P J io (x # insts) out m fs = start_each P J io insts out1 m1 fs1"
      "\<And>k. k \<noteq> inst_ID x \<Longrightarrow> mg_live m1 k = mg_live m k \<and> sf_Enabled (mg_state m1) k = sf_Enabled (mg_state m) k \<and> map_of out1 k = map_of out k"
    by (rule start_each_Cons [of P J io x insts out m fs]) blast
  then show ?case using Cons.IH [of out1 m1 fs1] Cons.prems by (simp del: start_each.simps)
qed simp

lemma start_each_one:
  assumes "start_each P J io insts out m fs = (out', m', fs')" "distinct (map inst_ID insts)" "inst \<in> set insts"
    and "map_of out (inst_ID inst) = None" "sf_Enabled (mg_state m) (inst_ID inst) = en" "mg_live m (inst_ID inst) = lv"
  shows "if is_Enabled inst
    then (map_of out' (inst_ID inst) = None \<and> mg_live m' (inst_ID inst) \<noteq> None \<and> sf_Enabled (mg_state m') (inst_ID inst) = Some True) \<or>
      (map_of out' (inst_ID inst) \<noteq> None \<and> sf_Enabled (mg_state m') (inst_ID inst) = Some False)
    else map_of out' (inst_ID inst) = None \<and> mg_live m' (inst_ID inst) = lv \<and> sf_Enabled (mg_state m') (inst_ID inst) = en"
  using assms
proof (induction insts arbitrary: out m fs)
  case (Cons x insts)
  obtain out1 m1 fs1 where c: "start_each P J io (x # insts) out m fs = start_each P J io insts out1 m1 fs1"
      "\<And>k. k \<noteq> inst_ID x \<Longrightarrow> mg_live m1 k = mg_live m k \<and> sf_Enabled (mg_state m1) k = sf_Enabled (mg_state m) k \<and> map_of out1 k = map_of out k"
      "if is_Enabled x
       then (map_of out1 (inst_ID x) = map_of out (inst_ID x) \<and> mg_live m1 (inst_ID x) \<noteq> None \<and> sf_Enabled (mg_state m1) (inst_ID x) = Some True) \<or>
         (map_of out1 (inst_ID x) \<noteq> None \<and> sf_Enabled (mg_state m1) (inst_ID x) = Some False)
       else out1 = out \<and> m1 = m"
    by (rule start_each_Cons [of P J io x insts out m fs]) blast
  have rest: "start_each P J io insts out1 m1 fs1 = (out', m', fs')" using c(1) Cons.prems(1) by simp
  show ?case
  proof (cases "inst = x")
    case True
    then have "inst_ID x \<notin> inst_ID ` set insts" using Cons.prems(2) by simp
    then show ?thesis using start_each_other [OF rest] c(3) Cons.prems(4-6) True by auto
  next
    case False
    then have i: "inst \<in> set insts" using Cons.prems(3) by simp
    have "inst_ID inst \<in> inst_ID ` set insts" using i by (rule imageI)
    moreover have "inst_ID x \<notin> inst_ID ` set insts" using Cons.prems(2) by simp
    ultimately have o: "inst_ID inst \<noteq> inst_ID x" by metis
    then show ?thesis using Cons.IH [OF rest _ i] c(2) [OF o] Cons.prems(2,4-6) by simp
  qed
qed simp

text \<open>
  C39.  Starting all transports reaches every one: an enabled transport is live afterwards, or its
  error is reported and it is disabled; one failure keeps no other transport from starting, and a disabled transport is
  left alone.
\<close>

theorem start_enabled_quarantine:
  assumes "Manager_List J io m fs = Inr insts" "StartEnabled P J io ios m fs = (out, m', fs')" "distinct (map inst_ID insts)"
    and "inst \<in> set insts"
  shows "if is_Enabled inst
    then (map_of out (inst_ID inst) = None \<and> mg_live m' (inst_ID inst) \<noteq> None \<and> sf_Enabled (mg_state m') (inst_ID inst) = Some True) \<or>
      (map_of out (inst_ID inst) \<noteq> None \<and> sf_Enabled (mg_state m') (inst_ID inst) = Some False)
    else map_of out (inst_ID inst) = None \<and> mg_live m' (inst_ID inst) = mg_live m (inst_ID inst) \<and>
      sf_Enabled (mg_state m') (inst_ID inst) = sf_Enabled (mg_state m) (inst_ID inst)"
proof (rule start_each_one [OF _ assms(3,4)])
  show "start_each P J ios insts [] m fs = (out, m', fs')" using assms(1,2) by (simp add: StartEnabled_def)
qed simp_all

subsection \<open>Removing\<close>

lemma remove_runs:
  assumes "io_save io"
  shows "Manager_Remove J io k m fs = (Inr (), (take_down k m)\<lparr>mg_state := forget k (mg_state m)\<rparr>,
     RemoveAll (path_join (mg_dir m) k) (fs(state_path (mg_dir m) \<mapsto> jc_put_state J (forget k (mg_state m)))))"
proof -
  have "mg_dir (take_down k m) = mg_dir m" by (auto simp: take_down_def killLive_def split: option.splits)
  then show ?thesis using assms by (simp add: Manager_Remove_def saved_def saveState_def Let_def)
qed

text \<open>
  Note.  Removing a transport by a valid identifier deletes the files below its own directory and nothing else but
  for rewriting the state file, and forgets its state but no other's; the identifier is not checked, however, so with
  \<open>..\<close> everything below the parent of the transport directory is deleted.
\<close>

theorem remove_scope:
  assumes "io_save io"
  shows "(idRe i \<longrightarrow> (\<exists>m' fs'. Manager_Remove J io i m fs = (Inr (), m', fs') \<and> mg_live m' i = None \<and>
       (\<forall>q. fs' q = (if below (mg_dir m @ [i]) q then None
          else if q = state_path (mg_dir m) then Some (jc_put_state J (mg_state m')) else fs q)) \<and>
       (\<forall>k. k \<noteq> i \<longrightarrow> sf_Files (mg_state m') k = sf_Files (mg_state m) k \<and> mg_live m' k = mg_live m k \<and>
          attachments m' k = attachments m k))) \<and>
     (\<exists>m' fs'. Manager_Remove J io ''..'' m fs = (Inr (), m', fs') \<and> (\<forall>q. fs' (butlast (mg_dir m) @ q) = None))"
proof (intro conjI impI)
  assume i: "idRe i"
  let ?m = "(take_down i m)\<lparr>mg_state := forget i (mg_state m)\<rparr>"
  have "mg_live ?m i = None" "k \<noteq> i \<Longrightarrow> mg_live ?m k = mg_live m k" for k
    by (auto simp: take_down_def killLive_def split: option.splits)
  then show "\<exists>m' fs'. Manager_Remove J io i m fs = (Inr (), m', fs') \<and> mg_live m' i = None \<and>
       (\<forall>q. fs' q = (if below (mg_dir m @ [i]) q then None
          else if q = state_path (mg_dir m) then Some (jc_put_state J (mg_state m')) else fs q)) \<and>
       (\<forall>k. k \<noteq> i \<longrightarrow> sf_Files (mg_state m') k = sf_Files (mg_state m) k \<and> mg_live m' k = mg_live m k \<and>
          attachments m' k = attachments m k)"
    unfolding remove_runs [OF assms] id_plain(5) [OF i]
    by (intro exI [of _ ?m] exI conjI) (auto simp: RemoveAll_def forget_def attachments_def)
next
  have "path_join (mg_dir m) ''..'' = butlast (mg_dir m)" by (simp add: path_join_def)
  then show "\<exists>m' fs'. Manager_Remove J io ''..'' m fs = (Inr (), m', fs') \<and> (\<forall>q. fs' (butlast (mg_dir m) @ q) = None)"
    unfolding remove_runs [OF assms] by (simp add: RemoveAll_def)
qed

subsection \<open>Replacing a running transport\<close>

text \<open>
  Installing the package that is already installed is refused while the transport runs, installing a different package
  under the same identifier is not, and the old code stays live.
\<close>

lemma running_replaced:
  assumes "opened J pkg = Inr (zs, mf, raw)" "mg_live m (tm_ID mf) = Some t" "sf_Hash (mg_state m) (tm_ID mf) = Some h" "h \<noteq> []"
  shows "h = hex_encode (p_sha256 P raw) \<Longrightarrow> Install P J io pkg en m fs = (Inl (StillRunning (tm_ID mf)), m, fs)"
    and "Install P J io pkg en m fs = (Inr mf', m', fs') \<Longrightarrow> mg_live m' (tm_ID mf) = Some t"
proof -
  assume "h = hex_encode (p_sha256 P raw)"
  then show "Install P J io pkg en m fs = (Inl (StillRunning (tm_ID mf)), m, fs)"
    using assms by (simp add: Install_def may_install_def)
next
  assume i: "Install P J io pkg en m fs = (Inr mf', m', fs')"
  obtain wr fs1 where w: "write_files io (path_join (mg_dir m) (tm_ID mf)) zs (write_order io (tm_Entry mf)) fs = (wr, fs1)" by fastforce
  have "mg_live m' = mg_live m"
    using assms(1) i w by (cases wr) (auto simp: Install_def Let_def saved_def split: if_splits prod.splits option.splits)
  then show "mg_live m' (tm_ID mf) = Some t" using assms(2) by simp
qed

subsection \<open>Concrete runs\<close>

definition toy_codec :: json_codec where
  "toy_codec = \<lparr>jc_manifest = (\<lambda>_. Some toy_package), jc_put_state = (\<lambda>_. []), jc_get_state = (\<lambda>_. None)\<rparr>"

definition toy_outcome :: mgr_io where
  "toy_outcome = \<lparr>io_save = True, io_mkdir = True, io_entry_first = False, io_file = (\<lambda>_. None), io_entries = Some [''relay''],
     io_spawn = Some [''message''], io_exec = Map.empty, io_start = True, io_attach = (\<lambda>_. True)\<rparr>"

definition toy_ntx :: ntx where
  "toy_ntx = \<lparr>nx_files = Some [\<lparr>zf_Name = ''manifest.json'', zf_Size = 1, zf_Data = Some [1]\<rparr>,
     \<lparr>zf_Name = ''relay.wasm'', zf_Size = 2, zf_Data = Some [2, 3]\<rparr>], nx_raw = Some [9]\<rparr>"

definition toy_dir :: path where "toy_dir = [''t'']"

definition toy_fresh :: Manager where
  "toy_fresh = \<lparr>mg_dir = toy_dir, mg_state = empty_state, mg_live = Map.empty, mg_spawned = 0, mg_running = {}\<rparr>"

definition toy_installed :: Manager where
  "toy_installed = toy_fresh\<lparr>mg_state := install_state toy True toy_package (hex_encode (p_sha256 toy [9]))
     [(''manifest.json'', [1]), (''relay.wasm'', [2, 3])] empty_state\<rparr>"

definition toy_disk :: disk where
  "toy_disk = [[''t'', ''relay'', ''manifest.json''] \<mapsto> [1], [''t'', ''relay'', ''relay.wasm''] \<mapsto> [2, 3], [''t'', ''state.json''] \<mapsto> []]"

definition toy_live :: live where
  "toy_live = \<lparr>lv_number = 0, lv_ID = ''relay'', lv_Capabilities = [''message''], lv_process = False, lv_image = [2, 3], lv_config = []\<rparr>"

lemma toy_paths: "path_join toy_dir ''relay'' = [''t'', ''relay'']"
  "path_join p ''relay.wasm'' = p @ [''relay.wasm'']"
  by (simp_all add: toy_dir_def path_join_plain)

lemma toy_wasm: "is_wasm toy_package" by code_simp

lemma toy_install: "Install toy toy_codec toy_outcome toy_ntx True toy_fresh Map.empty = (Inr toy_package, toy_installed, toy_disk)"
proof -
  have m: "tm_ID toy_package = ''relay''" "tm_Entry toy_package = ''relay.wasm''" by (simp_all add: toy_package_def)
  have o: "opened toy_codec toy_ntx = Inr (the (nx_files toy_ntx), toy_package, [9])"
    by (simp add: opened_def toy_codec_def toy_ntx_def read_manifest_def toy_package_valid zip_lookup_def m)
  have w: "write_files toy_outcome (path_join toy_dir ''relay'') (the (nx_files toy_ntx)) (write_order toy_outcome ''relay.wasm'') Map.empty =
      (Inr [(''manifest.json'', [1]), (''relay.wasm'', [2, 3])],
       [[''t'', ''relay'', ''manifest.json''] \<mapsto> [1], [''t'', ''relay'', ''relay.wasm''] \<mapsto> [2, 3]])"
    by (simp add: toy_paths write_order_def toy_outcome_def toy_ntx_def zip_lookup_def Let_def)
  have n: "may_install toy_fresh ''relay'' h" "mg_dir toy_fresh = toy_dir" "mg_state toy_fresh = empty_state" "io_mkdir toy_outcome"
      "io_save toy_outcome" "jc_put_state toy_codec x = []" for h x
    by (simp_all add: may_install_def toy_fresh_def toy_outcome_def toy_codec_def)
  show ?thesis unfolding Install_def o
    by (simp add: m n w Let_def saved_def saveState_def)
      (simp add: toy_installed_def toy_disk_def state_path_def toy_fresh_def toy_dir_def)
qed

lemma toy_start: "Manager_Start toy toy_codec toy_outcome ''relay'' toy_installed toy_disk =
   (Inr toy_live, toy_installed\<lparr>mg_spawned := 1, mg_running := {0}, mg_live := [''relay'' \<mapsto> toy_live]\<rparr>)"
proof -
  have m: "tm_ID toy_package = ''relay''" "tm_Entry toy_package = ''relay.wasm''" by (simp_all add: toy_package_def)
  have d: "mg_dir toy_installed = toy_dir" "mg_live toy_installed = Map.empty" "mg_spawned toy_installed = 0" "mg_running toy_installed = {}"
    by (simp_all add: toy_installed_def toy_fresh_def)
  have st: "sf_Enabled (mg_state toy_installed) ''relay'' = Some True" "sf_Config (mg_state toy_installed) ''relay'' = None"
    "sf_Attach (mg_state toy_installed) ''relay'' = None"
    "sf_Files (mg_state toy_installed) ''relay'' = Some (filesPin toy [1] [2, 3])"
    by (simp_all add: toy_installed_def install_state_def empty_state_def Let_def m written_def)
  have f: "toy_disk (transport_file toy_dir ''relay'' ''manifest.json'') = Some [1]"
    "toy_disk (transport_file toy_dir ''relay'' ''relay.wasm'') = Some [2, 3]"
    by (simp_all add: transport_file_def toy_paths toy_disk_def)
  have "length (filesPin toy [1] [2, 3]) = 64" by (simp add: filesPin_def toy_def)
  then have ne: "filesPin toy [1] [2, 3] \<noteq> []" by auto
  have v: "verifyInstalled toy toy_codec ''relay'' toy_installed toy_disk = Inr (toy_package, [2, 3])"
    by (simp add: verifyInstalled_def st d f ne m toy_codec_def toy_package_valid)
  show ?thesis
    by (simp add: Manager_Start_def st has_manifest_def d f v m spawn_def toy_wasm toy_outcome_def launched_def attachments_def placed_def
        toy_live_def)
qed

theorem start_runs_installed_witness:
  "lv_image toy_live = [2, 3] \<and> mg_live (snd (Manager_Start toy toy_codec toy_outcome ''relay'' toy_installed toy_disk)) ''relay'' = Some toy_live \<and>
   (\<exists>raw2 entry2. toy_disk (toy_dir @ [''relay'', ''manifest.json'']) = Some raw2 \<and> toy_disk (toy_dir @ [''relay'', ''relay.wasm'']) = Some entry2 \<and>
      entry2 = lv_image toy_live \<and> p_sha256 toy (pinned_bytes raw2 entry2) = p_sha256 toy (pinned_bytes [1] [2, 3]))"
proof -
  have m: "tm_ID toy_package = ''relay''" "tm_Entry toy_package = ''relay.wasm''" "mg_dir toy_fresh = toy_dir"
    by (simp_all add: toy_package_def toy_fresh_def)
  have d: "toy_disk (mg_dir toy_fresh @ [tm_ID toy_package, ''manifest.json'']) = Some [1]"
    by (simp add: m toy_disk_def toy_dir_def)
  from start_runs_installed [OF toy_install d, of toy_installed toy_outcome toy_disk toy_live] toy_start m
  obtain entry raw2 mf2 entry2 where "toy_disk (toy_dir @ [''relay'', ''relay.wasm'']) = Some entry"
      "toy_disk (toy_dir @ [''relay'', ''manifest.json'']) = Some raw2" "ParseTransportManifest (jc_manifest toy_codec) raw2 = Inr mf2"
      "toy_disk (toy_dir @ [''relay'', tm_Entry mf2]) = Some entry2"
      "p_sha256 toy (pinned_bytes raw2 entry2) = p_sha256 toy (pinned_bytes [1] entry)"
      "Some (lv_image toy_live) = (if is_wasm mf2 then Some entry2 else io_exec toy_outcome (toy_dir @ [''relay'', tm_Entry mf2]))"
    by (auto simp: toy_installed_def toy_fresh_def)
  then show ?thesis using toy_start
    by (auto simp: toy_disk_def toy_dir_def toy_live_def)
qed

lemma toy_new: "NewManager toy_codec toy_dir Map.empty = Inr toy_fresh"
  by (simp add: NewManager_def loadState_def toy_fresh_def)

theorem manager_invariant_witness:
  "\<exists>m fs. (mgr_step toy toy_codec)\<^sup>*\<^sup>* (toy_fresh, Map.empty) (m, fs) \<and> mg_live m ''relay'' = Some toy_live \<and>
     mg_running m = lv_number ` ran (mg_live m)"
proof -
  let ?m = "toy_installed\<lparr>mg_spawned := 1, mg_running := {0}, mg_live := [''relay'' \<mapsto> toy_live]\<rparr>"
  have run: "(mgr_step toy toy_codec)\<^sup>*\<^sup>* (toy_fresh, Map.empty) (?m, toy_disk)"
    using mgr_step.install [OF toy_install] mgr_step.start [OF toy_start] by (meson r_into_rtranclp rtranclp_trans)
  then have "mg_running ?m = lv_number ` ran (mg_live ?m)" using manager_invariant [OF toy_new _ run] by blast
  then show ?thesis using run by (intro exI [of _ ?m] exI [of _ toy_disk]) simp
qed

theorem start_enabled_quarantine_witness:
  "\<exists>out m' fs'. StartEnabled toy toy_codec toy_outcome (\<lambda>_. toy_outcome) toy_installed toy_disk = (out, m', fs') \<and>
     (map_of out ''relay'' = None \<and> mg_live m' ''relay'' \<noteq> None \<or> sf_Enabled (mg_state m') ''relay'' = Some False)"
proof -
  let ?inst = "\<lparr>is_Manifest = toy_package, is_Dir = [''t'', ''relay''], is_Enabled = True,
     is_Hash = hex_encode (p_sha256 toy [9]), is_Running = False\<rparr>"
  have m: "tm_ID toy_package = ''relay''" by (simp add: toy_package_def)
  have "toy_disk (transport_file toy_dir ''relay'' ''manifest.json'') = Some [1]"
    by (simp add: transport_file_def toy_paths toy_disk_def)
  then have l: "Manager_List toy_codec toy_outcome toy_installed toy_disk = Inr [?inst]"
    by (simp add: Manager_List_def toy_outcome_def installed_def toy_installed_def toy_fresh_def toy_codec_def toy_package_valid
        toy_paths m install_state_def empty_state_def Let_def)
  obtain out m' fs' where s: "StartEnabled toy toy_codec toy_outcome (\<lambda>_. toy_outcome) toy_installed toy_disk = (out, m', fs')"
    by (metis prod_cases3)
  then show ?thesis using start_enabled_quarantine [OF l s, of ?inst] by (auto simp: inst_ID_def m)
qed

theorem remove_scope_witness:
  "\<exists>m' fs'. Manager_Remove toy_codec toy_outcome ''relay'' toy_installed toy_disk = (Inr (), m', fs') \<and>
     fs' [''t'', ''relay'', ''relay.wasm''] = None \<and> fs' [''x''] = toy_disk [''x'']"
proof -
  have i: "idRe ''relay''" by code_simp
  have s: "io_save toy_outcome" by (simp add: toy_outcome_def)
  have d: "mg_dir toy_installed = [''t'']" by (simp add: toy_installed_def toy_fresh_def toy_dir_def)
  obtain m' fs' where "Manager_Remove toy_codec toy_outcome ''relay'' toy_installed toy_disk = (Inr (), m', fs')"
      "\<forall>q. fs' q = (if below (mg_dir toy_installed @ [''relay'']) q then None
          else if q = state_path (mg_dir toy_installed) then Some (jc_put_state toy_codec (mg_state m')) else toy_disk q)"
    using remove_scope [OF s, of "''relay''" toy_codec toy_installed toy_disk] i by blast
  then show ?thesis by (auto simp: d below_def state_path_def)
qed

end
