(* ===== verification/OpsProps.thy ===== *)
theory OpsProps
  imports XferOps ManagerCases
begin

text \<open>
  What the operations achieve between two users: a message sent by one is in the mailbox of the other after a poll, and a
  file sent by one is received by the other with the ticket.  The transports between them are assumed to carry frames
  and to keep transfers; the sessions of the two clients are in step.
\<close>

subsection \<open>Sessions and transports\<close>

text \<open>Two clients hold the two ends of a session, in step and with nothing on the way to the second.\<close>

definition in_touch :: "prims \<Rightarrow> bytes \<Rightarrow> string \<Rightarrow> Client \<Rightarrow> Client \<Rightarrow> bool" where
  "in_touch P rnd peer ca cb \<longleftrightarrow>
     (\<exists>a b nb s adr adr'. mirrored P a b \<and> duplex_reach P (cl_Id ca) nb (fresh_duplex a b) s \<and> toB s = [] \<and>
        p_basemult P rnd \<noteq> DhPublic (pA s) \<and> SendNonce (pA s) < 2 ^ 31 \<and>
        map_of (Sessions ca) peer = Some adr \<and> heap ca adr = Some (pA s) \<and>
        map_of (Sessions cb) (cl_Id ca) = Some adr' \<and> heap cb adr' = Some (pB s))"

definition session_laws :: "prims \<Rightarrow> bool" where
  "session_laws P \<longleftrightarrow> np_law P \<and> aead_law P \<and> hkdf_law P \<and> dh_law P"

lemma in_touch_delivered:
  assumes "session_laws P" "in_touch P rnd peer ca cb"
  obtains w ca' cb' where "Client_Encrypt P rnd wr peer pt ca = (Inr w, ca')" "Client_Decrypt P wr' w cb = (Inr (cl_Id ca, pt), cb')"
  using assms client_frame_delivered [of P _ _ ca _ _ rnd peer _ cb _ wr pt wr'] unfolding in_touch_def session_laws_def by metis

lemma on_net_eq: "f (op_net d) = (r, n) \<Longrightarrow> on_net f d = (r, d\<lparr>op_net := n\<rparr>)"
  by (simp add: on_net_def)

text \<open>Opening the manager and starting a transport have nothing to do with what the transports carry.\<close>

lemma session_identity_net: "session_identity (d\<lparr>op_net := n\<rparr>) i = session_identity d i"
  by (simp add: session_identity_def)

lemma Deps_Manager_net: "Deps_Manager J (d\<lparr>op_net := n\<rparr>) = apsnd (\<lambda>x. x\<lparr>op_net := n\<rparr>) (Deps_Manager J d)"
  by (auto simp: Deps_Manager_def split: option.splits sum.splits)

lemma running_transport_net:
  "running_transport P J io i (d\<lparr>op_net := n\<rparr>) = apsnd (\<lambda>x. x\<lparr>op_net := n\<rparr>) (running_transport P J io i d)"
  by (auto simp: running_transport_def Deps_Manager_net split: prod.splits sum.splits)

lemma file_transport_net:
  "file_transport P J io i (d\<lparr>op_net := n\<rparr>) = apsnd (\<lambda>x. x\<lparr>op_net := n\<rparr>) (file_transport P J io i d)"
  by (auto simp: file_transport_def running_transport_net split: prod.splits sum.splits option.splits)

lemma running_transport_keeps:
  assumes "running_transport P J io i d = (r, d')"
  shows "op_clients d' = op_clients d" "op_Session d' = op_Session d" "op_net d' = op_net d"
  using assms by (auto simp: running_transport_def Deps_Manager_def split: prod.splits sum.splits option.splits)

lemma file_transport_keeps:
  assumes "file_transport P J io i d = (r, d')"
  shows "op_clients d' = op_clients d" "op_Session d' = op_Session d" "op_net d' = op_net d"
  using assms running_transport_keeps [of P J io i d]
  by (auto simp: file_transport_def split: prod.splits sum.splits option.splits)

subsection \<open>Files\<close>

text \<open>
  A pair of transports that keep one transfer: what is put is held under its index, and once the transfer is sealed the
  holder of the ticket is told that nothing is missing and gets every chunk with its hash.
\<close>

definition keeps_transfer ::
  "prims \<Rightarrow> ('t, 'x) FileTransports_scheme \<Rightarrow> live \<Rightarrow> live \<Rightarrow> ('t \<Rightarrow> nat \<Rightarrow> bytes option) \<Rightarrow> ('t \<Rightarrow> bool) \<Rightarrow> bytes \<Rightarrow> bytes \<Rightarrow> string \<Rightarrow> bool" where
  "keeps_transfer P T tA tB held whole tid secret shard \<longleftrightarrow>
     length tid = 16 \<and> length secret = 32 \<and> shard \<noteq> [] \<and>
     (\<forall>c n. \<exists>ex n'. tp_XferCreate T tA c n = (Inr \<lparr>xcd_TransferID = tid, xcd_Expires = ex, xcd_DownloadSecret = secret, xcd_ShardURL = shard\<rparr>, n')) \<and>
     (\<forall>x n. xpt_TransferID x = tid \<longrightarrow>
        (\<exists>k n'. tp_XferPut T tA x n = (Inr k, n') \<and> held n' = (held n)(unat (xpt_Index x) \<mapsto> xpt_Payload x))) \<and>
     (\<forall>h n. \<exists>n'. tp_XferComplete T tA tid h n = (Inr (), n') \<and> held n' = held n \<and> whole n') \<and>
     (\<forall>n. whole n \<longrightarrow> (\<exists>c hi n'. tp_XferResumeByTicket T tB tid secret shard n = (Inr (c, hi, []), n') \<and> held n' = held n \<and> whole n')) \<and>
     (\<forall>n i p. whole n \<and> held n (unat i) = Some p \<longrightarrow>
        (\<exists>n'. tp_XferGetByTicket T tB tid i secret shard n = (Inr (p, p_sha256 P p), n') \<and> held n' = held n \<and> whole n'))"

lemma keeps_sizes: "keeps_transfer P T tA tB held whole tid secret shard \<Longrightarrow> length tid = 16 \<and> length secret = 32 \<and> shard \<noteq> []"
  by (simp add: keeps_transfer_def)

lemma keeps_create:
  assumes "keeps_transfer P T tA tB held whole tid secret shard"
  obtains ex n' where "tp_XferCreate T tA c n = (Inr \<lparr>xcd_TransferID = tid, xcd_Expires = ex, xcd_DownloadSecret = secret, xcd_ShardURL = shard\<rparr>, n')"
  using assms unfolding keeps_transfer_def by blast

lemma keeps_put:
  assumes "keeps_transfer P T tA tB held whole tid secret shard" "xpt_TransferID x = tid"
  obtains k n' where "tp_XferPut T tA x n = (Inr k, n')" "held n' = (held n)(unat (xpt_Index x) \<mapsto> xpt_Payload x)"
  using assms unfolding keeps_transfer_def by blast

lemma keeps_complete:
  assumes "keeps_transfer P T tA tB held whole tid secret shard"
  obtains n' where "tp_XferComplete T tA tid h n = (Inr (), n')" "held n' = held n" "whole n'"
  using assms unfolding keeps_transfer_def by blast

lemma keeps_resume:
  assumes "keeps_transfer P T tA tB held whole tid secret shard" "whole n"
  obtains c hi n' where "tp_XferResumeByTicket T tB tid secret shard n = (Inr (c, hi, []), n')" "held n' = held n" "whole n'"
  using assms unfolding keeps_transfer_def by blast

lemma keeps_get:
  assumes "keeps_transfer P T tA tB held whole tid secret shard" "whole n" "held n (unat i) = Some p"
  obtains n' where "tp_XferGetByTicket T tB tid i secret shard n = (Inr (p, p_sha256 P p), n')" "held n' = held n" "whole n'"
  using assms unfolding keeps_transfer_def by blast

lemma put_chunks_held:
  assumes "keeps_transfer P T tA tB held whole tid secret shard" "i + length cs \<le> 2 ^ 32"
  shows "\<exists>n'. put_chunks P T tA tid sz i cs d = (Inr (), d\<lparr>op_net := n'\<rparr>) \<and>
     (\<forall>j. held n' j = (if i \<le> j \<and> j < i + length cs then Some (cs ! (j - i)) else held (op_net d) j))"
  using assms(2)
proof (induction cs arbitrary: i d)
  case Nil
  show ?case by (intro exI [of _ "op_net d"]) auto
next
  case (Cons c cs)
  let ?x = "\<lparr>xpt_TransferID = tid, xpt_Index = word_of_nat i, xpt_Payload = c, xpt_Hash = p_sha256 P c, xpt_Offset = word_of_nat i * sz\<rparr>"
  have i: "unat (word_of_nat i :: 32 word) = i" using Cons.prems by (simp add: unat_of_nat take_bit_nat_eq_self)
  obtain k n1 where put: "tp_XferPut T tA ?x (op_net d) = (Inr k, n1)" and "held n1 = (held (op_net d))(unat (xpt_Index ?x) \<mapsto> xpt_Payload ?x)"
    by (rule keeps_put [OF assms(1), of ?x "op_net d"]) simp_all
  then have h1: "held n1 = (held (op_net d))(i \<mapsto> c)" using i by simp
  obtain n' where rest: "put_chunks P T tA tid sz (Suc i) cs (d\<lparr>op_net := n1\<rparr>) = (Inr (), d\<lparr>op_net := n'\<rparr>)"
    and h: "\<forall>j. held n' j = (if Suc i \<le> j \<and> j < Suc i + length cs then Some (cs ! (j - Suc i)) else held n1 j)"
    using Cons.IH [of "Suc i" "d\<lparr>op_net := n1\<rparr>"] Cons.prems by auto
  have "held n' j = (if i \<le> j \<and> j < i + length (c # cs) then Some ((c # cs) ! (j - i)) else held (op_net d) j)" for j
    using h h1 by (cases "j = i") (auto simp: nth_Cons' Suc_diff_Suc)
  then show ?case using rest put by (intro exI [of _ n']) (simp add: on_net_def)
qed

lemma get_chunks_held:
  assumes "keeps_transfer P T tA tB held whole tid secret shard" "i + length cs \<le> 2 ^ 32"
    and "whole (op_net d)" "\<forall>j < length cs. held (op_net d) (i + j) = Some (cs ! j)"
  shows "\<exists>n'. get_chunks P T tB tid (ByTicket secret shard) i (length cs) d = (Inr cs, d\<lparr>op_net := n'\<rparr>)"
  using assms(2-4)
proof (induction cs arbitrary: i d)
  case Nil
  show ?case by (intro exI [of _ "op_net d"]) simp
next
  case (Cons c cs)
  have i: "unat (word_of_nat i :: 32 word) = i" using Cons.prems(1) by (simp add: unat_of_nat take_bit_nat_eq_self)
  have c: "held (op_net d) i = Some c" using Cons.prems(3) [rule_format, of 0] by simp
  obtain n1 where get: "tp_XferGetByTicket T tB tid (word_of_nat i) secret shard (op_net d) = (Inr (c, p_sha256 P c), n1)"
    and h1: "held n1 = held (op_net d)" "whole n1"
    by (rule keeps_get [OF assms(1) Cons.prems(2), of "word_of_nat i" c]) (simp_all add: i c)
  have "held n1 (Suc i + j) = Some (cs ! j)" if "j < length cs" for j
    using Cons.prems(3) [rule_format, of "Suc j"] that h1(1) by simp
  then obtain n' where "get_chunks P T tB tid (ByTicket secret shard) (Suc i) (length cs) (d\<lparr>op_net := n1\<rparr>) = (Inr cs, d\<lparr>op_net := n'\<rparr>)"
    using Cons.IH [of "Suc i" "d\<lparr>op_net := n1\<rparr>"] Cons.prems(1) h1(2) by auto
  then show ?case
    using on_net_eq [of "tp_XferGetByTicket T tB tid (word_of_nat i) secret shard" d, OF get] by auto
qed

lemma sint_of_small:
  fixes w :: "64 word"
  assumes "unat w < 2 ^ 32"
  shows "nat (sint w) = unat w"
proof -
  have "int (unat w) < int (2 ^ 32)" using assms by (simp only: of_nat_less_iff)
  then have "uint w < 2 ^ 32" by simp
  moreover have "- (2 ^ 63) \<le> uint w" by (rule order_trans [OF _ uint_ge_0]) simp
  ultimately have "signed_take_bit 63 (uint w) = uint w" by (intro signed_take_bit_int_eq_self) simp_all
  then show ?thesis by (simp add: sint_uint)
qed

lemma upload_kept:
  assumes keep: "keeps_transfer P T tA tB held whole tid secret shard" and "np_law P"
    and mf: "manifest_fits (fo_manifest out)" "sint (mf_ChunkCount (fo_manifest out)) = int (length (fo_chunks out))"
  shows "\<exists>sent d'. upload P T tA identity sh pub mbox out d = (Inr sent, d') \<and> whole (op_net d') \<and>
     (\<forall>j < length (fo_chunks out). held (op_net d') j = Some (fo_chunks out ! j)) \<and>
     read_ticket P (xs_ticket sent) = Inr \<lparr>tk_Transfer = tid, tk_Secret = secret, tk_Shard = shard,
       tk_Manifest = Manifest_Bytes P (fo_manifest out), tk_From = identity\<rparr> \<and> xs_ticket sent \<noteq> []"
proof -
  let ?mf = "fo_manifest out"
  let ?t = "\<lparr>tk_Transfer = tid, tk_Secret = secret, tk_Shard = shard, tk_Manifest = Manifest_Bytes P ?mf, tk_From = identity\<rparr>"
  let ?c = "\<lparr>xcr_Total = word_of_nat (length (fo_cipher out)), xcr_ChunkSize = ucast (mf_ChunkSize ?mf),
          xcr_ChunkCount = ucast (mf_ChunkCount ?mf), xcr_Manifest = Manifest_Bytes P ?mf, xcr_MailboxID = mbox,
          xcr_RecipientPub = pub, xcr_ShardURL = sh\<rparr>"
  obtain ex n1 where create: "tp_XferCreate T tA ?c (op_net d) =
      (Inr \<lparr>xcd_TransferID = tid, xcd_Expires = ex, xcd_DownloadSecret = secret, xcd_ShardURL = shard\<rparr>, n1)"
    by (rule keeps_create [OF keep])
  have few: "0 + length (fo_chunks out) \<le> 2 ^ 32"
    using mf sint_of_small [of "mf_ChunkCount ?mf"] unfolding manifest_fits_def by (metis add_0 nat_int order_less_imp_le)
  obtain n2 where put: "put_chunks P T tA tid (mf_ChunkSize ?mf) 0 (fo_chunks out) (d\<lparr>op_net := n1\<rparr>) = (Inr (), d\<lparr>op_net := n2\<rparr>)"
    and h2: "\<forall>j < length (fo_chunks out). held n2 j = Some (fo_chunks out ! j)"
    using put_chunks_held [OF keep few, of "mf_ChunkSize ?mf" "d\<lparr>op_net := n1\<rparr>"] by auto
  obtain n3 where seal: "tp_XferComplete T tA tid (p_sha256 P (fo_cipher out)) n2 = (Inr (), n3)" "held n3 = held n2" "whole n3"
    by (rule keeps_complete [OF keep])
  have "length (Manifest_fields ?mf) \<le> 11" by (simp add: Manifest_fields_def)
  then obtain b where "p_np_enc P (Manifest_fields ?mf) = Some b" "b \<noteq> []" by (rule np_enc_dec [OF assms(2)])
  then have "Manifest_Bytes P ?mf \<noteq> []" by (simp add: Manifest_Bytes_def)
  then have "ticket_ok P ?t"
    using keeps_sizes [OF keep] ParseManifest_Bytes [OF assms(2) mf(1)] by (simp add: ticket_ok_def)
  then obtain raw raw' where t: "MarshalTicket P ?t = Inr raw" "DecodeTicketString (EncodeTicketString raw) = Inr raw'" "ParseTicket P raw' = Inr ?t"
    using ticket_roundtrip [OF assms(2), of ?t] by blast
  have "length (Ticket_fields ?t) \<le> 11" by (simp add: Ticket_fields_def)
  then obtain b' where "p_np_enc P (Ticket_fields ?t) = Some b'" "b' \<noteq> []" by (rule np_enc_dec [OF assms(2)])
  then have "raw \<noteq> []" using t(1) by (auto simp: MarshalTicket_def split: if_splits)
  then have "EncodeTicketString raw \<noteq> []" by (metis EncodeTicketString_def b64_decode_encode b64_encode.simps(1) option.inject)
  then show ?thesis
    using create put seal h2 t
    by (simp add: upload_def Let_def read_ticket_def on_net_def)
qed

lemma file_in_touch:
  assumes "session_laws P" "sha_law P" "in_touch P rnd peer ca cb"
    and f: "pt \<noteq> []" "length pt \<le> MaxFilePlaintext" "n \<le> 65536"
    and small: "\<forall>w ca'. Client_Encrypt P rnd wr peer pt ca = (Inr w, ca') \<longrightarrow> length w < 2 ^ 32"
  obtains out ca' cb' where "EncryptFile P rnd wr peer name pt n ca = Some (Inr out, ca')" "manifest_fits (fo_manifest out)"
    "sint (mf_ChunkCount (fo_manifest out)) = int (length (fo_chunks out))"
    "ReassembleAndDecrypt P wr' (cl_Id ca) (fo_chunks out) (fo_manifest out) cb = (Inr pt, cb')"
proof -
  obtain c ca' cb' where enc: "Client_Encrypt P rnd wr peer pt ca = (Inr c, ca')"
    and dec: "Client_Decrypt P wr' c cb = (Inr (cl_Id ca, pt), cb')"
    by (rule in_touch_delivered [OF assms(1,3)])
  obtain cs m where out: "EncryptFile P rnd wr peer name pt n ca = Some (Inr \<lparr>fo_cipher = c, fo_chunks = cs, fo_manifest = m\<rparr>, ca')"
      and m: "manifest_fits m" "join_chunks 0 cs [] = Inr c" "sint (mf_ChunkCount m) = int (length cs)"
        "sint (mf_CipherSize m) = int (length c)" "sint (mf_PlainSize m) = int (length pt)"
        "mf_FileHash m = p_sha256 P pt" "mf_CipherHash m = p_sha256 P c"
    using EncryptFile_out [OF _ enc _ f assms(2), of name] small enc assms(1) unfolding session_laws_def by blast
  have "ReassembleAndDecrypt P wr' (cl_Id ca) cs m cb = (Inr pt, cb')"
    using m dec by (simp add: ReassembleAndDecrypt_def decryptFor_def)
  then show ?thesis using that [OF out] m by simp
qed

text \<open>The receiving side, from the ticket on.\<close>

definition by_ticket :: "string \<Rightarrow> string \<Rightarrow> string \<Rightarrow> string \<Rightarrow> recv_params" where
  "by_ticket transportID identity ticket out = \<lparr>rp_TransportID = transportID, rp_Identity = identity, rp_Peer = [], rp_TicketB64 = ticket,
     rp_TransferID = [], rp_MailboxID = [], rp_Secret = [], rp_ManifestB64 = [], rp_Out = out\<rparr>"

lemma recv_by_ticket:
  assumes "read_ticket P ticket = Inr \<lparr>tk_Transfer = tid, tk_Secret = secret, tk_Shard = shard, tk_Manifest = Manifest_Bytes P mf, tk_From = sender\<rparr>"
    and "ticket \<noteq> []" "length tid = 16" "length secret = 32" "shard \<noteq> []" "sender \<noteq> []" "out \<noteq> []" "ParseManifest P (Manifest_Bytes P mf) = Inr mf"
    and "session_identity d ident = Inr identity" "LoadClient identity (op_clients d) = Inr cl"
    and "file_transport P J (xi_mgr io) transportID d = (Inr tr, d1)"
  shows "XferRecv P J T io (by_ticket transportID ident ticket out) d = download P T io tr tid (ByTicket secret shard) sender mf cl d1"
proof -
  have "hex_encode secret \<noteq> []" using assms(4) by (metis length_hex_encode list.size(3) mult_is_0 zero_neq_numeral)
  then show ?thesis using assms
    by (simp add: XferRecv_def by_ticket_def recv_flags_of_def recv_authority_def hex_field_def SecretOr_def b64_decode_encode)
qed

lemma download_held:
  assumes keep: "keeps_transfer P T tA tB held whole tid secret shard" and "whole (op_net d)" "nat (sint (mf_ChunkCount mf)) = length cs"
    and "length cs \<le> 2 ^ 32" "\<forall>j < length cs. held (op_net d) j = Some (cs ! j)"
    and "ReassembleAndDecrypt P (xi_write io) peer cs mf cl = (Inr plain, cl')" "xi_out io"
  shows "\<exists>d'. download P T io tB tid (ByTicket secret shard) peer mf cl d = (Inr plain, d')"
proof -
  obtain c hi n1 where r: "tp_XferResumeByTicket T tB tid secret shard (op_net d) = (Inr (c, hi, []), n1)" "held n1 = held (op_net d)" "whole n1"
    by (rule keeps_resume [OF keep assms(2)])
  obtain n2 where "get_chunks P T tB tid (ByTicket secret shard) 0 (length cs) (d\<lparr>op_net := n1\<rparr>) = (Inr cs, d\<lparr>op_net := n2\<rparr>)"
    using get_chunks_held [OF keep, of 0 cs "d\<lparr>op_net := n1\<rparr>"] assms(4,5) r by auto
  then show ?thesis using r(1) assms(3,6,7) by (simp add: download_def on_net_def)
qed


subsection \<open>Two concrete users\<close>

text \<open>A relay that keeps frames and chunks, and two users who read their identity files and share it.\<close>

definition toy_relay :: "(bytes list \<times> (nat \<Rightarrow> bytes option)) FileTransports" where
  "toy_relay =
     \<lparr>tp_SendFrame = (\<lambda>_ f _ (fs, c). (Inr (), (fs @ [f], c))), tp_AttachMailbox = (\<lambda>_ _ _ _ _ n. (Inr (), n)),
      tp_PollFrames = (\<lambda>_ k _ (fs, c). (Inr (take (nat k) fs), (drop (nat k) fs, c))), tp_Status = (\<lambda>_ n. (Inr (True, []), n)),
      tp_XferCreate = (\<lambda>_ _ n. (Inr \<lparr>xcd_TransferID = replicate 16 5, xcd_Expires = 0, xcd_DownloadSecret = replicate 32 6, xcd_ShardURL = ''s''\<rparr>, n)),
      tp_XferPut = (\<lambda>_ x (fs, c). (Inr 0, (fs, c(unat (xpt_Index x) \<mapsto> xpt_Payload x)))),
      tp_XferResume = (\<lambda>_ _ _ _ n. (Inr (0, 0, []), n)), tp_XferGet = (\<lambda>_ _ _ _ _ n. (Inr ([], []), n)),
      tp_XferResumeByTicket = (\<lambda>_ _ _ _ n. (Inr (0, 0, []), n)),
      tp_XferGetByTicket = (\<lambda>_ _ i _ _ (fs, c). (case c (unat i) of None \<Rightarrow> Inr ([], []) | Some p \<Rightarrow> Inr (p, p_sha256 toy p), (fs, c))),
      tp_XferComplete = (\<lambda>_ _ _ n. (Inr (), n)), tp_XferCancel = (\<lambda>_ _ _ _ n. (Inr (), n)),
      tp_IdentityRegister = (\<lambda>_ _ n. (Inl RangesMalformed, n)), tp_XferRegister = (\<lambda>_ _ _ n. (Inl RangesMalformed, n)),
      tp_XferResolve = (\<lambda>_ _ _ n. (Inl RangesMalformed, n))\<rparr>"

definition toy_link :: live where
  "toy_link = \<lparr>lv_number = 0, lv_ID = ''relay'', lv_Capabilities = [''message'', ''binary-transfer''], lv_process = True, lv_image = [], lv_config = []\<rparr>"

definition toy_linked :: Manager where
  "toy_linked = \<lparr>mg_dir = [], mg_state = empty_state\<lparr>sf_Attach := [''relay'' \<mapsto> [\<lparr>at_MailboxID = replicate 32 CHR ''0'', at_ReadSecret = replicate 64 CHR ''0'',
     at_ShardURL = ''s'', at_RouterURL = [], at_Owner = []\<rparr>]]\<rparr>, mg_live = [''relay'' \<mapsto> toy_link], mg_spawned = 1, mg_running = {0}\<rparr>"

definition toy_bob_id :: string where "toy_bob_id = replicate 64 CHR ''0''"

definition toy_user :: "string \<Rightarrow> byte \<Rightarrow> string \<Rightarrow> SecurePeer \<Rightarrow> (bytes list \<times> (nat \<Rightarrow> bytes option)) ops" where
  "toy_user me b peer sp = \<lparr>op_TransportsDir = [], op_manager = Some toy_linked, op_disk = Map.empty,
     op_clients = [client_file me \<mapsto> Some \<lparr>sv_Id = me, sv_keys = toy_keys b, sv_Sessions = [(peer, sp)]\<rparr>],
     op_Session = Some NewSession, op_net = ([], Map.empty)\<rparr>"

definition toy_loaded :: "string \<Rightarrow> byte \<Rightarrow> string \<Rightarrow> SecurePeer \<Rightarrow> Client" where
  "toy_loaded me b peer sp = \<lparr>cl_Id = me, cl_keys = toy_keys b, Sessions = [(peer, 0)], cl_ephemeral = False,
     heap = [0 \<mapsto> sp], next_addr = 1, files = op_clients (toy_user me b peer sp)\<rparr>"

abbreviation "toy_ann \<equiv> toy_user ''alice'' 1 toy_bob_id toy_peer"
abbreviation "toy_ben \<equiv> toy_user toy_bob_id 2 ''alice'' (reload_peer toy_peer')"

lemma toy_loads: "LoadClient me (op_clients (toy_user me b peer sp)) = Inr (toy_loaded me b peer sp)"
  by (simp add: toy_user_def toy_loaded_def LoadClient_def)

lemma toy_keeps: "keeps_transfer toy toy_relay t t' snd (\<lambda>_. True) (replicate 16 5) (replicate 32 6) ''s''"
  by (auto simp: keeps_transfer_def toy_relay_def)

lemma toy_routes:
  "running_transport toy toy_codec io ''relay'' (toy_user me b peer sp) = (Inr toy_link, toy_user me b peer sp)"
  "file_transport toy toy_codec io ''relay'' (toy_user me b peer sp) = (Inr toy_link, toy_user me b peer sp)"
  by (simp_all add: file_transport_def running_transport_def Deps_Manager_def EnsureRunning_def toy_user_def toy_linked_def
      RequiresFile_def toy_link_def)

lemma toy_touch: "in_touch toy [] toy_bob_id (toy_loaded ''alice'' 1 toy_bob_id toy_peer) (toy_loaded toy_bob_id 2 ''alice'' (reload_peer toy_peer'))"
proof -
  let ?s = "(fresh_duplex toy_peer toy_peer')\<lparr>pB := reload_peer toy_peer'\<rparr>"
  have "duplex_step toy ''alice'' ''bob'' (fresh_duplex toy_peer toy_peer') ?s"
    using duplex_step.reload_B [of toy "''alice''" "''bob''" "fresh_duplex toy_peer toy_peer'"] by (simp add: fresh_duplex_def)
  then have "duplex_reach toy ''alice'' ''bob'' (fresh_duplex toy_peer toy_peer') ?s" by (rule duplex_reach.step [OF duplex_reach.start])
  then show ?thesis
    unfolding in_touch_def using toy_duplex toy_mirrored
    by (intro exI [of _ toy_peer] exI [of _ toy_peer'] exI [of _ "''bob''"] exI [of _ ?s] exI [of _ 0])
      (simp add: toy_loaded_def fresh_duplex_def)
qed

lemma toy_bob_resolves: "resolveRecipient toy toy_bob_id = Inr (replicate 32 0)"
proof -
  have "TrimSpace toy_bob_id = toy_bob_id" by code_simp
  moreover have "hex_decode toy_bob_id = Some (replicate 32 0)" by code_simp
  ultimately show ?thesis by (simp add: resolveRecipient_def) (simp add: toy_bob_id_def)
qed

definition toy_xfer :: xfer_io where
  "toy_xfer = \<lparr>xi_rnd = [], xi_write = NotWritten, xi_save = NotWritten, xi_mgr = toy_outcome, xi_prompt = None, xi_out = True\<rparr>"


end
