(* ===== verification/MessageProps.thy ===== *)
theory MessageProps
  imports OpsProps
begin

text \<open>
  Messages between two users of the transports: what is sent is in the mailbox of the other user after a poll, an offer
  is answered through the same transport, and which mailboxes a poll visits.
\<close>

lemma running_transport_clients:
  "running_transport P J io i (d\<lparr>op_clients := c\<rparr>) = apsnd (\<lambda>x. x\<lparr>op_clients := c\<rparr>) (running_transport P J io i d)"
  by (auto simp: running_transport_def Deps_Manager_def split: prod.splits sum.splits option.splits)

lemma choose_route_clients: "choose_route (d\<lparr>op_clients := c\<rparr>) = choose_route d"
  by (simp add: fun_eq_iff choose_route_def known_route_def peerAddrFor_def)

lemma SaveClient_keys [simp]: "cl_keys (SaveClient wr c) = cl_keys c" "cl_Id (SaveClient wr c) = cl_Id c"
  by (simp_all add: SaveClient_def split: write_result.splits)

lemma Client_Encrypt_keys: "Client_Encrypt P rnd wr peer pt c = (r, c') \<Longrightarrow> cl_keys c' = cl_keys c"
  by (auto simp: Client_Encrypt_def split: option.splits sum.splits prod.splits)

lemma OpenDeps_client:
  "OpenDeps P K nd JM JC JP JD iom io2 iod cl fs = OnFiles dp \<Longrightarrow> dp_Client dp = cl"
  by (auto simp: OpenDeps_def Let_def split: prod.splits sum.splits)

lemma open_deps_client: "open_deps P K io cl = OnFiles dp \<Longrightarrow> dp_Client dp = cl"
  by (auto simp: open_deps_def dest: OpenDeps_client split: prod.splits)

text \<open>A message that decrypts causes no reply, so the transport is not used.\<close>

lemma dispatch_message:
  assumes dec: "Client_Decrypt P (fi_write io) w (dp_Client dp) = (Inr (sender, pt), c')"
    and box: "dp_Mailbox dp = Some box" and "w \<noteq> []"
  shows "\<exists>ev err dp' box'. dispatch_one P K J S T tr route io (WrapEnvelope TypeMessage w) dp n = (((Some ev, err), dp'), n) \<and>
     dp_Mailbox dp' = Some box' \<and> (\<forall>e. err = Some e \<longrightarrow> (\<exists>m. e = StoreIncoming m)) \<and>
     ev_Type ev = ''message'' \<and> ev_Sender ev = sender \<and> ev_Message ev = fst (body_text pt) \<and>
     (\<forall>k. thread_messages box' k = thread_messages box k @
        (if k = sender then [appendDefaults (fi_clock io) (new_message Incoming Direct (fst (body_text pt)))] else []))"
proof -
  let ?io = "io\<lparr>fi_reply := Some True\<rparr>"
  have dec': "Client_Decrypt P (fi_write ?io) w (dp_Client dp) = (Inr (sender, pt), c')" using dec by simp
  obtain ev err dp' box' where h: "handleMessage P K ?io w dp = ((Some ev, err), dp')" "dp_Mailbox dp' = Some box'"
      "ev_Type ev = ''message''" "ev_Sender ev = sender" "(ev_Message ev, ev_Encoding ev) = body_text pt"
      "\<forall>k. thread_messages box' k = thread_messages box k @
        (if k = sender then [appendDefaults (fi_clock ?io) (new_message Incoming Direct (fst (body_text pt)))] else [])"
    using handleMessage_stores [OF dec' box, of K] by blast
  have err: "\<forall>e. err = Some e \<longrightarrow> (\<exists>m. e = StoreIncoming m)" and sent: "dp_sent dp' = dp_sent dp"
    using h(1) dec box by (auto simp: handleMessage_def Let_def split: prod.splits option.splits)
  have run: "DispatchFrame P K J S ?io (WrapEnvelope TypeMessage w) dp = ((Some ev, err), dp')"
    using Frame_Unwrap_Wrap [OF assms(3), of TypeMessage] h(1) by (simp add: DispatchFrame_def)
  have "ev_Message ev = fst (body_text pt)" using h(5) by (metis fst_conv)
  then show ?thesis using run sent h err by (simp add: dispatch_one_def)
qed

subsection \<open>A message from end to end\<close>

text \<open>The transports of two users carry a frame from the route of the one to the mailbox of the other.\<close>

definition carries ::
  "('t, 'x) Transports_scheme \<Rightarrow> live \<Rightarrow> RouteHint \<Rightarrow> 't \<Rightarrow> live \<Rightarrow> Attachment \<Rightarrow> int \<Rightarrow> bool" where
  "carries T tA hint n tB a limit \<longleftrightarrow>
     (\<forall>f. \<exists>n1 n2 n3. tp_SendFrame T tA f hint n = (Inr (), n1) \<and>
        tp_AttachMailbox T tB (hex_prefix (at_MailboxID a)) (hex_prefix (at_ReadSecret a)) (at_ShardURL a) (at_RouterURL a) n1 = (Inr (), n2) \<and>
        tp_PollFrames T tB (poll_count limit) (hex_prefix (at_MailboxID a)) n2 = (Inr [f], n3))"

lemma op_net_remember [simp]: "op_net (remember p d) = op_net d"
  by (simp add: remember_def)

lemma message_sent:
  assumes A: "session_relay dA viaA = Inr via" "session_identity dA identA = Inr idA" "LoadClient idA (op_clients dA) = Inr ca"
      "resolveRecipient P peer = Inr pub" "choose_route dA (k_idPub (cl_keys ca)) pub mailboxID shardURL = Inr hint"
      "running_transport P J (sio_mgr io) via dA = (Inr tA, dA1)" "text \<noteq> []"
    and enc: "Client_Encrypt P (sio_rnd io) (sio_write io) peer (to_bytes text) ca = (Inr w, ca')"
    and send: "tp_SendFrame T tA (WrapEnvelope TypeMessage w) hint (op_net dA) = (Inr (), n)"
  shows "\<exists>dA'. MessageSend P J T io viaA identA peer text [] mailboxID shardURL dA = (Inr (), dA') \<and> op_net dA' = n"
proof -
  have "k_idPub (cl_keys (SaveClient (sio_save io) ca')) = k_idPub (cl_keys ca)" using Client_Encrypt_keys [OF enc] by simp
  then show ?thesis using A enc send running_transport_keeps(3) [OF A(6)]
    by (simp add: MessageSend_def deliver_frame_def running_transport_clients choose_route_clients on_net_def)
qed

lemma poll_single:
  assumes "tp_AttachMailbox T tr (hex_prefix (at_MailboxID a)) (hex_prefix (at_ReadSecret a)) (at_ShardURL a) (at_RouterURL a) (op_net d) = (Inr (), n2)"
    and "tp_PollFrames T tr (poll_count limit) (hex_prefix (at_MailboxID a)) n2 = (Inr [f], n3)"
    and "dispatch_one P K J S T tr (known_route d (k_idPub (cl_keys (dp_Client dp)))) (ios a 0) f dp n3 = ((r, dp'), n4)"
  shows "\<exists>d'. poll_run P K J S T tr ios wr limit [a] dp d =
     (map Dispatched (batch_entry r), dp'\<lparr>dp_Client := SaveClient wr (dp_Client dp')\<rparr>, d')"
  using assms by (simp add: poll_run_def poll_one_def Let_def)


definition toy_send :: send_io where
  "toy_send = \<lparr>sio_rnd = [], sio_coins = toy_coins 3, sio_offer = [9], sio_write = NotWritten, sio_save = NotWritten, sio_mgr = toy_outcome\<rparr>"

definition toy_poll :: poll_io where
  "toy_poll = \<lparr>pi_mgr = toy_outcome, pi_frames = (\<lambda>_ _. toy_io None), pi_save = NotWritten, pi_store = Map.empty, pi_mkdir = True,
     pi_threads = (\<lambda>_. None), pi_contexts = (\<lambda>_. None), pi_policies = (\<lambda>_. None), pi_deliveries = (\<lambda>_. None),
     pi_writes = (SaveDone, (SaveWriteFails None, SaveDone), SaveDone)\<rparr>"

abbreviation "toy_attached \<equiv> \<lparr>at_MailboxID = replicate 32 CHR ''0'', at_ReadSecret = replicate 64 CHR ''0'', at_ShardURL = ''s'', at_RouterURL = [], at_Owner = []\<rparr>"

lemma toy_opens: "\<exists>dp. open_deps toy toy_packets toy_poll cl = OnFiles dp \<and> dp_Mailbox dp = Some []"
  by (simp add: open_deps_def toy_poll_def OpenDeps_def Mailbox_Load_def Binstore_Load_def OpenIdentityStores_def NewFileContextStore_def
      FileContext_load_def load_or_missing_def NewFileDeliveryStore_def legacy_values_def
      FileContext_saveLocked_def load_contexts_def Binstore_Save_def Let_def)

lemma toy_carries: "carries toy_relay tA hint ([], c) tB a limit"
  by (auto simp: carries_def toy_relay_def poll_count_def)


subsection \<open>Which mailboxes are polled\<close>

text \<open>
  A poll visits its own mailboxes, those of the identity and those of nobody, if there is one; if all belong to
  others, it visits all of them.
\<close>

lemma poll_scope:
  assumes "poll_targets ident [] atts = Inr as"
  shows "as = filter (\<lambda>a. at_Owner a = [] \<or> at_Owner a = ident) atts \<or>
     as = atts \<and> atts \<noteq> [] \<and> (\<forall>a\<in>set atts. at_Owner a \<noteq> [] \<and> at_Owner a \<noteq> ident)"
proof (cases "filter (\<lambda>a. at_Owner a = [] \<or> at_Owner a = ident) atts = []")
  case True
  then show ?thesis using assms by (auto simp: poll_targets_def own_mailboxes_def Let_def filter_empty_conv split: if_splits)
next
  case False
  have "\<not> list_ex (\<lambda>a. at_Owner a \<noteq> []) atts \<Longrightarrow> filter (\<lambda>a. at_Owner a = [] \<or> at_Owner a = ident) atts = atts"
    by (auto simp: list_ex_iff intro: filter_True)
  then show ?thesis using False assms by (auto simp: poll_targets_def own_mailboxes_def Let_def split: if_splits)
qed

lemma others_drained:
  assumes "atts \<noteq> []" "\<forall>a\<in>set atts. at_Owner a \<noteq> [] \<and> at_Owner a \<noteq> ident"
  shows "poll_targets ident [] atts = Inr atts"
proof -
  have "filter (\<lambda>a. at_Owner a = [] \<or> at_Owner a = ident) atts = []" using assms(2) by (auto simp: filter_empty_conv)
  then show ?thesis using assms(1) by (simp add: poll_targets_def own_mailboxes_def)
qed

text \<open>
  A recipient that cannot be resolved, or a bad mailbox, is noticed only after the message was encrypted and the ratchet
  saved, so the message is lost to the session although nothing was sent.
\<close>

lemma ratchet_spent_unsent:
  assumes "session_relay d viaA = Inr via" "session_identity d identA = Inr idA" "LoadClient idA (op_clients d) = Inr ca" "text \<noteq> []"
    and "Client_Encrypt P (sio_rnd io) (sio_write io) peer (to_bytes text) ca = (Inr w, ca')"
    and "resolveRecipient P peer = Inl e"
  shows "MessageSend P J T io viaA identA peer text [] mailboxID shardURL d =
     (Inl e, d\<lparr>op_clients := files (SaveClient (sio_save io) ca')\<rparr>)"
  using assms by (simp add: MessageSend_def deliver_frame_def Let_def)

end
