(* ===== verification/WorkerRelay.thy ===== *)
theory WorkerRelay
  imports Frames Toy "HOL-Library.Sublist"
begin

text \<open>
  The client of the worker relay (\<^verbatim>\<open>src/internal/relay/worker/adapter.go\<close>): a router is asked where mailboxes live, its
  answers are cached, and messages go to and come from the shards, trying the replicas in turn.  What the network
  answers may depend on everything asked before; the state keeps the list of the requests made.  Decoding JSON is a
  parameter, the clock an argument.
\<close>

subsection \<open>Requests and answers\<close>

record MailboxCapability =
  mc_mailbox :: string
  mc_secret :: string
  mc_shard :: string
  mc_replicas :: "string list"
  mc_expires :: int
  mc_version :: int

record PeerResolution =
  pr_mailbox :: string
  pr_shard :: string
  pr_replicas :: "string list"
  pr_version :: int

record ShardIdentity =
  si_URL :: string
  si_Pubkey :: string

record RoutingTable =
  rt_Version :: int
  rt_GeneratedAt :: int
  rt_ExpiresAt :: int
  rt_Algorithm :: string
  rt_ShardURLs :: "string list"
  rt_Shards :: "ShardIdentity list"
  rt_ReplicationFactor :: int
  rt_PriorShardCounts :: "int list"
  rt_RouterPublicKey :: string
  rt_Signature :: string

datatype relay_request =
    GetTable string
  | PostRegister string string string string
  | GetResolve string string
  | PostSend string string string SenderAuth
  | GetRead string string string

text \<open>No answer, with the text of the error, or one with its status, content type and body.\<close>

datatype http_answer = NoAnswer string | HttpAnswer nat string bytes

record relay_json =
  rj_error :: "bytes \<Rightarrow> string option"
  rj_table :: "bytes \<Rightarrow> RoutingTable option"
  rj_capability :: "bytes \<Rightarrow> MailboxCapability option"
  rj_resolution :: "bytes \<Rightarrow> PeerResolution option"
  rj_success :: "bytes \<Rightarrow> bool option"
  rj_messages :: "bytes \<Rightarrow> string list option"

text \<open>The client of a router with the requests it has made.\<close>

record RouterClient =
  rc_routerURL :: string
  rc_table :: "RoutingTable option"
  rc_capabilities :: "string \<rightharpoonup> MailboxCapability"
  rc_resolutions :: "string \<rightharpoonup> PeerResolution"
  rc_log :: "relay_request list"

type_synonym relay_network = "relay_request list \<Rightarrow> relay_request \<Rightarrow> http_answer"

definition ask :: "relay_network \<Rightarrow> relay_request \<Rightarrow> RouterClient \<Rightarrow> http_answer \<times> RouterClient" where
  "ask net q rc = (net (rc_log rc) q, rc\<lparr>rc_log := rc_log rc @ [q]\<rparr>)"

datatype http_error =
    RequestFailed string string
  | ApiStatus nat
  | ApiError nat string
  | ApiSnippet nat string bool
  | BadJson nat string
  | ShardRejected string
  | AllShardsFailed nat "http_error option"
  | ReceiveFailed "http_error option"

text \<open>At most 201 bytes of the body are looked at.\<close>

definition readAPIError :: "relay_json \<Rightarrow> nat \<Rightarrow> bytes \<Rightarrow> http_error" where
  "readAPIError J status body =
     (let raw = take 201 body in
      case (case rj_error J raw of None \<Rightarrow> [] | Some m \<Rightarrow> m) of
        c # cs \<Rightarrow> ApiError status (c # cs)
      | [] \<Rightarrow>
          if raw \<noteq> [] then ApiSnippet status (to_str (take 200 raw)) (length raw > 200) else ApiStatus status)"

text \<open>Whether the text of an error contains the phrase a shard answers for an unknown mailbox.\<close>

fun says_not_found :: "http_error \<Rightarrow> bool" where
  "says_not_found (RequestFailed target text) = (sublist ''Mailbox not found'' target \<or> sublist ''Mailbox not found'' text)"
| "says_not_found (ApiStatus _) = False"
| "says_not_found (ApiError _ m) = sublist ''Mailbox not found'' m"
| "says_not_found (ApiSnippet _ m _) = sublist ''Mailbox not found'' m"
| "says_not_found (BadJson _ ctype) = sublist ''Mailbox not found'' ctype"
| "says_not_found (ShardRejected u) = sublist ''Mailbox not found'' u"
| "says_not_found (AllShardsFailed _ e) = (case e of None \<Rightarrow> False | Some e \<Rightarrow> says_not_found e)"
| "says_not_found (ReceiveFailed e) = (case e of None \<Rightarrow> False | Some e \<Rightarrow> says_not_found e)"

definition TrimRight_slash :: "string \<Rightarrow> string" where
  "TrimRight_slash s = rev (dropWhile (\<lambda>c. c = CHR ''/'') (rev s))"

subsection \<open>The router\<close>

definition NewRouterClient :: "string \<Rightarrow> RouterClient" where
  "NewRouterClient routerURL =
     \<lparr>rc_routerURL = TrimRight_slash routerURL, rc_table = None, rc_capabilities = Map.empty, rc_resolutions = Map.empty, rc_log = []\<rparr>"

definition Expired :: "int \<Rightarrow> RoutingTable option \<Rightarrow> bool" where
  "Expired now t = (case t of None \<Rightarrow> True | Some t \<Rightarrow> now > rt_ExpiresAt t)"

definition fetchRoutingTableFrom ::
  "relay_network \<Rightarrow> relay_json \<Rightarrow> string \<Rightarrow> RouterClient \<Rightarrow> (http_error + RoutingTable) \<times> RouterClient" where
  "fetchRoutingTableFrom net J target rc =
     (case ask net (GetTable target) rc of
        (NoAnswer e, rc') \<Rightarrow> (Inl (RequestFailed target e), rc')
      | (HttpAnswer status ctype body, rc') \<Rightarrow>
          (if status \<noteq> 200 then Inl (ApiStatus status)
           else (case rj_table J body of None \<Rightarrow> Inl (BadJson status []) | Some t \<Rightarrow> Inr t), rc'))"

fun table_from_shards ::
  "relay_network \<Rightarrow> relay_json \<Rightarrow> string list \<Rightarrow> RouterClient \<Rightarrow> RoutingTable option \<times> RouterClient" where
  "table_from_shards net J [] rc = (None, rc)"
| "table_from_shards net J (u # us) rc =
     (case fetchRoutingTableFrom net J (TrimRight_slash u @ ''/routing_table.json'') rc of
        (Inl _, rc') \<Rightarrow> table_from_shards net J us rc'
      | (Inr t, rc') \<Rightarrow> (Some t, rc'\<lparr>rc_table := Some t\<rparr>))"

text \<open>A table that has not expired is used as it is; else the known shards are asked, then the router, then the old one is kept.\<close>

definition RoutingTable_get :: "relay_network \<Rightarrow> relay_json \<Rightarrow> int \<Rightarrow> RouterClient \<Rightarrow> (http_error + RoutingTable) \<times> RouterClient" where
  "RoutingTable_get net J now rc =
     (case rc_table rc of
        Some cached \<Rightarrow>
          if \<not> Expired now (Some cached) then (Inr cached, rc)
          else (case table_from_shards net J (rt_ShardURLs cached) rc of
                  (Some t, rc1) \<Rightarrow> (Inr t, rc1)
                | (None, rc1) \<Rightarrow>
                    (case fetchRoutingTableFrom net J (rc_routerURL rc1 @ ''/routing_table.json'') rc1 of
                       (Inl _, rc2) \<Rightarrow> (Inr cached, rc2)
                     | (Inr t, rc2) \<Rightarrow> (Inr t, rc2\<lparr>rc_table := Some t\<rparr>)))
      | None \<Rightarrow>
          (case fetchRoutingTableFrom net J (rc_routerURL rc @ ''/routing_table.json'') rc of
             (Inl e, rc2) \<Rightarrow> (Inl e, rc2)
           | (Inr t, rc2) \<Rightarrow> (Inr t, rc2\<lparr>rc_table := Some t\<rparr>)))"

text \<open>The bytes checked are those of the whole table, \<open>marshal table\<close>, its signature included.\<close>

definition verifyRoutingTableSignature :: "prims \<Rightarrow> (RoutingTable \<Rightarrow> bytes) \<Rightarrow> RoutingTable \<Rightarrow> string \<Rightarrow> string \<Rightarrow> bool" where
  "verifyRoutingTableSignature P marshal table routerPubkeyHex signatureHex =
     (case hex_decode routerPubkeyHex of
        None \<Rightarrow> False
      | Some pub \<Rightarrow>
          length pub = 32 \<and>
          (case hex_decode signatureHex of None \<Rightarrow> False | Some sig \<Rightarrow> p_ed_verify P pub (marshal table) sig))"

definition signPubkeyTimestamp :: "prims \<Rightarrow> int \<Rightarrow> bytes \<Rightarrow> string \<Rightarrow> string \<times> string \<times> string" where
  "signPubkeyTimestamp P now priv action =
     (let pubkeyHex = hex_encode (p_ed_pub P priv); timestamp = dec_int now in
      (pubkeyHex, timestamp, hex_encode (p_ed_sign P priv (to_bytes (action @ '':'' @ pubkeyHex @ '':'' @ timestamp)))))"

definition decoded :: "relay_json \<Rightarrow> (bytes \<Rightarrow> 'a option) \<Rightarrow> string \<Rightarrow> http_answer \<Rightarrow> http_error + 'a" where
  "decoded J dec target a =
     (case a of
        NoAnswer e \<Rightarrow> Inl (RequestFailed target e)
      | HttpAnswer status ctype body \<Rightarrow>
          if status \<noteq> 200 then Inl (readAPIError J status body)
          else (case dec body of None \<Rightarrow> Inl (BadJson status ctype) | Some x \<Rightarrow> Inr x))"

definition Router_Register ::
  "prims \<Rightarrow> relay_network \<Rightarrow> relay_json \<Rightarrow> int \<Rightarrow> bytes \<Rightarrow> RouterClient \<Rightarrow> (http_error + MailboxCapability) \<times> RouterClient" where
  "Router_Register P net J now priv rc =
     (let (pubkeyHex, timestamp, sig) = signPubkeyTimestamp P now priv ''register'';
          fetch = (case ask net (PostRegister (rc_routerURL rc @ ''/register'') pubkeyHex timestamp sig) rc of
            (a, rc1) \<Rightarrow>
              (case decoded J (rj_capability J) [] a of
                 Inl e \<Rightarrow> (Inl e, rc1)
               | Inr cap \<Rightarrow> (Inr cap, rc1\<lparr>rc_capabilities := (rc_capabilities rc1)(pubkeyHex \<mapsto> cap)\<rparr>))) in
      case rc_capabilities rc pubkeyHex of
        Some cached \<Rightarrow> if now < mc_expires cached then (Inr cached, rc) else fetch
      | None \<Rightarrow> fetch)"

definition Router_Resolve ::
  "relay_network \<Rightarrow> relay_json \<Rightarrow> string \<Rightarrow> RouterClient \<Rightarrow> (http_error + PeerResolution) \<times> RouterClient" where
  "Router_Resolve net J peer rc =
     (let peer = ToLower peer in
      case rc_resolutions rc peer of
        Some cached \<Rightarrow> (Inr cached, rc)
      | None \<Rightarrow>
          (case ask net (GetResolve (rc_routerURL rc @ ''/resolve'') peer) rc of
             (a, rc1) \<Rightarrow>
               (case decoded J (rj_resolution J) [] a of
                  Inl e \<Rightarrow> (Inl e, rc1)
                | Inr res \<Rightarrow> (Inr res, rc1\<lparr>rc_resolutions := (rc_resolutions rc1)(peer \<mapsto> res)\<rparr>))))"

definition ForgetResolution :: "string \<Rightarrow> RouterClient \<Rightarrow> RouterClient" where
  "ForgetResolution peer rc = rc\<lparr>rc_resolutions := (rc_resolutions rc)(ToLower peer := None)\<rparr>"

subsection \<open>The shards\<close>

definition Adapter_New :: "string \<Rightarrow> RouterClient option" where
  "Adapter_New routerURL = (if routerURL = [] then None else Some (NewRouterClient routerURL))"

definition Adapter_Register ::
  "prims \<Rightarrow> relay_network \<Rightarrow> relay_json \<Rightarrow> int \<Rightarrow> bytes \<Rightarrow> RouterClient \<Rightarrow> (http_error + string) \<times> RouterClient" where
  "Adapter_Register P net J now priv rc =
     (case Router_Register P net J now priv rc of
        (Inl e, rc') \<Rightarrow> (Inl e, rc')
      | (Inr _, rc') \<Rightarrow> (Inr (hex_encode (p_ed_pub P priv)), rc'))"

definition send_request :: "prims \<Rightarrow> int \<Rightarrow> bytes \<Rightarrow> string \<Rightarrow> bytes \<Rightarrow> string \<Rightarrow> relay_request" where
  "send_request P now priv mailbox payload shardURL =
     (let message = b64_encode payload in
      PostSend (TrimRight_slash shardURL @ ''/send'') (ToLower mailbox) message (BuildSenderAuth P now priv mailbox (to_bytes message)))"

definition sendToShard ::
  "prims \<Rightarrow> relay_network \<Rightarrow> relay_json \<Rightarrow> int \<Rightarrow> bytes \<Rightarrow> string \<Rightarrow> bytes \<Rightarrow> string \<Rightarrow> RouterClient \<Rightarrow> http_error option \<times> RouterClient" where
  "sendToShard P net J now priv mailbox payload shardURL rc =
     (case ask net (send_request P now priv mailbox payload shardURL) rc of
        (a, rc') \<Rightarrow>
          (case decoded J (rj_success J) shardURL a of
             Inl e \<Rightarrow> Some e
           | Inr ok \<Rightarrow> if ok then None else Some (ShardRejected shardURL), rc'))"

fun distinct_urls :: "string list \<Rightarrow> string list \<Rightarrow> string list" where
  "distinct_urls seen [] = []"
| "distinct_urls seen (u # us) = (if u = [] \<or> u \<in> set seen then distinct_urls seen us else u # distinct_urls (u # seen) us)"

definition candidateShardURLs :: "string \<Rightarrow> string list \<Rightarrow> string list" where
  "candidateShardURLs primary replicas = primary # distinct_urls [primary] replicas"

fun try_shards ::
  "prims \<Rightarrow> relay_network \<Rightarrow> relay_json \<Rightarrow> int \<Rightarrow> bytes \<Rightarrow> string \<Rightarrow> bytes \<Rightarrow> string list \<Rightarrow> http_error option \<Rightarrow> bool \<Rightarrow> RouterClient \<Rightarrow>
   (http_error option \<times> bool) option \<times> RouterClient" where
  "try_shards P net J now priv mailbox payload [] lastErr allNotFound rc = (Some (lastErr, allNotFound), rc)"
| "try_shards P net J now priv mailbox payload (u # us) lastErr allNotFound rc =
     (case sendToShard P net J now priv mailbox payload u rc of
        (None, rc') \<Rightarrow> (None, rc')
      | (Some e, rc') \<Rightarrow> try_shards P net J now priv mailbox payload us (Some e) (allNotFound \<and> says_not_found e) rc')"

definition SendToPubkey ::
  "prims \<Rightarrow> relay_network \<Rightarrow> relay_json \<Rightarrow> int \<Rightarrow> bytes \<Rightarrow> bytes \<Rightarrow> bytes \<Rightarrow> RouterClient \<Rightarrow> (http_error + unit) \<times> RouterClient" where
  "SendToPubkey P net J now recipient payload priv rc =
     (let peer = hex_encode recipient in
      case Router_Resolve net J peer rc of
        (Inl e, rc1) \<Rightarrow> (Inl e, rc1)
      | (Inr res, rc1) \<Rightarrow>
          let candidates = candidateShardURLs (pr_shard res) (pr_replicas res) in
          (case try_shards P net J now priv (pr_mailbox res) payload candidates None True rc1 of
             (None, rc2) \<Rightarrow> (Inr (), rc2)
           | (Some (e, allNotFound), rc2) \<Rightarrow>
               (Inl (AllShardsFailed (length candidates) e), if allNotFound then ForgetResolution peer rc2 else rc2)))"

definition SendDirect where
  "SendDirect P net J now shardURL mailbox payload priv rc = sendToShard P net J now priv mailbox payload shardURL rc"

definition Adapter_Send where
  "Adapter_Send P net J now recipient payload priv rc = SendToPubkey P net J now recipient payload priv rc"

definition SendEnvelope where
  "SendEnvelope P net J now priv recipient t data rc = Adapter_Send P net J now recipient (WrapEnvelope t data) priv rc"

text \<open>A message that is not base64 is passed on as it is.\<close>

definition message_body :: "string \<Rightarrow> bytes" where
  "message_body m = (case b64_decode m of None \<Rightarrow> to_bytes m | Some b \<Rightarrow> b)"

definition receiveCapability ::
  "relay_network \<Rightarrow> relay_json \<Rightarrow> MailboxCapability \<Rightarrow> string \<Rightarrow> RouterClient \<Rightarrow> (http_error + bytes list) \<times> RouterClient" where
  "receiveCapability net J cap shardURL rc =
     (case ask net (GetRead (TrimRight_slash shardURL @ ''/read'') (mc_mailbox cap) (mc_secret cap)) rc of
        (HttpAnswer status ctype body, rc') \<Rightarrow>
          (if status = 404 then Inr []
           else if status \<noteq> 200 then Inl (readAPIError J status body)
           else (case rj_messages J body of None \<Rightarrow> Inl (BadJson status []) | Some ms \<Rightarrow> Inr (map message_body ms)), rc')
      | (NoAnswer e, rc') \<Rightarrow> (Inl (RequestFailed shardURL e), rc'))"

fun read_replicas ::
  "relay_network \<Rightarrow> relay_json \<Rightarrow> MailboxCapability \<Rightarrow> string list \<Rightarrow> http_error option \<Rightarrow> RouterClient \<Rightarrow> (http_error + bytes list) \<times> RouterClient" where
  "read_replicas net J cap [] lastErr rc = (Inl (ReceiveFailed lastErr), rc)"
| "read_replicas net J cap (u # us) lastErr rc =
     (case receiveCapability net J cap u rc of
        (Inr msgs, rc') \<Rightarrow> (Inr msgs, rc')
      | (Inl e, rc') \<Rightarrow> read_replicas net J cap us (Some e) rc')"

definition Adapter_Receive ::
  "prims \<Rightarrow> relay_network \<Rightarrow> relay_json \<Rightarrow> int \<Rightarrow> bytes \<Rightarrow> RouterClient \<Rightarrow> (http_error + bytes list) \<times> RouterClient" where
  "Adapter_Receive P net J now priv rc =
     (case Router_Register P net J now priv rc of
        (Inl e, rc1) \<Rightarrow> (Inl e, rc1)
      | (Inr cap, rc1) \<Rightarrow> read_replicas net J cap (candidateShardURLs (mc_shard cap) (mc_replicas cap)) None rc1)"

subsection \<open>Failover\<close>

lemma distinct_urls_props: "distinct (distinct_urls seen us)" "set (distinct_urls seen us) = set us - set seen - {[]}"
proof (induction us arbitrary: seen)
  case (Cons u us)
  {
    case 1
    show ?case using Cons.IH by auto
  next
    case 2
    show ?case using Cons.IH(2) by auto
  }
qed auto

lemma candidates: "distinct (candidateShardURLs p us)" "set (candidateShardURLs p us) = insert p (set us - {[]})"
  using distinct_urls_props [of "[p]" us] by (auto simp: candidateShardURLs_def)

text \<open>What a shard makes of a message, after the requests of \<open>log\<close>.\<close>

definition shard_outcome ::
  "prims \<Rightarrow> relay_network \<Rightarrow> relay_json \<Rightarrow> int \<Rightarrow> bytes \<Rightarrow> string \<Rightarrow> bytes \<Rightarrow> relay_request list \<Rightarrow> string \<Rightarrow> http_error option" where
  "shard_outcome P net J now priv mailbox payload log u =
     (case decoded J (rj_success J) u (net log (send_request P now priv mailbox payload u)) of
        Inl e \<Rightarrow> Some e
      | Inr ok \<Rightarrow> if ok then None else Some (ShardRejected u))"

lemma sendToShard_eq:
  "sendToShard P net J now priv mailbox payload u rc =
     (shard_outcome P net J now priv mailbox payload (rc_log rc) u,
      rc\<lparr>rc_log := rc_log rc @ [send_request P now priv mailbox payload u]\<rparr>)"
  by (simp add: sendToShard_def shard_outcome_def ask_def)

text \<open>The shards tried: up to the first that accepts, or all.\<close>

fun tried :: "prims \<Rightarrow> relay_network \<Rightarrow> relay_json \<Rightarrow> int \<Rightarrow> bytes \<Rightarrow> string \<Rightarrow> bytes \<Rightarrow> relay_request list \<Rightarrow> string list \<Rightarrow> (string \<times> http_error option) list" where
  "tried P net J now priv mailbox payload log [] = []"
| "tried P net J now priv mailbox payload log (u # us) =
     (case shard_outcome P net J now priv mailbox payload log u of
        None \<Rightarrow> [(u, None)]
      | Some e \<Rightarrow> (u, Some e) # tried P net J now priv mailbox payload (log @ [send_request P now priv mailbox payload u]) us)"

lemma tried_prefix: "prefix (map fst (tried P net J now priv mailbox payload log us)) us"
  by (induction us arbitrary: log) (auto split: option.splits)

lemma tried_failures: "\<forall>x \<in> set (butlast (tried P net J now priv mailbox payload log us)). snd x \<noteq> None"
  by (induction us arbitrary: log) (auto split: option.splits)

lemma tried_all: "(\<forall>x \<in> set (tried P net J now priv mailbox payload log us). snd x \<noteq> None) \<Longrightarrow>
    map fst (tried P net J now priv mailbox payload log us) = us"
  by (induction us arbitrary: log) (auto split: option.splits)

lemma try_shards_tried:
  "try_shards P net J now priv mailbox payload us e0 b rc =
     (let ts = tried P net J now priv mailbox payload (rc_log rc) us in
      (if \<exists>x \<in> set ts. snd x = None then None
       else Some (last (e0 # map snd ts), b \<and> (\<forall>x \<in> set ts. says_not_found (the (snd x)))),
       rc\<lparr>rc_log := rc_log rc @ map (send_request P now priv mailbox payload \<circ> fst) ts\<rparr>))"
proof (induction us arbitrary: e0 b rc)
  case (Cons u us)
  show ?case
  proof (cases "shard_outcome P net J now priv mailbox payload (rc_log rc) u")
    case None
    then show ?thesis by (simp add: sendToShard_eq)
  next
    case (Some e)
    show ?thesis by (simp add: sendToShard_eq Some Cons.IH Let_def)
  qed
qed simp

text \<open>What is sent to a shard is what a reader makes of it.\<close>

lemma message_body_sent: "message_body (b64_encode payload) = payload"
  by (simp add: message_body_def)

text \<open>The router is asked once for a peer, and once for the own mailbox until it expires.\<close>

lemma resolve_asked_once: "Router_Resolve net J peer rc = (Inr res, rc1) \<Longrightarrow> Router_Resolve net J peer rc1 = (Inr res, rc1)"
  by (auto simp: Router_Resolve_def ask_def Let_def split: option.splits sum.splits)

lemma register_asked_once:
  "\<lbrakk>Router_Register P net J now priv rc = (Inr cap, rc1); later < mc_expires cap\<rbrakk> \<Longrightarrow> Router_Register P net J later priv rc1 = (Inr cap, rc1)"
  by (auto simp: Router_Register_def signPubkeyTimestamp_def ask_def Let_def split: option.splits sum.splits if_splits)

text \<open>An empty mailbox and one that the primary does not know look the same to a reader: no replica is asked.\<close>

lemma read_stops_at_unknown:
  "net (rc_log rc) (GetRead (TrimRight_slash u @ ''/read'') (mc_mailbox cap) (mc_secret cap)) = HttpAnswer 404 ctype body \<Longrightarrow>
   fst (read_replicas net J cap (u # us) e rc) = Inr []"
  by (simp add: receiveCapability_def ask_def)

text \<open>A routing table is always had once one was fetched, at worst the expired one.\<close>

lemma fetch_keeps_table: "fetchRoutingTableFrom net J target rc = (x, rc') \<Longrightarrow> rc_table rc' = rc_table rc"
  by (auto simp: fetchRoutingTableFrom_def ask_def split: http_answer.splits)

lemma table_from_shards_table:
  "rc_table (snd (table_from_shards net J us rc)) = (case fst (table_from_shards net J us rc) of None \<Rightarrow> rc_table rc | Some t \<Rightarrow> Some t)"
proof (induction us arbitrary: rc)
  case (Cons u us)
  obtain x rc' where x: "fetchRoutingTableFrom net J (TrimRight_slash u @ ''/routing_table.json'') rc = (x, rc')" by fastforce
  show ?case using Cons.IH [of rc'] by (cases x) (simp_all add: x fetch_keeps_table [OF x] split: option.split)
qed simp

lemma table_kept:
  assumes "rc_table rc = Some t"
  shows "\<exists>t' rc'. RoutingTable_get net J now rc = (Inr t', rc') \<and> rc_table rc' = Some t'"
  using assms table_from_shards_table [of net J "rt_ShardURLs t" rc]
  by (auto simp: RoutingTable_get_def dest: fetch_keeps_table split: sum.splits option.splits prod.splits)

text \<open>
  C38.  A message goes to the primary shard first and then to the replicas in their order, each at most once, until
  one accepts it: every shard tried before the last has failed, sending succeeds exactly when the last one tried has
  accepted, and fails only after all known shards were tried.  The cached location of the recipient is dropped exactly when
  all of them answered that they do not know the mailbox.
\<close>

theorem send_failover:
  assumes "Router_Resolve net J (hex_encode recipient) rc = (Inr res, rc1)"
    and "SendToPubkey P net J now recipient payload priv rc = (r, rc')"
    and ts: "ts = tried P net J now priv (pr_mailbox res) payload (rc_log rc1) (candidateShardURLs (pr_shard res) (pr_replicas res))"
  shows "rc_log rc' = rc_log rc1 @ map (send_request P now priv (pr_mailbox res) payload) (map fst ts) \<and>
     prefix (map fst ts) (candidateShardURLs (pr_shard res) (pr_replicas res)) \<and> distinct (map fst ts) \<and> hd (map fst ts) = pr_shard res \<and>
     (\<forall>x \<in> set (butlast ts). snd x \<noteq> None) \<and> (r = Inr () \<longleftrightarrow> snd (last ts) = None) \<and>
     (r \<noteq> Inr () \<longrightarrow> set (map fst ts) = insert (pr_shard res) (set (pr_replicas res) - {[]})) \<and>
     (rc_resolutions rc' (ToLower (hex_encode recipient)) = None \<longleftrightarrow> (\<forall>x \<in> set ts. \<exists>e. snd x = Some e \<and> says_not_found e))"
proof -
  let ?c = "candidateShardURLs (pr_shard res) (pr_replicas res)" and ?k = "ToLower (hex_encode recipient)"
  have pre: "prefix (map fst ts) ?c" unfolding ts by (rule tried_prefix)
  have ne: "ts \<noteq> []" and h: "hd (map fst ts) = pr_shard res" by (auto simp: ts candidateShardURLs_def split: option.splits)
  have d: "distinct (map fst ts)" using pre candidates(1) by (metis distinct_append prefix_def)
  have fails: "\<forall>x \<in> set (butlast ts). snd x \<noteq> None" unfolding ts by (rule tried_failures)
  have some: "(\<exists>x \<in> set ts. snd x = None) \<longleftrightarrow> snd (last ts) = None"
    using fails ne by (metis Un_iff append_butlast_last_id last_in_set set_append empty_iff list.set(1) set_ConsD)
  have all: "snd (last ts) \<noteq> None \<Longrightarrow> map fst ts = ?c" using tried_all some unfolding ts by metis
  have known: "rc_resolutions rc1 ?k = Some res"
    using assms(1) by (auto simp: Router_Resolve_def ask_def Let_def split: option.splits sum.splits)
  let ?sent = "rc1\<lparr>rc_log := rc_log rc1 @ map (send_request P now priv (pr_mailbox res) payload \<circ> fst) ts\<rparr>"
  have shards: "try_shards P net J now priv (pr_mailbox res) payload ?c None True rc1 =
      (if snd (last ts) = None then None
       else Some (last (None # map snd ts), \<forall>x \<in> set ts. says_not_found (the (snd x))), ?sent)"
    unfolding try_shards_tried Let_def by (simp add: some flip: ts)
  have run: "(r, rc') = (if snd (last ts) = None then (Inr (), ?sent)
      else (Inl (AllShardsFailed (length ?c) (last (None # map snd ts))),
        if \<forall>x \<in> set ts. says_not_found (the (snd x)) then ForgetResolution (hex_encode recipient) ?sent else ?sent))"
    unfolding assms(2) [symmetric] SendToPubkey_def assms(1) Let_def prod.case sum.case shards by simp
  show ?thesis
  proof (cases "snd (last ts) = None")
    case True
    then have "\<not> (\<forall>x \<in> set ts. \<exists>e. snd x = Some e \<and> says_not_found e)" using ne by (metis last_in_set option.distinct(1))
    then show ?thesis using True run pre d h fails known by simp
  next
    case False
    then have "\<forall>x \<in> set ts. snd x \<noteq> None" using some by metis
    then have eq: "(\<forall>x \<in> set ts. \<exists>e. snd x = Some e \<and> says_not_found e) \<longleftrightarrow> (\<forall>x \<in> set ts. says_not_found (the (snd x)))" by force
    obtain y where y: "snd (last ts) = Some y" using False by blast
    have sent: "map (send_request P now priv (pr_mailbox res) payload \<circ> fst) ts = map (send_request P now priv (pr_mailbox res) payload) ?c"
      using all [OF False] by (metis list.map_comp)
    show ?thesis unfolding eq using run d h fails known all [OF False] candidates(2) [of "pr_shard res" "pr_replicas res"]
      by (simp add: ForgetResolution_def y sent)
  qed
qed

text \<open>A network of two shards: the primary does not know the mailbox, the replica accepts; bodies of one byte stand for the JSON.\<close>

definition toy_relay_json :: relay_json where
  "toy_relay_json =
     \<lparr>rj_error = (\<lambda>b. if b = [4] then Some ''Mailbox not found'' else None), rj_table = (\<lambda>_. None), rj_capability = (\<lambda>_. None),
      rj_resolution = (\<lambda>b. if b = [1]
         then Some \<lparr>pr_mailbox = ''ab'', pr_shard = ''p'', pr_replicas = [''p'', ''q'', ''q''], pr_version = 1\<rparr> else None),
      rj_success = (\<lambda>b. if b = [2] then Some True else None), rj_messages = (\<lambda>_. None)\<rparr>"

definition toy_network :: relay_network where
  "toy_network log q =
     (case q of
        GetResolve u k \<Rightarrow> HttpAnswer 200 [] [1]
      | PostSend u m b a \<Rightarrow> if u = ''p/send'' then HttpAnswer 404 [] [4] else HttpAnswer 200 [] [2]
      | _ \<Rightarrow> NoAnswer [])"

theorem send_failover_witness:
  "fst (SendToPubkey toy toy_network toy_relay_json 5 [7] [8, 9] [1, 2] (NewRouterClient ''r/'')) = Inr () \<and>
   rc_log (snd (SendToPubkey toy toy_network toy_relay_json 5 [7] [8, 9] [1, 2] (NewRouterClient ''r/''))) =
     [GetResolve ''r/resolve'' ''07'', send_request toy 5 [1, 2] ''ab'' [8, 9] ''p'', send_request toy 5 [1, 2] ''ab'' [8, 9] ''q'']"
proof -
  let ?rc = "NewRouterClient ''r/''" and ?res = "\<lparr>pr_mailbox = ''ab'', pr_shard = ''p'', pr_replicas = [''p'', ''q'', ''q''], pr_version = 1\<rparr>"
  let ?rc1 = "?rc\<lparr>rc_log := [GetResolve ''r/resolve'' ''07''], rc_resolutions := [''07'' \<mapsto> ?res]\<rparr>"
  have key: "hex_encode [7] = ''07''" "ToLower ''07'' = ''07''" by code_simp+
  have res: "Router_Resolve toy_network toy_relay_json (hex_encode [7]) ?rc = (Inr ?res, ?rc1)"
    by (simp add: Router_Resolve_def NewRouterClient_def ask_def Let_def decoded_def toy_network_def toy_relay_json_def TrimRight_slash_def key)
  have cands: "candidateShardURLs (pr_shard ?res) (pr_replicas ?res) = [''p'', ''q'']" by code_simp
  have ts: "[(''p'', Some (ApiError 404 ''Mailbox not found'')), (''q'', None)] =
      tried toy toy_network toy_relay_json 5 [1, 2] (pr_mailbox ?res) [8, 9] (rc_log ?rc1) (candidateShardURLs (pr_shard ?res) (pr_replicas ?res))"
    unfolding cands
    by (simp add: shard_outcome_def send_request_def Let_def toy_network_def decoded_def toy_relay_json_def readAPIError_def TrimRight_slash_def)
  obtain r rc' where run: "SendToPubkey toy toy_network toy_relay_json 5 [7] [8, 9] [1, 2] ?rc = (r, rc')" by fastforce
  show ?thesis
    using send_failover [OF res run ts] unfolding run by simp
qed

end
