(* ===== verification/HttpRelays.thy ===== *)
theory HttpRelays
  imports WorkerRelay Engine
begin

text \<open>
  The older relays over HTTP: the client of a single worker (\<^verbatim>\<open>src/transport/worker.go\<close>), the storage of a
  proxy (\<^verbatim>\<open>src/transport/proxy.go\<close>) and the relay on top of it (\<^verbatim>\<open>src/internal/relay/proxy/adapter.go\<close>).
  As in \<open>WorkerRelay\<close>, the answers of the network depend on the requests before, which are kept; the JSON coders are
  parameters.
\<close>

subsection \<open>The client of one worker\<close>

datatype worker_request =
    PostCreate string string string string
  | PostWorkerSend string string string
  | GetWorkerRead string string string string bool

datatype worker_answer = WorkerDown string | WorkerAnswer nat bytes

type_synonym worker_network = "worker_request list \<Rightarrow> worker_request \<Rightarrow> worker_answer"

record workerMessage =
  wm_ID :: string
  wm_Time :: int
  wm_Message :: string

record worker_json =
  wj_error :: "bytes \<Rightarrow> string option"
  wj_create :: "bytes \<Rightarrow> string option"
  wj_read :: "bytes \<Rightarrow> workerMessage list option"

record StorageMessage =
  sm_ID :: string
  sm_ReceivedAt :: int
  sm_Body :: bytes

record StorageClient =
  sc_workerURL :: string
  sc_readToken :: string
  sc_requests :: "worker_request list"

datatype storage_error =
    NoWorkerURL
  | NoReadToken
  | BadRecipientKey
  | WorkerRequest string
  | WorkerError nat string
  | WorkerStatus nat
  | WorkerDecode

definition Storage_New :: "string \<Rightarrow> storage_error + StorageClient" where
  "Storage_New workerURL =
     (if workerURL = [] then Inl NoWorkerURL
      else Inr \<lparr>sc_workerURL = TrimRight_slash workerURL, sc_readToken = [], sc_requests = []\<rparr>)"

definition ReadToken :: "StorageClient \<Rightarrow> string" where
  "ReadToken c = sc_readToken c"

definition SetReadToken :: "string \<Rightarrow> StorageClient \<Rightarrow> StorageClient" where
  "SetReadToken token c = c\<lparr>sc_readToken := token\<rparr>"

definition worker_do :: "worker_network \<Rightarrow> worker_request \<Rightarrow> StorageClient \<Rightarrow> worker_answer \<times> StorageClient" where
  "worker_do net q c = (net (sc_requests c) q, c\<lparr>sc_requests := sc_requests c @ [q]\<rparr>)"

definition workerErr :: "worker_json \<Rightarrow> bytes \<Rightarrow> nat \<Rightarrow> storage_error" where
  "workerErr J raw status =
     (case wj_error J raw of
        None \<Rightarrow> WorkerStatus status
      | Some m \<Rightarrow> if m \<noteq> [] then WorkerError status m else WorkerStatus status)"

definition worker_sign :: "prims \<Rightarrow> int \<Rightarrow> string \<Rightarrow> bytes \<Rightarrow> string \<times> string" where
  "worker_sign P now pubkeyHex pkey =
     (let ts = dec_int now in (ts, hex_encode (p_ed_sign P pkey (to_bytes (pubkeyHex @ '':'' @ ts)))))"

definition Storage_Create ::
  "prims \<Rightarrow> worker_network \<Rightarrow> worker_json \<Rightarrow> int \<Rightarrow> bytes \<Rightarrow> StorageClient \<Rightarrow> (storage_error + string) \<times> StorageClient" where
  "Storage_Create P net J now pkey c =
     (let pubkeyHex = hex_encode (p_ed_pub P pkey); (ts, sig) = worker_sign P now pubkeyHex pkey in
      case worker_do net (PostCreate (sc_workerURL c @ ''/create'') pubkeyHex ts sig) c of
        (WorkerDown e, c') \<Rightarrow> (Inl (WorkerRequest e), c')
      | (WorkerAnswer status raw, c') \<Rightarrow>
          if status \<noteq> 200 then (Inl (workerErr J raw status), c')
          else (case wj_create J raw of
                  None \<Rightarrow> (Inl WorkerDecode, c')
                | Some token \<Rightarrow> (Inr pubkeyHex, c'\<lparr>sc_readToken := token\<rparr>)))"

definition Storage_Send ::
  "worker_network \<Rightarrow> worker_json \<Rightarrow> bytes \<Rightarrow> bytes \<Rightarrow> StorageClient \<Rightarrow> (storage_error + unit) \<times> StorageClient" where
  "Storage_Send net J recipient body c =
     (if length recipient \<noteq> 32 then (Inl BadRecipientKey, c)
      else case worker_do net (PostWorkerSend (sc_workerURL c @ ''/send'') (hex_encode recipient) (to_str body)) c of
        (WorkerDown e, c') \<Rightarrow> (Inl (WorkerRequest e), c')
      | (WorkerAnswer status raw, c') \<Rightarrow> (if status \<noteq> 200 then Inl (workerErr J raw status) else Inr (), c'))"

definition Storage_Receive ::
  "prims \<Rightarrow> worker_network \<Rightarrow> worker_json \<Rightarrow> int \<Rightarrow> bytes \<Rightarrow> bool \<Rightarrow> StorageClient \<Rightarrow> (storage_error + StorageMessage list) \<times> StorageClient" where
  "Storage_Receive P net J now pkey peek c =
     (if sc_readToken c = [] then (Inl NoReadToken, c)
      else
        let pubkeyHex = hex_encode (p_ed_pub P pkey); (ts, sig) = worker_sign P now pubkeyHex pkey in
        case worker_do net (GetWorkerRead (sc_workerURL c @ ''/read'') pubkeyHex ts sig peek) c of
          (WorkerDown e, c') \<Rightarrow> (Inl (WorkerRequest e), c')
        | (WorkerAnswer status raw, c') \<Rightarrow>
            (if status = 404 then Inr []
             else if status \<noteq> 200 then Inl (workerErr J raw status)
             else (case wj_read J raw of
                     None \<Rightarrow> Inl WorkerDecode
                   | Some ms \<Rightarrow> Inr (map (\<lambda>m. \<lparr>sm_ID = wm_ID m, sm_ReceivedAt = wm_Time m, sm_Body = to_bytes (wm_Message m)\<rparr>) ms)), c'))"

subsection \<open>The proxy\<close>

datatype proxy_request = Upload string string string bytes | Download string string string

datatype proxy_answer = ProxyDown string | ProxyAnswer nat bytes

type_synonym proxy_network = "proxy_request list \<Rightarrow> proxy_request \<Rightarrow> proxy_answer"

record ProxyChatStorage =
  px_url :: string
  px_requests :: "proxy_request list"

datatype proxy_error = ProxyIO string | ProxyStatus nat | ProxyDecode | EnvelopeJson | PayloadJson

definition NewProxyChatStorage :: "string \<Rightarrow> ProxyChatStorage" where
  "NewProxyChatStorage url = \<lparr>px_url = url, px_requests = []\<rparr>"

definition proxy_ask :: "proxy_network \<Rightarrow> proxy_request \<Rightarrow> ProxyChatStorage \<Rightarrow> proxy_answer \<times> ProxyChatStorage" where
  "proxy_ask net q s = (net (px_requests s) q, s\<lparr>px_requests := px_requests s @ [q]\<rparr>)"

text \<open>\<open>body\<close> is the JSON of the payload.\<close>

definition WritePayload :: "proxy_network \<Rightarrow> string \<Rightarrow> string \<Rightarrow> bytes \<Rightarrow> ProxyChatStorage \<Rightarrow> (proxy_error + unit) \<times> ProxyChatStorage" where
  "WritePayload net chatId folder body s =
     (case proxy_ask net (Upload (px_url s) folder chatId body) s of
        (ProxyDown e, s') \<Rightarrow> (Inl (ProxyIO e), s')
      | (ProxyAnswer status _, s') \<Rightarrow> (if status \<noteq> 200 then Inl (ProxyStatus status) else Inr (), s'))"

definition ReadPayloads ::
  "proxy_network \<Rightarrow> (bytes \<Rightarrow> bytes list option) \<Rightarrow> string \<Rightarrow> string \<Rightarrow> ProxyChatStorage \<Rightarrow> (proxy_error + bytes list) \<times> ProxyChatStorage" where
  "ReadPayloads net list_of chatId folder s =
     (case proxy_ask net (Download (px_url s) folder chatId) s of
        (ProxyDown e, s') \<Rightarrow> (Inl (ProxyIO e), s')
      | (ProxyAnswer status body, s') \<Rightarrow>
          (if status \<noteq> 200 then Inl (ProxyStatus status)
           else (case list_of body of None \<Rightarrow> Inl ProxyDecode | Some ps \<Rightarrow> Inr ps), s'))"

text \<open>The JSON coders of the envelope and of the three kinds of payload.\<close>

record proxy_json =
  pj_env_of :: "bytes \<Rightarrow> (frame_type \<times> bytes) option"
  pj_env :: "frame_type \<Rightarrow> bytes \<Rightarrow> bytes"
  pj_offer_of :: "bytes \<Rightarrow> HandShakeOffer option"
  pj_offer :: "HandShakeOffer \<Rightarrow> bytes"
  pj_answer_of :: "bytes \<Rightarrow> HandShakeAnswer option"
  pj_answer :: "HandShakeAnswer \<Rightarrow> bytes"
  pj_message_of :: "bytes \<Rightarrow> SecureMessage option"
  pj_message :: "SecureMessage \<Rightarrow> bytes"
  pj_list_of :: "bytes \<Rightarrow> bytes list option"

definition proxy_write where
  "proxy_write net recipientID folder x s = (case x of None \<Rightarrow> (Inl PayloadJson, s) | Some body \<Rightarrow> WritePayload net recipientID folder body s)"

definition Proxy_Register :: "bytes \<Rightarrow> string" where
  "Proxy_Register priv = []"

definition Proxy_Send :: "proxy_network \<Rightarrow> proxy_json \<Rightarrow> bytes \<Rightarrow> bytes \<Rightarrow> ProxyChatStorage \<Rightarrow> (proxy_error + unit) \<times> ProxyChatStorage" where
  "Proxy_Send net J recipient payload s =
     (let recipientID = to_str recipient in
      case pj_env_of J payload of
        None \<Rightarrow> (Inl EnvelopeJson, s)
      | Some (t, data) \<Rightarrow>
          if t = TypeOffer then proxy_write net recipientID ''offers'' (map_option (pj_offer J) (pj_offer_of J data)) s
          else if t = TypeAnswer then proxy_write net recipientID ''answers'' (map_option (pj_answer J) (pj_answer_of J data)) s
          else if t = TypeMessage then proxy_write net recipientID ''messages'' (map_option (pj_message J) (pj_message_of J data)) s
          else (Inr (), s))"

definition read_bucket ::
  "proxy_network \<Rightarrow> proxy_json \<Rightarrow> string \<Rightarrow> frame_type \<Rightarrow> string \<Rightarrow> ProxyChatStorage \<Rightarrow> bytes list \<times> ProxyChatStorage" where
  "read_bucket net J myID t folder s =
     (case ReadPayloads net (pj_list_of J) myID folder s of
        (Inl _, s') \<Rightarrow> ([], s')
      | (Inr raws, s') \<Rightarrow> (map (pj_env J t) raws, s'))"

definition Proxy_Receive :: "proxy_network \<Rightarrow> proxy_json \<Rightarrow> bytes \<Rightarrow> ProxyChatStorage \<Rightarrow> bytes list \<times> ProxyChatStorage" where
  "Proxy_Receive net J priv s =
     (let myID = to_str priv;
          (offers, s1) = read_bucket net J myID TypeOffer ''offers'' s;
          (answers, s2) = read_bucket net J myID TypeAnswer ''answers'' s1;
          (messages, s3) = read_bucket net J myID TypeMessage ''messages'' s2 in
      (offers @ answers @ messages, s3))"

subsection \<open>What the relays do\<close>

text \<open>Creating the mailbox is what makes it readable; the token itself is never sent.\<close>

lemma create_then_readable:
  "\<lbrakk>Storage_Create P net J now pkey c = (Inr k, c'); wj_create J raw = Some token; net (sc_requests c) (PostCreate (sc_workerURL c @ ''/create'') (hex_encode (p_ed_pub P pkey)) (fst (worker_sign P now (hex_encode (p_ed_pub P pkey)) pkey)) (snd (worker_sign P now (hex_encode (p_ed_pub P pkey)) pkey))) = WorkerAnswer 200 raw\<rbrakk> \<Longrightarrow>
   ReadToken c' = token \<and> k = hex_encode (p_ed_pub P pkey)"
  by (auto simp: Storage_Create_def worker_sign_def worker_do_def ReadToken_def Let_def)

lemma receive_token_unused:
  assumes "token \<noteq> []" and "token' \<noteq> []"
  shows "fst (Storage_Receive P net J now pkey peek (SetReadToken token c)) = fst (Storage_Receive P net J now pkey peek (SetReadToken token' c))"
  using assms by (auto simp: Storage_Receive_def SetReadToken_def worker_do_def worker_sign_def Let_def split: worker_answer.splits)

text \<open>
  A group message or a frame of an unknown type is reported as sent and dropped; nothing reaches the proxy.
\<close>

lemma proxy_drops_group_messages:
  assumes "pj_env_of J payload = Some (t, data)" and "t \<notin> {TypeOffer, TypeAnswer, TypeMessage}"
  shows "Proxy_Send net J recipient payload s = (Inr (), s)"
  using assms by (simp add: Proxy_Send_def)

lemma read_bucket_state:
  "snd (read_bucket net J myID t folder s) = s\<lparr>px_requests := px_requests s @ [Download (px_url s) folder myID]\<rparr>"
  by (auto simp: read_bucket_def ReadPayloads_def proxy_ask_def split: proxy_answer.splits option.splits)

text \<open>A bucket that cannot be read looks empty: receiving never fails and the other buckets are still read.\<close>

lemma proxy_receive_requests:
  "px_requests (snd (Proxy_Receive net J priv s)) =
     px_requests s @ map (\<lambda>f. Download (px_url s) f (to_str priv)) [''offers'', ''answers'', ''messages'']"
  by (simp add: Proxy_Receive_def case_prod_unfold Let_def read_bucket_state)

end
