(* ===== verification/GroupChat.thy ===== *)
theory GroupChat
  imports Peers
begin

text \<open>
  The group chat that every user interface shares (\<^verbatim>\<open>src/internal/groupchat\<close>): taking in pasted frames (\<^verbatim>\<open>ingest.go\<close>),
  showing conversations (\<^verbatim>\<open>view.go\<close>) and the commands \<^verbatim>\<open>context\<close>, \<^verbatim>\<open>send-multi\<close>, \<^verbatim>\<open>contexts\<close> and \<^verbatim>\<open>mailbox\<close> of
  the interactive shells (\<^verbatim>\<open>gui.go\<close>).

  What a command prints is a value, without colours.  The group layer and the caller hold the same client object when their identities
  agree; the mailbox was opened for an identity \<open>me\<close>, which a front end may have left behind.  The clock, random draws, the network and the fate of each write are arguments.
\<close>

subsection \<open>Taking in frames\<close>

record IngestEvent =
  ie_Kind :: string
  ie_Sender :: string
  ie_Context :: string
  ie_ContextID :: string
  ie_Message :: string

definition duplicate_event :: IngestEvent where
  "duplicate_event = \<lparr>ie_Kind = ''duplicate'', ie_Sender = [], ie_Context = [], ie_ContextID = [], ie_Message = []\<rparr>"

datatype ingest_error =
    ErrNotFrame | IngestPanic | NoStoresLoaded | IngestGroup fanout_error | IngestDecrypt client_error
  | IngestStoreGroup mailbox_error | IngestStore mailbox_error | HandshakeFrame string

definition decodeText :: "bytes \<Rightarrow> string" where
  "decodeText pt = (if utf8_valid pt then to_str pt else b64_encode pt)"

fun seen_before :: "fanout_error \<Rightarrow> bool" where
  "seen_before Duplicate = True"
| "seen_before (FanClient e) = is_replay e"
| "seen_before _ = False"

definition ingest_group ::
  "prims \<Rightarrow> packets \<Rightarrow> 'c ContextStore \<Rightarrow> frame_io \<Rightarrow> string \<Rightarrow> bytes \<Rightarrow> ('c, 'd) Deps \<Rightarrow> (ingest_error + IngestEvent) \<times> ('c, 'd) Deps" where
  "ingest_group P K S io me payload d =
     (case dp_Fanout d of
        None \<Rightarrow> (Inl NoStoresLoaded, d)
      | Some fan \<Rightarrow>
          let shared = (cl_Id (fo_client fan) = cl_Id (dp_Client d)) in
          (case ProcessDelivery P S (fi_write io) (fi_contexts io) (cl_Id (dp_Client d)) payload
                  (if shared then fan\<lparr>fo_client := dp_Client d\<rparr> else fan) of
             (r, fan') \<Rightarrow>
               let d1 = d\<lparr>dp_Client := (if shared then fo_client fan' else dp_Client d), dp_Fanout := Some fan'\<rparr> in
               (case r of
                  Inl e \<Rightarrow> (if seen_before e then Inr duplicate_event else Inl (IngestGroup e), d1)
                | Inr inbound \<Rightarrow>
                    let body = decodeText (im_Plaintext inbound);
                        event = \<lparr>ie_Kind = ''group_message'', ie_Sender = im_Sender inbound, ie_Context = InboundMessage_DisplayName inbound,
                          ie_ContextID = InboundMessage_ContextID inbound, ie_Message = body\<rparr>
                    in case dp_Mailbox d1 of
                         None \<Rightarrow> (Inr event, d1)
                       | Some mb \<Rightarrow>
                           (case AppendGroupIncoming P K (fi_save io) (fi_clock io) (fileFor me)
                                   (InboundMessage_ContextID inbound) (InboundMessage_DisplayName inbound) (im_Sender inbound) body (mb, dp_disk d1) of
                              (err, mb', fs') \<Rightarrow>
                                (case err of Some e \<Rightarrow> Inl (IngestStoreGroup e) | None \<Rightarrow> Inr event,
                                 d1\<lparr>dp_Mailbox := Some mb', dp_disk := fs'\<rparr>)))))"

definition ingest_message ::
  "prims \<Rightarrow> packets \<Rightarrow> frame_io \<Rightarrow> string \<Rightarrow> bytes \<Rightarrow> ('c, 'd) Deps \<Rightarrow> (ingest_error + IngestEvent) \<times> ('c, 'd) Deps" where
  "ingest_message P K io me payload d =
     (case Client_Decrypt P (fi_write io) payload (dp_Client d) of
        (Inl e, cl) \<Rightarrow> (Inl (IngestDecrypt e), d\<lparr>dp_Client := cl\<rparr>)
      | (Inr (senderID, plain), cl) \<Rightarrow>
          let d1 = d\<lparr>dp_Client := cl\<rparr>; body = decodeText plain;
              event = \<lparr>ie_Kind = ''message'', ie_Sender = senderID, ie_Context = [], ie_ContextID = [], ie_Message = body\<rparr>
          in case dp_Mailbox d1 of
               None \<Rightarrow> (Inr event, d1)
             | Some mb \<Rightarrow>
                 (case AppendIncoming P K (fi_save io) (fi_clock io) (fileFor me) senderID body (mb, dp_disk d1) of
                    (err, mb', fs') \<Rightarrow>
                      (case err of Some e \<Rightarrow> Inl (IngestStore e) | None \<Rightarrow> Inr event, d1\<lparr>dp_Mailbox := Some mb', dp_disk := fs'\<rparr>)))"

text \<open>\<open>J\<close> reads the JSON of a container.  Empty input makes the container reader panic.\<close>

definition Ingest ::
  "prims \<Rightarrow> packets \<Rightarrow> (bytes \<Rightarrow> (string \<times> string) option) \<Rightarrow> 'c ContextStore \<Rightarrow> frame_io \<Rightarrow> string \<Rightarrow> bytes \<Rightarrow> ('c, 'd) Deps \<Rightarrow>
   (ingest_error + IngestEvent) \<times> ('c, 'd) Deps" where
  "Ingest P K J S io me raw d =
     (case DecodeContainer J raw of
        Inl e \<Rightarrow> (Inl (if e = FramePanic then IngestPanic else ErrNotFrame), d)
      | Inr (t, payload) \<Rightarrow>
          if t = TypeMultiMsg then ingest_group P K S io me payload d
          else if t = TypeMessage then ingest_message P K io me payload d
          else (Inl (HandshakeFrame (case Names t of None \<Rightarrow> [] | Some n \<Rightarrow> n)), d))"

subsection \<open>Showing conversations\<close>

definition view_title :: "Thread \<Rightarrow> string" where
  "view_title t = (if t_Title t \<noteq> [] then t_Title t else ShortID (t_Key t))"

definition newlines_to :: "string \<Rightarrow> string \<Rightarrow> string" where
  "newlines_to r s = concat (map (\<lambda>c. if c = CHR 0x0A then r else [c]) s)"

record thread_line =
  tl_title :: string
  tl_unread :: nat
  tl_preview :: string
  tl_when :: "64 word"

text \<open>A conversation without messages makes the code index past the end.\<close>

definition printThreadLine :: "Thread \<Rightarrow> thread_line option" where
  "printThreadLine t =
     (if t_Messages t = [] then None
      else
        let final = m_Body (last (t_Messages t));
            preview = (if length final > 40 then take 37 final @ ''...'' else final)
        in Some \<lparr>tl_title = view_title t, tl_unread = length (filter (\<lambda>m. \<not> m_IsRead m) (t_Messages t)),
             tl_preview = newlines_to '' '' preview, tl_when = m_Timestamp (last (t_Messages t))\<rparr>)"

fun seen_members :: "string list \<Rightarrow> Message list \<Rightarrow> string list" where
  "seen_members seen [] = []"
| "seen_members seen (m # ms) =
     (if m_Kind m = Group \<and> m_Sender m \<noteq> [] \<and> m_Sender m \<noteq> ''Me'' \<and> m_Sender m \<notin> set seen
      then ShortID (m_Sender m) # seen_members (m_Sender m # seen) ms else seen_members seen ms)"

definition printMembersPreview :: "Thread \<Rightarrow> string list" where
  "printMembersPreview t =
     (let members = seen_members [] (t_Messages t) in
      if length members > 4 then take 4 members @ [''+'' @ dec_nat (length members - 4) @ '' more''] else members)"

datatype mailbox_view =
    MailboxEmpty
  | MailboxPanic
  | MailboxShown "thread_line list" "(thread_line \<times> string list) list"

definition RenderMailboxList :: "threads \<Rightarrow> mailbox_view" where
  "RenderMailboxList st =
     (let threads = Mailbox_List st;
          dms = filter (\<lambda>t. \<not> IsGroupKey (t_Key t)) threads; groups = filter (\<lambda>t. IsGroupKey (t_Key t)) threads
      in if threads = [] then MailboxEmpty
         else if \<exists>t \<in> set threads. printThreadLine t = None then MailboxPanic
         else MailboxShown (map (\<lambda>t. the (printThreadLine t)) dms) (map (\<lambda>t. (the (printThreadLine t), printMembersPreview t)) groups))"

definition shortAuthor :: "string \<Rightarrow> string" where
  "shortAuthor sender = (if sender = [] \<or> sender = ''Me'' then ''Me'' else ShortID sender)"

datatype thread_row = DayRow string | MessageRow bool string string string

definition message_row :: "(64 word \<Rightarrow> string) \<Rightarrow> Message \<Rightarrow> thread_row" where
  "message_row clock_of m =
     (let incoming = (m_Direction m = Incoming);
          author = (if incoming
            then (if m_Kind m = Group \<and> m_ContextName m \<noteq> [] then shortAuthor (m_Sender m) @ '' @ '' @ m_ContextName m else shortAuthor (m_Sender m))
            else ''Me'');
          trimmed = rev (dropWhile (\<lambda>c. c = CHR 0x0A) (rev (m_Body m)))
      in MessageRow incoming author (clock_of (m_Timestamp m)) (newlines_to (CHR 0x0A # ''        '') trimmed))"

fun thread_rows :: "(64 word \<Rightarrow> string) \<Rightarrow> (64 word \<Rightarrow> string) \<Rightarrow> string \<Rightarrow> Message list \<Rightarrow> thread_row list" where
  "thread_rows day_of clock_of day [] = []"
| "thread_rows day_of clock_of day (m # ms) =
     (let d = day_of (m_Timestamp m) in
      (if d \<noteq> day then [DayRow d] else []) @ message_row clock_of m # thread_rows day_of clock_of d ms)"

text \<open>The title and the rows; \<open>day_of\<close> and \<open>clock_of\<close> format a time in the local zone.\<close>

definition RenderThread :: "(64 word \<Rightarrow> string) \<Rightarrow> (64 word \<Rightarrow> string) \<Rightarrow> string \<Rightarrow> Message list \<Rightarrow> string \<times> thread_row list" where
  "RenderThread day_of clock_of key msgs =
     (if msgs \<noteq> [] \<and> m_ContextName (hd msgs) \<noteq> [] then m_ContextName (hd msgs) else key, thread_rows day_of clock_of [] msgs)"

datatype thread_error = MailboxUnavailable | ThreadMailbox mailbox_error | ThreadPeer peer_error | NoPeerOrGroup string

definition ResolveThreadKey :: "book option \<Rightarrow> State \<Rightarrow> string \<Rightarrow> thread_error + string" where
  "ResolveThreadKey bk s arg =
     (if HasPrefix arg ''ctx:'' \<or> HasPrefix arg ''group:'' then
        (case MailboxStore s of
           None \<Rightarrow> Inl MailboxUnavailable
         | Some st \<Rightarrow> (case ResolveThread arg st of Inl e \<Rightarrow> Inl (ThreadMailbox e) | Inr k \<Rightarrow> Inr k))
      else
        let peer = ResolvePeer bk arg s;
            by_group = (case MailboxStore s of
              None \<Rightarrow> None
            | Some st \<Rightarrow> (case ResolveThread arg st of Inl _ \<Rightarrow> None | Inr k \<Rightarrow> Some k));
            rest = (case by_group of
              Some k \<Rightarrow> Inr k
            | None \<Rightarrow> (case peer of Inr p \<Rightarrow> Inr p | Inl _ \<Rightarrow> Inl (NoPeerOrGroup arg)))
        in case peer of
             Inl (AmbiguousPeer i ms) \<Rightarrow> Inl (ThreadPeer (AmbiguousPeer i ms))
           | Inl ErrEmptyPeer \<Rightarrow> rest
           | Inr p \<Rightarrow>
               (case MailboxStore s of
                  None \<Rightarrow> Inr p
                | Some st \<Rightarrow> if Mailbox_Get p st \<noteq> None then Inr p else rest))"

subsection \<open>Commands\<close>

definition contextSubcommands :: "string list" where
  "contextSubcommands =
     [''create'', ''list'', ''show'', ''rename'', ''add'', ''exclude'', ''remove'', ''include'', ''mute'', ''block'', ''members'']"

definition contextPeerSubcommands :: "string list" where
  "contextPeerSubcommands = [''add'', ''exclude'', ''remove'', ''include'', ''mute'', ''block'']"

definition policyForSub :: "string \<Rightarrow> RecipientPolicy option" where
  "policyForSub sub =
     (if sub = ''add'' \<or> sub = ''include'' then Some PolicyEnabled
      else if sub = ''exclude'' \<or> sub = ''remove'' then Some PolicyExcluded
      else if sub = ''mute'' then Some PolicyMuted
      else if sub = ''block'' then Some PolicyBlocked
      else None)"

definition verbForSub :: "string \<Rightarrow> string" where
  "verbForSub sub =
     (if sub = ''add'' then ''Added''
      else if sub = ''include'' then ''Re-enabled''
      else if sub = ''exclude'' \<or> sub = ''remove'' then ''Excluded''
      else if sub = ''mute'' then ''Muted''
      else if sub = ''block'' then ''Blocked''
      else sub)"

text \<open>The marks are single characters outside ASCII.\<close>

definition PolicyIcon :: "RecipientPolicy \<Rightarrow> string" where
  "PolicyIcon p =
     (if p = PolicyEnabled then to_str [0xE2, 0x9C, 0x93]
      else if p = PolicyMuted then ''~''
      else if p = PolicyBlocked then to_str [0xE2, 0x9C, 0x97]
      else if p = PolicyExcluded then to_str [0xE2, 0x8A, 0x98]
      else ''?'')"

definition plural :: "nat \<Rightarrow> string" where
  "plural n = (if n = 1 then [] else ''s'')"

definition ValidatePeerID :: "prims \<Rightarrow> string \<Rightarrow> bool" where
  "ValidatePeerID P i = (case PeerIDToEd25519Pub P i of Inl _ \<Rightarrow> False | Inr _ \<Rightarrow> True)"

text \<open>
  \<^verbatim>\<open>strings.EqualFold\<close>: the runes agree up to the case folding of Unicode; \<open>fold_case\<close> gives one representative of the runes
  that fold to each other.
\<close>

definition EqualFold :: "(nat \<Rightarrow> nat) \<Rightarrow> string \<Rightarrow> string \<Rightarrow> bool" where
  "EqualFold fold_case a b \<longleftrightarrow> map fold_case (runes (to_bytes a)) = map fold_case (runes (to_bytes b))"

definition ResolveContextRef ::
  "(nat \<Rightarrow> nat) \<Rightarrow> 'c ContextStore \<Rightarrow> string \<Rightarrow> 'c \<Rightarrow> (MessageContext \<times> LocalRecipientPolicy list) option" where
  "ResolveContextRef fold_case S ref st =
     (let found = (case cs_LoadContext S ref st of
            Inr meta \<Rightarrow> Some meta
          | Inl _ \<Rightarrow> List.find (\<lambda>c. EqualFold fold_case (mc_DisplayName c) ref) (cs_ListContexts S st))
      in map_option (\<lambda>meta. (meta, cs_ListPolicies S (mc_ContextID meta) st)) found)"

text \<open>What one command meets.\<close>

record chat_io =
  ci_contexts :: two_writes
  ci_now :: "64 word"
  ci_coins :: bytes
  ci_draws :: "nat \<Rightarrow> draw"
  ci_network :: network
  ci_client :: write_result
  ci_marks :: "string \<Rightarrow> save_io"
  ci_save :: save_io
  ci_clock :: clock

datatype chat_out =
    NeedIdentity
  | ChatPanic
  | Usage string
  | NoSuchContext string
  | ChatFanout fanout_error
  | ChatPeer peer_error
  | InvalidPeer string
  | UnknownSub string
  | ContextCreated MessageContext
  | ContextRenamed MessageContext
  | PolicySet string string string RecipientPolicy
  | ContextsListed "(MessageContext \<times> nat) list"
  | ContextDetail MessageContext "(string \<times> string \<times> string) list"
  | MembersOf MessageContext "(string \<times> string \<times> string) list"
  | NoEnabledRecipients string
  | MultiSent MessageContext "fanout_error FanoutResult" "(string \<times> bytes) list" "mailbox_error option"
  | NoMailbox
  | MailboxListing mailbox_view
  | ThreadListing "string \<times> thread_row list"
  | ThreadFailed thread_error
  | ReadFailed mailbox_error

definition member_rows :: "LocalRecipientPolicy list \<Rightarrow> (string \<times> string \<times> string) list" where
  "member_rows ps = map (\<lambda>p. (PolicyIcon (lp_Policy p), ShortID (lp_Recipient p), RecipientPolicy_String (lp_Policy p))) ps"

definition listContexts :: "'c ContextStore \<Rightarrow> 'c \<Rightarrow> chat_out" where
  "listContexts S st = ContextsListed (map (\<lambda>c. (c, length (cs_ListPolicies S (mc_ContextID c) st))) (cs_ListContexts S st))"

definition showContext :: "'c ContextStore \<Rightarrow> string \<Rightarrow> 'c \<Rightarrow> chat_out" where
  "showContext S i st =
     (case cs_LoadContext S i st of
        Inl _ \<Rightarrow> NoSuchContext i
      | Inr meta \<Rightarrow> ContextDetail meta (member_rows (cs_ListPolicies S i st)))"

definition printMembers :: "'c ContextStore \<Rightarrow> string \<Rightarrow> 'c \<Rightarrow> chat_out" where
  "printMembers S i st =
     (case cs_LoadContext S i st of
        Inl _ \<Rightarrow> NoSuchContext i
      | Inr meta \<Rightarrow> MembersOf meta (member_rows (cs_ListPolicies S i st)))"

text \<open>The policy commands; \<open>resolve\<close> turns the typed peer into an ID.\<close>

definition exec_policy ::
  "prims \<Rightarrow> 'c ContextStore \<Rightarrow> chat_io \<Rightarrow> (string \<Rightarrow> peer_error + string) \<Rightarrow> string \<Rightarrow> string \<Rightarrow> string \<Rightarrow> ('c, 'd) Fanout \<Rightarrow>
   chat_out \<times> ('c, 'd) Fanout" where
  "exec_policy P S io resolve sub ctxID typed f =
     (case cs_LoadContext S ctxID (CtxStore f) of
        Inl _ \<Rightarrow> (NoSuchContext ctxID, f)
      | Inr _ \<Rightarrow>
          (case resolve typed of
             Inl e \<Rightarrow> (ChatPeer e, f)
           | Inr peerID \<Rightarrow>
               if \<not> ValidatePeerID P peerID then (InvalidPeer typed, f)
               else case policyForSub sub of
                 None \<Rightarrow> (UnknownSub sub, f)
               | Some policy \<Rightarrow>
                   (case SetRecipientPolicy S (ci_contexts io) (ci_now io) ctxID peerID policy f of
                      (Some e, f') \<Rightarrow> (ChatFanout e, f')
                    | (None, f') \<Rightarrow> (PolicySet (verbForSub sub) peerID ctxID policy, f'))))"

definition words :: "string list \<Rightarrow> string" where
  "words ws = join_with CHR '' '' ws"

definition shown_context :: "(MessageContext \<Rightarrow> chat_out) \<Rightarrow> (fanout_error + MessageContext) \<times> ('c, 'd) Fanout \<Rightarrow> chat_out \<times> ('c, 'd) Fanout" where
  "shown_context out r = (case r of (Inl e, f) \<Rightarrow> (ChatFanout e, f) | (Inr c, f) \<Rightarrow> (out c, f))"

text \<open>Creating and renaming sign with the key of the active client, \<open>priv\<close>; without one the code dereferences a null pointer.\<close>

definition execContext ::
  "prims \<Rightarrow> 'c ContextStore \<Rightarrow> chat_io \<Rightarrow> book option \<Rightarrow> State \<Rightarrow> bytes option \<Rightarrow> string list \<Rightarrow> ('c, 'd) Fanout \<Rightarrow> chat_out \<times> ('c, 'd) Fanout" where
  "execContext P S io bk s priv args f =
     (case args of
        [] \<Rightarrow> (Usage ''context'', f)
      | sub # rest \<Rightarrow>
          if sub = ''create'' then
            (if rest = [] then (Usage ''context create'', f)
             else case priv of
               None \<Rightarrow> (ChatPanic, f)
             | Some k \<Rightarrow> shown_context ContextCreated (CreateContext P S (ci_contexts io) (ci_coins io) (words rest) k f))
          else if sub = ''list'' \<or> sub = ''ls'' then (listContexts S (CtxStore f), f)
          else if sub = ''show'' then
            (case rest of [] \<Rightarrow> (Usage ''context show'', f) | i # _ \<Rightarrow> (showContext S i (CtxStore f), f))
          else if sub = ''rename'' then
            (case rest of
               i # n # ns \<Rightarrow>
                 (case priv of
                    None \<Rightarrow> (ChatPanic, f)
                  | Some k \<Rightarrow> shown_context ContextRenamed (UpdateContext P S (ci_contexts io) i (words (n # ns)) k f))
             | _ \<Rightarrow> (Usage ''context rename'', f))
          else if sub \<in> set contextPeerSubcommands then
            (case rest of
               i # peer # _ \<Rightarrow> exec_policy P S io (\<lambda>t. ResolvePeer bk t s) sub i peer f
             | _ \<Rightarrow> (Usage (''context '' @ sub), f))
          else if sub = ''members'' then
            (case rest of [] \<Rightarrow> (Usage ''context members'', f) | i # _ \<Rightarrow> (printMembers S i (CtxStore f), f))
          else (UnknownSub sub, f))"

definition active_recipients :: "LocalRecipientPolicy list \<Rightarrow> string list" where
  "active_recipients ps =
     map lp_Recipient (filter (\<lambda>p. lp_Policy p \<noteq> PolicyBlocked \<and> lp_Policy p \<noteq> PolicyExcluded) ps)"

text \<open>Without a relay every encrypted copy is exported as a container for its recipient.\<close>

definition export_containers :: "fanout_error DeliveryResult list \<Rightarrow> (string \<times> bytes) list" where
  "export_containers ds =
     List.map_filter (\<lambda>d.
       if dr_Status d \<noteq> DeliverySent then None
       else case dr_Ciphertext d of
         None \<Rightarrow> None
       | Some ct \<Rightarrow>
           if ct = [] then None
           else (case EncodeContainer TypeMultiMsg ct of Inl _ \<Rightarrow> None | Inr c \<Rightarrow> Some (dr_Recipient d, c))) ds"

definition execSendMulti ::
  "prims \<Rightarrow> packets \<Rightarrow> 'c ContextStore \<Rightarrow> 'd DeliveryStore \<Rightarrow> (nat \<Rightarrow> nat) \<Rightarrow> chat_io \<Rightarrow> string \<Rightarrow> bool \<Rightarrow> string list \<Rightarrow>
   ('c, 'd) Fanout \<Rightarrow> threads option \<Rightarrow> filesystem \<Rightarrow> chat_out \<times> ('c, 'd) Fanout \<times> threads option \<times> filesystem" where
  "execSendMulti P K S D fold_case io me worker args f box fs =
     (case args of
        ctxRef # w # ws \<Rightarrow>
          let message = words (w # ws) in
          (case ResolveContextRef fold_case S ctxRef (CtxStore f) of
             None \<Rightarrow> (NoSuchContext ctxRef, f, box, fs)
           | Some (meta, ps) \<Rightarrow>
               if active_recipients ps = [] then (NoEnabledRecipients (mc_DisplayName meta), f, box, fs)
               else
                 (case SendMultiMessage P S D (ci_network io) (ci_coins io) (ci_draws io) (ci_now io) (ci_client io) (ci_marks io)
                         (mc_ContextID meta) (to_bytes message) (active_recipients ps) f of
                    (Inl e, f') \<Rightarrow> (ChatFanout e, f', box, fs)
                  | (Inr result, f') \<Rightarrow>
                      let exports = (if worker then [] else export_containers (fr_Deliveries result)) in
                      (case box of
                         None \<Rightarrow> (MultiSent meta result exports None, f', box, fs)
                       | Some mb \<Rightarrow>
                           (case AppendGroupOutgoing P K (ci_save io) (ci_clock io) (fileFor me)
                                   (mc_ContextID meta) (mc_DisplayName meta) message (mb, fs) of
                              (err, mb', fs') \<Rightarrow> (MultiSent meta result exports err, f', Some mb', fs')))))
      | _ \<Rightarrow> (Usage ''send-multi'', f, box, fs))"

definition execMailbox ::
  "prims \<Rightarrow> packets \<Rightarrow> (64 word \<Rightarrow> string) \<Rightarrow> (64 word \<Rightarrow> string) \<Rightarrow> save_io \<Rightarrow> book option \<Rightarrow> string \<Rightarrow> string list \<Rightarrow> State \<Rightarrow> filesystem \<Rightarrow>
   chat_out \<times> State \<times> filesystem" where
  "execMailbox P K day_of clock_of io bk me args s fs =
     (case MailboxStore s of
        None \<Rightarrow> (NoMailbox, s, fs)
      | Some st \<Rightarrow>
          (case args of
             [] \<Rightarrow> (MailboxListing (RenderMailboxList st), s, fs)
           | a # _ \<Rightarrow>
               (case ResolveThreadKey bk s a of
                  Inl e \<Rightarrow> (ThreadFailed e, s, fs)
                | Inr key \<Rightarrow>
                    (case Mailbox_Read P K io (fileFor me) key (st, fs) of
                       (r, st', fs') \<Rightarrow>
                         (case r of
                            Inl e \<Rightarrow> ReadFailed e
                          | Inr (msgs, Some e) \<Rightarrow> ReadFailed e
                          | Inr (msgs, None) \<Rightarrow> ThreadListing (RenderThread day_of clock_of key msgs),
                          s\<lparr>MailboxStore := Some st'\<rparr>, fs')))))"

definition Handles :: "string \<Rightarrow> bool" where
  "Handles cmd \<longleftrightarrow> cmd \<in> {''context'', ''send-multi'', ''contexts'', ''mailbox''}"

text \<open>
  The group layer holds a client object.  It is the active one, except after an identity was created without rebinding the
  group layer; clients of different identities are different objects.
\<close>

definition on_client :: "State \<Rightarrow> ('c, 'd) Fanout \<Rightarrow> ('c, 'd) Fanout" where
  "on_client s f =
     (case ActiveClient s of None \<Rightarrow> f | Some cl \<Rightarrow> if cl_Id cl = cl_Id (fo_client f) then f\<lparr>fo_client := cl\<rparr> else f)"

definition handed_back :: "State \<Rightarrow> ('c, 'd) Fanout \<Rightarrow> Client option" where
  "handed_back s f =
     (case ActiveClient s of None \<Rightarrow> None | Some cl \<Rightarrow> Some (if cl_Id cl = cl_Id (fo_client f) then fo_client f else cl))"

definition identity_key :: "State \<Rightarrow> bytes option" where
  "identity_key s = map_option (\<lambda>cl. k_idPriv (cl_keys cl)) (ActiveClient s)"

definition shell_context ::
  "prims \<Rightarrow> packets \<Rightarrow> chat_io \<Rightarrow> book option \<Rightarrow> string list \<Rightarrow> State \<Rightarrow> chat_out \<times> State" where
  "shell_context P K io bk args s =
     (case st_Fanout s of
        None \<Rightarrow> (NeedIdentity, s)
      | Some (FileFan f) \<Rightarrow>
          (case execContext P (FileContexts P K) io bk s (identity_key s) args (on_client s f) of
             (out, f') \<Rightarrow> (out, s\<lparr>st_Fanout := Some (FileFan f'), ActiveClient := handed_back s f'\<rparr>))
      | Some (MemoryFan f) \<Rightarrow>
          (case execContext P MemoryContexts io bk s (identity_key s) args (on_client s f) of
             (out, f') \<Rightarrow> (out, s\<lparr>st_Fanout := Some (MemoryFan f'), ActiveClient := handed_back s f'\<rparr>)))"

definition shell_send_multi ::
  "prims \<Rightarrow> packets \<Rightarrow> (nat \<Rightarrow> nat) \<Rightarrow> chat_io \<Rightarrow> string \<Rightarrow> string list \<Rightarrow> State \<Rightarrow> filesystem \<Rightarrow> chat_out \<times> State \<times> filesystem" where
  "shell_send_multi P K fold_case io me args s fs =
     (case (st_Fanout s, ActiveClient s) of
        (Some (FileFan f), Some cl) \<Rightarrow>
          (case execSendMulti P K (FileContexts P K) (FileDeliveries P K) fold_case io me (st_relay s) args (on_client s f) (MailboxStore s) fs of
             (out, f', box, fs') \<Rightarrow>
               (out, s\<lparr>st_Fanout := Some (FileFan f'), ActiveClient := handed_back s f', MailboxStore := box\<rparr>, fs'))
      | (Some (MemoryFan f), Some cl) \<Rightarrow>
          (case execSendMulti P K MemoryContexts MemoryDeliveries fold_case io me (st_relay s) args (on_client s f) (MailboxStore s) fs of
             (out, f', box, fs') \<Rightarrow>
               (out, s\<lparr>st_Fanout := Some (MemoryFan f'), ActiveClient := handed_back s f', MailboxStore := box\<rparr>, fs'))
      | _ \<Rightarrow> (NeedIdentity, s, fs))"

definition execContextsList :: "prims \<Rightarrow> packets \<Rightarrow> State \<Rightarrow> chat_out" where
  "execContextsList P K s =
     (case st_Fanout s of
        None \<Rightarrow> NeedIdentity
      | Some (FileFan f) \<Rightarrow> listContexts (FileContexts P K) (CtxStore f)
      | Some (MemoryFan f) \<Rightarrow> listContexts MemoryContexts (CtxStore f))"

text \<open>The mailbox of the state was opened for the identity \<open>me\<close>.  \<open>None\<close> is a word of another package.\<close>

definition Chat_Execute ::
  "prims \<Rightarrow> packets \<Rightarrow> (nat \<Rightarrow> nat) \<Rightarrow> (64 word \<Rightarrow> string) \<Rightarrow> (64 word \<Rightarrow> string) \<Rightarrow> chat_io \<Rightarrow> book option \<Rightarrow> string \<Rightarrow> string \<Rightarrow> string list \<Rightarrow>
   State \<Rightarrow> filesystem \<Rightarrow> chat_out option \<times> State \<times> filesystem" where
  "Chat_Execute P K fold_case day_of clock_of io bk me cmd args s fs =
     (if cmd = ''context'' then (case shell_context P K io bk args s of (out, s') \<Rightarrow> (Some out, s', fs))
      else if cmd = ''send-multi'' then (case shell_send_multi P K fold_case io me args s fs of (out, s', fs') \<Rightarrow> (Some out, s', fs'))
      else if cmd = ''contexts'' then (Some (execContextsList P K s), s, fs)
      else if cmd = ''mailbox'' then (case execMailbox P K day_of clock_of (ci_save io) bk me args s fs of (out, s', fs') \<Rightarrow> (Some out, s', fs'))
      else (None, s, fs))"

subsection \<open>Completion\<close>

definition suffixCandidates :: "string list \<Rightarrow> string \<Rightarrow> string list" where
  "suffixCandidates cands fragment = filter (\<lambda>c. HasPrefix c fragment) cands"

definition CompleteContextArgs :: "book option \<Rightarrow> State \<Rightarrow> string list \<Rightarrow> int \<Rightarrow> string \<Rightarrow> string list" where
  "CompleteContextArgs bk s typed argIndex fragment =
     (if argIndex \<le> 0 then suffixCandidates contextSubcommands fragment
      else
        let i = nat (argIndex - 1); sub = (if i < length typed then typed ! i else []) in
        if sub \<in> set (''show'' # ''rename'' # ''members'' # contextPeerSubcommands) then
          (if argIndex = 1 then suffixCandidates (ContextCandidates s) fragment
           else if argIndex = 2 \<and> sub \<in> set contextPeerSubcommands then suffixCandidates (PeerCandidates bk s) fragment
           else [])
        else [])"

definition ContextCommandSpec :: CommandSpec where
  "ContextCommandSpec = (spec ''context'')\<lparr>sp_Usage := ''context <create|list|show|rename|add|exclude|remove|include|mute|block|members> ...'',
     sp_Help := ''Manage multi-message contexts (groups)''\<rparr>"

definition Chat_Specs :: "CommandSpec list" where
  "Chat_Specs =
     [ContextCommandSpec,
      (spec ''send-multi'')\<lparr>sp_Args := [ArgContext, ArgText], sp_Usage := ''send-multi <context_id> <message>'',
        sp_Help := ''Encrypt one copy per member; relay or export containers''\<rparr>,
      (spec ''contexts'')\<lparr>sp_Help := ''List all multi-message contexts''\<rparr>,
      (spec ''mailbox'')\<lparr>sp_Args := [ArgThread], sp_Usage := ''mailbox [peer|group]'',
        sp_Help := ''List chats & groups, or read one thread (marks read)''\<rparr>]"

end
