(* ===== verification/GroupChatProps.thy ===== *)
theory GroupChatProps
  imports GroupChat DispatchProps
begin

text \<open>
  Properties of the group chat: a pasted frame is processed like one from a relay, a message exported as a container
  reaches its recipient, and the commands keep the member lists well formed.
\<close>

subsection \<open>Containers\<close>

lemma decodeText_body: "decodeText pt = fst (body_text pt)"
  by (simp add: decodeText_def body_text_def)

lemma container_decodes:
  assumes "container_law J" "t \<in> {1, 2, 3, 4}" "EncodeContainer t p = Inr c"
  shows "DecodeContainer J c = Inr (t, p)"
  using container_roundtrip [OF assms(1,2), of p] assms(3) by auto

text \<open>
  What pasting a frame answers, given what the receive path answers for the same frame from a relay.  A group message already
  taken in is a duplicate for the one, and no event or a replay error for the other; a replayed direct message is an error for both.
\<close>

fun reports :: "outcome \<Rightarrow> ingest_error + IngestEvent \<Rightarrow> bool" where
  "reports (Some e, None) r \<longleftrightarrow>
     r = Inr \<lparr>ie_Kind = ev_Type e, ie_Sender = ev_Sender e, ie_Context = ev_Context e, ie_ContextID = ev_ContextID e, ie_Message = ev_Message e\<rparr>"
| "reports (None, None) r \<longleftrightarrow> r = Inr duplicate_event"
| "reports (ev, Some x) r \<longleftrightarrow>
     (case x of
        GroupReplay \<Rightarrow> r = Inr duplicate_event
      | GroupError e \<Rightarrow> r = Inl (IngestGroup e)
      | StoreGroup m \<Rightarrow> r = Inl (IngestStoreGroup m)
      | NoFanout \<Rightarrow> r = Inl NoStoresLoaded
      | MessageReplay \<Rightarrow> (case r of Inl (IngestDecrypt e) \<Rightarrow> is_replay e | _ \<Rightarrow> False)
      | MessageDecrypt e \<Rightarrow> r = Inl (IngestDecrypt e)
      | StoreIncoming m \<Rightarrow> r = Inl (IngestStore m)
      | _ \<Rightarrow> False)"

lemma Decrypt_keeps_Id [simp]: "cl_Id (snd (Client_Decrypt P wr w c)) = cl_Id c"
  by (auto simp: Client_Decrypt_def SaveClient_def split: sum.splits option.splits prod.splits write_result.splits)

lemma learn_context_client: "fo_client (snd (learn_context P S io parsed f)) = fo_client f"
  by (auto simp: learn_context_def Let_def dest: ApplyRemote_frame' split: option.splits sum.splits prod.splits)

lemma ProcessDelivery_keeps_Id: "cl_Id (fo_client (snd (ProcessDelivery P S wr io me w f))) = cl_Id (fo_client f)"
  by (auto simp: ProcessDelivery_def Let_def case_prod_beta learn_context_client split: sum.splits prod.splits)

lemma ingest_message_dispatch:
  "snd (ingest_message P K io (cl_Id (dp_Client d)) data d) = snd (handleMessage P K io data d)"
  "reports (fst (handleMessage P K io data d)) (fst (ingest_message P K io (cl_Id (dp_Client d)) data d))"
  by (auto simp: ingest_message_def handleMessage_def decodeText_body Event_zero_def Let_def case_prod_beta
      split: sum.splits option.splits)

text \<open>The group layer of \<open>d\<close>, if any, is the client's.\<close>

definition own_fanout :: "('c, 'd) Deps \<Rightarrow> bool" where
  "own_fanout d \<longleftrightarrow> (case dp_Fanout d of None \<Rightarrow> True | Some f \<Rightarrow> cl_Id (fo_client f) = cl_Id (dp_Client d))"

lemma reports_group_error:
  "reports (if e = Duplicate then (None, None) else (None, Some (describeDecryptError e)))
     (if seen_before e then Inr duplicate_event else Inl (IngestGroup e))"
  by (cases e) simp_all

lemma ingest_group_dispatch:
  assumes "own_fanout d"
  shows "snd (ingest_group P K S io (cl_Id (dp_Client d)) data d) = snd (handleMultiMessage P K S io data d)"
    "reports (fst (handleMultiMessage P K S io data d)) (fst (ingest_group P K S io (cl_Id (dp_Client d)) data d))"
proof -
  have "snd (ingest_group P K S io (cl_Id (dp_Client d)) data d) = snd (handleMultiMessage P K S io data d) \<and>
    reports (fst (handleMultiMessage P K S io data d)) (fst (ingest_group P K S io (cl_Id (dp_Client d)) data d))"
  proof (cases "dp_Fanout d")
    case None
    then show ?thesis by (simp add: ingest_group_def handleMultiMessage_def)
  next
    case (Some f)
    then have own: "cl_Id (fo_client f) = cl_Id (dp_Client d)" using assms by (simp add: own_fanout_def)
    obtain r f' where run: "ProcessDelivery P S (fi_write io) (fi_contexts io) (cl_Id (dp_Client d)) data (f\<lparr>fo_client := dp_Client d\<rparr>) = (r, f')"
      by fastforce
    have keep: "cl_Id (fo_client f') = cl_Id (dp_Client d)"
      using ProcessDelivery_keeps_Id [of P S "fi_write io" "fi_contexts io" "cl_Id (dp_Client d)" data "f\<lparr>fo_client := dp_Client d\<rparr>"] by (simp add: run)
    show ?thesis
    proof (cases r)
      case (Inl e)
      then show ?thesis
        using reports_group_error [of e] by (simp add: ingest_group_def handleMultiMessage_def Some own run Let_def)
    next
      case (Inr im)
      then show ?thesis
        by (auto simp: ingest_group_def handleMultiMessage_def Some own run keep decodeText_body Event_zero_def Let_def case_prod_beta
            split: option.splits)
    qed
  qed
  then show "snd (ingest_group P K S io (cl_Id (dp_Client d)) data d) = snd (handleMultiMessage P K S io data d)"
    "reports (fst (handleMultiMessage P K S io data d)) (fst (ingest_group P K S io (cl_Id (dp_Client d)) data d))"
    by blast+
qed

text \<open>
  C36.  A pasted container with a message or a group message is processed exactly like the same frame from a relay:
  client, group stores, mailbox and disk end up the same, and the answers correspond: the same sender, group and text, or the same
  error; only a group message already taken in is a duplicate for the one, and no event or a replay error for the other.  A
  pasted offer or answer, which the receive path would act on, is refused and changes nothing.
\<close>

theorem ingest_as_dispatch:
  assumes "DecodeContainer J raw = Inr (t, data)" "data \<noteq> []" "own_fanout d"
  shows "(if t = TypeMessage \<or> t = TypeMultiMsg
      then snd (Ingest P K J S io (cl_Id (dp_Client d)) raw d) = snd (DispatchFrame P K L S io (WrapEnvelope t data) d) \<and>
           reports (fst (DispatchFrame P K L S io (WrapEnvelope t data) d)) (fst (Ingest P K J S io (cl_Id (dp_Client d)) raw d))
      else Ingest P K J S io (cl_Id (dp_Client d)) raw d = (Inl (HandshakeFrame (case Names t of None \<Rightarrow> [] | Some n \<Rightarrow> n)), d))"
proof (cases "t = TypeMessage \<or> t = TypeMultiMsg")
  case True
  then have "Frame_Unwrap (WrapEnvelope t data) = Inr (t, data)"
    using assms(2) by (auto simp: Frame_Unwrap_def WrapEnvelope_def Type_Valid_iff type_defs Let_def)
  then show ?thesis
    using assms(1) True ingest_group_dispatch [OF assms(3)] ingest_message_dispatch by (auto simp: Ingest_def DispatchFrame_def type_defs)
qed (use assms(1) in \<open>simp add: Ingest_def\<close>)

definition toy_paste :: bytes where
  "toy_paste = container_json ''message'' (b64_encode [3, 7, 7])"

theorem ingest_as_dispatch_witness:
  "snd (Ingest tight toy_packets toy_container tight_contexts (toy_io None) (cl_Id toy_bob) toy_paste (toy_deps toy_bob)) =
   snd (DispatchFrame tight toy_packets toy_json tight_contexts (toy_io None) (WrapEnvelope TypeMessage [7, 7]) (toy_deps toy_bob)) \<and>
   reports (fst (DispatchFrame tight toy_packets toy_json tight_contexts (toy_io None) (WrapEnvelope TypeMessage [7, 7]) (toy_deps toy_bob)))
     (fst (Ingest tight toy_packets toy_container tight_contexts (toy_io None) (cl_Id toy_bob) toy_paste (toy_deps toy_bob)))"
proof -
  have "EncodeContainer TypeMessage [7, 7] = Inr toy_paste"
    by (simp add: EncodeContainer_def Names_def type_defs toy_paste_def WrapEnvelope_def)
  then have "DecodeContainer toy_container toy_paste = Inr (TypeMessage, [7, 7])"
    by (intro container_decodes [OF toy_container_law]) (simp add: type_defs)
  moreover have "own_fanout (toy_deps toy_bob)" "dp_Client (toy_deps toy_bob) = toy_bob" by (simp_all add: own_fanout_def toy_deps_def)
  ultimately show ?thesis
    using ingest_as_dispatch [of toy_container toy_paste TypeMessage "[7, 7]" "toy_deps toy_bob" tight toy_packets tight_contexts "toy_io None" toy_json]
    by simp
qed

subsection \<open>A group message by hand\<close>

text \<open>
  Alice, with the group layer \<open>f\<close>, can reach \<open>bob\<close>, with the group layer \<open>g\<close>, in the group \<open>c\<close> with the recipients \<open>rs\<close>: their
  sessions are in step and he has not seen the message that the coins name.
\<close>

definition group_touch ::
  "prims \<Rightarrow> 'c ContextStore \<Rightarrow> bytes \<Rightarrow> (nat \<Rightarrow> draw) \<Rightarrow> string \<Rightarrow> MessageContext \<Rightarrow> string list \<Rightarrow> ('c, 'd) Fanout \<Rightarrow> ('e, 'f) Fanout \<Rightarrow> bool" where
  "group_touch P S coins draws bob c rs f g \<longleftrightarrow>
     (\<exists>a b s adr adr'. mirrored P a b \<and> duplex_reach P (cl_Id (fo_client f)) bob (fresh_duplex a b) s \<and> toB s = [] \<and>
        (\<forall>i. p_basemult P (dw_key (draws i)) \<noteq> DhPublic (pA s)) \<and> SendNonce (pA s) < 2 ^ 31 \<and>
        map_of (Sessions (fo_client f)) bob = Some adr \<and> heap (fo_client f) adr = Some (pA s) \<and>
        map_of (Sessions (fo_client g)) (cl_Id (fo_client f)) = Some adr' \<and> heap (fo_client g) adr' = Some (pB s)) \<and>
     ready_to_send P S (mc_ContextID c) rs bob c f \<and>
     meta_fits \<lparr>dm_MessageID = GenerateMessageID coins, dm_ContextID = mc_ContextID c, dm_Sender = cl_Id (fo_client f),
       dm_Recipient = bob, dm_Version = mc_MetadataVersion c\<rparr> \<and>
     \<not> seenMessages g (cl_Id (fo_client f), GenerateMessageID coins)"

lemma group_touch_delivered:
  assumes laws: "np_law P" "aead_law P" "hkdf_law P" "dh_law P" and touch: "group_touch P S coins draws bob c rs f g"
  obtains r f' x ct im g' where
    "SendMultiMessage P S D net coins draws ts wr mio (mc_ContextID c) pt rs f = (Inr r, f')" "x \<in> set (fr_Deliveries r)"
    "dr_Recipient x = bob" "dr_Status x = DeliverySent" "dr_Ciphertext x = Some ct" "ct \<noteq> []"
    "ProcessDelivery P S' wr' io bob ct g = (Inr im, g')" "im_Sender im = cl_Id (fo_client f)" "im_Plaintext im = pt"
    "dm_ContextID (im_Meta im) = mc_ContextID c"
    "\<forall>e s'. cs_LoadContext S' (mc_ContextID c) (CtxStore g) = Inl e \<and> cs_SaveContext S' io c (CtxStore g) = (None, s') \<longrightarrow> im_Context im = Some c"
    "\<exists>p g1. ps_Context p = Some c \<and> dm_ContextID (ps_Meta p) = mc_ContextID c \<and> CtxStore g1 = CtxStore g \<and> attachable P c \<and>
       learn_context P S' io p g1 = (im_Context im, g')"
proof -
  obtain a b s adr adr' where t: "mirrored P a b" "duplex_reach P (cl_Id (fo_client f)) bob (fresh_duplex a b) s" "toB s = []"
      "\<forall>i. p_basemult P (dw_key (draws i)) \<noteq> DhPublic (pA s)" "SendNonce (pA s) < 2 ^ 31"
      "map_of (Sessions (fo_client f)) bob = Some adr" "heap (fo_client f) adr = Some (pA s)"
      "map_of (Sessions (fo_client g)) (cl_Id (fo_client f)) = Some adr'" "heap (fo_client g) adr' = Some (pB s)"
    using touch unfolding group_touch_def by blast
  have r: "ready_to_send P S (mc_ContextID c) rs bob c f"
      "meta_fits \<lparr>dm_MessageID = GenerateMessageID coins, dm_ContextID = mc_ContextID c, dm_Sender = cl_Id (fo_client f),
         dm_Recipient = bob, dm_Version = mc_MetadataVersion c\<rparr>"
      "\<not> seenMessages g (cl_Id (fo_client f), GenerateMessageID coins)"
    using touch unfolding group_touch_def by blast+
  show thesis
    using group_delivery_run [OF laws t(1-5) r(1) t(6-9) r(2) refl r(3), of D net ts wr mio pt S' wr' io] that by fastforce
qed

lemma export_containers_set:
  assumes "x \<in> set ds" "dr_Status x = DeliverySent" "dr_Ciphertext x = Some ct" "ct \<noteq> []" "EncodeContainer TypeMultiMsg ct = Inr c"
  shows "(dr_Recipient x, c) \<in> set (export_containers ds)"
  using assms by (auto simp: export_containers_def List.map_filter_def image_iff intro!: bexI [of _ x])

lemma exec_send_exports:
  assumes "ResolveContextRef fold_case S ref (CtxStore f) = Some (c, ps)" "active_recipients ps \<noteq> []"
    and "SendMultiMessage P S D (ci_network io) (ci_coins io) (ci_draws io) (ci_now io) (ci_client io) (ci_marks io)
        (mc_ContextID c) (to_bytes (words (w # ws))) (active_recipients ps) f = (Inr res, f')"
  shows "\<exists>err boxA' fs'. execSendMulti P K S D fold_case io me False (ref # w # ws) f (Some boxA) fs =
      (MultiSent c res (export_containers (fr_Deliveries res)) err, f', Some boxA', fs') \<and>
     thread_messages boxA' (groupKey (mc_ContextID c)) = thread_messages boxA (groupKey (mc_ContextID c)) @
       [appendDefaults (ci_clock io) ((new_message Outgoing Group (words (w # ws)))
          \<lparr>m_Sender := ''Me'', m_ContextID := mc_ContextID c, m_ContextName := mc_DisplayName c\<rparr>)]"
  using assms by (auto simp: execSendMulti_def Let_def AppendGroupOutgoing_def Mailbox_append_def thread_messages_append split: prod.splits)

text \<open>Taking in a group message that decrypts stores it in the conversation of the group.\<close>

lemma ingest_group_stores:
  assumes "ProcessDelivery P S (fi_write io) (fi_contexts io) (cl_Id (dp_Client d)) payload g = (Inr im, g')"
    and "dp_Fanout d = Some g" "dp_Mailbox d = Some box" "dp_Client d = fo_client g"
  shows "\<exists>r d' box'. ingest_group P K S io me payload d = (r, d') \<and> dp_Mailbox d' = Some box' \<and>
     (\<forall>ev. r = Inr ev \<longrightarrow> ie_Kind ev = ''group_message'' \<and> ie_Sender ev = im_Sender im \<and> ie_Message ev = decodeText (im_Plaintext im) \<and>
        ie_ContextID ev = InboundMessage_ContextID im \<and> ie_Context ev = InboundMessage_DisplayName im) \<and>
     (\<forall>e. r = Inl e \<longrightarrow> (\<exists>m. e = IngestStoreGroup m)) \<and>
     (\<forall>k. thread_messages box' k = thread_messages box k @
        (if k = groupKey (InboundMessage_ContextID im)
         then [appendDefaults (fi_clock io) ((new_message Incoming Group (decodeText (im_Plaintext im)))
                 \<lparr>m_Sender := im_Sender im, m_ContextID := InboundMessage_ContextID im, m_ContextName := InboundMessage_DisplayName im\<rparr>)]
         else []))"
  using assms by (auto simp: ingest_group_def Let_def AppendGroupIncoming_def Mailbox_append_def thread_messages_append
      split: prod.splits option.splits)

text \<open>
  The name under which a recipient files a message of the group \<open>c\<close>: that of the descriptor on file if it is at least as new,
  else that of the sender's if it can be saved.
\<close>

definition filed_name :: "'c ContextStore \<Rightarrow> two_writes \<Rightarrow> MessageContext \<Rightarrow> 'c \<Rightarrow> string option" where
  "filed_name S io c st =
     (case cs_LoadContext S (mc_ContextID c) st of
        Inr c0 \<Rightarrow>
          if mc_MetadataVersion c \<le> mc_MetadataVersion c0 then Some (mc_DisplayName c0)
          else if fst (cs_SaveContext S io c st) = None then Some (mc_DisplayName c) else None
      | Inl _ \<Rightarrow> if fst (cs_SaveContext S io c st) = None then Some (mc_DisplayName c) else None)"

text \<open>
  C35.  Without a relay a group message travels by hand: the command \<^verbatim>\<open>send-multi\<close> exports a container for the
  recipient, and when the recipient pastes it, the text is the last message of the conversation of that group, from the sender,
  and no other conversation changes, whether he knew the group or not; it is reported, or the mailbox file could not be
  written.  It is shown under the name of the descriptor on file, or of the sender's if that is newer.  On the sender's side
  the text is recorded in the conversation of the group as well.
\<close>

theorem group_by_container:
  assumes laws: "np_law P" "aead_law P" "hkdf_law P" "dh_law P" and J: "container_law J"
    and A: "ResolveContextRef fold_case S ref (CtxStore f) = Some (c, ps)" "text = words (w # ws)"
    and touch: "group_touch P S (ci_coins io) (ci_draws io) bob c (active_recipients ps) f g"
    and B: "dp_Fanout d = Some g" "dp_Client d = fo_client g" "cl_Id (dp_Client d) = bob" "dp_Mailbox d = Some boxB"
    and store: "context_table S' ok" "ok (CtxStore g)"
  shows "\<exists>res exports err f' boxA' fs' container r d' boxB' name.
     execSendMulti P K S D fold_case io me False (ref # w # ws) f (Some boxA) fs = (MultiSent c res exports err, f', Some boxA', fs') \<and>
     thread_messages boxA' (groupKey (mc_ContextID c)) = thread_messages boxA (groupKey (mc_ContextID c)) @
       [appendDefaults (ci_clock io) ((new_message Outgoing Group text)\<lparr>m_Sender := ''Me'', m_ContextID := mc_ContextID c, m_ContextName := mc_DisplayName c\<rparr>)] \<and>
     (bob, container) \<in> set exports \<and> Ingest P K J S' io' bob container d = (r, d') \<and> dp_Mailbox d' = Some boxB' \<and>
     (r = Inr \<lparr>ie_Kind = ''group_message'', ie_Sender = cl_Id (fo_client f), ie_Context = name, ie_ContextID = mc_ContextID c, ie_Message = decodeText (to_bytes text)\<rparr> \<or>
      (\<exists>e. r = Inl (IngestStoreGroup e))) \<and>
     (\<forall>k. thread_messages boxB' k = thread_messages boxB k @
        (if k = groupKey (mc_ContextID c)
         then [appendDefaults (fi_clock io') ((new_message Incoming Group (decodeText (to_bytes text)))
                 \<lparr>m_Sender := cl_Id (fo_client f), m_ContextID := mc_ContextID c, m_ContextName := name\<rparr>)]
         else [])) \<and>
     (\<forall>n. filed_name S' (fi_contexts io') c (CtxStore g) = Some n \<and> n \<noteq> [] \<longrightarrow> name = n)"
proof -
  obtain res f' x ct im g' where send: "SendMultiMessage P S D (ci_network io) (ci_coins io) (ci_draws io) (ci_now io) (ci_client io) (ci_marks io)
        (mc_ContextID c) (to_bytes text) (active_recipients ps) f = (Inr res, f')"
    and x: "x \<in> set (fr_Deliveries res)" "dr_Recipient x = bob" "dr_Status x = DeliverySent" "dr_Ciphertext x = Some ct" "ct \<noteq> []"
    and recv: "ProcessDelivery P S' (fi_write io') (fi_contexts io') bob ct g = (Inr im, g')" "im_Sender im = cl_Id (fo_client f)"
      "im_Plaintext im = to_bytes text" "dm_ContextID (im_Meta im) = mc_ContextID c"
    and new: "\<forall>e s'. cs_LoadContext S' (mc_ContextID c) (CtxStore g) = Inl e \<and>
        cs_SaveContext S' (fi_contexts io') c (CtxStore g) = (None, s') \<longrightarrow> im_Context im = Some c"
    and learnt: "\<exists>p g1. ps_Context p = Some c \<and> dm_ContextID (ps_Meta p) = mc_ContextID c \<and> CtxStore g1 = CtxStore g \<and> attachable P c \<and>
       learn_context P S' (fi_contexts io') p g1 = (im_Context im, g')"
    by (rule group_touch_delivered [OF laws touch, where D = D and net = "ci_network io" and ts = "ci_now io" and wr = "ci_client io" and
          mio = "ci_marks io" and pt = "to_bytes text" and S' = S' and wr' = "fi_write io'" and io = "fi_contexts io'"]) blast
  obtain container where con: "EncodeContainer TypeMultiMsg ct = Inr container" "DecodeContainer J container = Inr (TypeMultiMsg, ct)"
    using container_roundtrip [OF J, of TypeMultiMsg ct] by (auto simp: type_defs)
  have exported: "(bob, container) \<in> set (export_containers (fr_Deliveries res))"
    using export_containers_set [OF x(1,3,4,5) con(1)] x(2) by simp
  have some: "active_recipients ps \<noteq> []"
    using touch by (auto simp: group_touch_def ready_to_send_def GetEffectiveRecipients_def Let_def)
  obtain err boxA' fs' where alice: "execSendMulti P K S D fold_case io me False (ref # w # ws) f (Some boxA) fs =
      (MultiSent c res (export_containers (fr_Deliveries res)) err, f', Some boxA', fs')"
    and sent: "thread_messages boxA' (groupKey (mc_ContextID c)) = thread_messages boxA (groupKey (mc_ContextID c)) @
       [appendDefaults (ci_clock io) ((new_message Outgoing Group text)\<lparr>m_Sender := ''Me'', m_ContextID := mc_ContextID c, m_ContextName := mc_DisplayName c\<rparr>)]"
    using exec_send_exports [OF A(1) some, where K = K and me = me and boxA = boxA and fs = fs] send unfolding A(2) by metis
  obtain r d' boxB' where ing: "ingest_group P K S' io' bob ct d = (r, d')" "dp_Mailbox d' = Some boxB'"
      "\<forall>ev. r = Inr ev \<longrightarrow> ie_Kind ev = ''group_message'' \<and> ie_Sender ev = im_Sender im \<and> ie_Message ev = decodeText (im_Plaintext im) \<and>
         ie_ContextID ev = InboundMessage_ContextID im \<and> ie_Context ev = InboundMessage_DisplayName im"
      "\<forall>e. r = Inl e \<longrightarrow> (\<exists>m. e = IngestStoreGroup m)"
      "\<forall>k. thread_messages boxB' k = thread_messages boxB k @
        (if k = groupKey (InboundMessage_ContextID im)
         then [appendDefaults (fi_clock io') ((new_message Incoming Group (decodeText (im_Plaintext im)))
                 \<lparr>m_Sender := im_Sender im, m_ContextID := InboundMessage_ContextID im, m_ContextName := InboundMessage_DisplayName im\<rparr>)]
         else [])"
    using ingest_group_stores [of P S' io' d ct g im g' boxB K bob] recv(1) B by auto
  have taken: "Ingest P K J S' io' bob container d = (r, d')" using con(2) ing(1) by (simp add: Ingest_def)
  have shape: "r = Inr \<lparr>ie_Kind = ''group_message'', ie_Sender = cl_Id (fo_client f), ie_Context = InboundMessage_DisplayName im,
      ie_ContextID = InboundMessage_ContextID im, ie_Message = decodeText (to_bytes text)\<rparr> \<or> (\<exists>e. r = Inl (IngestStoreGroup e))"
    using ing(3,4) recv(2,3) by (cases r) auto
  obtain p g1 where p: "ps_Context p = Some c" "dm_ContextID (ps_Meta p) = mc_ContextID c" "CtxStore g1 = CtxStore g" "attachable P c"
      "learn_context P S' (fi_contexts io') p g1 = (im_Context im, g')"
    using learnt by blast
  note learned = context_table.learned [OF store(1) p(5,1,2) store(2) [folded p(3)], unfolded p(3)]
  have cid: "InboundMessage_ContextID im = mc_ContextID c"
  proof (cases "im_Context im")
    case (Some c')
    from learned(1) [OF Some] Some recv(4) show ?thesis by (simp add: InboundMessage_ContextID_def)
  qed (use recv(4) in \<open>simp add: InboundMessage_ContextID_def\<close>)
  have named: "InboundMessage_DisplayName im = n" if "filed_name S' (fi_contexts io') c (CtxStore g) = Some n" "n \<noteq> []" for n
  proof -
    have "\<exists>c'. im_Context im = Some c' \<and> mc_DisplayName c' = n"
      using that(1) learned(2,3) p(4) new by (fastforce simp: filed_name_def prod_eq_iff split: sum.splits if_splits)
    then show ?thesis using that(2) by (auto simp: InboundMessage_DisplayName_def)
  qed
  have all_named: "\<forall>n. filed_name S' (fi_contexts io') c (CtxStore g) = Some n \<and> n \<noteq> [] \<longrightarrow> InboundMessage_DisplayName im = n"
    using named by blast
  show ?thesis
    by (intro exI conjI, rule alice, rule sent, rule exported, rule taken, rule ing(2), rule shape [unfolded cid],
        rule ing(5) [unfolded recv(2,3) cid], rule all_named)
qed

text \<open>The witness: the toy group with Alice's session to Bob, and a mailbox for each.\<close>

definition toy_chat :: chat_io where
  "toy_chat = \<lparr>ci_contexts = (SaveDone, SaveDone), ci_now = 5, ci_coins = [9], ci_draws = toy_draw, ci_network = (\<lambda>_ _ _. False),
     ci_client = Written, ci_marks = (\<lambda>_. SaveDone), ci_save = SaveDone, ci_clock = \<lparr>nowNano = 1, nowMilli = 2\<rparr>\<rparr>"

definition toy_member :: LocalRecipientPolicy where
  "toy_member = \<lparr>lp_ContextID = ''ctx'', lp_Recipient = ''bob'', lp_Policy = PolicyEnabled, lp_UpdatedAt = 0\<rparr>"

definition toy_group_store :: FileContextStore where
  "toy_group_store = toy_ctx_store\<lparr>policies := [(''ctx'', [(''bob'', toy_member)])]\<rparr>"

abbreviation "group_fan \<equiv> toy_fan ''alice'' ''bob'' toy_peer toy_group_store"

lemma toy_group_resolves:
  "ResolveContextRef (\<lambda>x. x) tight_contexts ''ctx'' (CtxStore group_fan) = Some (toy_context ''team'' 1 7, [toy_member])"
  "active_recipients [toy_member] = [''bob'']"
  by (simp_all add: ResolveContextRef_def FileContexts_def File_LoadContext_def File_ListPolicies_def toy_group_store_def toy_ctx_store_def
      toy_member_def active_recipients_def PolicyEnabled_def PolicyBlocked_def PolicyExcluded_def sortPolicies_def)

lemma toy_group_ready: "ready_to_send tight tight_contexts ''ctx'' [''bob''] ''bob'' (toy_context ''team'' 1 7) group_fan"
  by (simp add: ready_to_send_def toy_context_attachable GetEffectiveRecipients_def ListRecipientPolicies_def
      policy_map_def PolicyEnabled_def PolicyBlocked_def PolicyExcluded_def toy_member_def sortPolicies_def
      FileContexts_def File_ListPolicies_def toy_group_store_def File_LoadContext_def toy_ctx_store_def)

definition toy_bob_deps :: "(FileContextStore, FileDeliveryStore) Deps" where
  "toy_bob_deps = \<lparr>dp_Client = fo_client bob_fan, dp_Mailbox = Some [], dp_disk = Map.empty, dp_Fanout = Some bob_fan, dp_sent = []\<rparr>"

lemma toy_group_touch:
  "group_touch tight tight_contexts (ci_coins toy_chat) (ci_draws toy_chat) ''bob'' (toy_context ''team'' 1 7) (active_recipients [toy_member])
     group_fan bob_fan"
  unfolding group_touch_def toy_group_resolves(2)
proof (intro conjI)
  let ?s = "fresh_duplex toy_peer toy_peer'"
  show "\<exists>a b s adr adr'. mirrored tight a b \<and> duplex_reach tight (cl_Id (fo_client group_fan)) ''bob'' (fresh_duplex a b) s \<and> toB s = [] \<and>
        (\<forall>i. p_basemult tight (dw_key (ci_draws toy_chat i)) \<noteq> DhPublic (pA s)) \<and> SendNonce (pA s) < 2 ^ 31 \<and>
        map_of (Sessions (fo_client group_fan)) ''bob'' = Some adr \<and> heap (fo_client group_fan) adr = Some (pA s) \<and>
        map_of (Sessions (fo_client bob_fan)) (cl_Id (fo_client group_fan)) = Some adr' \<and> heap (fo_client bob_fan) adr' = Some (pB s)"
    by (rule exI [of _ toy_peer], rule exI [of _ toy_peer'], rule exI [of _ ?s], rule exI [of _ 0], rule exI [of _ 0])
      (use tight_mirrored toy_group_facts duplex_reach.start in \<open>simp add: toy_chat_def fresh_duplex_def\<close>)
qed (use toy_group_ready toy_group_facts(4) in \<open>simp_all add: toy_chat_def\<close>)

theorem group_by_container_witness:
  "\<exists>res exports err f' boxA' fs' container d' r.
     execSendMulti tight toy_packets tight_contexts tight_deliveries (\<lambda>x. x) toy_chat ''alice'' False [''ctx'', ''Hi''] group_fan (Some []) Map.empty =
       (MultiSent (toy_context ''team'' 1 7) res exports err, f', Some boxA', fs') \<and>
     (''bob'', container) \<in> set exports \<and>
     Ingest tight toy_packets toy_container tight_contexts (toy_io None) ''bob'' container toy_bob_deps = (r, d') \<and>
     (\<exists>box. dp_Mailbox d' = Some box \<and> map m_Body (thread_messages box (groupKey ''ctx'')) = [''Hi''])"
proof -
  have hi: "words [''Hi''] = ''Hi''" "decodeText (to_bytes ''Hi'') = ''Hi''"
  proof -
    have "utf8_valid (to_bytes ''Hi'')" by (rule utf8_valid_ascii) code_simp
    then show "decodeText (to_bytes ''Hi'') = ''Hi''" by (simp add: decodeText_def)
  qed (simp add: words_def)
  have B: "dp_Fanout toy_bob_deps = Some bob_fan" "dp_Client toy_bob_deps = fo_client bob_fan" "cl_Id (dp_Client toy_bob_deps) = ''bob''"
      "dp_Mailbox toy_bob_deps = Some []"
    by (simp_all add: toy_bob_deps_def)
  have tables: "tables_ok (CtxStore bob_fan)" by (simp add: toy_empty_store_def tables_ok_def contexts_ok_def policies_ok_def policy_of_def)
  have body: "m_Body (appendDefaults now m) = m_Body m" for now m by (simp add: appendDefaults_def Let_def)
  from group_by_container [OF tight_laws(4,3,2,1) toy_container_law toy_group_resolves(1) refl toy_group_touch B fctx.context_table_axioms [of tight toy_packets] tables,
      of toy_packets tight_deliveries "''alice''" "''Hi''" "[]" "[]" Map.empty "toy_io None"]
  obtain res exports err f' boxA' fs' container r d' boxB' name where
    "execSendMulti tight toy_packets tight_contexts tight_deliveries (\<lambda>x. x) toy_chat ''alice'' False [''ctx'', ''Hi''] group_fan (Some []) Map.empty =
       (MultiSent (toy_context ''team'' 1 7) res exports err, f', Some boxA', fs')"
    "(''bob'', container) \<in> set exports"
    "Ingest tight toy_packets toy_container tight_contexts (toy_io None) ''bob'' container toy_bob_deps = (r, d')" "dp_Mailbox d' = Some boxB'"
    "\<forall>k. thread_messages boxB' k = thread_messages [] k @
        (if k = groupKey ''ctx''
         then [appendDefaults (fi_clock (toy_io None)) ((new_message Incoming Group (decodeText (to_bytes (words [''Hi'']))))
                 \<lparr>m_Sender := cl_Id (fo_client group_fan), m_ContextID := ''ctx'', m_ContextName := name\<rparr>)]
         else [])"
    unfolding toy_context_fields(1) by blast
  then show ?thesis using hi by (fastforce simp: body thread_messages_def new_message_def)
qed

subsection \<open>Members of a group\<close>

text \<open>Every policy on file is for a well-formed peer ID and a group that exists.\<close>

definition members_ok :: "prims \<Rightarrow> 'c ContextStore \<Rightarrow> 'c \<Rightarrow> bool" where
  "members_ok P S st \<longleftrightarrow>
     (\<forall>cid r p. cs_LoadPolicy S cid r st = Inr p \<longrightarrow> ValidatePeerID P r \<and> (\<exists>c. cs_LoadContext S cid st = Inr c))"

context context_table
begin

lemma save_members:
  assumes "members_ok P S s"
  shows "members_ok P S (snd (cs_SaveContext S io c s))"
  using assms save_either [of _ io c s] unfolding members_ok_def save_policies by metis

lemma sign_members:
  assumes "members_ok P S (CtxStore f)" "valid (CtxStore f)" "sign_and_save P S io priv c f = (r, f')"
  shows "members_ok P S (CtxStore f') \<and> valid (CtxStore f')"
  using assms save_members [OF assms(1), of io] save_valid [OF assms(2), of io]
  by (auto simp: sign_and_save_def split: sum.splits prod.splits option.splits) (metis snd_conv)+

lemma CreateContext_members:
  assumes "members_ok P S (CtxStore f)" "valid (CtxStore f)" "CreateContext P S io coins name priv f = (r, f')"
  shows "members_ok P S (CtxStore f') \<and> valid (CtxStore f')"
  using assms(3) sign_members [OF assms(1,2)] unfolding CreateContext_def by blast

lemma UpdateContext_members:
  assumes "members_ok P S (CtxStore f)" "valid (CtxStore f)" "UpdateContext P S io cid name priv f = (r, f')"
  shows "members_ok P S (CtxStore f') \<and> valid (CtxStore f')"
  using assms sign_members [OF assms(1,2)] by (auto simp: UpdateContext_def Let_def split: sum.splits if_splits)

lemma policy_members:
  assumes "members_ok P S s" "ValidatePeerID P (lp_Recipient p)" "cs_LoadContext S (lp_ContextID p) s = Inr c"
  shows "members_ok P S (snd (cs_SavePolicy S io p s))"
  using assms unfolding members_ok_def policy_loads policy_contexts by (auto split: if_splits)

lemma exec_policy_members:
  assumes "members_ok P S (CtxStore f)" "valid (CtxStore f)" "exec_policy P S io resolve sub cid typed f = (out, f')"
  shows "members_ok P S (CtxStore f') \<and> valid (CtxStore f')"
proof -
  consider "f' = f" | peer policy c where "f' = snd (SetRecipientPolicy S (ci_contexts io) (ci_now io) cid peer policy f)"
      "ValidatePeerID P peer" "cs_LoadContext S cid (CtxStore f) = Inr c"
    using assms(3) by (auto simp: exec_policy_def split: sum.splits if_splits option.splits prod.splits) (metis snd_conv)+
  then show ?thesis
  proof cases
    case 2
    let ?p = "\<lparr>lp_ContextID = cid, lp_Recipient = peer, lp_Policy = policy, lp_UpdatedAt = ci_now io\<rparr>"
    have "CtxStore f' = snd (cs_SavePolicy S (ci_contexts io) ?p (CtxStore f))"
      using 2(1) by (simp add: SetRecipientPolicy_def split: prod.split)
    then show ?thesis using policy_members [OF assms(1), of ?p] policy_valid [OF assms(2)] 2(2,3) by simp
  qed (use assms in simp)
qed

lemma execContext_members:
  assumes "members_ok P S (CtxStore f)" "valid (CtxStore f)" "execContext P S io bk s priv args f = (out, f')"
  shows "members_ok P S (CtxStore f') \<and> valid (CtxStore f')"
  using assms exec_policy_members [OF assms(1,2)] CreateContext_members [OF assms(1,2)] UpdateContext_members [OF assms(1,2)]
  by (auto simp: execContext_def shown_context_def split: list.splits if_splits option.splits prod.splits sum.splits)

end

lemma sendDeliveries_contexts: "CtxStore (snd (sendDeliveries P D net mio ds f)) = CtxStore f"
  by (induction P D net mio ds f rule: sendDeliveries.induct) (auto simp: Let_def split: option.splits sum.splits)

lemma SendMultiMessage_contexts: "SendMultiMessage P S D net coins draws ts wr mio cid pt rs f = (r, f') \<Longrightarrow> CtxStore f' = CtxStore f"
  by (auto simp: SendMultiMessage_def Let_def sendDeliveries_contexts split: sum.splits if_splits option.splits)

lemma execSendMulti_contexts:
  "execSendMulti P K S D fold_case io me worker args f box fs = (out, f', box', fs') \<Longrightarrow> CtxStore f' = CtxStore f"
  by (auto simp: execSendMulti_def Let_def dest!: SendMultiMessage_contexts split: list.splits option.splits if_splits sum.splits prod.splits)

definition chat_ok :: "prims \<Rightarrow> packets \<Rightarrow> State \<Rightarrow> bool" where
  "chat_ok P K s \<longleftrightarrow>
     (case st_Fanout s of
        None \<Rightarrow> True
      | Some (FileFan f) \<Rightarrow> members_ok P (FileContexts P K) (CtxStore f) \<and> tables_ok (CtxStore f)
      | Some (MemoryFan f) \<Rightarrow> members_ok P MemoryContexts (CtxStore f) \<and> tables_ok (CtxStore f))"

text \<open>A session of commands, each with what it meets and the contacts book at that time.\<close>

fun chat_run ::
  "prims \<Rightarrow> packets \<Rightarrow> (nat \<Rightarrow> nat) \<Rightarrow> (64 word \<Rightarrow> string) \<Rightarrow> (64 word \<Rightarrow> string) \<Rightarrow> string \<Rightarrow>
   (chat_io \<times> book option \<times> string \<times> string list) list \<Rightarrow> State \<Rightarrow> filesystem \<Rightarrow> State \<times> filesystem" where
  "chat_run P K fold_case day_of clock_of me [] s fs = (s, fs)"
| "chat_run P K fold_case day_of clock_of me ((io, bk, cmd, args) # cs) s fs =
     (case Chat_Execute P K fold_case day_of clock_of io bk me cmd args s fs of
        (_, s', fs') \<Rightarrow> chat_run P K fold_case day_of clock_of me cs s' fs')"

lemma on_client_contexts [simp]: "CtxStore (on_client s f) = CtxStore f"
  by (simp add: on_client_def split: option.split if_split)

lemma shell_context_ok:
  assumes "chat_ok P K s" "shell_context P K io bk args s = (out, s')"
  shows "chat_ok P K s'"
proof -
  consider (none) "st_Fanout s = None" | (files) f where "st_Fanout s = Some (FileFan f)" | (memory) f where "st_Fanout s = Some (MemoryFan f)"
    by (metis fan_stores.exhaust option.exhaust)
  then show ?thesis
  proof cases
    case files
    obtain o' f' where x: "execContext P (FileContexts P K) io bk s (identity_key s) args (on_client s f) = (o', f')" by fastforce
    show ?thesis using fctx.execContext_members [OF _ _ x] assms files by (auto simp: chat_ok_def shell_context_def x)
  next
    case memory
    obtain o' f' where x: "execContext P MemoryContexts io bk s (identity_key s) args (on_client s f) = (o', f')" by fastforce
    show ?thesis using mctxs.execContext_members [OF _ _ x] assms memory by (auto simp: chat_ok_def shell_context_def x)
  qed (use assms in \<open>simp add: shell_context_def chat_ok_def\<close>)
qed

lemma shell_send_multi_ok: "chat_ok P K s \<Longrightarrow> shell_send_multi P K fold_case io me args s fs = (out, s', fs') \<Longrightarrow> chat_ok P K s'"
  by (auto simp: chat_ok_def shell_send_multi_def dest!: execSendMulti_contexts split: option.splits fan_stores.splits prod.splits)

lemma execMailbox_fanout: "execMailbox P K day_of clock_of io bk me args s fs = (out, s', fs') \<Longrightarrow> st_Fanout s' = st_Fanout s"
  by (auto simp: execMailbox_def split: option.splits list.splits sum.splits prod.splits)

lemma Chat_Execute_ok:
  assumes "chat_ok P K s" "Chat_Execute P K fold_case day_of clock_of io bk me cmd args s fs = (out, s', fs')"
  shows "chat_ok P K s'"
  using assms shell_context_ok [OF assms(1)] shell_send_multi_ok [OF assms(1)]
  by (auto simp: Chat_Execute_def split: if_splits prod.splits) (simp add: chat_ok_def execMailbox_fanout)

lemma chat_run_ok: "chat_ok P K s \<Longrightarrow> chat_run P K fold_case day_of clock_of me cs s fs = (s', fs') \<Longrightarrow> chat_ok P K s'"
proof (induction cs arbitrary: s fs)
  case (Cons c cs)
  obtain io bk cmd args where c: "c = (io, bk, cmd, args)" by (metis prod_cases4)
  obtain out s1 fs1 where run: "Chat_Execute P K fold_case day_of clock_of io bk me cmd args s fs = (out, s1, fs1)" by (metis prod_cases3)
  show ?case using Cons.IH [OF Chat_Execute_ok [OF Cons.prems(1) run]] Cons.prems(2) by (simp add: c run)
qed simp

text \<open>An identity that has no groups on file: neither the two tables nor the files of the earlier format.\<close>

definition no_groups :: "string \<Rightarrow> filesystem \<Rightarrow> bool" where
  "no_groups me fs \<longleftrightarrow>
     list_all (\<lambda>file. fs (me @ file) = None) [''.contexts.np'', ''.policies.np'', ''.contexts.json'', ''.policies.json'']"

lemma no_groups_opened:
  assumes "no_groups me fs" "OpenIdentityStores P K nd JC JP JD io2 iod me fs = Inr (cs, ds)"
  shows "contexts cs = [] \<and> policies cs = []"
proof -
  have paths: "npPath (me @ ''.contexts.json'') = me @ ''.contexts.np''" "npPath (me @ ''.policies.json'') = me @ ''.policies.np''"
    using npPath_json [of "me @ ''.contexts''"] npPath_json [of "me @ ''.policies''"] by simp_all
  show ?thesis
    using assms by (auto simp: no_groups_def OpenIdentityStores_def NewFileContextStore_def FileContext_load_def paths load_or_missing_def
        Binstore_Load_def legacy_values_def load_contexts_def Let_def split: sum.splits)
qed

lemma InitFanout_ok:
  assumes "ActiveClient s = Some cl" "no_groups (cl_Id cl) fs"
  shows "chat_ok P K (InitFanout P K nd JC JP JD io2 iod s fs)"
  using assms no_groups_opened [OF assms(2)]
  by (auto simp: InitFanout_def chat_ok_def members_ok_def tables_ok_def contexts_ok_def policies_ok_def NewFanout_def policy_of_def
      FileContexts_def File_LoadPolicy_def MemoryContexts_def Mem_LoadPolicy_def NewMemoryContextStore_def split: sum.splits)

text \<open>Whom a message to the group \<open>cid\<close> would go to, and whether there is such a group.\<close>

definition group_members :: "State \<Rightarrow> string \<Rightarrow> string list" where
  "group_members s cid =
     (case st_Fanout s of
        None \<Rightarrow> []
      | Some (FileFan f) \<Rightarrow> active_recipients (File_ListPolicies cid (CtxStore f))
      | Some (MemoryFan f) \<Rightarrow> active_recipients (Mem_ListPolicies cid (CtxStore f)))"

definition group_known :: "State \<Rightarrow> string \<Rightarrow> bool" where
  "group_known s cid =
     (case st_Fanout s of
        None \<Rightarrow> False
      | Some (FileFan f) \<Rightarrow> (\<exists>c. File_LoadContext cid (CtxStore f) = Inr c)
      | Some (MemoryFan f) \<Rightarrow> (\<exists>c. Mem_LoadContext cid (CtxStore f) = Inr c))"

context context_table
begin

lemma active_recipients_ok:
  assumes "members_ok P S s" "valid s" "r \<in> set (active_recipients (cs_ListPolicies S cid s))"
  shows "(\<exists>pub. PeerIDToEd25519Pub P r = Inr pub) \<and> (\<exists>c. cs_LoadContext S cid s = Inr c)"
proof -
  obtain p where "p \<in> set (cs_ListPolicies S cid s)" "lp_Recipient p = r" using assms(3) by (auto simp: active_recipients_def)
  then have "cs_LoadPolicy S cid r s = Inr p" using policy_list [OF assms(2)] by auto
  then have "ValidatePeerID P r" "\<exists>c. cs_LoadContext S cid s = Inr c" using assms(1) by (auto simp: members_ok_def)
  then show ?thesis by (auto simp: ValidatePeerID_def split: sum.splits)
qed

end

lemma group_members_ok:
  assumes "chat_ok P K s" "r \<in> set (group_members s cid)"
  shows "(\<exists>pub. PeerIDToEd25519Pub P r = Inr pub) \<and> group_known s cid"
  using assms fctx.active_recipients_ok [of P P K _ r cid] mctxs.active_recipients_ok [of P _ r cid]
  by (auto simp: chat_ok_def group_members_def group_known_def FileContexts_def MemoryContexts_def split: option.splits fan_stores.splits)

text \<open>
  C37.  A session that opens the stores of an identity without groups, or continues one whose groups are well formed:
  whatever commands are typed, every member of a group is a well-formed peer ID and belongs to a group that exists; so
  everyone a group message would go to can be addressed, and a mistyped name never becomes a recipient.
\<close>

theorem members_well_formed:
  assumes "ActiveClient s0 = Some cl \<and> no_groups (cl_Id cl) fs0 \<and> s = InitFanout P K nd JC JP JD io2 iod s0 fs0 \<or> chat_ok P K s"
    and "chat_run P K fold_case day_of clock_of me cmds s fs = (s', fs')"
  shows "chat_ok P K s' \<and> (\<forall>cid r. r \<in> set (group_members s' cid) \<longrightarrow> (\<exists>pub. PeerIDToEd25519Pub P r = Inr pub) \<and> group_known s' cid)"
proof -
  have "chat_ok P K s" using assms(1) InitFanout_ok by blast
  from chat_run_ok [OF this assms(2)] show ?thesis using group_members_ok by blast
qed

text \<open>What the two commands write that make a group and a member of it.\<close>

lemma create_adds:
  assumes "st_Fanout s = Some (FileFan f)" "ActiveClient s = Some cl"
    and "map_of (contexts (CtxStore f)) (GenerateContextID (ci_coins io)) = None"
    and "\<And>k c. \<exists>c'. SignContext P k c = Inr c'"
    and "Chat_Execute P K fold_case day_of clock_of io bk me ''context'' [''create'', name] s fs = (out, s', fs')"
  shows "\<exists>f' c. st_Fanout s' = Some (FileFan f') \<and> policies (CtxStore f') = policies (CtxStore f) \<and>
     map_of (contexts (CtxStore f')) (GenerateContextID (ci_coins io)) = Some c"
proof -
  let ?c = "\<lparr>mc_ContextID = GenerateContextID (ci_coins io), mc_DisplayName = words [name], mc_MetadataVersion = 1,
      mc_CreatorID = cl_Id (fo_client (on_client s f)), mc_Signature = []\<rparr>"
  obtain c where c: "SignContext P (k_idPriv (cl_keys cl)) ?c = Inr c" using assms(4) by blast
  then have "mc_ContextID c = GenerateContextID (ci_coins io)" by (auto simp: SignContext_def split: sum.splits)
  then show ?thesis
    using assms(1-3,5) c
    by (auto simp: Chat_Execute_def shell_context_def execContext_def identity_key_def CreateContext_def sign_and_save_def shown_context_def
        FileContexts_def File_SaveContext_def Let_def update_conv' dest!: saveLocked_tables' split: prod.splits option.splits)
qed

lemma add_adds:
  assumes "st_Fanout s = Some (FileFan f)" "map_of (contexts (CtxStore f)) cid = Some c" "ResolvePeer bk typed s = Inr r" "ValidatePeerID P r"
    and "Chat_Execute P K fold_case day_of clock_of io bk me ''context'' [''add'', cid, typed] s fs = (out, s', fs')"
  shows "\<exists>f'. st_Fanout s' = Some (FileFan f') \<and> policies (CtxStore f') =
     insertPolicyLocked \<lparr>lp_ContextID = cid, lp_Recipient = r, lp_Policy = PolicyEnabled, lp_UpdatedAt = ci_now io\<rparr> (policies (CtxStore f))"
  using assms
  by (auto simp: Chat_Execute_def shell_context_def execContext_def contextPeerSubcommands_def exec_policy_def policyForSub_def
      FileContexts_def File_LoadContext_def SetRecipientPolicy_def File_SavePolicy_def dest!: saveLocked_tables' split: prod.splits option.splits)

text \<open>The witness: a group is created and a well-formed peer ID added to it.\<close>

definition toy_friend :: string where "toy_friend = replicate 64 CHR ''b''"

definition toy_login :: State where
  "toy_login = NewState\<lparr>ActiveClient := Some (fo_client bob_fan)\<rparr>"

definition toy_started :: State where
  "toy_started = InitFanout tight toy_packets True (\<lambda>_. None) (\<lambda>_. None) (\<lambda>_. None) (SaveDone, SaveDone) SaveDone toy_login Map.empty"

definition toy_typed :: "(chat_io \<times> book option \<times> string \<times> string list) list" where
  "toy_typed =
     [(toy_chat, None, ''context'', [''create'', ''team'']),
      (toy_chat, Some [(''friend'', \<lparr>c_Name = ''friend'', c_UserID = toy_friend, c_Note = []\<rparr>)], ''context'',
       [''add'', GenerateContextID [9], ''friend''])]"

lemma toy_started_fan: "\<exists>f. st_Fanout toy_started = Some (FileFan f) \<and> contexts (CtxStore f) = [] \<and> policies (CtxStore f) = []"
proof -
  obtain cs ds where opened: "OpenIdentityStores tight toy_packets True (\<lambda>_. None) (\<lambda>_. None) (\<lambda>_. None) (SaveDone, SaveDone) SaveDone ''bob'' Map.empty = Inr (cs, ds)"
    by (simp add: OpenIdentityStores_def NewFileContextStore_def FileContext_load_def npPath_def load_or_missing_def Binstore_Load_def
        legacy_values_def load_contexts_def FileContext_saveLocked_def Binstore_Save_def policy_records_def NewFileDeliveryStore_def Let_def)
  have "no_groups ''bob'' Map.empty" by (simp add: no_groups_def)
  from no_groups_opened [OF this opened] opened show ?thesis
    by (simp add: toy_started_def InitFanout_def toy_login_def NewFanout_def)
qed

lemma toy_signs: "\<exists>c'. SignContext tight k c = Inr c'"
  by (simp add: SignContext_def signContextPayload_def MarshalFastID_def tight_def tight_enc_def)

lemma toy_run_members:
  assumes run: "chat_run tight toy_packets (\<lambda>x. x) (\<lambda>_. []) (\<lambda>_. []) ''bob'' toy_typed toy_started Map.empty = (s', fs')"
  shows "group_members s' (GenerateContextID [9]) = [toy_friend]"
proof -
  obtain f where f: "st_Fanout toy_started = Some (FileFan f)" "contexts (CtxStore f) = []" "policies (CtxStore f) = []"
    using toy_started_fan by blast
  obtain cl where cl: "ActiveClient toy_started = Some cl"
    by (cases "ActiveClient toy_started") (auto simp: toy_started_def InitFanout_def toy_login_def split: sum.splits prod.splits)
  obtain out s1 fs1 where one: "Chat_Execute tight toy_packets (\<lambda>x. x) (\<lambda>_. []) (\<lambda>_. []) toy_chat None ''bob'' ''context''
      [''create'', ''team''] toy_started Map.empty = (out, s1, fs1)"
    by (metis prod_cases3)
  obtain f1 c where f1: "st_Fanout s1 = Some (FileFan f1)" "map_of (contexts (CtxStore f1)) (GenerateContextID [9]) = Some c" "policies (CtxStore f1) = []"
    using create_adds [OF f(1) cl _ _ one] toy_signs f(2,3) by (fastforce simp: toy_chat_def)
  obtain out' s2 fs2 where two: "Chat_Execute tight toy_packets (\<lambda>x. x) (\<lambda>_. []) (\<lambda>_. []) toy_chat
      (Some [(''friend'', \<lparr>c_Name = ''friend'', c_UserID = toy_friend, c_Note = []\<rparr>)]) ''bob'' ''context''
      [''add'', GenerateContextID [9], ''friend''] s1 fs1 = (out', s2, fs2)"
    by (metis prod_cases3)
  have trim: "TrimSpace ''friend'' = ''friend''" by code_simp
  have friend: "ResolvePeer (Some [(''friend'', \<lparr>c_Name = ''friend'', c_UserID = toy_friend, c_Note = []\<rparr>)]) ''friend'' s1 = Inr toy_friend"
    "ValidatePeerID tight toy_friend"
    by (simp_all add: ResolvePeer_def trim toy_friend_def ValidatePeerID_def PeerIDToEd25519Pub_def PeerIDByteLen_def tight_def toy_def)
  have "s2 = s'" using run one two by (simp add: toy_typed_def)
  with add_adds [OF f1(1,2) friend two] f1(3) show ?thesis
    by (auto simp: group_members_def File_ListPolicies_def insertPolicyLocked_def sortPolicies_def active_recipients_def
        PolicyEnabled_def PolicyBlocked_def PolicyExcluded_def)
qed

theorem members_well_formed_witness:
  "\<exists>s' fs'. chat_run tight toy_packets (\<lambda>x. x) (\<lambda>_. []) (\<lambda>_. []) ''bob'' toy_typed toy_started Map.empty = (s', fs') \<and>
     chat_ok tight toy_packets s' \<and> group_members s' (GenerateContextID [9]) = [toy_friend] \<and> group_known s' (GenerateContextID [9])"
proof -
  obtain s' fs' where run: "chat_run tight toy_packets (\<lambda>x. x) (\<lambda>_. []) (\<lambda>_. []) ''bob'' toy_typed toy_started Map.empty = (s', fs')"
    by fastforce
  have start: "ActiveClient toy_login = Some (fo_client bob_fan) \<and> no_groups (cl_Id (fo_client bob_fan)) Map.empty \<and>
      toy_started = InitFanout tight toy_packets True (\<lambda>_. None) (\<lambda>_. None) (\<lambda>_. None) (SaveDone, SaveDone) SaveDone toy_login Map.empty \<or>
      chat_ok tight toy_packets toy_started"
    by (simp add: toy_login_def no_groups_def toy_started_def)
  have "group_members s' (GenerateContextID [9]) = [toy_friend]" using toy_run_members run by simp
  then show ?thesis using members_well_formed [OF start run] run by auto
qed

subsection \<open>Names and completion\<close>

text \<open>A conversation is named by a group that exists or by what the peer resolution says; an ambiguous name is refused.\<close>

lemma thread_key_exact:
  assumes "ResolveThreadKey bk s arg = Inr k"
  shows "(\<exists>st. MailboxStore s = Some st \<and> ResolveThread arg st = Inr k) \<or> ResolvePeer bk arg s = Inr k"
  using assms by (auto simp: ResolveThreadKey_def Let_def split: if_splits option.splits sum.splits peer_error.splits)

lemma ambiguous_thread_refused:
  assumes "ResolvePeer bk arg s = Inl (AmbiguousPeer i ms)" "\<not> HasPrefix arg ''ctx:''" "\<not> HasPrefix arg ''group:''"
  shows "ResolveThreadKey bk s arg = Inl (ThreadPeer (AmbiguousPeer i ms))"
  using assms by (simp add: ResolveThreadKey_def Let_def)

text \<open>
  Completing the third word of \<^verbatim>\<open>context add <group> <peer>\<close> looks for the sub-command in the second word, so no peer is offered
  unless the group is called like a sub-command.
\<close>

lemma peers_not_completed: "gid \<notin> set contextPeerSubcommands \<Longrightarrow> CompleteContextArgs bk s [sub, gid] 2 fragment = []"
  by (simp add: CompleteContextArgs_def Let_def)

lemma preview_short: "printThreadLine t = Some l \<Longrightarrow> length (tl_preview l) \<le> 40"
proof -
  have "length (newlines_to '' '' s) = length s" for s by (induction s) (simp_all add: newlines_to_def)
  then show "printThreadLine t = Some l \<Longrightarrow> ?thesis" by (auto simp: printThreadLine_def Let_def split: if_splits)
qed

text \<open>A conversation is shown completely and in order.\<close>

lemma thread_rows_complete:
  "filter (\<lambda>r. case r of DayRow _ \<Rightarrow> False | _ \<Rightarrow> True) (thread_rows day_of clock_of day ms) = map (message_row clock_of) ms"
  by (induction ms arbitrary: day) (auto simp: Let_def message_row_def)

end
