(* ===== verification/GroupCli.thy ===== *)
theory GroupCli
  imports GroupChatProps
begin

text \<open>
  The group chat as commands of the command line (\<^verbatim>\<open>src/internal/groupchat/cli.go\<close>): each command loads the identity and its
  stores, runs, and prints.  What is printed is a value; the flags of the command parser are the fields of a request.
\<close>

subsection \<open>Small helpers\<close>

definition plausiblyPeerID :: "string \<Rightarrow> bool" where
  "plausiblyPeerID arg \<longleftrightarrow> length arg \<ge> 32 \<and> CHR '' '' \<notin> set arg \<and> CHR 0x09 \<notin> set arg"

definition shortDisplay :: "string \<Rightarrow> string" where
  "shortDisplay i = (if length i > 12 then take 9 i @ ''...'' else i)"

definition validateFormatStr :: "string \<Rightarrow> bool" where
  "validateFormatStr fmt \<longleftrightarrow> fmt = ''human'' \<or> fmt = ''json''"

definition FilterByPrefix :: "string list \<Rightarrow> string \<Rightarrow> string list" where
  "FilterByPrefix cands toComplete = filter (\<lambda>c. HasPrefix c toComplete) cands"

text \<open>What can be read: the named file, or the standard input, which may be a terminal.\<close>

datatype stdin = StdinStat | Terminal | StdinFails | StdinData bytes

datatype read_error = InputFile | InputStat | NoInput | InputRead | NoInputData | InputDecode codec_error

definition readPayloadStdin :: "(string \<Rightarrow> bytes option) \<Rightarrow> stdin \<Rightarrow> string \<Rightarrow> string \<Rightarrow> string \<Rightarrow> read_error + bytes" where
  "readPayloadStdin read_file input inline inputFile inputEncoding =
     (let raw =
        (if inputFile \<noteq> [] then (case read_file inputFile of None \<Rightarrow> Inl InputFile | Some b \<Rightarrow> Inr b)
         else if inline \<noteq> [] then Inr (to_bytes inline)
         else case input of
           StdinStat \<Rightarrow> Inl InputStat
         | Terminal \<Rightarrow> Inl NoInput
         | StdinFails \<Rightarrow> Inl InputRead
         | StdinData b \<Rightarrow> if b = [] then Inl NoInputData else Inr b)
      in case raw of
           Inl e \<Rightarrow> Inl e
         | Inr b \<Rightarrow> (case Codec_Decode inputEncoding b of Inl e \<Rightarrow> Inl (InputDecode e) | Inr d \<Rightarrow> Inr d))"

subsection \<open>context\<close>

datatype cli_error =
    CliPanic
  | CliLoad client_error
  | CliStores multi_error
  | CliUsage string
  | CliFanout fanout_error
  | CliNoContext string
  | CliBadPeer string
  | CliUnknownAction string
  | CliSetPolicy multi_error
  | CliUnknownSub string
  | CliFormat string
  | CliRelay
  | CliNoRecipients string
  | CliRead read_error
  | CliMultiSend fanout_error
  | CliContainer frame_error
  | CliMkdir
  | CliWrite string
  | CliNoGroup string
  | CliOpenMailbox
  | CliReadMailbox mailbox_error

datatype cli_out =
    CliCreated MessageContext
  | CliListed "MessageContext list"
  | CliShown MessageContext "(string \<times> string \<times> string) list"
  | CliRenamed MessageContext
  | CliPolicy string string string
  | CliMembers "(string \<times> string \<times> string) list"

definition full_rows :: "LocalRecipientPolicy list \<Rightarrow> (string \<times> string \<times> string) list" where
  "full_rows ps = map (\<lambda>p. (PolicyIcon (lp_Policy p), lp_Recipient p, RecipientPolicy_String (lp_Policy p))) ps"

definition newContextFor ::
  "prims \<Rightarrow> 'c ContextStore \<Rightarrow> two_writes \<Rightarrow> bytes \<Rightarrow> Client \<Rightarrow> string \<Rightarrow> 'c \<Rightarrow> (fanout_error + MessageContext) \<times> 'c" where
  "newContextFor P S io coins cl name st =
     (case CreateContext P S io coins name (k_idPriv (cl_keys cl)) (NewFanout cl False st () DefaultFanoutConfig []) of
        (r, f) \<Rightarrow> (r, CtxStore f))"

definition cli_policy ::
  "prims \<Rightarrow> 'c ContextStore \<Rightarrow> two_writes \<Rightarrow> string \<Rightarrow> string \<Rightarrow> string \<Rightarrow> 'c \<Rightarrow> (cli_error + cli_out) \<times> 'c" where
  "cli_policy P S io sub ctxID peer st =
     (case cs_LoadContext S ctxID st of
        Inl _ \<Rightarrow> (Inl (CliNoContext ctxID), st)
      | Inr _ \<Rightarrow>
          if \<not> ValidatePeerID P peer then (Inl (CliBadPeer peer), st)
          else case policyForSub sub of
            None \<Rightarrow> (Inl (CliUnknownAction sub), st)
          | Some policy \<Rightarrow>
              (case cs_SavePolicy S io \<lparr>lp_ContextID = ctxID, lp_Recipient = peer, lp_Policy = policy, lp_UpdatedAt = 0\<rparr> st of
                 (Some e, st') \<Rightarrow> (Inl (CliSetPolicy e), st')
               | (None, st') \<Rightarrow> (Inr (CliPolicy (shortDisplay peer) (RecipientPolicy_String policy) (shortDisplay ctxID)), st')))"

text \<open>One sub-command over the stores of a loaded client.\<close>

definition context_command ::
  "prims \<Rightarrow> 'c ContextStore \<Rightarrow> (nat \<Rightarrow> nat) \<Rightarrow> two_writes \<Rightarrow> bytes \<Rightarrow> Client \<Rightarrow> string list \<Rightarrow> 'c \<Rightarrow> (cli_error + cli_out) \<times> 'c" where
  "context_command P S fold_case io coins cl args st =
     (case args of
        [] \<Rightarrow> (Inl CliPanic, st)
      | sub # rest \<Rightarrow>
          if sub = ''create'' then
            (if rest = [] then (Inl (CliUsage ''create''), st)
             else case newContextFor P S io coins cl (words rest) st of
               (Inl e, st') \<Rightarrow> (Inl (CliFanout e), st')
             | (Inr meta, st') \<Rightarrow> (Inr (CliCreated meta), st'))
          else if sub = ''list'' \<or> sub = ''ls'' then (Inr (CliListed (cs_ListContexts S st)), st)
          else if sub = ''show'' then
            (case rest of
               [] \<Rightarrow> (Inl (CliUsage ''show''), st)
             | ref # _ \<Rightarrow>
                 (case ResolveContextRef fold_case S ref st of
                    None \<Rightarrow> (Inl (CliNoContext ref), st)
                  | Some (meta, _) \<Rightarrow> (Inr (CliShown meta (full_rows (cs_ListPolicies S (mc_ContextID meta) st))), st)))
          else if sub = ''rename'' then
            (case rest of
               i # n # ns \<Rightarrow>
                 (case UpdateContext P S io i (words (n # ns)) (k_idPriv (cl_keys cl)) (NewFanout cl False st () DefaultFanoutConfig []) of
                    (Inl e, f) \<Rightarrow> (Inl (CliFanout e), CtxStore f)
                  | (Inr meta, f) \<Rightarrow> (Inr (CliRenamed meta), CtxStore f))
             | _ \<Rightarrow> (Inl (CliUsage ''rename''), st))
          else if sub \<in> set contextPeerSubcommands then
            (case rest of i # peer # _ \<Rightarrow> cli_policy P S io sub i peer st | _ \<Rightarrow> (Inl (CliUsage sub), st))
          else if sub = ''members'' then
            (case rest of
               [] \<Rightarrow> (Inl (CliUsage ''members''), st)
             | ref # _ \<Rightarrow>
                 (case ResolveContextRef fold_case S ref st of
                    None \<Rightarrow> (Inl (CliNoContext ref), st)
                  | Some (_, ps) \<Rightarrow> (Inr (CliMembers (full_rows ps)), st)))
          else (Inl (CliUnknownSub sub), st))"

text \<open>What is on disk when a command starts, and what opening the stores meets.\<close>

record cli_world =
  cw_clients :: Clients.disk
  cw_disk :: filesystem
  cw_mkdir :: bool
  cw_contexts :: "bytes \<Rightarrow> MessageContext list option"
  cw_policies :: "bytes \<Rightarrow> LocalRecipientPolicy list option"
  cw_deliveries :: "bytes \<Rightarrow> MessageDelivery list option"
  cw_threads :: "bytes \<Rightarrow> Thread option list option"
  cw_migrate :: "two_writes \<times> save_io \<times> save_io"

definition open_stores :: "prims \<Rightarrow> packets \<Rightarrow> string \<Rightarrow> cli_world \<Rightarrow> multi_error + FileContextStore \<times> FileDeliveryStore" where
  "open_stores P K localPeer w =
     OpenIdentityStores P K (cw_mkdir w) (cw_contexts w) (cw_policies w) (cw_deliveries w)
       (fst (cw_migrate w)) (fst (snd (cw_migrate w))) localPeer (cw_disk w)"

text \<open>The store is \<open>None\<close> when the command ends before it is open.\<close>

definition runContextCLI ::
  "prims \<Rightarrow> packets \<Rightarrow> (nat \<Rightarrow> nat) \<Rightarrow> two_writes \<Rightarrow> bytes \<Rightarrow> string \<Rightarrow> string list \<Rightarrow> cli_world \<Rightarrow>
   (cli_error + cli_out) \<times> FileContextStore option" where
  "runContextCLI P K fold_case io coins localPeer args w =
     (if args = [] then (Inl CliPanic, None)
      else case LoadClient localPeer (cw_clients w) of
        Inl e \<Rightarrow> (Inl (CliLoad e), None)
      | Inr cl \<Rightarrow>
          (case open_stores P K localPeer w of
             Inl e \<Rightarrow> (Inl (CliStores e), None)
           | Inr (store, _) \<Rightarrow>
               (case context_command P (FileContexts P K) fold_case io coins cl args store of (r, store') \<Rightarrow> (r, Some store'))))"

subsection \<open>send-multi\<close>

record SendMultiRequest =
  rq_LocalPeer :: string
  rq_CtxRef :: string
  rq_Message :: string
  rq_InputFile :: string
  rq_InputEncoding :: string
  rq_OutputDir :: string
  rq_Format :: string

text \<open>The relay of the transport: none is provided, asking for it fails, or it says whether one is returned.\<close>

datatype relay_provider = NoProvider | ProviderFails | Provides bool

text \<open>
  Exported copies are printed or written; writing stops the command at the first failure.  \<open>mk\<close> and \<open>wr\<close> say whether the
  directory and a file can be written.
\<close>

fun export_copies ::
  "bool \<Rightarrow> (string \<Rightarrow> bool) \<Rightarrow> string \<Rightarrow> string \<Rightarrow> fanout_error DeliveryResult list \<Rightarrow> (string \<times> bytes) list \<Rightarrow>
   cli_error option \<times> (string \<times> bytes) list" where
  "export_copies mk wr dir msgID [] acc = (None, acc)"
| "export_copies mk wr dir msgID (d # ds) acc =
     (case (dr_Status d = DeliverySent, dr_Ciphertext d) of
        (True, Some (b # bs)) \<Rightarrow>
          (case EncodeContainer TypeMultiMsg (b # bs) of
             Inl e \<Rightarrow> (Some (CliContainer e), acc)
           | Inr container \<Rightarrow>
               if dir \<noteq> [] then
                 (if \<not> mk then (Some CliMkdir, acc)
                  else
                    let path = dir @ ''/'' @ shortDisplay msgID @ ''.'' @ shortDisplay (dr_Recipient d) @ ''.container.json'' in
                    if \<not> wr path then (Some (CliWrite path), acc)
                    else export_copies mk wr dir msgID ds (acc @ [(path, container)]))
               else export_copies mk wr dir msgID ds (acc @ [(ShortID (dr_Recipient d), container)]))
      | _ \<Rightarrow> export_copies mk wr dir msgID ds acc)"

record send_world =
  sw_cli :: cli_world
  sw_relay :: relay_provider
  sw_read :: "string \<Rightarrow> bytes option"
  sw_stdin :: stdin
  sw_mkdir :: bool
  sw_write :: "string \<Rightarrow> bool"
  sw_chat :: chat_io

definition TrimRight_newline :: "string \<Rightarrow> string" where
  "TrimRight_newline s = rev (dropWhile (\<lambda>c. c = CHR 0x0A) (rev s))"

text \<open>
  The result is an error, or the report with what was exported, and the group layer and mailbox as the command leaves them.
  In JSON format the report is printed and nothing is exported.
\<close>

definition runSendMultiCLI ::
  "prims \<Rightarrow> packets \<Rightarrow> (nat \<Rightarrow> nat) \<Rightarrow> SendMultiRequest \<Rightarrow> send_world \<Rightarrow>
   (cli_error + fanout_error FanoutResult) \<times> (string \<times> bytes) list \<times>
   (FileContextStore, FileDeliveryStore) Fanout option \<times> (threads \<times> filesystem) option" where
  "runSendMultiCLI P K fold_case req sw =
     (let fmt = (if rq_Format req = [] then ''human'' else rq_Format req); w = sw_cli sw; io = sw_chat sw in
      if \<not> validateFormatStr fmt then (Inl (CliFormat fmt), [], None, None)
      else case LoadClient (rq_LocalPeer req) (cw_clients w) of
        Inl e \<Rightarrow> (Inl (CliLoad e), [], None, None)
      | Inr cl \<Rightarrow>
          if sw_relay sw = ProviderFails then (Inl CliRelay, [], None, None)
          else
            let live = (sw_relay sw = Provides True) in
            (case open_stores P K (rq_LocalPeer req) w of
               Inl e \<Rightarrow> (Inl (CliStores e), [], None, None)
             | Inr (ctxStore, dlvStore) \<Rightarrow>
                 let fan = NewFanout cl live ctxStore dlvStore DefaultFanoutConfig [] in
                 (case ResolveContextRef fold_case (FileContexts P K) (rq_CtxRef req) ctxStore of
                    None \<Rightarrow> (Inl (CliNoContext (rq_CtxRef req)), [], Some fan, None)
                  | Some (meta, ps) \<Rightarrow>
                      if active_recipients ps = [] then (Inl (CliNoRecipients (mc_DisplayName meta)), [], Some fan, None)
                      else
                        (case readPayloadStdin (sw_read sw) (sw_stdin sw) (rq_Message req) (rq_InputFile req) (rq_InputEncoding req) of
                           Inl e \<Rightarrow> (Inl (CliRead e), [], Some fan, None)
                         | Inr plaintext \<Rightarrow>
                             (case SendMultiMessage P (FileContexts P K) (FileDeliveries P K) (ci_network io) (ci_coins io) (ci_draws io)
                                     (ci_now io) (ci_client io) (ci_marks io) (mc_ContextID meta) plaintext (active_recipients ps) fan of
                                (Inl e, fan') \<Rightarrow> (Inl (CliMultiSend e), [], Some fan', None)
                              | (Inr result, fan') \<Rightarrow>
                                  let body = TrimRight_newline (to_str plaintext);
                                      box = (case Mailbox_Load P K (cw_threads w) (snd (snd (cw_migrate w))) (rq_LocalPeer req) (cw_disk w) of
                                        (Inl _, _) \<Rightarrow> None
                                      | (Inr mb, fs) \<Rightarrow>
                                          Some (snd (AppendGroupOutgoing P K (ci_save io) (ci_clock io) (fileFor (rq_LocalPeer req))
                                            (mc_ContextID meta) (mc_DisplayName meta) body (mb, fs))))
                                  in if fmt = ''json'' \<or> live then (Inr result, [], Some fan', box)
                                     else
                                       (case export_copies (sw_mkdir sw) (sw_write sw) (rq_OutputDir req) (fr_MessageID result) (fr_Deliveries result) [] of
                                          (None, copies) \<Rightarrow> (Inr result, copies, Some fan', box)
                                        | (Some e, copies) \<Rightarrow> (Inl e, copies, Some fan', box)))))))"

subsection \<open>mailbox and contexts\<close>

datatype mailbox_out = CliMailbox mailbox_view | CliThread "string \<times> thread_row list"

definition RunMailbox ::
  "prims \<Rightarrow> packets \<Rightarrow> (64 word \<Rightarrow> string) \<Rightarrow> (64 word \<Rightarrow> string) \<Rightarrow> save_io \<Rightarrow> string \<Rightarrow> string list \<Rightarrow> cli_world \<Rightarrow>
   (cli_error + mailbox_out) \<times> filesystem" where
  "RunMailbox P K day_of clock_of io localPeer args w =
     (case Mailbox_Load P K (cw_threads w) (snd (snd (cw_migrate w))) localPeer (cw_disk w) of
        (Inl _, fs) \<Rightarrow> (Inl CliOpenMailbox, fs)
      | (Inr st, fs) \<Rightarrow>
          (case args of
             [] \<Rightarrow> (Inr (CliMailbox (RenderMailboxList st)), fs)
           | a # _ \<Rightarrow>
               let key = (case ResolveThread a st of Inr k \<Rightarrow> Some k | Inl _ \<Rightarrow> if plausiblyPeerID a then Some a else None) in
               (case key of
                  None \<Rightarrow> (Inl (CliNoGroup a), fs)
                | Some k \<Rightarrow>
                    (case Mailbox_Read P K io (fileFor localPeer) k (st, fs) of
                       (r, _, fs') \<Rightarrow>
                         (case r of
                            Inl e \<Rightarrow> Inl (CliReadMailbox e)
                          | Inr (_, Some e) \<Rightarrow> Inl (CliReadMailbox e)
                          | Inr (msgs, None) \<Rightarrow> Inr (CliThread (RenderThread day_of clock_of k msgs)), fs')))))"

definition ContextsCLI :: "prims \<Rightarrow> packets \<Rightarrow> string \<Rightarrow> cli_world \<Rightarrow> cli_error + MessageContext list" where
  "ContextsCLI P K localPeer w =
     (case open_stores P K localPeer w of Inl e \<Rightarrow> Inl (CliStores e) | Inr (store, _) \<Rightarrow> Inr (File_ListContexts store))"

subsection \<open>Completion\<close>

definition cli_ContextCandidates :: "prims \<Rightarrow> packets \<Rightarrow> string \<Rightarrow> cli_world \<Rightarrow> string list" where
  "cli_ContextCandidates P K localPeer w =
     (if localPeer = [] then []
      else case open_stores P K localPeer w of
        Inl _ \<Rightarrow> []
      | Inr (store, _) \<Rightarrow>
          sortedKeys (set (map mc_ContextID (File_ListContexts store)) \<union>
            set (filter (\<lambda>n. n \<noteq> []) (map mc_DisplayName (File_ListContexts store)))))"

definition cli_PeerCandidates :: "string \<Rightarrow> book option \<Rightarrow> cli_world \<Rightarrow> string list" where
  "cli_PeerCandidates localPeer bk w =
     sortedKeys
       ((if localPeer = [] then {}
         else case LoadClient localPeer (cw_clients w) of
           Inl _ \<Rightarrow> {}
         | Inr cl \<Rightarrow> set (filter (\<lambda>i. \<not> HasPrefix i ''pending'') (map fst (Sessions cl)))) \<union> book_words bk)"

definition completeContextArgsCLI ::
  "prims \<Rightarrow> packets \<Rightarrow> string \<Rightarrow> book option \<Rightarrow> cli_world \<Rightarrow> string list \<Rightarrow> string \<Rightarrow> string list" where
  "completeContextArgsCLI P K localPeer bk w args toComplete =
     (case args of
        [] \<Rightarrow> FilterByPrefix contextSubcommands toComplete
      | sub # rest \<Rightarrow>
          if sub \<in> set (''show'' # ''rename'' # ''members'' # contextPeerSubcommands) then
            (if length args = 1 then FilterByPrefix (cli_ContextCandidates P K localPeer w) toComplete
             else if length args = 2 \<and> sub \<in> set contextPeerSubcommands then FilterByPrefix (cli_PeerCandidates localPeer bk w) toComplete
             else [])
          else [])"

subsection \<open>The commands keep what the shell keeps\<close>

context context_table
begin

lemma cli_policy_members:
  assumes "members_ok P S st" "valid st" "cli_policy P S io sub cid peer st = (r, st')"
  shows "members_ok P S st' \<and> valid st'"
proof -
  consider "st' = st" | policy c where "st' = snd (cs_SavePolicy S io \<lparr>lp_ContextID = cid, lp_Recipient = peer, lp_Policy = policy, lp_UpdatedAt = 0\<rparr> st)"
      "ValidatePeerID P peer" "cs_LoadContext S cid st = Inr c"
    using assms(3) by (auto simp: cli_policy_def split: sum.splits if_splits option.splits prod.splits) (metis snd_conv)+
  then show ?thesis using assms(1,2) policy_members [OF assms(1)] policy_valid [OF assms(2)] by cases auto
qed

lemma context_command_members:
  assumes "members_ok P S st" "valid st" "context_command P S fold_case io coins cl args st = (r, st')"
  shows "members_ok P S st' \<and> valid st'"
proof -
  let ?f = "NewFanout cl False st () DefaultFanoutConfig []"
  have st: "CtxStore ?f = st" by (simp add: NewFanout_def)
  note create = CreateContext_members [of P ?f, unfolded st, OF assms(1,2)]
  note update = UpdateContext_members [of P ?f, unfolded st, OF assms(1,2)]
  show ?thesis
    using assms cli_policy_members [OF assms(1,2)]
    by (auto simp: context_command_def newContextFor_def dest!: create update split: list.splits if_splits option.splits prod.splits sum.splits)
qed

text \<open>A member given by his full ID gets the same policy from the command line as from the shell; only the time differs.\<close>

lemma cli_policy_as_shell:
  assumes "resolve peer = Inr peer"
  shows "map_sum id lp_Policy (cs_LoadPolicy S c r (snd (cli_policy P S (ci_contexts io) sub cid peer (CtxStore f)))) =
     map_sum id lp_Policy (cs_LoadPolicy S c r (CtxStore (snd (exec_policy P S io resolve sub cid peer f))))"
proof (cases "cs_LoadContext S cid (CtxStore f)")
  case (Inr x)
  let ?save = "\<lambda>policy t. cs_SavePolicy S (ci_contexts io) \<lparr>lp_ContextID = cid, lp_Recipient = peer, lp_Policy = policy, lp_UpdatedAt = t\<rparr> (CtxStore f)"
  have "snd (cli_policy P S (ci_contexts io) sub cid peer (CtxStore f)) = snd (?save policy 0) \<and>
      CtxStore (snd (exec_policy P S io resolve sub cid peer f)) = snd (?save policy (ci_now io))"
    if "ValidatePeerID P peer" "policyForSub sub = Some policy" for policy
    using that Inr assms by (simp add: cli_policy_def exec_policy_def SetRecipientPolicy_def split: prod.split option.split)
  then show ?thesis using Inr assms
    by (cases "ValidatePeerID P peer"; cases "policyForSub sub") (auto simp: policy_loads cli_policy_def exec_policy_def)
qed (simp add: cli_policy_def exec_policy_def)

end

end
