(* ===== verification/Offline.thy ===== *)
theory Offline
  imports GroupCli
begin

text \<open>
  The offline commands (\<^verbatim>\<open>src/cmd/offline\<close>): a handshake and messages carried by hand.  Each command of the command line loads
  the identity from disk, does one step, saves and prints; the shell keeps the client in its state.  What a command reads and
  whether its writes succeed are arguments, what it prints is a value.  The JSON of an envelope is a pair of functions.
\<close>

subsection \<open>Reading and printing\<close>

definition ValidateEncoding :: "string \<Rightarrow> bool" where
  "ValidateEncoding enc \<longleftrightarrow> enc = EncodingRaw \<or> enc = ''b64'' \<or> enc = ''hex''"

definition ValidateFormat :: "string \<Rightarrow> bool" where
  "ValidateFormat fmt \<longleftrightarrow> fmt = ''human'' \<or> fmt = ''json''"

text \<open>\<open>None\<close> for the data of an envelope is a missing field.\<close>

record envelope_json =
  ej_write :: "string \<Rightarrow> bytes \<Rightarrow> bytes"
  ej_read :: "bytes \<Rightarrow> (string \<times> bytes option) option"

definition envelope_law :: "envelope_json \<Rightarrow> bool" where
  "envelope_law E \<longleftrightarrow> (\<forall>t d. t = ''offer'' \<or> t = ''answer'' \<longrightarrow> ej_read E (ej_write E t d) = Some (t, Some d))"

definition env_data :: "bytes option \<Rightarrow> bytes" where
  "env_data d = (case d of None \<Rightarrow> [] | Some b \<Rightarrow> b)"

record off_io =
  oi_read :: "string \<Rightarrow> bytes option"
  oi_stdin :: "bytes option"
  oi_tty :: bool
  oi_write :: "string \<Rightarrow> bool"
  oi_saved :: write_result

datatype off_error =
    OffEncoding string
  | OffFormat string
  | OffLoad client_error
  | OffReadFile
  | OffReadStdin
  | OffNothing
  | OffDecode codec_error
  | OffEnvelope
  | OffClient client_error
  | OffWriteFile string
  | OffEncode codec_error
  | OffBinary nat
  | OffIngestLoad client_error
  | OffIngestStores multi_error
  | OffIngestMailbox
  | OffIngest ingest_error

definition readInput :: "off_io \<Rightarrow> string \<Rightarrow> string \<Rightarrow> off_error + bytes" where
  "readInput io inline inputFile =
     (if inputFile \<noteq> [] then (case oi_read io inputFile of None \<Rightarrow> Inl OffReadFile | Some b \<Rightarrow> Inr b)
      else if inline \<noteq> [] then Inr (to_bytes inline)
      else case oi_stdin io of
        None \<Rightarrow> Inl OffReadStdin
      | Some b \<Rightarrow> if b = [] then Inl OffNothing else Inr b)"

datatype off_out =
    OffSaved string bytes
  | OffJson string string
  | OffPrinted bytes

text \<open>Text that is printed ends with a newline unless it is raw.\<close>

definition printed :: "string \<Rightarrow> bytes \<Rightarrow> bytes" where
  "printed enc b = b @ (if enc \<noteq> EncodingRaw then [0x0A] else [])"

definition emit_envelope :: "off_io \<Rightarrow> string \<Rightarrow> string \<Rightarrow> string \<Rightarrow> bytes \<Rightarrow> off_error + off_out" where
  "emit_envelope io outputFile enc fmt output =
     (if outputFile \<noteq> [] then (if oi_write io outputFile then Inr (OffSaved outputFile output) else Inl (OffWriteFile outputFile))
      else case Codec_Encode enc output of
        Inl e \<Rightarrow> Inl (OffEncode e)
      | Inr b \<Rightarrow> Inr (if fmt = ''json'' then OffJson enc (to_str b) else OffPrinted (printed enc b)))"

subsection \<open>Handshake\<close>

definition RunInit :: "prims \<Rightarrow> bytes \<Rightarrow> bytes \<Rightarrow> write_result \<Rightarrow> string \<Rightarrow> Clients.disk \<Rightarrow> (off_error + string) \<times> Clients.disk" where
  "RunInit P privEd dilCoins wr fmt d =
     (if \<not> ValidateFormat fmt then (Inl (OffFormat fmt), d)
      else let cl = NewClient P privEd dilCoins wr d in (Inr (cl_Id cl), files cl))"

definition RunOffer ::
  "prims \<Rightarrow> envelope_json \<Rightarrow> coins \<Rightarrow> bytes \<Rightarrow> off_io \<Rightarrow> string \<Rightarrow> string \<Rightarrow> string \<Rightarrow> string \<Rightarrow> string \<Rightarrow> Clients.disk \<Rightarrow>
   (off_error + off_out) \<times> Clients.disk" where
  "RunOffer P E cs oid io localPeer remotePeer outputFile outputEncoding fmt d =
     (if \<not> ValidateEncoding outputEncoding then (Inl (OffEncoding outputEncoding), d)
      else if \<not> ValidateFormat fmt then (Inl (OffFormat fmt), d)
      else case LoadClient localPeer d of
        Inl e \<Rightarrow> (Inl (OffLoad e), d)
      | Inr cl \<Rightarrow>
          (case Client_CreateOffer P cs oid (oi_saved io) remotePeer cl of
             (Inl e, cl') \<Rightarrow> (Inl (OffClient e), files cl')
           | (Inr offer, cl') \<Rightarrow> (emit_envelope io outputFile outputEncoding fmt (ej_write E ''offer'' offer), files cl')))"

text \<open>What \<^verbatim>\<open>accept\<close> and \<^verbatim>\<open>finish\<close> take from their input.\<close>

definition off_envelope :: "envelope_json \<Rightarrow> off_io \<Rightarrow> string \<Rightarrow> string \<Rightarrow> string \<Rightarrow> off_error + bytes" where
  "off_envelope E io inline inputFile inputEncoding =
     (case readInput io inline inputFile of
        Inl e \<Rightarrow> Inl e
      | Inr raw \<Rightarrow>
          (case Codec_Decode inputEncoding raw of
             Inl e \<Rightarrow> Inl (OffDecode e)
           | Inr data \<Rightarrow> (case ej_read E data of None \<Rightarrow> Inl OffEnvelope | Some (_, x) \<Rightarrow> Inr (env_data x))))"

definition RunAccept ::
  "prims \<Rightarrow> legacy_json \<Rightarrow> envelope_json \<Rightarrow> coins \<Rightarrow> bytes \<Rightarrow> off_io \<Rightarrow> string \<Rightarrow> string \<Rightarrow> string \<Rightarrow> string \<Rightarrow> string \<Rightarrow> string \<Rightarrow> string \<Rightarrow>
   Clients.disk \<Rightarrow> (off_error + off_out) \<times> Clients.disk" where
  "RunAccept P J E cs kem io localPeer offerEnvelope inputFile outputFile inputEncoding outputEncoding fmt d =
     (if \<not> ValidateEncoding inputEncoding then (Inl (OffEncoding inputEncoding), d)
      else if \<not> ValidateEncoding outputEncoding then (Inl (OffEncoding outputEncoding), d)
      else if \<not> ValidateFormat fmt then (Inl (OffFormat fmt), d)
      else case LoadClient localPeer d of
        Inl e \<Rightarrow> (Inl (OffLoad e), d)
      | Inr cl \<Rightarrow>
          (case off_envelope E io offerEnvelope inputFile inputEncoding of
             Inl e \<Rightarrow> (Inl e, d)
           | Inr data \<Rightarrow>
               (case Client_AcceptOffer P J cs kem (oi_saved io) data cl of
                  (Inl e, cl') \<Rightarrow> (Inl (OffClient e), files cl')
                | (Inr answer, cl') \<Rightarrow> (emit_envelope io outputFile outputEncoding fmt (ej_write E ''answer'' answer), files cl'))))"

definition RunFinish ::
  "prims \<Rightarrow> legacy_json \<Rightarrow> envelope_json \<Rightarrow> off_io \<Rightarrow> string \<Rightarrow> string \<Rightarrow> string \<Rightarrow> string \<Rightarrow> string \<Rightarrow> Clients.disk \<Rightarrow>
   (off_error + string) \<times> Clients.disk" where
  "RunFinish P J E io localPeer answerEnvelope inputFile inputEncoding fmt d =
     (if \<not> ValidateEncoding inputEncoding then (Inl (OffEncoding inputEncoding), d)
      else if \<not> ValidateFormat fmt then (Inl (OffFormat fmt), d)
      else case LoadClient localPeer d of
        Inl e \<Rightarrow> (Inl (OffLoad e), d)
      | Inr cl \<Rightarrow>
          (case off_envelope E io answerEnvelope inputFile inputEncoding of
             Inl e \<Rightarrow> (Inl e, d)
           | Inr data \<Rightarrow>
               (case Client_FinishHandshake P J (oi_saved io) data cl of
                  (Inl e, cl') \<Rightarrow> (Inl (OffClient e), files cl')
                | (Inr peerID, cl') \<Rightarrow> (Inr peerID, files cl'))))"

subsection \<open>Messages\<close>

definition emit_ciphertext :: "off_io \<Rightarrow> string \<Rightarrow> string \<Rightarrow> string \<Rightarrow> bytes \<Rightarrow> off_error + off_out" where
  "emit_ciphertext io outputFile enc fmt output =
     (if outputFile \<noteq> [] then (if oi_write io outputFile then Inr (OffSaved outputFile output) else Inl (OffWriteFile outputFile))
      else if fmt = ''json'' then
        (case Codec_Encode enc output of Inl e \<Rightarrow> Inl (OffEncode e) | Inr b \<Rightarrow> Inr (OffJson enc (to_str b)))
      else if enc = EncodingRaw \<and> oi_tty io then Inl (OffBinary (length output))
      else (case Codec_Encode enc output of Inl e \<Rightarrow> Inl (OffEncode e) | Inr b \<Rightarrow> Inr (OffPrinted (printed enc b))))"

definition RunEncrypt ::
  "prims \<Rightarrow> bytes \<Rightarrow> off_io \<Rightarrow> string \<Rightarrow> string \<Rightarrow> string \<Rightarrow> string \<Rightarrow> string \<Rightarrow> string \<Rightarrow> string \<Rightarrow> string \<Rightarrow> Clients.disk \<Rightarrow>
   (off_error + off_out) \<times> Clients.disk" where
  "RunEncrypt P rnd io localPeer remotePeer message inputFile outputFile inputEncoding outputEncoding fmt d =
     (if \<not> ValidateEncoding inputEncoding then (Inl (OffEncoding inputEncoding), d)
      else if \<not> ValidateEncoding outputEncoding then (Inl (OffEncoding outputEncoding), d)
      else if \<not> ValidateFormat fmt then (Inl (OffFormat fmt), d)
      else case LoadClient localPeer d of
        Inl e \<Rightarrow> (Inl (OffLoad e), d)
      | Inr cl \<Rightarrow>
          (case readInput io message inputFile of
             Inl e \<Rightarrow> (Inl e, d)
           | Inr raw \<Rightarrow>
               (case Codec_Decode inputEncoding raw of
                  Inl e \<Rightarrow> (Inl (OffDecode e), d)
                | Inr plaintext \<Rightarrow>
                    (case Client_Encrypt P rnd (oi_saved io) remotePeer plaintext cl of
                       (Inl e, cl') \<Rightarrow> (Inl (OffClient e), files cl')
                     | (Inr output, cl') \<Rightarrow> (emit_ciphertext io outputFile outputEncoding fmt output, files cl')))))"

text \<open>The ratio of control characters is compared with one in a hundred; the division is exact enough for every length that fits in memory.\<close>

definition looksLikeText :: "bytes \<Rightarrow> bool" where
  "looksLikeText data \<longleftrightarrow>
     data = [] \<or>
     0 \<notin> set data \<and> 100 * length (filter (\<lambda>b. b < 0x09 \<or> (b > 0x0D \<and> b < 0x20)) data) < length data"

definition ingestStandardBytes ::
  "prims \<Rightarrow> packets \<Rightarrow> (bytes \<Rightarrow> (string \<times> string) option) \<Rightarrow> frame_io \<Rightarrow> string \<Rightarrow> bytes \<Rightarrow> cli_world \<Rightarrow>
   (off_error + IngestEvent) \<times> (FileContextStore, FileDeliveryStore) Deps option" where
  "ingestStandardBytes P K J io localPeer raw w =
     (let trimmed = trim_space raw in
      if trimmed = [] then (Inl (OffIngest ErrNotFrame), None)
      else if hd trimmed \<noteq> 0x7B \<and>
        (case b64_decode (to_str trimmed) of None \<Rightarrow> True | Some dec \<Rightarrow> dec = [] \<or> \<not> Type_Valid (hd dec))
      then (Inl (OffIngest ErrNotFrame), None)
      else case LoadClient localPeer (cw_clients w) of
        Inl e \<Rightarrow> (Inl (OffIngestLoad e), None)
      | Inr cl \<Rightarrow>
          (case open_stores P K localPeer w of
             Inl e \<Rightarrow> (Inl (OffIngestStores e), None)
           | Inr (ctxStore, dlvStore) \<Rightarrow>
               (case Mailbox_Load P K (cw_threads w) (snd (snd (cw_migrate w))) localPeer (cw_disk w) of
                  (Inl _, _) \<Rightarrow> (Inl OffIngestMailbox, None)
                | (Inr mb, fs) \<Rightarrow>
                    let d = \<lparr>dp_Client = cl, dp_Mailbox = Some mb, dp_disk = fs,
                             dp_Fanout = Some (NewFanout cl False ctxStore dlvStore DefaultFanoutConfig []), dp_sent = []\<rparr> in
                    (case Ingest P K J (FileContexts P K) io localPeer trimmed d of
                       (Inl e, d') \<Rightarrow> (Inl (OffIngest e), Some d')
                     | (Inr ev, d') \<Rightarrow> (Inr ev, Some d')))))"

datatype dec_out =
    DecIngested IngestEvent
  | DecSaved string string bytes
  | DecJson string string string
  | DecText string bytes
  | DecEncoded string bytes

text \<open>A message in the older form: what is printed of a plaintext.\<close>

definition emit_plaintext :: "off_io \<Rightarrow> string \<Rightarrow> string \<Rightarrow> string \<Rightarrow> string \<Rightarrow> bytes \<Rightarrow> off_error + dec_out" where
  "emit_plaintext io outputFile enc fmt sender plain =
     (let isText = (utf8_valid plain \<and> looksLikeText plain) in
      if outputFile \<noteq> [] then (if oi_write io outputFile then Inr (DecSaved sender outputFile plain) else Inl (OffWriteFile outputFile))
      else if fmt = ''json'' then
        Inr (if isText then DecJson sender ''utf-8'' (to_str plain) else DecJson sender ''base64'' (b64_encode plain))
      else if isText then Inr (DecText sender plain)
      else if enc = EncodingRaw \<and> oi_tty io then Inl (OffBinary (length plain))
      else (case Codec_Encode enc plain of Inl e \<Rightarrow> Inl (OffEncode e) | Inr b \<Rightarrow> Inr (DecEncoded sender (printed enc b))))"

definition RunDecrypt ::
  "prims \<Rightarrow> packets \<Rightarrow> (bytes \<Rightarrow> (string \<times> string) option) \<Rightarrow> frame_io \<Rightarrow> off_io \<Rightarrow> string \<Rightarrow> string \<Rightarrow> string \<Rightarrow> string \<Rightarrow> string \<Rightarrow> string \<Rightarrow>
   string \<Rightarrow> cli_world \<Rightarrow> (off_error + dec_out) \<times> Clients.disk \<times> (FileContextStore, FileDeliveryStore) Deps option" where
  "RunDecrypt P K J fio io localPeer cipherText inputFile outputFile inputEncoding outputEncoding fmt w =
     (let d = cw_clients w in
      if \<not> ValidateEncoding inputEncoding then (Inl (OffEncoding inputEncoding), d, None)
      else if \<not> ValidateEncoding outputEncoding then (Inl (OffEncoding outputEncoding), d, None)
      else if \<not> ValidateFormat fmt then (Inl (OffFormat fmt), d, None)
      else case LoadClient localPeer d of
        Inl e \<Rightarrow> (Inl (OffLoad e), d, None)
      | Inr cl \<Rightarrow>
          (case readInput io cipherText inputFile of
             Inl e \<Rightarrow> (Inl e, d, None)
           | Inr input \<Rightarrow>
               (case ingestStandardBytes P K J fio localPeer input w of
                  (Inr ev, dp) \<Rightarrow> (Inr (DecIngested ev), case dp of None \<Rightarrow> d | Some x \<Rightarrow> files (dp_Client x), dp)
                | (Inl e, dp) \<Rightarrow>
                    if e \<noteq> OffIngest ErrNotFrame then (Inl e, case dp of None \<Rightarrow> d | Some x \<Rightarrow> files (dp_Client x), dp)
                    else
                      (case Codec_Decode inputEncoding input of
                         Inl e \<Rightarrow> (Inl (OffDecode e), d, None)
                       | Inr frame \<Rightarrow>
                           (case Client_Decrypt P (oi_saved io) frame cl of
                              (Inl e, cl') \<Rightarrow> (Inl (OffClient e), files cl', None)
                            | (Inr (sender, plain), cl') \<Rightarrow>
                                (emit_plaintext io outputFile outputEncoding fmt sender plain, files cl', None))))))"

end
