(* ===== verification/OfflineShell.thy ===== *)
theory OfflineShell
  imports Offline Shellcmd
begin

text \<open>
  The offline mode inside the shells: the commands of the transport menu (\<^verbatim>\<open>src/cmd/offline/register.go\<close> with
  \<^verbatim>\<open>ingest.go\<close>) and the older line loop (\<^verbatim>\<open>RunOffline\<close> of \<^verbatim>\<open>offline.go\<close>).

  The identity files and the other files are fields of the state.  A client object carries the identity files; before
  a command they are put into the client objects and afterwards taken from the object that may have written.
  What a command prints is a value.
\<close>

subsection \<open>Envelopes\<close>

definition wrapEnvelope :: "envelope_json \<Rightarrow> string \<Rightarrow> bytes \<Rightarrow> bytes" where
  "wrapEnvelope E t data = ej_write E t data"

definition unwrapEnvelope :: "envelope_json \<Rightarrow> bytes \<Rightarrow> (string \<times> bytes option) option" where
  "unwrapEnvelope E data = ej_read E data"

text \<open>\<open>None\<close>: nothing was pasted.\<close>

definition parsePastedPayload :: "envelope_json \<Rightarrow> string \<Rightarrow> bytes option" where
  "parsePastedPayload E pasted =
     (let trimmed = trim_space (to_bytes pasted) in
      if trimmed = [] then None
      else if hd trimmed = 0x7B then
        (case unwrapEnvelope E trimmed of Some (_, Some d) \<Rightarrow> Some d | _ \<Rightarrow> Some trimmed)
      else Some trimmed)"

subsection \<open>State\<close>

record off_shell =
  os_State :: State
  os_box :: string          \<comment> \<open>the identity whose mailbox is open\<close>
  os_clients :: Clients.disk
  os_fs :: filesystem

text \<open>What one command meets: the contacts book, random draws, the fate of writes, the pasted line and standard input.\<close>

record off_env =
  oe_book :: "book option"
  oe_new :: "bytes \<times> bytes"
  oe_coins :: coins
  oe_kem :: bytes
  oe_oid :: bytes
  oe_rnd :: bytes
  oe_write :: write_result
  oe_pasted :: string
  oe_stdin :: bytes
  oe_mkdir :: bool
  oe_contexts :: "bytes \<Rightarrow> MessageContext list option"
  oe_policies :: "bytes \<Rightarrow> LocalRecipientPolicy list option"
  oe_deliveries :: "bytes \<Rightarrow> MessageDelivery list option"
  oe_threads :: "bytes \<Rightarrow> Thread option list option"
  oe_migrate :: "two_writes \<times> save_io \<times> save_io"
  oe_frame :: frame_io
  oe_chat :: chat_io
  oe_fold :: "nat \<Rightarrow> nat"
  oe_day :: "64 word \<Rightarrow> string"
  oe_time :: "64 word \<Rightarrow> string"

definition fan_client :: "fan_stores \<Rightarrow> Client" where
  "fan_client fs = (case fs of FileFan f \<Rightarrow> fo_client f | MemoryFan f \<Rightarrow> fo_client f)"

definition fan_files :: "Clients.disk \<Rightarrow> fan_stores \<Rightarrow> fan_stores" where
  "fan_files d fs =
     (case fs of FileFan f \<Rightarrow> FileFan (f\<lparr>fo_client := (fo_client f)\<lparr>files := d\<rparr>\<rparr>)
      | MemoryFan f \<Rightarrow> MemoryFan (f\<lparr>fo_client := (fo_client f)\<lparr>files := d\<rparr>\<rparr>))"

definition see_files :: "Clients.disk \<Rightarrow> State \<Rightarrow> State" where
  "see_files d s = s\<lparr>ActiveClient := map_option (\<lambda>c. c\<lparr>files := d\<rparr>) (ActiveClient s), st_Fanout := map_option (fan_files d) (st_Fanout s)\<rparr>"

definition open_fanout :: "prims \<Rightarrow> packets \<Rightarrow> off_env \<Rightarrow> State \<Rightarrow> filesystem \<Rightarrow> State" where
  "open_fanout P K e s fs =
     InitFanout P K (oe_mkdir e) (oe_contexts e) (oe_policies e) (oe_deliveries e) (fst (oe_migrate e)) (fst (snd (oe_migrate e))) s fs"

datatype off_shown =
    OffNeedIdentity
  | OffUsage string
  | OffChat chat_out
  | OffIdentity string
  | OffLoadFailed client_error
  | OffLoaded string
  | OffPeer peer_error
  | OffFailed string client_error
  | OffNothingPasted
  | OffInvalidEnvelope string
  | OffEnvelopeShown string bytes
  | OffEstablished string
  | OffCiphertext bytes
  | OffTaken IngestEvent
  | OffNotTaken ingest_error
  | OffBadBase64
  | OffDecrypted string bytes
  | OffPeers "string list"
  | OffHelp
  | OffUnknown
  | OffLeave
  | OffCrash

subsection \<open>The commands of the menu\<close>

definition isPlausibleFrameB64 :: "bytes \<Rightarrow> bool" where
  "isPlausibleFrameB64 token =
     (case b64_decode (to_str token) of None \<Rightarrow> False | Some dec \<Rightarrow> dec \<noteq> [] \<and> Type_Valid (hd dec))"

definition take_in ::
  "prims \<Rightarrow> packets \<Rightarrow> (bytes \<Rightarrow> (string \<times> string) option) \<Rightarrow> frame_io \<Rightarrow> string \<Rightarrow> bytes \<Rightarrow> Client \<Rightarrow> State \<Rightarrow> filesystem \<Rightarrow>
   (ingest_error + IngestEvent) \<times> State \<times> filesystem" where
  "take_in P K J io me raw cl s fs =
     (case st_Fanout s of
        Some (MemoryFan f) \<Rightarrow>
          (case Ingest P K J MemoryContexts io me raw
                  \<lparr>dp_Client = cl, dp_Mailbox = MailboxStore s, dp_disk = fs, dp_Fanout = Some f, dp_sent = []\<rparr> of
             (r, d) \<Rightarrow> (r, s\<lparr>ActiveClient := Some (dp_Client d), MailboxStore := dp_Mailbox d, st_Fanout := map_option MemoryFan (dp_Fanout d)\<rparr>, dp_disk d))
      | Some (FileFan f) \<Rightarrow>
          (case Ingest P K J (FileContexts P K) io me raw
                  \<lparr>dp_Client = cl, dp_Mailbox = MailboxStore s, dp_disk = fs, dp_Fanout = Some f, dp_sent = []\<rparr> of
             (r, d) \<Rightarrow> (r, s\<lparr>ActiveClient := Some (dp_Client d), MailboxStore := dp_Mailbox d, st_Fanout := map_option FileFan (dp_Fanout d)\<rparr>, dp_disk d))
      | None \<Rightarrow>
          (case Ingest P K J (FileContexts P K) io me raw
                  (\<lparr>dp_Client = cl, dp_Mailbox = MailboxStore s, dp_disk = fs, dp_Fanout = None, dp_sent = []\<rparr>
                     :: (FileContextStore, FileDeliveryStore) Deps) of
             (r, d) \<Rightarrow> (r, s\<lparr>ActiveClient := Some (dp_Client d), MailboxStore := dp_Mailbox d\<rparr>, dp_disk d)))"

definition ingestStandard ::
  "prims \<Rightarrow> packets \<Rightarrow> (bytes \<Rightarrow> (string \<times> string) option) \<Rightarrow> off_env \<Rightarrow> string \<Rightarrow> string \<Rightarrow> Client \<Rightarrow> State \<Rightarrow> filesystem \<Rightarrow>
   (ingest_error + IngestEvent) \<times> State \<times> filesystem" where
  "ingestStandard P K J e me input cl s fs =
     (let raw = trim_space (to_bytes input) in
      if raw \<noteq> [] \<and> hd raw \<noteq> 0x7B \<and> \<not> isPlausibleFrameB64 raw then (Inl ErrNotFrame, s, fs)
      else take_in P K J (oe_frame e) me raw cl (if st_Fanout s = None then open_fanout P K e s fs else s) fs)"

text \<open>The message of \<^verbatim>\<open>encrypt\<close>; an empty one is read from standard input.\<close>

definition message_bytes :: "off_env \<Rightarrow> string list \<Rightarrow> bytes" where
  "message_bytes e ws = (let message = words ws in if message \<noteq> [] then to_bytes message else oe_stdin e)"

text \<open>A command that only changes the active client.\<close>

definition client_did :: "Client \<Rightarrow> off_shell \<Rightarrow> off_shell" where
  "client_did cl q = q\<lparr>os_State := (os_State q)\<lparr>ActiveClient := Some cl\<rparr>, os_clients := files cl\<rparr>"

definition on_state :: "(State \<Rightarrow> State) \<Rightarrow> off_shell \<Rightarrow> off_shell" where
  "on_state f q = q\<lparr>os_State := f (os_State q)\<rparr>"

definition off_offer :: "prims \<Rightarrow> envelope_json \<Rightarrow> off_env \<Rightarrow> string list \<Rightarrow> off_shell \<Rightarrow> off_shown \<times> off_shell" where
  "off_offer P E e args q =
     (case args of
        [] \<Rightarrow> (OffUsage ''offer'', q)
      | a # _ \<Rightarrow>
          (case ActiveClient (os_State q) of
             None \<Rightarrow> (OffNeedIdentity, q)
           | Some cl \<Rightarrow>
               (case ResolvePeer (oe_book e) a (os_State q) of
                  Inl x \<Rightarrow> (OffPeer x, q)
                | Inr peerID \<Rightarrow>
                    (case Client_CreateOffer P (oe_coins e) (oe_oid e) (oe_write e) peerID cl of
                       (Inl x, cl') \<Rightarrow> (OffFailed ''offer'' x, client_did cl' q)
                     | (Inr b, cl') \<Rightarrow>
                         (OffEnvelopeShown ''offer'' (wrapEnvelope E ''offer'' b), on_state (State_RememberPeer peerID) (client_did cl' q))))))"

definition off_accept :: "prims \<Rightarrow> legacy_json \<Rightarrow> envelope_json \<Rightarrow> off_env \<Rightarrow> off_shell \<Rightarrow> off_shown \<times> off_shell" where
  "off_accept P L E e q =
     (case ActiveClient (os_State q) of
        None \<Rightarrow> (OffNeedIdentity, q)
      | Some cl \<Rightarrow>
          (case parsePastedPayload E (TrimSpace (oe_pasted e)) of
             None \<Rightarrow> (OffNothingPasted, q)
           | Some payload \<Rightarrow>
               (case Client_AcceptOffer P L (oe_coins e) (oe_kem e) (oe_write e) payload cl of
                  (Inl x, cl') \<Rightarrow> (OffFailed ''accept'' x, client_did cl' q)
                | (Inr b, cl') \<Rightarrow>
                    (OffEnvelopeShown ''answer'' (wrapEnvelope E ''answer'' b), on_state SyncPeersFromClient (client_did cl' q)))))"

definition off_finish :: "prims \<Rightarrow> legacy_json \<Rightarrow> envelope_json \<Rightarrow> off_env \<Rightarrow> off_shell \<Rightarrow> off_shown \<times> off_shell" where
  "off_finish P L E e q =
     (case ActiveClient (os_State q) of
        None \<Rightarrow> (OffNeedIdentity, q)
      | Some cl \<Rightarrow>
          (case parsePastedPayload E (TrimSpace (oe_pasted e)) of
             None \<Rightarrow> (OffNothingPasted, q)
           | Some payload \<Rightarrow>
               (case Client_FinishHandshake P L (oe_write e) payload cl of
                  (Inl x, cl') \<Rightarrow> (OffFailed ''finish'' x, client_did cl' q)
                | (Inr peerID, cl') \<Rightarrow> (OffEstablished peerID, on_state (State_RememberPeer peerID) (client_did cl' q)))))"

definition off_encrypt :: "prims \<Rightarrow> off_env \<Rightarrow> string list \<Rightarrow> off_shell \<Rightarrow> off_shown \<times> off_shell" where
  "off_encrypt P e args q =
     (case args of
        a # w # ws \<Rightarrow>
          (case ActiveClient (os_State q) of
             None \<Rightarrow> (OffNeedIdentity, q)
           | Some cl \<Rightarrow>
               (case ResolvePeer (oe_book e) a (os_State q) of
                  Inl x \<Rightarrow> (OffPeer x, q)
                | Inr peer \<Rightarrow>
                    (case Client_Encrypt P (oe_rnd e) (oe_write e) peer (message_bytes e (w # ws)) cl of
                       (Inl x, cl') \<Rightarrow> (OffFailed ''encrypt'' x, client_did cl' q)
                     | (Inr cipher, cl') \<Rightarrow> (OffCiphertext cipher, on_state (State_RememberPeer peer) (client_did cl' q)))))
      | _ \<Rightarrow> (OffUsage ''encrypt'', q))"

text \<open>The older form of a message: base64 of a bare ciphertext.  The result of storing it is ignored.\<close>

definition off_decrypt_bare :: "prims \<Rightarrow> packets \<Rightarrow> off_env \<Rightarrow> string \<Rightarrow> Client \<Rightarrow> off_shell \<Rightarrow> off_shown \<times> off_shell" where
  "off_decrypt_bare P K e a cl q =
     (case b64_decode a of
        None \<Rightarrow> (OffBadBase64, q)
      | Some ciphertext \<Rightarrow>
          (case Client_Decrypt P (oe_write e) ciphertext cl of
             (Inl x, cl') \<Rightarrow> (OffFailed ''decrypt'' x, client_did cl' q)
           | (Inr (senderID, plain), cl') \<Rightarrow>
               let o1 = client_did cl' q;
                   o2 = (case MailboxStore (os_State o1) of
                           None \<Rightarrow> o1
                         | Some mb \<Rightarrow>
                             (case AppendIncoming P K (fi_save (oe_frame e)) (fi_clock (oe_frame e)) (fileFor (os_box o1)) senderID (to_str plain) (mb, os_fs o1) of
                                (_, mb', fs') \<Rightarrow> o1\<lparr>os_State := (os_State o1)\<lparr>MailboxStore := Some mb'\<rparr>, os_fs := fs'\<rparr>))
               in (OffDecrypted senderID plain, on_state (State_RememberPeer senderID) o2)))"

text \<open>The identity files after frames were taken in: the group layer may hold another client than the active one.\<close>

definition files_after :: "Clients.disk \<Rightarrow> State \<Rightarrow> Clients.disk" where
  "files_after d s' =
     (case (ActiveClient s', map_option fan_client (st_Fanout s')) of
        (Some cl, Some fc) \<Rightarrow> if cl_Id cl = cl_Id fc then files cl else if files fc = d then files cl else files fc
      | (Some cl, None) \<Rightarrow> files cl
      | (None, Some fc) \<Rightarrow> files fc
      | (None, None) \<Rightarrow> d)"

definition off_decrypt ::
  "prims \<Rightarrow> packets \<Rightarrow> (bytes \<Rightarrow> (string \<times> string) option) \<Rightarrow> off_env \<Rightarrow> string list \<Rightarrow> off_shell \<Rightarrow> off_shown \<times> off_shell" where
  "off_decrypt P K J e args q =
     (case args of
        [] \<Rightarrow> (OffUsage ''decrypt'', q)
      | a # _ \<Rightarrow>
          (case ActiveClient (os_State q) of
             None \<Rightarrow> (OffNeedIdentity, q)
           | Some cl \<Rightarrow>
               (case ingestStandard P K J e (os_box q) a cl (os_State q) (os_fs q) of
                  (r, s', fs') \<Rightarrow>
                    let o1 = q\<lparr>os_State := s', os_fs := fs', os_clients := files_after (os_clients q) s'\<rparr> in
                    (case r of
                       Inr ev \<Rightarrow> (OffTaken ev, if ie_Kind ev = ''duplicate'' then o1 else on_state (State_RememberPeer (ie_Sender ev)) o1)
                     | Inl IngestPanic \<Rightarrow> (OffCrash, o1)
                     | Inl x \<Rightarrow> if x = ErrNotFrame then off_decrypt_bare P K e a cl o1 else (OffNotTaken x, o1)))))"

definition off_load :: "prims \<Rightarrow> packets \<Rightarrow> off_env \<Rightarrow> string list \<Rightarrow> off_shell \<Rightarrow> off_shown \<times> off_shell" where
  "off_load P K e args q =
     (case args of
        [] \<Rightarrow> (OffUsage ''load'', q)
      | a # _ \<Rightarrow>
          (case LoadClient a (os_clients q) of
             Inl x \<Rightarrow> (OffLoadFailed x, q)
           | Inr cl \<Rightarrow>
               (OffLoaded (cl_Id cl),
                on_state (\<lambda>s. open_fanout P K e (SyncPeersFromClient (s\<lparr>ActiveClient := Some cl\<rparr>)) (os_fs q)) q)))"

definition off_chat ::
  "prims \<Rightarrow> packets \<Rightarrow> off_env \<Rightarrow> string \<Rightarrow> string list \<Rightarrow> off_shell \<Rightarrow> off_shown \<times> off_shell" where
  "off_chat P K e cmd args q =
     (if cmd \<noteq> ''mailbox'' \<and> (ActiveClient (os_State q) = None \<or> st_Fanout (os_State q) = None) then (OffNeedIdentity, q)
      else case Chat_Execute P K (oe_fold e) (oe_day e) (oe_time e) (oe_chat e) (oe_book e) (os_box q) cmd args (os_State q) (os_fs q) of
        (out, s', fs') \<Rightarrow>
          (case out of None \<Rightarrow> OffUnknown | Some x \<Rightarrow> OffChat x,
           q\<lparr>os_State := s', os_fs := fs', os_clients := files_after (os_clients q) s'\<rparr>))"

definition Offline_Execute ::
  "prims \<Rightarrow> packets \<Rightarrow> (bytes \<Rightarrow> (string \<times> string) option) \<Rightarrow> legacy_json \<Rightarrow> envelope_json \<Rightarrow> off_env \<Rightarrow> string \<Rightarrow> string list \<Rightarrow>
   off_shell \<Rightarrow> off_shown \<times> off_shell" where
  "Offline_Execute P K J L E e cmd args o0 =
     (let q = on_state (see_files (os_clients o0)) o0 in
      if Handles cmd then off_chat P K e cmd args q
      else if cmd = ''init'' then
        (let cl = NewClient P (fst (oe_new e)) (snd (oe_new e)) (oe_write e) (os_clients q) in (OffIdentity (cl_Id cl), client_did cl q))
      else if cmd = ''load'' then off_load P K e args q
      else if cmd = ''offer'' then off_offer P E e args q
      else if cmd = ''accept'' then off_accept P L E e q
      else if cmd = ''finish'' then off_finish P L E e q
      else if cmd = ''encrypt'' \<or> cmd = ''send'' then off_encrypt P e args q
      else if cmd = ''decrypt'' then off_decrypt P K J e args q
      else if cmd = ''peers'' then (OffPeers (PeerCandidates (oe_book e) (os_State q)), q)
      else if cmd = ''help'' then (OffHelp, q)
      else if cmd = ''switch'' \<or> cmd = ''exit'' then (OffLeave, q)
      else (OffUnknown, q))"

definition Offline_Init :: "prims \<Rightarrow> packets \<Rightarrow> off_env \<Rightarrow> off_shell \<Rightarrow> off_shell" where
  "Offline_Init P K e q = on_state (\<lambda>s. open_fanout P K e s (os_fs q)) q"

definition Offline_Commands :: "CommandSpec list" where
  "Offline_Commands =
     [(spec ''init'')\<lparr>sp_Help := ''Generate a new identity''\<rparr>,
      IdentityCommand ''Load an existing local identity (Tab lists ./<id>.json files)'',
      (spec ''offer'')\<lparr>sp_Args := [ArgPeer], sp_Usage := ''offer <peer>'', sp_Help := ''Generate a handshake offer for a peer (JSON)''\<rparr>,
      (spec ''accept'')\<lparr>sp_Help := ''Accept a peer's offer (prompts for the offer JSON)''\<rparr>,
      (spec ''finish'')\<lparr>sp_Help := ''Finalise a handshake (prompts for the answer JSON)''\<rparr>,
      (MessageCommand ''encrypt'' [''send''])\<lparr>sp_Help := ''Encrypt a message for an established peer''\<rparr>,
      (spec ''decrypt'')\<lparr>sp_Args := [ArgText], sp_Variadic := ArgText, sp_Usage := ''decrypt <b64>'', sp_Help := ''Decrypt a base64 ciphertext frame''\<rparr>,
      PeersCommand] @ Chat_Specs @ BaseCommands"

subsection \<open>The line loop\<close>

text \<open>What \<^verbatim>\<open>DecodeString\<close> returns next to an error: the bytes of the quanta before it.  \<^verbatim>\<open>accept\<close> and \<^verbatim>\<open>finish\<close> ignore the error.\<close>

fun b64_before_error :: "string \<Rightarrow> bytes" where
  "b64_before_error (a # b # c # d # rest) =
     (case (b64_val a, b64_val b) of
        (Some x, Some y) \<Rightarrow>
          (if c = CHR ''='' then (if d = CHR ''='' then [word_of_nat (x * 4 + y div 16)] else [])
           else case b64_val c of
              None \<Rightarrow> []
            | Some z \<Rightarrow>
                (if d = CHR ''='' then [word_of_nat (x * 4 + y div 16), word_of_nat (y mod 16 * 16 + z div 4)]
                 else case b64_val d of
                    None \<Rightarrow> []
                  | Some w \<Rightarrow>
                      word_of_nat (x * 4 + y div 16) # word_of_nat (y mod 16 * 16 + z div 4) # word_of_nat (z mod 4 * 64 + w) #
                      b64_before_error rest))
      | _ \<Rightarrow> [])"
| "b64_before_error _ = []"

definition pasted_bytes :: "string \<Rightarrow> bytes" where
  "pasted_bytes s = b64_before_error (filter (\<lambda>c. c \<noteq> CHR 0x0A \<and> c \<noteq> CHR 0x0D) s)"

record repl =
  rp_client :: "Client option"
  rp_clients :: Clients.disk
  rp_fs :: filesystem

definition replState :: "prims \<Rightarrow> packets \<Rightarrow> off_env \<Rightarrow> Client \<Rightarrow> filesystem \<Rightarrow> State \<times> filesystem" where
  "replState P K e cl fs =
     (case InitMailbox P K (oe_threads e) (snd (snd (oe_migrate e))) (NewState\<lparr>ActiveClient := Some cl\<rparr>) fs of
        (s, fs') \<Rightarrow> (open_fanout P K e s fs', fs'))"

definition repl_did :: "Client \<Rightarrow> repl \<Rightarrow> repl" where
  "repl_did cl r = r\<lparr>rp_client := Some cl, rp_clients := files cl\<rparr>"

text \<open>\<^verbatim>\<open>accept\<close> and \<^verbatim>\<open>finish\<close> on the line that follows them.\<close>

definition repl_handshake ::
  "prims \<Rightarrow> legacy_json \<Rightarrow> envelope_json \<Rightarrow> off_env \<Rightarrow> bool \<Rightarrow> string \<Rightarrow> repl \<Rightarrow> off_shown \<times> repl" where
  "repl_handshake P L E e accept text r =
     (case unwrapEnvelope E (pasted_bytes text) of
        None \<Rightarrow> (OffInvalidEnvelope (if accept then ''offer'' else ''answer''), r)
      | Some (_, d) \<Rightarrow>
          (case rp_client r of
             None \<Rightarrow> (OffNeedIdentity, r)
           | Some cl \<Rightarrow>
               if accept then
                 (case Client_AcceptOffer P L (oe_coins e) (oe_kem e) (oe_write e) (env_data d) cl of
                    (Inl x, cl') \<Rightarrow> (OffFailed ''accept'' x, repl_did cl' r)
                  | (Inr b, cl') \<Rightarrow> (OffEnvelopeShown ''answer'' (to_bytes (b64_encode (wrapEnvelope E ''answer'' b))), repl_did cl' r))
               else
                 (case Client_FinishHandshake P L (oe_write e) (env_data d) cl of
                    (Inl x, cl') \<Rightarrow> (OffFailed ''finish'' x, repl_did cl' r)
                  | (Inr peerID, cl') \<Rightarrow> (OffEstablished peerID, repl_did cl' r))))"

definition repl_decrypt ::
  "prims \<Rightarrow> packets \<Rightarrow> (bytes \<Rightarrow> (string \<times> string) option) \<Rightarrow> off_env \<Rightarrow> string \<Rightarrow> repl \<Rightarrow> off_shown \<times> repl" where
  "repl_decrypt P K J e text r =
     (let pasted = TrimSpace text in
      case rp_client r of
        None \<Rightarrow> (OffNeedIdentity, r)
      | Some cl \<Rightarrow>
          (case replState P K e cl (rp_fs r) of
             (s, fs) \<Rightarrow>
               (case take_in P K J (oe_frame e) (cl_Id cl) (to_bytes pasted) cl s fs of
                  (res, s', fs') \<Rightarrow>
                    let cl1 = (case ActiveClient s' of None \<Rightarrow> cl | Some c \<Rightarrow> c); r1 = (repl_did cl1 r)\<lparr>rp_fs := fs'\<rparr> in
                    (case res of
                       Inr ev \<Rightarrow> (OffTaken ev, r1)
                     | Inl IngestPanic \<Rightarrow> (OffCrash, r1)
                     | Inl _ \<Rightarrow>
                         (case b64_decode pasted of
                            None \<Rightarrow> (OffBadBase64, r1)
                          | Some b \<Rightarrow>
                              (case Client_Decrypt P (oe_write e) b cl1 of
                                 (Inl x, cl') \<Rightarrow> (OffFailed ''decrypt'' x, repl_did cl' r1)
                               | (Inr (senderID, plain), cl') \<Rightarrow> (OffDecrypted senderID plain, repl_did cl' r1)))))))"

definition repl_chat :: "prims \<Rightarrow> packets \<Rightarrow> off_env \<Rightarrow> string \<Rightarrow> string list \<Rightarrow> repl \<Rightarrow> off_shown \<times> repl" where
  "repl_chat P K e cmd args r =
     (case rp_client r of
        None \<Rightarrow> (OffNeedIdentity, r)
      | Some cl \<Rightarrow>
          (case replState P K e cl (rp_fs r) of
             (s, fs) \<Rightarrow>
               (case Chat_Execute P K (oe_fold e) (oe_day e) (oe_time e) (oe_chat e) (oe_book e) (cl_Id cl)
                       (if cmd = ''multisend'' then ''send-multi'' else cmd) args s fs of
                  (out, s', fs') \<Rightarrow>
                    (case out of None \<Rightarrow> OffUnknown | Some x \<Rightarrow> OffChat x,
                     (repl_did (case ActiveClient s' of None \<Rightarrow> cl | Some c \<Rightarrow> c) r)\<lparr>rp_fs := fs'\<rparr>))))"

text \<open>The commands that do not read a second line.\<close>

definition repl_command ::
  "prims \<Rightarrow> packets \<Rightarrow> envelope_json \<Rightarrow> off_env \<Rightarrow> string \<Rightarrow> string list \<Rightarrow> repl \<Rightarrow> off_shown \<times> repl" where
  "repl_command P K E e cmd args r =
     (if cmd = ''init'' then
        (let cl = NewClient P (fst (oe_new e)) (snd (oe_new e)) (oe_write e) (rp_clients r) in (OffIdentity (cl_Id cl), repl_did cl r))
      else if cmd = ''load'' then
        (case args of
           [] \<Rightarrow> (OffUsage ''load'', r)
         | a # _ \<Rightarrow> (case LoadClient a (rp_clients r) of
             Inl x \<Rightarrow> (OffLoadFailed x, r) | Inr cl \<Rightarrow> (OffLoaded (cl_Id cl), r\<lparr>rp_client := Some cl\<rparr>)))
      else if cmd = ''offer'' then
        (case args of
           [] \<Rightarrow> (OffUsage ''offer'', r)
         | a # _ \<Rightarrow>
             (case rp_client r of
                None \<Rightarrow> (OffNeedIdentity, r)
              | Some cl \<Rightarrow>
                  (case Client_CreateOffer P (oe_coins e) (oe_oid e) (oe_write e) a cl of
                     (Inl x, cl') \<Rightarrow> (OffFailed ''offer'' x, repl_did cl' r)
                   | (Inr b, cl') \<Rightarrow> (OffEnvelopeShown ''offer'' (to_bytes (b64_encode (wrapEnvelope E ''offer'' b))), repl_did cl' r))))
      else if cmd = ''encrypt'' then
        (case args of
           a # w # ws \<Rightarrow>
             (case rp_client r of
                None \<Rightarrow> (OffNeedIdentity, r)
              | Some cl \<Rightarrow>
                  (case Client_Encrypt P (oe_rnd e) (oe_write e) a (message_bytes e (w # ws)) cl of
                     (Inl x, cl') \<Rightarrow> (OffFailed ''encrypt'' x, repl_did cl' r)
                   | (Inr b, cl') \<Rightarrow> (OffCiphertext (to_bytes (b64_encode b)), repl_did cl' r)))
         | _ \<Rightarrow> (OffUsage ''encrypt'', r))
      else if cmd = ''help'' then (OffHelp, r)
      else if cmd \<in> {''context'', ''send-multi'', ''multisend'', ''contexts'', ''mailbox''} then repl_chat P K e cmd args r
      else if cmd = ''clear'' then (OffHelp, r)
      else if cmd = ''exit'' then (OffLeave, r)
      else (OffUnknown, r))"

text \<open>
  One command: what it shows, the state, and the lines that are left.  A prompt at the end of the input reads an empty text.
\<close>

definition repl_step ::
  "prims \<Rightarrow> packets \<Rightarrow> (bytes \<Rightarrow> (string \<times> string) option) \<Rightarrow> legacy_json \<Rightarrow> envelope_json \<Rightarrow> off_env \<Rightarrow> string \<Rightarrow> string list \<Rightarrow> repl \<Rightarrow>
   off_shown \<times> repl \<times> string list" where
  "repl_step P K J L E e line rest r =
     (let parts = Fields line; cmd = ToLower (hd parts); text = (case rest of [] \<Rightarrow> [] | l # _ \<Rightarrow> l) in
      if cmd = ''accept'' \<or> cmd = ''finish'' then
        (case repl_handshake P L E e (cmd = ''accept'') text r of (out, r') \<Rightarrow> (out, r', tl rest))
      else if cmd = ''decrypt'' then (case repl_decrypt P K J e text r of (out, r') \<Rightarrow> (out, r', tl rest))
      else (case repl_command P K E e cmd (tl parts) r of (out, r') \<Rightarrow> (out, r', rest)))"

lemma repl_step_consumes: "repl_step P K J L E e line rest r = (out, r', rest') \<Longrightarrow> length rest' \<le> length rest"
  by (auto simp: repl_step_def Let_def split: if_splits prod.splits)

text \<open>The loop ends at the end of the input, at \<^verbatim>\<open>exit\<close>, or with a crash; \<open>env i\<close> is what the \<open>i\<close>-th command meets.\<close>

function RunOffline ::
  "prims \<Rightarrow> packets \<Rightarrow> (bytes \<Rightarrow> (string \<times> string) option) \<Rightarrow> legacy_json \<Rightarrow> envelope_json \<Rightarrow> (nat \<Rightarrow> off_env) \<Rightarrow> nat \<Rightarrow> string list \<Rightarrow> repl \<Rightarrow>
   off_shown list \<times> repl" where
  "RunOffline P K J L E env i [] r = ([], r)"
| "RunOffline P K J L E env i (text # rest) r =
     (let line = TrimSpace text in
      if line = [] then RunOffline P K J L E env i rest r
      else case repl_step P K J L E (env i) line rest r of
        (out, r', rest') \<Rightarrow>
          if out = OffLeave \<or> out = OffCrash then ([out], r')
          else (case RunOffline P K J L E env (Suc i) rest' r' of (outs, r'') \<Rightarrow> (out # outs, r'')))"
  by pat_completeness auto
termination
proof (relation "measure (\<lambda>(P, K, J, L, E, env, i, lines, r). length lines)", goal_cases)
  case (3 P K J L E env i l rest r x xa y xb ya)
  then have "length ya \<le> length rest" by (auto dest: sym intro: repl_step_consumes)
  then show ?case by simp
qed auto

end
