(* ===== verification/OfflineProps.thy ===== *)
theory OfflineProps
  imports OfflineShell SessionDelivery DispatchProps
begin

text \<open>
  What the offline mode guarantees: two people who carry files by hand get through the handshake and read each
  other's messages, every command starting from the identity file alone; and where the shell loses track of the mailbox.
\<close>

subsection \<open>Printed output read back\<close>

lemma trim_plain_newline:
  assumes "\<And>c. c \<in> set s \<Longrightarrow> plain_char c"
  shows "trim_space (to_bytes s @ [0x0A]) = to_bytes s"
proof (cases "s = []")
  case True
  show ?thesis unfolding True by code_simp
next
  case False
  have p: "plain_byte (hd (to_bytes s))" "plain_byte (last (to_bytes s))" "to_bytes s \<noteq> []"
    using assms [of "hd s"] assms [of "last s"] False by (simp_all add: plain_char_def to_bytes_def hd_map last_map)
  have l: "trim_left space_seqs (to_bytes s @ [0x0A]) = to_bytes s @ [0x0A]"
    by (rule trim_left_plain) (use p plain_not_space(1) in auto)
  have "trim_left (map rev space_seqs) (0x0A # rev (to_bytes s)) = trim_left (map rev space_seqs) (rev (to_bytes s))"
    by (rule trim_left_space [where s = "[0x0A]"]) (auto simp: space_seqs_def)
  also have "\<dots> = rev (to_bytes s)"
    by (rule trim_left_plain) (use p plain_not_space(2) in \<open>auto simp: hd_rev simp del: set_map\<close>)
  finally show ?thesis by (simp add: trim_space_def l)
qed

lemma ValidateEncoding_Valid: "ValidateEncoding enc = Encoding_Valid enc"
  by (simp add: ValidateEncoding_def Encoding_Valid_def EncodingBase_def EncodingHex_def)

text \<open>A file with what was printed is decoded to what was encoded, final newline or not.\<close>

lemma printed_decodes:
  assumes "ValidateEncoding enc"
  shows "\<exists>b. Codec_Encode enc d = Inr b \<and> Codec_Decode enc (printed enc b) = Inr d"
  using assms trim_plain_newline [of "b64_encode d", OF b64_encode_plain_chars]
    trim_plain_newline [of "hex_encode d", OF hex_encode_plain_chars]
  by (auto simp: ValidateEncoding_Valid Codec_Encode_def Codec_Decode_def Encoding_Valid_def EncodingRaw_def EncodingBase_def
      EncodingHex_def printed_def)

subsection \<open>The handshake across restarts\<close>

lemma LoadClient_kept: "LoadClient i d = Inr c \<Longrightarrow> \<not> cl_ephemeral c \<and> files c = d"
  by (auto simp: LoadClient_def Let_def split: option.splits)

lemma SaveClient_ephemeral [simp]: "cl_ephemeral (SaveClient wr c) = cl_ephemeral c"
  by (simp add: SaveClient_def split: write_result.splits)

lemma session_slot: "session c k = Some sp \<longleftrightarrow> (\<exists>a. map_of (Sessions c) k = Some a \<and> heap c a = Some sp)"
  by (auto simp: session_def split: option.splits)

lemma reload_same: "\<not> pendingDhRatchet sp \<Longrightarrow> reload_peer sp = sp"
  by (cases sp) (simp add: reload_peer_def)

lemma Handshake_DhPublic: "DhPublic (snd (Handshake P i p d ky dil s1 s2 ss oid r sp)) = DhPublic sp"
  by (auto simp: Handshake_def Let_def split: option.splits if_splits prod.splits)

lemma FinishHandshake_DhPublic: "FinishHandshake P J me pa aw = (r, pa') \<Longrightarrow> DhPublic pa' = DhPublic pa"
  using Handshake_DhPublic
  by (auto simp: FinishHandshake_def split: sum.splits option.splits if_splits prod.splits) (metis snd_conv)+

text \<open>One command leaves the client \<open>c\<close> saved; the next one starts from the file.\<close>

lemma next_command:
  assumes "client_wf c" "\<not> cl_ephemeral c" "cl_Id c = i" "session c k = Some sp"
  obtains c' where "LoadClient i (files (SaveClient Written c)) = Inr c'" "client_wf c'" "\<not> cl_ephemeral c'" "cl_Id c' = i"
    "session c' k = Some (reload_peer sp)" "cl_keys c' = cl_keys c"
  using save_load [OF assms(1,2)] LoadClient_kept assms(3,4) by fastforce

lemma reloaded_handshake:
  assumes laws: "np_law P" "sig_law P" "b58_law P" "kem_law P" "dh_law P"
    and run: "can_run P (cl_keys a) csa (cl_keys b) csb oid (session b)"
    and A: "client_inv P a" "\<not> cl_ephemeral a" and B: "client_inv P b" "\<not> cl_ephemeral b" "cl_Id b \<noteq> []"
  obtains w a1 a1' aw b1 b1' a2 a2' pa pb where
    "Client_CreateOffer P csa oid Written (cl_Id b) a = (Inr w, a1)" "LoadClient (cl_Id a) (files a1) = Inr a1'"
    "Client_AcceptOffer P J csb r Written w b = (Inr aw, b1)" "LoadClient (cl_Id b) (files b1) = Inr b1'"
    "Client_FinishHandshake P J Written aw a1' = (Inr (cl_Id b), a2)" "LoadClient (cl_Id a) (files a2) = Inr a2'"
    "cl_Id a2' = cl_Id a" "session a2' (cl_Id b) = Some (reload_peer pa)" "session b1' (cl_Id a) = Some (reload_peer pb)"
    "mirrored P pa pb" "DhPublic pa = p_basemult P (c_dh csa)" "cl_keys a1' = cl_keys a" "cl_keys b1' = cl_keys b"
    "cl_Id a1' = cl_Id a" "cl_Id b1' = cl_Id b"
proof -
  have ids: "cl_Id a = peer_id P (cl_keys a)" "cl_Id b = peer_id P (cl_keys b)" and wf: "client_wf a" "client_wf b"
    using A(1) B(1) by (simp_all add: client_inv_def)
  obtain p0 w pb aw pa where off: "CreateOffer P csa oid (cl_Id a) (cl_keys a) (cl_Id b) = Inr (p0, w)"
    and acc: "AcceptOffer P J csb r (cl_Id b) (cl_keys b) (session b) w = Inr (cl_Id a, pb, aw)"
    and fin: "FinishHandshake P J (cl_Id a) p0 aw = (Inr (cl_Id b), pa)" and mir: "mirrored P pa pb"
    using handshake_run [OF laws run, of J r] unfolding ids by blast
  have new: "newPeer P csa None (cl_keys a) = Inr p0"
    using off by (auto simp: CreateOffer_def Let_def split: sum.splits option.splits)
  have peek: "PeekAnswerSenderID P J aw = Inr (cl_Id b)"
    using fin by (auto simp: FinishHandshake_def PeekAnswerSenderID_def split: sum.splits if_splits option.splits prod.splits)
  let ?c1 = "bind_name ''pending'' (next_addr a) (bind_name (''pending_'' @ cl_Id b) (next_addr a) (alloc p0 a))"
  let ?d1 = "bind_name (cl_Id a) (next_addr b) (alloc pb b)"
  have wf1: "client_wf ?c1" "client_wf ?d1" using wf by (auto intro!: wf_intros)
  have one: "\<not> cl_ephemeral ?c1" "\<not> cl_ephemeral ?d1" "cl_Id ?c1 = cl_Id a" "cl_Id ?d1 = cl_Id b"
    using A(2) B(2) by (simp_all add: alloc_def bind_name_def)
  have "session ?c1 (''pending_'' @ cl_Id b) = Some p0" "session ?d1 (cl_Id a) = Some pb" by (simp_all add: session_def)
  note kept = this
  obtain a1' where a1': "LoadClient (cl_Id a) (files (SaveClient Written ?c1)) = Inr a1'" "client_wf a1'" "\<not> cl_ephemeral a1'"
      "cl_Id a1' = cl_Id a" "session a1' (''pending_'' @ cl_Id b) = Some (reload_peer p0)" "cl_keys a1' = cl_keys ?c1"
    by (rule next_command [OF wf1(1) one(1,3) kept(1)])
  obtain b1' where b1': "LoadClient (cl_Id b) (files (SaveClient Written ?d1)) = Inr b1'" "session b1' (cl_Id a) = Some (reload_peer pb)" "cl_keys b1' = cl_keys ?d1"
      "cl_Id b1' = cl_Id b"
    by (rule next_command [OF wf1(2) one(2,4) kept(2)])
  have "session a1' (''pending_'' @ cl_Id b) = Some p0" using reload_same [OF newPeer_facts(12) [OF new]] a1'(5) by simp
  then obtain adr where adr: "map_of (Sessions a1') (''pending_'' @ cl_Id b) = Some adr" "heap a1' adr = Some p0"
    by (auto simp: session_slot)
  let ?c2 = "bind_name (cl_Id b) adr (drop_name (''pending_'' @ cl_Id b) (drop_name ''pending'' (a1'\<lparr>heap := (heap a1')(adr \<mapsto> pa)\<rparr>)))"
  have wf2: "client_wf ?c2" using a1'(2) adr(2) by (auto intro!: wf_intros)
  have two: "\<not> cl_ephemeral ?c2" "cl_Id ?c2 = cl_Id a" "session ?c2 (cl_Id b) = Some pa"
    using a1'(3,4) by (simp_all add: bind_name_def drop_name_def session_def)
  obtain a2' where a2': "LoadClient (cl_Id a) (files (SaveClient Written ?c2)) = Inr a2'" "cl_Id a2' = cl_Id a"
      "session a2' (cl_Id b) = Some (reload_peer pa)"
    by (rule next_command [OF wf2 two])
  have "Client_FinishHandshake P J Written aw a1' = (Inr (cl_Id b), SaveClient Written ?c2)"
    using adr fin by (simp add: Client_FinishHandshake_def peek a1'(4))
  moreover have "Client_CreateOffer P csa oid Written (cl_Id b) a = (Inr w, SaveClient Written ?c1)"
    using off B(3) by (simp add: Client_CreateOffer_def Let_def)
  moreover have "Client_AcceptOffer P J csb r Written w b = (Inr aw, SaveClient Written ?d1)" using acc by (simp add: Client_AcceptOffer_def)
  moreover have "DhPublic pa = p_basemult P (c_dh csa)"
    using FinishHandshake_DhPublic [OF fin] newPeer_facts(9) [OF new] by simp
  moreover have "cl_keys a1' = cl_keys a" "cl_keys b1' = cl_keys b" using a1'(6) b1'(3) by (simp_all add: alloc_def bind_name_def)
  ultimately show thesis using that a1'(1,4) b1'(1,2,4) a2' mir by blast
qed

text \<open>The first message after a handshake, between the clients that the next commands load.\<close>

lemma first_message:
  assumes laws: "np_law P" "aead_law P" "hkdf_law P" "dh_law P" and mir: "mirrored P pa pb"
    and s: "cl_Id a2' = me" "session a2' peer = Some (reload_peer pa)" "session b1' me = Some (reload_peer pb)"
    and fresh: "p_basemult P rnd \<noteq> DhPublic pa"
  shows "\<exists>ct a3 b2. Client_Encrypt P rnd wr peer pt a2' = (Inr ct, a3) \<and> Client_Decrypt P wr' ct b1' = (Inr (me, pt), b2)"
proof -
  let ?s = "\<lparr>pA = reload_peer pa, pB = reload_peer pb, toB = [], toA = []\<rparr>"
  have reach: "duplex_reach P (cl_Id a2') peer (fresh_duplex pa pb) ?s"
    using duplex_reach.step [OF duplex_reach.step [OF duplex_reach.start duplex_step.reload_A] duplex_step.reload_B, where ?s0.0 = "fresh_duplex pa pb"]
    by (simp add: fresh_duplex_def)
  obtain adr adr' where "map_of (Sessions a2') peer = Some adr" "heap a2' adr = Some (reload_peer pa)"
      "map_of (Sessions b1') (cl_Id a2') = Some adr'" "heap b1' adr' = Some (reload_peer pb)"
    using s by (auto simp: session_slot)
  then show ?thesis
    using client_frame_delivered [OF laws mir reach, of rnd peer adr b1' adr' wr pt wr'] s(1) fresh mir
    by (auto simp: reload_peer_def mirrored_def)
qed

subsection \<open>A conversation by hand\<close>

text \<open>A command whose input file is what the other side printed; identities can be saved, nothing else can be written.\<close>

definition carried :: "bytes \<Rightarrow> off_io" where
  "carried b = \<lparr>oi_read = (\<lambda>_. Some b), oi_stdin = None, oi_tty = True, oi_write = (\<lambda>_. False), oi_saved = Written\<rparr>"

lemma Encrypt_first_byte:
  assumes "np_law P" "Client_Encrypt P rnd wr peer pt cl = (Inr w, cl')"
  shows "w \<noteq> [] \<and> hd w = 5"
proof -
  have np: "w \<noteq> [] \<and> hd w = 5" if "p_np_enc P (SecureMessage_MarshalBinID m @ [t]) = Some w" for m t w
  proof -
    have l: "length (SecureMessage_MarshalBinID m @ [t]) = 5" by (simp add: SecureMessage_MarshalBinID_def)
    then have "length (SecureMessage_MarshalBinID m @ [t]) \<le> 11" by simp
    then obtain b where "p_np_enc P (SecureMessage_MarshalBinID m @ [t]) = Some b" "b \<noteq> []" "hd b = word_of_nat 5"
      using np_enc_dec [OF assms(1)] unfolding l [symmetric] by blast
    then show ?thesis using that by simp
  qed
  have "Encrypt P rnd nm pt sp = (Inr w, sp') \<Longrightarrow> w \<noteq> [] \<and> hd w = 5" for nm sp sp'
    by (auto simp: Encrypt_def Let_def dest!: np split: prod.splits if_splits sum.splits option.splits)
  then show ?thesis using assms(2) by (auto simp: Client_Encrypt_def split: option.splits prod.splits sum.splits)
qed

text \<open>Base64 of a bare ciphertext is not taken for a frame.\<close>

lemma bare_not_frame:
  assumes "w \<noteq> []" "hd w = 5"
  shows "ingestStandardBytes P K J io i (printed ''b64'' (to_bytes (b64_encode w))) cw = (Inl (OffIngest ErrNotFrame), None)"
proof -
  have ne: "b64_encode w \<noteq> []" using assms(1) by (cases w rule: b64_encode.cases) auto
  then have "hd (b64_encode w) \<in> set b64_alphabet \<or> hd (b64_encode w) = CHR ''=''" using b64_encode_chars [of "hd (b64_encode w)" w] by simp
  then have "hd (b64_encode w) \<noteq> CHR 0x7B" by (auto simp: b64_alphabet_def)
  then have "byte_of_char (hd (b64_encode w)) \<noteq> byte_of_char (CHR 0x7B)" by (metis char_of_byte_of_char)
  then have "byte_of_char (hd (b64_encode w)) \<noteq> 0x7B" by (simp add: byte_of_char_def)
  then have "hd (to_bytes (b64_encode w)) \<noteq> 0x7B" using ne by (simp add: to_bytes_def hd_map)
  moreover have "trim_space (printed ''b64'' (to_bytes (b64_encode w))) = to_bytes (b64_encode w)"
    using trim_plain_newline [of "b64_encode w", OF b64_encode_plain_chars] by (simp add: printed_def EncodingRaw_def)
  ultimately show ?thesis using ne assms by (simp add: ingestStandardBytes_def Type_Valid_iff Let_def)
qed

lemma RunOffer_prints:
  assumes "LoadClient i d = Inr cl" "Client_CreateOffer P cs oid (oi_saved io) r cl = (Inr w, cl')" "ValidateEncoding e"
    "Codec_Encode e (ej_write E ''offer'' w) = Inr b"
  shows "RunOffer P E cs oid io i r [] e ''human'' d = (Inr (OffPrinted (printed e b)), files cl')"
  using assms by (simp add: RunOffer_def ValidateFormat_def emit_envelope_def)

lemma read_carried:
  assumes "envelope_law E" "Codec_Decode e x = Inr (ej_write E t w)" "t = ''offer'' \<or> t = ''answer''" "f \<noteq> []"
  shows "off_envelope E (carried x) [] f e = Inr w"
  using assms by (auto simp: off_envelope_def readInput_def carried_def envelope_law_def env_data_def)

lemma RunAccept_prints:
  assumes "LoadClient i d = Inr cl" "off_envelope E io [] f e1 = Inr w"
    "Client_AcceptOffer P J cs r (oi_saved io) w cl = (Inr aw, cl')" "ValidateEncoding e1" "ValidateEncoding e2"
    "Codec_Encode e2 (ej_write E ''answer'' aw) = Inr b"
  shows "RunAccept P J E cs r io i [] f [] e1 e2 ''human'' d = (Inr (OffPrinted (printed e2 b)), files cl')"
  using assms by (simp add: RunAccept_def ValidateFormat_def emit_envelope_def)

lemma RunEncrypt_prints:
  assumes "LoadClient i d = Inr cl" "Client_Encrypt P rnd (oi_saved io) r (to_bytes message) cl = (Inr w, cl')" "message \<noteq> []"
  shows "RunEncrypt P rnd io i r message [] [] ''raw'' ''b64'' ''human'' d = (Inr (OffPrinted (printed ''b64'' (to_bytes (b64_encode w)))), files cl')"
  using assms by (simp add: RunEncrypt_def ValidateEncoding_def ValidateFormat_def readInput_def Codec_Decode_def Codec_Encode_def
      Encoding_Valid_def EncodingRaw_def EncodingBase_def emit_ciphertext_def)

lemma RunDecrypt_shows:
  assumes "LoadClient i (cw_clients cw) = Inr cl" "w \<noteq> []" "hd w = 5" "Client_Decrypt P Written w cl = (Inr (sender, plain), cl')"
    "utf8_valid plain" "looksLikeText plain" "ValidateEncoding eo" "f \<noteq> []"
  shows "RunDecrypt P K JC fio (carried (printed ''b64'' (to_bytes (b64_encode w)))) i [] f [] ''b64'' eo ''human'' cw =
     (Inr (DecText sender plain), files cl', None)"
proof -
  have "Codec_Decode ''b64'' (printed ''b64'' (to_bytes (b64_encode w))) = Inr w"
    using printed_decodes [of "''b64''" w] by (auto simp: ValidateEncoding_def Codec_Encode_def Encoding_Valid_def EncodingRaw_def EncodingBase_def)
  then show ?thesis
    using assms bare_not_frame [OF assms(2,3), of P K JC fio i cw]
    by (simp add: RunDecrypt_def ValidateEncoding_def ValidateFormat_def readInput_def carried_def emit_plaintext_def Let_def)
qed

text \<open>
  C7.  Two people with nothing but their identity files, who redirect what one command prints into a file
  that the other side's next command reads, complete the handshake and read a message: \<^verbatim>\<open>offer\<close>, \<^verbatim>\<open>accept\<close>, \<^verbatim>\<open>finish\<close>,
  \<^verbatim>\<open>encrypt\<close> and \<^verbatim>\<open>decrypt\<close> all succeed, although each is a new process, and the last one shows the sender and the text.
\<close>

theorem offline_conversation:
  assumes laws: "np_law P" "sig_law P" "b58_law P" "kem_law P" "dh_law P" "aead_law P" "hkdf_law P" "envelope_law E"
    and run: "can_run P (cl_keys a) csa (cl_keys b) csb oid (session b)"
    and A: "LoadClient (cl_Id a) da = Inr a" "client_inv P a" and B: "LoadClient (cl_Id b) db = Inr b" "client_inv P b" "cl_Id b \<noteq> []"
    and enc: "ValidateEncoding e1" "ValidateEncoding e2" "ValidateEncoding e3"
    and msg: "message \<noteq> []" "utf8_valid (to_bytes message)" "looksLikeText (to_bytes message)"
    and fresh: "p_basemult P rnd \<noteq> p_basemult P (c_dh csa)" and f: "f \<noteq> []"
  shows "\<exists>o1 da1 o2 db1 da2 o3 da3 db2.
     RunOffer P E csa oid (carried []) (cl_Id a) (cl_Id b) [] e1 ''human'' da = (Inr (OffPrinted o1), da1) \<and>
     RunAccept P J E csb kem (carried o1) (cl_Id b) [] f [] e1 e2 ''human'' db = (Inr (OffPrinted o2), db1) \<and>
     RunFinish P J E (carried o2) (cl_Id a) [] f e2 ''human'' da1 = (Inr (cl_Id b), da2) \<and>
     RunEncrypt P rnd (carried []) (cl_Id a) (cl_Id b) message [] [] ''raw'' ''b64'' ''human'' da2 = (Inr (OffPrinted o3), da3) \<and>
     RunDecrypt P K JC fio (carried o3) (cl_Id b) [] f [] ''b64'' e3 ''human'' (cw\<lparr>cw_clients := db1\<rparr>) =
       (Inr (DecText (cl_Id a) (to_bytes message)), db2, None)"
proof -
  obtain w a1 a1' aw b1 b1' a2 a2' pa pb where
    h: "Client_CreateOffer P csa oid Written (cl_Id b) a = (Inr w, a1)" "LoadClient (cl_Id a) (files a1) = Inr a1'"
      "Client_AcceptOffer P J csb kem Written w b = (Inr aw, b1)" "LoadClient (cl_Id b) (files b1) = Inr b1'"
      "Client_FinishHandshake P J Written aw a1' = (Inr (cl_Id b), a2)" "LoadClient (cl_Id a) (files a2) = Inr a2'"
    and s: "cl_Id a2' = cl_Id a" "session a2' (cl_Id b) = Some (reload_peer pa)" "session b1' (cl_Id a) = Some (reload_peer pb)"
    and mir: "mirrored P pa pb" and dh: "DhPublic pa = p_basemult P (c_dh csa)"
    by (rule reloaded_handshake [OF laws(1-5) run A(2) _ B(2) _ B(3)]) (use LoadClient_kept A(1) B(1) in blast)+
  obtain ct a3 b2 where c: "Client_Encrypt P rnd Written (cl_Id b) (to_bytes message) a2' = (Inr ct, a3)"
      "Client_Decrypt P Written ct b1' = (Inr (cl_Id a, to_bytes message), b2)"
    using first_message [OF laws(1,6,7,5) mir s fresh [folded dh]] by blast
  obtain o1 where o1: "Codec_Encode e1 (ej_write E ''offer'' w) = Inr o1" "Codec_Decode e1 (printed e1 o1) = Inr (ej_write E ''offer'' w)"
    using printed_decodes [OF enc(1)] by blast
  obtain o2 where o2: "Codec_Encode e2 (ej_write E ''answer'' aw) = Inr o2" "Codec_Decode e2 (printed e2 o2) = Inr (ej_write E ''answer'' aw)"
    using printed_decodes [OF enc(2)] by blast
  have saved: "oi_saved (carried x) = Written" for x by (simp add: carried_def)
  have "RunOffer P E csa oid (carried []) (cl_Id a) (cl_Id b) [] e1 ''human'' da = (Inr (OffPrinted (printed e1 o1)), files a1)"
    using RunOffer_prints [OF A(1)] h(1) o1(1) enc(1) saved by metis
  moreover have "RunAccept P J E csb kem (carried (printed e1 o1)) (cl_Id b) [] f [] e1 e2 ''human'' db = (Inr (OffPrinted (printed e2 o2)), files b1)"
    using RunAccept_prints [OF B(1) read_carried [OF laws(8) o1(2) disjI1 [OF refl] f] _ enc(1,2) o2(1)] h(3) saved by metis
  moreover have "RunFinish P J E (carried (printed e2 o2)) (cl_Id a) [] f e2 ''human'' (files a1) = (Inr (cl_Id b), files a2)"
    using read_carried [OF laws(8) o2(2) disjI2 [OF refl] f] h(2,5) enc(2) saved by (simp add: RunFinish_def ValidateFormat_def)
  moreover have "RunEncrypt P rnd (carried []) (cl_Id a) (cl_Id b) message [] [] ''raw'' ''b64'' ''human'' (files a2) =
      (Inr (OffPrinted (printed ''b64'' (to_bytes (b64_encode ct)))), files a3)"
    using RunEncrypt_prints [OF h(6)] c(1) msg(1) saved by metis
  moreover have "RunDecrypt P K JC fio (carried (printed ''b64'' (to_bytes (b64_encode ct)))) (cl_Id b) [] f [] ''b64'' e3 ''human''
      (cw\<lparr>cw_clients := files b1\<rparr>) = (Inr (DecText (cl_Id a) (to_bytes message)), files b2, None)"
    using RunDecrypt_shows [OF _ _ _ c(2) msg(2,3) enc(3) f] Encrypt_first_byte [OF laws(1) c(1)] h(4) by simp
  ultimately show ?thesis by blast
qed

text \<open>The witness: two toy identities on disk.\<close>

definition toy_file :: "byte \<Rightarrow> Clients.disk" where
  "toy_file b = [client_file (toy_id b) \<mapsto> Some (marshal_client (toy_new b))]"

definition toy_loaded :: "byte \<Rightarrow> Client" where
  "toy_loaded b = \<lparr>cl_Id = toy_id b, cl_keys = toy_keys b, Sessions = [], cl_ephemeral = False, heap = Map.empty, next_addr = 0, files = toy_file b\<rparr>"

lemma toy_loaded_facts:
  "LoadClient (toy_id b) (toy_file b) = Inr (toy_loaded b)" "client_inv toy (toy_loaded b)" "session (toy_loaded b) = Map.empty"
  "cl_Id (toy_loaded b) = toy_id b" "cl_keys (toy_loaded b) = toy_keys b"
proof -
  have m: "marshal_client (toy_new b) = \<lparr>sv_Id = toy_id b, sv_keys = toy_keys b, sv_Sessions = []\<rparr>" by (simp add: marshal_client_def List.map_filter_def)
  then show "LoadClient (toy_id b) (toy_file b) = Inr (toy_loaded b)" by (simp add: LoadClient_def toy_file_def toy_loaded_def)
  show "client_inv toy (toy_loaded b)"
    using toy_new_inv [of b] m by (auto simp: client_inv_def client_wf_def disk_ok_def toy_loaded_def toy_file_def)
qed (simp_all add: toy_loaded_def session_def fun_eq_iff)

definition toy_envelope :: envelope_json where
  "toy_envelope = \<lparr>ej_write = (\<lambda>t d. replicate (length t) 1 @ 0 # to_bytes t @ d),
     ej_read = (\<lambda>b. let n = length (takeWhile (\<lambda>x. x = 1) b); rest = drop (Suc n) b in Some (to_str (take n rest), Some (drop n rest)))\<rparr>"

lemma toy_envelope_law: "envelope_law toy_envelope"
proof -
  have "takeWhile (\<lambda>x. x = 1) (replicate n (1 :: byte) @ 0 # xs) = replicate n 1" for n xs by (induction n) auto
  then show ?thesis by (simp add: envelope_law_def toy_envelope_def Let_def)
qed

definition toy_world :: cli_world where
  "toy_world = \<lparr>cw_clients = Map.empty, cw_disk = Map.empty, cw_mkdir = False, cw_contexts = (\<lambda>_. None), cw_policies = (\<lambda>_. None),
     cw_deliveries = (\<lambda>_. None), cw_threads = (\<lambda>_. None), cw_migrate = ((SaveDone, SaveDone), SaveDone, SaveDone)\<rparr>"

lemma toy_text: "utf8_valid (to_bytes ''Hi'')" "looksLikeText (to_bytes ''Hi'')"
  by (rule utf8_valid_ascii, code_simp) (simp add: looksLikeText_def to_bytes_def byte_of_char_def)

theorem offline_conversation_witness:
  "\<exists>o1 da1 o2 db1 da2 o3 da3 db2.
     RunOffer toy toy_envelope (toy_coins 3) [9] (carried []) (toy_id 1) (toy_id 2) [] ''hex'' ''human'' (toy_file 1) = (Inr (OffPrinted o1), da1) \<and>
     RunAccept toy toy_json toy_envelope (toy_coins 4) [8] (carried o1) (toy_id 2) [] ''in'' [] ''hex'' ''raw'' ''human'' (toy_file 2) = (Inr (OffPrinted o2), db1) \<and>
     RunFinish toy toy_json toy_envelope (carried o2) (toy_id 1) [] ''in'' ''raw'' ''human'' da1 = (Inr (toy_id 2), da2) \<and>
     RunEncrypt toy [7] (carried []) (toy_id 1) (toy_id 2) ''Hi'' [] [] ''raw'' ''b64'' ''human'' da2 = (Inr (OffPrinted o3), da3) \<and>
     RunDecrypt toy toy_packets toy_container (toy_io None) (carried o3) (toy_id 2) [] ''in'' [] ''b64'' ''raw'' ''human'' (toy_world\<lparr>cw_clients := db1\<rparr>) =
       (Inr (DecText (toy_id 1) (to_bytes ''Hi'')), db2, None)"
proof -
  have "p_basemult toy [7] \<noteq> p_basemult toy (c_dh (toy_coins 3))" by (simp add: toy_def toy_coins_def)
  then show ?thesis
    using offline_conversation [of toy toy_envelope "toy_loaded 1" "toy_coins 3" "toy_loaded 2" "toy_coins 4" "[9]" "toy_file 1" "toy_file 2"
        "''hex''" "''raw''" "''raw''" "''Hi''" "[7]" "''in''" toy_json "[8]" toy_packets toy_container "toy_io None" toy_world]
      toy_laws toy_envelope_law toy_runs [of 2] toy_loaded_facts toy_text
    by (simp add: ValidateEncoding_def EncodingRaw_def)
qed

subsection \<open>The shell\<close>

lemma b64_pasted: "trim_space (to_bytes (b64_encode w)) = to_bytes (b64_encode w)"
  by (rule trim_space_plain_chars) (rule b64_encode_plain_chars)

lemma b64_first:
  assumes "w \<noteq> []"
  shows "b64_encode w \<noteq> []" "hd (to_bytes (b64_encode w)) \<noteq> 0x7B" "\<not> Type_Valid (hd (to_bytes (b64_encode w)))"
proof -
  show ne: "b64_encode w \<noteq> []" using assms by (cases w rule: b64_encode.cases) auto
  have "hd (b64_encode w) \<in> set (b64_alphabet @ ''='')" using ne b64_encode_chars [of "hd (b64_encode w)" w] by auto
  moreover have "\<forall>c\<in>set (b64_alphabet @ ''=''). byte_of_char c \<notin> {0x7B, 1, 2, 3, 4}"
    by (simp add: b64_alphabet_def byte_of_char_def)
  ultimately show "hd (to_bytes (b64_encode w)) \<noteq> 0x7B" "\<not> Type_Valid (hd (to_bytes (b64_encode w)))"
    using ne by (auto simp: to_bytes_def hd_map Type_Valid_iff)
qed

text \<open>A frame pasted as base64 is never taken in: the text is recognised, but then read as if it were the frame itself.\<close>

lemma b64_frame_refused:
  assumes "w \<noteq> []"
  shows "fst (take_in P K J io me (to_bytes (b64_encode w)) cl s fs) = Inl ErrNotFrame"
proof -
  have "DecodeContainer J (to_bytes (b64_encode w)) = Inl NotAFrame"
    using b64_first [OF assms] by (auto simp: DecodeContainer_def b64_pasted Let_def split: list.splits)
  then show ?thesis by (simp add: take_in_def Ingest_def split: option.splits fan_stores.splits)
qed

text \<open>An empty line after \<^verbatim>\<open>decrypt\<close> ends the line loop with a panic.\<close>

lemma empty_package_panics: "rp_client r = Some cl \<Longrightarrow> fst (repl_decrypt P K J e [] r) = OffCrash"
proof -
  have "TrimSpace [] = []" by code_simp
  moreover have "DecodeContainer J [] = Inl FramePanic" by (simp add: DecodeContainer_def) code_simp
  ultimately have "fst (take_in P K J io me (to_bytes (TrimSpace [])) c s fs) = Inl IngestPanic" for io me c s fs
    by (simp add: take_in_def Ingest_def split: option.splits fan_stores.splits)
  then show "rp_client r = Some cl \<Longrightarrow> fst (repl_decrypt P K J e [] r) = OffCrash"
    by (simp add: repl_decrypt_def Let_def case_prod_beta)
qed

lemma open_fanout_keeps [simp]:
  "ActiveClient (open_fanout P K e s fs) = ActiveClient s" "MailboxStore (open_fanout P K e s fs) = MailboxStore s"
  by (simp_all add: open_fanout_def InitFanout_def split: option.splits sum.splits)

lemma Sync_keeps [simp]: "ActiveClient (SyncPeersFromClient s) = ActiveClient s" "MailboxStore (SyncPeersFromClient s) = MailboxStore s"
proof -
  have "ActiveClient (fold State_RememberPeer ps s) = ActiveClient s \<and> MailboxStore (fold State_RememberPeer ps s) = MailboxStore s" for ps s
    by (induction ps arbitrary: s) (auto simp: State_RememberPeer_def Let_def)
  then show "ActiveClient (SyncPeersFromClient s) = ActiveClient s" "MailboxStore (SyncPeersFromClient s) = MailboxStore s"
    by (auto simp: SyncPeersFromClient_def split: option.splits)
qed

text \<open>
  Note.  In the offline shell, loading another identity leaves the mailbox of the previous one open: a message
  for the new identity that is then decrypted is appended to the previous identity's conversations.
\<close>

theorem load_leaves_mailbox:
  assumes "off_load P K e [i] q = (OffLoaded me, q1)" "MailboxStore (os_State q) = Some mb" "ActiveClient (os_State q1) = Some cl"
    and "Client_Decrypt P (oe_write e') ct cl = (Inr (sender, plain), cl')"
  shows "\<exists>q2 box. off_decrypt_bare P K e' (b64_encode ct) cl q1 = (OffDecrypted sender plain, q2) \<and> cl_Id cl = me \<and> os_box q2 = os_box q \<and>
     MailboxStore (os_State q2) = Some box \<and>
     thread_messages box sender = thread_messages mb sender @ [appendDefaults (fi_clock (oe_frame e')) (new_message Incoming Direct (to_str plain))]"
proof -
  have q1: "MailboxStore (os_State q1) = Some mb" "os_box q1 = os_box q" "cl_Id cl = me"
    using assms(1,2,3) by (auto simp: off_load_def on_state_def split: sum.splits)
  then show ?thesis using assms(4)
    by (auto simp: off_decrypt_bare_def client_did_def on_state_def AppendIncoming_def Mailbox_append_def thread_messages_append
        State_RememberPeer_def Let_def split: prod.splits)
qed

end
