(* ===== verification/ShellCommands.thy ===== *)
theory ShellCommands
  imports UserOps
begin

text \<open>
  The commands of the unified shell (\<^verbatim>\<open>src/cmd/shell/commands.go\<close>): every command turns its arguments, its parameters and the
  session into one operation of \<^verbatim>\<open>transportops\<close>, or acts on the session alone.

  An operation is a value of \<open>op_call\<close>; \<open>run_call\<close> performs it with the definitions of \<open>Ops\<close>, \<open>PollOps\<close>, \<open>XferOps\<close> and \<open>UserOps\<close>.
  The world of a command holds what the operations work on, a log of the calls with their errors, and what was shown;
  what the \<open>n\<close>-th call meets (random draws, the fate of writes, the network) is \<open>sw_io n\<close>.  The words shown are left out.
\<close>

subsection \<open>Operations\<close>

datatype op_call =
    OpList
  | OpInstall string bool
  | OpRemove string
  | OpEnable string
  | OpDisable string
  | OpStatus string
  | OpSetConfig string string
  | OpAttach string string string string string
  | OpDetach string string
  | OpPoll string string string int string
  | OpSendFrame string string string string string
  | OpIdentityRegister string string string
  | OpFilerelayRegister string string string
  | OpResolve string string string
  | OpXferSend string string string string string string int
  | OpXferRecv recv_params
  | OpXferResume string string string string string string
  | OpXferCancel string string string string
  | OpXferInspect string
  | OpRelayList
  | OpRelayPing string
  | OpRelayInfo string
  | OpMessageSend string string string string string string string
  | OpPeerConnect string string string string string
  | OpPeerRecord string string string
  | OpIdentityInit
  | OpIdentityLoad string
  | OpIdentityList
  | OpIdentityUse string
  | OpIdentityInfo
  | OpContactAdd string string
  | OpContactRemove string
  | OpContactList
  | OpContactInfo string
  | OpContactNote string string
  | OpContactRename string string
  | OpMailboxList string
  | OpMailboxRead string string

datatype op_failure = OpFailed ops_error | ContactFailed contact_error | MailFailed mail_error | PingFailed ping_error | NeverEnds

text \<open>What stays the same while the shell runs.\<close>

record 't shell_parts =
  sp_prims :: prims
  sp_packets :: packets
  sp_legacy :: legacy_json
  sp_json :: json_codec
  sp_transports :: "'t FileTransports"
  sp_router :: "string \<Rightarrow> string option"
  sp_object :: "string \<Rightarrow> bool"
  sp_dir :: "string \<Rightarrow> path"     \<comment> \<open>the directory a text names; the default one for an empty text\<close>

record op_io =
  oo_new :: "bytes \<times> bytes"
  oo_write :: write_result
  oo_mgr :: mgr_io
  oo_send :: send_io
  oo_poll :: poll_io
  oo_xfer :: xfer_io
  oo_register :: register_io
  oo_prompt :: "string option"
  oo_confirm :: "bool option"
  oo_read :: "string \<Rightarrow> bytes option"
  oo_package :: "string \<Rightarrow> ntx"
  oo_book :: book_io
  oo_mailbox :: save_io
  oo_threads :: "bytes \<Rightarrow> Thread option list option"
  oo_names :: "string list \<times> (string \<Rightarrow> bool)"   \<comment> \<open>what \<^verbatim>\<open>*.json\<close> matches, and which can be examined\<close>

datatype shell_shown =
    ShownTransfers "TransferRef list"
  | ShownIdentities "string list"
  | ShownPeers "string list" "string list"
  | ShownContext string string "TransferRef list"
  | ShownRelay string
  | ShownSetting string string
  | ShownHistory "string list"
  | ShownGuide
  | ShownVersion
  | ShownHelp "string list"
  | ShownCleared

record 't shell_world =
  sw_ops :: "'t ops"
  sw_fs :: filesystem
  sw_io :: "nat \<Rightarrow> op_io"
  sw_log :: "(op_call \<times> op_failure option) list"
  sw_shown :: "shell_shown list"

text \<open>
  \<^verbatim>\<open>depsFor\<close> makes new dependencies for every command: the transports are opened again, and the prompts are wired in an
  interactive session only; elsewhere every confirmation is given.
\<close>

definition depsFor :: "'t shell_parts \<Rightarrow> Session \<Rightarrow> 't ops \<Rightarrow> 't ops" where
  "depsFor X s d = d\<lparr>op_TransportsDir := sp_dir X (se_TransportsDir s), op_manager := None, op_Session := Some s\<rparr>"

definition prompt_of :: "Session \<Rightarrow> op_io \<Rightarrow> string option option" where
  "prompt_of s io = (if se_Interactive s then Some (oo_prompt io) else None)"

definition confirm_of :: "Session \<Rightarrow> op_io \<Rightarrow> bool option option" where
  "confirm_of s io = Some (if se_Interactive s then oo_confirm io else Some True)"

definition failed :: "(ops_error + 'a) \<times> 'b \<Rightarrow> op_failure option \<times> 'b" where
  "failed r = (case r of (Inl e, d) \<Rightarrow> (Some (OpFailed e), d) | (Inr _, d) \<Rightarrow> (None, d))"

definition on_ops :: "('t ops \<Rightarrow> op_failure option \<times> 't ops) \<Rightarrow> 't ops \<times> filesystem \<Rightarrow> op_failure option \<times> 't ops \<times> filesystem" where
  "on_ops f st = (case st of (d, fs) \<Rightarrow> (case f d of (r, d') \<Rightarrow> (r, d', fs)))"

definition on_files :: "(filesystem \<Rightarrow> (contact_error + 'a) \<times> filesystem) \<Rightarrow> 't ops \<times> filesystem \<Rightarrow> op_failure option \<times> 't ops \<times> filesystem" where
  "on_files f st = (case st of (d, fs) \<Rightarrow>
     (case f fs of (Inl e, fs') \<Rightarrow> (Some (ContactFailed e), d, fs') | (Inr _, fs') \<Rightarrow> (None, d, fs')))"

definition on_mail :: "('t ops \<Rightarrow> filesystem \<Rightarrow> (mail_error + 'a) \<times> filesystem) \<Rightarrow> 't ops \<times> filesystem \<Rightarrow> op_failure option \<times> 't ops \<times> filesystem" where
  "on_mail f st = (case st of (d, fs) \<Rightarrow>
     (case f d fs of (Inl e, fs') \<Rightarrow> (Some (MailFailed e), d, fs') | (Inr _, fs') \<Rightarrow> (None, d, fs')))"

definition call_poll ::
  "'t shell_parts \<Rightarrow> op_io \<Rightarrow> string \<Rightarrow> string \<Rightarrow> string \<Rightarrow> int \<Rightarrow> string \<Rightarrow> 't ops \<times> filesystem \<Rightarrow> op_failure option \<times> 't ops \<times> filesystem" where
  "call_poll X io transportID ident mailbox limit format st =
     (case st of (d, fs) \<Rightarrow>
        (case Ops_Poll (sp_prims X) (sp_packets X) (sp_legacy X) (sp_json X) (sp_transports X) ((oo_poll io)\<lparr>pi_store := fs\<rparr>)
                transportID ident mailbox limit format d of
           (Inl e, d') \<Rightarrow> (Some (OpFailed e), d', fs)
         | (Inr (_, x), d') \<Rightarrow> (None, d', opened_disk x)))"

definition call_xfer_send ::
  "'t shell_parts \<Rightarrow> op_io \<Rightarrow> string \<Rightarrow> string \<Rightarrow> string \<Rightarrow> string \<Rightarrow> string \<Rightarrow> string \<Rightarrow> int \<Rightarrow> 't ops \<Rightarrow> op_failure option \<times> 't ops" where
  "call_xfer_send X io transportID ident peer mailboxID shardURL file chunk d =
     (case XferSend (sp_prims X) (sp_json X) (sp_transports X) (oo_xfer io) transportID ident peer mailboxID shardURL file (oo_read io file) chunk d of
        None \<Rightarrow> (Some NeverEnds, d)
      | Some r \<Rightarrow> failed r)"

definition call_ping :: "'t shell_parts \<Rightarrow> op_io \<Rightarrow> bool \<Rightarrow> string \<Rightarrow> 't ops \<Rightarrow> op_failure option \<times> 't ops" where
  "call_ping X io json i d =
     (case RelayPing (sp_prims X) (sp_json X) (sp_transports X) (oo_mgr io) json i d of
        (Inl e, d') \<Rightarrow> (Some (PingFailed e), d') | (Inr _, d') \<Rightarrow> (None, d'))"

text \<open>\<^verbatim>\<open>transport status\<close> without an ID lists all transports.\<close>

definition call_status :: "'t shell_parts \<Rightarrow> op_io \<Rightarrow> string \<Rightarrow> 't ops \<Rightarrow> op_failure option \<times> 't ops" where
  "call_status X io i d =
     (if i = [] then failed (Ops_List (sp_json X) (oo_mgr io) d) else failed (Ops_Status (sp_json X) (oo_mgr io) i d))"

definition perform ::
  "'t shell_parts \<Rightarrow> op_io \<Rightarrow> Session \<Rightarrow> bool \<Rightarrow> op_call \<Rightarrow> 't ops \<times> filesystem \<Rightarrow> op_failure option \<times> 't ops \<times> filesystem" where
  "perform X io s json call =
     (let P = sp_prims X; K = sp_packets X; J = sp_json X; T = sp_transports X;
          prompt = prompt_of s io; confirm = confirm_of s io; xio = (oo_xfer io)\<lparr>xi_prompt := prompt\<rparr> in
      case call of
        OpList \<Rightarrow> on_ops (failed \<circ> Ops_List J (oo_mgr io))
      | OpInstall p enable \<Rightarrow> on_ops (failed \<circ> Ops_Install P J (oo_mgr io) (oo_package io p) enable)
      | OpRemove i \<Rightarrow> on_ops (failed \<circ> Ops_Remove J (oo_mgr io) confirm i)
      | OpEnable i \<Rightarrow> on_ops (failed \<circ> Ops_Enable J (oo_mgr io) i)
      | OpDisable i \<Rightarrow> on_ops (failed \<circ> Ops_Disable J (oo_mgr io) i)
      | OpStatus i \<Rightarrow> on_ops (call_status X io i)
      | OpSetConfig i c \<Rightarrow> on_ops (failed \<circ> Ops_SetConfig (sp_object X) J (oo_mgr io) i c)
      | OpAttach i m sec shard router \<Rightarrow> on_ops (failed \<circ> Ops_Attach J (oo_mgr io) prompt i m sec shard router)
      | OpDetach i m \<Rightarrow> on_ops (failed \<circ> Detach J (oo_mgr io) confirm i m)
      | OpPoll i ident m limit format \<Rightarrow> call_poll X io i ident m limit format
      | OpSendFrame i to m shard file \<Rightarrow> on_ops (failed \<circ> SendFrame_file P J T (oo_mgr io) i to m shard (oo_read io file))
      | OpIdentityRegister i ident router \<Rightarrow> on_ops (failed \<circ> Ops_IdentityRegister P J T (sp_router X) (oo_register io) i ident router)
      | OpFilerelayRegister i ident router \<Rightarrow> on_ops (failed \<circ> FilerelayRegister P J T (sp_router X) (oo_mgr io) i ident router)
      | OpResolve i to router \<Rightarrow> on_ops (failed \<circ> FilerelayResolve P J T (oo_mgr io) i to router)
      | OpXferSend i ident to m shard file chunk \<Rightarrow> on_ops (call_xfer_send X (io\<lparr>oo_xfer := xio\<rparr>) i ident to m shard file chunk)
      | OpXferRecv p \<Rightarrow> on_ops (failed \<circ> XferRecv P J T xio p)
      | OpXferResume i t m sec ticket shard \<Rightarrow> on_ops (failed \<circ> Ops_XferResume P J T xio i t m sec ticket shard)
      | OpXferCancel i t m sec \<Rightarrow> on_ops (failed \<circ> Ops_XferCancel P J T xio confirm i t m sec)
      | OpXferInspect t \<Rightarrow> on_ops (\<lambda>d. failed (XferInspect P t, d))
      | OpRelayList \<Rightarrow> on_ops (failed \<circ> RelayList J (oo_mgr io))
      | OpRelayPing i \<Rightarrow> on_ops (call_ping X io json i)
      | OpRelayInfo i \<Rightarrow> on_ops (failed \<circ> RelayInfo J (oo_mgr io) i)
      | OpMessageSend via ident peer msg ticket m shard \<Rightarrow> on_ops (failed \<circ> MessageSend P J T (oo_send io) via ident peer msg ticket m shard)
      | OpPeerConnect via ident peer m shard \<Rightarrow> on_ops (failed \<circ> PeerConnect P J T (oo_send io) via ident peer m shard)
      | OpPeerRecord peer m shard \<Rightarrow> on_ops (failed \<circ> PeerRecord P peer m shard)
      | OpIdentityInit \<Rightarrow> on_ops (\<lambda>d. (None, snd (IdentityInit P (fst (oo_new io)) (snd (oo_new io)) (oo_write io) d)))
      | OpIdentityLoad i \<Rightarrow> on_ops (failed \<circ> IdentityLoad i)
      | OpIdentityList \<Rightarrow> on_ops (\<lambda>d. (None, d))
      | OpIdentityUse i \<Rightarrow> on_ops (failed \<circ> IdentityUse i)
      | OpIdentityInfo \<Rightarrow> on_ops (\<lambda>d. failed (IdentityInfo d, d))
      | OpContactAdd n u \<Rightarrow> on_files (ContactAdd P K (oo_book io) n u)
      | OpContactRemove n \<Rightarrow> on_files (ContactRemove P K (oo_book io) confirm n)
      | OpContactList \<Rightarrow> on_files (ContactList P K (oo_book io))
      | OpContactInfo n \<Rightarrow> on_files (ContactInfo P K (oo_book io) n)
      | OpContactNote n t \<Rightarrow> on_files (ContactNote P K (oo_book io) n t)
      | OpContactRename a b \<Rightarrow> on_files (ContactRename P K (oo_book io) a b)
      | OpMailboxList ident \<Rightarrow> on_mail (MailboxList P K (oo_threads io) (oo_mailbox io) ident)
      | OpMailboxRead ident t \<Rightarrow> on_mail (MailboxRead_op P K (oo_threads io) (oo_mailbox io) ident t))"

text \<open>The session is shared: the operation may change it.\<close>

definition run_call :: "'t shell_parts \<Rightarrow> bool \<Rightarrow> op_call \<Rightarrow> Session \<Rightarrow> 't shell_world \<Rightarrow> run_result \<times> Session \<times> 't shell_world" where
  "run_call X json call s w =
     (case perform X (sw_io w (length (sw_log w))) s json call (depsFor X s (sw_ops w), sw_fs w) of
        (r, d, fs) \<Rightarrow>
          (if r = None then RunOk else RunErr ''operation failed'',
           case op_Session d of None \<Rightarrow> s | Some s' \<Rightarrow> s',
           w\<lparr>sw_ops := d, sw_fs := fs, sw_log := sw_log w @ [(call, r)],
             sw_shown := sw_shown w @ (if call = OpIdentityList then [ShownIdentities (case oo_names (sw_io w (length (sw_log w))) of (ms, ok) \<Rightarrow> IdentityList ms ok)] else [])\<rparr>))"

subsection \<open>What a command asks for\<close>

text \<open>The error is the text of a usage message.\<close>

definition relayOrSession :: "string list \<Rightarrow> Session \<Rightarrow> string + string" where
  "relayOrSession args s =
     (if args \<noteq> [] \<and> hd args \<noteq> [] then Inr (hd args)
      else if se_Relay s \<noteq> [] then Inr (se_Relay s)
      else Inl ''no transport: pass one or `use relay` first'')"

definition relayAndTicket :: "string list \<Rightarrow> Session \<Rightarrow> string + string \<times> string list" where
  "relayAndTicket args s =
     (case args of
        [] \<Rightarrow> (case relayOrSession args s of Inl e \<Rightarrow> Inl e | Inr i \<Rightarrow> Inr (i, []))
      | [a] \<Rightarrow> if se_Relay s \<noteq> [] then Inr (se_Relay s, [a]) else Inr (a, [])
      | a # rest \<Rightarrow> Inr (a, rest))"

definition identityOrSession :: "params \<Rightarrow> Session \<Rightarrow> string + string" where
  "identityOrSession v s =
     (if Context_Get v ''id'' \<noteq> [] then Inr (Context_Get v ''id'')
      else if se_Identity s \<noteq> [] then Inr (se_Identity s)
      else Inl ''no identity: use `use identity <id>` first'')"

definition via_relay :: "(string \<Rightarrow> string + op_call) \<Rightarrow> string list \<Rightarrow> Session \<Rightarrow> string + op_call" where
  "via_relay f args s = (case relayOrSession args s of Inl e \<Rightarrow> Inl e | Inr i \<Rightarrow> f i)"

definition as_identity :: "(string \<Rightarrow> string + op_call) \<Rightarrow> params \<Rightarrow> Session \<Rightarrow> string + op_call" where
  "as_identity f v s = (case identityOrSession v s of Inl e \<Rightarrow> Inl e | Inr i \<Rightarrow> f i)"

definition need_first :: "string \<Rightarrow> (string \<Rightarrow> op_call) \<Rightarrow> string list \<Rightarrow> params \<Rightarrow> Session \<Rightarrow> string + op_call" where
  "need_first msg f args v s = (case args of [] \<Rightarrow> Inl msg | a # _ \<Rightarrow> Inr (f a))"

definition need_two :: "string \<Rightarrow> (string \<Rightarrow> string \<Rightarrow> op_call) \<Rightarrow> string list \<Rightarrow> params \<Rightarrow> Session \<Rightarrow> string + op_call" where
  "need_two msg f args v s = (case args of a # b # _ \<Rightarrow> Inr (f a b) | _ \<Rightarrow> Inl msg)"

text \<open>
  \<^verbatim>\<open>fmt.Sscanf(v, "%d", ...)\<close> on ASCII text: blanks, a sign, digits; what follows the digits is ignored, and a number outside 64
  bits is an error.
\<close>

definition Sscanf_d :: "string \<Rightarrow> int option" where
  "Sscanf_d v =
     (let t = dropWhile (\<lambda>c. c \<in> {CHR '' '', CHR 0x09, CHR 0x0B, CHR 0x0C, CHR 0x0D}) v;
          neg = (t \<noteq> [] \<and> hd t = CHR ''-'');
          u = (if t \<noteq> [] \<and> (hd t = CHR ''-'' \<or> hd t = CHR ''+'') then tl t else t);
          ds = takeWhile (\<lambda>c. c \<in> set ''0123456789'') u;
          n = foldl (\<lambda>a c. a * 10 + (of_char c - 48)) 0 ds;
          k = (if neg then - n else n) :: int
      in if ds = [] \<or> k < - (2 ^ 63) \<or> 2 ^ 63 \<le> k then None else Some k)"

definition plan_attach :: "string list \<Rightarrow> params \<Rightarrow> Session \<Rightarrow> string + op_call" where
  "plan_attach args v s = via_relay (\<lambda>i. Inr (OpAttach i (Context_Get v ''mailbox'') (Context_Get v ''secret'') (Context_Get v ''shard'') (Context_Get v ''router''))) args s"

definition plan_detach :: "string list \<Rightarrow> params \<Rightarrow> Session \<Rightarrow> string + op_call" where
  "plan_detach args v s = via_relay (\<lambda>i. Inr (OpDetach i (Context_Get v ''mailbox''))) args s"

definition plan_poll :: "string list \<Rightarrow> params \<Rightarrow> Session \<Rightarrow> string + op_call" where
  "plan_poll args v s =
     (let format = Context_Get v ''format''; l = Context_Get v ''limit'' in
      if format \<notin> {[], ''human'', ''json''} then Inl (''invalid format '' @ format)
      else via_relay (\<lambda>i.
        (case (if l \<noteq> [] then Sscanf_d l else Some 32) of
           None \<Rightarrow> Inl (''bad limit '' @ l)
         | Some limit \<Rightarrow> as_identity (\<lambda>ident. Inr (OpPoll i ident (Context_Get v ''mailbox'') limit format)) v s)) args s)"

definition plan_send_frame :: "string list \<Rightarrow> params \<Rightarrow> Session \<Rightarrow> string + op_call" where
  "plan_send_frame args v s =
     via_relay (\<lambda>i. Inr (OpSendFrame i (Context_Get v ''to'') (Context_Get v ''mailbox'') (Context_Get v ''shard'') (Context_Get v ''file''))) args s"

definition plan_register_identity :: "string list \<Rightarrow> params \<Rightarrow> Session \<Rightarrow> string + op_call" where
  "plan_register_identity args v s = via_relay (\<lambda>i. Inr (OpIdentityRegister i [] (Context_Get v ''router''))) args s"

definition plan_xfer_register :: "string list \<Rightarrow> params \<Rightarrow> Session \<Rightarrow> string + op_call" where
  "plan_xfer_register args v s = via_relay (\<lambda>i. Inr (OpFilerelayRegister i [] (Context_Get v ''router''))) args s"

definition plan_resolve :: "string list \<Rightarrow> params \<Rightarrow> Session \<Rightarrow> string + op_call" where
  "plan_resolve args v s = via_relay (\<lambda>i. Inr (OpResolve i (Context_Get v ''to'') (Context_Get v ''router''))) args s"

definition plan_xfer_send :: "string list \<Rightarrow> params \<Rightarrow> Session \<Rightarrow> string + op_call" where
  "plan_xfer_send args v s =
     via_relay (\<lambda>i. as_identity (\<lambda>ident.
       if Context_Get v ''to'' = [] then Inl ''missing to (recipient peer ID)''
       else let c = Context_Get v ''chunk-size'' in
         (case (if c \<noteq> [] then Sscanf_d c else Some 32768) of
            None \<Rightarrow> Inl (''bad chunk-size '' @ c)
          | Some chunk \<Rightarrow> Inr (OpXferSend i ident (Context_Get v ''to'') (Context_Get v ''mailbox'') (Context_Get v ''shard'') (Context_Get v ''file'') chunk))) v s) args s"

definition plan_xfer_recv :: "string list \<Rightarrow> params \<Rightarrow> Session \<Rightarrow> string + op_call" where
  "plan_xfer_recv args v s =
     (case relayAndTicket args s of
        Inl e \<Rightarrow> Inl e
      | Inr (i, rest) \<Rightarrow>
          as_identity (\<lambda>ident.
            let t = Context_Get v ''ticket''; ticket = (if t = [] \<and> rest \<noteq> [] then hd rest else t) in
            Inr (OpXferRecv \<lparr>rp_TransportID = i, rp_Identity = ident, rp_Peer = Context_Get v ''from'', rp_TicketB64 = ticket,
              rp_TransferID = Context_Get v ''transfer'', rp_MailboxID = Context_Get v ''mailbox'', rp_Secret = Context_Get v ''secret'',
              rp_ManifestB64 = Context_Get v ''manifest'', rp_Out = Context_Get v ''out''\<rparr>)) v s)"

definition plan_xfer_resume :: "string list \<Rightarrow> params \<Rightarrow> Session \<Rightarrow> string + op_call" where
  "plan_xfer_resume args v s =
     via_relay (\<lambda>i. Inr (OpXferResume i (Context_Get v ''transfer'') (Context_Get v ''mailbox'') (Context_Get v ''secret'') (Context_Get v ''ticket'') (Context_Get v ''shard''))) args s"

definition plan_xfer_cancel :: "string list \<Rightarrow> params \<Rightarrow> Session \<Rightarrow> string + op_call" where
  "plan_xfer_cancel args v s =
     via_relay (\<lambda>i. Inr (OpXferCancel i (Context_Get v ''transfer'') (Context_Get v ''mailbox'') (Context_Get v ''secret''))) args s"

definition plan_xfer_inspect :: "string list \<Rightarrow> params \<Rightarrow> Session \<Rightarrow> string + op_call" where
  "plan_xfer_inspect args v s =
     (if args = [] \<or> hd args = [] then Inl ''pass a ticket base64 argument'' else Inr (OpXferInspect (hd args)))"

text \<open>The transport of a message: the parameter \<^verbatim>\<open>via\<close>, else the session's; it may be empty.\<close>

definition via_of :: "params \<Rightarrow> Session \<Rightarrow> string" where
  "via_of v s = (if Context_Get v ''via'' = [] then se_Relay s else Context_Get v ''via'')"

definition plan_message_send :: "string list \<Rightarrow> params \<Rightarrow> Session \<Rightarrow> string + op_call" where
  "plan_message_send args v s =
     (case args of
        [] \<Rightarrow> Inl ''usage: message send <peer> <text...>''
      | peer # rest \<Rightarrow>
          as_identity (\<lambda>ident. Inr (OpMessageSend (via_of v s) ident peer (joinWords rest) (Context_Get v ''ticket'') (Context_Get v ''mailbox'') (Context_Get v ''shard''))) v s)"

definition plan_peer_connect :: "string list \<Rightarrow> params \<Rightarrow> Session \<Rightarrow> string + op_call" where
  "plan_peer_connect args v s =
     (case args of
        [] \<Rightarrow> Inl ''usage: peer connect <peer>''
      | peer # _ \<Rightarrow> as_identity (\<lambda>ident. Inr (OpPeerConnect (via_of v s) ident peer (Context_Get v ''mailbox'') (Context_Get v ''shard''))) v s)"

definition plan_peer_address :: "string list \<Rightarrow> params \<Rightarrow> Session \<Rightarrow> string + op_call" where
  "plan_peer_address args v s =
     (case args of
        [] \<Rightarrow> Inl ''usage: peer address <peer> mailbox <hex> shard <url>''
      | peer # _ \<Rightarrow> Inr (OpPeerRecord peer (Context_Get v ''mailbox'') (Context_Get v ''shard'')))"

definition plan_contact_note :: "string list \<Rightarrow> params \<Rightarrow> Session \<Rightarrow> string + op_call" where
  "plan_contact_note args v s =
     (case args of [] \<Rightarrow> Inl ''usage: contact note <name> [text...]'' | n # rest \<Rightarrow> Inr (OpContactNote n (joinWords rest)))"

definition plan_mailbox :: "string list \<Rightarrow> params \<Rightarrow> Session \<Rightarrow> string + op_call" where
  "plan_mailbox args v s = as_identity (\<lambda>ident. Inr (case args of [] \<Rightarrow> OpMailboxList ident | t # _ \<Rightarrow> OpMailboxRead ident t)) v s"

subsection \<open>Commands on the session alone\<close>

type_synonym 't run = "string list \<Rightarrow> params \<Rightarrow> Session \<Rightarrow> 't shell_world \<Rightarrow> run_result \<times> Session \<times> 't shell_world"

definition show_it :: "shell_shown \<Rightarrow> 't shell_world \<Rightarrow> 't shell_world" where
  "show_it x w = w\<lparr>sw_shown := sw_shown w @ [x]\<rparr>"

definition run_op :: "'t shell_parts \<Rightarrow> (string list \<Rightarrow> params \<Rightarrow> Session \<Rightarrow> string + op_call) \<Rightarrow> 't run" where
  "run_op X plan args v s w =
     (case plan args v s of Inl msg \<Rightarrow> (RunErr msg, s, w) | Inr call \<Rightarrow> run_call X (Context_JSON v (Some s)) call s w)"

definition run_use :: "'t shell_parts \<Rightarrow> 't run" where
  "run_use X args v s w =
     (case args of
        what # i # _ \<Rightarrow>
          if what = ''identity'' then run_call X (Context_JSON v (Some s)) (OpIdentityUse i) s w
          else if what = ''relay'' then (RunOk, s\<lparr>se_Relay := i\<rparr>, show_it (ShownRelay i) w)
          else (RunErr ''usage: use identity <id> | use relay <id>'', s, w)
      | _ \<Rightarrow> (RunErr ''usage: use identity <id> | use relay <id>  (try `identity list` / `transport list`)'', s, w))"

definition run_xfer_list :: "'t run" where
  "run_xfer_list args v s w = (RunOk, s, show_it (ShownTransfers (se_Transfers s)) w)"

text \<open>The recorded addresses are listed in the order of their texts.\<close>

definition address_text :: "PeerAddr \<Rightarrow> string" where
  "address_text a = (if pa_PeerID a = [] then pa_MailboxID a else pa_PeerID a) @ '' @ '' @ pa_ShardURL a @ '' ('' @ pa_MailboxID a @ '')''"

definition run_peer_list :: "'t run" where
  "run_peer_list args v s w =
     (RunOk, s, show_it (ShownPeers (se_Peers s)
        (if Context_JSON v (Some s) \<or> se_Peers s = [] then [] else sorted_list_of_multiset (image_mset (\<lambda>k. address_text (the (se_PeerMailboxes s k))) (mset_set (dom (se_PeerMailboxes s)))))) w)"

definition run_context :: "'t run" where
  "run_context args v s w =
     (RunOk, s, show_it (ShownContext (if se_Identity s \<noteq> [] then se_Identity s else ''-'') (if se_Relay s \<noteq> [] then se_Relay s else ''-'') (se_Transfers s)) w)"

definition run_set :: "'t run" where
  "run_set args v s w =
     (case args of
        [] \<Rightarrow> (RunErr ''usage: set <json|show-secrets|transports-dir> <value>'', s, w)
      | key # rest \<Rightarrow>
          let val = (case rest of [] \<Rightarrow> [] | x # _ \<Rightarrow> x); on = (val \<in> {''on'', ''true'', ''1'', ''yes''}) in
          if key = ''json'' then (RunOk, s\<lparr>se_JSON := on\<rparr>, show_it (ShownSetting key val) w)
          else if key = ''show-secrets'' then (RunOk, s\<lparr>se_ShowSecrets := on\<rparr>, show_it (ShownSetting key val) w)
          else if key = ''transports-dir'' then
            (if val = [] then (RunErr ''usage: set transports-dir <dir>'', s, w)
             else (RunOk, s\<lparr>se_TransportsDir := val\<rparr>, show_it (ShownSetting key val) w))
          else (RunErr (''unknown setting '' @ key), s, w))"

definition run_history :: "'t run" where
  "run_history args v s w = (RunOk, s, show_it (ShownHistory (se_History s)) w)"

definition run_shown :: "shell_shown \<Rightarrow> 't run" where
  "run_shown x args v s w = (RunOk, s, show_it x w)"

definition run_exit :: "'t run" where
  "run_exit args v s w = (RunExit, s, w)"

text \<open>The names of commands that \<^verbatim>\<open>help\<close> looks up are those of the tree it is part of.\<close>

definition run_help :: "'t shell_world Registry \<Rightarrow> 't run" where
  "run_help r args v s w =
     (if args = [] then (RunOk, s, show_it (ShownHelp []) w)
      else case Resolve r args of
        (Some cmd, _, path) \<Rightarrow> (RunOk, s, show_it (ShownHelp path) w)
      | (None, _, path) \<Rightarrow>
          if length path = length args \<and> path \<noteq> [] \<and> Children r path \<noteq> [] then (RunOk, s, show_it (ShownHelp path) w)
          else if Suggest r (joinWords args) \<noteq> [] then (RunErr (''unknown command '' @ joinWords args @ ''; did you mean''), s, w)
          else (RunErr (''unknown command '' @ joinWords args), s, w))"

subsection \<open>The command tree\<close>

definition value_flag :: "string \<Rightarrow> Flag" where
  "value_flag n = \<lparr>fl_Name = n, fl_Default = [], fl_Required = False, fl_IsBool = False\<rparr>"

definition required_flag :: "string \<Rightarrow> Flag" where
  "required_flag n = (value_flag n)\<lparr>fl_Required := True\<rparr>"

definition bool_flag :: "string \<Rightarrow> Flag" where
  "bool_flag n = (value_flag n)\<lparr>fl_IsBool := True\<rparr>"

definition default_flag :: "string \<Rightarrow> string \<Rightarrow> Flag" where
  "default_flag n d = (value_flag n)\<lparr>fl_Default := d\<rparr>"

definition tf :: "string \<Rightarrow> string \<Rightarrow> Flag list \<Rightarrow> 't run \<Rightarrow> 't shell_world Command" where
  "tf name usage flags run = \<lparr>cm_Name = name, cm_Aliases = [], cm_ArgsUsage = usage, cm_MinArgs = 0, cm_MaxArgs = 0, cm_Flags = flags,
     cm_Args = [], cm_Variadic = ArgText, cm_Run = run\<rparr>"

definition transport_commands :: "'t shell_parts \<Rightarrow> (string \<times> 't shell_world Command) list" where
  "transport_commands X =
     [(''list'', tf ''list'' [] [] (run_op X (\<lambda>args v s. Inr OpList))),
      (''install'', tf ''install'' ''<package.ntx>'' [bool_flag ''enable'']
         (run_op X (\<lambda>args v s. case args of [] \<Rightarrow> Inl ''missing package path'' | p # _ \<Rightarrow> Inr (OpInstall p (Context_Bool v ''enable''))))),
      (''remove'', tf ''remove'' ''<id>'' [] (run_op X (need_first ''missing transport id'' OpRemove))),
      (''enable'', tf ''enable'' ''<id>'' [] (run_op X (need_first ''missing transport id'' OpEnable))),
      (''disable'', tf ''disable'' ''<id>'' [] (run_op X (need_first ''missing transport id'' OpDisable))),
      (''status'', tf ''status'' ''[id]'' [] (run_op X (\<lambda>args v s. Inr (OpStatus (case args of [] \<Rightarrow> [] | i # _ \<Rightarrow> i))))),
      (''config'', tf ''config'' ''<id> <json>'' [] (run_op X (need_two ''usage: transport config <id> <json>'' OpSetConfig))),
      (''attach'', tf ''attach'' ''<id>'' [required_flag ''mailbox'', value_flag ''secret'', required_flag ''shard'', value_flag ''router''] (run_op X plan_attach)),
      (''detach'', tf ''detach'' ''<id>'' [required_flag ''mailbox''] (run_op X plan_detach)),
      (''poll'', tf ''poll'' ''[transport]'' [value_flag ''id'', value_flag ''mailbox'', default_flag ''limit'' ''32'', default_flag ''format'' ''human'', bool_flag ''json'']
         (run_op X plan_poll)),
      (''send-frame'', tf ''send-frame'' ''[transport]'' [value_flag ''to'', value_flag ''mailbox'', value_flag ''shard'', required_flag ''file'', bool_flag ''json'']
         (run_op X plan_send_frame)),
      (''register-identity'', tf ''register-identity'' ''[transport]'' [value_flag ''router'', bool_flag ''json'', bool_flag ''show-secrets'']
         (run_op X plan_register_identity)),
      (''xfer-register'', tf ''xfer-register'' ''[transport]'' [value_flag ''router'', bool_flag ''json'', bool_flag ''show-secrets''] (run_op X plan_xfer_register)),
      (''resolve'', tf ''resolve'' ''[transport]'' [required_flag ''to'', required_flag ''router'', bool_flag ''json''] (run_op X plan_resolve))]"

definition xfer_commands :: "'t shell_parts \<Rightarrow> (string \<times> 't shell_world Command) list" where
  "xfer_commands X =
     [(''send'', (tf ''send'' ''[transport]'' [value_flag ''id'', value_flag ''to'', value_flag ''mailbox'', value_flag ''shard'', required_flag ''file'',
         default_flag ''chunk-size'' ''32768'', bool_flag ''json''] (run_op X plan_xfer_send))\<lparr>cm_Aliases := [''upload'']\<rparr>),
      (''recv'', (tf ''recv'' ''[transport] [ticket]'' [value_flag ''id'', value_flag ''from'', value_flag ''ticket'', value_flag ''transfer'', value_flag ''mailbox'',
         value_flag ''secret'', value_flag ''shard'', value_flag ''manifest'', required_flag ''out'', bool_flag ''json''] (run_op X plan_xfer_recv))\<lparr>cm_Aliases := [''download'']\<rparr>),
      (''resume'', tf ''resume'' ''[transport]'' [value_flag ''transfer'', value_flag ''mailbox'', value_flag ''secret'', value_flag ''ticket'', value_flag ''shard'', bool_flag ''json'']
         (run_op X plan_xfer_resume)),
      (''cancel'', tf ''cancel'' ''[transport]'' [required_flag ''transfer'', required_flag ''mailbox'', value_flag ''secret'', bool_flag ''json''] (run_op X plan_xfer_cancel)),
      (''inspect'', tf ''inspect'' ''[ticket]'' [bool_flag ''json'', bool_flag ''show-secrets''] (run_op X plan_xfer_inspect)),
      (''list'', tf ''list'' [] [bool_flag ''json''] run_xfer_list)]"

definition relay_commands :: "'t shell_parts \<Rightarrow> (string \<times> 't shell_world Command) list" where
  "relay_commands X =
     [(''list'', tf ''list'' [] [bool_flag ''json''] (run_op X (\<lambda>args v s. Inr OpRelayList))),
      (''ping'', tf ''ping'' ''[transport]'' [bool_flag ''json''] (run_op X (\<lambda>args v s. via_relay (Inr \<circ> OpRelayPing) args s))),
      (''info'', tf ''info'' ''[transport]'' [bool_flag ''json''] (run_op X (\<lambda>args v s. via_relay (Inr \<circ> OpRelayInfo) args s)))]"

definition message_send_flags :: "Flag list" where
  "message_send_flags = [value_flag ''id'', value_flag ''via'', value_flag ''ticket'', value_flag ''mailbox'', value_flag ''shard'', bool_flag ''json'']"

definition message_send_command :: "'t shell_parts \<Rightarrow> 't shell_world Command" where
  "message_send_command X = (tf ''send'' ''<peer> <text...>'' message_send_flags (run_op X plan_message_send))\<lparr>cm_Args := [ArgPeer]\<rparr>"

definition peer_commands :: "'t shell_parts \<Rightarrow> (string \<times> 't shell_world Command) list" where
  "peer_commands X =
     [(''connect'', (tf ''connect'' ''<peer>'' [value_flag ''id'', value_flag ''via'', value_flag ''mailbox'', value_flag ''shard'', bool_flag ''json'']
         (run_op X plan_peer_connect))\<lparr>cm_Args := [ArgPeer]\<rparr>),
      (''address'', (tf ''address'' ''<peer>'' [required_flag ''mailbox'', required_flag ''shard'', bool_flag ''json''] (run_op X plan_peer_address))\<lparr>cm_Args := [ArgPeer]\<rparr>),
      (''list'', tf ''list'' [] [bool_flag ''json''] run_peer_list)]"

definition identity_commands :: "'t shell_parts \<Rightarrow> (string \<times> 't shell_world Command) list" where
  "identity_commands X =
     [(''init'', tf ''init'' [] [bool_flag ''json''] (run_op X (\<lambda>args v s. Inr OpIdentityInit))),
      (''load'', (tf ''load'' ''<id>'' [bool_flag ''json''] (run_op X (need_first ''usage: identity load <id>'' OpIdentityLoad)))\<lparr>cm_Args := [ArgIdentity]\<rparr>),
      (''list'', tf ''list'' [] [bool_flag ''json''] (run_op X (\<lambda>args v s. Inr OpIdentityList))),
      (''use'', (tf ''use'' ''<id>'' [] (run_op X (need_first ''usage: identity use <id>'' OpIdentityUse)))\<lparr>cm_Args := [ArgIdentity]\<rparr>),
      (''info'', tf ''info'' [] [bool_flag ''json''] (run_op X (\<lambda>args v s. Inr OpIdentityInfo)))]"

definition contact_commands :: "'t shell_parts \<Rightarrow> (string \<times> 't shell_world Command) list" where
  "contact_commands X =
     [(''add'', tf ''add'' ''<name> <userid>'' [bool_flag ''json''] (run_op X (need_two ''usage: contact add <name> <userid>'' OpContactAdd))),
      (''remove'', tf ''remove'' ''<name>'' [bool_flag ''json''] (run_op X (need_first ''usage: contact remove <name>'' OpContactRemove))),
      (''list'', tf ''list'' [] [bool_flag ''json''] (run_op X (\<lambda>args v s. Inr OpContactList))),
      (''info'', tf ''info'' ''<name>'' [bool_flag ''json''] (run_op X (need_first ''usage: contact info <name>'' OpContactInfo))),
      (''note'', tf ''note'' ''<name> [text...]'' [bool_flag ''json''] (run_op X plan_contact_note)),
      (''rename'', tf ''rename'' ''<old> <new>'' [bool_flag ''json''] (run_op X (need_two ''usage: contact rename <old> <new>'' OpContactRename)))]"

definition single_commands :: "'t shell_parts \<Rightarrow> 't run \<Rightarrow> (string \<times> 't shell_world Command) list" where
  "single_commands X help =
     [(''mailbox'', (tf ''mailbox'' ''[thread]'' [value_flag ''id'', bool_flag ''json''] (run_op X plan_mailbox))\<lparr>cm_Args := [ArgThread]\<rparr>),
      (''use'', tf ''use'' ''<identity|relay> <id>'' [] (run_use X)),
      (''quickstart'', (tf ''quickstart'' [] [] (run_shown ShownGuide))\<lparr>cm_Aliases := [''start'', ''guide'', ''tutorial'']\<rparr>),
      (''context'', tf ''context'' [] [bool_flag ''json''] run_context),
      (''alias'', alias_command),
      (''set'', tf ''set'' ''<key> <value>'' [] run_set),
      (''history'', tf ''history'' [] [] run_history),
      (''clear'', tf ''clear'' [] [] (run_shown ShownCleared)),
      (''version'', tf ''version'' [] [] (run_shown ShownVersion)),
      (''help'', tf ''help'' ''[command...]'' [] help),
      (''exit'', (tf ''exit'' [] [] run_exit)\<lparr>cm_Aliases := [''quit'']\<rparr>)]"

definition in_group :: "string \<Rightarrow> (string \<times> 'c) list \<Rightarrow> (string list \<times> 'c) list" where
  "in_group g cs = map (\<lambda>(n, c). ([g, n], c)) cs"

definition command_table :: "'t shell_parts \<Rightarrow> 't run \<Rightarrow> (string list \<times> 't shell_world Command) list" where
  "command_table X help =
     in_group ''transport'' (transport_commands X) @ in_group ''xfer'' (xfer_commands X) @ in_group ''relay'' (relay_commands X) @
     [([''message'', ''send''], message_send_command X)] @ in_group ''peer'' (peer_commands X) @ in_group ''identity'' (identity_commands X) @
     in_group ''contact'' (contact_commands X) @ map (\<lambda>(n, c). ([n], c)) (single_commands X help)"

fun submit_all :: "(string list \<times> 'w Command) list \<Rightarrow> 'w Registry \<Rightarrow> shell_error + 'w Registry" where
  "submit_all [] r = Inr r"
| "submit_all ((p, c) # cs) r = (case Register p c r of Inl e \<Rightarrow> Inl e | Inr r' \<Rightarrow> submit_all cs r')"

text \<open>An error would be a panic at the start.  The tree \<^verbatim>\<open>help\<close> searches differs from the tree only in what \<^verbatim>\<open>help\<close> itself runs.\<close>

definition buildRegistry :: "'t shell_parts \<Rightarrow> shell_error + 't shell_world Registry" where
  "buildRegistry X =
     (case submit_all (command_table X run_exit) NewRegistry of
        Inl e \<Rightarrow> Inl e
      | Inr r \<Rightarrow> submit_all (command_table X (run_help r)) NewRegistry)"

end
