(* ===== verification/CommandTree.thy ===== *)
theory CommandTree
  imports ShellProps ShellCommands OpsProps
begin

text \<open>
  The tree of commands as a table from paths to commands: registering a command adds its path, a path is found with whatever
  words follow it, and the tree of the unified shell is the table of its commands.
\<close>

subsection \<open>The tree as a table\<close>

fun cmd_at :: "'w tree \<Rightarrow> string list \<Rightarrow> 'w Command option" where
  "cmd_at m [] = None"
| "cmd_at m [w] = (case map_of m w of None \<Rightarrow> None | Some n \<Rightarrow> node_cmd n)"
| "cmd_at m (w # v # ws) = (case map_of m w of None \<Rightarrow> None | Some n \<Rightarrow> cmd_at (node_children n) (v # ws))"

text \<open>A tree all of whose leaves are commands of a set, and only its leaves.\<close>

definition leaf :: "'w Command set \<Rightarrow> 'w Command option \<Rightarrow> 'w tree \<Rightarrow> bool" where
  "leaf C c ch \<longleftrightarrow> (case c of None \<Rightarrow> ch \<noteq> [] | Some x \<Rightarrow> x \<in> C \<and> ch = [])"

inductive leafy :: "'w Command set \<Rightarrow> 'w tree \<Rightarrow> bool" for C where
  "(\<And>n c ch. (n, Node c ch) \<in> set m \<Longrightarrow> leaf C c ch \<and> leafy C ch) \<Longrightarrow> leafy C m"

inductive_cases leafyE: "leafy C m"

lemma leafyD: "leafy C m \<Longrightarrow> (n, Node c ch) \<in> set m \<Longrightarrow> leaf C c ch \<and> leafy C ch"
  by (erule leafyE) blast

definition apart :: "string list \<Rightarrow> string list \<Rightarrow> bool" where
  "apart p q \<longleftrightarrow> \<not> prefix p q \<and> \<not> prefix q p"

definition free_path :: "'w tree \<Rightarrow> string list \<Rightarrow> bool" where
  "free_path m p \<longleftrightarrow> p \<noteq> [] \<and> map ToLower p = p \<and> (\<forall>q. cmd_at m q \<noteq> None \<longrightarrow> apart p q)"

lemma cmd_at_empty [simp]: "cmd_at [] p = None"
  by (cases p rule: remdups_adj.cases) auto

lemma cmd_at_nothing [simp]: "cmd_at [] = Map.empty"
  by (rule ext) simp

lemma leafy_empty [simp]: "leafy C []"
  by (rule leafy.intros) simp

lemma leafy_child: "leafy C m \<Longrightarrow> (n, x) \<in> set m \<Longrightarrow> leafy C (node_children x)"
  by (cases x) (auto dest: leafyD)

lemma leafy_mono: "leafy C m \<Longrightarrow> C \<subseteq> D \<Longrightarrow> leafy D m"
proof (induction rule: leafy.induct)
  case (1 m)
  show ?case
  proof (rule leafy.intros)
    fix n c ch assume "(n, Node c ch) \<in> set m"
    then show "leaf D c ch \<and> leafy D ch" using 1(1) [of n c ch] 1(2) by (auto simp: leaf_def split: option.splits)
  qed
qed

lemma leafy_nonempty: "leafy C m \<Longrightarrow> m \<noteq> [] \<Longrightarrow> \<exists>q. cmd_at m q \<noteq> None"
proof (induction rule: leafy.induct)
  case (1 m)
  obtain n c ch rest where m: "m = (n, Node c ch) # rest" using 1(2) by (cases m) (auto, metis node.exhaust)
  show ?case
  proof (cases c)
    case None
    then obtain q where "cmd_at ch q \<noteq> None" using 1(1) [of n c ch] m by (auto simp: leaf_def)
    then show ?thesis using m None by (intro exI [of _ "n # q"]) (cases q, auto)
  next
    case (Some x)
    then show ?thesis using m by (intro exI [of _ "[n]"]) simp
  qed
qed

lemma leafy_update:
  assumes "leafy C m" "leaf C c ch" "leafy C ch"
  shows "leafy C (AList.update w (Node c ch) m)"
proof (rule leafy.intros)
  fix n d k assume "(n, Node d k) \<in> set (AList.update w (Node c ch) m)"
  then have "(n, Node d k) \<in> set m \<or> Node d k = Node c ch" by (induction m) (auto split: if_splits)
  then show "leaf C d k \<and> leafy C k" using assms by (auto dest: leafyD)
qed

lemma group_children: "leafy C m \<Longrightarrow> child_or_group m w = Node c ch \<Longrightarrow> leafy C ch"
  by (auto simp: child_or_group_def split: option.splits dest!: map_of_SomeD dest: leafy_child)

lemma cmd_at_child: "child_or_group m w = Node c ch \<Longrightarrow> q \<noteq> [] \<Longrightarrow> cmd_at m (w # q) = cmd_at ch q"
  by (cases q) (auto simp: child_or_group_def split: option.splits)

lemma cmd_at_here: "child_or_group m w = Node c ch \<Longrightarrow> cmd_at m [w] = c"
  by (auto simp: child_or_group_def split: option.splits)

lemma map_of_AList_update [simp]: "map_of (AList.update k v m) = (map_of m)(k \<mapsto> v)"
  by (rule ext) (simp add: update_conv')

lemma cmd_at_update:
  "cmd_at (AList.update w (Node c ch) m) q =
     (case q of [] \<Rightarrow> None | [v] \<Rightarrow> if v = w then c else cmd_at m q | v # r \<Rightarrow> if v = w then cmd_at ch r else cmd_at m q)"
  by (cases q rule: remdups_adj.cases) auto

text \<open>Registering is inserting into the table.\<close>

lemma insert_refines:
  "leafy C m \<Longrightarrow> free_path m p \<Longrightarrow>
   \<exists>m'. insert_command p cmd m = Some m' \<and> m' \<noteq> [] \<and> leafy (insert cmd C) m' \<and> cmd_at m' = (cmd_at m)(p \<mapsto> cmd)"
proof (induction p cmd m rule: insert_command.induct)
  case (2 w cmd m)
  obtain c ch where n: "child_or_group m w = Node c ch" by (cases "child_or_group m w")
  have far: "cmd_at m q \<noteq> None \<Longrightarrow> apart [w] q" for q using 2(2) by (simp add: free_path_def)
  have c: "c = None" using far [of "[w]"] cmd_at_here [OF n] by (cases c) (auto simp: apart_def simp del: cmd_at.simps)
  have "cmd_at ch q = None" for q
    using far [of "w # q"] cmd_at_child [OF n, of q] by (cases "q = []"; cases "cmd_at ch q") (auto simp: apart_def)
  then have ch: "ch = []" using leafy_nonempty [OF group_children [OF 2(1) n]] by auto
  have lower: "ToLower w = w" using 2(2) by (simp add: free_path_def)
  let ?m = "AList.update w (Node (Some cmd) []) m"
  have ins: "insert_command [w] cmd m = Some ?m" using n c ch lower by simp
  have "cmd_at ?m q = ((cmd_at m)([w] \<mapsto> cmd)) q" for q
    using cmd_at_child [OF n] ch by (auto simp: cmd_at_update split: list.splits)
  moreover have "leafy (insert cmd C) ?m" using leafy_mono [OF 2(1), of "insert cmd C"] by (intro leafy_update) (auto simp: leaf_def)
  moreover have "?m \<noteq> []" by (cases m) auto
  ultimately show ?case using ins by blast
next
  case (3 w v ws cmd m)
  obtain c ch where n: "child_or_group m w = Node c ch" by (cases "child_or_group m w")
  have far: "cmd_at m q \<noteq> None \<Longrightarrow> apart (w # v # ws) q" for q using 3(3) by (simp add: free_path_def)
  have lower: "ToLower w = w" "map ToLower (v # ws) = v # ws" using 3(3) by (simp_all add: free_path_def)
  have c: "c = None" using far [of "[w]"] cmd_at_here [OF n] by (cases c) (auto simp: apart_def simp del: cmd_at.simps)
  have "apart (v # ws) q" if "cmd_at ch q \<noteq> None" for q
    using far [of "w # q"] cmd_at_child [OF n, of q] that by (cases "q = []") (auto simp: apart_def)
  then have "free_path ch (v # ws)" using lower by (simp add: free_path_def)
  then obtain ch' where ch': "insert_command (v # ws) cmd ch = Some ch'" "ch' \<noteq> []" "leafy (insert cmd C) ch'"
      "cmd_at ch' = (cmd_at ch)(v # ws \<mapsto> cmd)"
    using 3(1) [of c ch] n lower(1) group_children [OF 3(2) n] by (auto simp: fun_upd_def)
  let ?m = "AList.update w (Node None ch') m"
  have ins: "insert_command (w # v # ws) cmd m = Some ?m" using n c ch'(1) lower(1) by simp
  have "cmd_at ?m q = ((cmd_at m)(w # v # ws \<mapsto> cmd)) q" for q
    using cmd_at_child [OF n] cmd_at_here [OF n] c ch'(4)
    by (auto simp: cmd_at_update simp del: cmd_at.simps(2,3) split: list.splits)
  moreover have "leafy (insert cmd C) ?m" using leafy_mono [OF 3(2), of "insert cmd C"] ch' by (intro leafy_update) (auto simp: leaf_def)
  moreover have "?m \<noteq> []" by (cases m) auto
  ultimately show ?case using ins by blast
qed (simp add: free_path_def)

subsection \<open>Finding a path\<close>

definition no_alias :: "'w Command set \<Rightarrow> string \<Rightarrow> bool" where
  "no_alias C w \<longleftrightarrow> (\<forall>c\<in>C. w \<notin> set (map ToLower (cm_Aliases c)))"

lemma leafy_named:
  assumes "leafy C m" "no_alias C w" "map_of m w = Some n"
  shows "List.find (child_matches w) m = Some (w, n)"
proof (rule find_named [OF assms(3)], intro ballI impI)
  fix p assume p: "p \<in> set m" "fst p \<noteq> w"
  obtain k c ch where "p = (k, Node c ch)" by (cases p) (metis node.exhaust)
  then show "\<not> child_matches w p"
    using p assms(1,2) leafyD [of C m k c ch] by (auto simp: child_matches_def no_alias_def leaf_def split: option.splits)
qed

lemma resolve_nothing [simp]: "resolve [] ws = (None, 0, [])"
  by (cases ws) auto

lemma resolve_refines:
  "leafy C m \<Longrightarrow> cmd_at m p = Some c \<Longrightarrow> map ToLower p = p \<Longrightarrow> \<forall>w\<in>set p. no_alias C w \<Longrightarrow>
   resolve m (p @ ws) = (Some c, length p, p)"
proof (induction m p rule: cmd_at.induct)
  case (2 m w)
  then obtain n where n: "map_of m w = Some n" "node_cmd n = Some c" by (auto split: option.splits)
  then have "node_children n = []"
    using leafyD [OF 2(1)] by (cases n) (fastforce simp: leaf_def dest!: map_of_SomeD)
  then have node: "n = Node (Some c) []" using n(2) by (cases n) auto
  then show ?case using leafy_named [OF 2(1) _ n(1)] 2(3,4) node by simp
next
  case (3 m w v vs)
  then obtain n where n: "map_of m w = Some n" "cmd_at (node_children n) (v # vs) = Some c" by (auto split: option.splits)
  obtain d ch where node: "n = Node d ch" by (cases n)
  have "leafy C ch" using leafyD [OF 3(2)] n(1) node by (auto dest!: map_of_SomeD)
  then have "resolve ch ((v # vs) @ ws) = (Some c, length (v # vs), v # vs)"
    using 3(1) [OF n(1)] n(2) node 3(4,5) by simp
  then show ?case using leafy_named [OF 3(2) _ n(1)] 3(4,5) node by simp
qed simp

subsection \<open>A table of commands\<close>

definition path_table :: "(string list \<times> 'w Command) list \<Rightarrow> bool" where
  "path_table cs \<longleftrightarrow> sorted_wrt apart (map fst cs) \<and> (\<forall>p\<in>set (map fst cs). p \<noteq> [] \<and> map ToLower p = p)"

lemma apart_sym: "apart p q \<Longrightarrow> apart q p"
  by (simp add: apart_def)

lemma submit_all_refines:
  "path_table cs \<Longrightarrow> leafy C (roots r) \<Longrightarrow> \<forall>p\<in>set (map fst cs). free_path (roots r) p \<Longrightarrow>
   \<exists>r'. submit_all cs r = Inr r' \<and> leafy (C \<union> set (map snd cs)) (roots r') \<and> cmd_at (roots r') = cmd_at (roots r) ++ map_of (rev cs)"
proof (induction cs r arbitrary: C rule: submit_all.induct)
  case (2 p c cs r)
  have far: "\<forall>q\<in>set (map fst cs). apart p q" and tail: "path_table cs" using 2(2) by (auto simp: path_table_def)
  have free: "free_path (roots r) p" using 2(4) by simp
  obtain m where m: "insert_command p c (roots r) = Some m" "leafy (insert c C) m" "cmd_at m = (cmd_at (roots r))(p \<mapsto> c)"
    using insert_refines [OF 2(3) free] by blast
  obtain r1 where r1: "Register p c r = Inr r1" "roots r1 = m"
    using m(1) free by (simp add: Register_def free_path_def)
  have "free_path m q" if "q \<in> set (map fst cs)" for q
    using 2(4) far that m(3) apart_sym by (auto simp: free_path_def split: if_splits)
  then obtain r' where r': "submit_all cs r1 = Inr r'" "leafy (insert c C \<union> set (map snd cs)) (roots r')"
      "cmd_at (roots r') = cmd_at m ++ map_of (rev cs)"
    using 2(1) [OF r1(1) tail, of "insert c C"] m(2) r1(2) by auto
  then show ?case using r1(1) m(3) by (auto simp: map_add_assoc)
qed auto

lemma map_of_rev_path_table: "path_table cs \<Longrightarrow> (p, c) \<in> set cs \<Longrightarrow> map_of (rev cs) p = Some c"
proof (rule map_of_is_SomeI)
  assume "path_table cs"
  then have "distinct (map fst cs)"
    unfolding path_table_def by (auto simp: distinct_conv_nth sorted_wrt_iff_nth_less apart_def) (metis linorder_neqE_nat prefix_order.refl)
  then show "distinct (map fst (rev cs))" by (simp add: rev_map [symmetric])
qed simp

lemma table_resolves:
  assumes "path_table cs" "\<forall>p\<in>set (map fst cs). \<forall>w\<in>set p. no_alias (set (map snd cs)) w"
  shows "\<exists>r. submit_all cs NewRegistry = Inr r \<and> (\<forall>(p, c)\<in>set cs. \<forall>ws. Resolve r (p @ ws) = (Some c, length p, p))"
proof -
  have "\<forall>p\<in>set (map fst cs). free_path (roots NewRegistry) p"
    using assms(1) by (simp add: path_table_def free_path_def NewRegistry_def)
  then obtain r where r: "submit_all cs NewRegistry = Inr r" "leafy (set (map snd cs)) (roots r)" "cmd_at (roots r) = map_of (rev cs)"
    using submit_all_refines [OF assms(1), of "{}" NewRegistry] by (auto simp: NewRegistry_def)
  have "Resolve r (p @ ws) = (Some c, length p, p)" if "(p, c) \<in> set cs" for p c ws
    unfolding Resolve_def
  proof (rule resolve_refines [OF r(2)])
    show "cmd_at (roots r) p = Some c" using map_of_rev_path_table [OF assms(1) that] r(3) by simp
  qed (use assms that in \<open>auto simp: path_table_def\<close>)
  then show ?thesis using r(1) by blast
qed

subsection \<open>The tree of the unified shell\<close>

definition command_paths :: "string list list" where
  "command_paths =
     map (\<lambda>n. [''transport'', n]) [''list'', ''install'', ''remove'', ''enable'', ''disable'', ''status'', ''config'', ''attach'', ''detach'', ''poll'',
       ''send-frame'', ''register-identity'', ''xfer-register'', ''resolve''] @
     map (\<lambda>n. [''xfer'', n]) [''send'', ''recv'', ''resume'', ''cancel'', ''inspect'', ''list''] @
     map (\<lambda>n. [''relay'', n]) [''list'', ''ping'', ''info''] @ [[''message'', ''send'']] @
     map (\<lambda>n. [''peer'', n]) [''connect'', ''address'', ''list''] @
     map (\<lambda>n. [''identity'', n]) [''init'', ''load'', ''list'', ''use'', ''info''] @
     map (\<lambda>n. [''contact'', n]) [''add'', ''remove'', ''list'', ''info'', ''note'', ''rename''] @
     map (\<lambda>n. [n]) [''mailbox'', ''use'', ''quickstart'', ''context'', ''alias'', ''set'', ''history'', ''clear'', ''version'', ''help'', ''exit'']"

definition command_aliases :: "string list" where
  "command_aliases = [''upload'', ''download'', ''start'', ''guide'', ''tutorial'', ''quit'']"

lemmas command_lists = command_table_def in_group_def transport_commands_def xfer_commands_def relay_commands_def message_send_command_def
  peer_commands_def identity_commands_def contact_commands_def single_commands_def tf_def alias_command_def

lemma command_table_paths: "map fst (command_table X help) = command_paths"
  by (simp add: command_lists command_paths_def)

lemma command_table_aliases: "concat (map (cm_Aliases \<circ> snd) (command_table X help)) = command_aliases"
  by (simp add: command_lists command_aliases_def)

lemma command_paths_apart: "sorted_wrt apart command_paths"
  by code_simp

lemma command_paths_lower: "list_all (\<lambda>p. p \<noteq> [] \<and> map ToLower p = p) command_paths"
  by code_simp

lemma command_paths_no_alias: "list_all (list_all (\<lambda>w. w \<notin> set (map ToLower command_aliases))) command_paths"
  by code_simp

lemma shell_table_resolves:
  "\<exists>r. submit_all (command_table X help) NewRegistry = Inr r \<and>
     (\<forall>(p, c)\<in>set (command_table X help). \<forall>ws. Resolve r (p @ ws) = (Some c, length p, p))"
proof (rule table_resolves)
  let ?cs = "command_table X help"
  show "path_table ?cs"
    using command_paths_apart command_paths_lower by (auto simp: path_table_def command_table_paths list_all_iff)
  have "set (cm_Aliases c) \<subseteq> set command_aliases" if "c \<in> set (map snd ?cs)" for c
    using that unfolding command_table_aliases [of X "help", symmetric] by auto
  then have "no_alias (set (map snd ?cs)) w" if "w \<notin> set (map ToLower command_aliases)" for w
    using that by (fastforce simp: no_alias_def)
  then show "\<forall>p\<in>set (map fst ?cs). \<forall>w\<in>set p. no_alias (set (map snd ?cs)) w"
    using command_paths_no_alias unfolding command_table_paths by (auto simp: list_all_iff)
qed

lemma shell_registry: "\<exists>r. buildRegistry X = Inr r"
proof -
  obtain r0 where "submit_all (command_table X run_exit) NewRegistry = Inr r0" using shell_table_resolves [of X run_exit] by blast
  then show ?thesis using shell_table_resolves [of X "run_help r0"] by (auto simp: buildRegistry_def)
qed

lemma shell_tree:
  assumes "buildRegistry X = Inr r"
  obtains r0 where "submit_all (command_table X run_exit) NewRegistry = Inr r0"
    "\<And>p c ws. (p, c) \<in> set (command_table X (run_help r0)) \<Longrightarrow> Resolve r (p @ ws) = (Some c, length p, p)"
proof -
  obtain r0 where r0: "submit_all (command_table X run_exit) NewRegistry = Inr r0" using shell_table_resolves [of X run_exit] by blast
  then have "submit_all (command_table X (run_help r0)) NewRegistry = Inr r" using assms by (simp add: buildRegistry_def)
  then show ?thesis using that r0 shell_table_resolves [of X "run_help r0"] by auto
qed

text \<open>
  C27.  Building the command tree of the unified shell never panics, and the tree is the table of its commands:
  the path of every command, followed by any words, resolves to that command and takes exactly the path.
\<close>

theorem shell_commands_found:
  "\<exists>r r0. buildRegistry X = Inr r \<and> submit_all (command_table X run_exit) NewRegistry = Inr r0 \<and>
     (\<forall>(p, c)\<in>set (command_table X (run_help r0)). \<forall>ws. Resolve r (p @ ws) = (Some c, length p, p))"
proof -
  obtain r where r: "buildRegistry X = Inr r" using shell_registry by blast
  show ?thesis by (rule shell_tree [OF r]) (use r in blast)
qed

subsection \<open>Sending a message\<close>

lemma parse_plain_words:
  "\<forall>w\<in>set us. plain_word flags w \<Longrightarrow> parse_args flags (us @ rest) pos v = parse_args flags rest (pos @ us) v"
  by (induction us arbitrary: pos) (auto simp: plain_word_def)

definition message_word :: "string \<Rightarrow> bool" where
  "message_word w \<longleftrightarrow> w \<notin> {''help'', ''id'', ''via'', ''ticket'', ''mailbox'', ''shard'', ''json''} \<and> \<not> HasPrefix w ''-'' \<and> ascii w \<and> CHR 0x22 \<notin> set w"

lemma message_word_plain: "message_word w \<Longrightarrow> plain_word message_send_flags w"
  by (simp add: message_word_def plain_word_def message_send_flags_def byName_def value_flag_def bool_flag_def)

definition message_defaults :: params where
  "message_defaults = fold initial_value message_send_flags Map.empty"

lemma message_defaults_get: "Context_Get message_defaults n = (if n = ''json'' then ''false'' else [])"
  by (simp add: message_defaults_def message_send_flags_def initial_value_def value_flag_def bool_flag_def Context_Get_def lookup_value_def)

lemma message_parse:
  assumes "\<forall>w\<in>set ws. message_word w"
  shows "Parse ws message_send_flags = Inr (ws, message_defaults)"
proof -
  have "parse_args message_send_flags (ws @ []) [] message_defaults = Inr (ws, message_defaults)"
    by (subst parse_plain_words) (use assms message_word_plain in auto)
  moreover have "filter (\<lambda>f. fl_Required f \<and> Q f) message_send_flags = []" for Q
    by (simp add: message_send_flags_def value_flag_def bool_flag_def)
  ultimately show ?thesis by (simp add: Parse_def message_defaults_def)
qed

definition sent_line :: "run_result \<times> Session \<times> 'w \<Rightarrow> line_result \<times> Session \<times> 'w" where
  "sent_line r = (case r of
     (RunOk, s, w) \<Rightarrow> (LineOk, s, w) | (RunExit, s, w) \<Rightarrow> (LineExit, s, w) | (RunErr e, s, w) \<Rightarrow> (LineErr (InCommand [''message'', ''send''] e), s, w))"

lemma message_send_listed: "([''message'', ''send''], message_send_command X) \<in> set (command_table X h)"
  unfolding command_table_def set_append by (rule UnI2, rule UnI2, rule UnI2, rule UnI1) simp

lemma message_send_found:
  assumes "buildRegistry X = Inr r"
  shows "Resolve r (''message'' # ''send'' # ws) = (Some (message_send_command X), 2, [''message'', ''send''])"
proof (rule shell_tree [OF assms])
  fix r0 assume found: "\<And>p c ws. (p, c) \<in> set (command_table X (run_help r0)) \<Longrightarrow> Resolve r (p @ ws) = (Some c, length p, p)"
  from found [OF message_send_listed, of ws] show ?thesis by simp
qed

lemma message_line:
  assumes "buildRegistry X = Inr r" "se_Aliases s ''message'' = None" "\<forall>w\<in>set (peer # ws). ascii w \<and> CHR 0x22 \<notin> set w" "''help'' \<notin> set (peer # ws)"
    and "Parse (peer # ws) message_send_flags = Inr (args, v)" "v ''help'' = None"
  shows "execute r (join_with CHR '' '' (map quote (''message'' # ''send'' # peer # ws))) s w = sent_line (run_op X plan_message_send args v s w)"
proof -
  have "SplitLine (join_with CHR '' '' (map quote (''message'' # ''send'' # peer # ws))) = Inr (''message'' # ''send'' # peer # ws)"
    by (rule quoted_words_survive) (use assms(3) in \<open>auto simp: ascii_def\<close>)
  moreover have "ToLower ''message'' = ''message''" by code_simp
  ultimately show ?thesis using assms message_send_found [OF assms(1)]
    by (simp add: execute_def ExpandAlias_def invoke_def message_send_command_def tf_def sent_line_def split: prod.splits run_result.splits)
qed

text \<open>
  C26.  A message typed to the unified shell with every word between double quotes is handed to the message
  operation as it was typed: for the session's identity and relay, to the typed peer, the words joined by blanks, if no word is
  \<open>help\<close>, the name of a parameter of the command, or starts with a dash.
\<close>

theorem message_typed_is_called:
  assumes "buildRegistry X = Inr r" "se_Aliases s ''message'' = None" "se_Identity s \<noteq> []" "\<forall>w\<in>set (peer # ws). message_word w"
  shows "execute r (join_with CHR '' '' (map quote (''message'' # ''send'' # peer # ws))) s w =
     sent_line (run_call X (se_JSON s) (OpMessageSend (se_Relay s) (se_Identity s) peer (joinWords ws) [] [] []) s w)"
proof -
  have "message_defaults ''help'' = None" by (simp add: message_defaults_def message_send_flags_def initial_value_def value_flag_def bool_flag_def)
  moreover have "\<not> Context_Bool message_defaults ''json''"
    by (simp add: message_defaults_def message_send_flags_def initial_value_def value_flag_def bool_flag_def Context_Bool_def)
  moreover have "''help'' \<notin> set (peer # ws)" "\<forall>w\<in>set (peer # ws). ascii w \<and> CHR 0x22 \<notin> set w"
    using assms(4) by (auto simp: message_word_def)
  ultimately show ?thesis
    using message_line [OF assms(1,2) _ _ message_parse [OF assms(4)]] assms(3)
    by (simp add: run_op_def plan_message_send_def as_identity_def identityOrSession_def message_defaults_get via_of_def Context_JSON_def)
qed

text \<open>
  Note.  A word of the text that is the name of a parameter is taken out of the message together with the word after
  it: the message is handed on without the two words, and with \<open>via\<close> it goes out over the transport the next word names.
\<close>

theorem message_words_swallowed:
  assumes "buildRegistry X = Inr r" "se_Aliases s ''message'' = None" "se_Identity s \<noteq> []" "\<forall>w\<in>set (peer # us @ x # vs). message_word w" "x \<noteq> []"
  shows "execute r (join_with CHR '' '' (map quote (''message'' # ''send'' # peer # us @ ''via'' # x # vs))) s w =
     sent_line (run_call X (se_JSON s) (OpMessageSend x (se_Identity s) peer (joinWords (us @ vs)) [] [] []) s w)"
proof -
  let ?v = "message_defaults(''via'' \<mapsto> x)"
  have plain: "\<forall>w\<in>set (peer # us). plain_word message_send_flags w" "\<forall>w\<in>set vs. plain_word message_send_flags w"
    using assms(4) message_word_plain by auto
  have via: "byName message_send_flags ''via'' = Some (value_flag ''via'')"
    by (simp add: message_send_flags_def byName_def value_flag_def bool_flag_def)
  have "parse_args message_send_flags ((peer # us) @ ''via'' # x # vs @ []) [] message_defaults = Inr (peer # us @ vs, ?v)"
    by (subst parse_plain_words [OF plain(1)])
      (simp add: via value_flag_def set_value_def parse_plain_words [OF plain(2), of "[]", simplified])
  moreover have "filter (\<lambda>f. fl_Required f \<and> Q f) message_send_flags = []" for Q
    by (simp add: message_send_flags_def value_flag_def bool_flag_def)
  ultimately have parse: "Parse (peer # us @ ''via'' # x # vs) message_send_flags = Inr (peer # us @ vs, ?v)"
    by (simp add: Parse_def message_defaults_def)
  have "message_defaults ''help'' = None" "\<not> Context_Bool ?v ''json''"
    by (simp_all add: message_defaults_def message_send_flags_def initial_value_def value_flag_def bool_flag_def Context_Bool_def)
  moreover have "Context_Get ?v n = (if n = ''via'' then x else if n = ''json'' then ''false'' else [])" for n
    using message_defaults_get [of n] by (simp add: Context_Get_def lookup_value_def)
  moreover have "''help'' \<notin> set (peer # us @ ''via'' # x # vs)" "\<forall>w\<in>set (peer # us @ ''via'' # x # vs). ascii w \<and> CHR 0x22 \<notin> set w"
    using assms(4) by (auto simp: message_word_def ascii_def)
  ultimately show ?thesis
    using message_line [OF assms(1,2) _ _ parse] assms(3,5)
    by (simp add: run_op_def plan_message_send_def as_identity_def identityOrSession_def via_of_def Context_JSON_def)
qed

subsection \<open>Concrete instances\<close>

definition toy_parts :: "(bytes list \<times> (nat \<Rightarrow> bytes option)) shell_parts" where
  "toy_parts = \<lparr>sp_prims = toy, sp_packets = toy_packets, sp_legacy = toy_json, sp_json = toy_codec, sp_transports = toy_relay,
     sp_router = (\<lambda>_. None), sp_object = (\<lambda>_. True), sp_dir = (\<lambda>_. [])\<rparr>"

abbreviation "toy_session \<equiv> NewSession\<lparr>se_Identity := ''alice'', se_Relay := ''relay''\<rparr>"

theorem shell_commands_found_witness:
  "\<exists>r. buildRegistry toy_parts = Inr r \<and>
     Resolve r [''message'', ''send'', ''bob'', ''hi''] = (Some (message_send_command toy_parts), 2, [''message'', ''send''])"
proof -
  obtain r r0 where r: "buildRegistry toy_parts = Inr r"
    and found: "\<forall>(p, c)\<in>set (command_table toy_parts (run_help r0)). \<forall>ws. Resolve r (p @ ws) = (Some c, length p, p)"
    using shell_commands_found [of toy_parts] by blast
  have "([''message'', ''send''], message_send_command toy_parts) \<in> set (command_table toy_parts (run_help r0))"
    by (rule message_send_listed)
  then have "Resolve r ([''message'', ''send''] @ [''bob'', ''hi'']) = (Some (message_send_command toy_parts), length [''message'', ''send''], [''message'', ''send''])"
    using found by blast
  then show ?thesis using r by simp
qed

theorem message_typed_is_called_witness:
  "\<exists>r. buildRegistry toy_parts = Inr r \<and>
     (\<forall>w. execute r (join_with CHR '' '' (map quote [''message'', ''send'', ''bob'', ''Hi'', ''there''])) toy_session w =
        sent_line (run_call toy_parts False (OpMessageSend ''relay'' ''alice'' ''bob'' ''Hi there'' [] [] []) toy_session w))"
proof -
  obtain r where r: "buildRegistry toy_parts = Inr r" using shell_registry by blast
  have "\<forall>w\<in>set [''bob'', ''Hi'', ''there'']. message_word w" by (simp add: message_word_def HasPrefix_def ascii_def)
  then show ?thesis using r message_typed_is_called [OF r, of toy_session "''bob''" "[''Hi'', ''there'']"]
    by (simp add: NewSession_def joinWords_def)
qed

theorem message_words_swallowed_witness:
  "\<exists>r. buildRegistry toy_parts = Inr r \<and>
     (\<forall>w. execute r (join_with CHR '' '' (map quote [''message'', ''send'', ''bob'', ''come'', ''via'', ''Rome'', ''soon''])) toy_session w =
        sent_line (run_call toy_parts False (OpMessageSend ''Rome'' ''alice'' ''bob'' ''come soon'' [] [] []) toy_session w))"
proof -
  obtain r where r: "buildRegistry toy_parts = Inr r" using shell_registry by blast
  have "\<forall>w\<in>set (''bob'' # [''come''] @ ''Rome'' # [''soon'']). message_word w" by (simp add: message_word_def HasPrefix_def ascii_def)
  then show ?thesis using r message_words_swallowed [OF r, of toy_session "''bob''" "[''come'']" "''Rome''" "[''soon'']"]
    by (simp add: NewSession_def joinWords_def)
qed

end
