(* ===== verification/Worker.thy ===== *)
theory Worker
  imports OfflineShell WorkerRelay
begin

text \<open>
  The worker transport (\<^verbatim>\<open>src/cmd/worker\<close>): the commands of the command line, each a process of its own that makes a new client of
  the relay, the commands of the transport menu, and the older line loop.  All of them drive the client, the receive path and
  the client of the worker relay.  What the network answers is the argument \<open>net\<close>, decoding JSON the argument \<open>J\<close>.
\<close>

subsection \<open>Input\<close>

datatype stdin_state = StdinBroken | StdinTerminal | StdinFails | StdinPiped bytes

record payload_io =
  pl_read :: "string \<Rightarrow> bytes option"
  pl_stdin :: stdin_state

datatype worker_error =
    WkEncoding string
  | WkFormat string
  | WkNoRouter
  | WkLoad client_error
  | WkPeer relay_error
  | WkReadFile
  | WkStdin
  | WkNoInput
  | WkDecode codec_error
  | WkClient client_error
  | WkRelay http_error
  | WkMismatch string string
  | WkEncode codec_error

definition validateEncoding :: "string \<Rightarrow> bool" where
  "validateEncoding enc \<longleftrightarrow> enc = EncodingRaw \<or> enc = ''b64'' \<or> enc = ''hex''"

definition validateFormat :: "string \<Rightarrow> bool" where
  "validateFormat fmt \<longleftrightarrow> fmt = ''human'' \<or> fmt = ''json''"

definition readPayload :: "payload_io \<Rightarrow> string \<Rightarrow> string \<Rightarrow> string \<Rightarrow> worker_error + bytes" where
  "readPayload io inline inputFile inputEncoding =
     (case (if inputFile \<noteq> [] then (case pl_read io inputFile of None \<Rightarrow> Inl WkReadFile | Some b \<Rightarrow> Inr b)
            else if inline \<noteq> [] then Inr (to_bytes inline)
            else case pl_stdin io of
              StdinBroken \<Rightarrow> Inl WkStdin
            | StdinTerminal \<Rightarrow> Inl WkNoInput
            | StdinFails \<Rightarrow> Inl WkStdin
            | StdinPiped b \<Rightarrow> if b = [] then Inl WkNoInput else Inr b) of
        Inl e \<Rightarrow> Inl e
      | Inr raw \<Rightarrow> (case Codec_Decode inputEncoding raw of Inl e \<Rightarrow> Inl (WkDecode e) | Inr b \<Rightarrow> Inr b))"

text \<open>The inline form: an empty message is read from standard input.\<close>

definition worker_readInput :: "payload_io \<Rightarrow> string \<Rightarrow> worker_error + bytes" where
  "worker_readInput io message = readPayload io message [] EncodingRaw"

subsection \<open>The command line\<close>

text \<open>Every command makes a new client of the relay; \<open>None\<close> when it ends before.\<close>

definition worker_RunInit ::
  "prims \<Rightarrow> relay_network \<Rightarrow> relay_json \<Rightarrow> int \<Rightarrow> bytes \<Rightarrow> bytes \<Rightarrow> write_result \<Rightarrow> string \<Rightarrow> string \<Rightarrow> Clients.disk \<Rightarrow>
   (worker_error + string) \<times> Clients.disk \<times> RouterClient option" where
  "worker_RunInit P net J now privEd dilCoins wr url fmt d =
     (if \<not> validateFormat fmt then (Inl (WkFormat fmt), d, None)
      else case Adapter_New url of
        None \<Rightarrow> (Inl WkNoRouter, d, None)
      | Some rc \<Rightarrow>
          let cl = NewClient P privEd dilCoins wr d in
          (case Adapter_Register P net J now (k_idPriv (cl_keys cl)) rc of
             (Inl e, rc') \<Rightarrow> (Inl (WkRelay e), files cl, Some rc')
           | (Inr pubHex, rc') \<Rightarrow>
               let expected = hex_encode (k_idPub (cl_keys cl)) in
               (if expected \<noteq> pubHex then Inl (WkMismatch expected pubHex) else Inr (cl_Id cl), files cl, Some rc')))"

definition RunConnect ::
  "prims \<Rightarrow> relay_network \<Rightarrow> relay_json \<Rightarrow> int \<Rightarrow> coins \<Rightarrow> bytes \<Rightarrow> write_result \<Rightarrow> string \<Rightarrow> string \<Rightarrow> string \<Rightarrow> string \<Rightarrow> Clients.disk \<Rightarrow>
   (worker_error + unit) \<times> Clients.disk \<times> RouterClient option" where
  "RunConnect P net J now cs oid wr url localPeer remotePeer fmt d =
     (if \<not> validateFormat fmt then (Inl (WkFormat fmt), d, None)
      else case PeerIDToEd25519Pub P remotePeer of
        Inl e \<Rightarrow> (Inl (WkPeer e), d, None)
      | Inr pub \<Rightarrow>
          (case Adapter_New url of
             None \<Rightarrow> (Inl WkNoRouter, d, None)
           | Some rc \<Rightarrow>
               (case LoadClient localPeer d of
                  Inl e \<Rightarrow> (Inl (WkLoad e), d, Some rc)
                | Inr cl \<Rightarrow>
                    (case Client_CreateOffer P cs oid wr remotePeer cl of
                       (Inl e, cl') \<Rightarrow> (Inl (WkClient e), files cl', Some rc)
                     | (Inr offer, cl') \<Rightarrow>
                         (case SendEnvelope P net J now (k_idPriv (cl_keys cl')) pub TypeOffer offer rc of
                            (Inl e, rc') \<Rightarrow> (Inl (WkRelay e), files cl', Some rc')
                          | (Inr _, rc') \<Rightarrow> (Inr (), files cl', Some rc'))))))"

text \<open>The result of \<^verbatim>\<open>encrypt\<close>: the encoded ciphertext (shown in JSON only).\<close>

definition worker_RunEncrypt ::
  "prims \<Rightarrow> relay_network \<Rightarrow> relay_json \<Rightarrow> int \<Rightarrow> bytes \<Rightarrow> payload_io \<Rightarrow> write_result \<Rightarrow> string \<Rightarrow> string \<Rightarrow> string \<Rightarrow> string \<Rightarrow> string \<Rightarrow>
   string \<Rightarrow> string \<Rightarrow> string \<Rightarrow> Clients.disk \<Rightarrow> (worker_error + string) \<times> Clients.disk \<times> RouterClient option" where
  "worker_RunEncrypt P net J now rnd io wr url localPeer remotePeer message inputFile inputEncoding outputEncoding fmt d =
     (if \<not> validateEncoding inputEncoding then (Inl (WkEncoding inputEncoding), d, None)
      else if \<not> validateEncoding outputEncoding then (Inl (WkEncoding outputEncoding), d, None)
      else if \<not> validateFormat fmt then (Inl (WkFormat fmt), d, None)
      else case Adapter_New url of
        None \<Rightarrow> (Inl WkNoRouter, d, None)
      | Some rc \<Rightarrow>
          (case LoadClient localPeer d of
             Inl e \<Rightarrow> (Inl (WkLoad e), d, Some rc)
           | Inr cl \<Rightarrow>
               (case PeerIDToEd25519Pub P remotePeer of
                  Inl e \<Rightarrow> (Inl (WkPeer e), d, Some rc)
                | Inr pub \<Rightarrow>
                    (case readPayload io message inputFile inputEncoding of
                       Inl e \<Rightarrow> (Inl e, d, Some rc)
                     | Inr plaintext \<Rightarrow>
                         (case Client_Encrypt P rnd wr remotePeer plaintext cl of
                            (Inl e, cl') \<Rightarrow> (Inl (WkClient e), files cl', Some rc)
                          | (Inr cipher, cl') \<Rightarrow>
                              (case SendEnvelope P net J now (k_idPriv (cl_keys cl')) pub TypeMessage cipher rc of
                                 (Inl e, rc') \<Rightarrow> (Inl (WkRelay e), files cl', Some rc')
                               | (Inr _, rc') \<Rightarrow>
                                   (case Codec_Encode outputEncoding cipher of Inl e \<Rightarrow> Inl (WkEncode e) | Inr b \<Rightarrow> Inr (to_str b),
                                    files cl', Some rc')))))))"

record ListenAction =
  la_Type :: string
  la_Peer :: string

record ListenEvent =
  le_Type :: string
  le_Peer :: string
  le_Sender :: string
  le_Encoding :: string
  le_Message :: string
  le_Context :: string
  le_Actions :: "ListenAction list"

definition listen_event :: "Event \<Rightarrow> ListenEvent" where
  "listen_event ev =
     \<lparr>le_Type = ev_Type ev, le_Peer = ev_Peer ev, le_Sender = ev_Sender ev, le_Encoding = ev_Encoding ev, le_Message = ev_Message ev,
      le_Context = ev_Context ev, le_Actions = map (\<lambda>a. \<lparr>la_Type = ac_Type a, la_Peer = ac_Peer a\<rparr>) (ev_Actions ev)\<rparr>"

datatype listen_entry = Listened ListenEvent | ListenFailed dispatch_error

text \<open>
  One frame with the reply it may cause.  The reply does not depend on whether the relay takes it, so it is computed first, sent,
  and the frame is processed with the outcome.  The client is handed over by value; the copy shares the session table and the
  objects in it, which are all that the receive path changes.
\<close>

definition reply_over ::
  "prims \<Rightarrow> packets \<Rightarrow> legacy_json \<Rightarrow> 'c ContextStore \<Rightarrow> relay_network \<Rightarrow> relay_json \<Rightarrow> int \<Rightarrow> bytes \<Rightarrow> frame_io \<Rightarrow> bytes \<Rightarrow>
   ('c, 'd) Deps \<Rightarrow> RouterClient \<Rightarrow> (outcome \<times> ('c, 'd) Deps) \<times> RouterClient" where
  "reply_over P K L S net J now priv io body d rc =
     (let run = (\<lambda>ok. DispatchFrame P K L S (io\<lparr>fi_reply := Some ok\<rparr>) body d) in
      case drop (length (dp_sent d)) (dp_sent (snd (run True))) of
        [] \<Rightarrow> (run True, rc)
      | (pub, ty, payload) # _ \<Rightarrow>
          (case SendEnvelope P net J now priv pub ty payload rc of
             (r, rc') \<Rightarrow> (run (\<not> isl r), rc')))"

definition worker_dispatch where
  "worker_dispatch P K L S net J now priv io body d rc =
     (case reply_over P K L S net J now priv io body d rc of
        ((r, d'), rc') \<Rightarrow>
          (case r of (_, Some e) \<Rightarrow> [ListenFailed e] | (None, None) \<Rightarrow> [] | (Some ev, None) \<Rightarrow> [Listened (listen_event ev)], d', rc'))"

fun listen_all where
  "listen_all P K L S net J now priv [] d rc = ([], d, rc)"
| "listen_all P K L S net J now priv ((io, body) # rest) d rc =
     (case worker_dispatch P K L S net J now priv io body d rc of
        (es, d1, rc1) \<Rightarrow>
          (case listen_all P K L S net J now priv rest d1 rc1 of
             (es', d2, rc2) \<Rightarrow> (es @ es', d2, rc2)))"

text \<open>Stores that cannot be opened are left out or kept in memory.\<close>

definition newListenDeps :: "prims \<Rightarrow> packets \<Rightarrow> cli_world \<Rightarrow> Client \<Rightarrow> opened" where
  "newListenDeps P K w cl =
     (case Mailbox_Load P K (cw_threads w) (snd (snd (cw_migrate w))) (cl_Id cl) (cw_disk w) of
        (r, fs) \<Rightarrow>
          let box = (case r of Inl _ \<Rightarrow> None | Inr mb \<Rightarrow> Some mb) in
          (case open_stores P K (cl_Id cl) (w\<lparr>cw_disk := fs\<rparr>) of
             Inl _ \<Rightarrow> InMemory \<lparr>dp_Client = cl, dp_Mailbox = box, dp_disk = fs,
               dp_Fanout = Some (NewFanout cl True NewMemoryContextStore NewMemoryDeliveryStore DefaultFanoutConfig []), dp_sent = []\<rparr>
           | Inr (ctxStore, dlvStore) \<Rightarrow> OnFiles \<lparr>dp_Client = cl, dp_Mailbox = box, dp_disk = fs,
               dp_Fanout = Some (NewFanout cl True ctxStore dlvStore DefaultFanoutConfig []), dp_sent = []\<rparr>))"

definition RunListen ::
  "prims \<Rightarrow> packets \<Rightarrow> legacy_json \<Rightarrow> relay_network \<Rightarrow> relay_json \<Rightarrow> int \<Rightarrow> (nat \<Rightarrow> frame_io) \<Rightarrow> string \<Rightarrow> string \<Rightarrow> string \<Rightarrow> cli_world \<Rightarrow>
   (worker_error + listen_entry list) \<times> opened option \<times> RouterClient option" where
  "RunListen P K L net J now ios url localPeer fmt w =
     (if \<not> validateFormat fmt then (Inl (WkFormat fmt), None, None)
      else case Adapter_New url of
        None \<Rightarrow> (Inl WkNoRouter, None, None)
      | Some rc \<Rightarrow>
          (case LoadClient localPeer (cw_clients w) of
             Inl e \<Rightarrow> (Inl (WkLoad e), None, Some rc)
           | Inr cl \<Rightarrow>
               let deps = newListenDeps P K w cl; priv = k_idPriv (cl_keys cl) in
               (case Adapter_Receive P net J now priv rc of
                  (Inl e, rc1) \<Rightarrow> (Inl (WkRelay e), Some deps, Some rc1)
                | (Inr msgs, rc1) \<Rightarrow>
                    let batch = zip (map ios [0..<length msgs]) msgs in
                    (case deps of
                       OnFiles d \<Rightarrow>
                         (case listen_all P K L (FileContexts P K) net J now priv batch d rc1 of
                            (es, d', rc2) \<Rightarrow> (Inr es, Some (OnFiles d'), Some rc2))
                     | InMemory d \<Rightarrow>
                         (case listen_all P K L MemoryContexts net J now priv batch d rc1 of
                            (es, d', rc2) \<Rightarrow> (Inr es, Some (InMemory d'), Some rc2))))))"

text \<open>The identity files and the store after a run.\<close>

definition opened_client :: "opened \<Rightarrow> Client" where
  "opened_client x = (case x of OnFiles d \<Rightarrow> dp_Client d | InMemory d \<Rightarrow> dp_Client d)"

definition opened_box :: "opened \<Rightarrow> threads option" where
  "opened_box x = (case x of OnFiles d \<Rightarrow> dp_Mailbox d | InMemory d \<Rightarrow> dp_Mailbox d)"

subsection \<open>Completion of local identities\<close>

definition storeFileSuffixes :: "string list" where
  "storeFileSuffixes = [''.mailbox'', ''.contexts'', ''.policies'', ''.deliveries'']"

text \<open>The entries of the working directory: a name and whether it is a directory; \<open>None\<close> if it cannot be read.\<close>

definition localIDCandidates :: "(string \<times> bool) list option \<Rightarrow> string list" where
  "localIDCandidates entries =
     (case entries of
        None \<Rightarrow> []
      | Some es \<Rightarrow>
          sort (filter (\<lambda>n. n \<noteq> ''contacts'' \<and> \<not> list_ex (\<lambda>s. suffix s n) storeFileSuffixes)
            (map (\<lambda>(n, _). take (length n - 5) n) (filter (\<lambda>(n, dir). \<not> dir \<and> suffix ''.json'' n) es))))"

definition completeLocalID :: "(string \<times> bool) list option \<Rightarrow> string \<Rightarrow> string list" where
  "completeLocalID entries toComplete = filter (\<lambda>c. HasPrefix c toComplete) (localIDCandidates entries)"

end
