(* ===== verification/WorkerShell.thy ===== *)
theory WorkerShell
  imports Worker
begin

text \<open>
  The worker transport in the shells: the commands of the transport menu (\<^verbatim>\<open>src/cmd/worker/register.go\<close>) and the older line loop
  (\<^verbatim>\<open>RunWorker\<close> of \<^verbatim>\<open>worker.go\<close>).  The state is the one of the offline menu with the client of the relay.
\<close>

subsection \<open>The transport menu\<close>

record wk_shell =
  wk_off :: off_shell
  wk_relay :: "RouterClient option"

record wk_env = off_env +
  we_net :: relay_network
  we_json :: relay_json
  we_now :: int
  we_frames :: "nat \<Rightarrow> frame_io"
  we_payload :: payload_io
  we_url :: string

datatype wk_shown =
    WkChat off_shown
  | WkNeedIdentity
  | WkUsage string
  | WkIdentity string "http_error + bool"      \<comment> \<open>the registration failed, or whether the keys agree\<close>
  | WkLoadFailed client_error
  | WkLoaded string "http_error option"
  | WkPeerUnknown peer_error
  | WkFailed string client_error
  | WkBadPeer relay_error
  | WkBadInput worker_error
  | WkSendFailed http_error
  | WkOffered string
  | WkReceiveFailed http_error
  | WkEmpty
  | WkEvents "(dispatch_error + Event) list"
  | WkNoMailbox
  | WkSent string bool                          \<comment> \<open>whether it was recorded\<close>
  | WkPeers "string list"
  | WkHelp
  | WkLeave
  | WkUnknown
  | WkCrash

definition wk_active :: "wk_shell \<Rightarrow> Client option" where
  "wk_active q = ActiveClient (os_State (wk_off q))"

text \<open>\<^verbatim>\<open>InitMailbox\<close> and \<^verbatim>\<open>InitFanout\<close>.\<close>

definition reopen_box :: "prims \<Rightarrow> packets \<Rightarrow> off_env \<Rightarrow> off_shell \<Rightarrow> off_shell" where
  "reopen_box P K e q =
     (case InitMailbox P K (oe_threads e) (snd (snd (oe_migrate e))) (os_State q) (os_fs q) of
        (s, fs) \<Rightarrow> q\<lparr>os_State := s, os_fs := fs, os_box := (case ActiveClient s of None \<Rightarrow> os_box q | Some cl \<Rightarrow> cl_Id cl)\<rparr>)"

definition reopen :: "prims \<Rightarrow> packets \<Rightarrow> off_env \<Rightarrow> off_shell \<Rightarrow> off_shell" where
  "reopen P K e q = (let q1 = reopen_box P K e q in on_state (\<lambda>s. open_fanout P K e s (os_fs q1)) q1)"

definition Worker_Init :: "prims \<Rightarrow> packets \<Rightarrow> wk_env \<Rightarrow> wk_shell \<Rightarrow> wk_shell option" where
  "Worker_Init P K e q =
     (let e0 = off_env.truncate e;
          start = (\<lambda>rc. q\<lparr>wk_off := reopen P K e0 (on_state (\<lambda>s. s\<lparr>st_relay := True\<rparr>) (wk_off q)), wk_relay := Some rc\<rparr>) in
      case wk_relay q of
        Some rc \<Rightarrow> Some (start rc)
      | None \<Rightarrow> (case Adapter_New (we_url e) of None \<Rightarrow> None | Some rc \<Rightarrow> Some (start rc)))"

definition wk_init :: "prims \<Rightarrow> packets \<Rightarrow> wk_env \<Rightarrow> RouterClient \<Rightarrow> wk_shell \<Rightarrow> wk_shown \<times> wk_shell" where
  "wk_init P K e rc q =
     (let cl = NewClient P (fst (oe_new e)) (snd (oe_new e)) (oe_write e) (os_clients (wk_off q)) in
      case Adapter_Register P (we_net e) (we_json e) (we_now e) (k_idPriv (cl_keys cl)) rc of
        (r, rc') \<Rightarrow>
          (WkIdentity (cl_Id cl) (case r of Inl x \<Rightarrow> Inl x | Inr pubHex \<Rightarrow> Inr (pubHex = hex_encode (k_idPub (cl_keys cl)))),
           q\<lparr>wk_off := reopen P K (off_env.truncate e) (client_did cl (wk_off q)), wk_relay := Some rc'\<rparr>))"

definition wk_load :: "prims \<Rightarrow> packets \<Rightarrow> wk_env \<Rightarrow> string list \<Rightarrow> RouterClient \<Rightarrow> wk_shell \<Rightarrow> wk_shown \<times> wk_shell" where
  "wk_load P K e args rc q =
     (case args of
        [] \<Rightarrow> (WkUsage ''load'', q)
      | a # _ \<Rightarrow>
          (case LoadClient a (os_clients (wk_off q)) of
             Inl x \<Rightarrow> (WkLoadFailed x, q)
           | Inr cl \<Rightarrow>
               (case Adapter_Register P (we_net e) (we_json e) (we_now e) (k_idPriv (cl_keys cl)) rc of
                  (r, rc') \<Rightarrow>
                    (WkLoaded (cl_Id cl) (case r of Inl x \<Rightarrow> Some x | Inr _ \<Rightarrow> None),
                     q\<lparr>wk_off := reopen P K (off_env.truncate e) (on_state (\<lambda>s. SyncPeersFromClient (s\<lparr>ActiveClient := Some cl\<rparr>)) (wk_off q)),
                       wk_relay := Some rc'\<rparr>))))"

definition wk_client :: "Client \<Rightarrow> wk_shell \<Rightarrow> wk_shell" where
  "wk_client cl q = q\<lparr>wk_off := client_did cl (wk_off q)\<rparr>"

definition wk_state :: "(State \<Rightarrow> State) \<Rightarrow> wk_shell \<Rightarrow> wk_shell" where
  "wk_state f q = q\<lparr>wk_off := on_state f (wk_off q)\<rparr>"

definition wk_connect :: "prims \<Rightarrow> wk_env \<Rightarrow> string list \<Rightarrow> RouterClient \<Rightarrow> wk_shell \<Rightarrow> wk_shown \<times> wk_shell" where
  "wk_connect P e args rc q =
     (case (wk_active q, args) of
        (None, _) \<Rightarrow> (WkNeedIdentity, q)
      | (Some _, []) \<Rightarrow> (WkUsage ''connect'', q)
      | (Some cl, a # _) \<Rightarrow>
          (case ResolvePeer (oe_book e) a (os_State (wk_off q)) of
             Inl x \<Rightarrow> (WkPeerUnknown x, q)
           | Inr peerID \<Rightarrow>
               (case Client_CreateOffer P (oe_coins e) (oe_oid e) (oe_write e) peerID cl of
                  (Inl x, cl') \<Rightarrow> (WkFailed ''offer'' x, wk_client cl' q)
                | (Inr offer, cl') \<Rightarrow>
                    (case PeerIDToEd25519Pub P peerID of
                       Inl x \<Rightarrow> (WkBadPeer x, wk_client cl' q)
                     | Inr pub \<Rightarrow>
                         (case SendEnvelope P (we_net e) (we_json e) (we_now e) (k_idPriv (cl_keys cl')) pub TypeOffer offer rc of
                            (Inl x, rc') \<Rightarrow> (WkSendFailed x, (wk_client cl' q)\<lparr>wk_relay := Some rc'\<rparr>)
                          | (Inr _, rc') \<Rightarrow> (WkOffered peerID, wk_state (State_RememberPeer peerID) ((wk_client cl' q)\<lparr>wk_relay := Some rc'\<rparr>)))))))"

text \<open>One frame in the shell; what it shows is the event, its error, or nothing for a delivery that was shown before.\<close>

definition shown_outcome :: "outcome \<Rightarrow> (dispatch_error + Event) list" where
  "shown_outcome r = (case r of (_, Some e) \<Rightarrow> [Inl e] | (None, None) \<Rightarrow> [] | (Some ev, None) \<Rightarrow> [Inr ev])"

definition heard :: "outcome \<Rightarrow> State \<Rightarrow> State" where
  "heard r s =
     (case r of
        (Some ev, None) \<Rightarrow>
          if ev_Type ev = ''offer'' \<or> ev_Type ev = ''answer'' then State_RememberPeer (ev_Peer ev) s
          else if ev_Type ev = ''message'' \<or> ev_Type ev = ''group_message'' then State_RememberPeer (ev_Sender ev) s
          else s
      | _ \<Rightarrow> s)"

definition dispatchGUIFrame ::
  "prims \<Rightarrow> packets \<Rightarrow> legacy_json \<Rightarrow> wk_env \<Rightarrow> frame_io \<Rightarrow> bytes \<Rightarrow> off_shell \<times> RouterClient \<Rightarrow> (dispatch_error + Event) list \<times> off_shell \<times> RouterClient" where
  "dispatchGUIFrame P K L e io body x =
     (case x of (q, rc) \<Rightarrow>
        (case ActiveClient (os_State q) of
           None \<Rightarrow> ([], q, rc)
         | Some cl \<Rightarrow>
             let s = os_State q; priv = k_idPriv (cl_keys cl) in
             (case st_Fanout s of
                Some (MemoryFan f) \<Rightarrow>
                  (case reply_over P K L MemoryContexts (we_net e) (we_json e) (we_now e) priv io body
                          \<lparr>dp_Client = cl, dp_Mailbox = MailboxStore s, dp_disk = os_fs q, dp_Fanout = Some f, dp_sent = []\<rparr> rc of
                     ((r, d), rc') \<Rightarrow>
                       (shown_outcome r,
                        q\<lparr>os_State := heard r (s\<lparr>ActiveClient := Some (dp_Client d), MailboxStore := dp_Mailbox d, st_Fanout := map_option MemoryFan (dp_Fanout d)\<rparr>),
                          os_clients := files (dp_Client d), os_fs := dp_disk d\<rparr>, rc'))
              | Some (FileFan f) \<Rightarrow>
                  (case reply_over P K L (FileContexts P K) (we_net e) (we_json e) (we_now e) priv io body
                          \<lparr>dp_Client = cl, dp_Mailbox = MailboxStore s, dp_disk = os_fs q, dp_Fanout = Some f, dp_sent = []\<rparr> rc of
                     ((r, d), rc') \<Rightarrow>
                       (shown_outcome r,
                        q\<lparr>os_State := heard r (s\<lparr>ActiveClient := Some (dp_Client d), MailboxStore := dp_Mailbox d, st_Fanout := map_option FileFan (dp_Fanout d)\<rparr>),
                          os_clients := files (dp_Client d), os_fs := dp_disk d\<rparr>, rc'))
              | None \<Rightarrow>
                  (case reply_over P K L (FileContexts P K) (we_net e) (we_json e) (we_now e) priv io body
                          (\<lparr>dp_Client = cl, dp_Mailbox = MailboxStore s, dp_disk = os_fs q, dp_Fanout = None, dp_sent = []\<rparr>
                             :: (FileContextStore, FileDeliveryStore) Deps) rc of
                     ((r, d), rc') \<Rightarrow>
                       (shown_outcome r,
                        q\<lparr>os_State := heard r (s\<lparr>ActiveClient := Some (dp_Client d), MailboxStore := dp_Mailbox d\<rparr>),
                          os_clients := files (dp_Client d), os_fs := dp_disk d\<rparr>, rc')))))"

fun dispatch_gui_all where
  "dispatch_gui_all P K L e [] x = ([], x)"
| "dispatch_gui_all P K L e ((io, body) # rest) x =
     (case dispatchGUIFrame P K L e io body x of
        (es, x1) \<Rightarrow> (case dispatch_gui_all P K L e rest x1 of (es', x2) \<Rightarrow> (es @ es', x2)))"

definition wk_listen :: "prims \<Rightarrow> packets \<Rightarrow> legacy_json \<Rightarrow> wk_env \<Rightarrow> RouterClient \<Rightarrow> wk_shell \<Rightarrow> wk_shown \<times> wk_shell" where
  "wk_listen P K L e rc q =
     (case wk_active q of
        None \<Rightarrow> (WkNeedIdentity, q)
      | Some cl \<Rightarrow>
          (case Adapter_Receive P (we_net e) (we_json e) (we_now e) (k_idPriv (cl_keys cl)) rc of
             (Inl x, rc') \<Rightarrow> (WkReceiveFailed x, q\<lparr>wk_relay := Some rc'\<rparr>)
           | (Inr msgs, rc') \<Rightarrow>
               if msgs = [] then (WkEmpty, q\<lparr>wk_relay := Some rc'\<rparr>)
               else (case dispatch_gui_all P K L e (zip (map (we_frames e) [0..<length msgs]) msgs) (wk_off q, rc') of
                       (es, q', rc2) \<Rightarrow> (WkEvents es, q\<lparr>wk_off := q', wk_relay := Some rc2\<rparr>))))"

text \<open>What is recorded of a message that was sent is the typed text.\<close>

definition wk_record :: "prims \<Rightarrow> packets \<Rightarrow> wk_env \<Rightarrow> string \<Rightarrow> string \<Rightarrow> wk_shell \<Rightarrow> wk_shown \<times> wk_shell" where
  "wk_record P K e peer message q =
     (let o1 = (if MailboxStore (os_State (wk_off q)) = None then reopen_box P K (off_env.truncate e) (wk_off q) else wk_off q) in
      case MailboxStore (os_State o1) of
        None \<Rightarrow> (WkNoMailbox, q\<lparr>wk_off := o1\<rparr>)
      | Some mb \<Rightarrow>
          (case AppendOutgoing P K (fi_save (oe_frame e)) (fi_clock (oe_frame e)) (fileFor (os_box o1)) peer message (mb, os_fs o1) of
             (err, mb', fs') \<Rightarrow>
               (WkSent peer (err = None),
                q\<lparr>wk_off := o1\<lparr>os_State := State_RememberPeer peer ((os_State o1)\<lparr>MailboxStore := Some mb'\<rparr>), os_fs := fs'\<rparr>\<rparr>)))"

definition wk_send :: "prims \<Rightarrow> packets \<Rightarrow> wk_env \<Rightarrow> string list \<Rightarrow> RouterClient \<Rightarrow> wk_shell \<Rightarrow> wk_shown \<times> wk_shell" where
  "wk_send P K e args rc q =
     (case (wk_active q, args) of
        (None, _) \<Rightarrow> (WkNeedIdentity, q)
      | (Some cl, a # w # ws) \<Rightarrow>
          (case ResolvePeer (oe_book e) a (os_State (wk_off q)) of
             Inl x \<Rightarrow> (WkPeerUnknown x, q)
           | Inr peer \<Rightarrow>
               let message = words (w # ws) in
               (case worker_readInput (we_payload e) message of
                  Inl x \<Rightarrow> (WkBadInput x, q)
                | Inr plaintext \<Rightarrow>
                    (case Client_Encrypt P (oe_rnd e) (oe_write e) peer plaintext cl of
                       (Inl x, cl') \<Rightarrow> (WkFailed ''encrypt'' x, wk_client cl' q)
                     | (Inr cipher, cl') \<Rightarrow>
                         (case PeerIDToEd25519Pub P peer of
                            Inl x \<Rightarrow> (WkBadPeer x, wk_client cl' q)
                          | Inr pub \<Rightarrow>
                              (case SendEnvelope P (we_net e) (we_json e) (we_now e) (k_idPriv (cl_keys cl')) pub TypeMessage cipher rc of
                                 (Inl x, rc') \<Rightarrow> (WkSendFailed x, (wk_client cl' q)\<lparr>wk_relay := Some rc'\<rparr>)
                               | (Inr _, rc') \<Rightarrow> wk_record P K e peer message ((wk_client cl' q)\<lparr>wk_relay := Some rc'\<rparr>))))))
      | _ \<Rightarrow> (WkUsage ''send'', q))"

text \<open>A relay that was never made would be a nil pointer.\<close>

definition with_relay :: "(RouterClient \<Rightarrow> wk_shell \<Rightarrow> wk_shown \<times> wk_shell) \<Rightarrow> wk_shell \<Rightarrow> wk_shown \<times> wk_shell" where
  "with_relay f q = (case wk_relay q of None \<Rightarrow> (WkCrash, q) | Some rc \<Rightarrow> f rc q)"

definition Worker_Execute ::
  "prims \<Rightarrow> packets \<Rightarrow> legacy_json \<Rightarrow> wk_env \<Rightarrow> string \<Rightarrow> string list \<Rightarrow> wk_shell \<Rightarrow> wk_shown \<times> wk_shell" where
  "Worker_Execute P K L e cmd args q0 =
     (let q = q0\<lparr>wk_off := on_state (see_files (os_clients (wk_off q0))) (wk_off q0)\<rparr> in
      if Handles cmd then
        (case off_chat P K (off_env.truncate e) cmd args (wk_off q) of (out, q') \<Rightarrow> (WkChat out, q\<lparr>wk_off := q'\<rparr>))
      else if cmd = ''init'' then with_relay (wk_init P K e) q
      else if cmd = ''load'' then with_relay (wk_load P K e args) q
      else if cmd = ''connect'' then with_relay (wk_connect P e args) q
      else if cmd = ''listen'' then with_relay (wk_listen P K L e) q
      else if cmd = ''send'' \<or> cmd = ''encrypt'' then with_relay (wk_send P K e args) q
      else if cmd = ''peers'' then (WkPeers (PeerCandidates (oe_book e) (os_State (wk_off q))), q)
      else if cmd = ''help'' then (WkHelp, q)
      else if cmd = ''switch'' \<or> cmd = ''exit'' then (WkLeave, q)
      else (WkUnknown, q))"

definition Worker_Commands :: "CommandSpec list" where
  "Worker_Commands =
     [(spec ''init'')\<lparr>sp_Help := ''Generate a new identity & register with the relay''\<rparr>,
      IdentityCommand ''Load an existing local identity (Tab lists ./<id>.json files)'',
      (spec ''connect'')\<lparr>sp_Args := [ArgPeer], sp_Usage := ''connect <peer>'', sp_Help := ''Initiate a handshake (Tab completes peers/contacts; prefix ok)''\<rparr>,
      (spec ''listen'')\<lparr>sp_Help := ''Poll the inbox & process offers/answers/messages''\<rparr>,
      (MessageCommand ''send'' [''encrypt''])\<lparr>sp_Help := ''Encrypt and dispatch a message''\<rparr>,
      PeersCommand] @ Chat_Specs @ BaseCommands"

definition decodePlaintext :: "bytes \<Rightarrow> string" where
  "decodePlaintext pt = (if utf8_valid pt then to_str pt else b64_encode pt)"

subsection \<open>The line loop\<close>

record ChatMessage =
  cg_Body :: string
  cg_IsRead :: bool

record wk_repl =
  wr_client :: "Client option"
  wr_clients :: Clients.disk
  wr_mailbox :: "string \<rightharpoonup> ChatMessage list"
  wr_relay :: RouterClient

text \<open>What one line meets; \<open>wl_order\<close> is the order in which the keys of the mailbox are visited.\<close>

record wk_line =
  wl_net :: relay_network
  wl_now :: int
  wl_new :: "bytes \<times> bytes"
  wl_coins :: "nat \<Rightarrow> coins"
  wl_kem :: "nat \<Rightarrow> bytes"
  wl_oid :: bytes
  wl_rnd :: bytes
  wl_write :: write_result
  wl_payload :: payload_io
  wl_order :: "string list"

datatype line_shown =
    LnIdentity string "http_error + string"
  | LnUsage string
  | LnLoadFailed client_error
  | LnLoaded string "http_error option"
  | LnNeedIdentity
  | LnFailed string client_error
  | LnBadPeer relay_error
  | LnSendFailed http_error
  | LnOffered string
  | LnReceiveFailed http_error
  | LnEmpty
  | LnListened "line_shown list"
  | LnBadOffer decode_error
  | LnAnswered string
  | LnEstablished string
  | LnMessage string
  | LnBadInput worker_error
  | LnSent string
  | LnBoxes "(string \<times> nat) list"
  | LnNoMessages string
  | LnMessages string "ChatMessage list"
  | LnHelp
  | LnLeave
  | LnUnknown

definition wr_did :: "Client \<Rightarrow> wk_repl \<Rightarrow> wk_repl" where
  "wr_did cl r = r\<lparr>wr_client := Some cl, wr_clients := files cl\<rparr>"

definition prepend :: "string \<Rightarrow> ChatMessage \<Rightarrow> wk_repl \<Rightarrow> wk_repl" where
  "prepend peer m r = r\<lparr>wr_mailbox := (wr_mailbox r)(peer \<mapsto> m # (case wr_mailbox r peer of None \<Rightarrow> [] | Some ms \<Rightarrow> ms))\<rparr>"

text \<open>One frame of \<^verbatim>\<open>listen\<close>; a frame that cannot be taken apart or of another type is passed over in silence.\<close>

definition line_frame ::
  "prims \<Rightarrow> legacy_json \<Rightarrow> relay_json \<Rightarrow> wk_line \<Rightarrow> nat \<Rightarrow> bytes \<Rightarrow> Client \<Rightarrow> wk_repl \<Rightarrow> line_shown list \<times> wk_repl" where
  "line_frame P L J e i body cl r =
     (case UnwrapEnvelope body of
        Inl _ \<Rightarrow> ([], r)
      | Inr (t, data) \<Rightarrow>
          if t = TypeOffer then
            (case decodeOffer P L data of
               Inl x \<Rightarrow> ([LnBadOffer x], r)
             | Inr offer \<Rightarrow>
                 (case Client_AcceptOffer P L (wl_coins e i) (wl_kem e i) (wl_write e) data cl of
                    (Inl x, cl') \<Rightarrow> ([LnFailed ''accept'' x], wr_did cl' r)
                  | (Inr answer, cl') \<Rightarrow>
                      (case PeerIDToEd25519Pub P (o_SenderId offer) of
                         Inl x \<Rightarrow> ([LnBadPeer x], wr_did cl' r)
                       | Inr pub \<Rightarrow>
                           (case SendEnvelope P (wl_net e) J (wl_now e) (k_idPriv (cl_keys cl')) pub TypeAnswer answer (wr_relay r) of
                              (Inl x, rc) \<Rightarrow> ([LnSendFailed x], (wr_did cl' r)\<lparr>wr_relay := rc\<rparr>)
                            | (Inr _, rc) \<Rightarrow> ([LnAnswered (o_SenderId offer)], (wr_did cl' r)\<lparr>wr_relay := rc\<rparr>)))))
          else if t = TypeAnswer then
            (case Client_FinishHandshake P L (wl_write e) data cl of
               (Inl x, cl') \<Rightarrow> ([LnFailed ''finish'' x], wr_did cl' r)
             | (Inr peerID, cl') \<Rightarrow> ([LnEstablished peerID], wr_did cl' r))
          else if t = TypeMessage then
            (case Client_Decrypt P (wl_write e) data cl of
               (Inl x, cl') \<Rightarrow> ([LnFailed ''decrypt'' x], wr_did cl' r)
             | (Inr (senderID, pt), cl') \<Rightarrow> ([LnMessage senderID], prepend senderID \<lparr>cg_Body = to_str pt, cg_IsRead = False\<rparr> (wr_did cl' r)))
          else ([], r))"

fun line_frames where
  "line_frames P L J e i [] r = ([], r)"
| "line_frames P L J e i (body # rest) r =
     (case wr_client r of
        None \<Rightarrow> ([], r)
      | Some cl \<Rightarrow>
          (case line_frame P L J e i body cl r of
             (es, r1) \<Rightarrow> (case line_frames P L J e (Suc i) rest r1 of (es', r2) \<Rightarrow> (es @ es', r2))))"

definition line_listen :: "prims \<Rightarrow> legacy_json \<Rightarrow> relay_json \<Rightarrow> wk_line \<Rightarrow> wk_repl \<Rightarrow> line_shown \<times> wk_repl" where
  "line_listen P L J e r =
     (case wr_client r of
        None \<Rightarrow> (LnNeedIdentity, r)
      | Some cl \<Rightarrow>
          (case Adapter_Receive P (wl_net e) J (wl_now e) (k_idPriv (cl_keys cl)) (wr_relay r) of
             (Inl x, rc) \<Rightarrow> (LnReceiveFailed x, r\<lparr>wr_relay := rc\<rparr>)
           | (Inr msgs, rc) \<Rightarrow>
               if msgs = [] then (LnEmpty, r\<lparr>wr_relay := rc\<rparr>)
               else (case line_frames P L J e 0 msgs (r\<lparr>wr_relay := rc\<rparr>) of (es, r') \<Rightarrow> (LnListened es, r'))))"

definition line_connect :: "prims \<Rightarrow> relay_json \<Rightarrow> wk_line \<Rightarrow> string list \<Rightarrow> wk_repl \<Rightarrow> line_shown \<times> wk_repl" where
  "line_connect P J e args r =
     (case (wr_client r, args) of
        (None, _) \<Rightarrow> (LnNeedIdentity, r)
      | (Some _, []) \<Rightarrow> (LnUsage ''connect'', r)
      | (Some cl, peerID # _) \<Rightarrow>
          (case Client_CreateOffer P (wl_coins e 0) (wl_oid e) (wl_write e) peerID cl of
             (Inl x, cl') \<Rightarrow> (LnFailed ''offer'' x, wr_did cl' r)
           | (Inr offer, cl') \<Rightarrow>
               (case PeerIDToEd25519Pub P peerID of
                  Inl x \<Rightarrow> (LnBadPeer x, wr_did cl' r)
                | Inr pub \<Rightarrow>
                    (case SendEnvelope P (wl_net e) J (wl_now e) (k_idPriv (cl_keys cl')) pub TypeOffer offer (wr_relay r) of
                       (Inl x, rc) \<Rightarrow> (LnSendFailed x, (wr_did cl' r)\<lparr>wr_relay := rc\<rparr>)
                     | (Inr _, rc) \<Rightarrow> (LnOffered peerID, (wr_did cl' r)\<lparr>wr_relay := rc\<rparr>)))))"

text \<open>What is kept of a sent message is its ciphertext.\<close>

definition line_send :: "prims \<Rightarrow> relay_json \<Rightarrow> wk_line \<Rightarrow> string list \<Rightarrow> wk_repl \<Rightarrow> line_shown \<times> wk_repl" where
  "line_send P J e args r =
     (case (wr_client r, args) of
        (None, _) \<Rightarrow> (LnNeedIdentity, r)
      | (Some cl, peer # w # ws) \<Rightarrow>
          (case worker_readInput (wl_payload e) (words (w # ws)) of
             Inl x \<Rightarrow> (LnBadInput x, r)
           | Inr plaintext \<Rightarrow>
               (case Client_Encrypt P (wl_rnd e) (wl_write e) peer plaintext cl of
                  (Inl x, cl') \<Rightarrow> (LnFailed ''encrypt'' x, wr_did cl' r)
                | (Inr cipher, cl') \<Rightarrow>
                    (case PeerIDToEd25519Pub P peer of
                       Inl x \<Rightarrow> (LnBadPeer x, wr_did cl' r)
                     | Inr pub \<Rightarrow>
                         (case SendEnvelope P (wl_net e) J (wl_now e) (k_idPriv (cl_keys cl')) pub TypeMessage cipher (wr_relay r) of
                            (Inl x, rc) \<Rightarrow> (LnSendFailed x, (wr_did cl' r)\<lparr>wr_relay := rc\<rparr>)
                          | (Inr _, rc) \<Rightarrow>
                              (LnSent peer, prepend peer \<lparr>cg_Body = ''Me: '' @ b64_encode cipher, cg_IsRead = True\<rparr> ((wr_did cl' r)\<lparr>wr_relay := rc\<rparr>))))))
      | _ \<Rightarrow> (LnUsage ''send'', r))"

definition line_mailbox :: "wk_line \<Rightarrow> string list \<Rightarrow> wk_repl \<Rightarrow> line_shown \<times> wk_repl" where
  "line_mailbox e args r =
     (case args of
        [] \<Rightarrow>
          (LnBoxes (map (\<lambda>p. (p, length (filter (\<lambda>m. \<not> cg_IsRead m) (the (wr_mailbox r p))))) (filter (\<lambda>p. wr_mailbox r p \<noteq> None) (wl_order e))), r)
      | target # _ \<Rightarrow>
          let peer = (case find (\<lambda>p. wr_mailbox r p \<noteq> None \<and> HasPrefix p target) (wl_order e) of None \<Rightarrow> target | Some p \<Rightarrow> p) in
          (case wr_mailbox r peer of
             None \<Rightarrow> (LnNoMessages target, r)
           | Some ms \<Rightarrow> (LnMessages peer ms, r\<lparr>wr_mailbox := (wr_mailbox r)(peer \<mapsto> map (cg_IsRead_update (\<lambda>_. True)) ms)\<rparr>)))"

definition worker_line ::
  "prims \<Rightarrow> legacy_json \<Rightarrow> relay_json \<Rightarrow> wk_line \<Rightarrow> string \<Rightarrow> string list \<Rightarrow> wk_repl \<Rightarrow> line_shown \<times> wk_repl" where
  "worker_line P L J e cmd args r =
     (if cmd = ''init'' then
        (let cl = NewClient P (fst (wl_new e)) (snd (wl_new e)) (wl_write e) (wr_clients r) in
         case Adapter_Register P (wl_net e) J (wl_now e) (k_idPriv (cl_keys cl)) (wr_relay r) of
           (x, rc) \<Rightarrow> (LnIdentity (cl_Id cl) x, (wr_did cl r)\<lparr>wr_relay := rc\<rparr>))
      else if cmd = ''load'' then
        (case args of
           [] \<Rightarrow> (LnUsage ''load'', r)
         | a # _ \<Rightarrow>
             (case LoadClient a (wr_clients r) of
                Inl x \<Rightarrow> (LnLoadFailed x, r)
              | Inr cl \<Rightarrow>
                  (case Adapter_Register P (wl_net e) J (wl_now e) (k_idPriv (cl_keys cl)) (wr_relay r) of
                     (x, rc) \<Rightarrow> (LnLoaded (cl_Id cl) (case x of Inl y \<Rightarrow> Some y | Inr _ \<Rightarrow> None), r\<lparr>wr_client := Some cl, wr_relay := rc\<rparr>))))
      else if cmd = ''connect'' then line_connect P J e args r
      else if cmd = ''listen'' then line_listen P L J e r
      else if cmd = ''send'' then line_send P J e args r
      else if cmd = ''mailbox'' then line_mailbox e args r
      else if cmd = ''help'' \<or> cmd = ''clear'' then (LnHelp, r)
      else if cmd = ''exit'' then (LnLeave, r)
      else (LnUnknown, r))"

text \<open>The loop ends at the end of the input or at \<^verbatim>\<open>exit\<close>; \<open>env i\<close> is what the \<open>i\<close>-th command meets.\<close>

fun worker_loop ::
  "prims \<Rightarrow> legacy_json \<Rightarrow> relay_json \<Rightarrow> (nat \<Rightarrow> wk_line) \<Rightarrow> nat \<Rightarrow> string list \<Rightarrow> wk_repl \<Rightarrow> line_shown list \<times> wk_repl" where
  "worker_loop P L J env i [] r = ([], r)"
| "worker_loop P L J env i (l # rest) r =
     (let line = TrimSpace l in
      if line = [] then worker_loop P L J env i rest r
      else
        let parts = Fields line in
        (case worker_line P L J (env i) (ToLower (hd parts)) (tl parts) r of
           (out, r') \<Rightarrow>
             if out = LnLeave then ([out], r')
             else (case worker_loop P L J env (Suc i) rest r' of (outs, r'') \<Rightarrow> (out # outs, r''))))"

text \<open>Nothing is read when no router is configured.\<close>

definition RunWorker ::
  "prims \<Rightarrow> legacy_json \<Rightarrow> relay_json \<Rightarrow> (nat \<Rightarrow> wk_line) \<Rightarrow> string \<Rightarrow> string list \<Rightarrow> Clients.disk \<Rightarrow> (line_shown list \<times> wk_repl) option" where
  "RunWorker P L J env url ls d =
     (case Adapter_New url of
        None \<Rightarrow> None
      | Some rc \<Rightarrow> Some (worker_loop P L J env 0 ls \<lparr>wr_client = None, wr_clients = d, wr_mailbox = Map.empty, wr_relay = rc\<rparr>))"

end
