(* ===== verification/WorkerProps.thy ===== *)
theory WorkerProps
  imports WorkerShell OfflineProps
begin

text \<open>
  What the worker commands do together: two users who only share a relay complete a handshake and read a message, each command
  being a process of its own.
\<close>

subsection \<open>A relay that keeps its promises\<close>

text \<open>
  The relay is not part of the program.  It serves requests on a state of its own; \<open>rs_box\<close> is the mailbox of a public key, \<open>rs_secret\<close> the
  secret its owner reads with, \<open>rs_waiting\<close> the messages that wait in a mailbox.
\<close>

record 'n relay_service =
  rs_serve :: "relay_request \<Rightarrow> 'n \<Rightarrow> http_answer \<times> 'n"
  rs_box :: "string \<Rightarrow> string"
  rs_secret :: "string \<Rightarrow> string"
  rs_waiting :: "'n \<Rightarrow> string \<Rightarrow> string list"

text \<open>What a client that starts at state \<open>n\<close> sees, and the state after its requests.\<close>

definition served :: "'n relay_service \<Rightarrow> 'n \<Rightarrow> relay_request list \<Rightarrow> 'n" where
  "served R n log = fold (\<lambda>q n. snd (rs_serve R q n)) log n"

definition net_of :: "'n relay_service \<Rightarrow> 'n \<Rightarrow> relay_network" where
  "net_of R n log q = fst (rs_serve R q (served R n log))"

definition replies :: "'n relay_service \<Rightarrow> relay_request \<Rightarrow> 'n \<Rightarrow> (bytes \<Rightarrow> 'a option) \<Rightarrow> 'a \<Rightarrow> (string \<Rightarrow> string list) \<Rightarrow> bool" where
  "replies R q n dec x w \<longleftrightarrow> (\<exists>ct body n'. rs_serve R q n = (HttpAnswer 200 ct body, n') \<and> dec body = Some x \<and> rs_waiting R n' = w)"

definition registers :: "relay_json \<Rightarrow> 'n relay_service \<Rightarrow> bool" where
  "registers J R \<longleftrightarrow> (\<forall>n u p t s. \<exists>cap. mc_mailbox cap = rs_box R p \<and> mc_secret cap = rs_secret R p \<and>
     replies R (PostRegister u p t s) n (rj_capability J) cap (rs_waiting R n))"

definition resolves :: "relay_json \<Rightarrow> 'n relay_service \<Rightarrow> bool" where
  "resolves J R \<longleftrightarrow> (\<forall>n u p. \<exists>res. pr_mailbox res = rs_box R p \<and> replies R (GetResolve u p) n (rj_resolution J) res (rs_waiting R n))"

definition takes :: "relay_json \<Rightarrow> 'n relay_service \<Rightarrow> bool" where
  "takes J R \<longleftrightarrow> (\<forall>n u m msg a. replies R (PostSend u m msg a) n (rj_success J) True ((rs_waiting R n)(m := rs_waiting R n m @ [msg])))"

definition hands_out :: "relay_json \<Rightarrow> 'n relay_service \<Rightarrow> bool" where
  "hands_out J R \<longleftrightarrow> (\<forall>n u p. replies R (GetRead u (rs_box R p) (rs_secret R p)) n (rj_messages J) (rs_waiting R n (rs_box R p))
     ((rs_waiting R n)(rs_box R p := [])))"

definition post_office :: "relay_json \<Rightarrow> 'n relay_service \<Rightarrow> bool" where
  "post_office J R \<longleftrightarrow> registers J R \<and> resolves J R \<and> takes J R \<and> hands_out J R \<and> (\<forall>p. ToLower (rs_box R p) = rs_box R p)"

lemma served_append [simp]: "served R n (log @ [q]) = snd (rs_serve R q (served R n log))"
  by (simp add: served_def)

lemma served_later: "served R (served R n log) log' = served R n (log @ log')"
  by (simp add: served_def)

lemma replies_asked:
  assumes "replies R q (served R n (rc_log rc)) dec x w"
  obtains ct body where "ask (net_of R n) q rc = (HttpAnswer 200 ct body, rc\<lparr>rc_log := rc_log rc @ [q]\<rparr>)" "dec body = Some x"
    "rs_waiting R (served R n (rc_log rc @ [q])) = w"
  using assms by (auto simp: replies_def ask_def net_of_def)

lemma ToLower_hex [simp]: "ToLower (hex_encode b) = hex_encode b"
proof -
  have "lower_char (hex_char n) = hex_char n" if "n < 16" for n
  proof -
    have "n \<in> set [0..<16]" using that by simp
    moreover have "list_all (\<lambda>n. lower_char (hex_char n) = hex_char n) [0..<16]" by code_simp
    ultimately show ?thesis by (simp only: list_all_iff)
  qed
  moreover have "unat x div 16 < 16" for x :: byte using unsigned_less [of x, where ?'a = nat] by auto
  ultimately have "ToLower [hex_char (unat x div 16), hex_char (unat x mod 16)] = [hex_char (unat x div 16), hex_char (unat x mod 16)]" for x :: byte
    by (simp add: ToLower_def)
  then show ?thesis by (induction b) (simp_all add: hex_encode_def ToLower_def)
qed

lemma office_send:
  assumes "post_office J R" "rc_resolutions rc = Map.empty"
  obtains rc' where "SendToPubkey P (net_of R n) J now recipient payload priv rc = (Inr (), rc')"
    "rs_waiting R (served R n (rc_log rc')) =
       (rs_waiting R (served R n (rc_log rc)))(rs_box R (hex_encode recipient) := rs_waiting R (served R n (rc_log rc)) (rs_box R (hex_encode recipient)) @ [b64_encode payload])"
proof -
  let ?p = "hex_encode recipient" and ?q1 = "GetResolve (rc_routerURL rc @ ''/resolve'') (hex_encode recipient)"
  obtain res where res: "pr_mailbox res = rs_box R ?p"
      "replies R ?q1 (served R n (rc_log rc)) (rj_resolution J) res (rs_waiting R (served R n (rc_log rc)))"
    using assms(1) by (fastforce simp: post_office_def resolves_def)
  obtain ct body where a1: "ask (net_of R n) ?q1 rc = (HttpAnswer 200 ct body, rc\<lparr>rc_log := rc_log rc @ [?q1]\<rparr>)" "rj_resolution J body = Some res"
      "rs_waiting R (served R n (rc_log rc @ [?q1])) = rs_waiting R (served R n (rc_log rc))"
    by (rule replies_asked [OF res(2)])
  define rc1 where "rc1 = rc\<lparr>rc_log := rc_log rc @ [?q1], rc_resolutions := [?p \<mapsto> res]\<rparr>"
  have r1: "Router_Resolve (net_of R n) J ?p rc = (Inr res, rc1)"
    using a1(1,2) assms(2) by (simp add: Router_Resolve_def decoded_def Let_def rc1_def)
  let ?q2 = "send_request P now priv (pr_mailbox res) payload (pr_shard res)"
  have q2: "replies R ?q2 (served R n (rc_log rc1)) (rj_success J) True
      ((rs_waiting R (served R n (rc_log rc1)))(rs_box R ?p := rs_waiting R (served R n (rc_log rc1)) (rs_box R ?p) @ [b64_encode payload]))"
    using assms(1) res(1) by (simp add: post_office_def takes_def send_request_def Let_def)
  obtain ct2 body2 where a2: "ask (net_of R n) ?q2 rc1 = (HttpAnswer 200 ct2 body2, rc1\<lparr>rc_log := rc_log rc1 @ [?q2]\<rparr>)" "rj_success J body2 = Some True"
      "rs_waiting R (served R n (rc_log rc1 @ [?q2])) =
        (rs_waiting R (served R n (rc_log rc1)))(rs_box R ?p := rs_waiting R (served R n (rc_log rc1)) (rs_box R ?p) @ [b64_encode payload])"
    by (rule replies_asked [OF q2])
  have s: "sendToShard P (net_of R n) J now priv (pr_mailbox res) payload (pr_shard res) rc1 = (None, rc1\<lparr>rc_log := rc_log rc1 @ [?q2]\<rparr>)"
    using a2(1,2) by (simp add: sendToShard_def decoded_def)
  have "SendToPubkey P (net_of R n) J now recipient payload priv rc = (Inr (), rc1\<lparr>rc_log := rc_log rc1 @ [?q2]\<rparr>)"
    using s by (simp add: SendToPubkey_def r1 candidateShardURLs_def Let_def)
  then show ?thesis using that a2(3) a1(3) by (simp add: rc1_def)
qed

lemma office_receive:
  assumes "post_office J R" "rc_capabilities rc = Map.empty"
  obtains rc' where "Adapter_Receive P (net_of R n) J now priv rc =
      (Inr (map message_body (rs_waiting R (served R n (rc_log rc)) (rs_box R (hex_encode (p_ed_pub P priv))))), rc')"
    "rs_waiting R (served R n (rc_log rc')) = (rs_waiting R (served R n (rc_log rc)))(rs_box R (hex_encode (p_ed_pub P priv)) := [])"
    "rc_resolutions rc' = rc_resolutions rc"
proof -
  let ?p = "hex_encode (p_ed_pub P priv)"
  obtain ts sg where sg: "signPubkeyTimestamp P now priv ''register'' = (?p, ts, sg)" by (simp add: signPubkeyTimestamp_def Let_def)
  let ?q1 = "PostRegister (rc_routerURL rc @ ''/register'') ?p ts sg"
  obtain cap where cap: "mc_mailbox cap = rs_box R ?p" "mc_secret cap = rs_secret R ?p"
      "replies R ?q1 (served R n (rc_log rc)) (rj_capability J) cap (rs_waiting R (served R n (rc_log rc)))"
    using assms(1) by (fastforce simp: post_office_def registers_def)
  obtain ct body where a1: "ask (net_of R n) ?q1 rc = (HttpAnswer 200 ct body, rc\<lparr>rc_log := rc_log rc @ [?q1]\<rparr>)" "rj_capability J body = Some cap"
      "rs_waiting R (served R n (rc_log rc @ [?q1])) = rs_waiting R (served R n (rc_log rc))"
    by (rule replies_asked [OF cap(3)])
  define rc1 where "rc1 = rc\<lparr>rc_log := rc_log rc @ [?q1], rc_capabilities := [?p \<mapsto> cap]\<rparr>"
  have r1: "Router_Register P (net_of R n) J now priv rc = (Inr cap, rc1)"
    using a1(1,2) assms(2) by (simp add: Router_Register_def sg decoded_def Let_def rc1_def)
  let ?q2 = "GetRead (TrimRight_slash (mc_shard cap) @ ''/read'') (mc_mailbox cap) (mc_secret cap)"
  have q2: "replies R ?q2 (served R n (rc_log rc1)) (rj_messages J) (rs_waiting R (served R n (rc_log rc1)) (rs_box R ?p))
      ((rs_waiting R (served R n (rc_log rc1)))(rs_box R ?p := []))"
    using assms(1) cap(1,2) by (simp add: post_office_def hands_out_def)
  obtain ct2 body2 where a2: "ask (net_of R n) ?q2 rc1 = (HttpAnswer 200 ct2 body2, rc1\<lparr>rc_log := rc_log rc1 @ [?q2]\<rparr>)"
      "rj_messages J body2 = Some (rs_waiting R (served R n (rc_log rc1)) (rs_box R ?p))"
      "rs_waiting R (served R n (rc_log rc1 @ [?q2])) = (rs_waiting R (served R n (rc_log rc1)))(rs_box R ?p := [])"
    by (rule replies_asked [OF q2])
  have "Adapter_Receive P (net_of R n) J now priv rc =
      (Inr (map message_body (rs_waiting R (served R n (rc_log rc1)) (rs_box R ?p))), rc1\<lparr>rc_log := rc_log rc1 @ [?q2]\<rparr>)"
    using a2(1,2) by (simp add: Adapter_Receive_def r1 candidateShardURLs_def receiveCapability_def)
  then show ?thesis using that a2(3) a1(3) by (simp add: rc1_def)
qed

subsection \<open>One frame\<close>

lemma offer_frame:
  assumes "np_law P" "Client_CreateOffer P ca oid w1 peer a = (Inr w, a1)"
    and "Client_AcceptOffer P L (fi_coins io) (fi_kem io) (fi_write io) w (dp_Client d) = (Inr aw, b1)" "dp_sent d = []"
    and "SendEnvelope P net J now priv (k_idPub (cl_keys a)) TypeAnswer aw rc = (Inr (), rc')"
  shows "\<exists>e d'. worker_dispatch P K L S net J now priv io (WrapEnvelope TypeOffer w) d rc = ([Listened e], d', rc') \<and>
     le_Type e = ''offer'' \<and> le_Peer e = cl_Id a \<and> dp_Client d' = b1"
proof -
  obtain ev d' where f: "DispatchFrame P K L S (io\<lparr>fi_reply := Some True\<rparr>) (WrapEnvelope TypeOffer w) d = ((Some ev, None), d')"
      "ev_Type ev = ''offer''" "ev_Peer ev = cl_Id a" "dp_Client d' = b1" "dp_sent d' = dp_sent d @ [(k_idPub (cl_keys a), TypeAnswer, aw)]"
    using handleOffer_replies [OF assms(1,2), of L "io\<lparr>fi_reply := Some True\<rparr>" d aw b1 K S] assms(3) by auto
  then show ?thesis using assms(4,5) by (simp add: worker_dispatch_def reply_over_def listen_event_def Let_def)
qed

lemma handleMessage_sends_nothing [simp]: "dp_sent (snd (handleMessage P K io data d)) = dp_sent d"
  by (simp add: handleMessage_def Let_def split: prod.splits sum.splits option.splits)

lemma answer_frame:
  assumes "Client_FinishHandshake P L (fi_write io) aw (dp_Client d) = (Inr peer, c)" "aw \<noteq> []" "dp_sent d = []"
  shows "\<exists>e d'. worker_dispatch P K L S net J now priv io (WrapEnvelope TypeAnswer aw) d rc = ([Listened e], d', rc) \<and>
     le_Type e = ''answer'' \<and> le_Peer e = peer \<and> dp_Client d' = c"
  using assms Frame_Unwrap_Wrap [OF assms(2), of TypeAnswer]
  by (simp add: worker_dispatch_def reply_over_def DispatchFrame_def handleAnswer_def Event_zero_def listen_event_def Let_def)

text \<open>A mailbox that was loaded has one conversation per key, and a conversation survives being saved and loaded.\<close>

lemma loaded_mailbox_ok: "Mailbox_Load P K J io me fs = (Inr s, fs') \<Longrightarrow> mailbox_ok s"
proof -
  have "mailbox_ok s \<Longrightarrow> mailbox_ok (fold (\<lambda>ot s. case ot of None \<Rightarrow> s | Some t \<Rightarrow> if t_Key t = [] then s else AList.update (t_Key t) t s) ts s)" for ts s
    by (induction ts arbitrary: s) (auto simp: mailbox_ok_update split: option.split)
  then show "Mailbox_Load P K J io me fs = (Inr s, fs') \<Longrightarrow> ?thesis"
    by (auto simp: Mailbox_Load_def load_records_ok Let_def split: sum.splits option.splits if_splits)
qed

lemma reloaded_messages: "mailbox_ok s \<Longrightarrow> k \<noteq> [] \<Longrightarrow> thread_messages (load_records (thread_records s)) k = thread_messages s k"
  by (simp add: thread_messages_def load_thread_records split: option.split)

text \<open>What a frame with a message leaves behind, in memory and in the file of the mailbox.\<close>

definition filed :: "prims \<Rightarrow> packets \<Rightarrow> string \<Rightarrow> string \<Rightarrow> Message list \<Rightarrow> threads option \<Rightarrow> filesystem \<Rightarrow> bool" where
  "filed P K me peer ms mb fs \<longleftrightarrow>
     (\<exists>box. mb = Some box \<and> thread_messages box peer = ms) \<and>
     (\<forall>J io. \<exists>box. Mailbox_Load P K J io me fs = (Inr box, fs) \<and> thread_messages box peer = ms)"

lemma message_frame:
  assumes "Client_Decrypt P (fi_write io) w (dp_Client d) = (Inr (sender, pt), c)" "w \<noteq> []" "dp_sent d = []" "dp_Mailbox d = Some box"
    and laws: "np_law P" "packet_law K" and "fi_save io = SaveDone" "mailbox_ok box" "sender \<noteq> []"
    and "fits_store P (append_thread (fi_clock io) sender [] (new_message Incoming Direct (fst (body_text pt))) box)"
  shows "\<exists>e d'. worker_dispatch P K L S net J now priv io (WrapEnvelope TypeMessage w) d rc = ([Listened e], d', rc) \<and>
     le_Type e = ''message'' \<and> le_Sender e = sender \<and> le_Message e = fst (body_text pt) \<and> dp_Client d' = c \<and>
     filed P K (cl_Id c) sender (thread_messages box sender @ [appendDefaults (fi_clock io) (new_message Incoming Direct (fst (body_text pt)))])
       (dp_Mailbox d') (dp_disk d')"
proof -
  let ?io = "io\<lparr>fi_reply := Some True\<rparr>"
  obtain body enc where b: "body_text pt = (body, enc)" by (cases "body_text pt")
  let ?box = "append_thread (fi_clock io) sender [] (new_message Incoming Direct body) box"
  obtain err fs' where save: "saveLocked P K SaveDone (fileFor (cl_Id c)) ?box (dp_disk d) = (err, fs')" by fastforce
  have load: "err = None" "Mailbox_Load P K T mio (cl_Id c) fs' = (Inr (load_records (thread_records ?box)), fs')" for T mio
    using saved_loads [OF laws assms(10) [unfolded b fst_conv] save] by blast+
  let ?d = "d\<lparr>dp_Client := c, dp_Mailbox := Some ?box, dp_disk := fs'\<rparr>"
    and ?ev = "Event_zero\<lparr>ev_Type := ''message'', ev_Sender := sender, ev_Encoding := enc, ev_Message := body\<rparr>"
  have "handleMessage P K ?io w d = ((Some ?ev, None), ?d)"
    using assms(1,4,7) b save load(1) by (simp add: handleMessage_def AppendIncoming_def Mailbox_append_def)
  then have "DispatchFrame P K L S ?io (WrapEnvelope TypeMessage w) d = ((Some ?ev, None), ?d)"
    using Frame_Unwrap_Wrap [OF assms(2), of TypeMessage] by (simp add: DispatchFrame_def)
  then have run: "worker_dispatch P K L S net J now priv io (WrapEnvelope TypeMessage w) d rc = ([Listened (listen_event ?ev)], ?d, rc)"
    using assms(3) by (simp add: worker_dispatch_def reply_over_def Let_def)
  have "filed P K (cl_Id c) sender (thread_messages box sender @ [appendDefaults (fi_clock io) (new_message Incoming Direct body)]) (Some ?box) fs'"
    using load(2) reloaded_messages [OF append_thread_ok [OF assms(8)] assms(9)] by (simp add: filed_def thread_messages_append)
  then show ?thesis using run by (auto simp: listen_event_def b Event_zero_def)
qed

subsection \<open>One command\<close>

text \<open>The mailbox an identity finds on disk.\<close>

definition box_of :: "prims \<Rightarrow> packets \<Rightarrow> cli_world \<Rightarrow> string \<Rightarrow> threads option" where
  "box_of P K w i = (case fst (Mailbox_Load P K (cw_threads w) (snd (snd (cw_migrate w))) i (cw_disk w)) of Inl _ \<Rightarrow> None | Inr mb \<Rightarrow> Some mb)"

lemma RunListen_one:
  assumes "LoadClient i (cw_clients w) = Inr cl" "cl_Id cl = i" "url \<noteq> []"
    and "Adapter_Receive P net J now (k_idPriv (cl_keys cl)) (NewRouterClient url) = (Inr [body], rc1)"
    and one: "\<And>d :: (FileContextStore, FileDeliveryStore) Deps. dp_Client d = cl \<Longrightarrow> dp_sent d = [] \<Longrightarrow> dp_Mailbox d = box_of P K w i \<Longrightarrow>
      \<exists>es d'. worker_dispatch P K L (FileContexts P K) net J now (k_idPriv (cl_keys cl)) (ios 0) body d rc1 = (es, d', rc2) \<and>
        dp_Client d' = c \<and> Q es (dp_Mailbox d') (dp_disk d')"
    and two: "\<And>d :: (MemoryContextStore, MemoryDeliveryStore) Deps. dp_Client d = cl \<Longrightarrow> dp_sent d = [] \<Longrightarrow> dp_Mailbox d = box_of P K w i \<Longrightarrow>
      \<exists>es d'. worker_dispatch P K L MemoryContexts net J now (k_idPriv (cl_keys cl)) (ios 0) body d rc1 = (es, d', rc2) \<and>
        dp_Client d' = c \<and> Q es (dp_Mailbox d') (dp_disk d')"
  shows "\<exists>es x. RunListen P K L net J now ios url i ''human'' w = (Inr es, Some x, Some rc2) \<and> opened_client x = c \<and> Q es (opened_box x) (opened_disk x)"
proof (cases "newListenDeps P K w cl")
  case (OnFiles d)
  then have "dp_Client d = cl" "dp_sent d = []" "dp_Mailbox d = box_of P K w i"
    using assms(2) by (auto simp: newListenDeps_def box_of_def Let_def split: prod.splits sum.splits)
  from one [OF this] show ?thesis using OnFiles assms(1-4)
    by (fastforce simp: RunListen_def validateFormat_def Adapter_New_def opened_client_def opened_box_def opened_disk_def)
next
  case (InMemory d)
  then have "dp_Client d = cl" "dp_sent d = []" "dp_Mailbox d = box_of P K w i"
    using assms(2) by (auto simp: newListenDeps_def box_of_def Let_def split: prod.splits sum.splits)
  from two [OF this] show ?thesis using InMemory assms(1-4)
    by (fastforce simp: RunListen_def validateFormat_def Adapter_New_def opened_client_def opened_box_def opened_disk_def)
qed

definition sha3_size_law :: "prims \<Rightarrow> bool" where
  "sha3_size_law P \<longleftrightarrow> (\<forall>b. length (p_sha3_256 P b) = 32)"

lemma own_id_resolves:
  assumes "sig_law P" "b58_law P" "sha3_size_law P" "client_inv P c" "identity_ok P (cl_keys c)"
  shows "PeerIDToEd25519Pub P (cl_Id c) = Inr (k_idPub (cl_keys c))" "p_ed_pub P (k_idPriv (cl_keys c)) = k_idPub (cl_keys c)"
proof -
  have "length (k_idPub (cl_keys c)) = 32" using assms(1,5) by (simp add: sig_law_def identity_ok_def)
  then show "PeerIDToEd25519Pub P (cl_Id c) = Inr (k_idPub (cl_keys c))"
    using assms(2-4) by (simp add: client_inv_def peer_id_def DerivePeerID_def b58_law_def sha3_size_law_def PeerIDToEd25519Pub_def PeerIDByteLen_def)
  show "p_ed_pub P (k_idPriv (cl_keys c)) = k_idPub (cl_keys c)" using assms(5) by (simp add: identity_ok_def)
qed

abbreviation box_for :: "'n relay_service \<Rightarrow> Client \<Rightarrow> string" where
  "box_for R c \<equiv> rs_box R (hex_encode (k_idPub (cl_keys c)))"

lemma connect_delivers:
  assumes "post_office J R" "url \<noteq> []" "LoadClient (cl_Id a) d = Inr a" "PeerIDToEd25519Pub P peer = Inr pub"
    and "Client_CreateOffer P cs oid wr peer a = (Inr w, a1)"
  obtains rc where "RunConnect P (net_of R n) J now cs oid wr url (cl_Id a) peer ''human'' d = (Inr (), files a1, Some rc)"
    "rs_waiting R (served R n (rc_log rc)) =
       (rs_waiting R n)(rs_box R (hex_encode pub) := rs_waiting R n (rs_box R (hex_encode pub)) @ [b64_encode (WrapEnvelope TypeOffer w)])"
proof -
  obtain rc where "SendToPubkey P (net_of R n) J now pub (WrapEnvelope TypeOffer w) (k_idPriv (cl_keys a1)) (NewRouterClient url) = (Inr (), rc)"
      "rs_waiting R (served R n (rc_log rc)) =
       (rs_waiting R n)(rs_box R (hex_encode pub) := rs_waiting R n (rs_box R (hex_encode pub)) @ [b64_encode (WrapEnvelope TypeOffer w)])"
    by (rule office_send [OF assms(1), of "NewRouterClient url" P n now pub "WrapEnvelope TypeOffer w" "k_idPriv (cl_keys a1)"])
      (simp_all add: NewRouterClient_def served_def)
  then show ?thesis using that assms(2-5) by (simp add: RunConnect_def validateFormat_def Adapter_New_def SendEnvelope_def Adapter_Send_def)
qed

lemma encrypt_delivers:
  assumes "post_office J R" "url \<noteq> []" "LoadClient (cl_Id a) d = Inr a" "PeerIDToEd25519Pub P peer = Inr pub" "message \<noteq> []"
    and "Client_Encrypt P rnd wr peer (to_bytes message) a = (Inr w, a1)"
  obtains s rc where "worker_RunEncrypt P (net_of R n) J now rnd io wr url (cl_Id a) peer message [] ''raw'' ''b64'' ''human'' d = (Inr s, files a1, Some rc)"
    "rs_waiting R (served R n (rc_log rc)) =
       (rs_waiting R n)(rs_box R (hex_encode pub) := rs_waiting R n (rs_box R (hex_encode pub)) @ [b64_encode (WrapEnvelope TypeMessage w)])"
proof -
  obtain rc where "SendToPubkey P (net_of R n) J now pub (WrapEnvelope TypeMessage w) (k_idPriv (cl_keys a1)) (NewRouterClient url) = (Inr (), rc)"
      "rs_waiting R (served R n (rc_log rc)) =
       (rs_waiting R n)(rs_box R (hex_encode pub) := rs_waiting R n (rs_box R (hex_encode pub)) @ [b64_encode (WrapEnvelope TypeMessage w)])"
    by (rule office_send [OF assms(1), of "NewRouterClient url" P n now pub "WrapEnvelope TypeMessage w" "k_idPriv (cl_keys a1)"])
      (simp_all add: NewRouterClient_def served_def)
  moreover have "Codec_Decode ''raw'' x = Inr x" "Codec_Encode ''b64'' x = Inr (to_bytes (b64_encode x))" for x
    by (simp_all add: Codec_Decode_def Codec_Encode_def Encoding_Valid_def EncodingRaw_def EncodingBase_def)
  ultimately show ?thesis using that assms(2-6)
    by (simp add: worker_RunEncrypt_def validateFormat_def validateEncoding_def EncodingRaw_def readPayload_def
        Adapter_New_def SendEnvelope_def Adapter_Send_def)
qed

lemma listen_receives:
  assumes "post_office J R" "p_ed_pub P (k_idPriv (cl_keys c)) = k_idPub (cl_keys c)" "rs_waiting R n (box_for R c) = [b64_encode body]"
  obtains rc where "Adapter_Receive P (net_of R n) J now (k_idPriv (cl_keys c)) (NewRouterClient url) = (Inr [body], rc)"
    "rs_waiting R (served R n (rc_log rc)) = (rs_waiting R n)(box_for R c := [])" "rc_resolutions rc = Map.empty"
  by (rule office_receive [OF assms(1), of "NewRouterClient url" P n now "k_idPriv (cl_keys c)"])
    (use assms(2,3) in \<open>auto simp: NewRouterClient_def served_def message_body_sent\<close>)

lemma listen_answers:
  assumes "np_law P" "post_office J R" "url \<noteq> []" "LoadClient i (cw_clients w) = Inr c" "Client_CreateOffer P cs oid wr peer a = (Inr o1, a1)"
    and "cl_Id c = i" "p_ed_pub P (k_idPriv (cl_keys c)) = k_idPub (cl_keys c)" "box_for R a \<noteq> box_for R c"
    and "Client_AcceptOffer P L (fi_coins (ios 0)) (fi_kem (ios 0)) (fi_write (ios 0)) o1 c = (Inr aw, b1)"
    and "rs_waiting R n (box_for R c) = [b64_encode (WrapEnvelope TypeOffer o1)]" "rs_waiting R n (box_for R a) = []"
  obtains e x rc where "RunListen P K L (net_of R n) J now ios url i ''human'' w = (Inr [Listened e], Some x, Some rc)"
    "le_Type e = ''offer''" "le_Peer e = cl_Id a" "opened_client x = b1"
    "rs_waiting R (served R n (rc_log rc)) = (rs_waiting R n)(box_for R c := [], box_for R a := [b64_encode (WrapEnvelope TypeAnswer aw)])"
proof -
  obtain rc1 where r1: "Adapter_Receive P (net_of R n) J now (k_idPriv (cl_keys c)) (NewRouterClient url) = (Inr [WrapEnvelope TypeOffer o1], rc1)"
      "rs_waiting R (served R n (rc_log rc1)) = (rs_waiting R n)(box_for R c := [])" "rc_resolutions rc1 = Map.empty"
    by (rule listen_receives [OF assms(2,7,10)])
  obtain rc where r2: "SendToPubkey P (net_of R n) J now (k_idPub (cl_keys a)) (WrapEnvelope TypeAnswer aw) (k_idPriv (cl_keys c)) rc1 = (Inr (), rc)"
      "rs_waiting R (served R n (rc_log rc)) = (rs_waiting R n)(box_for R c := [], box_for R a := [b64_encode (WrapEnvelope TypeAnswer aw)])"
    by (rule office_send [OF assms(2) r1(3), of P n now "k_idPub (cl_keys a)" "WrapEnvelope TypeAnswer aw" "k_idPriv (cl_keys c)"])
      (use r1(2) assms(8,11) in auto)
  then have send: "SendEnvelope P (net_of R n) J now (k_idPriv (cl_keys c)) (k_idPub (cl_keys a)) TypeAnswer aw rc1 = (Inr (), rc)"
    by (simp add: SendEnvelope_def Adapter_Send_def)
  have "\<exists>es x. RunListen P K L (net_of R n) J now ios url i ''human'' w = (Inr es, Some x, Some rc) \<and> opened_client x = b1 \<and>
      (\<exists>e. es = [Listened e] \<and> le_Type e = ''offer'' \<and> le_Peer e = cl_Id a)"
    by (rule RunListen_one [OF assms(4,6,3) r1(1), where Q = "\<lambda>es _ _. \<exists>e. es = [Listened e] \<and> le_Type e = ''offer'' \<and> le_Peer e = cl_Id a"])
      (use offer_frame [OF assms(1,5) _ _ send] assms(9) in \<open>fastforce+\<close>)
  then show ?thesis using that r2(2) by blast
qed

lemma listen_completes:
  assumes "post_office J R" "url \<noteq> []" "LoadClient i (cw_clients w) = Inr c" "cl_Id c = i" "p_ed_pub P (k_idPriv (cl_keys c)) = k_idPub (cl_keys c)"
    and "Client_FinishHandshake P L (fi_write (ios 0)) aw c = (Inr peer, c')" "aw \<noteq> []"
    and "rs_waiting R n (box_for R c) = [b64_encode (WrapEnvelope TypeAnswer aw)]"
  obtains e x rc where "RunListen P K L (net_of R n) J now ios url i ''human'' w = (Inr [Listened e], Some x, Some rc)"
    "le_Type e = ''answer''" "le_Peer e = peer" "opened_client x = c'"
    "rs_waiting R (served R n (rc_log rc)) = (rs_waiting R n)(box_for R c := [])"
proof -
  obtain rc where r: "Adapter_Receive P (net_of R n) J now (k_idPriv (cl_keys c)) (NewRouterClient url) = (Inr [WrapEnvelope TypeAnswer aw], rc)"
      "rs_waiting R (served R n (rc_log rc)) = (rs_waiting R n)(box_for R c := [])"
    by (rule listen_receives [OF assms(1,5,8)])
  have "\<exists>es x. RunListen P K L (net_of R n) J now ios url i ''human'' w = (Inr es, Some x, Some rc) \<and> opened_client x = c' \<and>
      (\<exists>e. es = [Listened e] \<and> le_Type e = ''answer'' \<and> le_Peer e = peer)"
    by (rule RunListen_one [OF assms(3,4,2) r(1), where Q = "\<lambda>es _ _. \<exists>e. es = [Listened e] \<and> le_Type e = ''answer'' \<and> le_Peer e = peer"])
      (use answer_frame [OF _ assms(7)] assms(6) in \<open>fastforce+\<close>)
  then show ?thesis using that r(2) by blast
qed

lemma listen_stores:
  assumes "post_office J R" "url \<noteq> []" "LoadClient i (cw_clients w) = Inr c" "cl_Id c = i" "p_ed_pub P (k_idPriv (cl_keys c)) = k_idPub (cl_keys c)"
    and "Client_Decrypt P (fi_write (ios 0)) ct c = (Inr (sender, pt), c')" "ct \<noteq> []" "box_of P K w i = Some box"
    and "rs_waiting R n (box_for R c) = [b64_encode (WrapEnvelope TypeMessage ct)]"
    and laws: "np_law P" "packet_law K" and "fi_save (ios 0) = SaveDone" "sender \<noteq> []"
    and "fits_store P (append_thread (fi_clock (ios 0)) sender [] (new_message Incoming Direct (fst (body_text pt))) box)"
  obtains e x rc where "RunListen P K L (net_of R n) J now ios url i ''human'' w = (Inr [Listened e], Some x, Some rc)"
    "le_Type e = ''message''" "le_Sender e = sender" "le_Message e = fst (body_text pt)"
    "filed P K i sender (thread_messages box sender @ [appendDefaults (fi_clock (ios 0)) (new_message Incoming Direct (fst (body_text pt)))])
       (opened_box x) (opened_disk x)"
    "rs_waiting R (served R n (rc_log rc)) = (rs_waiting R n)(box_for R c := [])"
proof -
  obtain rc where r: "Adapter_Receive P (net_of R n) J now (k_idPriv (cl_keys c)) (NewRouterClient url) = (Inr [WrapEnvelope TypeMessage ct], rc)"
      "rs_waiting R (served R n (rc_log rc)) = (rs_waiting R n)(box_for R c := [])"
    by (rule listen_receives [OF assms(1,5,9)])
  let ?Q = "\<lambda>es mb fs. (\<exists>e. es = [Listened e] \<and> le_Type e = ''message'' \<and> le_Sender e = sender \<and> le_Message e = fst (body_text pt)) \<and>
      filed P K i sender (thread_messages box sender @ [appendDefaults (fi_clock (ios 0)) (new_message Incoming Direct (fst (body_text pt)))]) mb fs"
  have me: "cl_Id c' = i" using Decrypt_keeps_Id [of P "fi_write (ios 0)" ct c] assms(4,6) by simp
  have ok: "mailbox_ok box" using assms(8) loaded_mailbox_ok by (auto simp: box_of_def split: sum.splits) (metis prod.collapse)
  have frame: "\<exists>es d'. worker_dispatch P K L S (net_of R n) J now (k_idPriv (cl_keys c)) (ios 0) (WrapEnvelope TypeMessage ct) d rc = (es, d', rc) \<and>
      dp_Client d' = c' \<and> ?Q es (dp_Mailbox d') (dp_disk d')" if "dp_Client d = c" "dp_sent d = []" "dp_Mailbox d = box_of P K w i" for d S
    using message_frame [OF _ assms(7) that(2) _ laws assms(12) ok assms(13,14), of c' L S "net_of R n" J now "k_idPriv (cl_keys c)" rc] that(1,3) assms(6,8) me
    by auto
  have "\<exists>es x. RunListen P K L (net_of R n) J now ios url i ''human'' w = (Inr es, Some x, Some rc) \<and> opened_client x = c' \<and> ?Q es (opened_box x) (opened_disk x)"
    by (rule RunListen_one [OF assms(3,4,2) r(1), where Q = ?Q]) (use frame in blast)+
  then show ?thesis using that r(2) by blast
qed

subsection \<open>A conversation over the relay\<close>

text \<open>The first three commands.\<close>

lemma worker_handshake:
  assumes laws: "np_law P" "sig_law P" "b58_law P" "kem_law P" "dh_law P" "sha3_size_law P"
    and office: "post_office J R" "rs_waiting R n (box_for R a) = []" "rs_waiting R n (box_for R b) = []" "box_for R a \<noteq> box_for R b" "url \<noteq> []"
    and run: "can_run P (cl_keys a) csa (cl_keys b) (fi_coins (iob 0)) oid (session b)" "fi_write (iob 0) = Written" "fi_write (ioa 0) = Written"
    and A: "LoadClient (cl_Id a) da = Inr a" "client_inv P a"
    and B: "LoadClient (cl_Id b) (cw_clients wb) = Inr b" "client_inv P b" "cl_Id b \<noteq> []"
  obtains da1 rc1 eb xb rc2 ea xa rc3 a2 b1 pa pb where
    "RunConnect P (net_of R n) J t1 csa oid Written url (cl_Id a) (cl_Id b) ''human'' da = (Inr (), da1, Some rc1)"
    "RunListen P K L (net_of R (served R n (rc_log rc1))) J t2 iob url (cl_Id b) ''human'' wb = (Inr [Listened eb], Some xb, Some rc2)"
    "le_Type eb = ''offer''" "le_Peer eb = cl_Id a"
    "RunListen P K L (net_of R (served R (served R n (rc_log rc1)) (rc_log rc2))) J t3 ioa url (cl_Id a) ''human'' (wa\<lparr>cw_clients := da1\<rparr>) =
       (Inr [Listened ea], Some xa, Some rc3)"
    "le_Type ea = ''answer''" "le_Peer ea = cl_Id b"
    "rs_waiting R (served R (served R (served R n (rc_log rc1)) (rc_log rc2)) (rc_log rc3)) = (rs_waiting R n)(box_for R b := [], box_for R a := [])"
    "LoadClient (cl_Id a) (files (opened_client xa)) = Inr a2" "LoadClient (cl_Id b) (files (opened_client xb)) = Inr b1"
    "cl_Id a2 = cl_Id a" "session a2 (cl_Id b) = Some (reload_peer pa)" "session b1 (cl_Id a) = Some (reload_peer pb)"
    "mirrored P pa pb" "DhPublic pa = p_basemult P (c_dh csa)" "cl_keys b1 = cl_keys b" "cl_Id b1 = cl_Id b"
proof -
  have idA: "PeerIDToEd25519Pub P (cl_Id a) = Inr (k_idPub (cl_keys a))" "p_ed_pub P (k_idPriv (cl_keys a)) = k_idPub (cl_keys a)"
    and idB: "PeerIDToEd25519Pub P (cl_Id b) = Inr (k_idPub (cl_keys b))" "p_ed_pub P (k_idPriv (cl_keys b)) = k_idPub (cl_keys b)"
    using own_id_resolves [OF laws(2,3,6)] A(2) B(2) run(1) by (auto simp: can_run_def)
  obtain w a1 a1' aw b1 b1' a2 a2' pa pb where
    h: "Client_CreateOffer P csa oid Written (cl_Id b) a = (Inr w, a1)" "LoadClient (cl_Id a) (files a1) = Inr a1'"
      "Client_AcceptOffer P L (fi_coins (iob 0)) (fi_kem (iob 0)) Written w b = (Inr aw, b1)" "LoadClient (cl_Id b) (files b1) = Inr b1'"
      "Client_FinishHandshake P L Written aw a1' = (Inr (cl_Id b), a2)" "LoadClient (cl_Id a) (files a2) = Inr a2'"
    and s: "cl_Id a2' = cl_Id a" "session a2' (cl_Id b) = Some (reload_peer pa)" "session b1' (cl_Id a) = Some (reload_peer pb)"
    and mir: "mirrored P pa pb" and dh: "DhPublic pa = p_basemult P (c_dh csa)" and keys: "cl_keys a1' = cl_keys a" "cl_keys b1' = cl_keys b"
    and names: "cl_Id a1' = cl_Id a" "cl_Id b1' = cl_Id b"
    by (rule reloaded_handshake [OF laws(1-5) run(1) A(2) _ B(2) _ B(3)]) (use LoadClient_kept A(1) B(1) in blast)+
  have aw: "aw \<noteq> []" using h(3) AcceptOffer_wire [OF laws(1)] by (auto simp: Client_AcceptOffer_def split: sum.splits prod.splits)
  obtain rc1 where s1: "RunConnect P (net_of R n) J t1 csa oid Written url (cl_Id a) (cl_Id b) ''human'' da = (Inr (), files a1, Some rc1)"
      "rs_waiting R (served R n (rc_log rc1)) = (rs_waiting R n)(box_for R b := [b64_encode (WrapEnvelope TypeOffer w)])"
    by (rule connect_delivers [OF office(1,5) A(1) idB(1) h(1), where n = n and now = t1]) (use office(3) in auto)
  define n1 where "n1 = served R n (rc_log rc1)"
  obtain eb xb rc2 where s2: "RunListen P K L (net_of R n1) J t2 iob url (cl_Id b) ''human'' wb = (Inr [Listened eb], Some xb, Some rc2)"
      "le_Type eb = ''offer''" "le_Peer eb = cl_Id a" "opened_client xb = b1"
      "rs_waiting R (served R n1 (rc_log rc2)) = (rs_waiting R n1)(box_for R b := [], box_for R a := [b64_encode (WrapEnvelope TypeAnswer aw)])"
    by (rule listen_answers [OF laws(1) office(1,5) B(1) h(1), where ios = iob and n = n1 and now = t2 and K = K and L = L and aw = aw]) (use s1(2) h(3) run(2) office(2,4) idB(2) in \<open>auto simp: n1_def\<close>)
  define n2 where "n2 = served R n1 (rc_log rc2)"
  obtain ea xa rc3 where s3: "RunListen P K L (net_of R n2) J t3 ioa url (cl_Id a) ''human'' (wa\<lparr>cw_clients := files a1\<rparr>) = (Inr [Listened ea], Some xa, Some rc3)"
      "le_Type ea = ''answer''" "le_Peer ea = cl_Id b" "opened_client xa = a2"
      "rs_waiting R (served R n2 (rc_log rc3)) = (rs_waiting R n2)(box_for R a := [])"
    by (rule listen_completes [OF office(1,5), where i = "cl_Id a" and w = "wa\<lparr>cw_clients := files a1\<rparr>" and c = a1' and P = P and K = K and L = L and ios = ioa and aw = aw and
        peer = "cl_Id b" and c' = a2 and n = n2 and now = t3])
      (use h(2,5) run(3) aw idA(2) keys(1) s2(5) names in \<open>auto simp: n2_def\<close>)
  have wait: "rs_waiting R (served R n2 (rc_log rc3)) = (rs_waiting R n)(box_for R b := [], box_for R a := [])"
    using s1(2) s2(5) s3(5) office(4) by (auto simp: n1_def n2_def fun_eq_iff)
  have loads: "LoadClient (cl_Id a) (files (opened_client xa)) = Inr a2'" "LoadClient (cl_Id b) (files (opened_client xb)) = Inr b1'"
    using h(4,6) s2(4) s3(4) by simp_all
  show thesis
    by (rule that [OF s1(1) s2(1) [unfolded n1_def] s2(2,3) s3(1) [unfolded n2_def n1_def] s3(2,3) wait [unfolded n2_def n1_def] loads s mir dh keys(2) names(2)])
qed

text \<open>
  C8.  Two people who only share a relay that keeps its promises complete a handshake and read a message with the
  worker commands, each of which is a new process: \<^verbatim>\<open>connect\<close>, \<^verbatim>\<open>listen\<close> on the other side (which answers), \<^verbatim>\<open>listen\<close> on the first
  side (which completes the handshake), \<^verbatim>\<open>encrypt\<close> and \<^verbatim>\<open>listen\<close>.  If the recipient's mailbox file can be written, the last command
  reports the message, and the mailbox that the next process loads from the file has it as the last message of the conversation
  with the sender; nothing is left waiting at the relay.
\<close>

theorem worker_conversation:
  assumes laws: "np_law P" "sig_law P" "b58_law P" "kem_law P" "dh_law P" "aead_law P" "hkdf_law P" "sha3_size_law P"
    and office: "post_office J R" "rs_waiting R n (box_for R a) = []" "rs_waiting R n (box_for R b) = []" "box_for R a \<noteq> box_for R b" "url \<noteq> []"
    and run: "can_run P (cl_keys a) csa (cl_keys b) (fi_coins (iob 0)) oid (session b)" "fi_write (iob 0) = Written" "fi_write (ioa 0) = Written"
    and A: "LoadClient (cl_Id a) da = Inr a" "client_inv P a" "cl_Id a \<noteq> []"
    and B: "LoadClient (cl_Id b) (cw_clients wb) = Inr b" "client_inv P b" "cl_Id b \<noteq> []"
    and box: "box_of P K wb' (cl_Id b) = Some box" "packet_law K" "fi_save (iob' 0) = SaveDone"
      "fits_store P (append_thread (fi_clock (iob' 0)) (cl_Id a) [] (new_message Incoming Direct message) box)"
    and msg: "message \<noteq> []" "utf8_valid (to_bytes message)" and fresh: "p_basemult P rnd \<noteq> p_basemult P (c_dh csa)"
  shows "\<exists>da1 rc1 n1 eb xb rc2 n2 ea xa rc3 n3 s da2 rc4 n4 e xm rc5 box' box''.
     RunConnect P (net_of R n) J t1 csa oid Written url (cl_Id a) (cl_Id b) ''human'' da = (Inr (), da1, Some rc1) \<and> n1 = served R n (rc_log rc1) \<and>
     RunListen P K L (net_of R n1) J t2 iob url (cl_Id b) ''human'' wb = (Inr [Listened eb], Some xb, Some rc2) \<and> n2 = served R n1 (rc_log rc2) \<and>
     le_Type eb = ''offer'' \<and> le_Peer eb = cl_Id a \<and>
     RunListen P K L (net_of R n2) J t3 ioa url (cl_Id a) ''human'' (wa\<lparr>cw_clients := da1\<rparr>) = (Inr [Listened ea], Some xa, Some rc3) \<and> n3 = served R n2 (rc_log rc3) \<and>
     le_Type ea = ''answer'' \<and> le_Peer ea = cl_Id b \<and>
     worker_RunEncrypt P (net_of R n3) J t4 rnd pio Written url (cl_Id a) (cl_Id b) message [] ''raw'' ''b64'' ''human'' (files (opened_client xa)) =
       (Inr s, da2, Some rc4) \<and> n4 = served R n3 (rc_log rc4) \<and>
     RunListen P K L (net_of R n4) J t5 iob' url (cl_Id b) ''human'' (wb'\<lparr>cw_clients := files (opened_client xb)\<rparr>) = (Inr [Listened e], Some xm, Some rc5) \<and>
     le_Type e = ''message'' \<and> le_Sender e = cl_Id a \<and> le_Message e = message \<and>
     opened_box xm = Some box' \<and>
     thread_messages box' (cl_Id a) = thread_messages box (cl_Id a) @ [appendDefaults (fi_clock (iob' 0)) (new_message Incoming Direct message)] \<and>
     Mailbox_Load P K T mio (cl_Id b) (opened_disk xm) = (Inr box'', opened_disk xm) \<and>
     thread_messages box'' (cl_Id a) = thread_messages box (cl_Id a) @ [appendDefaults (fi_clock (iob' 0)) (new_message Incoming Direct message)] \<and>
     rs_waiting R (served R n4 (rc_log rc5)) (box_for R a) = [] \<and> rs_waiting R (served R n4 (rc_log rc5)) (box_for R b) = []"
proof -
  have idB: "PeerIDToEd25519Pub P (cl_Id b) = Inr (k_idPub (cl_keys b))" "p_ed_pub P (k_idPriv (cl_keys b)) = k_idPub (cl_keys b)"
    using own_id_resolves [OF laws(2,3,8) B(2)] run(1) by (auto simp: can_run_def)
  obtain da1 rc1 eb xb rc2 ea xa rc3 a2 b1 pa pb where
    h: "RunConnect P (net_of R n) J t1 csa oid Written url (cl_Id a) (cl_Id b) ''human'' da = (Inr (), da1, Some rc1)"
      "RunListen P K L (net_of R (served R n (rc_log rc1))) J t2 iob url (cl_Id b) ''human'' wb = (Inr [Listened eb], Some xb, Some rc2)"
      "le_Type eb = ''offer''" "le_Peer eb = cl_Id a"
      "RunListen P K L (net_of R (served R (served R n (rc_log rc1)) (rc_log rc2))) J t3 ioa url (cl_Id a) ''human'' (wa\<lparr>cw_clients := da1\<rparr>) =
         (Inr [Listened ea], Some xa, Some rc3)"
      "le_Type ea = ''answer''" "le_Peer ea = cl_Id b"
    and w: "rs_waiting R (served R (served R (served R n (rc_log rc1)) (rc_log rc2)) (rc_log rc3)) = (rs_waiting R n)(box_for R b := [], box_for R a := [])"
    and l: "LoadClient (cl_Id a) (files (opened_client xa)) = Inr a2" "LoadClient (cl_Id b) (files (opened_client xb)) = Inr b1"
    and s: "cl_Id a2 = cl_Id a" "session a2 (cl_Id b) = Some (reload_peer pa)" "session b1 (cl_Id a) = Some (reload_peer pb)"
    and mir: "mirrored P pa pb" and dh: "DhPublic pa = p_basemult P (c_dh csa)" and b1: "cl_keys b1 = cl_keys b" "cl_Id b1 = cl_Id b"
    by (rule worker_handshake [where ioa = ioa and iob = iob and wa = wa, OF laws(1-5,8) office run A(1,2) B])
  define n3 where "n3 = served R (served R (served R n (rc_log rc1)) (rc_log rc2)) (rc_log rc3)"
  obtain ct a3 b2 where c: "Client_Encrypt P rnd Written (cl_Id b) (to_bytes message) a2 = (Inr ct, a3)"
      "Client_Decrypt P (fi_write (iob' 0)) ct b1 = (Inr (cl_Id a, to_bytes message), b2)"
    using first_message [OF laws(1,6,7,5) mir s fresh [folded dh]] by blast
  obtain shown4 rc4 where s4: "worker_RunEncrypt P (net_of R n3) J t4 rnd pio Written url (cl_Id a) (cl_Id b) message [] ''raw'' ''b64'' ''human'' (files (opened_client xa)) =
        (Inr shown4, files a3, Some rc4)"
      "rs_waiting R (served R n3 (rc_log rc4)) = (rs_waiting R n3)(box_for R b := rs_waiting R n3 (box_for R b) @ [b64_encode (WrapEnvelope TypeMessage ct)])"
    using encrypt_delivers [OF office(1,5) l(1) [folded s(1)] idB(1) msg(1) c(1)] s(1) by metis
  let ?n4 = "served R n3 (rc_log rc4)" and ?w = "wb'\<lparr>cw_clients := files (opened_client xb)\<rparr>"
  have wait: "rs_waiting R ?n4 (box_for R b) = [b64_encode (WrapEnvelope TypeMessage ct)]" "rs_waiting R ?n4 (box_for R a) = []"
    using w s4(2) office(4) by (simp_all add: n3_def)
  have late: "LoadClient (cl_Id b) (cw_clients ?w) = Inr b1" "p_ed_pub P (k_idPriv (cl_keys b1)) = k_idPub (cl_keys b1)"
      "box_of P K ?w (cl_Id b) = Some box" "rs_waiting R ?n4 (box_for R b1) = [b64_encode (WrapEnvelope TypeMessage ct)]"
    using l(2) idB(2) b1(1) box(1) wait(1) by (simp_all add: box_of_def)
  have shown: "fst (body_text (to_bytes message)) = message" using msg(2) by (simp add: body_text_def)
  obtain e xm rc5 where s5: "RunListen P K L (net_of R ?n4) J t5 iob' url (cl_Id b) ''human'' ?w = (Inr [Listened e], Some xm, Some rc5)"
      "le_Type e = ''message''" "le_Sender e = cl_Id a" "le_Message e = message"
      "filed P K (cl_Id b) (cl_Id a) (thread_messages box (cl_Id a) @ [appendDefaults (fi_clock (iob' 0)) (new_message Incoming Direct message)])
         (opened_box xm) (opened_disk xm)"
      "rs_waiting R (served R ?n4 (rc_log rc5)) = (rs_waiting R ?n4)(box_for R b := [])"
    by (rule listen_stores [where ios = iob' and L = L and now = t5,
          OF office(1,5) late(1) b1(2) late(2) c(2) Encrypt_nonempty [OF laws(1) c(1)] late(3,4) laws(1) box(2,3) A(3), unfolded b1(1) shown, OF box(4)])
  obtain box' box'' where kept: "opened_box xm = Some box'"
      "thread_messages box' (cl_Id a) = thread_messages box (cl_Id a) @ [appendDefaults (fi_clock (iob' 0)) (new_message Incoming Direct message)]"
      "Mailbox_Load P K T mio (cl_Id b) (opened_disk xm) = (Inr box'', opened_disk xm)"
      "thread_messages box'' (cl_Id a) = thread_messages box (cl_Id a) @ [appendDefaults (fi_clock (iob' 0)) (new_message Incoming Direct message)]"
    using s5(5) unfolding filed_def by metis
  have empty: "rs_waiting R (served R ?n4 (rc_log rc5)) (box_for R a) = []" "rs_waiting R (served R ?n4 (rc_log rc5)) (box_for R b) = []"
    using s5(6) wait(2) by simp_all
  show ?thesis
    by (intro exI conjI, rule h(1), rule refl, rule h(2), rule refl, rule h(3), rule h(4), rule h(5), rule n3_def, rule h(6), rule h(7), rule s4(1), rule refl,
        rule s5(1), rule s5(2), rule s5(3), rule s5(4), rule kept(1), rule kept(2), rule kept(3), rule kept(4), rule empty(1), rule empty(2))
qed

text \<open>The witness: a relay whose state is the table of what waits, and an encoding of lists of texts.\<close>

definition toy_texts :: "string list \<Rightarrow> bytes" where
  "toy_texts ss = concat (map (\<lambda>s. concat (map (\<lambda>b. [1, b]) (to_bytes s)) @ [0]) ss)"

fun toy_untexts :: "bytes \<Rightarrow> bytes \<Rightarrow> string list" where
  "toy_untexts acc [] = []"
| "toy_untexts acc (t # r) = (if t = 0 then to_str acc # toy_untexts [] r else (case r of [] \<Rightarrow> [] | b # r' \<Rightarrow> toy_untexts (acc @ [b]) r'))"

lemma toy_untexts_one: "toy_untexts acc (concat (map (\<lambda>b. [1, b]) bs) @ 0 # r) = to_str (acc @ bs) # toy_untexts [] r"
  by (induction bs arbitrary: acc) auto

lemma toy_untexts_texts: "toy_untexts [] (toy_texts ss) = ss"
  by (induction ss) (simp_all add: toy_texts_def toy_untexts_one)

definition office_json :: relay_json where
  "office_json = \<lparr>rj_error = (\<lambda>_. None), rj_table = (\<lambda>_. None),
     rj_capability = (\<lambda>b. Some \<lparr>mc_mailbox = ToLower (to_str b), mc_secret = to_str b, mc_shard = ''s'', mc_replicas = [], mc_expires = 0, mc_version = 1\<rparr>),
     rj_resolution = (\<lambda>b. Some \<lparr>pr_mailbox = ToLower (to_str b), pr_shard = ''s'', pr_replicas = [], pr_version = 1\<rparr>),
     rj_success = (\<lambda>_. Some True), rj_messages = (\<lambda>b. Some (toy_untexts [] b))\<rparr>"

definition toy_office :: "(string \<Rightarrow> string list) relay_service" where
  "toy_office = \<lparr>rs_serve = (\<lambda>q n. case q of
       GetTable u \<Rightarrow> (HttpAnswer 404 [] [], n)
     | PostRegister u p t s \<Rightarrow> (HttpAnswer 200 [] (to_bytes p), n)
     | GetResolve u p \<Rightarrow> (HttpAnswer 200 [] (to_bytes p), n)
     | PostSend u m msg a \<Rightarrow> (HttpAnswer 200 [] [], n(m := n m @ [msg]))
     | GetRead u m s \<Rightarrow> (HttpAnswer 200 [] (toy_texts (n m)), n(m := []))),
     rs_box = ToLower, rs_secret = id, rs_waiting = id\<rparr>"

lemma toy_post_office: "post_office office_json toy_office"
proof -
  have "lower_char (lower_char c) = lower_char c" for c by (auto simp: lower_char_def Let_def)
  then have "ToLower (ToLower p) = ToLower p" for p by (simp add: ToLower_def)
  then show ?thesis
    by (simp add: post_office_def registers_def resolves_def takes_def hands_out_def replies_def toy_office_def office_json_def toy_untexts_texts)
qed

abbreviation "toy_frames \<equiv> \<lambda>_ :: nat. (toy_io None)\<lparr>fi_write := Written\<rparr>"

lemma toy_box_fits: "fits_store toy (append_thread (fi_clock (toy_frames 0)) (toy_id 1) [] (new_message Incoming Direct ''Hi'') [])"
proof -
  let ?m = "appendDefaults (fi_clock (toy_frames 0)) (new_message Incoming Direct ''Hi'')"
  let ?s = "append_thread (fi_clock (toy_frames 0)) (toy_id 1) [] (new_message Incoming Direct ''Hi'') []"
  let ?b = "the (toy_np_enc (messageBin_MarshalBinID (toBin (toy_id 1) ?m)))"
  have "thread_records ?s = [toBin (toy_id 1) ?m]" by (simp add: thread_records_def ordered_threads_def append_thread_def)
  then have enc: "encode_all toy messageBin_MarshalBinID (thread_records ?s) = Inr [?b]"
    by (simp add: MarshalFastID_def toy_def toy_np_enc_def)
  have "dec_nat 1 = ''1''" by code_simp
  then have "length ?b < 2 ^ 14"
    by (simp add: length_toy_np_enc messageBin_MarshalBinID_def toBin_def new_message_def appendDefaults_def toy_io_def length_toy_id)
  then have "storable [?b]"
    using length_put_uvarint [of "length ?b" 2]
    by (simp add: storable_def slice_header_def max_alloc_def put_records_def put_uvarint.simps [of "Suc 0"])
  then show ?thesis unfolding fits_store_def enc by simp
qed

theorem worker_conversation_witness:
  "\<exists>da1 rc1 n1 eb xb rc2 n2 ea xa rc3 n3 s da2 rc4 n4 e xm rc5 box' box''.
     RunConnect toy (net_of toy_office (\<lambda>_. [])) office_json 1 (toy_coins 3) [9] Written ''r'' (toy_id 1) (toy_id 2) ''human'' (toy_file 1) = (Inr (), da1, Some rc1) \<and>
     n1 = served toy_office (\<lambda>_. []) (rc_log rc1) \<and>
     RunListen toy toy_packets toy_json (net_of toy_office n1) office_json 2 toy_frames ''r'' (toy_id 2) ''human'' (toy_world\<lparr>cw_clients := toy_file 2\<rparr>) =
       (Inr [Listened eb], Some xb, Some rc2) \<and> n2 = served toy_office n1 (rc_log rc2) \<and> le_Type eb = ''offer'' \<and> le_Peer eb = toy_id 1 \<and>
     RunListen toy toy_packets toy_json (net_of toy_office n2) office_json 3 toy_frames ''r'' (toy_id 1) ''human'' (toy_world\<lparr>cw_clients := da1\<rparr>) =
       (Inr [Listened ea], Some xa, Some rc3) \<and> n3 = served toy_office n2 (rc_log rc3) \<and> le_Type ea = ''answer'' \<and> le_Peer ea = toy_id 2 \<and>
     worker_RunEncrypt toy (net_of toy_office n3) office_json 4 [7] \<lparr>pl_read = (\<lambda>_. None), pl_stdin = StdinTerminal\<rparr> Written ''r'' (toy_id 1) (toy_id 2) ''Hi'' [] ''raw'' ''b64'' ''human''
       (files (opened_client xa)) = (Inr s, da2, Some rc4) \<and> n4 = served toy_office n3 (rc_log rc4) \<and>
     RunListen toy toy_packets toy_json (net_of toy_office n4) office_json 5 toy_frames ''r'' (toy_id 2) ''human'' (toy_world\<lparr>cw_clients := files (opened_client xb)\<rparr>) =
       (Inr [Listened e], Some xm, Some rc5) \<and> le_Type e = ''message'' \<and> le_Sender e = toy_id 1 \<and> le_Message e = ''Hi'' \<and>
     opened_box xm = Some box' \<and>
     thread_messages box' (toy_id 1) = thread_messages [] (toy_id 1) @ [appendDefaults (fi_clock (toy_frames 0)) (new_message Incoming Direct ''Hi'')] \<and>
     Mailbox_Load toy toy_packets (\<lambda>_. None) SaveDone (toy_id 2) (opened_disk xm) = (Inr box'', opened_disk xm) \<and>
     thread_messages box'' (toy_id 1) = thread_messages [] (toy_id 1) @ [appendDefaults (fi_clock (toy_frames 0)) (new_message Incoming Direct ''Hi'')] \<and>
     rs_waiting toy_office (served toy_office n4 (rc_log rc5)) (box_for toy_office (toy_loaded 1)) = [] \<and>
     rs_waiting toy_office (served toy_office n4 (rc_log rc5)) (box_for toy_office (toy_loaded 2)) = []"
proof -
  have fresh: "p_basemult toy [7] \<noteq> p_basemult toy (c_dh (toy_coins 3))" by (simp add: toy_def toy_coins_def)
  have size: "sha3_size_law toy" by (auto simp: sha3_size_law_def toy_def toy_pad_def min_def)
  have apart: "box_for toy_office (toy_loaded 1) \<noteq> box_for toy_office (toy_loaded 2)"
  proof -
    have "k_idPub (toy_keys 1) \<noteq> k_idPub (toy_keys 2)" using toy_runs [of 2] by (auto simp: can_run_def)
    then have "hex_encode (k_idPub (toy_keys 1)) \<noteq> hex_encode (k_idPub (toy_keys 2))" by (metis hex_decode_encode option.inject)
    then show ?thesis by (simp add: toy_office_def toy_loaded_facts)
  qed
  have box: "box_of toy toy_packets toy_world (toy_id 2) = Some []"
    by (simp add: box_of_def toy_world_def Mailbox_Load_def Binstore_Load_def Let_def)
  have none: "rs_waiting toy_office (\<lambda>_. []) m = []" for m by (simp add: toy_office_def)
  have side: "fi_coins (toy_frames 0) = toy_coins 4" "fi_write (toy_frames 0) = Written" "fi_save (toy_frames 0) = SaveDone" by (simp_all add: toy_io_def)
  show ?thesis
    by (rule worker_conversation [where P = toy and J = office_json and R = toy_office and a = "toy_loaded 1" and b = "toy_loaded 2", unfolded toy_loaded_facts(4)])
      (use toy_laws toy_post_office toy_runs [of 2] toy_loaded_facts toy_text fresh size apart box none side toy_packet_law toy_box_fits in simp_all)
qed

subsection \<open>Where the line loop falls short\<close>

text \<open>Group messages and frames that cannot be read are dropped without a word, although the relay has already given them away.\<close>

lemma group_frame_dropped:
  assumes "p \<noteq> []"
  shows "line_frame P L J e i (WrapEnvelope TypeMultiMsg p) cl r = ([], r)"
  using assms by (simp add: line_frame_def UnwrapEnvelope_def WrapEnvelope_def TypeOffer_def TypeAnswer_def TypeMessage_def TypeMultiMsg_def)

text \<open>What the loop keeps of a message that was sent is its ciphertext, not its text.\<close>

lemma sent_kept_as_ciphertext:
  assumes "line_send P J e (peer # w # ws) r = (LnSent peer, r')" "wr_client r = Some cl" "w \<noteq> []"
  obtains cipher rest cl' where "Client_Encrypt P (wl_rnd e) (wl_write e) peer (to_bytes (words (w # ws))) cl = (Inr cipher, cl')"
    "wr_mailbox r' peer = Some (\<lparr>cg_Body = ''Me: '' @ b64_encode cipher, cg_IsRead = True\<rparr> # rest)"
proof -
  have "words (w # ws) \<noteq> []" using assms(3) by (cases ws) (simp_all add: words_def)
  then have "worker_readInput (wl_payload e) (words (w # ws)) = Inr (to_bytes (words (w # ws)))"
    by (simp add: worker_readInput_def readPayload_def Codec_Decode_def EncodingRaw_def Encoding_Valid_def)
  then show thesis using assms(1,2) that
    by (auto simp: line_send_def prepend_def split: prod.splits sum.splits)
qed

text \<open>An identity whose registration fails is on disk all the same.\<close>

lemma failed_registration_leaves_file:
  assumes "worker_RunInit P net J now privEd dilCoins Written url fmt d = (Inl (WkRelay e), d', rc)"
  shows "d' = files (NewClient P privEd dilCoins Written d)"
  using assms by (auto simp: worker_RunInit_def Let_def split: if_splits option.splits sum.splits prod.splits)

end
