(* ===== verification/Spec2Isabelle.thy ===== *)
theory Spec2Isabelle
  imports Frames SessionDelivery StoreRefine DispatchProps Filetransfer Peers EditDistance ShellProps UserOps MessageProps HttpRelays GroupCli OfflineProps CommandTree WorkerProps
begin

text \<open>
  Verification of NexTalk, an end-to-end encrypted messenger written in Go.

  \<^bold>\<open>The program.\<close>  Two peers run a handshake (an offer, an answer, a completion) that leaves a session with a double
  ratchet on either side (\<open>crypto/\<close>, \<open>core/\<close>).  A client (\<open>client/client.go\<close>) keeps the identity and a table of
  sessions by peer ID and writes them to an identity file.  What peers exchange are frames (\<open>internal/frame\<close>,
  \<open>internal/relay\<close>), carried as text or bytes by whatever is at hand (\<open>internal/codec\<close>, \<open>crypto/encoding_proquint.go\<close>)
  or by a transport: an installed package that runs as a separate process and is spoken to over a small protocol
  (\<open>internal/transport\<close>); what users do with transports is in \<open>internal/transportops\<close>.  The receive path (\<open>internal/dispatch\<close>) takes a batch of frames apart and hands offers and
  answers to the client, messages to the client and the mailbox (\<open>internal/mailbox\<close>), and group messages to the group
  layer (\<open>internal/multimsg\<close>), which fans one message out to many sessions.  Files are encrypted as one message and cut
  into chunks (\<open>internal/filetransfer\<close>).  Contacts (\<open>internal/contacts\<close>), the peer registry (\<open>internal/registry\<close>) and
  the shell (\<open>internal/shellcmd\<close>, \<open>cmd/shell\<close>) turn typed lines into operations.

  \<^bold>\<open>Conventions.\<close>  A Go struct is a record whose fields carry the Go names with a short prefix, an error is a
  constructor of an error datatype in the left summand, a byte slice is a list of 8-bit words, a machine integer a word of
  its width.  A method that changes its receiver takes the state and returns the new one, also on an error.  Code outside
  the repository is a parameter: the record \<open>prims\<close> holds the hash, key agreement, signature, cipher and serialisation
  primitives (theory \<open>Prims\<close>, with the laws of each that some theorem relies on as predicates named \<open>..._law\<close>), JSON and
  zip decoding are parameters of the transport manager.  Theory \<open>Toy\<close> has concrete primitives that satisfy the laws; the
  witnesses run on them.  The outcome of a system call (a write that fails, a process that does not start) is an argument
  of the operation, so a theorem covers all of them.

  \<^bold>\<open>Sessions.\<close>  \<open>Ratchet\<close> models \<open>crypto/kex_hybrid.go\<close> and \<open>crypto/ratchet.go\<close>: key derivation, \<open>Encrypt\<close>, \<open>Decrypt\<close> with skipped
  keys, the DH step and the serialised form.  \<open>RatchetChain\<close> shows delivery in any order within a chain and that a replay
  within it is refused (a frame of an earlier chain is not, and moves the session), \<open>Duplex\<close> in-order delivery in every reachable state of a two-way session with DH steps and restarts.
  \<open>Engine\<close> models \<open>core/engine.go\<close> and \<open>core/models.go\<close>; \<open>Agreement\<close> shows that a handshake leaves mirrored keys and what an
  accepted offer or answer was bound to.  \<open>Clients\<close> models \<open>client/client.go\<close> over a store of session objects by address,
  because two names may share one object; it shows the invariant of the session table that later theorems assume, what a restart keeps of a
  session, the handshake between two clients, and two ways in which the slot of a pending session is misused.  \<open>SessionDelivery\<close> lifts delivery to clients.

  \<^bold>\<open>Data.\<close>  \<open>Encodings\<close> and \<open>Codecs\<close> model the text encodings, \<open>Texts\<close> the string functions of the standard library that are
  used, \<open>Binstore\<close> and \<open>RecordFiles\<close> the record files and their atomic replacement, \<open>Frames\<close> frames, envelopes and relay
  addresses, \<open>Contacts\<close> and \<open>Mailbox\<close> the two stores; the lemmas are round trips and what a reload restores.

  \<^bold>\<open>Groups.\<close>  \<open>MultiTypes\<close>, \<open>MultiWire\<close> and \<open>MultiStores\<close> model the group descriptors, the wire format and the stores of
  \<open>internal/multimsg\<close>.  \<open>StoreLaws\<close> states the contracts of the store interfaces as locales, interpreted on the in-memory and the
  file-backed stores, \<open>StoreReload\<close> what reopening restores, \<open>StoreRefine\<close> that the file-backed store refines an abstract
  book of two maps.  \<open>Fanout\<close> models sending and receiving; \<open>FanoutProps\<close> shows delivery to the group, that a running process
  accepts no message twice, what the report of a send says and which envelopes the relay is offered, and how a group can be taken over.

  \<^bold>\<open>Receive path and files.\<close>  \<open>Dispatch\<close> and \<open>DispatchProps\<close>: a batch of frames, and a message from one client's ratchet to the other
  client's mailbox.  \<open>Filetransfer\<close>: manifests, chunks, reassembly and tickets.

  \<^bold>\<open>Transports.\<close>  \<open>Rpc\<close> and \<open>RpcFile\<close> model the messages of \<open>rpc.go\<close> and \<open>rpc_file.go\<close>, \<open>RpcProps\<close> their round trips and what decoders
  reject.  \<open>RpcProcess\<close> models \<open>process.go\<close>: the read loop over a byte stream and the calls waiting on channels of capacity
  one, as a step relation in which calls, answers, timeouts and the end of the process interleave.  \<open>ProcTransport\<close>
  models \<open>process_transport.go\<close> and \<open>file.go\<close> as functions of how the process answers a call, \<open>Package\<close> the manifest,
  \<open>Manager\<close> the state, disk and running processes of \<open>manager.go\<close>.  \<open>ManagerProps\<close> and \<open>ManagerCases\<close> show that only files
  with the hash of those installed are started, that a transport that fails to start is reported and disabled without keeping others from starting,
  that no process is left behind and what removing deletes.

  \<^bold>\<open>Operations.\<close>  \<open>Ops\<close>, \<open>PollOps\<close>, \<open>XferOps\<close> and \<open>UserOps\<close> model \<open>internal/transportops\<close>, the operations both the command line and the
  shell call.  The transports are a parameter there, a record of the methods of the Go interfaces that act on a state of their
  own, because what lies behind them is a network.  \<open>MessageProps\<close> shows that a message sent by one user is in the
  mailbox of the other after a poll, \<open>OpsProps\<close> that a file sent by one is received by the other with its ticket; both
  compose the client, the ratchet, the receive path or the file transfer with the manager, and assume of the network that
  it accepts every frame and chunk, carries a frame and keeps a transfer; the limits of the transports in the repository (40 KiB for a frame, 64 KiB for
  a chunk) are not part of that assumption.

  \<^bold>\<open>Relays.\<close>  \<open>WorkerRelay\<close> models the client of the worker relay (\<open>internal/relay/worker/adapter.go\<close>): what the router said is cached, and messages
  are sent to and read from shards with failover, which is shown to try each known shard once and to forget a stale
  location.  \<open>HttpRelays\<close> models the older worker client and the proxy.  The answers of the network may depend on all requests
  made before, which the state keeps.

  \<^bold>\<open>Group chat.\<close>  \<open>GroupChat\<close> models what the shells offer over the group layer (\<open>internal/groupchat\<close>): pasted frames, the views of conversations and
  the group commands; \<open>GroupCli\<close> the same commands of the command line.  \<open>GroupChatProps\<close> shows that a message exported by hand arrives
  in the conversation of its group, that a pasted message is treated like one from a relay while a pasted handshake is refused, and that only
  well-formed members are ever recorded.

  \<^bold>\<open>Shell.\<close>  \<open>Peers\<close> models the registry and name resolution, \<open>Shellcmd\<close> the splitting of lines, parameters, aliases, the
  command table and scripts, \<open>ShellProps\<close> their correctness, \<open>EditDistance\<close> that the suggestions use the least number of edits.
  \<open>ShellCommands\<close> models the commands of the unified shell (\<open>cmd/shell/commands.go\<close>): each turns arguments, parameters and the session
  into one of the operations above.  \<open>CommandTree\<close> shows that the tree of commands is the table of paths and commands it was made from,
  that every command is found, and what becomes of the words of a typed message.

  \<^bold>\<open>By hand.\<close>  \<open>Offline\<close> models the commands of \<open>cmd/offline\<close> that read and print envelopes and ciphertexts, \<open>OfflineShell\<close> the same in the shells with pasted
  text.  \<open>OfflineProps\<close> composes them: a handshake and a message, carried by hand through five processes that share nothing but the
  identity files.

  \<^bold>\<open>Over the worker relay.\<close>  \<open>Worker\<close> models the commands of \<open>cmd/worker\<close>, \<open>WorkerShell\<close> the same in the transport menu and in the older line loop.  \<open>WorkerProps\<close> composes
  them with the relay client, the receive path and the mailbox: two users who share nothing but a relay exchange a handshake and a
  message, which is then in the recipient's mailbox file.  The relay is any service with a state of its own that registers and resolves keys, takes messages and hands them
  out once (\<open>post_office\<close>).

  \<^bold>\<open>Bounds and fuel.\<close>  No definition uses fuel.  Loops over bytes recurse on what is left with a measure on its length; \<open>skip_to\<close> recurses
  on the distance to the target, and \<open>readLoop\<close> on the bytes left.  An operation of the model yields \<open>None\<close> only where the
  Go code panics or blocks, and the theorems that speak of results show that it does not.  Integers are words
  where their width is visible (counters, lengths on the wire, versions) and unbounded where the code's values are bounded
  by lengths of lists.

  \<^bold>\<open>Not modelled.\<close>  Printing, prompts and flag parsing of the command line programs; the WebAssembly
  runtimes (\<open>internal/transport/wasm.go\<close>, \<open>internal/ntxhost\<close>, \<open>internal/wasmbridge\<close>), whose behaviour is that of wazero and the browser;
  starting and waiting for operating system processes; locks, since every operation
  holds its lock from beginning to end and is one step here.
\<close>

end
